(* ===== verification/Py_Base.thy ===== *)
theory Py_Base
  imports
    Complex_Main
    "HOL-Library.AList"
    "HOL-Library.Char_ord"
    "HOL-Library.List_Lexorder"
    "HOL-Library.Log_Nat"
begin

text \<open>
  Prelude of the development: the Python values and library calls the pipeline uses.

  \<^item> exceptions as values (\<open>py_exc\<close>: class and message) and fallible code as
    \<open>py_exc + 'a\<close>, sequenced with \<open>rbind\<close>;
  \<^item> \<open>str\<close> methods on ASCII text (\<open>strip\<close>, \<open>lower\<close>, \<open>upper\<close>, \<open>join\<close>,
    \<open>startswith\<close>, the \<open>in\<close> test on substrings);
  \<^item> \<open>float\<close> as IEEE binary64: a finite value is the rational it denotes, arithmetic
    rounds to nearest even and overflows to an infinity, comparisons with NaN are false
    (the sign of zero is not represented);
  \<^item> JSON-like dynamic values, insertion-ordered dictionaries as association lists
    (\<open>AList.update\<close> is the assignment of a key), and \<open>datetime\<close> values as
    microseconds since the epoch, tagged aware or naive.

  The collection \<open>py_simps\<close> holds the rules that take fallible, state-passing and dictionary
  computations apart; component proofs name it.
\<close>

named_theorems py_simps

section \<open>Exceptions and fallible computations\<close>

datatype exc_class =
    ValueError | KeyError | TypeError | OverflowError | IndexError
  | InvariantViolation | DenylistSanitizationError | PublishAfterDenylistError
  | CriticalDependencyError | IntegrationError | ObjectNotFoundError | OSError | RuntimeError
  | TopologyRegistryValidationError | TopologyRegistryCompatibilityError | OtherException

datatype py_exc = Exc (exc_type: exc_class) (exc_str: string)

type_synonym 'a result = "py_exc + 'a"

definition raise :: "exc_class \<Rightarrow> string \<Rightarrow> 'a result" where
  "raise c m = Inl (Exc c m)"

fun rbind :: "'a result \<Rightarrow> ('a \<Rightarrow> 'b result) \<Rightarrow> 'b result" where
  "rbind (Inl e) f = Inl e"
| "rbind (Inr x) f = f x"

fun rmap_list :: "('a \<Rightarrow> 'b result) \<Rightarrow> 'a list \<Rightarrow> 'b list result" where
  "rmap_list f [] = Inr []"
| "rmap_list f (x # xs) = rbind (f x) (\<lambda>y. rbind (rmap_list f xs) (\<lambda>ys. Inr (y # ys)))"

text \<open>Sequencing of fallible calls on an external state, which they may change even when they raise.\<close>

definition st_bind :: "'a result \<times> 's \<Rightarrow> ('a \<Rightarrow> 's \<Rightarrow> 'b result \<times> 's) \<Rightarrow> 'b result \<times> 's" where
  "st_bind m f = (case m of (Inl e, s) \<Rightarrow> (Inl e, s) | (Inr x, s) \<Rightarrow> f x s)"

definition is_ok :: "'a result \<Rightarrow> bool" where
  "is_ok r = (case r of Inl _ \<Rightarrow> False | Inr _ \<Rightarrow> True)"

fun exc_name :: "exc_class \<Rightarrow> string" where
  "exc_name ValueError = ''ValueError''"
| "exc_name KeyError = ''KeyError''"
| "exc_name TypeError = ''TypeError''"
| "exc_name OverflowError = ''OverflowError''"
| "exc_name IndexError = ''IndexError''"
| "exc_name InvariantViolation = ''InvariantViolation''"
| "exc_name DenylistSanitizationError = ''DenylistSanitizationError''"
| "exc_name PublishAfterDenylistError = ''PublishAfterDenylistError''"
| "exc_name CriticalDependencyError = ''CriticalDependencyError''"
| "exc_name IntegrationError = ''IntegrationError''"
| "exc_name ObjectNotFoundError = ''ObjectNotFoundError''"
| "exc_name OSError = ''OSError''"
| "exc_name RuntimeError = ''RuntimeError''"
| "exc_name TopologyRegistryValidationError = ''TopologyRegistryValidationError''"
| "exc_name TopologyRegistryCompatibilityError = ''TopologyRegistryCompatibilityError''"
| "exc_name OtherException = ''Exception''"

lemma is_ok_simps [simp]: "is_ok (Inr x)" "\<not> is_ok (Inl e)" "\<not> is_ok (raise c m)"
  by (simp_all add: is_ok_def raise_def)

lemma st_bind_simps [simp]: "st_bind (Inr x, s) f = f x s" "st_bind (Inl e, s) f = (Inl e, s)"
    "st_bind (raise c m, s) f = (raise c m, s)"
  by (simp_all add: st_bind_def raise_def)

lemma raise_neq_Inr [simp]: "raise c m \<noteq> Inr x" "Inr x \<noteq> raise c m"
  by (simp_all add: raise_def)

lemma raise_eq_Inl [simp]: "raise c m = Inl e \<longleftrightarrow> e = Exc c m" "Inl e = raise c m \<longleftrightarrow> e = Exc c m"
  by (auto simp: raise_def)

lemma rbind_raise [simp]: "rbind (raise c m) f = raise c m"
  by (simp add: raise_def)

lemma rbind_Inr_iff [py_simps]: "rbind r f = Inr y \<longleftrightarrow> (\<exists>x. r = Inr x \<and> f x = Inr y)"
  by (cases r) auto

lemma rbind_InrE [elim]:
  assumes "rbind r f = Inr y"
  obtains x where "r = Inr x" "f x = Inr y"
  using assms by (auto simp: rbind_Inr_iff)

lemma is_ok_iff [py_simps]: "is_ok r \<longleftrightarrow> (\<exists>x. r = Inr x)"
  by (cases r) auto

lemma is_ok_rbind [py_simps]: "is_ok (rbind r f) \<longleftrightarrow> (\<exists>x. r = Inr x \<and> is_ok (f x))"
  by (cases r) auto

lemma rmap_list_ok: "(\<And>x. x \<in> set xs \<Longrightarrow> is_ok (f x)) \<Longrightarrow> is_ok (rmap_list f xs)"
  by (induction xs) (fastforce simp: is_ok_iff rbind_Inr_iff)+

lemma rmap_list_Inr [py_simps]: "rmap_list f xs = Inr ys \<longleftrightarrow> list_all2 (\<lambda>x y. f x = Inr y) xs ys"
  by (induction xs arbitrary: ys) (auto simp: rbind_Inr_iff list_all2_Cons1)

section \<open>Strings\<close>

definition py_isspace :: "char \<Rightarrow> bool" where
  "py_isspace c = (let n = (of_char c :: nat) in (9 \<le> n \<and> n \<le> 13) \<or> (28 \<le> n \<and> n \<le> 32))"

definition py_lower_char :: "char \<Rightarrow> char" where
  "py_lower_char c = (let n = (of_char c :: nat) in if 65 \<le> n \<and> n \<le> 90 then char_of (n + 32) else c)"

definition py_upper_char :: "char \<Rightarrow> char" where
  "py_upper_char c = (let n = (of_char c :: nat) in if 97 \<le> n \<and> n \<le> 122 then char_of (n - 32) else c)"

definition py_strip :: "string \<Rightarrow> string" where
  "py_strip s = rev (dropWhile py_isspace (rev (dropWhile py_isspace s)))"

definition py_lower :: "string \<Rightarrow> string" where
  "py_lower s = map py_lower_char s"

definition py_upper :: "string \<Rightarrow> string" where
  "py_upper s = map py_upper_char s"

fun py_startswith :: "string \<Rightarrow> string \<Rightarrow> bool" where
  "py_startswith s [] = True"
| "py_startswith [] (p # ps) = False"
| "py_startswith (c # s) (p # ps) = (c = p \<and> py_startswith s ps)"

fun py_contains :: "string \<Rightarrow> string \<Rightarrow> bool" where
  "py_contains pat [] = (pat = [])"
| "py_contains pat (c # s) = (py_startswith (c # s) pat \<or> py_contains pat s)"

fun py_join :: "string \<Rightarrow> string list \<Rightarrow> string" where
  "py_join sep [] = []"
| "py_join sep [x] = x"
| "py_join sep (x # y # ys) = x @ sep @ py_join sep (y # ys)"

lemma py_strip_Nil [simp]: "py_strip [] = []"
  by (simp add: py_strip_def)

lemma dropWhile_rev_suffix:
  "dropWhile P ys = ys \<Longrightarrow> dropWhile P (rev (dropWhile P (rev ys))) = rev (dropWhile P (rev ys))"
proof (cases ys)
  case (Cons y zs)
  assume h: "dropWhile P ys = ys"
  show ?thesis
  proof (cases "\<forall>x\<in>set ys. P x")
    case True
    then have "dropWhile P (rev ys) = []" by simp
    then show ?thesis by (simp only: dropWhile.simps rev.simps)
  next
    case False
    have "\<not> P y" using h Cons
    proof -
      have "P y \<Longrightarrow> length (dropWhile P zs) \<le> length zs" by (simp add: length_dropWhile_le)
      then show ?thesis using h Cons by (metis dropWhile.simps(2) impossible_Cons)
    qed
    then have "dropWhile P (rev ys) = dropWhile P (rev zs) @ [y]"
      using Cons by (simp add: dropWhile_append3 dropWhile_append)
    then show ?thesis using \<open>\<not> P y\<close> by simp
  qed
qed simp

lemma py_strip_idem [simp]: "py_strip (py_strip s) = py_strip s"
proof -
  let ?d = "dropWhile py_isspace"
  have "?d (rev (?d (rev (?d s)))) = rev (?d (rev (?d s)))"
    by (rule dropWhile_rev_suffix) simp
  then show ?thesis by (simp add: py_strip_def)
qed

lemma py_startswith_append [simp]: "py_startswith (p @ s) p"
  by (induction p) auto

lemma py_startswith_iff: "py_startswith s p \<longleftrightarrow> (\<exists>t. s = p @ t)"
  by (induction s p rule: py_startswith.induct) auto

lemma py_contains_iff: "py_contains pat s \<longleftrightarrow> (\<exists>a b. s = a @ pat @ b)"
proof (induction s)
  case (Cons c s)
  have "(\<exists>a b. c # s = a @ pat @ b) \<longleftrightarrow> (\<exists>b. c # s = pat @ b) \<or> (\<exists>a b. s = a @ pat @ b)"
    by (metis append_Cons append_Nil list.sel(3) neq_Nil_conv)
  with Cons show ?case by (simp add: py_startswith_iff)
qed simp


section \<open>Floating point numbers\<close>

datatype pyfloat = Fin rat | PInf | NInf | NaN

definition pow2 :: "int \<Rightarrow> rat" where
  "pow2 e = (if 0 \<le> e then 2 ^ nat e else 1 / 2 ^ nat (- e))"

definition fl_exponent :: "rat \<Rightarrow> int" where
  "fl_exponent q = (let (n, d) = quotient_of \<bar>q\<bar>; e = bitlen n - bitlen d
     in if pow2 e \<le> \<bar>q\<bar> then e else e - 1)"

definition round_half_even :: "rat \<Rightarrow> int" where
  "round_half_even x = (let f = \<lfloor>x\<rfloor>; r = x - of_int f
     in if r < 1 / 2 then f else if 1 / 2 < r then f + 1 else if even f then f else f + 1)"

definition fl_round :: "rat \<Rightarrow> pyfloat" where
  "fl_round q = (if q = 0 then Fin 0 else
     let u = max (fl_exponent q - 52) (- 1074);
         v = of_int (round_half_even (q / pow2 u)) * pow2 u
     in if pow2 1024 \<le> v then PInf else if v \<le> - pow2 1024 then NInf else Fin v)"

fun fl_finite :: "pyfloat \<Rightarrow> bool" where
  "fl_finite (Fin _) = True"
| "fl_finite _ = False"

fun fl_lt :: "pyfloat \<Rightarrow> pyfloat \<Rightarrow> bool" where
  "fl_lt (Fin a) (Fin b) = (a < b)"
| "fl_lt NInf (Fin b) = True"
| "fl_lt NInf PInf = True"
| "fl_lt (Fin a) PInf = True"
| "fl_lt _ _ = False"

fun fl_le :: "pyfloat \<Rightarrow> pyfloat \<Rightarrow> bool" where
  "fl_le (Fin a) (Fin b) = (a \<le> b)"
| "fl_le NInf b = (b \<noteq> NaN)"
| "fl_le a PInf = (a \<noteq> NaN)"
| "fl_le _ _ = False"

fun fl_sub :: "pyfloat \<Rightarrow> pyfloat \<Rightarrow> pyfloat" where
  "fl_sub (Fin a) (Fin b) = fl_round (a - b)"
| "fl_sub NaN _ = NaN"
| "fl_sub _ NaN = NaN"
| "fl_sub PInf PInf = NaN"
| "fl_sub NInf NInf = NaN"
| "fl_sub PInf _ = PInf"
| "fl_sub NInf _ = NInf"
| "fl_sub (Fin _) PInf = NInf"
| "fl_sub (Fin _) NInf = PInf"

fun fl_mul :: "pyfloat \<Rightarrow> pyfloat \<Rightarrow> pyfloat" where
  "fl_mul (Fin a) (Fin b) = fl_round (a * b)"
| "fl_mul NaN _ = NaN"
| "fl_mul _ NaN = NaN"
| "fl_mul (Fin a) PInf = (if a = 0 then NaN else if 0 < a then PInf else NInf)"
| "fl_mul (Fin a) NInf = (if a = 0 then NaN else if 0 < a then NInf else PInf)"
| "fl_mul PInf (Fin b) = (if b = 0 then NaN else if 0 < b then PInf else NInf)"
| "fl_mul NInf (Fin b) = (if b = 0 then NaN else if 0 < b then NInf else PInf)"
| "fl_mul PInf PInf = PInf"
| "fl_mul NInf NInf = PInf"
| "fl_mul PInf NInf = NInf"
| "fl_mul NInf PInf = NInf"

text \<open>Division of a float by a nonzero finite or infinite float (the code guards zero).\<close>

fun fl_div :: "pyfloat \<Rightarrow> pyfloat \<Rightarrow> pyfloat" where
  "fl_div (Fin a) (Fin b) = fl_round (a / b)"
| "fl_div NaN _ = NaN"
| "fl_div _ NaN = NaN"
| "fl_div (Fin a) _ = Fin 0"
| "fl_div PInf (Fin b) = (if 0 \<le> b then PInf else NInf)"
| "fl_div NInf (Fin b) = (if 0 \<le> b then NInf else PInf)"
| "fl_div _ _ = NaN"

text \<open>\<open>float(n)\<close> of an int, and \<open>int(x)\<close> of a float (truncation).\<close>

definition fl_of_int :: "int \<Rightarrow> pyfloat result" where
  "fl_of_int n = (case fl_round (of_int n) of
       Fin q \<Rightarrow> Inr (Fin q)
     | _ \<Rightarrow> raise OverflowError ''int too large to convert to float'')"

fun int_of_fl :: "pyfloat \<Rightarrow> int result" where
  "int_of_fl (Fin q) = Inr (if 0 \<le> q then \<lfloor>q\<rfloor> else \<lceil>q\<rceil>)"
| "int_of_fl NaN = raise ValueError ''cannot convert float NaN to integer''"
| "int_of_fl _ = raise OverflowError ''cannot convert float infinity to integer''"

text \<open>
  \<open>max(xs)\<close> and \<open>min(xs)\<close> of a non-empty sequence: the current best is replaced only by
  a strictly larger (smaller) later element, so a NaN never replaces and is never replaced.
\<close>

definition py_max :: "pyfloat \<Rightarrow> pyfloat list \<Rightarrow> pyfloat" where
  "py_max x xs = fold (\<lambda>y best. if fl_lt best y then y else best) xs x"

definition py_min :: "pyfloat \<Rightarrow> pyfloat list \<Rightarrow> pyfloat" where
  "py_min x xs = fold (\<lambda>y best. if fl_lt y best then y else best) xs x"

lemma pow2_pos [simp]: "0 < pow2 e"
  by (simp add: pow2_def)

lemma pow2_neg_inverse: "e \<le> 0 \<Longrightarrow> q / pow2 e = q * 2 ^ nat (- e)"
  by (auto simp: pow2_def)

lemma round_half_even_of_int [simp]: "round_half_even (of_int n) = n"
  by (simp add: round_half_even_def)

lemma round_half_even_le: "x \<le> of_int n \<Longrightarrow> round_half_even x \<le> n"
proof -
  assume h: "x \<le> of_int n"
  have "\<lfloor>x\<rfloor> < n \<or> x = of_int n" using h by linarith
  then show ?thesis by (auto simp: round_half_even_def Let_def)
qed

lemma round_half_even_ge: "of_int n \<le> x \<Longrightarrow> n \<le> round_half_even x"
proof -
  assume "of_int n \<le> x"
  then have "n \<le> \<lfloor>x\<rfloor>" by (simp add: le_floor_iff)
  then show ?thesis by (auto simp: round_half_even_def Let_def)
qed

lemma pow2_add: "pow2 (a - b) * pow2 b = pow2 a"
proof -
  have "pow2 e = 2 powi e" for e by (simp add: pow2_def power_int_def divide_simps)
  then show ?thesis by (simp flip: power_int_add)
qed

lemma pow2_mono: "pow2 a \<le> pow2 b \<Longrightarrow> a \<le> b"
proof (rule ccontr)
  assume h: "pow2 a \<le> pow2 b" and "\<not> a \<le> b"
  then have "pow2 (a - b) = 2 ^ nat (a - b)" and "0 < nat (a - b)" by (auto simp: pow2_def)
  then have "1 < pow2 (a - b)" by simp
  then have "pow2 b < pow2 (a - b) * pow2 b" by simp
  with h show False by (simp add: pow2_add)
qed

lemma fl_exponent_le:
  assumes "q \<noteq> 0"
  shows "pow2 (fl_exponent q) \<le> \<bar>q\<bar>"
proof -
  obtain n d where nd: "quotient_of \<bar>q\<bar> = (n, d)" by fastforce
  have d: "0 < d" using nd by (rule quotient_of_denom_pos)
  have q: "\<bar>q\<bar> = of_int n / of_int d" using nd by (rule quotient_of_div)
  have n: "0 < n" 
  proof -
    have "0 < (of_int n :: rat) / of_int d" using q assms by (metis zero_less_abs_iff)
    then show ?thesis using d by (simp add: zero_less_divide_iff)
  qed
  have nb: "pow2 (bitlen n - 1) \<le> of_int n"
  proof -
    have "1 \<le> bitlen n" using n by (auto simp: bitlen_alt_def)
    then have "pow2 (bitlen n - 1) = of_int (2 ^ nat (bitlen n - 1))" by (simp add: pow2_def)
    moreover have "(2::int) ^ nat (bitlen n - 1) \<le> n" using bitlen_bounds[OF n] by simp
    ultimately show ?thesis by (metis of_int_le_iff)
  qed
  have db: "of_int d \<le> pow2 (bitlen d)"
  proof -
    have "d < 2 ^ nat (bitlen d)" using bitlen_bounds[OF d] by simp
    then have "(of_int d :: rat) < of_int (2 ^ nat (bitlen d))" by (simp only: of_int_less_iff)
    moreover have "pow2 (bitlen d) = of_int (2 ^ nat (bitlen d))" by (simp add: pow2_def bitlen_nonneg)
    ultimately show ?thesis by simp
  qed
  have "pow2 (bitlen n - bitlen d - 1) * of_int d \<le> pow2 (bitlen n - 1 - bitlen d) * pow2 (bitlen d)"
    using db by (simp add: algebra_simps)
  also have "\<dots> \<le> of_int n" using nb by (simp only: pow2_add)
  finally have "pow2 (bitlen n - bitlen d - 1) \<le> \<bar>q\<bar>"
    using d by (simp add: q pos_le_divide_eq)
  then show ?thesis using nd by (simp add: fl_exponent_def Let_def)
qed

text \<open>
  Rounding does not cross an integer below \<open>2 ^ 53\<close>; in particular such integers are exact.
\<close>

lemma fl_round_between:
  assumes "0 \<le> q" and "q \<le> of_int n" and "n < 2 ^ 53"
  obtains v where "fl_round q = Fin v" and "0 \<le> v" and "v \<le> of_int n"
    and "\<And>k. of_int k \<le> q \<Longrightarrow> of_int k \<le> v"
proof (cases "q = 0")
  case True
  with assms that [of 0] show ?thesis by (simp add: fl_round_def)
next
  case False
  define u where "u = max (fl_exponent q - 52) (- 1074)"
  define m where "m = round_half_even (q / pow2 u)"
  define v where "v = of_int m * pow2 u"
  have n53: "(of_int n :: rat) < 2 ^ 53" using assms(3) by (metis of_int_less_iff of_int_numeral of_int_power)
  have "pow2 (fl_exponent q) \<le> pow2 52 * 2" using fl_exponent_le[OF False] assms(1,2) n53
    by (simp add: pow2_def)
  moreover have "pow2 53 = pow2 52 * 2" by (simp add: pow2_def)
  moreover have "pow2 (fl_exponent q) \<noteq> pow2 53"
    using fl_exponent_le[OF False] assms(1,2) n53 by (auto simp: pow2_def)
  ultimately have "fl_exponent q \<le> 53" "fl_exponent q \<noteq> 53" using pow2_mono by metis+
  then have u0: "u \<le> 0" by (simp add: u_def)
  have sc: "q / pow2 u = q * 2 ^ nat (- u)" using u0 by (rule pow2_neg_inverse)
  have int_scale: "of_int k = of_int (k * 2 ^ nat (- u)) * pow2 u" for k :: int
    using u0 by (auto simp: pow2_def)
  have lower: "of_int k \<le> v" if "of_int k \<le> q" for k :: int
  proof -
    have "of_int (k * 2 ^ nat (- u)) \<le> q / pow2 u" using that by (simp add: sc)
    then have "k * 2 ^ nat (- u) \<le> m" unfolding m_def by (rule round_half_even_ge)
    then have "(of_int (k * 2 ^ nat (- u)) :: rat) * pow2 u \<le> of_int m * pow2 u"
      by (intro mult_right_mono) (simp_all only: of_int_le_iff less_imp_le pow2_pos)
    then show ?thesis by (simp only: int_scale [of k] v_def)
  qed
  have "q / pow2 u \<le> of_int (n * 2 ^ nat (- u))" using assms(2) by (simp add: sc)
  then have "m \<le> n * 2 ^ nat (- u)" unfolding m_def by (rule round_half_even_le)
  then have "of_int m * pow2 u \<le> (of_int (n * 2 ^ nat (- u)) :: rat) * pow2 u"
    by (intro mult_right_mono) (simp_all only: of_int_le_iff less_imp_le pow2_pos)
  then have upper: "v \<le> of_int n" by (simp only: int_scale [of n] v_def)
  have nonneg: "0 \<le> v" using lower [of 0] assms(1) by simp
  have "(2::rat) ^ 53 \<le> pow2 1024" by (simp add: pow2_def)
  then have lt: "v < pow2 1024" using upper n53 by linarith
  have "\<not> v \<le> - pow2 1024" using nonneg pow2_pos [of 1024] by linarith
  then have "fl_round q = Fin v"
    using False lt by (simp add: fl_round_def Let_def u_def m_def v_def)
  then show ?thesis using that nonneg upper lower by blast
qed

lemma fl_round_of_int [simp]:
  assumes "0 \<le> n" "n < 2 ^ 53"
  shows "fl_round (of_int n) = Fin (of_int n)"
proof -
  have q: "(0::rat) \<le> of_int n" using assms(1) by simp
  obtain v where v: "fl_round (of_int n) = Fin v" "v \<le> of_int n"
    "\<And>k. of_int k \<le> (of_int n :: rat) \<Longrightarrow> of_int k \<le> v"
    by (rule fl_round_between [OF q order_refl assms(2)]) blast
  then have "v = of_int n" by (meson order_antisym order_refl)
  with v show ?thesis by simp
qed

section \<open>Dynamic values, dictionaries, time\<close>

datatype jval =
    JNull | JBool bool | JInt int | JFloat pyfloat | JStr string
  | JList "jval list" | JDict "(string \<times> jval) list"

type_synonym ('k, 'v) pydict = "('k \<times> 'v) list"
type_synonym scope = "string list"
type_synonym instant = int  \<comment> \<open>microseconds since the epoch, UTC\<close>

abbreviation dict_get :: "('k, 'v) pydict \<Rightarrow> 'k \<Rightarrow> 'v option" where
  "dict_get d k \<equiv> map_of d k"

definition dict_set :: "('k, 'v) pydict \<Rightarrow> 'k \<Rightarrow> 'v \<Rightarrow> ('k, 'v) pydict" where
  "dict_set d k v = AList.update k v d"

definition dict_wf :: "('k, 'v) pydict \<Rightarrow> bool" where
  "dict_wf d = distinct (map fst d)"

datatype py_datetime = Aware instant | Naive int

definition seconds :: "int \<Rightarrow> int" where
  "seconds n = n * 1000000"

definition days :: "int \<Rightarrow> int" where
  "days n = n * 86400000000"

definition minutes :: "int \<Rightarrow> int" where
  "minutes n = n * 60000000"

lemma dict_get_set [simp]: "dict_get (dict_set d k v) j = (if j = k then Some v else dict_get d j)"
  by (simp add: dict_set_def update_conv)

lemma dict_wf_set [simp]: "dict_wf d \<Longrightarrow> dict_wf (dict_set d k v)"
  by (simp add: dict_wf_def dict_set_def distinct_update)

lemma dict_keys_set [simp]: "fst ` set (dict_set d k v) = insert k (fst ` set d)"
  by (auto simp: dict_set_def update_conv simp flip: dom_map_of_conv_image_fst)

lemma dict_wf_Nil [simp]: "dict_wf []"
  by (simp add: dict_wf_def)

end
