(* ===== verification/Contracts.thy ===== *)
theory Contracts
  imports Py_Base
begin

text \<open>
  The frozen contracts of \<open>contracts/\<close> that the gate engine exchanges: the enums of
  \<open>enums.py\<close>, \<open>Finding\<close> and \<open>GateInputV1\<close> of \<open>gate_input.py\<close>,
  \<open>ActionDecisionV1\<close> of \<open>action_decision.py\<close>, the rulebook of \<open>rulebook.py\<close> and the
  dedupe TTLs of \<open>redis_ttl_policy.py\<close>, each with its validators. A validator is a function
  into \<open>result\<close>; a message that renders a Python container is cut to its literal prefix.
  \<open>Action\<close> is made a linear order by severity, the order \<open>_ACTION_PRIORITY\<close> encodes.
\<close>

section \<open>Enums\<close>

datatype environment = LOCAL | HARNESS | DEV | UAT | PROD_ENV

datatype criticality_tier = TIER_0 | TIER_1 | TIER_2 | TIER_UNKNOWN

datatype action = OBSERVE | NOTIFY | TICKET | PAGE

datatype evidence_status = PRESENT | UNKNOWN | ABSENT | STALE

fun environment_value :: "environment \<Rightarrow> string" where
  "environment_value LOCAL = ''local''"
| "environment_value HARNESS = ''harness''"
| "environment_value DEV = ''dev''"
| "environment_value UAT = ''uat''"
| "environment_value PROD_ENV = ''prod''"

fun tier_value :: "criticality_tier \<Rightarrow> string" where
  "tier_value TIER_0 = ''TIER_0''"
| "tier_value TIER_1 = ''TIER_1''"
| "tier_value TIER_2 = ''TIER_2''"
| "tier_value TIER_UNKNOWN = ''UNKNOWN''"

fun action_value :: "action \<Rightarrow> string" where
  "action_value OBSERVE = ''OBSERVE''"
| "action_value NOTIFY = ''NOTIFY''"
| "action_value TICKET = ''TICKET''"
| "action_value PAGE = ''PAGE''"

text \<open>\<open>Environment(value)\<close>, \<open>CriticalityTier(value)\<close> and \<open>Action(value)\<close>: lookup by value.\<close>

definition environment_of_value :: "string \<Rightarrow> environment option" where
  "environment_of_value s = List.find (\<lambda>e. environment_value e = s) [LOCAL, HARNESS, DEV, UAT, PROD_ENV]"

definition tier_of_value :: "string \<Rightarrow> criticality_tier option" where
  "tier_of_value s = List.find (\<lambda>t. tier_value t = s) [TIER_0, TIER_1, TIER_2, TIER_UNKNOWN]"

definition action_of_value :: "string \<Rightarrow> action option" where
  "action_of_value s = List.find (\<lambda>a. action_value a = s) [OBSERVE, NOTIFY, TICKET, PAGE]"

fun action_priority :: "action \<Rightarrow> nat" where
  "action_priority OBSERVE = 0"
| "action_priority NOTIFY = 1"
| "action_priority TICKET = 2"
| "action_priority PAGE = 3"

instantiation action :: linorder
begin

definition less_eq_action :: "action \<Rightarrow> action \<Rightarrow> bool" where
  "a \<le> b \<longleftrightarrow> action_priority a \<le> action_priority b"

definition less_action :: "action \<Rightarrow> action \<Rightarrow> bool" where
  "a < b \<longleftrightarrow> action_priority a < action_priority b"

instance
proof
  fix a b :: action
  assume "a \<le> b" "b \<le> a"
  then show "a = b" by (cases a; cases b) (simp_all add: less_eq_action_def)
qed (auto simp: less_eq_action_def less_action_def)

end

section \<open>Gate input and action decision\<close>

record finding =
  fi_finding_id :: string
  fi_name :: string
  fi_is_anomalous :: bool
  fi_evidence_required :: "string list"
  fi_allowed :: "(string, evidence_status list) pydict"
  fi_is_primary :: "bool option"
  fi_severity :: "string option"
  fi_reason_codes :: "string list"

definition allowed_ag2_non_present_statuses :: "evidence_status list" where
  "allowed_ag2_non_present_statuses = [UNKNOWN, ABSENT, STALE]"

text \<open>\<open>tuple(dict.fromkeys(xs))\<close>: the first occurrence of each element, in order.\<close>

fun fromkeys_loop :: "'a list \<Rightarrow> 'a list \<Rightarrow> 'a list" where
  "fromkeys_loop keys [] = keys"
| "fromkeys_loop keys (x # xs) = fromkeys_loop (if x \<in> set keys then keys else keys @ [x]) xs"

definition dict_fromkeys :: "'a list \<Rightarrow> 'a list" where
  "dict_fromkeys xs = fromkeys_loop [] xs"

fun normalize_allowances ::
  "string list \<Rightarrow> (string, evidence_status list) pydict \<Rightarrow> (string, evidence_status list) pydict
   \<Rightarrow> (string, evidence_status list) pydict result" where
  "normalize_allowances req acc [] = Inr acc"
| "normalize_allowances req acc ((k, statuses) # rest) =
     (if k \<notin> set req then
        raise ValueError ''allowed_non_present_statuses_by_evidence keys must be present in evidence_required''
      else if statuses = [] then
        raise ValueError ''allowed_non_present_statuses_by_evidence values must include at least one status''
      else if filter (\<lambda>s. s \<notin> set allowed_ag2_non_present_statuses) statuses \<noteq> [] then
        raise ValueError ''allowed_non_present_statuses_by_evidence values must be subset of UNKNOWN/ABSENT/STALE''
      else normalize_allowances req (dict_set acc k (dict_fromkeys statuses)) rest)"

definition validate_finding :: "finding \<Rightarrow> finding result" where
  "validate_finding f = rbind (normalize_allowances (fi_evidence_required f) [] (fi_allowed f))
     (\<lambda>d. Inr (f\<lparr>fi_allowed := d\<rparr>))"

datatype topic_role = SOURCE_TOPIC | SHARED_TOPIC | SINK_TOPIC

fun topic_role_value :: "topic_role \<Rightarrow> string" where
  "topic_role_value SOURCE_TOPIC = ''SOURCE_TOPIC''"
| "topic_role_value SHARED_TOPIC = ''SHARED_TOPIC''"
| "topic_role_value SINK_TOPIC = ''SINK_TOPIC''"

datatype anomaly_family = CONSUMER_LAG | VOLUME_DROP | THROUGHPUT_CONSTRAINED_PROXY

fun anomaly_family_value :: "anomaly_family \<Rightarrow> string" where
  "anomaly_family_value CONSUMER_LAG = ''CONSUMER_LAG''"
| "anomaly_family_value VOLUME_DROP = ''VOLUME_DROP''"
| "anomaly_family_value THROUGHPUT_CONSTRAINED_PROXY = ''THROUGHPUT_CONSTRAINED_PROXY''"

record gate_input =
  gi_env :: environment
  gi_cluster_id :: string
  gi_stream_id :: string
  gi_topic :: string
  gi_topic_role :: topic_role
  gi_anomaly_family :: anomaly_family
  gi_criticality_tier :: criticality_tier
  gi_proposed_action :: action
  gi_diagnosis_confidence :: pyfloat
  gi_sustained :: bool
  gi_findings :: "finding list"
  gi_evidence_status_map :: "(string, evidence_status) pydict"
  gi_action_fingerprint :: string
  gi_consumer_group :: "string option"
  gi_partition_count_observed :: "int option"
  gi_peak :: "bool option"
  gi_case_id :: "string option"
  gi_decision_basis :: "(string, jval) pydict option"

record action_decision =
  ad_final_action :: action
  ad_env_cap_applied :: bool
  ad_gate_rule_ids :: "string list"
  ad_gate_reason_codes :: "string list"
  ad_action_fingerprint :: string
  ad_postmortem_required :: bool
  ad_postmortem_mode :: "string option"
  ad_postmortem_reason_codes :: "string list"

section \<open>Rulebook\<close>

record rulebook_caps =
  cap_max_action_by_env :: "(string, string) pydict"
  cap_max_action_by_tier_in_prod :: "(string, string) pydict"
  cap_paging_denied_topic_roles :: "string list"

record gate_effect =
  ef_cap_action_to :: "string option"
  ef_set_reason_codes :: "string list"
  ef_set_reason_text :: "string list"
  ef_confidence_floor :: "pyfloat option"
  ef_force_postmortem_mode :: "string option"
  ef_set_postmortem_required :: "bool option"
  ef_set_postmortem_reason_codes :: "string list"

record gate_effects =
  on_fail :: "gate_effect option"
  on_cap_applied :: "gate_effect option"
  on_duplicate :: "gate_effect option"
  on_store_error :: "gate_effect option"
  on_pass :: "gate_effect option"

record gate_check =
  gc_check_id :: string
  gc_type :: string
  gc_extra :: "(string, jval) pydict"

record gate_spec =
  gs_id :: string
  gs_name :: string
  gs_intent :: string
  gs_effect :: gate_effects
  gs_checks :: "gate_check list"

record rulebook_defaults =
  rd_missing_series_policy :: string
  rd_required_evidence_policy :: string
  rd_missing_confidence_policy :: string
  rd_missing_sustained_policy :: string

record rulebook =
  rb_rulebook_id :: string
  rb_version :: int
  rb_evaluation_interval_minutes :: int
  rb_sustained_intervals_required :: int
  rb_defaults :: rulebook_defaults
  rb_caps :: rulebook_caps
  rb_gates :: "gate_spec list"

definition validate_action_policy_value :: "string \<Rightarrow> unit result" where
  "validate_action_policy_value v = (case action_of_value v of
       Some _ \<Rightarrow> Inr ()
     | None \<Rightarrow> raise ValueError ''Invalid action value'')"

definition validate_max_action_by_env :: "(string, string) pydict \<Rightarrow> (string, string) pydict result" where
  "validate_max_action_by_env caps =
     (if \<not> list_all (\<lambda>k. k \<in> set (map fst caps)) [''local'', ''dev'', ''prod''] then
        raise ValueError ''max_action_by_env is missing required env keys''
      else if ''uat'' \<notin> set (map fst caps) \<and> ''stage'' \<notin> set (map fst caps) then
        raise ValueError ''max_action_by_env must define either 'uat' (canonical) or 'stage' (legacy alias)''
      else rbind (rmap_list (\<lambda>kv. validate_action_policy_value (snd kv)) caps) (\<lambda>_. Inr caps))"

definition validate_max_action_by_tier_in_prod ::
  "(string, string) pydict \<Rightarrow> (string, string) pydict result" where
  "validate_max_action_by_tier_in_prod caps =
     (if \<not> list_all (\<lambda>k. k \<in> set (map fst caps)) [''TIER_0'', ''TIER_1'', ''TIER_2'', ''UNKNOWN''] then
        raise ValueError ''max_action_by_tier_in_prod is missing required tier keys''
      else rbind (rmap_list (\<lambda>kv. validate_action_policy_value (snd kv)) caps) (\<lambda>_. Inr caps))"

definition require_all_gate_ids :: "gate_spec list \<Rightarrow> gate_spec list result" where
  "require_all_gate_ids gates =
     (if list_all (\<lambda>k. k \<in> set (map gs_id gates)) [''AG0'', ''AG1'', ''AG2'', ''AG3'', ''AG4'', ''AG5'', ''AG6'']
      then Inr gates else raise ValueError ''gates is missing required gate IDs'')"

definition validate_rulebook :: "rulebook \<Rightarrow> rulebook result" where
  "validate_rulebook rb =
     rbind (validate_max_action_by_env (cap_max_action_by_env (rb_caps rb))) (\<lambda>_.
     rbind (validate_max_action_by_tier_in_prod (cap_max_action_by_tier_in_prod (rb_caps rb))) (\<lambda>_.
     rbind (require_all_gate_ids (rb_gates rb)) (\<lambda>_. Inr rb)))"

section \<open>Dedupe TTL configuration\<close>

record ag5_dedupe_ttl_config =
  page_seconds :: int
  ticket_seconds :: int
  notify_seconds :: int

definition require_positive_ttls :: "ag5_dedupe_ttl_config \<Rightarrow> ag5_dedupe_ttl_config result" where
  "require_positive_ttls c =
     (if page_seconds c \<le> 0 \<or> ticket_seconds c \<le> 0 \<or> notify_seconds c \<le> 0
      then raise ValueError ''AG5 dedupe TTL seconds must be positive'' else Inr c)"

definition ttl_for_action :: "ag5_dedupe_ttl_config \<Rightarrow> action \<Rightarrow> int" where
  "ttl_for_action c a = (if a = PAGE then page_seconds c
     else if a = TICKET then ticket_seconds c else notify_seconds c)"

section \<open>Lemmas\<close>

lemma action_le_simps [simp]:
  "OBSERVE \<le> a" "a \<le> PAGE" "a \<le> OBSERVE \<longleftrightarrow> a = OBSERVE" "PAGE \<le> a \<longleftrightarrow> a = PAGE"
  by (cases a; simp add: less_eq_action_def)+

lemma action_of_value_value [simp]: "action_of_value (action_value a) = Some a"
  by (cases a) (simp_all add: action_of_value_def)

lemma action_of_value_Some: "action_of_value s = Some a \<longleftrightarrow> s = action_value a"
  by (cases a) (auto simp: action_of_value_def split: if_splits)

lemma environment_of_value_Some: "environment_of_value s = Some e \<longleftrightarrow> s = environment_value e"
  by (cases e) (auto simp: environment_of_value_def split: if_splits)

lemma tier_of_value_Some: "tier_of_value s = Some t \<longleftrightarrow> s = tier_value t"
  by (cases t) (auto simp: tier_of_value_def split: if_splits)

lemma fromkeys_loop_set: "set (fromkeys_loop keys xs) = set keys \<union> set xs"
  by (induction keys xs rule: fromkeys_loop.induct) auto

lemma fromkeys_loop_distinct: "distinct keys \<Longrightarrow> distinct (fromkeys_loop keys xs)"
  by (induction keys xs rule: fromkeys_loop.induct) auto

lemma dict_fromkeys_set [simp]: "set (dict_fromkeys xs) = set xs"
  by (simp add: dict_fromkeys_def fromkeys_loop_set)

lemma dict_fromkeys_distinct [simp]: "distinct (dict_fromkeys xs)"
  by (simp add: dict_fromkeys_def fromkeys_loop_distinct)

lemma validate_action_policy_value_ok:
  "validate_action_policy_value v = Inr u \<longleftrightarrow> (\<exists>a. action_of_value v = Some a)"
  by (auto simp: validate_action_policy_value_def split: option.splits)

text \<open>What a validated caps table guarantees: every value it holds is an action.\<close>

lemma rmap_validate_values:
  "rmap_list (\<lambda>kv. validate_action_policy_value (snd kv)) caps = Inr us \<Longrightarrow>
   kv \<in> set caps \<Longrightarrow> \<exists>a. action_of_value (snd kv) = Some a"
  by (auto simp: rmap_list_Inr list_all2_conv_all_nth validate_action_policy_value_ok in_set_conv_nth)

lemma validate_max_action_by_env_lookup:
  assumes "validate_max_action_by_env caps = Inr c" and "dict_get caps k = Some v"
  shows "\<exists>a. action_of_value v = Some a"
  using assms(1) map_of_SomeD [OF assms(2)]
  by (auto simp: validate_max_action_by_env_def split: if_splits dest!: rmap_validate_values elim!: rbind_InrE)

lemma validate_tier_caps_lookup:
  assumes "validate_max_action_by_tier_in_prod caps = Inr c"
  shows "\<exists>v a. dict_get caps (tier_value t) = Some v \<and> action_of_value v = Some a"
proof -
  from assms obtain us where us: "rmap_list (\<lambda>kv. validate_action_policy_value (snd kv)) caps = Inr us"
    and keys: "\<forall>k \<in> {''TIER_0'', ''TIER_1'', ''TIER_2'', ''UNKNOWN''}. k \<in> set (map fst caps)"
    by (auto simp: validate_max_action_by_tier_in_prod_def split: if_splits elim!: rbind_InrE)
  have "tier_value t \<in> set (map fst caps)" using keys by (cases t) auto
  then obtain v where v: "dict_get caps (tier_value t) = Some v"
    by (metis list.set_map map_of_eq_None_iff option.exhaust)
  from rmap_validate_values [OF us map_of_SomeD [OF v]] v show ?thesis by simp
qed

end
