(* ===== verification/Models.thy ===== *)
theory Models
  imports Contracts
begin

text \<open>
  The internal stage models of \<open>models/\<close>: evidence rows and the Stage 1 output
  (\<open>evidence.py\<close>), anomaly findings with their validator and grouping (\<open>anomaly.py\<close>), and
  the Stage 2 peak and sustained-window records (\<open>peak.py\<close>). Mappings are
  insertion-ordered dictionaries; the \<open>MappingProxyType\<close> wrappers that freeze them have no
  counterpart, since HOL values are immutable.
\<close>

section \<open>Anomaly findings\<close>

datatype anomaly_severity = LOW | MEDIUM | HIGH

fun severity_value :: "anomaly_severity \<Rightarrow> string" where
  "severity_value LOW = ''LOW''"
| "severity_value MEDIUM = ''MEDIUM''"
| "severity_value HIGH = ''HIGH''"

record anomaly_finding =
  af_finding_id :: string
  af_anomaly_family :: anomaly_family
  af_scope :: scope
  af_severity :: anomaly_severity
  af_reason_codes :: "string list"
  af_evidence_required :: "string list"
  af_allowed :: "(string, evidence_status list) pydict"
  af_is_primary :: "bool option"

definition validate_anomaly_finding :: "anomaly_finding \<Rightarrow> anomaly_finding result" where
  "validate_anomaly_finding f = rbind (normalize_allowances (af_evidence_required f) [] (af_allowed f))
     (\<lambda>d. Inr (f\<lparr>af_allowed := d\<rparr>))"

text \<open>A \<open>defaultdict(list)\<close> and its \<open>d[k].append(v)\<close>.\<close>

definition dd_append :: "('k, 'v list) pydict \<Rightarrow> 'k \<Rightarrow> 'v \<Rightarrow> ('k, 'v list) pydict" where
  "dd_append d k v = dict_set d k ((case dict_get d k of Some vs \<Rightarrow> vs | None \<Rightarrow> []) @ [v])"

definition group_findings_by_scope :: "anomaly_finding list \<Rightarrow> (scope, anomaly_finding list) pydict" where
  "group_findings_by_scope fs = fold (\<lambda>f d. dd_append d (af_scope f) f) fs []"

record anomaly_detection_result =
  ar_findings :: "anomaly_finding list"
  ar_findings_by_scope :: "(scope, anomaly_finding list) pydict"

definition mk_anomaly_detection_result :: "anomaly_finding list \<Rightarrow> anomaly_detection_result" where
  "mk_anomaly_detection_result fs =
     \<lparr>ar_findings = fs, ar_findings_by_scope = group_findings_by_scope fs\<rparr>"

section \<open>Evidence stage output\<close>

record evidence_row =
  er_metric_key :: string
  er_value :: pyfloat
  er_labels :: "(string, string) pydict"
  er_scope :: scope

record telemetry_degraded_event =
  te_affected_scope :: string
  te_reason :: string
  te_recovery_status :: string
  te_severity :: string
  te_timestamp :: instant

type_synonym status_map = "(string, evidence_status) pydict"

record evidence_stage_output =
  eo_rows :: "evidence_row list"
  eo_anomaly_result :: anomaly_detection_result
  eo_gate_findings_by_scope :: "(scope, finding list) pydict"
  eo_evidence_status_map_by_scope :: "(scope, status_map) pydict"
  eo_telemetry_degraded_active :: bool
  eo_telemetry_degraded_events :: "telemetry_degraded_event list"
  eo_max_safe_action :: "action option"

section \<open>Peak stage records\<close>

datatype peak_state = PEAK | NEAR_PEAK | OFF_PEAK | PEAK_UNKNOWN

type_synonym peak_scope = scope  \<comment> \<open>(env, cluster_id, topic)\<close>
type_synonym sustained_key = "string \<times> string \<times> string \<times> string"

record peak_profile =
  pp_scope :: peak_scope
  pp_source_metric :: string
  pp_peak_threshold_value :: pyfloat
  pp_near_peak_threshold_value :: pyfloat
  pp_history_samples_count :: nat
  pp_has_sufficient_history :: bool
  pp_recompute_frequency :: string
  pp_computed_at :: instant

record peak_classification =
  pc_scope :: peak_scope
  pc_state :: peak_state
  pc_current_value :: "pyfloat option"
  pc_confidence :: pyfloat
  pc_reason_codes :: "string list"
  pc_is_peak_window :: bool
  pc_is_near_peak_window :: bool
  pc_peak_threshold_value :: "pyfloat option"
  pc_near_peak_threshold_value :: "pyfloat option"

record peak_window_context =
  pw_classification :: peak_state
  pw_is_peak_window :: bool
  pw_is_near_peak_window :: bool
  pw_confidence :: pyfloat
  pw_reason_codes :: "string list"

record sustained_window_state =
  sw_identity_key :: sustained_key
  sw_consecutive_anomalous_buckets :: int
  sw_last_evaluated_at :: instant

record sustained_status =
  ss_identity_key :: sustained_key
  ss_is_sustained :: bool
  ss_consecutive_anomalous_buckets :: int
  ss_required_buckets :: int
  ss_last_evaluated_at :: instant
  ss_reason_codes :: "string list"

record peak_stage_output =
  po_profiles_by_scope :: "(peak_scope, peak_profile) pydict"
  po_classifications_by_scope :: "(peak_scope, peak_classification) pydict"
  po_peak_context_by_scope :: "(peak_scope, peak_window_context) pydict"
  po_evidence_status_map_by_scope :: "(scope, status_map) pydict"
  po_sustained_by_key :: "(sustained_key, sustained_status) pydict"

section \<open>Lemmas\<close>

lemma dd_append_get:
  "dict_get (dd_append d k v) j =
     (if j = k then Some ((case dict_get d k of Some vs \<Rightarrow> vs | None \<Rightarrow> []) @ [v]) else dict_get d j)"
  by (simp add: dd_append_def)

lemma dd_append_wf [simp]: "dict_wf d \<Longrightarrow> dict_wf (dd_append d k v)"
  by (simp add: dd_append_def)

lemma dd_append_keys [simp]: "fst ` set (dd_append d k v) = insert k (fst ` set d)"
  by (simp add: dd_append_def)

text \<open>
  Grouping by a key keeps, under each key, exactly the elements with that key in their order.
\<close>

lemma fold_dd_append_get:
  "dict_get (fold (\<lambda>x d. dd_append d (key x) (val x)) xs d) k =
     (let old = dict_get d k; new = map val (filter (\<lambda>x. key x = k) xs)
      in if new = [] then old else Some ((case old of Some vs \<Rightarrow> vs | None \<Rightarrow> []) @ new))"
  by (induction xs arbitrary: d) (auto simp: Let_def dd_append_get split: option.splits)

lemma fold_dd_append_keys:
  "fst ` set (fold (\<lambda>x d. dd_append d (key x) (val x)) xs d) = fst ` set d \<union> key ` set xs"
  by (induction xs arbitrary: d) auto

lemma fold_dd_append_wf: "dict_wf d \<Longrightarrow> dict_wf (fold (\<lambda>x d. dd_append d (key x) (val x)) xs d)"
  by (induction xs arbitrary: d) auto

lemma group_findings_get:
  "dict_get (group_findings_by_scope fs) sc =
     (let g = filter (\<lambda>f. af_scope f = sc) fs in if g = [] then None else Some g)"
  unfolding group_findings_by_scope_def
  using fold_dd_append_get [of af_scope "\<lambda>f. f" fs "[]" sc] by (simp add: Let_def)

lemma group_findings_keys: "fst ` set (group_findings_by_scope fs) = af_scope ` set fs"
  unfolding group_findings_by_scope_def
  using fold_dd_append_keys [of af_scope "\<lambda>f. f" fs "[]"] by simp

lemma group_findings_wf: "dict_wf (group_findings_by_scope fs)"
  unfolding group_findings_by_scope_def by (rule fold_dd_append_wf) simp

end
