(* ===== verification/Dedupe_Store.thy ===== *)
theory Dedupe_Store
  imports Contracts
begin

text \<open>
  The AG5 deduplication store of \<open>cache/dedupe.py\<close>.

  \<^item> \<open>gate_dedupe_store\<close> is the interface the gate engine relies on
    (\<open>GateDedupeStoreProtocol\<close> in \<open>pipeline/stages/gating.py\<close>): the two calls, the set of
    active fingerprints they observe and change, and an invariant of the store object.
  \<^item> \<open>RedisActionDedupeStore\<close> is modelled by the record \<open>dedupe_store\<close> and the
    operations \<open>store_is_duplicate\<close> and \<open>store_remember\<close>. Redis itself is a parameter: the
    functions \<open>rget\<close> (\<open>GET key\<close>) and \<open>rset\<close> (\<open>SET key value NX EX ttl\<close>) over an
    opaque server state, with their documented behaviour as the locale \<open>redis_client\<close>. Each call
    may raise; a raised \<open>SET\<close> may or may not have been applied.
  \<^item> \<open>sim_get\<close> and \<open>sim_set\<close> are a concrete server with a clock, expiry times and an
    availability flag, which shows that the documented behaviour can hold.
\<close>

section \<open>The interface the gate engine uses\<close>

locale gate_dedupe_store =
  fixes is_dup :: "'s \<Rightarrow> string \<Rightarrow> bool result \<times> 's"
    and rem :: "'s \<Rightarrow> string \<Rightarrow> action \<Rightarrow> bool result \<times> 's"
    and active :: "'s \<Rightarrow> string \<Rightarrow> bool"
    and invar :: "'s \<Rightarrow> bool"
  assumes is_dup_ok: "invar s \<Longrightarrow> is_dup s f = (Inr b, s') \<Longrightarrow>
      invar s' \<and> b = active s f \<and> active s' = active s"
    and is_dup_err: "invar s \<Longrightarrow> is_dup s f = (Inl e, s') \<Longrightarrow> invar s' \<and> active s' = active s"
    and rem_ok: "invar s \<Longrightarrow> rem s f a = (Inr b, s') \<Longrightarrow>
      invar s' \<and> b = (\<not> active s f) \<and> active s' = (active s)(f := True)"
    and rem_err: "invar s \<Longrightarrow> rem s f a = (Inl e, s') \<Longrightarrow>
      invar s' \<and> (active s' = active s \<or> active s' = (active s)(f := True))"
begin

lemma active_mono_is_dup: "invar s \<Longrightarrow> active s g \<Longrightarrow> active (snd (is_dup s f)) g"
  by (cases "is_dup s f"; cases "fst (is_dup s f)") (auto dest: is_dup_ok is_dup_err)

lemma active_mono_rem: "invar s \<Longrightarrow> active s g \<Longrightarrow> active (snd (rem s f a)) g"
  by (cases "rem s f a"; cases "fst (rem s f a)") (auto dest: rem_ok rem_err)

lemma invar_is_dup: "invar s \<Longrightarrow> invar (snd (is_dup s f))"
  by (cases "is_dup s f"; cases "fst (is_dup s f)") (auto dest: is_dup_ok is_dup_err)

lemma invar_rem: "invar s \<Longrightarrow> invar (snd (rem s f a))"
  by (cases "rem s f a"; cases "fst (rem s f a)") (auto dest: rem_ok rem_err)

text \<open>Once remembered, a fingerprint is reported as a duplicate by the next lookup.\<close>

lemma remembered_is_duplicate:
  assumes "invar s" "rem s f a = (Inr b, s')" "is_dup s' f = (Inr d, s'')"
  shows "d"
  using rem_ok [OF assms(1,2)] is_dup_ok [of s' f d s''] assms(3) by auto

end

section \<open>RedisActionDedupeStore\<close>

type_synonym 'r redis_get = "'r \<Rightarrow> string \<Rightarrow> string option result \<times> 'r"
type_synonym 'r redis_set = "'r \<Rightarrow> string \<Rightarrow> string \<Rightarrow> int \<Rightarrow> bool result \<times> 'r"

record 'r dedupe_store =
  ds_redis :: 'r
  ds_ttl_config :: "ag5_dedupe_ttl_config option"
  ds_is_healthy :: bool
  ds_last_error :: "string option"

definition new_dedupe_store :: "'r \<Rightarrow> ag5_dedupe_ttl_config option \<Rightarrow> 'r dedupe_store" where
  "new_dedupe_store r c =
     \<lparr>ds_redis = r, ds_ttl_config = c, ds_is_healthy = True, ds_last_error = None\<rparr>"

definition fr33_default_ttl :: "(string, int) pydict" where
  "fr33_default_ttl = [(''PAGE'', 7200), (''TICKET'', 14400), (''NOTIFY'', 3600)]"

definition store_ttl_for_action :: "'r dedupe_store \<Rightarrow> action \<Rightarrow> int" where
  "store_ttl_for_action st a = (case ds_ttl_config st of
       Some c \<Rightarrow> ttl_for_action c a
     | None \<Rightarrow> (case dict_get fr33_default_ttl (action_value a) of Some t \<Rightarrow> t | None \<Rightarrow> 3600))"

definition dedupe_key :: "string \<Rightarrow> string" where
  "dedupe_key fp = ''dedupe:'' @ fp"

definition store_is_duplicate ::
  "'r redis_get \<Rightarrow> 'r dedupe_store \<Rightarrow> string \<Rightarrow> bool result \<times> 'r dedupe_store" where
  "store_is_duplicate rget st fp = (case rget (ds_redis st) (dedupe_key fp) of
       (Inr v, r) \<Rightarrow> (Inr (v \<noteq> None), st\<lparr>ds_redis := r, ds_is_healthy := True, ds_last_error := None\<rparr>)
     | (Inl e, r) \<Rightarrow> (Inl e, st\<lparr>ds_redis := r, ds_is_healthy := False, ds_last_error := Some (exc_str e)\<rparr>))"

definition store_remember ::
  "'r redis_set \<Rightarrow> 'r dedupe_store \<Rightarrow> string \<Rightarrow> action \<Rightarrow> bool result \<times> 'r dedupe_store" where
  "store_remember rset st fp a =
     (let ttl = store_ttl_for_action st a
      in case rset (ds_redis st) (dedupe_key fp) ''1'' ttl of
        (Inr added, r) \<Rightarrow> (Inr added, st\<lparr>ds_redis := r, ds_is_healthy := True, ds_last_error := None\<rparr>)
      | (Inl e, r) \<Rightarrow> (Inl e, st\<lparr>ds_redis := r, ds_is_healthy := False, ds_last_error := Some (exc_str e)\<rparr>))"

definition store_active :: "('r \<Rightarrow> string \<Rightarrow> bool) \<Rightarrow> 'r dedupe_store \<Rightarrow> string \<Rightarrow> bool" where
  "store_active present st fp = present (ds_redis st) (dedupe_key fp)"

definition store_invar :: "'r dedupe_store \<Rightarrow> bool" where
  "store_invar st = (case ds_ttl_config st of None \<Rightarrow> True | Some c \<Rightarrow> is_ok (require_positive_ttls c))"

section \<open>Documented behaviour of the Redis commands\<close>

locale redis_client =
  fixes rget :: "'r redis_get"
    and rset :: "'r redis_set"
    and present :: "'r \<Rightarrow> string \<Rightarrow> bool"
  assumes get_ok: "rget r k = (Inr v, r') \<Longrightarrow> (v \<noteq> None) = present r k \<and> present r' = present r"
    and get_err: "rget r k = (Inl e, r') \<Longrightarrow> present r' = present r"
    and set_ok: "0 < ttl \<Longrightarrow> rset r k w ttl = (Inr b, r') \<Longrightarrow>
      b = (\<not> present r k) \<and> present r' = (present r)(k := True)"
    and set_err: "rset r k w ttl = (Inl e, r') \<Longrightarrow>
      present r' = present r \<or> present r' = (present r)(k := True)"

lemma store_ttl_positive: "store_invar st \<Longrightarrow> 0 < store_ttl_for_action st a"
  by (cases a) (auto simp: store_invar_def store_ttl_for_action_def require_positive_ttls_def
      ttl_for_action_def fr33_default_ttl_def split: option.splits if_splits)

lemma dedupe_key_inj [simp]: "dedupe_key f = dedupe_key g \<longleftrightarrow> f = g"
  by (simp add: dedupe_key_def)

lemma dedupe_key_upd:
  "(\<lambda>fp. fp \<noteq> f \<longrightarrow> h (dedupe_key fp)) = (\<lambda>fp. h (dedupe_key fp))(f := True)"
  by (rule ext) simp

text \<open>The Redis-backed store meets the gate engine's interface.\<close>

sublocale redis_client \<subseteq> store: gate_dedupe_store "store_is_duplicate rget" "store_remember rset"
  "store_active present" store_invar
proof
  fix s :: "'r dedupe_store" and f b s'
  assume "store_invar s" "store_is_duplicate rget s f = (Inr b, s')"
  then show "store_invar s' \<and> b = store_active present s f \<and> store_active present s' = store_active present s"
    by (auto simp: store_is_duplicate_def store_active_def [abs_def] store_invar_def dest!: get_ok
        split: prod.splits sum.splits)
next
  fix s :: "'r dedupe_store" and f e s'
  assume "store_invar s" "store_is_duplicate rget s f = (Inl e, s')"
  then show "store_invar s' \<and> store_active present s' = store_active present s"
    by (auto simp: store_is_duplicate_def store_active_def [abs_def] store_invar_def dest!: get_err
        split: prod.splits sum.splits)
next
  fix s :: "'r dedupe_store" and f a b s'
  assume inv: "store_invar s" and "store_remember rset s f a = (Inr b, s')"
  then obtain r where r: "rset (ds_redis s) (dedupe_key f) ''1'' (store_ttl_for_action s a) = (Inr b, r)"
    and s': "s' = s\<lparr>ds_redis := r, ds_is_healthy := True, ds_last_error := None\<rparr>"
    by (auto simp: store_remember_def Let_def split: prod.splits sum.splits)
  from set_ok [OF store_ttl_positive [OF inv] r]
  show "store_invar s' \<and> b = (\<not> store_active present s f) \<and>
      store_active present s' = (store_active present s)(f := True)"
    using inv by (simp add: s' store_active_def [abs_def] store_invar_def dedupe_key_upd)
next
  fix s :: "'r dedupe_store" and f a e s'
  assume "store_invar s" "store_remember rset s f a = (Inl e, s')"
  then obtain r where r: "rset (ds_redis s) (dedupe_key f) ''1'' (store_ttl_for_action s a) = (Inl e, r)"
    and s': "s' = s\<lparr>ds_redis := r, ds_is_healthy := False, ds_last_error := Some (exc_str e)\<rparr>"
    by (auto simp: store_remember_def Let_def split: prod.splits sum.splits)
  from set_err [OF r] show "store_invar s' \<and>
      (store_active present s' = store_active present s \<or>
       store_active present s' = (store_active present s)(f := True))"
    using \<open>store_invar s\<close>
    by (elim disjE) (simp_all add: s' store_active_def [abs_def] store_invar_def dedupe_key_upd)
qed

section \<open>A concrete server\<close>

record sim_redis =
  sim_now :: int
  sim_keys :: "(string, int) pydict"
  sim_up :: bool

definition sim_present :: "sim_redis \<Rightarrow> string \<Rightarrow> bool" where
  "sim_present r k = (case dict_get (sim_keys r) k of Some t \<Rightarrow> sim_now r < t | None \<Rightarrow> False)"

definition sim_get :: "sim_redis \<Rightarrow> string \<Rightarrow> string option result \<times> sim_redis" where
  "sim_get r k = (if sim_up r then (Inr (if sim_present r k then Some ''1'' else None), r)
     else (raise OtherException ''connection refused'', r))"

definition sim_set :: "sim_redis \<Rightarrow> string \<Rightarrow> string \<Rightarrow> int \<Rightarrow> bool result \<times> sim_redis" where
  "sim_set r k v ttl = (if \<not> sim_up r then (raise OtherException ''connection refused'', r)
     else if ttl \<le> 0 then (raise OtherException ''invalid expire time'', r)
     else if sim_present r k then (Inr False, r)
     else (Inr True, r\<lparr>sim_keys := dict_set (sim_keys r) k (sim_now r + ttl)\<rparr>))"

interpretation sim: redis_client sim_get sim_set sim_present
  by unfold_locales
    (auto simp: sim_get_def sim_set_def sim_present_def [abs_def] fun_eq_iff split: if_splits option.splits)

end
