(* ===== verification/Gating.thy ===== *)
theory Gating
  imports Models Dedupe_Store
begin

text \<open>
  The rulebook gate engine of \<open>pipeline/stages/gating.py\<close>: one definition per function, in the
  file's order after its helpers. The evaluation state is the record \<open>evaluation_state\<close>; a gate
  is a step \<open>state \<Rightarrow> store \<Rightarrow> (state result, store)\<close>, and \<open>run_gates\<close> is the loop over
  \<open>_EXPECTED_GATE_ORDER\<close>. The dedupe store is the pair of calls \<open>is_dup\<close>, \<open>rem\<close>
  with an explicit store state; \<open>None\<close> is the absent store. Logging and the latency
  measurement are left out.
\<close>

section \<open>Actions and policy lookups\<close>

definition reduce_action :: "action \<Rightarrow> action \<Rightarrow> action" where
  "reduce_action current cap = (if action_priority current \<le> action_priority cap then current else cap)"

definition cap_action_to_max_safe :: "action \<Rightarrow> action option \<Rightarrow> action" where
  "cap_action_to_max_safe proposed max_safe = (case max_safe of
       None \<Rightarrow> proposed
     | Some m \<Rightarrow> if action_priority proposed \<le> action_priority m then proposed else m)"

definition action_from_policy_value :: "string \<Rightarrow> action result" where
  "action_from_policy_value v = (case action_of_value v of
       Some a \<Rightarrow> Inr a | None \<Rightarrow> raise ValueError ''Invalid action value'')"

fun first_policy_entry :: "(string, string) pydict \<Rightarrow> string list \<Rightarrow> string option" where
  "first_policy_entry m [] = None"
| "first_policy_entry m (k # ks) = (case dict_get m k of None \<Rightarrow> first_policy_entry m ks | Some v \<Rightarrow> Some v)"

definition lookup_action_policy_entry ::
  "(string, string) pydict \<Rightarrow> string \<Rightarrow> string list \<Rightarrow> action result" where
  "lookup_action_policy_entry mapping key fallback = (case first_policy_entry mapping (key # fallback) of
       Some v \<Rightarrow> action_from_policy_value v
     | None \<Rightarrow> raise ValueError ''Missing policy mapping'')"

definition env_policy_fallback_keys :: "string \<Rightarrow> string list" where
  "env_policy_fallback_keys k =
     (if k = ''uat'' then [''stage''] else if k = ''stage'' then [''uat''] else [])"

fun unique_loop :: "string list \<Rightarrow> string set \<Rightarrow> string list \<Rightarrow> string list" where
  "unique_loop acc seen [] = acc"
| "unique_loop acc seen (v # vs) =
     (if v \<in> seen then unique_loop acc seen vs else unique_loop (acc @ [v]) (insert v seen) vs)"

definition unique_in_order :: "string list \<Rightarrow> string list" where
  "unique_in_order vs = unique_loop [] {} vs"

section \<open>Evaluation state and gate effects\<close>

record evaluation_state =
  es_current_action :: action
  es_input_valid :: bool
  es_env_cap_applied :: bool
  es_gate_reason_codes :: "string list"
  es_postmortem_required :: bool
  es_postmortem_mode :: "string option"
  es_postmortem_reason_codes :: "string list"

definition init_state :: "action \<Rightarrow> evaluation_state" where
  "init_state a = \<lparr>es_current_action = a, es_input_valid = True, es_env_cap_applied = False,
     es_gate_reason_codes = [], es_postmortem_required = False, es_postmortem_mode = None,
     es_postmortem_reason_codes = []\<rparr>"

text \<open>
  The action part of an effect: a non-empty \<open>cap_action_to\<close> reduces the current action unless
  action changes are disallowed.
\<close>

definition effect_cap :: "gate_effect \<Rightarrow> bool \<Rightarrow> bool \<Rightarrow> evaluation_state \<Rightarrow> evaluation_state result" where
  "effect_cap ef allow_action_change mark_env st = (case ef_cap_action_to ef of
       None \<Rightarrow> Inr st
     | Some v \<Rightarrow>
         if v = [] \<or> \<not> allow_action_change then Inr st
         else rbind (action_from_policy_value v) (\<lambda>cap.
           let reduced = reduce_action (es_current_action st) cap
           in Inr (st\<lparr>es_env_cap_applied :=
                      (if reduced \<noteq> es_current_action st \<and> mark_env then True else es_env_cap_applied st),
                      es_current_action := reduced\<rparr>)))"

definition effect_postmortem :: "gate_effect \<Rightarrow> evaluation_state \<Rightarrow> evaluation_state" where
  "effect_postmortem ef st0 =
     (let st1 = (case ef_force_postmortem_mode ef of
            None \<Rightarrow> st0
          | Some m \<Rightarrow> (let mode = py_upper (py_strip m)
                      in st0\<lparr>es_postmortem_mode := (if mode = [] \<or> mode = ''NONE'' then None else Some mode)\<rparr>));
          st2 = (case ef_set_postmortem_required ef of
            None \<Rightarrow> st1
          | Some b \<Rightarrow> st1\<lparr>es_postmortem_required := b,
                         es_postmortem_reason_codes := (if b then es_postmortem_reason_codes st1 else [])\<rparr>)
      in st2\<lparr>es_postmortem_reason_codes := es_postmortem_reason_codes st2 @ ef_set_postmortem_reason_codes ef\<rparr>)"

definition apply_gate_effect ::
  "evaluation_state \<Rightarrow> gate_effect option \<Rightarrow> bool \<Rightarrow> bool \<Rightarrow> evaluation_state result" where
  "apply_gate_effect st effect allow_action_change mark_env = (case effect of
       None \<Rightarrow> Inr st
     | Some ef \<Rightarrow> rbind (effect_cap ef allow_action_change mark_env st) (\<lambda>st1.
         Inr (effect_postmortem ef
           (st1\<lparr>es_gate_reason_codes := es_gate_reason_codes st1 @ ef_set_reason_codes ef\<rparr>))))"

section \<open>The gates\<close>

definition ag0_is_valid :: "gate_input \<Rightarrow> bool" where
  "ag0_is_valid gi = (py_strip (gi_action_fingerprint gi) \<noteq> [] \<and> gi_findings gi \<noteq> [])"

definition evaluate_ag1 :: "gate_input \<Rightarrow> rulebook \<Rightarrow> gate_spec \<Rightarrow> evaluation_state \<Rightarrow> evaluation_state result" where
  "evaluate_ag1 gi rb spec st =
     rbind (lookup_action_policy_entry (cap_max_action_by_env (rb_caps rb)) (environment_value (gi_env gi))
              (env_policy_fallback_keys (environment_value (gi_env gi)))) (\<lambda>env_cap.
     let env_capped = reduce_action (es_current_action st) env_cap;
         env_reduced = (env_capped \<noteq> es_current_action st)
     in rbind (if gi_env gi = PROD_ENV
               then rbind (lookup_action_policy_entry (cap_max_action_by_tier_in_prod (rb_caps rb))
                             (tier_value (gi_criticality_tier gi)) [])
                      (\<lambda>tier_cap. Inr (reduce_action env_capped tier_cap))
               else Inr env_capped) (\<lambda>capped.
        if capped \<noteq> es_current_action st
        then apply_gate_effect
               (st\<lparr>es_current_action := capped,
                   es_env_cap_applied := (if env_reduced then True else es_env_cap_applied st)\<rparr>)
               (on_cap_applied (gs_effect spec)) True env_reduced
        else Inr st))"

definition evidence_missing :: "gate_input \<Rightarrow> finding \<Rightarrow> string \<Rightarrow> bool" where
  "evidence_missing gi f ev =
     (let status = (case dict_get (gi_evidence_status_map gi) ev of Some s \<Rightarrow> s | None \<Rightarrow> UNKNOWN);
          allowed = (case dict_get (fi_allowed f) ev of Some xs \<Rightarrow> xs | None \<Rightarrow> [])
      in status \<noteq> PRESENT \<and> status \<notin> set allowed)"

definition ag2_has_insufficient_evidence :: "gate_input \<Rightarrow> bool" where
  "ag2_has_insufficient_evidence gi =
     (let anomalous = filter fi_is_anomalous (gi_findings gi);
          primary = filter (\<lambda>f. fi_is_primary f = Some True) anomalous;
          to_check = (if primary = [] then anomalous else primary)
      in anomalous \<noteq> [] \<and> list_ex (\<lambda>f. list_ex (evidence_missing gi f) (fi_evidence_required f)) to_check)"

definition ag4_reason_code_from_check :: "(string, jval) pydict \<Rightarrow> string \<Rightarrow> string" where
  "ag4_reason_code_from_check extra default_code = (case dict_get extra ''reason_code_on_fail'' of
       Some (JStr s) \<Rightarrow> (if py_strip s \<noteq> [] then py_strip s else default_code)
     | _ \<Rightarrow> default_code)"

text \<open>\<open>isinstance(v, int | float)\<close> then \<open>float(v)\<close>; a Python bool is an int.\<close>

definition numeric_min :: "jval option \<Rightarrow> pyfloat result" where
  "numeric_min v = (case v of
       Some (JInt n) \<Rightarrow> fl_of_int n
     | Some (JBool b) \<Rightarrow> Inr (Fin (if b then 1 else 0))
     | Some (JFloat x) \<Rightarrow> Inr x
     | _ \<Rightarrow> raise ValueError ''AG4 diagnosis_confidence min_value check is missing numeric min threshold'')"

fun ag4_loop :: "gate_input \<Rightarrow> gate_check list \<Rightarrow> string list \<Rightarrow> bool \<Rightarrow> bool \<Rightarrow> (string list \<times> bool \<times> bool) result" where
  "ag4_loop gi [] codes conf sus = Inr (codes, conf, sus)"
| "ag4_loop gi (c # cs) codes conf sus =
     (let field = dict_get (gc_extra c) ''field''
      in if gc_type c = ''min_value'' \<and> field = Some (JStr ''diagnosis_confidence'') then
           rbind (numeric_min (dict_get (gc_extra c) ''min'')) (\<lambda>m.
             ag4_loop gi cs
               (if fl_lt (gi_diagnosis_confidence gi) m
                then codes @ [ag4_reason_code_from_check (gc_extra c) ''LOW_CONFIDENCE''] else codes)
               True sus)
         else if gc_type c = ''equals'' \<and> field = Some (JStr ''sustained'') then
           (case dict_get (gc_extra c) ''value'' of
              Some (JBool b) \<Rightarrow>
                ag4_loop gi cs
                  (if gi_sustained gi \<noteq> b
                   then codes @ [ag4_reason_code_from_check (gc_extra c) ''NOT_SUSTAINED''] else codes)
                  conf True
            | _ \<Rightarrow> raise ValueError ''AG4 sustained equals check must define a boolean value'')
         else ag4_loop gi cs codes conf sus)"

definition ag4_failure_reason_codes :: "gate_spec \<Rightarrow> gate_input \<Rightarrow> string list result" where
  "ag4_failure_reason_codes spec gi =
     rbind (ag4_loop gi (gs_checks spec) [] False False) (\<lambda>(codes, conf, sus).
       if \<not> conf then raise ValueError ''AG4 is missing diagnosis_confidence min_value check configuration''
       else if \<not> sus then raise ValueError ''AG4 is missing sustained equals check configuration''
       else Inr (unique_in_order codes))"

definition expected_gate_order :: "string list" where
  "expected_gate_order = [''AG0'', ''AG1'', ''AG2'', ''AG3'', ''AG4'', ''AG5'', ''AG6'']"

definition validate_rulebook_gate_order :: "gate_spec list \<Rightarrow> unit result" where
  "validate_rulebook_gate_order gates =
     (if map gs_id gates \<noteq> expected_gate_order then raise ValueError ''Rulebook gate order must be'' else Inr ())"

text \<open>AG0 to AG4 and AG6 do not touch the store.\<close>

definition pure_gate :: "string \<Rightarrow> gate_input \<Rightarrow> rulebook \<Rightarrow> gate_spec \<Rightarrow> evaluation_state \<Rightarrow> evaluation_state result" where
  "pure_gate gid gi rb spec st =
     (if gid = ''AG0'' then
        (if \<not> ag0_is_valid gi
         then apply_gate_effect (st\<lparr>es_input_valid := False\<rparr>) (on_fail (gs_effect spec)) True False
         else Inr st)
      else if gid = ''AG1'' then evaluate_ag1 gi rb spec st
      else if gid = ''AG2'' then
        (if ag2_has_insufficient_evidence gi
         then apply_gate_effect st (on_fail (gs_effect spec)) True False else Inr st)
      else if gid = ''AG3'' then
        (if topic_role_value (gi_topic_role gi) \<in> set (cap_paging_denied_topic_roles (rb_caps rb))
            \<and> es_current_action st = PAGE
         then apply_gate_effect st (on_fail (gs_effect spec)) True False else Inr st)
      else if gid = ''AG4'' then
        (if action_priority (es_current_action st) < action_priority TICKET then Inr st
         else rbind (ag4_failure_reason_codes spec gi) (\<lambda>codes.
           if codes \<noteq> [] then
             rbind (apply_gate_effect st (on_fail (gs_effect spec)) True False) (\<lambda>st1.
               Inr (st1\<lparr>es_gate_reason_codes := es_gate_reason_codes st1 @ codes\<rparr>))
           else Inr st))
      else if gid = ''AG6'' then
        (if es_input_valid st \<and> gi_env gi = PROD_ENV \<and> gi_criticality_tier gi = TIER_0 then
           (if gi_peak gi = Some True \<and> gi_sustained gi
            then apply_gate_effect st (on_pass (gs_effect spec)) False False
            else apply_gate_effect st (on_fail (gs_effect spec)) False False)
         else Inr st)
      else Inr st)"

text \<open>
  AG5. The \<open>try\<close> block covers both store calls and the duplicate effect; any exception in it
  leads to the store-error effect on the unchanged evaluation state. The result of
  \<open>remember\<close> is discarded.
\<close>

definition evaluate_ag5 ::
  "('s \<Rightarrow> string \<Rightarrow> bool result \<times> 's) \<Rightarrow> ('s \<Rightarrow> string \<Rightarrow> action \<Rightarrow> bool result \<times> 's) \<Rightarrow>
   gate_input \<Rightarrow> gate_spec \<Rightarrow> evaluation_state \<Rightarrow> 's option \<Rightarrow> evaluation_state result \<times> 's option" where
  "evaluate_ag5 is_dup rem gi spec st store =
     (let store_error = apply_gate_effect st (on_store_error (gs_effect spec)) True False
      in if action_priority (es_current_action st) \<le> action_priority OBSERVE then (Inr st, store)
         else case store of
           None \<Rightarrow> (store_error, None)
         | Some s \<Rightarrow> (case is_dup s (gi_action_fingerprint gi) of
             (Inl e, s1) \<Rightarrow> (store_error, Some s1)
           | (Inr True, s1) \<Rightarrow>
               (case apply_gate_effect st (on_duplicate (gs_effect spec)) True False of
                  Inl e \<Rightarrow> (store_error, Some s1)
                | Inr st1 \<Rightarrow> (Inr st1, Some s1))
           | (Inr False, s1) \<Rightarrow>
               (case rem s1 (gi_action_fingerprint gi) (es_current_action st) of
                  (Inl e, s2) \<Rightarrow> (store_error, Some s2)
                | (Inr _, s2) \<Rightarrow> (Inr st, Some s2))))"

definition gate_spec_for :: "gate_spec list \<Rightarrow> string \<Rightarrow> gate_spec option" where
  "gate_spec_for gates gid = dict_get (rev (map (\<lambda>g. (gs_id g, g)) gates)) gid"

definition eval_gate ::
  "('s \<Rightarrow> string \<Rightarrow> bool result \<times> 's) \<Rightarrow> ('s \<Rightarrow> string \<Rightarrow> action \<Rightarrow> bool result \<times> 's) \<Rightarrow>
   gate_input \<Rightarrow> rulebook \<Rightarrow> string \<Rightarrow> evaluation_state \<Rightarrow> 's option \<Rightarrow> evaluation_state result \<times> 's option" where
  "eval_gate is_dup rem gi rb gid st store = (case gate_spec_for (rb_gates rb) gid of
       None \<Rightarrow> (raise KeyError gid, store)
     | Some spec \<Rightarrow> if gid = ''AG5'' then evaluate_ag5 is_dup rem gi spec st store
                   else (pure_gate gid gi rb spec st, store))"

fun run_gates ::
  "('s \<Rightarrow> string \<Rightarrow> bool result \<times> 's) \<Rightarrow> ('s \<Rightarrow> string \<Rightarrow> action \<Rightarrow> bool result \<times> 's) \<Rightarrow>
   gate_input \<Rightarrow> rulebook \<Rightarrow> string list \<Rightarrow> evaluation_state \<Rightarrow> 's option \<Rightarrow> evaluation_state result \<times> 's option" where
  "run_gates is_dup rem gi rb [] st store = (Inr st, store)"
| "run_gates is_dup rem gi rb (g # gs) st store = (case eval_gate is_dup rem gi rb g st store of
       (Inl e, store') \<Rightarrow> (Inl e, store')
     | (Inr st', store') \<Rightarrow> run_gates is_dup rem gi rb gs st' store')"

definition finalize_decision :: "gate_input \<Rightarrow> evaluation_state \<Rightarrow> action_decision" where
  "finalize_decision gi st =
     \<lparr>ad_final_action = es_current_action st,
      ad_env_cap_applied = es_env_cap_applied st,
      ad_gate_rule_ids = expected_gate_order,
      ad_gate_reason_codes = unique_in_order (es_gate_reason_codes st),
      ad_action_fingerprint = gi_action_fingerprint gi,
      ad_postmortem_required = es_postmortem_required st,
      ad_postmortem_mode =
        (if \<not> es_postmortem_required st then None
         else case es_postmortem_mode st of None \<Rightarrow> Some ''SOFT'' | Some m \<Rightarrow> Some m),
      ad_postmortem_reason_codes =
        (if \<not> es_postmortem_required st then [] else unique_in_order (es_postmortem_reason_codes st))\<rparr>"

definition evaluate_rulebook_gates ::
  "('s \<Rightarrow> string \<Rightarrow> bool result \<times> 's) \<Rightarrow> ('s \<Rightarrow> string \<Rightarrow> action \<Rightarrow> bool result \<times> 's) \<Rightarrow>
   gate_input \<Rightarrow> rulebook \<Rightarrow> 's option \<Rightarrow> action_decision result \<times> 's option" where
  "evaluate_rulebook_gates is_dup rem gi rb store = (case validate_rulebook_gate_order (rb_gates rb) of
       Inl e \<Rightarrow> (Inl e, store)
     | Inr _ \<Rightarrow>
         (case run_gates is_dup rem gi rb expected_gate_order (init_state (gi_proposed_action gi)) store of
            (Inl e, store') \<Rightarrow> (Inl e, store')
          | (Inr st, store') \<Rightarrow> (Inr (finalize_decision gi st), store')))"

fun evaluate_gate_inputs ::
  "('s \<Rightarrow> string \<Rightarrow> bool result \<times> 's) \<Rightarrow> ('s \<Rightarrow> string \<Rightarrow> action \<Rightarrow> bool result \<times> 's) \<Rightarrow>
   rulebook \<Rightarrow> gate_input list \<Rightarrow> 's option \<Rightarrow> action_decision list result \<times> 's option" where
  "evaluate_gate_inputs is_dup rem rb [] store = (Inr [], store)"
| "evaluate_gate_inputs is_dup rem rb (gi # gis) store =
     (case evaluate_rulebook_gates is_dup rem gi rb store of
        (Inl e, store1) \<Rightarrow> (Inl e, store1)
      | (Inr d, store1) \<Rightarrow> (case evaluate_gate_inputs is_dup rem rb gis store1 of
            (Inl e, store2) \<Rightarrow> (Inl e, store2)
          | (Inr ds, store2) \<Rightarrow> (Inr (d # ds), store2)))"

fun evaluate_scopes ::
  "('s \<Rightarrow> string \<Rightarrow> bool result \<times> 's) \<Rightarrow> ('s \<Rightarrow> string \<Rightarrow> action \<Rightarrow> bool result \<times> 's) \<Rightarrow>
   rulebook \<Rightarrow> (scope \<times> gate_input list) list \<Rightarrow> (scope, action_decision list) pydict \<Rightarrow> 's option \<Rightarrow>
   (scope, action_decision list) pydict result \<times> 's option" where
  "evaluate_scopes is_dup rem rb [] acc store = (Inr acc, store)"
| "evaluate_scopes is_dup rem rb ((sc, gis) # rest) acc store =
     (case evaluate_gate_inputs is_dup rem rb gis store of
        (Inl e, store1) \<Rightarrow> (Inl e, store1)
      | (Inr ds, store1) \<Rightarrow> evaluate_scopes is_dup rem rb rest (dict_set acc sc ds) store1)"

definition evaluate_rulebook_gate_inputs_by_scope ::
  "('s \<Rightarrow> string \<Rightarrow> bool result \<times> 's) \<Rightarrow> ('s \<Rightarrow> string \<Rightarrow> action \<Rightarrow> bool result \<times> 's) \<Rightarrow>
   rulebook \<Rightarrow> (scope, gate_input list) pydict \<Rightarrow> 's option \<Rightarrow>
   (scope, action_decision list) pydict result \<times> 's option" where
  "evaluate_rulebook_gate_inputs_by_scope is_dup rem rb inputs store =
     evaluate_scopes is_dup rem rb (sort_key fst inputs) [] store"

section \<open>Rulebook configuration predicates\<close>

text \<open>
  The configurations the properties speak about, as executable predicates on a rulebook:
  \<open>storm_control\<close> fixes the two AG5 effects, \<open>rulebook_runnable\<close> lists what an evaluation
  in a given environment needs in order not to raise.
\<close>

definition storm_control :: "rulebook \<Rightarrow> bool" where
  "storm_control rb = (case gate_spec_for (rb_gates rb) ''AG5'' of
       None \<Rightarrow> False
     | Some spec \<Rightarrow>
         (case on_duplicate (gs_effect spec) of None \<Rightarrow> False | Some ef \<Rightarrow> ef_cap_action_to ef = Some ''OBSERVE'') \<and>
         (case on_store_error (gs_effect spec) of None \<Rightarrow> False | Some ef \<Rightarrow> ef_cap_action_to ef = Some ''NOTIFY''))"

definition is_confidence_check :: "gate_check \<Rightarrow> bool" where
  "is_confidence_check c = (gc_type c = ''min_value'' \<and> dict_get (gc_extra c) ''field'' = Some (JStr ''diagnosis_confidence''))"

definition is_sustained_check :: "gate_check \<Rightarrow> bool" where
  "is_sustained_check c = (gc_type c = ''equals'' \<and> dict_get (gc_extra c) ''field'' = Some (JStr ''sustained''))"

definition ag4_config_ok :: "gate_check list \<Rightarrow> bool" where
  "ag4_config_ok cs =
     (list_all (\<lambda>c. is_confidence_check c \<longrightarrow> is_ok (numeric_min (dict_get (gc_extra c) ''min''))) cs \<and>
      list_all (\<lambda>c. is_sustained_check c \<longrightarrow>
        (case dict_get (gc_extra c) ''value'' of Some (JBool b) \<Rightarrow> True | _ \<Rightarrow> False)) cs \<and>
      list_ex is_confidence_check cs \<and> list_ex is_sustained_check cs)"

definition effect_ok :: "gate_effect option \<Rightarrow> bool" where
  "effect_ok ef = (case ef of None \<Rightarrow> True | Some e \<Rightarrow>
     (case ef_cap_action_to e of None \<Rightarrow> True | Some v \<Rightarrow> v = [] \<or> action_of_value v \<noteq> None))"

definition effects_ok :: "gate_spec \<Rightarrow> bool" where
  "effects_ok g = (effect_ok (on_fail (gs_effect g)) \<and> effect_ok (on_cap_applied (gs_effect g)) \<and>
     effect_ok (on_duplicate (gs_effect g)) \<and> effect_ok (on_store_error (gs_effect g)) \<and>
     effect_ok (on_pass (gs_effect g)))"

definition rulebook_runnable :: "rulebook \<Rightarrow> environment \<Rightarrow> bool" where
  "rulebook_runnable rb env =
     (is_ok (validate_rulebook rb) \<and> map gs_id (rb_gates rb) = expected_gate_order \<and>
      first_policy_entry (cap_max_action_by_env (rb_caps rb))
        (environment_value env # env_policy_fallback_keys (environment_value env)) \<noteq> None \<and>
      list_all effects_ok (rb_gates rb) \<and>
      (case gate_spec_for (rb_gates rb) ''AG4'' of None \<Rightarrow> False | Some g \<Rightarrow> ag4_config_ok (gs_checks g)))"

section \<open>Lemmas: every gate only lowers the action\<close>

lemma reduce_action_min [simp]: "reduce_action a b = min a b"
  by (simp add: reduce_action_def min_def less_eq_action_def)

lemma cap_action_to_max_safe_le: "cap_action_to_max_safe p m \<le> p" "m = Some x \<Longrightarrow> cap_action_to_max_safe p m \<le> x"
  by (auto simp: cap_action_to_max_safe_def less_eq_action_def split: option.splits)

lemma unique_loop_fromkeys: "unique_loop acc (set acc) vs = fromkeys_loop acc vs"
proof (induction vs arbitrary: acc)
  case (Cons v vs)
  from Cons [of "acc @ [v]"] Cons [of acc] show ?case by simp
qed simp

lemma unique_in_order_fromkeys: "unique_in_order vs = dict_fromkeys vs"
  using unique_loop_fromkeys [of "[]" vs] by (simp add: unique_in_order_def dict_fromkeys_def)

lemma unique_in_order_set [simp]: "set (unique_in_order vs) = set vs"
  by (simp add: unique_in_order_fromkeys)

lemma unique_in_order_distinct [simp]: "distinct (unique_in_order vs)"
  by (simp add: unique_in_order_fromkeys)

lemma effect_postmortem_frame [simp]:
  "es_current_action (effect_postmortem ef st) = es_current_action st"
  "es_gate_reason_codes (effect_postmortem ef st) = es_gate_reason_codes st"
  "es_env_cap_applied (effect_postmortem ef st) = es_env_cap_applied st"
  "es_input_valid (effect_postmortem ef st) = es_input_valid st"
  by (auto simp: effect_postmortem_def Let_def split: option.splits)

lemma effect_cap_ok:
  assumes "effect_cap ef al mk st = Inr st'"
  shows "es_current_action st' \<le> es_current_action st"
    and "es_input_valid st' = es_input_valid st"
    and "es_gate_reason_codes st' = es_gate_reason_codes st"
    and "es_postmortem_required st' = es_postmortem_required st"
    and "es_postmortem_mode st' = es_postmortem_mode st"
    and "es_postmortem_reason_codes st' = es_postmortem_reason_codes st"
    and "\<not> al \<Longrightarrow> st' = st"
  using assms by (auto simp: effect_cap_def Let_def split: option.splits if_splits elim!: rbind_InrE)

lemma apply_gate_effect_le:
  "apply_gate_effect st ef al mk = Inr st' \<Longrightarrow> es_current_action st' \<le> es_current_action st"
  by (auto simp: apply_gate_effect_def split: option.splits elim!: rbind_InrE dest: effect_cap_ok(1))

lemma apply_gate_effect_input_valid:
  "apply_gate_effect st ef al mk = Inr st' \<Longrightarrow> es_input_valid st' = es_input_valid st"
  by (auto simp: apply_gate_effect_def split: option.splits elim!: rbind_InrE dest: effect_cap_ok(2))

lemma evaluate_ag1_ok:
  assumes "evaluate_ag1 gi rb spec st = Inr st'"
  obtains env_cap where
    "lookup_action_policy_entry (cap_max_action_by_env (rb_caps rb)) (environment_value (gi_env gi))
       (env_policy_fallback_keys (environment_value (gi_env gi))) = Inr env_cap"
    and "es_current_action st' \<le> es_current_action st" and "es_current_action st' \<le> env_cap"
    and "gi_env gi = PROD_ENV \<Longrightarrow> \<exists>tier_cap. es_current_action st' \<le> tier_cap \<and>
       lookup_action_policy_entry (cap_max_action_by_tier_in_prod (rb_caps rb)) (tier_value (gi_criticality_tier gi)) []
         = Inr tier_cap"
  using assms
  by (fastforce simp: evaluate_ag1_def Let_def min_def split: if_splits elim!: rbind_InrE
      dest!: apply_gate_effect_le intro: order_trans)

lemma evaluate_ag1_le:
  "evaluate_ag1 gi rb spec st = Inr st' \<Longrightarrow> es_current_action st' \<le> es_current_action st"
  by (erule evaluate_ag1_ok)

lemma pure_gate_le:
  "pure_gate gid gi rb spec st = Inr st' \<Longrightarrow> es_current_action st' \<le> es_current_action st"
  by (auto simp: pure_gate_def split: if_splits elim!: rbind_InrE dest!: apply_gate_effect_le evaluate_ag1_le)

lemma evaluate_ag5_le:
  "evaluate_ag5 is_dup rem gi spec st store = (Inr st', store') \<Longrightarrow> es_current_action st' \<le> es_current_action st"
  by (auto simp: evaluate_ag5_def Let_def split: if_splits option.splits prod.splits sum.splits bool.splits
      dest!: apply_gate_effect_le)

lemma eval_gate_le:
  "eval_gate is_dup rem gi rb gid st store = (Inr st', store') \<Longrightarrow> es_current_action st' \<le> es_current_action st"
  by (auto simp: eval_gate_def split: option.splits if_splits dest: pure_gate_le evaluate_ag5_le)

lemma run_gates_le:
  "run_gates is_dup rem gi rb gs st store = (Inr st', store') \<Longrightarrow> es_current_action st' \<le> es_current_action st"
proof (induction gs arbitrary: st store)
  case (Cons g gs)
  then show ?case
    by (auto split: prod.splits sum.splits dest!: eval_gate_le intro: order_trans)
qed simp

text \<open>Every gate of a run that returned was passed, below the initial and above the final action.\<close>

lemma run_gates_passes:
  assumes "run_gates is_dup rem gi rb gs st store = (Inr st', store')" and "g \<in> set gs"
  obtains st1 store1 st2 store2 where
    "eval_gate is_dup rem gi rb g st1 store1 = (Inr st2, store2)"
    and "es_current_action st1 \<le> es_current_action st" and "es_current_action st' \<le> es_current_action st2"
  using assms
proof (induction gs arbitrary: st store thesis)
  case (Cons h gs)
  from Cons.prems(2) obtain st1 store1 where
    e: "eval_gate is_dup rem gi rb h st store = (Inr st1, store1)"
    and r: "run_gates is_dup rem gi rb gs st1 store1 = (Inr st', store')"
    by (auto split: prod.splits sum.splits)
  show ?case
  proof (cases "g = h")
    case True
    show ?thesis using Cons.prems(1) [OF e [folded True] order_refl run_gates_le [OF r]] .
  next
    case False
    with Cons.prems(3) have g: "g \<in> set gs" by simp
    obtain a b c d where "eval_gate is_dup rem gi rb g a b = (Inr c, d)"
      and "es_current_action a \<le> es_current_action st1" and "es_current_action st' \<le> es_current_action c"
      by (rule Cons.IH [OF _ r g])
    with eval_gate_le [OF e] show ?thesis by (blast intro: Cons.prems(1) order_trans)
  qed
qed simp

lemma evaluate_ok_run:
  assumes "evaluate_rulebook_gates is_dup rem gi rb store = (Inr d, store')"
  obtains st where "map gs_id (rb_gates rb) = expected_gate_order"
    and "run_gates is_dup rem gi rb expected_gate_order (init_state (gi_proposed_action gi)) store = (Inr st, store')"
    and "d = finalize_decision gi st"
  using assms
  by (auto simp: evaluate_rulebook_gates_def validate_rulebook_gate_order_def split: if_splits prod.splits sum.splits)

lemma finalize_simps [simp]:
  "ad_final_action (finalize_decision gi st) = es_current_action st"
  "ad_action_fingerprint (finalize_decision gi st) = gi_action_fingerprint gi"
  "ad_gate_rule_ids (finalize_decision gi st) = expected_gate_order"
  "ad_postmortem_required (finalize_decision gi st) = es_postmortem_required st"
  by (simp_all add: finalize_decision_def)

lemma init_state_action [simp]: "es_current_action (init_state a) = a"
  by (simp add: init_state_def)

lemma env_cap_respected:
  assumes "evaluate_rulebook_gates is_dup rem gi rb store = (Inr d, store')"
  shows "ad_final_action d \<le> gi_proposed_action gi"
    and "\<exists>env_cap. lookup_action_policy_entry (cap_max_action_by_env (rb_caps rb)) (environment_value (gi_env gi))
       (env_policy_fallback_keys (environment_value (gi_env gi))) = Inr env_cap \<and> ad_final_action d \<le> env_cap"
    and "gi_env gi = PROD_ENV \<Longrightarrow> \<exists>tier_cap. ad_final_action d \<le> tier_cap \<and>
       lookup_action_policy_entry (cap_max_action_by_tier_in_prod (rb_caps rb)) (tier_value (gi_criticality_tier gi)) []
         = Inr tier_cap"
proof -
  obtain st where run: "run_gates is_dup rem gi rb expected_gate_order (init_state (gi_proposed_action gi)) store
      = (Inr st, store')" and d: "d = finalize_decision gi st"
    using assms by (rule evaluate_ok_run)
  from run_gates_le [OF run] d show "ad_final_action d \<le> gi_proposed_action gi" by simp
  have ag1: "''AG1'' \<in> set expected_gate_order" by (simp add: expected_gate_order_def)
  obtain st1 store1 st2 store2 where e: "eval_gate is_dup rem gi rb ''AG1'' st1 store1 = (Inr st2, store2)"
    and le: "es_current_action st \<le> es_current_action st2"
    by (rule run_gates_passes [OF run ag1])
  from e obtain spec where "evaluate_ag1 gi rb spec st1 = Inr st2"
    by (auto simp: eval_gate_def pure_gate_def split: option.splits)
  then show "\<exists>env_cap. lookup_action_policy_entry (cap_max_action_by_env (rb_caps rb)) (environment_value (gi_env gi))
       (env_policy_fallback_keys (environment_value (gi_env gi))) = Inr env_cap \<and> ad_final_action d \<le> env_cap"
    and "gi_env gi = PROD_ENV \<Longrightarrow> \<exists>tier_cap. ad_final_action d \<le> tier_cap \<and>
       lookup_action_policy_entry (cap_max_action_by_tier_in_prod (rb_caps rb)) (tier_value (gi_criticality_tier gi)) []
         = Inr tier_cap"
    using le d by (auto elim!: evaluate_ag1_ok intro: order_trans)
qed

section \<open>Lemmas: storm control\<close>

lemma run_gates_append:
  "run_gates is_dup rem gi rb (xs @ ys) st store = (Inr st', store') \<longleftrightarrow>
   (\<exists>st1 store1. run_gates is_dup rem gi rb xs st store = (Inr st1, store1) \<and>
      run_gates is_dup rem gi rb ys st1 store1 = (Inr st', store'))"
  by (induction xs arbitrary: st store) (auto split: prod.splits sum.splits)

lemma eval_gate_pure_store:
  "g \<noteq> ''AG5'' \<Longrightarrow> snd (eval_gate is_dup rem gi rb g st store) = store"
  by (simp add: eval_gate_def split: option.splits)

lemma run_gates_pure_store:
  "''AG5'' \<notin> set gs \<Longrightarrow> snd (run_gates is_dup rem gi rb gs st store) = store"
proof (induction gs arbitrary: st)
  case (Cons g gs)
  then have "snd (eval_gate is_dup rem gi rb g st store) = store"
    by (intro eval_gate_pure_store) auto
  with Cons show ?case by (cases "eval_gate is_dup rem gi rb g st store") (auto split: sum.splits)
qed simp

lemma apply_gate_effect_cap:
  assumes "apply_gate_effect st (Some ef) True mk = Inr st'" and "ef_cap_action_to ef = Some (action_value c)"
  shows "es_current_action st' = min (es_current_action st) c"
proof -
  have "action_value c \<noteq> []" by (cases c) simp_all
  with assms show ?thesis
    by (auto simp: apply_gate_effect_def effect_cap_def action_from_policy_value_def Let_def elim!: rbind_InrE)
qed

lemma apply_gate_effect_no_action:
  "apply_gate_effect st ef False mk = Inr st' \<Longrightarrow> es_current_action st' = es_current_action st"
  by (auto simp: apply_gate_effect_def split: option.splits elim!: rbind_InrE dest: effect_cap_ok(7))

lemma ag6_keeps_action:
  "eval_gate is_dup rem gi rb ''AG6'' st store = (Inr st', store') \<Longrightarrow>
   es_current_action st' = es_current_action st \<and> store' = store"
  by (auto simp: eval_gate_def pure_gate_def split: option.splits if_splits dest: apply_gate_effect_no_action)

text \<open>
  A completed evaluation splits at AG5: the gates before it leave the store alone, AG6 after it
  leaves the action and the store alone.
\<close>

lemma evaluate_split_ag5:
  assumes "evaluate_rulebook_gates is_dup rem gi rb store = (Inr d, store')"
  obtains st4 st5 spec where
    "run_gates is_dup rem gi rb [''AG0'', ''AG1'', ''AG2'', ''AG3'', ''AG4''] (init_state (gi_proposed_action gi)) store
       = (Inr st4, store)"
    and "gate_spec_for (rb_gates rb) ''AG5'' = Some spec"
    and "evaluate_ag5 is_dup rem gi spec st4 store = (Inr st5, store')"
    and "ad_final_action d = es_current_action st5"
proof -
  let ?pre = "[''AG0'', ''AG1'', ''AG2'', ''AG3'', ''AG4'']"
  obtain st where run: "run_gates is_dup rem gi rb expected_gate_order (init_state (gi_proposed_action gi)) store
      = (Inr st, store')" and d: "d = finalize_decision gi st"
    using assms by (rule evaluate_ok_run)
  have ord: "expected_gate_order = ?pre @ [''AG5'', ''AG6'']" by (simp add: expected_gate_order_def)
  from run [unfolded ord run_gates_append] obtain st4 store4 where
    pre: "run_gates is_dup rem gi rb ?pre (init_state (gi_proposed_action gi)) store = (Inr st4, store4)"
    and post: "run_gates is_dup rem gi rb [''AG5'', ''AG6''] st4 store4 = (Inr st, store')"
    by blast
  have "store4 = store"
    using run_gates_pure_store [of ?pre is_dup rem gi rb "init_state (gi_proposed_action gi)" store] pre by simp
  from post obtain st5 store5 where
    e5: "eval_gate is_dup rem gi rb ''AG5'' st4 store4 = (Inr st5, store5)"
    and e6: "eval_gate is_dup rem gi rb ''AG6'' st5 store5 = (Inr st, store')"
    by (auto split: prod.splits sum.splits)
  from ag6_keeps_action [OF e6] have "es_current_action st = es_current_action st5" "store5 = store'" by auto
  with e5 pre d \<open>store4 = store\<close> show ?thesis
    by (auto simp: eval_gate_def split: option.splits intro: that)
qed

lemma storm_control_ag5:
  assumes "storm_control rb" "gate_spec_for (rb_gates rb) ''AG5'' = Some spec"
  shows "apply_gate_effect st (on_duplicate (gs_effect spec)) True mk = Inr st' \<Longrightarrow> es_current_action st' = OBSERVE"
    and "apply_gate_effect st (on_store_error (gs_effect spec)) True mk = Inr st' \<Longrightarrow> es_current_action st' \<le> NOTIFY"
  using assms apply_gate_effect_cap [of st _ mk st' OBSERVE] apply_gate_effect_cap [of st _ mk st' NOTIFY]
  by (auto simp: storm_control_def min_def split: option.splits)

context gate_dedupe_store
begin

text \<open>What AG5 guarantees against a store that may fail at any call.\<close>

lemma ag5_storm_control:
  assumes sc: "storm_control rb" "gate_spec_for (rb_gates rb) ''AG5'' = Some spec"
    and e: "evaluate_ag5 is_dup rem gi spec st (Some s) = (Inr st', store')" and inv: "invar s"
  obtains s' where "store' = Some s'" "invar s'" "\<And>g. active s g \<Longrightarrow> active s' g"
    "es_current_action st' \<le> NOTIFY \<or> \<not> active s (gi_action_fingerprint gi) \<and> active s' (gi_action_fingerprint gi)"
proof -
  note eff = storm_control_ag5 [OF sc]
  let ?f = "gi_action_fingerprint gi"
  obtain b s1 where d: "is_dup s ?f = (b, s1)" by fastforce
  show ?thesis
  proof (cases "action_priority (es_current_action st) \<le> action_priority OBSERVE")
    case True
    then have "es_current_action st = OBSERVE" by (cases "es_current_action st") simp_all
    with True e inv that [of s] show ?thesis by (auto simp: evaluate_ag5_def)
  next
    case False
    show ?thesis
    proof (cases b)
      case (Inl x)
      with e False d have "store' = Some s1" "es_current_action st' \<le> NOTIFY"
        by (auto simp: evaluate_ag5_def Let_def dest: eff(2))
      with is_dup_err [of s ?f x s1] inv d Inl that [of s1] show ?thesis by simp
    next
      case (Inr dup)
      have s1: "invar s1" "dup = active s ?f" "active s1 = active s"
        using is_dup_ok [of s ?f dup s1] inv d Inr by auto
      show ?thesis
      proof (cases dup)
        case True
        with e False d Inr have "store' = Some s1" "es_current_action st' \<le> NOTIFY"
          by (auto simp: evaluate_ag5_def Let_def split: sum.splits dest: eff)
        with s1 that [of s1] show ?thesis by simp
      next
        case nd: False
        obtain r s2 where rm: "rem s1 ?f (es_current_action st) = (r, s2)" by fastforce
        show ?thesis
        proof (cases r)
          case (Inl x)
          with e False d Inr nd rm have "store' = Some s2" "es_current_action st' \<le> NOTIFY"
            by (auto simp: evaluate_ag5_def Let_def dest: eff(2))
          moreover have "invar s2" "\<And>g. active s g \<Longrightarrow> active s2 g"
            using rem_err [OF s1(1) rm [unfolded Inl]] s1(3) by auto
          ultimately show ?thesis using that [of s2] by blast
        next
          case ok: (Inr x)
          with e False d Inr nd rm have "store' = Some s2" by (auto simp: evaluate_ag5_def Let_def)
          moreover have "invar s2" "active s2 = (active s)(?f := True)"
            using rem_ok [OF s1(1) rm [unfolded ok]] s1(3) by auto
          ultimately show ?thesis using that [of s2] s1(2) nd by auto
        qed
      qed
    qed
  qed
qed

lemma evaluate_storm_control:
  assumes "storm_control rb" and "evaluate_rulebook_gates is_dup rem gi rb (Some s) = (Inr d, store')" and "invar s"
  obtains s' where "store' = Some s'" "invar s'" "\<And>g. active s g \<Longrightarrow> active s' g"
    "ad_final_action d \<le> NOTIFY \<or> \<not> active s (gi_action_fingerprint gi) \<and> active s' (gi_action_fingerprint gi)"
proof -
  obtain st4 st5 spec where "gate_spec_for (rb_gates rb) ''AG5'' = Some spec"
    and "evaluate_ag5 is_dup rem gi spec st4 (Some s) = (Inr st5, store')"
    and "ad_final_action d = es_current_action st5"
    using assms(2) by (rule evaluate_split_ag5)
  with assms(1,3) that show ?thesis by (metis ag5_storm_control)
qed

text \<open>Fingerprints already active get no ticket or page for the rest of the batch.\<close>

lemma batch_active_capped:
  assumes "storm_control rb" and "evaluate_gate_inputs is_dup rem rb gis (Some s) = (Inr ds, store')" and "invar s"
    and "active s f"
  shows "list_all2 (\<lambda>gi d. gi_action_fingerprint gi = f \<longrightarrow> ad_final_action d \<le> NOTIFY) gis ds"
  using assms(2-4)
proof (induction gis arbitrary: s ds)
  case (Cons gi gis)
  from Cons.prems(1) obtain d st1 ds' where
    e: "evaluate_rulebook_gates is_dup rem gi rb (Some s) = (Inr d, st1)"
    and r: "evaluate_gate_inputs is_dup rem rb gis st1 = (Inr ds', store')" and ds: "ds = d # ds'"
    by (auto split: prod.splits sum.splits)
  obtain s1 where s1: "st1 = Some s1" "invar s1" "\<And>g. active s g \<Longrightarrow> active s1 g"
    "ad_final_action d \<le> NOTIFY \<or> \<not> active s (gi_action_fingerprint gi) \<and> active s1 (gi_action_fingerprint gi)"
    using evaluate_storm_control [OF assms(1) e Cons.prems(2)] by blast
  from Cons.IH [OF r [unfolded s1(1)] s1(2) s1(3) [OF Cons.prems(3)]] s1(4) Cons.prems(3) ds
  show ?case by auto
qed simp

lemma batch_at_most_one_urgent:
  assumes "storm_control rb" and "evaluate_gate_inputs is_dup rem rb gis (Some s) = (Inr ds, store')" and "invar s"
    and "i < j" "j < length gis" "gi_action_fingerprint (gis ! i) = gi_action_fingerprint (gis ! j)"
    and "NOTIFY < ad_final_action (ds ! i)"
  shows "ad_final_action (ds ! j) \<le> NOTIFY"
  using assms(2-7)
proof (induction gis arbitrary: s ds i j)
  case (Cons gi gis)
  from Cons.prems(1) obtain d st1 ds' where
    e: "evaluate_rulebook_gates is_dup rem gi rb (Some s) = (Inr d, st1)"
    and r: "evaluate_gate_inputs is_dup rem rb gis st1 = (Inr ds', store')" and ds: "ds = d # ds'"
    by (auto split: prod.splits sum.splits)
  obtain s1 where s1: "st1 = Some s1" "invar s1" "\<And>g. active s g \<Longrightarrow> active s1 g"
    "ad_final_action d \<le> NOTIFY \<or> \<not> active s (gi_action_fingerprint gi) \<and> active s1 (gi_action_fingerprint gi)"
    using evaluate_storm_control [OF assms(1) e Cons.prems(2)] by blast
  obtain j' where j: "j = Suc j'" using Cons.prems(3) by (cases j) auto
  show ?case
  proof (cases i)
    case 0
    with Cons.prems ds s1(4) have "active s1 (gi_action_fingerprint gi)" by auto
    from batch_active_capped [OF assms(1) r [unfolded s1(1)] s1(2) this] Cons.prems(4,5) 0 j ds
    show ?thesis by (auto simp: list_all2_conv_all_nth)
  next
    case (Suc i')
    with Cons.IH [OF r [unfolded s1(1)] s1(2), of i' j'] Cons.prems(3-6) j ds show ?thesis by simp
  qed
qed simp

end

section \<open>Lemmas: a runnable rulebook never raises\<close>

lemma apply_gate_effect_total: "effect_ok ef \<Longrightarrow> is_ok (apply_gate_effect st ef al mk)"
  by (auto simp: effect_ok_def apply_gate_effect_def effect_cap_def action_from_policy_value_def Let_def
      split: option.splits)

lemma ag4_loop_total:
  assumes "list_all (\<lambda>c. is_confidence_check c \<longrightarrow> is_ok (numeric_min (dict_get (gc_extra c) ''min''))) cs"
    and "list_all (\<lambda>c. is_sustained_check c \<longrightarrow>
        (case dict_get (gc_extra c) ''value'' of Some (JBool b) \<Rightarrow> True | _ \<Rightarrow> False)) cs"
  shows "\<exists>codes'. ag4_loop gi cs codes conf sus =
     Inr (codes', conf \<or> list_ex is_confidence_check cs, sus \<or> list_ex is_sustained_check cs)"
  using assms
proof (induction cs arbitrary: codes conf sus)
  case (Cons c cs)
  have IH: "\<And>codes conf sus. \<exists>codes'. ag4_loop gi cs codes conf sus =
     Inr (codes', conf \<or> list_ex is_confidence_check cs, sus \<or> list_ex is_sustained_check cs)"
    by (rule Cons.IH) (use Cons.prems in auto)
  show ?case
  proof (cases "is_confidence_check c")
    case True
    then have c: "gc_type c = ''min_value''" "dict_get (gc_extra c) ''field'' = Some (JStr ''diagnosis_confidence'')"
      and n: "\<not> is_sustained_check c" by (auto simp: is_confidence_check_def is_sustained_check_def)
    obtain m where "numeric_min (dict_get (gc_extra c) ''min'') = Inr m"
      using Cons.prems(1) True by (auto simp: is_ok_iff)
    then have "\<exists>codes1. ag4_loop gi (c # cs) codes conf sus = ag4_loop gi cs codes1 True sus"
      using c by (simp add: Let_def) metis
    with IH [of _ True sus] n True show ?thesis by fastforce
  next
    case False
    show ?thesis
    proof (cases "is_sustained_check c")
      case True
      then have c: "gc_type c = ''equals''" "dict_get (gc_extra c) ''field'' = Some (JStr ''sustained'')"
        by (auto simp: is_sustained_check_def)
      obtain b where "dict_get (gc_extra c) ''value'' = Some (JBool b)"
        using Cons.prems(2) True by (auto split: option.splits jval.splits)
      then have "\<exists>codes1. ag4_loop gi (c # cs) codes conf sus = ag4_loop gi cs codes1 conf True"
        using c by (simp add: Let_def) metis
      with IH [of _ conf True] True False show ?thesis by fastforce
    next
      case no: False
      with False have "ag4_loop gi (c # cs) codes conf sus = ag4_loop gi cs codes conf sus"
        by (auto simp: is_confidence_check_def is_sustained_check_def Let_def)
      with IH [of codes conf sus] False no show ?thesis by simp
    qed
  qed
qed simp

lemma ag4_total: "ag4_config_ok (gs_checks spec) \<Longrightarrow> is_ok (ag4_failure_reason_codes spec gi)"
  using ag4_loop_total [of "gs_checks spec" gi "[]" False False]
  by (auto simp: ag4_config_ok_def ag4_failure_reason_codes_def)

lemma lookup_total:
  assumes "first_policy_entry m (k # fb) = Some v" "\<And>v k. dict_get m k = Some v \<Longrightarrow> \<exists>a. action_of_value v = Some a"
  shows "is_ok (lookup_action_policy_entry m k fb)"
proof -
  have "first_policy_entry m ks = Some v \<Longrightarrow> \<exists>k. dict_get m k = Some v" for ks
    by (induction ks) (auto split: option.splits)
  from this [OF assms(1)] assms show ?thesis
    by (auto simp: lookup_action_policy_entry_def action_from_policy_value_def split: option.splits)
qed

lemma evaluate_ag1_total:
  assumes "rulebook_runnable rb (gi_env gi)" and "effect_ok (on_cap_applied (gs_effect spec))"
  shows "is_ok (evaluate_ag1 gi rb spec st)"
proof -
  let ?env = "environment_value (gi_env gi)"
  from assms(1) obtain c1 c2 where c: "validate_max_action_by_env (cap_max_action_by_env (rb_caps rb)) = Inr c1"
    "validate_max_action_by_tier_in_prod (cap_max_action_by_tier_in_prod (rb_caps rb)) = Inr c2"
    by (auto simp: rulebook_runnable_def is_ok_iff validate_rulebook_def elim!: rbind_InrE)
  obtain v where v: "first_policy_entry (cap_max_action_by_env (rb_caps rb)) (?env # env_policy_fallback_keys ?env) = Some v"
    using assms(1) unfolding rulebook_runnable_def by blast
  have "is_ok (lookup_action_policy_entry (cap_max_action_by_env (rb_caps rb)) ?env (env_policy_fallback_keys ?env))"
    using v validate_max_action_by_env_lookup [OF c(1)] by (rule lookup_total)
  then obtain env_cap where env: "lookup_action_policy_entry (cap_max_action_by_env (rb_caps rb)) ?env
      (env_policy_fallback_keys ?env) = Inr env_cap"
    by (auto simp: is_ok_iff)
  obtain tier_cap where tier: "lookup_action_policy_entry (cap_max_action_by_tier_in_prod (rb_caps rb))
      (tier_value (gi_criticality_tier gi)) [] = Inr tier_cap"
    using validate_tier_caps_lookup [OF c(2), of "gi_criticality_tier gi"]
    by (auto simp: lookup_action_policy_entry_def action_from_policy_value_def)
  show ?thesis
    using env tier apply_gate_effect_total [OF assms(2)] by (simp add: evaluate_ag1_def Let_def)
qed

lemma pure_gate_total:
  assumes "rulebook_runnable rb (gi_env gi)" and "effects_ok spec"
    and "gid = ''AG4'' \<Longrightarrow> ag4_config_ok (gs_checks spec)"
  shows "is_ok (pure_gate gid gi rb spec st)"
proof -
  have ef: "effect_ok (on_fail (gs_effect spec))" "effect_ok (on_cap_applied (gs_effect spec))"
    "effect_ok (on_pass (gs_effect spec))" using assms(2) by (auto simp: effects_ok_def)
  note tot = apply_gate_effect_total [OF ef(1)] apply_gate_effect_total [OF ef(3)] evaluate_ag1_total [OF assms(1) ef(2)]
  show ?thesis
  proof (cases "gid = ''AG4''")
    case True
    obtain codes where "ag4_failure_reason_codes spec gi = Inr codes"
      using ag4_total [OF assms(3) [OF True]] by (auto simp: is_ok_iff)
    moreover obtain st1 where "apply_gate_effect st (on_fail (gs_effect spec)) True False = Inr st1"
      using tot(1) [of st True False] by (auto simp: is_ok_iff)
    ultimately show ?thesis using True by (simp add: pure_gate_def)
  qed (simp add: pure_gate_def tot)
qed

lemma evaluate_ag5_total:
  assumes "effects_ok spec"
  shows "is_ok (fst (evaluate_ag5 is_dup rem gi spec st store))"
proof -
  have "effect_ok (on_store_error (gs_effect spec))" using assms by (simp add: effects_ok_def)
  from apply_gate_effect_total [OF this] show ?thesis
    by (auto simp: evaluate_ag5_def Let_def split: option.splits prod.splits sum.splits bool.splits)
qed

lemma gate_spec_for_ex:
  assumes "gid \<in> set (map gs_id gates)"
  obtains spec where "gate_spec_for gates gid = Some spec" "spec \<in> set gates"
proof -
  from assms obtain g where "(gid, g) \<in> set (rev (map (\<lambda>g. (gs_id g, g)) gates))" by auto
  then obtain spec where "gate_spec_for gates gid = Some spec"
    unfolding gate_spec_for_def using weak_map_of_SomeI by fastforce
  moreover from this have "spec \<in> set gates" by (auto simp: gate_spec_for_def dest!: map_of_SomeD)
  ultimately show ?thesis by (rule that)
qed

lemma eval_gate_total:
  assumes "rulebook_runnable rb (gi_env gi)" and "gid \<in> set expected_gate_order"
  shows "is_ok (fst (eval_gate is_dup rem gi rb gid st store))"
proof -
  have "gid \<in> set (map gs_id (rb_gates rb))" using assms by (simp add: rulebook_runnable_def)
  then obtain spec where spec: "gate_spec_for (rb_gates rb) gid = Some spec" and "spec \<in> set (rb_gates rb)"
    by (rule gate_spec_for_ex)
  then have ok: "effects_ok spec" using assms(1) by (auto simp: rulebook_runnable_def list_all_iff)
  have "gid = ''AG4'' \<Longrightarrow> ag4_config_ok (gs_checks spec)"
    using assms(1) spec by (auto simp: rulebook_runnable_def)
  with pure_gate_total [OF assms(1) ok] evaluate_ag5_total [OF ok, of is_dup rem gi st store] spec show ?thesis
    by (simp add: eval_gate_def)
qed

lemma run_gates_total:
  assumes "rulebook_runnable rb (gi_env gi)" and "set gs \<subseteq> set expected_gate_order"
  shows "is_ok (fst (run_gates is_dup rem gi rb gs st store))"
  using assms(2)
proof (induction gs arbitrary: st store)
  case (Cons g gs)
  with eval_gate_total [OF assms(1), of g is_dup rem st store] show ?case
    by (auto split: prod.splits sum.splits)
qed simp

lemma evaluate_total:
  assumes "rulebook_runnable rb (gi_env gi)"
  shows "\<exists>d store'. evaluate_rulebook_gates is_dup rem gi rb store = (Inr d, store')"
  using run_gates_total [OF assms subset_refl, of is_dup rem "init_state (gi_proposed_action gi)" store] assms
  by (auto simp: evaluate_rulebook_gates_def validate_rulebook_gate_order_def rulebook_runnable_def is_ok_iff
      split: prod.splits)

end
