(* ===== verification/Gate_Inputs.thy ===== *)
theory Gate_Inputs
  imports Gating
begin

text \<open>
  Gate-input assembly: the second half of \<open>pipeline/stages/gating.py\<close>
  (\<open>collect_gate_inputs_by_scope\<close> with its helpers) and the scheduler's Stage 4 cycle
  (\<open>run_gate_input_stage_cycle\<close> of \<open>pipeline/scheduler.py\<close>), which filters the scopes that
  have a topology context before it assembles. Latency alerts and logging are left out.
\<close>

section \<open>Context and scope helpers\<close>

record gate_input_context =
  cx_stream_id :: string
  cx_topic_role :: topic_role
  cx_criticality_tier :: criticality_tier
  cx_source_system :: "string option"
  cx_proposed_action :: action
  cx_diagnosis_confidence :: pyfloat
  cx_partition_count_observed :: "int option"
  cx_case_id :: "string option"
  cx_decision_basis :: "(string, jval) pydict option"

definition resolve_context_for_scope ::
  "scope \<Rightarrow> (scope, gate_input_context) pydict \<Rightarrow> gate_input_context option" where
  "resolve_context_for_scope sc ctxs = (case dict_get ctxs sc of
       Some c \<Rightarrow> Some c
     | None \<Rightarrow> if length sc = 4 then dict_get ctxs [sc ! 0, sc ! 1, sc ! 3] else None)"

definition anomaly_family_from_gate_finding_name :: "string \<Rightarrow> anomaly_family result" where
  "anomaly_family_from_gate_finding_name name =
     (let normalized = py_upper (py_strip name)
      in if normalized = ''CONSUMER_LAG'' then Inr CONSUMER_LAG
         else if normalized = ''VOLUME_DROP'' then Inr VOLUME_DROP
         else if normalized = ''THROUGHPUT_CONSTRAINED_PROXY'' then Inr THROUGHPUT_CONSTRAINED_PROXY
         else raise ValueError ''Unsupported finding name for anomaly family mapping'')"

definition topic_from_scope :: "scope \<Rightarrow> string result" where
  "topic_from_scope sc = (if length sc = 3 then Inr (sc ! 2) else if length sc = 4 then Inr (sc ! 3)
     else raise ValueError ''Unsupported scope shape for topic extraction'')"

definition consumer_group_from_scope :: "scope \<Rightarrow> string option" where
  "consumer_group_from_scope sc = (if length sc = 4 then Some (sc ! 2) else None)"

definition sustained_identity_key :: "scope \<Rightarrow> anomaly_family \<Rightarrow> sustained_key result" where
  "sustained_identity_key sc fam =
     (if length sc = 3 then Inr (sc ! 0, sc ! 1, ''topic:'' @ sc ! 2, anomaly_family_value fam)
      else if length sc = 4 then Inr (sc ! 0, sc ! 1, ''group:'' @ sc ! 2, anomaly_family_value fam)
      else raise ValueError ''Unsupported scope shape for sustained identity key'')"

definition action_fingerprint ::
  "string \<Rightarrow> string \<Rightarrow> string \<Rightarrow> string \<Rightarrow> string \<Rightarrow> string \<Rightarrow> string \<Rightarrow> string option \<Rightarrow> string" where
  "action_fingerprint env cluster_id stream_id role topic family tier consumer_group =
     (let parts = [env, cluster_id, stream_id, role, topic, family, tier]
      in py_join ''/'' (case consumer_group of None \<Rightarrow> parts | Some g \<Rightarrow> parts @ [''group:'' @ g]))"

section \<open>Assembly\<close>

text \<open>The constructor's range check on \<open>diagnosis_confidence\<close> (\<open>ge=0.0, le=1.0\<close>).\<close>

definition mk_gate_input :: "gate_input \<Rightarrow> gate_input result" where
  "mk_gate_input gi =
     (if fl_le (Fin 0) (gi_diagnosis_confidence gi) \<and> fl_le (gi_diagnosis_confidence gi) (Fin 1) then Inr gi
      else raise ValueError ''diagnosis_confidence must be between 0 and 1'')"

definition assemble_gate_input ::
  "peak_stage_output \<Rightarrow> action option \<Rightarrow> gate_input_context \<Rightarrow> scope \<Rightarrow> environment \<Rightarrow> string \<Rightarrow>
   status_map \<Rightarrow> bool option \<Rightarrow> finding list \<Rightarrow> finding \<Rightarrow> gate_input result" where
  "assemble_gate_input po max_safe ctx sc env topic statuses peak findings f =
     rbind (anomaly_family_from_gate_finding_name (fi_name f)) (\<lambda>family.
     rbind (sustained_identity_key sc family) (\<lambda>skey.
     mk_gate_input
       \<lparr>gi_env = env, gi_cluster_id = sc ! 1, gi_stream_id = cx_stream_id ctx, gi_topic = topic,
        gi_topic_role = cx_topic_role ctx, gi_anomaly_family = family,
        gi_criticality_tier = cx_criticality_tier ctx,
        gi_proposed_action = cap_action_to_max_safe (cx_proposed_action ctx) max_safe,
        gi_diagnosis_confidence = cx_diagnosis_confidence ctx,
        gi_sustained = (case dict_get (po_sustained_by_key po) skey of Some s \<Rightarrow> ss_is_sustained s | None \<Rightarrow> False),
        gi_findings = findings, gi_evidence_status_map = statuses,
        gi_action_fingerprint = action_fingerprint (environment_value env) (sc ! 1) (cx_stream_id ctx)
          (topic_role_value (cx_topic_role ctx)) topic (anomaly_family_value family)
          (tier_value (cx_criticality_tier ctx)) (consumer_group_from_scope sc),
        gi_consumer_group = consumer_group_from_scope sc,
        gi_partition_count_observed = cx_partition_count_observed ctx, gi_peak = peak,
        gi_case_id = cx_case_id ctx, gi_decision_basis = cx_decision_basis ctx\<rparr>))"

fun collect_findings ::
  "(finding \<Rightarrow> gate_input result) \<Rightarrow> scope \<Rightarrow> finding list \<Rightarrow> (scope, gate_input list) pydict \<Rightarrow>
   (scope, gate_input list) pydict result" where
  "collect_findings mk sc [] acc = Inr acc"
| "collect_findings mk sc (f # fs) acc = rbind (mk f) (\<lambda>gi. collect_findings mk sc fs (dd_append acc sc gi))"

definition collect_scope ::
  "evidence_stage_output \<Rightarrow> peak_stage_output \<Rightarrow> (scope, gate_input_context) pydict \<Rightarrow> action option \<Rightarrow>
   scope \<Rightarrow> finding list \<Rightarrow> (scope, gate_input list) pydict \<Rightarrow> (scope, gate_input list) pydict result" where
  "collect_scope ev po ctxs max_safe sc findings acc = (case resolve_context_for_scope sc ctxs of
       None \<Rightarrow> raise KeyError ''Missing gate-input context for scope''
     | Some ctx \<Rightarrow>
         rbind (topic_from_scope sc) (\<lambda>topic.
         case environment_of_value (sc ! 0) of
           None \<Rightarrow> raise ValueError ''not a valid Environment''
         | Some env \<Rightarrow>
             let statuses = (case dict_get (eo_evidence_status_map_by_scope ev) sc of Some m \<Rightarrow> m | None \<Rightarrow> []);
                 peak = map_option pw_is_peak_window
                   (dict_get (po_peak_context_by_scope po) [environment_value env, sc ! 1, topic])
             in collect_findings (assemble_gate_input po max_safe ctx sc env topic statuses peak findings) sc findings acc))"

fun collect_scopes ::
  "evidence_stage_output \<Rightarrow> peak_stage_output \<Rightarrow> (scope, gate_input_context) pydict \<Rightarrow> action option \<Rightarrow>
   (scope \<times> finding list) list \<Rightarrow> (scope, gate_input list) pydict \<Rightarrow> (scope, gate_input list) pydict result" where
  "collect_scopes ev po ctxs max_safe [] acc = Inr acc"
| "collect_scopes ev po ctxs max_safe ((sc, fs) # rest) acc =
     rbind (collect_scope ev po ctxs max_safe sc fs acc) (\<lambda>acc'. collect_scopes ev po ctxs max_safe rest acc')"

definition collect_gate_inputs_by_scope ::
  "evidence_stage_output \<Rightarrow> peak_stage_output \<Rightarrow> (scope, gate_input_context) pydict \<Rightarrow> action option \<Rightarrow>
   (scope, gate_input list) pydict result" where
  "collect_gate_inputs_by_scope ev po ctxs max_safe =
     rbind (collect_scopes ev po ctxs max_safe (sort_key fst (eo_gate_findings_by_scope ev)) []) (\<lambda>acc.
       Inr (sort_key fst acc))"

section \<open>The scheduler's cycle\<close>

definition has_gate_input_context :: "scope \<Rightarrow> (scope, gate_input_context) pydict \<Rightarrow> bool" where
  "has_gate_input_context sc ctxs =
     (if sc \<in> set (map fst ctxs) then True
      else if length sc = 4 then [sc ! 0, sc ! 1, sc ! 3] \<in> set (map fst ctxs)
      else False)"

definition filter_resolved ::
  "(scope, gate_input_context) pydict \<Rightarrow> evidence_stage_output \<Rightarrow> evidence_stage_output" where
  "filter_resolved ctxs ev =
     (let kept = filter (\<lambda>(sc, fs). has_gate_input_context sc ctxs) (eo_gate_findings_by_scope ev)
      in ev\<lparr>eo_gate_findings_by_scope := kept,
            eo_evidence_status_map_by_scope := map (\<lambda>(sc, fs).
              (sc, case dict_get (eo_evidence_status_map_by_scope ev) sc of Some m \<Rightarrow> m | None \<Rightarrow> [])) kept\<rparr>)"

definition run_gate_input_stage_cycle ::
  "evidence_stage_output \<Rightarrow> peak_stage_output \<Rightarrow> (scope, gate_input_context) pydict \<Rightarrow>
   (scope, gate_input list) pydict result" where
  "run_gate_input_stage_cycle ev po ctxs =
     (let filtered = filter_resolved ctxs ev
      in collect_gate_inputs_by_scope filtered po ctxs (eo_max_safe_action filtered))"

text \<open>\<open>run_gate_decision_stage_cycle\<close>: the rulebook evaluation of the assembled inputs.\<close>

definition run_gate_decision_stage_cycle ::
  "('s \<Rightarrow> string \<Rightarrow> bool result \<times> 's) \<Rightarrow> ('s \<Rightarrow> string \<Rightarrow> action \<Rightarrow> bool result \<times> 's) \<Rightarrow>
   (scope, gate_input list) pydict \<Rightarrow> rulebook \<Rightarrow> 's option \<Rightarrow>
   (scope, action_decision list) pydict result \<times> 's option" where
  "run_gate_decision_stage_cycle is_dup rem inputs rb store =
     evaluate_rulebook_gate_inputs_by_scope is_dup rem rb inputs store"

text \<open>A property of every assembled input, for the invariants below.\<close>

definition all_inputs :: "(gate_input \<Rightarrow> bool) \<Rightarrow> (scope, gate_input list) pydict \<Rightarrow> bool" where
  "all_inputs P acc = (dict_wf acc \<and> (\<forall>(sc, gis) \<in> set acc. \<forall>gi \<in> set gis. P gi))"

text \<open>The peak flags an input can carry: none, or that of a peak context of the output.\<close>

definition peak_flag_of :: "peak_stage_output \<Rightarrow> bool option \<Rightarrow> bool" where
  "peak_flag_of po pk = (pk = None \<or> (\<exists>k c. dict_get (po_peak_context_by_scope po) k = Some c \<and> pk = Some (pw_is_peak_window c)))"

text \<open>One degraded evaluation cycle, for the witnesses.\<close>

definition sample_evidence :: evidence_stage_output where
  "sample_evidence = \<lparr>eo_rows = [], eo_anomaly_result = mk_anomaly_detection_result [],
     eo_gate_findings_by_scope = [([''prod'', ''c1'', ''orders''],
       [\<lparr>fi_finding_id = ''f1'', fi_name = ''volume_drop'', fi_is_anomalous = True, fi_evidence_required = [],
         fi_allowed = [], fi_is_primary = None, fi_severity = None, fi_reason_codes = []\<rparr>])],
     eo_evidence_status_map_by_scope = [], eo_telemetry_degraded_active = True, eo_telemetry_degraded_events = [],
     eo_max_safe_action = Some NOTIFY\<rparr>"

definition sample_peak :: peak_stage_output where
  "sample_peak = \<lparr>po_profiles_by_scope = [], po_classifications_by_scope = [], po_peak_context_by_scope = [],
     po_evidence_status_map_by_scope = [], po_sustained_by_key = []\<rparr>"

definition sample_contexts :: "(scope, gate_input_context) pydict" where
  "sample_contexts = [([''prod'', ''c1'', ''orders''],
     \<lparr>cx_stream_id = ''s1'', cx_topic_role = SINK_TOPIC, cx_criticality_tier = TIER_0, cx_source_system = None,
      cx_proposed_action = PAGE, cx_diagnosis_confidence = Fin 1, cx_partition_count_observed = None,
      cx_case_id = None, cx_decision_basis = None\<rparr>)]"

section \<open>Lemmas\<close>

lemma has_context_resolves: "has_gate_input_context sc ctxs \<Longrightarrow> \<exists>c. resolve_context_for_scope sc ctxs = Some c"
  unfolding has_gate_input_context_def resolve_context_for_scope_def
  by (auto split: if_splits option.splits simp: map_of_eq_None_iff dest!: weak_map_of_SomeI)

text \<open>What every assembled input inherits.\<close>

lemma assemble_ok:
  assumes "assemble_gate_input po ms ctx sc env topic st pk fs f = Inr gi"
  shows "gi_proposed_action gi = cap_action_to_max_safe (cx_proposed_action ctx) ms" "gi_findings gi = fs"
    and "fl_le (Fin 0) (gi_diagnosis_confidence gi)" "fl_le (gi_diagnosis_confidence gi) (Fin 1)"
  using assms by (auto simp: assemble_gate_input_def mk_gate_input_def split: if_splits elim!: rbind_InrE)

lemma collect_findings_inv:
  assumes "collect_findings mk sc fs acc = Inr acc'" "dict_wf acc"
    and "\<And>f gi. f \<in> set fs \<Longrightarrow> mk f = Inr gi \<Longrightarrow> P gi" "\<And>k gis gi. dict_get acc k = Some gis \<Longrightarrow> gi \<in> set gis \<Longrightarrow> P gi"
  shows "dict_wf acc' \<and> (\<forall>k gis gi. dict_get acc' k = Some gis \<longrightarrow> gi \<in> set gis \<longrightarrow> P gi)"
  using assms
proof (induction fs arbitrary: acc)
  case (Cons f fs)
  from Cons.prems(1) obtain gi where gi: "mk f = Inr gi" and r: "collect_findings mk sc fs (dd_append acc sc gi) = Inr acc'"
    by (auto elim!: rbind_InrE)
  have "P gi" using Cons.prems(3) gi by auto
  show ?case
  proof (rule Cons.IH [OF r])
    show "dict_wf (dd_append acc sc gi)" using Cons.prems(2) by simp
  next
    fix k gis g assume "dict_get (dd_append acc sc gi) k = Some gis" "g \<in> set gis"
    then show "P g" using Cons.prems(4) \<open>P gi\<close> by (auto simp: dd_append_get split: if_splits option.splits)
  qed (use Cons.prems(3) in auto)
qed auto

lemma all_inputs_get: "all_inputs P acc \<longleftrightarrow> dict_wf acc \<and> (\<forall>k gis gi. dict_get acc k = Some gis \<longrightarrow> gi \<in> set gis \<longrightarrow> P gi)"
  unfolding all_inputs_def dict_wf_def by (auto dest: map_of_SomeD)

lemma peak_flag_of_get [simp]: "peak_flag_of po (map_option pw_is_peak_window (dict_get (po_peak_context_by_scope po) k))"
  by (cases "dict_get (po_peak_context_by_scope po) k") (auto simp: peak_flag_of_def)

lemma collect_scope_inv:
  assumes "collect_scope ev po ctxs ms sc fs acc = Inr acc'" "all_inputs P acc"
    and "\<And>ctx env topic st pk f gi. \<lbrakk>assemble_gate_input po ms ctx sc env topic st pk fs f = Inr gi;
      resolve_context_for_scope sc ctxs = Some ctx; peak_flag_of po pk\<rbrakk> \<Longrightarrow> P gi"
  shows "all_inputs P acc'"
proof -
  from assms(1) obtain ctx env topic st k where
    c: "collect_findings (assemble_gate_input po ms ctx sc env topic st
      (map_option pw_is_peak_window (dict_get (po_peak_context_by_scope po) k)) fs) sc fs acc = Inr acc'"
    and "resolve_context_for_scope sc ctxs = Some ctx"
    by (auto simp: collect_scope_def Let_def split: option.splits elim!: rbind_InrE)
  with collect_findings_inv [OF c, of P] assms(2,3) peak_flag_of_get show ?thesis
    unfolding all_inputs_get by blast
qed

lemma collect_scopes_inv:
  assumes "collect_scopes ev po ctxs ms items acc = Inr acc'" "all_inputs P acc"
    and "\<And>sc fs ctx env topic st pk f gi. \<lbrakk>assemble_gate_input po ms ctx sc env topic st pk fs f = Inr gi;
      resolve_context_for_scope sc ctxs = Some ctx; peak_flag_of po pk\<rbrakk> \<Longrightarrow> P gi"
  shows "all_inputs P acc'"
  using assms(1,2)
proof (induction items arbitrary: acc)
  case (Cons it items)
  then obtain acc1 where "collect_scope ev po ctxs ms (fst it) (snd it) acc = Inr acc1"
    and r: "collect_scopes ev po ctxs ms items acc1 = Inr acc'"
    by (cases it) (auto elim!: rbind_InrE)
  from this(1) Cons.prems(2) have "all_inputs P acc1" by (rule collect_scope_inv) (rule assms(3))
  with r show ?case by (rule Cons.IH)
qed simp

lemma collect_inputs_inv:
  assumes "collect_gate_inputs_by_scope ev po ctxs ms = Inr res"
    and "\<And>sc fs ctx env topic st pk f gi. \<lbrakk>assemble_gate_input po ms ctx sc env topic st pk fs f = Inr gi;
      resolve_context_for_scope sc ctxs = Some ctx; peak_flag_of po pk\<rbrakk> \<Longrightarrow> P gi"
  shows "all_inputs P res"
proof -
  from assms(1) obtain acc where c: "collect_scopes ev po ctxs ms (sort_key fst (eo_gate_findings_by_scope ev)) [] = Inr acc"
    and res: "res = sort_key fst acc"
    by (auto simp: collect_gate_inputs_by_scope_def)
  have "all_inputs P []" by (simp add: all_inputs_def)
  from collect_scopes_inv [OF c this assms(2)] have "all_inputs P acc" .
  then show ?thesis
    unfolding res all_inputs_def dict_wf_def
    by (auto simp: distinct_map intro: inj_on_subset)
qed

text \<open>Filtering first makes the missing-context error unreachable.\<close>

lemma collect_findings_error:
  assumes "collect_findings mk sc fs acc = Inl e"
  shows "\<exists>f \<in> set fs. mk f = Inl e"
  using assms
proof (induction fs arbitrary: acc)
  case (Cons f fs)
  then show ?case by (cases "mk f") auto
qed simp

lemma assemble_error:
  "assemble_gate_input po ms ctx sc env topic st pk fs f = Inl e \<Longrightarrow> exc_type e = ValueError"
  by (auto simp: assemble_gate_input_def mk_gate_input_def anomaly_family_from_gate_finding_name_def
      sustained_identity_key_def Let_def split: if_splits)

lemma collect_scope_error:
  assumes "collect_scope ev po ctxs ms sc fs acc = Inl e" "has_gate_input_context sc ctxs"
  shows "exc_type e = ValueError"
proof -
  obtain c where c: "resolve_context_for_scope sc ctxs = Some c" using has_context_resolves [OF assms(2)] by blast
  show ?thesis
  proof (cases "topic_from_scope sc")
    case (Inl x)
    then have "exc_type x = ValueError" by (auto simp: topic_from_scope_def split: if_splits)
    with assms(1) c Inl show ?thesis by (simp add: collect_scope_def)
  next
    case (Inr topic)
    with assms(1) c show ?thesis
      by (auto simp: collect_scope_def Let_def split: option.splits dest!: collect_findings_error assemble_error)
  qed
qed

lemma collect_scopes_error:
  assumes "collect_scopes ev po ctxs ms items acc = Inl e" "\<forall>(sc, fs) \<in> set items. has_gate_input_context sc ctxs"
  shows "exc_type e = ValueError"
  using assms
proof (induction items arbitrary: acc)
  case (Cons it items)
  obtain sc fs where it: "it = (sc, fs)" by fastforce
  show ?case
  proof (cases "collect_scope ev po ctxs ms sc fs acc")
    case (Inl x)
    with Cons.prems it collect_scope_error [of ev po ctxs ms sc fs acc x] show ?thesis by simp
  next
    case (Inr acc1)
    with Cons it show ?thesis by simp
  qed
qed simp

text \<open>\<open>'/'.join\<close> of parts free of the separator can be split again.\<close>

lemma append_sep_inj: "x @ c # u = y @ c # v \<Longrightarrow> c \<notin> set x \<Longrightarrow> c \<notin> set y \<Longrightarrow> x = y \<and> u = v"
proof (induction x arbitrary: y)
  case Nil
  then show ?case by (cases y) auto
next
  case (Cons a x)
  then show ?case by (cases y) auto
qed

lemma py_join_split:
  assumes "length xs = length ys" "\<forall>x \<in> set xs. CHR ''/'' \<notin> set x" "\<forall>y \<in> set ys. CHR ''/'' \<notin> set y"
    and "py_join ''/'' xs = py_join ''/'' ys"
  shows "xs = ys"
  using assms
proof (induction xs ys rule: list_induct2)
  case (Cons x xs y ys)
  show ?case
  proof (cases xs)
    case Nil
    with Cons show ?thesis by simp
  next
    case (Cons x2 xs2)
    then obtain y2 ys2 where ys: "ys = y2 # ys2" using Cons.hyps by (cases ys) auto
    from Cons.prems(3) have "x @ CHR ''/'' # py_join ''/'' xs = y @ CHR ''/'' # py_join ''/'' ys"
      using Cons ys by simp
    then have "x = y" "py_join ''/'' xs = py_join ''/'' ys"
      using Cons.prems(1,2) by (auto dest: append_sep_inj)
    with Cons.IH Cons.prems show ?thesis by simp
  qed
qed simp

lemma count_join:
  assumes "\<forall>x \<in> set xs. CHR ''/'' \<notin> set x"
  shows "count_list (py_join ''/'' xs) (CHR ''/'') = length xs - 1"
  using assms by (induction "''/''" xs rule: py_join.induct) (auto simp: count_notin)

lemma py_join_inj:
  assumes "\<forall>x \<in> set xs. CHR ''/'' \<notin> set x" "\<forall>y \<in> set ys. CHR ''/'' \<notin> set y" "xs \<noteq> []" "ys \<noteq> []"
    and "py_join ''/'' xs = py_join ''/'' ys"
  shows "xs = ys"
proof -
  have "length xs = length ys"
    using count_join [OF assms(1)] count_join [OF assms(2)] assms(3-5) by (cases xs; cases ys) auto
  then show ?thesis using assms by (intro py_join_split) auto
qed

section \<open>Properties\<close>

text \<open>the Stage 4 cycle drops the scopes without a topology context before it assembles, so it never raises
  the assembly's missing-context \<open>KeyError\<close>; the only errors it can raise are \<open>ValueError\<close>s (scope shape,
  environment, finding name, confidence range).\<close>

theorem gate_input_cycle_no_missing_context:
  "\<not> (\<exists>e. run_gate_input_stage_cycle ev po ctxs = Inl e \<and> exc_type e \<noteq> ValueError)"
proof -
  let ?f = "filter_resolved ctxs ev"
  have "\<forall>(sc, fs) \<in> set (sort_key fst (eo_gate_findings_by_scope ?f)). has_gate_input_context sc ctxs"
    by (auto simp: filter_resolved_def Let_def)
  from collect_scopes_error [OF _ this] show ?thesis
    by (auto simp: run_gate_input_stage_cycle_def collect_gate_inputs_by_scope_def Let_def)
      (metis rbind.simps(2) sum.distinct(1) sum.exhaust rbind.simps(1) sum.inject(1))
qed

text \<open>while the Stage 1 output caps the safe action (telemetry degraded), no assembled gate input proposes
  more than that cap, and every assembled confidence lies in [0, 1].\<close>

theorem gate_inputs_within_safe_cap:
  assumes "run_gate_input_stage_cycle ev po ctxs = Inr inputs" and "(sc, gis) \<in> set inputs" and "gi \<in> set gis"
  shows "(case eo_max_safe_action ev of None \<Rightarrow> True | Some m \<Rightarrow> gi_proposed_action gi \<le> m) \<and>
    fl_le (Fin 0) (gi_diagnosis_confidence gi) \<and> fl_le (gi_diagnosis_confidence gi) (Fin 1)"
proof -
  let ?P = "\<lambda>gi. (case eo_max_safe_action ev of None \<Rightarrow> True | Some m \<Rightarrow> gi_proposed_action gi \<le> m) \<and>
    fl_le (Fin 0) (gi_diagnosis_confidence gi) \<and> fl_le (gi_diagnosis_confidence gi) (Fin 1)"
  have "collect_gate_inputs_by_scope (filter_resolved ctxs ev) po ctxs (eo_max_safe_action ev) = Inr inputs"
    using assms(1) by (simp add: run_gate_input_stage_cycle_def filter_resolved_def Let_def)
  then have "all_inputs ?P inputs"
    by (rule collect_inputs_inv) (auto simp: assemble_ok cap_action_to_max_safe_le split: option.splits)
  with assms(2,3) show ?thesis by (fastforce simp: all_inputs_def)
qed

lemma gate_inputs_within_safe_cap_witness:
  "\<exists>sc gi. run_gate_input_stage_cycle sample_evidence sample_peak sample_contexts = Inr [(sc, [gi])] \<and>
     gi_proposed_action gi \<le> NOTIFY"
proof -
  have r: "map_sum id (map (\<lambda>(sc, gis). length gis)) (run_gate_input_stage_cycle sample_evidence sample_peak sample_contexts)
      = Inr [1]" by code_simp
  then obtain sc gi where r: "run_gate_input_stage_cycle sample_evidence sample_peak sample_contexts = Inr [(sc, [gi])]"
    by (cases "run_gate_input_stage_cycle sample_evidence sample_peak sample_contexts")
      (auto simp: map_eq_Cons_conv length_Suc_conv)
  from gate_inputs_within_safe_cap [OF r, of sc "[gi]" gi] have "gi_proposed_action gi \<le> NOTIFY"
    by (simp add: sample_evidence_def)
  with r show ?thesis by blast
qed

text \<open>action fingerprints identify the incident. For components without the separator (Kafka names have none),
  two fingerprints are equal exactly when environment, cluster, stream, topic role, topic, anomaly family, tier and
  consumer group are.\<close>

theorem action_fingerprint_injective:
  assumes "\<forall>p \<in> {e, c, s, r, t, f, k} \<union> set_option g. CHR ''/'' \<notin> set p"
    and "\<forall>p \<in> {e', c', s', r', t', f', k'} \<union> set_option g'. CHR ''/'' \<notin> set p"
  shows "action_fingerprint e c s r t f k g = action_fingerprint e' c' s' r' t' f' k' g' \<longleftrightarrow>
    (e, c, s, r, t, f, k, g) = (e', c', s', r', t', f', k', g')"
proof
  let ?parts = "\<lambda>e c s r t f k g. case g of None \<Rightarrow> [e, c, s, r, t, f, k] | Some x \<Rightarrow> [e, c, s, r, t, f, k] @ [''group:'' @ x]"
  assume "action_fingerprint e c s r t f k g = action_fingerprint e' c' s' r' t' f' k' g'"
  then have "?parts e c s r t f k g = ?parts e' c' s' r' t' f' k' g'"
    using assms by (intro py_join_inj) (auto simp: action_fingerprint_def Let_def split: option.splits)
  then show "(e, c, s, r, t, f, k, g) = (e', c', s', r', t', f', k', g')"
    by (auto split: option.splits)
qed simp

lemma action_fingerprint_injective_witness:
  "action_fingerprint ''prod'' ''c'' ''s'' ''SINK_TOPIC'' ''t'' ''VOLUME_DROP'' ''TIER_0'' None \<noteq>
   action_fingerprint ''prod'' ''c'' ''s'' ''SINK_TOPIC'' ''t'' ''VOLUME_DROP'' ''TIER_0'' (Some ''g'')"
  by (subst action_fingerprint_injective) simp_all

end
