(* ===== verification/Py_Float.thy ===== *)
theory Py_Float
  imports Py_Base
begin

text \<open>
  Further facts on the binary64 model of the prelude: the exponent brackets its argument, and
  rounding to nearest even is monotone on non-negative numbers, across binades and into infinity. Also \<open>str\<close> of an int and the whole
  seconds of a timestamp, which goes through a float.
\<close>

text \<open>The double nearest to 0.2.\<close>

definition float_0_2 :: pyfloat where
  "float_0_2 = Fin (3602879701896397 / 18014398509481984)"

text \<open>\<open>str(n)\<close> of an int.\<close>

fun digits_loop :: "nat \<Rightarrow> string \<Rightarrow> string" where
  "digits_loop n acc =
     (let acc' = char_of (48 + n mod 10) # acc in if n < 10 then acc' else digits_loop (n div 10) acc')"

definition py_str_int :: "int \<Rightarrow> string" where
  "py_str_int n = (if n < 0 then CHR ''-'' # digits_loop (nat (- n)) [] else digits_loop (nat n) [])"

text \<open>\<open>int(dt.timestamp())\<close> of an aware datetime; the range of \<open>datetime\<close> keeps the float finite.\<close>

definition epoch_second :: "instant \<Rightarrow> int" where
  "epoch_second t = (case int_of_fl (fl_round (of_int t / 1000000)) of Inr n \<Rightarrow> n | Inl _ \<Rightarrow> 0)"

definition fl_ulp :: "rat \<Rightarrow> int" where
  "fl_ulp q = max (fl_exponent q - 52) (- 1074)"

definition fl_value :: "rat \<Rightarrow> rat" where
  "fl_value q = of_int (round_half_even (q / pow2 (fl_ulp q))) * pow2 (fl_ulp q)"

lemma pow2_le: "a \<le> b \<Longrightarrow> pow2 a \<le> pow2 b"
  using pow2_mono [of b a] by (metis linorder_le_cases order_antisym order_refl)

lemma pow2_less: "pow2 a < pow2 b \<Longrightarrow> a < b"
  using pow2_le [of b a] by (meson linorder_not_less)

lemma pow2_div: "pow2 a / pow2 b = pow2 (a - b)"
proof -
  have "pow2 b \<noteq> 0" by (metis pow2_pos less_irrefl)
  then show ?thesis using pow2_add [of a b] by (simp add: divide_eq_eq)
qed

lemma pow2_of_int: "0 \<le> e \<Longrightarrow> pow2 e = of_int (2 ^ nat e)"
  by (simp add: pow2_def)

lemma fl_exponent_less:
  assumes "q \<noteq> 0"
  shows "\<bar>q\<bar> < pow2 (fl_exponent q + 1)"
proof -
  obtain n d where nd: "quotient_of \<bar>q\<bar> = (n, d)" by fastforce
  have d: "0 < d" using nd by (rule quotient_of_denom_pos)
  have q: "\<bar>q\<bar> = of_int n / of_int d" using nd by (rule quotient_of_div)
  have n: "0 < n"
  proof -
    have "0 < (of_int n :: rat) / of_int d" using q assms by (metis zero_less_abs_iff)
    then show ?thesis using d by (simp add: zero_less_divide_iff)
  qed
  have "n < 2 ^ nat (bitlen n)" using bitlen_bounds [OF n] by simp
  then have "(of_int n :: rat) < of_int (2 ^ nat (bitlen n))" by (simp only: of_int_less_iff)
  then have nb: "of_int n < pow2 (bitlen n)" by (simp add: pow2_def bitlen_nonneg)
  have "1 \<le> bitlen d" using d by (auto simp: bitlen_alt_def)
  moreover have "2 ^ nat (bitlen d - 1) \<le> d" using bitlen_bounds [OF d] by simp
  then have "(of_int (2 ^ nat (bitlen d - 1)) :: rat) \<le> of_int d" by (simp only: of_int_le_iff)
  ultimately have db: "pow2 (bitlen d - 1) \<le> of_int d" by (simp add: pow2_def)
  have "pow2 (bitlen n - bitlen d + 1) * pow2 (bitlen d - 1) = pow2 (bitlen n)"
    using pow2_add [of "bitlen n" "bitlen d - 1"] by (simp add: algebra_simps)
  moreover have "pow2 (bitlen n - bitlen d + 1) * pow2 (bitlen d - 1) \<le> pow2 (bitlen n - bitlen d + 1) * of_int d"
    using db by (intro mult_left_mono) (simp_all add: less_imp_le)
  ultimately have "of_int n < pow2 (bitlen n - bitlen d + 1) * of_int d" using nb by linarith
  then have "\<bar>q\<bar> < pow2 (bitlen n - bitlen d + 1)" using d by (simp add: q pos_divide_less_eq)
  then show ?thesis using nd by (simp add: fl_exponent_def Let_def)
qed

lemma round_half_even_mono: "x \<le> y \<Longrightarrow> round_half_even x \<le> round_half_even y"
proof -
  assume xy: "x \<le> y"
  have fl: "\<lfloor>x\<rfloor> \<le> \<lfloor>y\<rfloor>" using xy by (rule floor_mono)
  show ?thesis
  proof (cases "\<lfloor>x\<rfloor> = \<lfloor>y\<rfloor>")
    case True
    with xy show ?thesis by (auto simp: round_half_even_def Let_def)
  next
    case False
    with fl have "\<lfloor>x\<rfloor> + 1 \<le> \<lfloor>y\<rfloor>" by simp
    moreover have "round_half_even x \<le> \<lfloor>x\<rfloor> + 1" "\<lfloor>y\<rfloor> \<le> round_half_even y"
      by (auto simp: round_half_even_def Let_def)
    ultimately show ?thesis by linarith
  qed
qed

lemma fl_value_le_pow2:
  assumes "q \<le> pow2 e" "fl_ulp q \<le> e"
  shows "fl_value q \<le> pow2 e"
proof -
  have "q / pow2 (fl_ulp q) \<le> pow2 (e - fl_ulp q)"
    using assms(1) by (simp add: divide_right_mono less_imp_le flip: pow2_div)
  then have "round_half_even (q / pow2 (fl_ulp q)) \<le> 2 ^ nat (e - fl_ulp q)"
    using assms(2) by (intro round_half_even_le) (simp add: pow2_of_int)
  then have "(of_int (round_half_even (q / pow2 (fl_ulp q))) :: rat) \<le> of_int (2 ^ nat (e - fl_ulp q))"
    by (simp only: of_int_le_iff)
  then have "(of_int (round_half_even (q / pow2 (fl_ulp q))) :: rat) \<le> pow2 (e - fl_ulp q)"
    using assms(2) by (simp add: pow2_of_int)
  then have "fl_value q \<le> pow2 (e - fl_ulp q) * pow2 (fl_ulp q)"
    unfolding fl_value_def by (intro mult_right_mono) (simp_all add: less_imp_le)
  then show ?thesis by (simp add: pow2_add)
qed

lemma fl_value_ge_pow2:
  assumes "pow2 e \<le> q" "fl_ulp q \<le> e"
  shows "pow2 e \<le> fl_value q"
proof -
  have "pow2 (e - fl_ulp q) \<le> q / pow2 (fl_ulp q)"
    using assms(1) by (simp add: divide_right_mono less_imp_le flip: pow2_div)
  then have "2 ^ nat (e - fl_ulp q) \<le> round_half_even (q / pow2 (fl_ulp q))"
    using assms(2) by (intro round_half_even_ge) (simp add: pow2_of_int)
  then have "(of_int (2 ^ nat (e - fl_ulp q)) :: rat) \<le> of_int (round_half_even (q / pow2 (fl_ulp q)))"
    by (simp only: of_int_le_iff)
  then have "pow2 (e - fl_ulp q) \<le> of_int (round_half_even (q / pow2 (fl_ulp q)))"
    using assms(2) by (simp add: pow2_of_int)
  then have "pow2 (e - fl_ulp q) * pow2 (fl_ulp q) \<le> fl_value q"
    unfolding fl_value_def by (intro mult_right_mono) (simp_all add: less_imp_le)
  then show ?thesis by (simp add: pow2_add)
qed

lemma fl_value_mono:
  assumes "0 < x" "x \<le> y"
  shows "fl_value x \<le> fl_value y"
proof (cases "fl_ulp x = fl_ulp y")
  case True
  have "x / pow2 (fl_ulp y) \<le> y / pow2 (fl_ulp y)" using assms(2) by (simp add: divide_right_mono less_imp_le)
  then have "round_half_even (x / pow2 (fl_ulp y)) \<le> round_half_even (y / pow2 (fl_ulp y))" by (rule round_half_even_mono)
  then show ?thesis unfolding fl_value_def True by (intro mult_right_mono) (simp_all add: less_imp_le)
next
  case False
  let ?a = "fl_exponent x" and ?b = "fl_exponent y"
  have x: "pow2 ?a \<le> x" "x < pow2 (?a + 1)" and y: "pow2 ?b \<le> y" "y < pow2 (?b + 1)"
    using fl_exponent_le [of x] fl_exponent_less [of x] fl_exponent_le [of y] fl_exponent_less [of y] assms by auto
  have "pow2 ?a < pow2 (?b + 1)" using x(1) y(2) assms(2) by linarith
  then have "?a < ?b + 1" by (rule pow2_less)
  with False have ab: "?a < ?b" and ub: "fl_ulp y = ?b - 52" and lt: "fl_ulp x < fl_ulp y"
    by (auto simp: fl_ulp_def max_def split: if_splits)
  have "x \<le> pow2 ?b" using x(2) pow2_le [of "?a + 1" ?b] ab by linarith
  then have "fl_value x \<le> pow2 ?b" using lt ub by (intro fl_value_le_pow2) auto
  also have "pow2 ?b \<le> fl_value y" using y(1) ub by (intro fl_value_ge_pow2) auto
  finally show ?thesis .
qed

lemma fl_round_value: "q \<noteq> 0 \<Longrightarrow> fl_round q =
    (if pow2 1024 \<le> fl_value q then PInf else if fl_value q \<le> - pow2 1024 then NInf else Fin (fl_value q))"
  by (simp add: fl_round_def fl_value_def fl_ulp_def Let_def)

lemma fl_value_nonneg: "0 < q \<Longrightarrow> 0 \<le> fl_value q"
  using round_half_even_ge [of 0 "q / pow2 (fl_ulp q)"] by (simp add: fl_value_def less_imp_le)

text \<open>Rounding is monotone.\<close>

lemma fl_round_mono:
  assumes "0 \<le> x" "x \<le> y"
  shows "fl_le (fl_round x) (fl_round y)"
proof (cases "x = 0")
  case True
  then show ?thesis
    using assms(2) fl_value_nonneg [of y] pow2_pos [of 1024]
    by (cases "y = 0") (auto simp: fl_round_value, simp_all add: fl_round_def)
next
  case False
  with assms have "0 < x" by simp
  from fl_value_mono [OF this assms(2)] fl_value_nonneg [of x] pow2_pos [of 1024] False assms show ?thesis
    by (auto simp: fl_round_value)
qed

text \<open>Evaluation of a rounding in the normal range.\<close>

lemma fl_round_normal:
  assumes "0 < q" "fl_exponent q = e" "- 1022 \<le> e" "e < 1023"
  shows "fl_round q = Fin (of_int (round_half_even (q / pow2 (e - 52))) * pow2 (e - 52))"
proof -
  have u: "fl_ulp q = e - 52" using assms(2,3) by (simp add: fl_ulp_def)
  have "q < pow2 (e + 1)" using fl_exponent_less [of q] assms(1,2) by simp
  then have "fl_value q \<le> pow2 (e + 1)" using u by (intro fl_value_le_pow2) auto
  also have "pow2 (e + 1) < pow2 1024"
  proof (rule ccontr)
    assume "\<not> pow2 (e + 1) < pow2 1024"
    then have "1024 \<le> e + 1" by (intro pow2_mono) (simp only: not_less)
    with assms(4) show False by simp
  qed
  finally have "fl_value q < pow2 1024" .
  moreover have "\<not> fl_value q \<le> - pow2 1024"
    using fl_value_nonneg [OF assms(1)] pow2_pos [of 1024] by linarith
  ultimately show ?thesis using assms(1) u by (simp add: fl_round_value fl_value_def)
qed

text \<open>An evaluation rule for the kernel: in the normal range the comparison with the largest double is decided by the exponent.\<close>

lemma fl_round_code [code]:
  "fl_round q = (if q = 0 then Fin 0
     else let e = fl_exponent q in
       if 0 < q \<and> - 1022 \<le> e \<and> e < 1023 then Fin (of_int (round_half_even (q / pow2 (e - 52))) * pow2 (e - 52))
       else if pow2 1024 \<le> fl_value q then PInf else if fl_value q \<le> - pow2 1024 then NInf else Fin (fl_value q))"
proof (cases "q = 0")
  case True
  then show ?thesis by (simp add: fl_round_def)
next
  case False
  show ?thesis
  proof (cases "0 < q \<and> - 1022 \<le> fl_exponent q \<and> fl_exponent q < 1023")
    case True
    with False fl_round_normal [of q "fl_exponent q"] show ?thesis by (simp only: Let_def if_True if_False simp_thms)
  next
    case F: False
    with False show ?thesis by (simp only: Let_def if_False fl_round_value [OF False])
  qed
qed

lemma epoch_second_seconds:
  assumes "0 \<le> n" "n < 2 ^ 53"
  shows "epoch_second (seconds n) = n"
proof -
  have "(of_int (seconds n) / 1000000 :: rat) = of_int n" by (simp add: seconds_def)
  then show ?thesis using fl_round_of_int [OF assms] assms(1) by (simp add: epoch_second_def)
qed

end
