(* ===== verification/Outbox_State.thy ===== *)
theory Outbox_State
  imports Py_Float
begin

text \<open>
  The outbox record and its state machine: \<open>outbox/schema.py\<close> (the contracts),
  \<open>contracts/outbox_policy.py\<close> and \<open>outbox/state_machine.py\<close>.

  Every function that takes \<open>now\<close> also takes \<open>clock\<close>, the instant
  \<open>datetime.now(tz=UTC)\<close> would return. The digest of \<open>compute_retry_delay_seconds\<close> is a
  parameter \<open>sha256\<close> (bytes as naturals): every theorem holds for any digest function.
  \<open>model_copy(update=...)\<close> does not validate, and neither do the transitions here.

  \<open>outbox_step\<close> is the step relation the mark functions induce; \<open>outbox_reachable\<close> its
  reachable records, over which the invariants are proved by rule induction.
\<close>

section \<open>Contracts\<close>

datatype outbox_state = PENDING_OBJECT | READY | SENT | RETRY | DEAD

fun outbox_state_value :: "outbox_state \<Rightarrow> string" where
  "outbox_state_value PENDING_OBJECT = ''PENDING_OBJECT''"
| "outbox_state_value READY = ''READY''"
| "outbox_state_value SENT = ''SENT''"
| "outbox_state_value RETRY = ''RETRY''"
| "outbox_state_value DEAD = ''DEAD''"

definition is_hex_64 :: "string \<Rightarrow> bool" where
  "is_hex_64 s = (length s = 64 \<and> list_all (\<lambda>c. c \<in> set ''0123456789abcdef'') s)"

text \<open>The pattern \<open>^cases/.+/triage\.json$\<close>; the dot does not match a line break.\<close>

definition is_casefile_path :: "string \<Rightarrow> bool" where
  "is_casefile_path s =
     (let n = length s - 18; mid = take n (drop 6 s)
      in 19 \<le> length s \<and> take 6 s = ''cases/'' \<and> drop (6 + n) s = ''/triage.json'' \<and> CHR 0x0A \<notin> set mid)"

record ready_casefile =
  rc_case_id :: string
  rc_object_path :: string
  rc_triage_hash :: string

definition validate_ready_casefile :: "ready_casefile \<Rightarrow> ready_casefile result" where
  "validate_ready_casefile c =
     (if rc_case_id c = [] then raise ValueError ''case_id should have at least 1 character''
      else if \<not> is_casefile_path (rc_object_path c) then raise ValueError ''object_path does not match pattern''
      else if \<not> is_hex_64 (rc_triage_hash c) then raise ValueError ''triage_hash must be a 64-char lowercase SHA-256 hex string''
      else Inr c)"

record outbox_record =
  or_case_id :: string
  or_status :: outbox_state
  or_casefile_object_path :: string
  or_triage_hash :: string
  or_created_at :: instant
  or_updated_at :: instant
  or_delivery_attempts :: int
  or_next_attempt_at :: "instant option"
  or_last_error_code :: "string option"
  or_last_error_message :: "string option"

definition validate_outbox_record :: "outbox_record \<Rightarrow> outbox_record result" where
  "validate_outbox_record r =
     (if or_case_id r = [] then raise ValueError ''case_id should have at least 1 character''
      else if \<not> is_casefile_path (or_casefile_object_path r) then raise ValueError ''casefile_object_path does not match pattern''
      else if \<not> is_hex_64 (or_triage_hash r) then raise ValueError ''triage_hash must be a 64-char lowercase SHA-256 hex string''
      else if or_updated_at r < or_created_at r then raise ValueError ''updated_at must be greater than or equal to created_at''
      else if or_delivery_attempts r < 0 then raise ValueError ''delivery_attempts should be greater than or equal to 0''
      else Inr r)"

section \<open>Policy\<close>

record outbox_retention_policy =
  sent_retention_days :: int
  dead_retention_days :: int
  max_retry_attempts :: int

record state_age_threshold =
  warning_seconds :: "pyfloat option"
  critical_seconds :: pyfloat

definition validate_threshold_order :: "state_age_threshold \<Rightarrow> state_age_threshold result" where
  "validate_threshold_order t =
     (if \<not> fl_le (Fin 0) (critical_seconds t) then raise ValueError ''critical_seconds should be greater than or equal to 0''
      else case warning_seconds t of
        None \<Rightarrow> Inr t
      | Some w \<Rightarrow>
          if \<not> fl_le (Fin 0) w then raise ValueError ''warning_seconds should be greater than or equal to 0''
          else if fl_le (critical_seconds t) w then raise ValueError ''warning_seconds must be less than critical_seconds''
          else Inr t)"

record delivery_slo_thresholds =
  p95_target_seconds :: pyfloat
  p99_target_seconds :: pyfloat
  p99_critical_seconds :: pyfloat

definition validate_slo_order :: "delivery_slo_thresholds \<Rightarrow> delivery_slo_thresholds result" where
  "validate_slo_order s =
     (if \<not> list_all (fl_lt (Fin 0)) [p95_target_seconds s, p99_target_seconds s, p99_critical_seconds s]
      then raise ValueError ''SLO targets should be greater than 0''
      else if fl_lt (p99_target_seconds s) (p95_target_seconds s)
      then raise ValueError ''p95_target_seconds must be <= p99_target_seconds''
      else if fl_lt (p99_critical_seconds s) (p99_target_seconds s)
      then raise ValueError ''p99_target_seconds must be <= p99_critical_seconds''
      else Inr s)"

record outbox_policy =
  op_retention_by_env :: "(string, outbox_retention_policy) pydict"
  op_pending_object :: state_age_threshold
  op_ready :: state_age_threshold
  op_retry :: state_age_threshold
  op_dead_count_critical_threshold :: "(string, int) pydict"
  op_delivery_slo :: delivery_slo_thresholds

definition required_envs :: "string list" where
  "required_envs = [''local'', ''dev'', ''uat'', ''prod'']"

definition validate_outbox_policy :: "outbox_policy \<Rightarrow> outbox_policy result" where
  "validate_outbox_policy p =
     (if \<not> list_all (\<lambda>e. e \<in> set (map fst (op_retention_by_env p))) required_envs
      then raise ValueError ''retention_by_env is missing required environments''
      else if \<not> list_all (\<lambda>e. e \<in> set (map fst (op_dead_count_critical_threshold p))) required_envs
      then raise ValueError ''dead_count_critical_threshold is missing required environments''
      else if list_ex (\<lambda>(e, t). t < 0) (op_dead_count_critical_threshold p)
      then raise ValueError ''dead_count_critical_threshold values must be >= 0''
      else Inr p)"

section \<open>Time\<close>

definition resolve_now :: "instant \<Rightarrow> py_datetime option \<Rightarrow> instant result" where
  "resolve_now clock now = (case now of
       None \<Rightarrow> Inr clock
     | Some (Aware t) \<Rightarrow> Inr t
     | Some (Naive _) \<Rightarrow> raise ValueError ''now must be timezone-aware'')"

definition resolve_transition_now :: "instant \<Rightarrow> outbox_record \<Rightarrow> py_datetime option \<Rightarrow> instant result" where
  "resolve_transition_now clock r now = rbind (resolve_now clock now) (\<lambda>t.
     if t < or_updated_at r then Inr (or_updated_at r) else Inr t)"

section \<open>State machine\<close>

definition new_outbox_record :: "outbox_state \<Rightarrow> ready_casefile \<Rightarrow> instant \<Rightarrow> outbox_record" where
  "new_outbox_record status c t =
     \<lparr>or_case_id = rc_case_id c, or_status = status, or_casefile_object_path = rc_object_path c,
      or_triage_hash = rc_triage_hash c, or_created_at = t, or_updated_at = t, or_delivery_attempts = 0,
      or_next_attempt_at = None, or_last_error_code = None, or_last_error_message = None\<rparr>"

definition create_pending_outbox_record ::
  "instant \<Rightarrow> ready_casefile \<Rightarrow> py_datetime option \<Rightarrow> outbox_record result" where
  "create_pending_outbox_record clock c now = rbind (resolve_now clock now) (\<lambda>t.
     validate_outbox_record (new_outbox_record PENDING_OBJECT c t))"

definition create_ready_outbox_record ::
  "instant \<Rightarrow> ready_casefile \<Rightarrow> py_datetime option \<Rightarrow> outbox_record result" where
  "create_ready_outbox_record clock c now = rbind (resolve_now clock now) (\<lambda>t.
     validate_outbox_record (new_outbox_record READY c t))"

definition mark_outbox_record_ready ::
  "instant \<Rightarrow> outbox_record \<Rightarrow> py_datetime option \<Rightarrow> outbox_record result" where
  "mark_outbox_record_ready clock r now =
     (if or_status r \<noteq> PENDING_OBJECT
      then raise InvariantViolation (''cannot mark record READY from status='' @ outbox_state_value (or_status r))
      else rbind (resolve_transition_now clock r now) (\<lambda>t.
        Inr (r\<lparr>or_status := READY, or_updated_at := t, or_next_attempt_at := None,
               or_last_error_code := None, or_last_error_message := None\<rparr>)))"

definition mark_outbox_record_sent ::
  "instant \<Rightarrow> outbox_record \<Rightarrow> py_datetime option \<Rightarrow> outbox_record result" where
  "mark_outbox_record_sent clock r now =
     (if or_status r \<notin> {READY, RETRY}
      then raise InvariantViolation (''cannot mark record SENT from status='' @ outbox_state_value (or_status r))
      else rbind (resolve_transition_now clock r now) (\<lambda>t.
        Inr (r\<lparr>or_status := SENT, or_updated_at := t, or_delivery_attempts := or_delivery_attempts r + 1,
               or_next_attempt_at := None, or_last_error_code := None, or_last_error_message := None\<rparr>)))"

definition from_bytes_big :: "nat list \<Rightarrow> int" where
  "from_bytes_big bs = fold (\<lambda>b acc. acc * 256 + int b) bs 0"

definition compute_retry_delay_seconds ::
  "(string \<Rightarrow> nat list) \<Rightarrow> string \<Rightarrow> int \<Rightarrow> int \<Rightarrow> int \<Rightarrow> pyfloat \<Rightarrow> int result" where
  "compute_retry_delay_seconds sha256 case_id attempt base_seconds max_seconds jitter_ratio =
     (if attempt \<le> 0 then raise ValueError ''attempt_number must be >= 1''
      else let exp_seconds = min (base_seconds * 2 ^ nat (attempt - 1)) max_seconds
           in rbind (fl_of_int exp_seconds) (\<lambda>fexp.
              rbind (int_of_fl (fl_mul fexp jitter_ratio)) (\<lambda>w.
              let jitter_window = max 1 w;
                  jitter_value = from_bytes_big (take 4 (sha256 (case_id @ '':'' @ py_str_int attempt)))
                    mod (2 * jitter_window + 1);
                  signed_jitter = jitter_value - jitter_window
              in Inr (max 1 (exp_seconds + signed_jitter)))))"

definition resolve_max_retry_attempts :: "outbox_policy \<Rightarrow> string \<Rightarrow> int result" where
  "resolve_max_retry_attempts p app_env = (case dict_get (op_retention_by_env p) app_env of
       Some r \<Rightarrow> Inr (max_retry_attempts r)
     | None \<Rightarrow> raise ValueError (''unsupported app_env for outbox retry policy: '' @ app_env))"

definition mark_outbox_record_publish_failure ::
  "(string \<Rightarrow> nat list) \<Rightarrow> instant \<Rightarrow> outbox_record \<Rightarrow> outbox_policy \<Rightarrow> string \<Rightarrow> string \<Rightarrow> string option \<Rightarrow>
   py_datetime option \<Rightarrow> outbox_record result" where
  "mark_outbox_record_publish_failure sha256 clock r policy app_env error_message error_code now =
     (if or_status r \<notin> {READY, RETRY}
      then raise InvariantViolation (''cannot mark publish failure from status='' @ outbox_state_value (or_status r))
      else rbind (resolve_transition_now clock r now) (\<lambda>t.
        let next_attempt_number = or_delivery_attempts r + 1
        in rbind (resolve_max_retry_attempts policy app_env) (\<lambda>max_attempts.
          if next_attempt_number > max_attempts then
            Inr (r\<lparr>or_status := DEAD, or_updated_at := t, or_delivery_attempts := next_attempt_number,
                   or_next_attempt_at := None, or_last_error_code := error_code,
                   or_last_error_message := Some error_message\<rparr>)
          else rbind (compute_retry_delay_seconds sha256 (or_case_id r) next_attempt_number 30 900 float_0_2) (\<lambda>delay.
            Inr (r\<lparr>or_status := RETRY, or_updated_at := t, or_delivery_attempts := next_attempt_number,
                   or_next_attempt_at := Some (t + seconds delay), or_last_error_code := error_code,
                   or_last_error_message := Some error_message\<rparr>)))))"

definition retention_cutoff_for_state ::
  "instant \<Rightarrow> outbox_policy \<Rightarrow> string \<Rightarrow> outbox_state \<Rightarrow> py_datetime option \<Rightarrow> instant option result" where
  "retention_cutoff_for_state clock policy app_env state now = rbind (resolve_now clock now) (\<lambda>t.
     case dict_get (op_retention_by_env policy) app_env of
       None \<Rightarrow> raise ValueError (''unsupported app_env for outbox retention policy: '' @ app_env)
     | Some ret \<Rightarrow>
         Inr (if state = SENT then Some (t - days (sent_retention_days ret))
              else if state = DEAD then Some (t - days (dead_retention_days ret))
              else None))"

section \<open>Step relation\<close>

inductive outbox_step :: "(string \<Rightarrow> nat list) \<Rightarrow> outbox_policy \<Rightarrow> string \<Rightarrow> outbox_record \<Rightarrow> outbox_record \<Rightarrow> bool"
  for sha256 policy app_env where
  step_ready: "mark_outbox_record_ready clock r now = Inr r' \<Longrightarrow> outbox_step sha256 policy app_env r r'"
| step_sent: "mark_outbox_record_sent clock r now = Inr r' \<Longrightarrow> outbox_step sha256 policy app_env r r'"
| step_failure: "mark_outbox_record_publish_failure sha256 clock r policy app_env msg code now = Inr r' \<Longrightarrow>
    outbox_step sha256 policy app_env r r'"

inductive outbox_reachable :: "(string \<Rightarrow> nat list) \<Rightarrow> outbox_policy \<Rightarrow> string \<Rightarrow> outbox_record \<Rightarrow> bool"
  for sha256 policy app_env where
  reach_pending: "create_pending_outbox_record clock c now = Inr r \<Longrightarrow> outbox_reachable sha256 policy app_env r"
| reach_ready: "create_ready_outbox_record clock c now = Inr r \<Longrightarrow> outbox_reachable sha256 policy app_env r"
| reach_step: "outbox_reachable sha256 policy app_env r \<Longrightarrow> outbox_step sha256 policy app_env r r' \<Longrightarrow>
    outbox_reachable sha256 policy app_env r'"

text \<open>The invariant of a record under a retry limit \<open>m\<close>.\<close>

definition outbox_invar :: "int \<Rightarrow> outbox_record \<Rightarrow> bool" where
  "outbox_invar m r =
     (is_ok (validate_outbox_record r) \<and>
      (or_next_attempt_at r \<noteq> None \<longleftrightarrow> or_status r = RETRY) \<and>
      (case or_next_attempt_at r of None \<Rightarrow> True | Some t \<Rightarrow> or_updated_at r < t) \<and>
      (case or_status r of
         PENDING_OBJECT \<Rightarrow> or_delivery_attempts r = 0
       | READY \<Rightarrow> or_delivery_attempts r = 0
       | RETRY \<Rightarrow> 1 \<le> or_delivery_attempts r \<and> or_delivery_attempts r \<le> m
       | SENT \<Rightarrow> 1 \<le> or_delivery_attempts r \<and> or_delivery_attempts r \<le> max 0 m + 1
       | DEAD \<Rightarrow> or_delivery_attempts r = max 0 m + 1))"

text \<open>The transitions left to a record at most.\<close>

definition outbox_rank :: "int \<Rightarrow> outbox_record \<Rightarrow> int" where
  "outbox_rank m r = (case or_status r of
       PENDING_OBJECT \<Rightarrow> max 0 m + 2
     | READY \<Rightarrow> max 0 m + 1
     | RETRY \<Rightarrow> m - or_delivery_attempts r + 1
     | _ \<Rightarrow> 0)"

definition sample_casefile :: ready_casefile where
  "sample_casefile = \<lparr>rc_case_id = ''c1'', rc_object_path = ''cases/c1/triage.json'',
     rc_triage_hash = replicate 64 CHR ''a''\<rparr>"

definition sample_outbox_policy :: outbox_policy where
  "sample_outbox_policy =
     \<lparr>op_retention_by_env = map (\<lambda>e. (e, \<lparr>sent_retention_days = 14, dead_retention_days = 90, max_retry_attempts = 1\<rparr>)) required_envs,
      op_pending_object = \<lparr>warning_seconds = Some (Fin 300), critical_seconds = Fin 900\<rparr>,
      op_ready = \<lparr>warning_seconds = Some (Fin 120), critical_seconds = Fin 600\<rparr>,
      op_retry = \<lparr>warning_seconds = None, critical_seconds = Fin 1800\<rparr>,
      op_dead_count_critical_threshold = map (\<lambda>e. (e, 0)) required_envs,
      op_delivery_slo = \<lparr>p95_target_seconds = Fin 60, p99_target_seconds = Fin 300, p99_critical_seconds = Fin 600\<rparr>\<rparr>"

section \<open>Lemmas: retry delays\<close>

lemma fifth_of_backoff:
  assumes "e \<in> {30, 60, 120, 240, 480, 900}"
  shows "int_of_fl (fl_mul (Fin e) float_0_2) = Inr \<lfloor>e / 5\<rfloor>"
proof -
  have x: "fl_exponent (30 * (3602879701896397 / 18014398509481984)) = 2"
    "fl_exponent (60 * (3602879701896397 / 18014398509481984)) = 3"
    "fl_exponent (120 * (3602879701896397 / 18014398509481984)) = 4"
    "fl_exponent (240 * (3602879701896397 / 18014398509481984)) = 5"
    "fl_exponent (480 * (3602879701896397 / 18014398509481984)) = 6"
    "fl_exponent (900 * (3602879701896397 / 18014398509481984)) = 7"
    by code_simp+
  have fl: "\<lfloor>54043195528445955 / 8 :: rat\<rfloor> = 6755399441055744" "\<lfloor>810647932926689325 / 128 :: rat\<rfloor> = 6333186975989760"
    by (simp_all add: floor_eq_iff)
  have "fl_round (30 * (3602879701896397 / 18014398509481984)) = Fin 6"
    "fl_round (60 * (3602879701896397 / 18014398509481984)) = Fin 12"
    "fl_round (120 * (3602879701896397 / 18014398509481984)) = Fin 24"
    "fl_round (240 * (3602879701896397 / 18014398509481984)) = Fin 48"
    "fl_round (480 * (3602879701896397 / 18014398509481984)) = Fin 96"
    "fl_round (900 * (3602879701896397 / 18014398509481984)) = Fin 180"
    by (simp_all only: fl_round_normal [OF _ x(1)] fl_round_normal [OF _ x(2)] fl_round_normal [OF _ x(3)]
        fl_round_normal [OF _ x(4)] fl_round_normal [OF _ x(5)] fl_round_normal [OF _ x(6)])
      (simp_all add: pow2_def round_half_even_def Let_def fl)
  with assms show ?thesis by (auto simp: float_0_2_def)
qed

lemma backoff_cases:
  assumes "1 \<le> attempt"
  shows "min (30 * 2 ^ nat (attempt - 1)) 900 \<in> {30, 60, 120, 240, 480, 900 :: int}"
proof (cases "attempt \<le> 5")
  case True
  with assms have "nat (attempt - 1) \<in> {0, 1, 2, 3, 4}" by auto
  then show ?thesis by auto
next
  case False
  then have "(2 :: int) ^ 5 \<le> 2 ^ nat (attempt - 1)" by (intro power_increasing) auto
  then show ?thesis by simp
qed

text \<open>The delay of the default schedule: the capped backoff, give or take a fifth.\<close>

lemma default_delay_bounds:
  assumes "1 \<le> attempt"
  obtains d where "compute_retry_delay_seconds sha256 cid attempt 30 900 float_0_2 = Inr d"
    and "\<bar>d - min (30 * 2 ^ nat (attempt - 1)) 900\<bar> \<le> min (30 * 2 ^ nat (attempt - 1)) 900 div 5" and "24 \<le> d"
proof -
  define e where "e = min (30 * 2 ^ nat (attempt - 1)) (900 :: int)"
  have e: "e \<in> {30, 60, 120, 240, 480, 900}" unfolding e_def by (rule backoff_cases [OF assms])
  then have "0 \<le> e" "e < 2 ^ 53" by auto
  then have "fl_of_int e = Inr (Fin (of_int e))" by (simp add: fl_of_int_def)
  have "int_of_fl (fl_mul (Fin (of_int e)) float_0_2) = Inr (e div 5)"
  proof -
    have "(of_int e :: rat) \<in> {30, 60, 120, 240, 480, 900}" using e by auto
    from fifth_of_backoff [OF this] show ?thesis by (simp add: floor_divide_of_int_eq [of e 5, simplified])
  qed
  define j where "j = from_bytes_big (take 4 (sha256 (cid @ '':'' @ py_str_int attempt))) mod (2 * (e div 5) + 1)"
  have w: "max 1 (e div 5) = e div 5" using e by auto
  have j: "0 \<le> j" "j \<le> 2 * (e div 5)"
    unfolding j_def using e by (auto intro: pos_mod_bound [THEN zless_imp_add1_zle, THEN order_trans])
  have mx: "max 1 (e + (j - e div 5)) = e + (j - e div 5)" using j e by auto
  have "compute_retry_delay_seconds sha256 cid attempt 30 900 float_0_2 = Inr (e + (j - e div 5))"
    using assms \<open>fl_of_int e = _\<close> \<open>int_of_fl _ = _\<close> mx
    by (simp only: compute_retry_delay_seconds_def Let_def e_def [symmetric] rbind.simps w j_def [symmetric]) simp
  then show ?thesis using j e by (intro that [of "e + (j - e div 5)"]) (auto simp flip: e_def)
qed

section \<open>Lemmas: transitions\<close>

lemma transition_now_ge: "resolve_transition_now clock r now = Inr t \<Longrightarrow> or_updated_at r \<le> t"
  by (auto simp: resolve_transition_now_def split: if_splits elim!: rbind_InrE)

lemma mark_ready_ok:
  assumes "mark_outbox_record_ready clock r now = Inr r'"
  obtains t where "or_status r = PENDING_OBJECT" "or_updated_at r \<le> t"
    "r' = r\<lparr>or_status := READY, or_updated_at := t, or_next_attempt_at := None,
        or_last_error_code := None, or_last_error_message := None\<rparr>"
  using assms by (auto simp: mark_outbox_record_ready_def split: if_splits elim!: rbind_InrE dest: transition_now_ge)

lemma mark_sent_ok:
  assumes "mark_outbox_record_sent clock r now = Inr r'"
  obtains t where "or_status r \<in> {READY, RETRY}" "or_updated_at r \<le> t"
    "r' = r\<lparr>or_status := SENT, or_updated_at := t, or_delivery_attempts := or_delivery_attempts r + 1,
        or_next_attempt_at := None, or_last_error_code := None, or_last_error_message := None\<rparr>"
  using assms by (auto simp: mark_outbox_record_sent_def split: if_splits elim!: rbind_InrE dest: transition_now_ge)

lemma mark_failure_ok:
  assumes "mark_outbox_record_publish_failure sha256 clock r policy app_env msg code now = Inr r'"
    and "resolve_max_retry_attempts policy app_env = Inr m"
  obtains t where "or_status r \<in> {READY, RETRY}" "or_updated_at r \<le> t" "m < or_delivery_attempts r + 1"
    "r' = r\<lparr>or_status := DEAD, or_updated_at := t, or_delivery_attempts := or_delivery_attempts r + 1,
        or_next_attempt_at := None, or_last_error_code := code, or_last_error_message := Some msg\<rparr>"
  | t delay where "or_status r \<in> {READY, RETRY}" "or_updated_at r \<le> t" "or_delivery_attempts r + 1 \<le> m"
    "compute_retry_delay_seconds sha256 (or_case_id r) (or_delivery_attempts r + 1) 30 900 float_0_2 = Inr delay"
    "r' = r\<lparr>or_status := RETRY, or_updated_at := t, or_delivery_attempts := or_delivery_attempts r + 1,
        or_next_attempt_at := Some (t + seconds delay), or_last_error_code := code, or_last_error_message := Some msg\<rparr>"
proof -
  from assms obtain t where st: "or_status r \<in> {READY, RETRY}" and t: "or_updated_at r \<le> t"
    and t': "resolve_transition_now clock r now = Inr t"
    by (auto simp: mark_outbox_record_publish_failure_def split: if_splits elim!: rbind_InrE dest: transition_now_ge)
  show thesis
  proof (cases "m < or_delivery_attempts r + 1")
    case True
    then show thesis
      using assms st t t' by (intro that(1) [of t]) (auto simp: mark_outbox_record_publish_failure_def Let_def)
  next
    case False
    then obtain delay where
      "compute_retry_delay_seconds sha256 (or_case_id r) (or_delivery_attempts r + 1) 30 900 float_0_2 = Inr delay"
      "r' = r\<lparr>or_status := RETRY, or_updated_at := t, or_delivery_attempts := or_delivery_attempts r + 1,
        or_next_attempt_at := Some (t + seconds delay), or_last_error_code := code, or_last_error_message := Some msg\<rparr>"
      using assms st t' by (auto simp: mark_outbox_record_publish_failure_def Let_def elim!: rbind_InrE)
    with False st t show thesis by (intro that(2)) auto
  qed
qed

lemma validate_ok_iff:
  "is_ok (validate_outbox_record r) \<longleftrightarrow> or_case_id r \<noteq> [] \<and> is_casefile_path (or_casefile_object_path r) \<and>
     is_hex_64 (or_triage_hash r) \<and> or_created_at r \<le> or_updated_at r \<and> 0 \<le> or_delivery_attempts r"
  by (auto simp: validate_outbox_record_def)

lemma create_invar:
  "create_pending_outbox_record clock c now = Inr r \<Longrightarrow> outbox_invar m r \<and> or_status r = PENDING_OBJECT"
  "create_ready_outbox_record clock c now = Inr r \<Longrightarrow> outbox_invar m r \<and> or_status r = READY"
  by (auto simp: create_pending_outbox_record_def create_ready_outbox_record_def outbox_invar_def validate_ok_iff
      validate_outbox_record_def new_outbox_record_def split: if_splits elim!: rbind_InrE)

lemma step_invar:
  assumes "outbox_step sha256 policy app_env r r'" and m: "resolve_max_retry_attempts policy app_env = Inr m"
    and inv: "outbox_invar m r"
  shows "outbox_invar m r'"
  using assms(1)
proof cases
  case (step_ready clock now)
  then show ?thesis by (rule mark_ready_ok) (use inv in \<open>auto simp: outbox_invar_def validate_ok_iff\<close>)
next
  case (step_sent clock now)
  then show ?thesis by (rule mark_sent_ok) (use inv in \<open>auto simp: outbox_invar_def validate_ok_iff\<close>)
next
  case (step_failure clock msg code now)
  then show ?thesis
  proof (rule mark_failure_ok [OF _ m])
    fix t
    assume "or_status r \<in> {READY, RETRY}" "or_updated_at r \<le> t" "m < or_delivery_attempts r + 1"
      "r' = r\<lparr>or_status := DEAD, or_updated_at := t, or_delivery_attempts := or_delivery_attempts r + 1,
        or_next_attempt_at := None, or_last_error_code := code, or_last_error_message := Some msg\<rparr>"
    then show ?thesis using inv by (auto simp: outbox_invar_def validate_ok_iff)
  next
    fix t delay
    assume st: "or_status r \<in> {READY, RETRY}" and "or_updated_at r \<le> t" "or_delivery_attempts r + 1 \<le> m"
      and d: "compute_retry_delay_seconds sha256 (or_case_id r) (or_delivery_attempts r + 1) 30 900 float_0_2 = Inr delay"
      and r': "r' = r\<lparr>or_status := RETRY, or_updated_at := t, or_delivery_attempts := or_delivery_attempts r + 1,
        or_next_attempt_at := Some (t + seconds delay), or_last_error_code := code, or_last_error_message := Some msg\<rparr>"
    have "1 \<le> or_delivery_attempts r + 1" using inv by (auto simp: outbox_invar_def validate_ok_iff)
    from default_delay_bounds [OF this, of sha256 "or_case_id r"] d have "0 < delay" by fastforce
    with st r' \<open>or_updated_at r \<le> t\<close> \<open>or_delivery_attempts r + 1 \<le> m\<close> inv show ?thesis
      by (auto simp: outbox_invar_def validate_ok_iff seconds_def)
  qed
qed

lemma reachable_invar:
  assumes "outbox_reachable sha256 policy app_env r" and "resolve_max_retry_attempts policy app_env = Inr m"
  shows "outbox_invar m r"
  using assms(1) by induction (auto simp: create_invar intro: step_invar assms(2))

text \<open>What a step can and cannot change.\<close>

lemma step_frame:
  assumes "outbox_step sha256 policy app_env r r'" and "resolve_max_retry_attempts policy app_env = Inr m"
  shows "or_case_id r' = or_case_id r \<and> or_casefile_object_path r' = or_casefile_object_path r \<and>
      or_triage_hash r' = or_triage_hash r \<and> or_created_at r' = or_created_at r \<and> or_updated_at r \<le> or_updated_at r'"
    and "(or_status r, or_status r') \<in> {(PENDING_OBJECT, READY), (READY, SENT), (RETRY, SENT), (READY, RETRY),
      (RETRY, RETRY), (READY, DEAD), (RETRY, DEAD)}"
    and "or_delivery_attempts r' = or_delivery_attempts r + (if or_status r = PENDING_OBJECT then 0 else 1)"
    and "or_status r' = RETRY \<Longrightarrow> or_delivery_attempts r' \<le> m"
    and "or_status r' = DEAD \<Longrightarrow> m < or_delivery_attempts r'"
proof -
  have "or_case_id r' = or_case_id r \<and> or_casefile_object_path r' = or_casefile_object_path r \<and>
      or_triage_hash r' = or_triage_hash r \<and> or_created_at r' = or_created_at r \<and> or_updated_at r \<le> or_updated_at r' \<and>
      (or_status r, or_status r') \<in> {(PENDING_OBJECT, READY), (READY, SENT), (RETRY, SENT), (READY, RETRY),
        (RETRY, RETRY), (READY, DEAD), (RETRY, DEAD)} \<and>
      or_delivery_attempts r' = or_delivery_attempts r + (if or_status r = PENDING_OBJECT then 0 else 1) \<and>
      (or_status r' = RETRY \<longrightarrow> or_delivery_attempts r' \<le> m) \<and> (or_status r' = DEAD \<longrightarrow> m < or_delivery_attempts r')"
    using assms(1)
  proof cases
    case step_ready
    then show ?thesis by (rule mark_ready_ok) auto
  next
    case step_sent
    then show ?thesis by (rule mark_sent_ok) auto
  next
    case step_failure
    then show ?thesis by (rule mark_failure_ok [OF _ assms(2)]) auto
  qed
  then show "or_case_id r' = or_case_id r \<and> or_casefile_object_path r' = or_casefile_object_path r \<and>
      or_triage_hash r' = or_triage_hash r \<and> or_created_at r' = or_created_at r \<and> or_updated_at r \<le> or_updated_at r'"
    and "(or_status r, or_status r') \<in> {(PENDING_OBJECT, READY), (READY, SENT), (RETRY, SENT), (READY, RETRY),
      (RETRY, RETRY), (READY, DEAD), (RETRY, DEAD)}"
    and "or_delivery_attempts r' = or_delivery_attempts r + (if or_status r = PENDING_OBJECT then 0 else 1)"
    and "or_status r' = RETRY \<Longrightarrow> or_delivery_attempts r' \<le> m"
    and "or_status r' = DEAD \<Longrightarrow> m < or_delivery_attempts r'"
    by blast+
qed

lemma step_rank:
  assumes "outbox_step sha256 policy app_env r r'" and "resolve_max_retry_attempts policy app_env = Inr m"
    and "outbox_invar m r"
  shows "outbox_rank m r' < outbox_rank m r" and "0 \<le> outbox_rank m r'"
  using step_frame(2-5) [OF assms(1,2)] assms(3) step_invar [OF assms]
  by (auto simp: outbox_rank_def outbox_invar_def)

lemma steps_rank:
  assumes "(outbox_step sha256 policy app_env ^^ n) r r'" and "resolve_max_retry_attempts policy app_env = Inr m"
    and "outbox_invar m r"
  shows "int n + outbox_rank m r' \<le> outbox_rank m r \<and> outbox_invar m r'"
  using assms(1)
proof (induction n arbitrary: r')
  case (Suc n)
  then obtain r1 where r1: "(outbox_step sha256 policy app_env ^^ n) r r1" and st: "outbox_step sha256 policy app_env r1 r'"
    by auto
  from Suc.IH [OF r1] step_rank [OF st assms(2)] step_invar [OF st assms(2)] show ?case by auto
qed (use assms(3) in auto)

lemma rank_nonneg: "outbox_invar m r \<Longrightarrow> 0 \<le> outbox_rank m r"
  by (auto simp: outbox_rank_def outbox_invar_def split: outbox_state.splits)

lemma rank_le: "outbox_invar m r \<Longrightarrow> outbox_rank m r \<le> max 0 m + 2"
  by (auto simp: outbox_rank_def outbox_invar_def split: outbox_state.splits)

lemma failure_total:
  assumes "or_status r \<in> {READY, RETRY}" "0 \<le> or_delivery_attempts r" "resolve_max_retry_attempts policy app_env = Inr m"
  shows "\<exists>r'. mark_outbox_record_publish_failure sha256 clock r policy app_env msg code None = Inr r'"
proof -
  obtain d where "compute_retry_delay_seconds sha256 (or_case_id r) (or_delivery_attempts r + 1) 30 900 float_0_2 = Inr d"
    by (rule default_delay_bounds [of "or_delivery_attempts r + 1"]) (use assms(2) in auto)
  with assms show ?thesis
    by (auto simp: mark_outbox_record_publish_failure_def resolve_transition_now_def resolve_now_def Let_def)
qed

lemma sample_policy_retries: "resolve_max_retry_attempts sample_outbox_policy ''prod'' = Inr 1"
  by (simp add: resolve_max_retry_attempts_def sample_outbox_policy_def required_envs_def)

lemma sample_pending: "create_pending_outbox_record 0 sample_casefile None = Inr (new_outbox_record PENDING_OBJECT sample_casefile 0)"
  by (simp add: create_pending_outbox_record_def resolve_now_def validate_outbox_record_def new_outbox_record_def
      sample_casefile_def is_casefile_path_def is_hex_64_def list_all_iff)

section \<open>Properties\<close>

text \<open>C33: every record the state machine can produce is a valid record; it carries a next attempt time, later than its
  last update, exactly in state RETRY; it has made no attempt before the first publish, at most
  \<open>max_retry_attempts\<close> attempts while retrying, and exactly one more when dead.\<close>

theorem outbox_record_invariant:
  assumes "outbox_reachable sha256 policy app_env r" and "resolve_max_retry_attempts policy app_env = Inr m"
  shows "is_ok (validate_outbox_record r) \<and> (or_next_attempt_at r \<noteq> None \<longleftrightarrow> or_status r = RETRY) \<and>
    (case or_next_attempt_at r of None \<Rightarrow> True | Some t \<Rightarrow> or_updated_at r < t) \<and>
    (case or_status r of
       PENDING_OBJECT \<Rightarrow> or_delivery_attempts r = 0
     | READY \<Rightarrow> or_delivery_attempts r = 0
     | RETRY \<Rightarrow> 1 \<le> or_delivery_attempts r \<and> or_delivery_attempts r \<le> m
     | SENT \<Rightarrow> 1 \<le> or_delivery_attempts r \<and> or_delivery_attempts r \<le> max 0 m + 1
     | DEAD \<Rightarrow> or_delivery_attempts r = max 0 m + 1)"
  using reachable_invar [OF assms] by (simp only: outbox_invar_def)

lemma outbox_record_invariant_witness:
  "is_ok (validate_outbox_record (new_outbox_record PENDING_OBJECT sample_casefile 0))"
  using outbox_record_invariant [OF outbox_reachable.reach_pending [OF sample_pending] sample_policy_retries] by blast

text \<open>C34: no record is worked on forever. From any reachable record at most \<open>max_retry_attempts + 2\<close> transitions
  follow one another, and a record that admits no further transition is SENT or DEAD.\<close>

theorem outbox_terminates:
  assumes "outbox_reachable sha256 policy app_env r" and "resolve_max_retry_attempts policy app_env = Inr m"
  shows "((outbox_step sha256 policy app_env ^^ n) r r' \<longrightarrow> int n \<le> max 0 m + 2) \<and>
    ((\<nexists>r'. outbox_step sha256 policy app_env r r') \<longleftrightarrow> or_status r \<in> {SENT, DEAD})"
proof -
  note inv = reachable_invar [OF assms]
  have "int n \<le> max 0 m + 2" if "(outbox_step sha256 policy app_env ^^ n) r r'"
    using steps_rank [OF that assms(2) inv] rank_nonneg [of m r'] rank_le [OF inv] by linarith
  moreover have "\<exists>r'. outbox_step sha256 policy app_env r r'" if "or_status r \<notin> {SENT, DEAD}"
  proof (cases "or_status r = PENDING_OBJECT")
    case True
    then have "is_ok (mark_outbox_record_ready 0 r None)"
      by (simp add: mark_outbox_record_ready_def resolve_transition_now_def resolve_now_def)
    then show ?thesis unfolding is_ok_iff by (blast intro: outbox_step.step_ready)
  next
    case False
    with that have "or_status r \<in> {READY, RETRY}" by (cases "or_status r") auto
    moreover have "0 \<le> or_delivery_attempts r" using inv by (auto simp: outbox_invar_def validate_ok_iff)
    ultimately show ?thesis using failure_total [OF _ _ assms(2)] by (meson outbox_step.step_failure)
  qed
  moreover have "or_status r \<notin> {SENT, DEAD}" if "outbox_step sha256 policy app_env r r'" for r'
    using step_frame(2) [OF that assms(2)] by auto
  ultimately show ?thesis by blast
qed

lemma outbox_terminates_witness:
  "\<exists>r'. outbox_step (\<lambda>_. []) sample_outbox_policy ''prod'' (new_outbox_record PENDING_OBJECT sample_casefile 0) r'"
proof -
  have "outbox_reachable (\<lambda>_. []) sample_outbox_policy ''prod'' (new_outbox_record PENDING_OBJECT sample_casefile 0)"
    by (rule outbox_reachable.reach_pending [OF sample_pending])
  from outbox_terminates [OF this sample_policy_retries] show ?thesis by (auto simp: new_outbox_record_def)
qed

text \<open>a transition never changes the case id, the object path, the hash or the creation time, never moves
  \<open>updated_at\<close> backward, follows an edge of the diagram, and counts one attempt per publish; it retries only
  within the limit and gives up only beyond it.\<close>

theorem outbox_transition_frame:
  assumes "outbox_step sha256 policy app_env r r'" and "resolve_max_retry_attempts policy app_env = Inr m"
  shows "or_case_id r' = or_case_id r \<and> or_casefile_object_path r' = or_casefile_object_path r \<and>
    or_triage_hash r' = or_triage_hash r \<and> or_created_at r' = or_created_at r \<and> or_updated_at r \<le> or_updated_at r' \<and>
    (or_status r, or_status r') \<in> {(PENDING_OBJECT, READY), (READY, SENT), (RETRY, SENT), (READY, RETRY),
      (RETRY, RETRY), (READY, DEAD), (RETRY, DEAD)} \<and>
    or_delivery_attempts r' = or_delivery_attempts r + (if or_status r = PENDING_OBJECT then 0 else 1) \<and>
    (or_status r' = RETRY \<longrightarrow> or_delivery_attempts r' \<le> m) \<and> (or_status r' = DEAD \<longrightarrow> m < or_delivery_attempts r')"
  using step_frame [OF assms] by blast

lemma outbox_transition_frame_witness:
  "\<exists>r'. mark_outbox_record_sent 9 (new_outbox_record READY sample_casefile 5) None = Inr r' \<and> or_delivery_attempts r' = 1"
proof -
  obtain r' where r': "mark_outbox_record_sent 9 (new_outbox_record READY sample_casefile 5) None = Inr r'"
    by (simp add: mark_outbox_record_sent_def new_outbox_record_def resolve_transition_now_def resolve_now_def)
  from outbox_transition_frame [OF outbox_step.step_sent [OF r', of "\<lambda>_. []"] sample_policy_retries] r'
  show ?thesis by (auto simp: new_outbox_record_def)
qed

text \<open>the default retry schedule is bounded: whatever the digest, the delay before attempt \<open>n + 1\<close> is
  \<open>min(30 * 2^(n-1), 900)\<close> seconds give or take a fifth, so between 24 and 1080 seconds, and the float
  computation of the jitter window never fails.\<close>

theorem retry_delay_bounds:
  assumes "1 \<le> attempt"
  shows "\<exists>d. compute_retry_delay_seconds sha256 cid attempt 30 900 float_0_2 = Inr d \<and>
    \<bar>d - min (30 * 2 ^ nat (attempt - 1)) 900\<bar> \<le> min (30 * 2 ^ nat (attempt - 1)) 900 div 5 \<and> 24 \<le> d \<and> d \<le> 1080"
proof -
  obtain d where d: "compute_retry_delay_seconds sha256 cid attempt 30 900 float_0_2 = Inr d"
    "\<bar>d - min (30 * 2 ^ nat (attempt - 1)) 900\<bar> \<le> min (30 * 2 ^ nat (attempt - 1)) 900 div 5" "24 \<le> d"
    by (rule default_delay_bounds [OF assms])
  have "min (30 * 2 ^ nat (attempt - 1)) 900 \<le> (900 :: int)" by simp
  with d(2) have "d \<le> 1080" by linarith
  with d show ?thesis by blast
qed

lemma retry_delay_bounds_witness:
  "\<exists>d. compute_retry_delay_seconds (\<lambda>_. [1, 2, 3, 4]) ''c1'' 3 30 900 float_0_2 = Inr d \<and> 96 \<le> d \<and> d \<le> 144"
  using retry_delay_bounds [of 3 "\<lambda>_. [1, 2, 3, 4]" "''c1''"] by auto

end
