(* ===== verification/Topology.thy ===== *)
theory Topology
  imports Gate_Inputs Outbox_State "HOL-Library.Product_Lexorder"
begin

text \<open>
  Stage 3: the canonical registry records and ownership lookups of \<open>registry/loader.py\<close>, the
  scope resolver of \<open>registry/resolver.py\<close> and the topology stage of
  \<open>pipeline/stages/topology.py\<close>. Raw registry values are dynamic (\<open>jval\<close>);
  \<open>rend\<close> is \<open>str()\<close> of a float or a container and \<open>dumps\<close> is
  \<open>json.dumps(..., sort_keys=True)\<close>, both only used to build component labels and to read tier
  and system names, and arbitrary in every theorem. Loading and validating the registry file is in
  \<open>Registry_Loader\<close>; the resolver takes the snapshot's registry.
\<close>

section \<open>Registry\<close>

record topic_entry =
  ct_topic :: string
  ct_role :: string
  ct_stream_id :: string
  ct_source_system :: "string option"

record stream_instance =
  si_env :: string
  si_cluster_id :: string
  si_topic_index :: "(string, topic_entry) pydict"
  si_topics :: "(string, string) pydict"
  si_shared_components :: "(string, jval) pydict"
  si_sources :: "(string, jval) pydict list"
  si_sinks :: "(string, jval) pydict list"
  si_peak_window_policy :: "(string, jval) pydict option"

record stream =
  st_stream_id :: string
  st_description :: "string option"
  st_criticality_tier :: "string option"
  st_owners :: "(string, jval) pydict"
  st_instances :: "stream_instance list"

record routing_entry =
  re_routing_key :: string
  re_owning_team_id :: string
  re_owning_team_name :: string
  re_support_channel :: "string option"
  re_escalation_policy_ref :: "string option"
  re_service_now_assignment_group :: "string option"

type_synonym owner_key = "string \<times> string \<times> string"

text \<open>
  One record for the three owner entry classes, which differ in the names of the key's parts:
  environment, cluster and group or topic; for stream defaults stream, environment and cluster.
\<close>

record owner_entry =
  oe_key :: owner_key
  oe_routing_key :: string
  oe_source :: "string option"
  oe_confidence :: "pyfloat option"
  oe_reason_codes :: "string list"

record ownership_map =
  om_consumer_group_owners :: "owner_entry list"
  om_topic_owners :: "owner_entry list"
  om_stream_default_owner :: "owner_entry list"
  om_platform_default :: "string option"

definition dict_setdefault :: "('k, 'v) pydict \<Rightarrow> 'k \<Rightarrow> 'v \<Rightarrow> ('k, 'v) pydict" where
  "dict_setdefault d k v = (if k \<in> set (map fst d) then d else d @ [(k, v)])"

definition build_lookup_index :: "owner_entry list \<Rightarrow> (owner_key, string) pydict" where
  "build_lookup_index entries = fold (\<lambda>e d. dict_setdefault d (oe_key e) (oe_routing_key e)) entries []"

definition consumer_group_routing_key :: "ownership_map \<Rightarrow> string \<Rightarrow> string \<Rightarrow> string \<Rightarrow> string option" where
  "consumer_group_routing_key om env cluster_id g =
     dict_get (build_lookup_index (om_consumer_group_owners om)) (env, cluster_id, g)"

definition topic_routing_key :: "ownership_map \<Rightarrow> string \<Rightarrow> string \<Rightarrow> string \<Rightarrow> string option" where
  "topic_routing_key om env cluster_id topic =
     dict_get (build_lookup_index (om_topic_owners om)) (env, cluster_id, topic)"

definition stream_default_routing_key :: "ownership_map \<Rightarrow> string \<Rightarrow> string \<Rightarrow> string \<Rightarrow> string option" where
  "stream_default_routing_key om stream_id env cluster_id =
     dict_get (build_lookup_index (om_stream_default_owner om)) (stream_id, env, cluster_id)"

record registry =
  rg_streams :: "stream list"
  rg_streams_by_id :: "(string, stream) pydict"
  rg_topic_index_by_scope :: "(string \<times> string, (string, topic_entry) pydict) pydict"
  rg_routing_directory :: "(string, routing_entry) pydict"
  rg_ownership_map :: ownership_map

section \<open>Resolution result\<close>

record downstream_impact =
  di_component_type :: string
  di_component_id :: string
  di_exposure_type :: string
  di_risk_status :: string

record ownership_routing =
  ow_lookup_level :: string
  ow_target :: routing_entry

record topology_resolution =
  tr_scope :: scope
  tr_resolved :: bool
  tr_reason_code :: string
  tr_stream_id :: "string option"
  tr_topic_role :: "topic_role option"
  tr_criticality_tier :: "criticality_tier option"
  tr_source_system :: "string option"
  tr_blast_radius :: "string option"
  tr_downstream_impacts :: "downstream_impact list"
  tr_ownership_routing :: "ownership_routing option"
  tr_diagnostics :: "(string, string) pydict"

definition validate_resolution :: "topology_resolution \<Rightarrow> topology_resolution result" where
  "validate_resolution r =
     (if tr_resolved r then
        (if tr_reason_code r \<noteq> ''resolved'' then raise ValueError (''resolved topology output must use reason_code='' @ [CHR 0x27] @ ''resolved'' @ [CHR 0x27])
         else if tr_stream_id r = None \<or> tr_topic_role r = None \<or> tr_criticality_tier r = None
         then raise ValueError ''resolved topology output requires stream_id, topic_role, and criticality_tier''
         else if tr_blast_radius r = None then raise ValueError ''resolved topology output requires blast_radius''
         else if tr_ownership_routing r = None then raise ValueError ''resolved topology output requires ownership_routing''
         else Inr r)
      else
        (if tr_stream_id r \<noteq> None \<or> tr_topic_role r \<noteq> None
         then raise ValueError ''unresolved topology output cannot include resolved fields''
         else if tr_criticality_tier r \<noteq> None then raise ValueError ''unresolved topology output cannot include criticality_tier''
         else if tr_blast_radius r \<noteq> None then raise ValueError ''unresolved topology output cannot include blast_radius''
         else if tr_downstream_impacts r \<noteq> [] then raise ValueError ''unresolved topology output cannot include downstream_impacts''
         else if tr_ownership_routing r \<noteq> None then raise ValueError ''unresolved topology output cannot include ownership_routing''
         else Inr r))"

definition unresolved :: "scope \<Rightarrow> string \<Rightarrow> (string, string) pydict \<Rightarrow> topology_resolution result" where
  "unresolved sc reason diagnostics = validate_resolution
     \<lparr>tr_scope = sc, tr_resolved = False, tr_reason_code = reason, tr_stream_id = None, tr_topic_role = None,
      tr_criticality_tier = None, tr_source_system = None, tr_blast_radius = None, tr_downstream_impacts = [],
      tr_ownership_routing = None, tr_diagnostics = diagnostics\<rparr>"

section \<open>Reading raw values\<close>

definition py_str :: "(jval \<Rightarrow> string) \<Rightarrow> jval \<Rightarrow> string" where
  "py_str rend v = (case v of
       JNull \<Rightarrow> ''None'' | JBool b \<Rightarrow> (if b then ''True'' else ''False'') | JInt n \<Rightarrow> py_str_int n | JStr s \<Rightarrow> s
     | JFloat _ \<Rightarrow> rend v | JList _ \<Rightarrow> rend v | JDict _ \<Rightarrow> rend v)"

definition non_empty :: "string \<Rightarrow> string option" where
  "non_empty s = (if py_strip s = [] then None else Some (py_strip s))"

definition mapping_str :: "(jval \<Rightarrow> string) \<Rightarrow> (string, jval) pydict \<Rightarrow> string \<Rightarrow> string option" where
  "mapping_str rend m key = (case dict_get m key of
       None \<Rightarrow> None | Some JNull \<Rightarrow> None | Some v \<Rightarrow> non_empty (py_str rend v))"

definition render_component_value :: "(jval \<Rightarrow> string) \<Rightarrow> (jval \<Rightarrow> string) \<Rightarrow> jval \<Rightarrow> string option" where
  "render_component_value rend dumps v = (case v of
       JNull \<Rightarrow> None | JStr s \<Rightarrow> non_empty s
     | JBool _ \<Rightarrow> Some (py_str rend v) | JInt _ \<Rightarrow> Some (py_str rend v) | JFloat _ \<Rightarrow> Some (py_str rend v)
     | _ \<Rightarrow> Some (dumps v))"

definition to_criticality_tier :: "(jval \<Rightarrow> string) \<Rightarrow> jval option \<Rightarrow> criticality_tier option" where
  "to_criticality_tier rend v = (case v of
       None \<Rightarrow> None | Some JNull \<Rightarrow> None
     | Some x \<Rightarrow> (let normalized = py_upper (py_strip (py_str rend x))
                 in if normalized = [] then None else tier_of_value normalized))"

section \<open>Resolver\<close>

definition parse_anomaly_scope :: "scope \<Rightarrow> (string \<times> string \<times> string \<times> string option) option" where
  "parse_anomaly_scope sc =
     (if length sc = 3 then
        (case (non_empty (sc ! 0), non_empty (sc ! 1), non_empty (sc ! 2)) of
           (Some env, Some cluster_id, Some topic) \<Rightarrow> Some (env, cluster_id, topic, None) | _ \<Rightarrow> None)
      else if length sc = 4 then
        (case (non_empty (sc ! 0), non_empty (sc ! 1), non_empty (sc ! 2), non_empty (sc ! 3)) of
           (Some env, Some cluster_id, Some g, Some topic) \<Rightarrow> Some (env, cluster_id, topic, Some g) | _ \<Rightarrow> None)
      else None)"

definition topic_role_normalization :: "(string, topic_role) pydict" where
  "topic_role_normalization = [(''SOURCE_TOPIC'', SOURCE_TOPIC), (''KAFKA_SOURCE_STREAM'', SOURCE_TOPIC),
     (''STANDARDIZER_SHARED'', SHARED_TOPIC), (''AUDIT_RAW_SHARED'', SHARED_TOPIC), (''SHARED_TOPIC'', SHARED_TOPIC),
     (''SINK_TOPIC'', SINK_TOPIC)]"

definition normalize_topic_role :: "string \<Rightarrow> topic_role option" where
  "normalize_topic_role role = dict_get topic_role_normalization (py_upper (py_strip role))"

definition blast_radius_by_topic_role :: "(topic_role, string) pydict" where
  "blast_radius_by_topic_role = [(SOURCE_TOPIC, ''LOCAL_SOURCE_INGESTION''), (SHARED_TOPIC, ''SHARED_KAFKA_INGESTION''),
     (SINK_TOPIC, ''SHARED_KAFKA_INGESTION'')]"

definition find_stream_instance :: "stream \<Rightarrow> string \<Rightarrow> string \<Rightarrow> stream_instance option" where
  "find_stream_instance s env cluster_id = List.find (\<lambda>i. si_env i = env \<and> si_cluster_id i = cluster_id) (st_instances s)"

fun first_some :: "('a \<Rightarrow> 'b option) \<Rightarrow> 'a list \<Rightarrow> 'b option" where
  "first_some f [] = None"
| "first_some f (x # xs) = (case f x of Some y \<Rightarrow> Some y | None \<Rightarrow> first_some f xs)"

definition resolve_source_system ::
  "(jval \<Rightarrow> string) \<Rightarrow> topic_entry \<Rightarrow> stream_instance \<Rightarrow> string \<Rightarrow> string option" where
  "resolve_source_system rend te inst topic = (case ct_source_system te of
       Some s \<Rightarrow> Some s
     | None \<Rightarrow>
         (case first_some (\<lambda>src. if mapping_str rend src ''source_topic'' = Some topic
                                 then mapping_str rend src ''source_system'' else None) (si_sources inst) of
            Some s \<Rightarrow> Some s
          | None \<Rightarrow> first_some (\<lambda>src. mapping_str rend src ''source_system'') (si_sources inst)))"

definition resolve_criticality_tier ::
  "(jval \<Rightarrow> string) \<Rightarrow> stream \<Rightarrow> stream_instance \<Rightarrow> string \<Rightarrow> string option \<Rightarrow> criticality_tier" where
  "resolve_criticality_tier rend s inst topic source_system =
     (let tier_of = (\<lambda>src. to_criticality_tier rend (dict_get src ''criticality_tier''))
      in case to_criticality_tier rend (map_option JStr (st_criticality_tier s)) of
        Some t \<Rightarrow> t
      | None \<Rightarrow>
          (case first_some (\<lambda>src. if mapping_str rend src ''source_topic'' = Some topic then tier_of src else None) (si_sources inst) of
             Some t \<Rightarrow> t
           | None \<Rightarrow>
               (case (case source_system of
                        None \<Rightarrow> None
                      | Some sys \<Rightarrow> first_some (\<lambda>src. if mapping_str rend src ''source_system'' = Some sys then tier_of src else None)
                          (si_sources inst)) of
                  Some t \<Rightarrow> t
                | None \<Rightarrow> (case first_some tier_of (si_sources inst) of Some t \<Rightarrow> t | None \<Rightarrow> TIER_UNKNOWN))))"

definition impact_key :: "downstream_impact \<Rightarrow> string \<times> string \<times> string \<times> string" where
  "impact_key i = (di_component_type i, di_component_id i, di_exposure_type i, di_risk_status i)"

definition opt_or :: "'a option \<Rightarrow> 'a option \<Rightarrow> 'a option" where
  "opt_or a b = (case a of None \<Rightarrow> b | Some _ \<Rightarrow> a)"

definition derive_downstream_impacts ::
  "(jval \<Rightarrow> string) \<Rightarrow> (jval \<Rightarrow> string) \<Rightarrow> stream_instance \<Rightarrow> downstream_impact list" where
  "derive_downstream_impacts rend dumps inst =
     (let impact = (\<lambda>ty cid ex. \<lparr>di_component_type = ty, di_component_id = cid, di_exposure_type = ex, di_risk_status = ''AT_RISK''\<rparr>);
          sources = List.map_filter (\<lambda>src. map_option (\<lambda>c. impact ''source'' c ''DIRECT_COMPONENT_RISK'')
            (opt_or (mapping_str rend src ''source_system'') (mapping_str rend src ''source_topic''))) (si_sources inst);
          sinks = List.map_filter (\<lambda>snk. map_option (\<lambda>c. impact ''sink'' c ''DOWNSTREAM_DATA_FRESHNESS_RISK'')
            (opt_or (mapping_str rend snk ''sink_id'') (opt_or (mapping_str rend snk ''hdfs_path'')
               (mapping_str rend snk ''hive_external_view'')))) (si_sinks inst);
          shared = List.map_filter (\<lambda>(k, v). map_option (\<lambda>c. impact ''shared_component'' (k @ '':'' @ c) ''VISIBILITY_ONLY'')
            (render_component_value rend dumps v)) (sort_key fst (si_shared_components inst));
          by_key = fold (\<lambda>i d. dict_setdefault d (impact_key i) i) (sources @ sinks @ shared) []
      in map snd (sort_key fst by_key))"

definition select_owner_routing_key ::
  "ownership_map \<Rightarrow> string \<Rightarrow> string \<Rightarrow> string \<Rightarrow> string option \<Rightarrow> string \<Rightarrow> (string \<times> string) option" where
  "select_owner_routing_key om env cluster_id topic g stream_id =
     (case (case g of None \<Rightarrow> None | Some grp \<Rightarrow> consumer_group_routing_key om env cluster_id grp) of
        Some key \<Rightarrow> Some (''consumer_group_owner'', key)
      | None \<Rightarrow>
          (case topic_routing_key om env cluster_id topic of
             Some key \<Rightarrow> Some (''topic_owner'', key)
           | None \<Rightarrow>
               (case stream_default_routing_key om stream_id env cluster_id of
                  Some key \<Rightarrow> Some (''stream_default_owner'', key)
                | None \<Rightarrow> map_option (Pair ''platform_default'') (om_platform_default om))))"

definition ownership_lookup_path :: "bool \<Rightarrow> string" where
  "ownership_lookup_path include_consumer_group =
     (if include_consumer_group then ''consumer_group_owner->topic_owner->stream_default_owner->platform_default''
      else ''topic_owner->stream_default_owner->platform_default'')"

definition scope_diagnostics :: "string \<Rightarrow> string \<Rightarrow> string \<Rightarrow> string option \<Rightarrow> string option \<Rightarrow> (string, string) pydict" where
  "scope_diagnostics env cluster_id topic g stream_id =
     [(''env'', env), (''cluster_id'', cluster_id), (''topic'', topic)] @
     (case g of None \<Rightarrow> [] | Some x \<Rightarrow> [(''group'', x)]) @ (case stream_id of None \<Rightarrow> [] | Some x \<Rightarrow> [(''stream_id'', x)])"

text \<open>The routing, or the unresolved result that replaces it.\<close>

definition resolve_ownership_routing ::
  "scope \<Rightarrow> ownership_map \<Rightarrow> (string, routing_entry) pydict \<Rightarrow> string \<Rightarrow> string \<Rightarrow> string \<Rightarrow> string option \<Rightarrow> string \<Rightarrow>
   ownership_routing + topology_resolution result" where
  "resolve_ownership_routing sc om directory env cluster_id topic g stream_id =
     (let path = ownership_lookup_path (g \<noteq> None);
          diagnostics = scope_diagnostics env cluster_id topic g (Some stream_id) @ [(''ownership_lookup_path'', path)]
      in case select_owner_routing_key om env cluster_id topic g stream_id of
        None \<Rightarrow> Inr (unresolved sc ''owner_not_found'' diagnostics)
      | Some (level, key) \<Rightarrow>
          (case dict_get directory key of
             None \<Rightarrow> Inr (unresolved sc ''routing_key_not_found''
               (diagnostics @ [(''selected_owner_level'', level), (''selected_routing_key'', key)]))
           | Some target \<Rightarrow> Inl \<lparr>ow_lookup_level = level, ow_target = target\<rparr>))"

definition resolve_anomaly_scope ::
  "(jval \<Rightarrow> string) \<Rightarrow> (jval \<Rightarrow> string) \<Rightarrow> registry \<Rightarrow> scope \<Rightarrow> topology_resolution result" where
  "resolve_anomaly_scope rend dumps rg sc = (case parse_anomaly_scope sc of
       None \<Rightarrow> unresolved sc ''invalid_scope_shape'' [(''scope'', py_join ''|'' sc)]
     | Some (env, cluster_id, topic, g) \<Rightarrow>
         let base = [(''env'', env), (''cluster_id'', cluster_id), (''topic'', topic)]
         in case dict_get (rg_topic_index_by_scope rg) (env, cluster_id) of
           None \<Rightarrow> unresolved sc ''scope_not_found'' base
         | Some scoped_topics \<Rightarrow>
         (case dict_get scoped_topics topic of
            None \<Rightarrow> unresolved sc ''topic_not_found'' base
          | Some te \<Rightarrow>
          (case dict_get (rg_streams_by_id rg) (ct_stream_id te) of
             None \<Rightarrow> unresolved sc ''stream_not_found'' (base @ [(''stream_id'', ct_stream_id te)])
           | Some s \<Rightarrow>
           (case find_stream_instance s env cluster_id of
              None \<Rightarrow> unresolved sc ''stream_instance_not_found''
                [(''env'', env), (''cluster_id'', cluster_id), (''stream_id'', st_stream_id s)]
            | Some inst \<Rightarrow>
            (case normalize_topic_role (ct_role te) of
               None \<Rightarrow> unresolved sc ''UNSUPPORTED_TOPIC_ROLE'' (base @ [(''raw_topic_role'', ct_role te)])
             | Some role \<Rightarrow>
             (case dict_get blast_radius_by_topic_role role of
                None \<Rightarrow> unresolved sc ''UNSUPPORTED_TOPIC_ROLE''
                  (base @ [(''raw_topic_role'', ct_role te), (''normalized_topic_role'', topic_role_value role)])
              | Some radius \<Rightarrow>
                  let impacts = derive_downstream_impacts rend dumps inst;
                      source_system = resolve_source_system rend te inst topic;
                      tier = resolve_criticality_tier rend s inst topic source_system
                  in case resolve_ownership_routing sc (rg_ownership_map rg) (rg_routing_directory rg) env cluster_id topic g
                            (st_stream_id s) of
                    Inr unres \<Rightarrow> unres
                  | Inl routing \<Rightarrow> validate_resolution
                      \<lparr>tr_scope = sc, tr_resolved = True, tr_reason_code = ''resolved'',
                       tr_stream_id = Some (st_stream_id s), tr_topic_role = Some role, tr_criticality_tier = Some tier,
                       tr_source_system = source_system, tr_blast_radius = Some radius, tr_downstream_impacts = impacts,
                       tr_ownership_routing = Some routing,
                       tr_diagnostics = scope_diagnostics env cluster_id topic g None @
                         [(''ownership_lookup_path'', ownership_lookup_path (g \<noteq> None)),
                          (''selected_owner_level'', ow_lookup_level routing),
                          (''selected_routing_key'', re_routing_key (ow_target routing))]\<rparr>))))))"

fun resolve_scopes_in_order ::
  "(scope \<Rightarrow> topology_resolution result) \<Rightarrow> scope list \<Rightarrow> (scope, topology_resolution) pydict \<Rightarrow>
   (scope, topology_resolution) pydict result" where
  "resolve_scopes_in_order resolve [] acc = Inr acc"
| "resolve_scopes_in_order resolve (sc # scs) acc =
     rbind (resolve sc) (\<lambda>r. resolve_scopes_in_order resolve scs (dict_set acc sc r))"

definition resolve_anomaly_scopes ::
  "(jval \<Rightarrow> string) \<Rightarrow> (jval \<Rightarrow> string) \<Rightarrow> registry \<Rightarrow> scope list \<Rightarrow> (scope, topology_resolution) pydict result" where
  "resolve_anomaly_scopes rend dumps rg scopes =
     resolve_scopes_in_order (resolve_anomaly_scope rend dumps rg) (sort scopes) []"

section \<open>Topology stage\<close>

record topology_impact_context =
  ti_blast_radius :: string
  ti_downstream_impacts :: "downstream_impact list"

record topology_routing_context =
  tx_lookup_level :: string
  tx_routing_key :: string
  tx_owning_team_id :: string
  tx_owning_team_name :: string
  tx_support_channel :: "string option"
  tx_escalation_policy_ref :: "string option"
  tx_service_now_assignment_group :: "string option"

record topology_stage_output =
  to_context_by_scope :: "(scope, gate_input_context) pydict"
  to_impact_by_scope :: "(scope, topology_impact_context) pydict"
  to_routing_by_scope :: "(scope, topology_routing_context) pydict"
  to_unresolved_by_scope :: "(scope, topology_resolution) pydict"

text \<open>
  One iteration of the stage's loop. The \<open>assert\<close>s of the resolved branch are its failure cases; the
  fields the constructor call leaves out of \<open>GateInputContext\<close> take the defaults of the class.
\<close>

definition add_resolution :: "scope \<Rightarrow> topology_resolution \<Rightarrow> topology_stage_output \<Rightarrow> topology_stage_output result" where
  "add_resolution sc r out =
     (if tr_resolved r then
        (case (tr_stream_id r, tr_topic_role r, tr_criticality_tier r, tr_blast_radius r, tr_ownership_routing r) of
           (Some sid, Some role, Some tier, Some radius, Some ow) \<Rightarrow>
             Inr (out\<lparr>
               to_context_by_scope := dict_set (to_context_by_scope out) sc
                 \<lparr>cx_stream_id = sid, cx_topic_role = role, cx_criticality_tier = tier,
                  cx_source_system = tr_source_system r, cx_proposed_action = OBSERVE,
                  cx_diagnosis_confidence = Fin 0, cx_partition_count_observed = None, cx_case_id = None,
                  cx_decision_basis = None\<rparr>,
               to_impact_by_scope := dict_set (to_impact_by_scope out) sc
                 \<lparr>ti_blast_radius = radius, ti_downstream_impacts = tr_downstream_impacts r\<rparr>,
               to_routing_by_scope := dict_set (to_routing_by_scope out) sc
                 \<lparr>tx_lookup_level = ow_lookup_level ow, tx_routing_key = re_routing_key (ow_target ow),
                  tx_owning_team_id = re_owning_team_id (ow_target ow),
                  tx_owning_team_name = re_owning_team_name (ow_target ow),
                  tx_support_channel = re_support_channel (ow_target ow),
                  tx_escalation_policy_ref = re_escalation_policy_ref (ow_target ow),
                  tx_service_now_assignment_group = re_service_now_assignment_group (ow_target ow)\<rparr>\<rparr>)
         | _ \<Rightarrow> raise OtherException ''AssertionError'')
      else Inr (out\<lparr>to_unresolved_by_scope := dict_set (to_unresolved_by_scope out) sc r\<rparr>))"

fun add_scopes ::
  "(scope \<Rightarrow> topology_resolution result) \<Rightarrow> scope list \<Rightarrow> topology_stage_output \<Rightarrow> topology_stage_output result" where
  "add_scopes resolve [] out = Inr out"
| "add_scopes resolve (sc # scs) out =
     rbind (resolve sc) (\<lambda>r. rbind (add_resolution sc r out) (\<lambda>out'. add_scopes resolve scs out'))"

definition build_topology_stage_output ::
  "(jval \<Rightarrow> string) \<Rightarrow> (jval \<Rightarrow> string) \<Rightarrow> registry \<Rightarrow> scope list \<Rightarrow> topology_stage_output result" where
  "build_topology_stage_output rend dumps rg scopes =
     add_scopes (resolve_anomaly_scope rend dumps rg) (sort scopes)
       \<lparr>to_context_by_scope = [], to_impact_by_scope = [], to_routing_by_scope = [], to_unresolved_by_scope = []\<rparr>"

definition collect_topology_stage_output ::
  "(jval \<Rightarrow> string) \<Rightarrow> (jval \<Rightarrow> string) \<Rightarrow> registry \<Rightarrow> evidence_stage_output \<Rightarrow> topology_stage_output result" where
  "collect_topology_stage_output rend dumps rg ev =
     build_topology_stage_output rend dumps rg (map fst (eo_gate_findings_by_scope ev))"

definition run_topology_stage_cycle ::
  "(jval \<Rightarrow> string) \<Rightarrow> (jval \<Rightarrow> string) \<Rightarrow> evidence_stage_output \<Rightarrow> registry \<Rightarrow> topology_stage_output result" where
  "run_topology_stage_cycle rend dumps ev rg = collect_topology_stage_output rend dumps rg ev"

text \<open>Specification side: what every result satisfies, and the owner the precedence order selects.\<close>

definition unresolved_reasons :: "string list" where
  "unresolved_reasons = [''invalid_scope_shape'', ''scope_not_found'', ''topic_not_found'', ''stream_not_found'',
     ''stream_instance_not_found'', ''UNSUPPORTED_TOPIC_ROLE'', ''owner_not_found'', ''routing_key_not_found'']"

definition resolution_wf :: "topology_resolution \<Rightarrow> bool" where
  "resolution_wf r =
     (if tr_resolved r
      then tr_reason_code r = ''resolved'' \<and> tr_stream_id r \<noteq> None \<and> tr_criticality_tier r \<noteq> None \<and>
           tr_ownership_routing r \<noteq> None \<and>
           (\<exists>role. tr_topic_role r = Some role \<and> tr_blast_radius r =
              Some (if role = SOURCE_TOPIC then ''LOCAL_SOURCE_INGESTION'' else ''SHARED_KAFKA_INGESTION''))
      else tr_reason_code r \<in> set unresolved_reasons \<and> tr_stream_id r = None \<and> tr_topic_role r = None \<and>
           tr_criticality_tier r = None \<and> tr_source_system r = None \<and> tr_blast_radius r = None \<and>
           tr_downstream_impacts r = [] \<and> tr_ownership_routing r = None)"

text \<open>The pairs an owner list stands for.\<close>

definition owner_items :: "owner_entry list \<Rightarrow> (owner_key \<times> string) list" where
  "owner_items entries = map (\<lambda>e. (oe_key e, oe_routing_key e)) entries"

definition most_specific_owner ::
  "ownership_map \<Rightarrow> string \<Rightarrow> string \<Rightarrow> string \<Rightarrow> string option \<Rightarrow> string \<Rightarrow> string \<Rightarrow> string \<Rightarrow> bool" where
  "most_specific_owner om env cluster_id topic g stream_id level key =
     (let by_group = Option.bind g (\<lambda>x. map_of (owner_items (om_consumer_group_owners om)) (env, cluster_id, x));
          by_topic = map_of (owner_items (om_topic_owners om)) (env, cluster_id, topic);
          by_stream = map_of (owner_items (om_stream_default_owner om)) (stream_id, env, cluster_id)
      in by_group = Some key \<and> level = ''consumer_group_owner'' \<or>
         by_group = None \<and> by_topic = Some key \<and> level = ''topic_owner'' \<or>
         by_group = None \<and> by_topic = None \<and> by_stream = Some key \<and> level = ''stream_default_owner'' \<or>
         by_group = None \<and> by_topic = None \<and> by_stream = None \<and> om_platform_default om = Some key \<and>
           level = ''platform_default'')"

text \<open>
  The cross references a loaded registry is meant to satisfy: indexed topics belong to a stream with
  an instance in that scope, roles are known, every owner key is in the routing directory and there
  is a platform default.
\<close>

definition registry_coherent :: "registry \<Rightarrow> bool" where
  "registry_coherent rg =
     ((\<forall>((env, cid), topics) \<in> set (rg_topic_index_by_scope rg). \<forall>(topic, te) \<in> set topics.
         normalize_topic_role (ct_role te) \<noteq> None \<and>
         (\<exists>s. dict_get (rg_streams_by_id rg) (ct_stream_id te) = Some s \<and> find_stream_instance s env cid \<noteq> None)) \<and>
      (let om = rg_ownership_map rg; known = (\<lambda>key. dict_get (rg_routing_directory rg) key \<noteq> None)
       in (\<forall>key \<in> snd ` (set (owner_items (om_consumer_group_owners om)) \<union> set (owner_items (om_topic_owners om)) \<union> set (owner_items (om_stream_default_owner om))). known key) \<and>
          (\<exists>key. om_platform_default om = Some key \<and> known key)))"

text \<open>Where the stage puts a scope that it has handled, by the outcome of its resolution.\<close>

definition scope_absent :: "topology_stage_output \<Rightarrow> scope \<Rightarrow> bool" where
  "scope_absent out sc = (dict_get (to_context_by_scope out) sc = None \<and> dict_get (to_impact_by_scope out) sc = None \<and>
     dict_get (to_routing_by_scope out) sc = None \<and> dict_get (to_unresolved_by_scope out) sc = None)"

definition scope_resolved :: "topology_stage_output \<Rightarrow> scope \<Rightarrow> topology_resolution \<Rightarrow> bool" where
  "scope_resolved out sc r = (\<exists>cx ti tx ow.
     dict_get (to_context_by_scope out) sc = Some cx \<and> dict_get (to_impact_by_scope out) sc = Some ti \<and>
     dict_get (to_routing_by_scope out) sc = Some tx \<and> dict_get (to_unresolved_by_scope out) sc = None \<and>
     cx_proposed_action cx = OBSERVE \<and> cx_diagnosis_confidence cx = Fin 0 \<and>
     tr_stream_id r = Some (cx_stream_id cx) \<and> tr_topic_role r = Some (cx_topic_role cx) \<and>
     tr_criticality_tier r = Some (cx_criticality_tier cx) \<and> tr_blast_radius r = Some (ti_blast_radius ti) \<and>
     tr_downstream_impacts r = ti_downstream_impacts ti \<and>
     tr_ownership_routing r = Some ow \<and> tx_lookup_level tx = ow_lookup_level ow \<and>
     tx_routing_key tx = re_routing_key (ow_target ow))"

definition scope_unresolved :: "topology_stage_output \<Rightarrow> scope \<Rightarrow> topology_resolution \<Rightarrow> bool" where
  "scope_unresolved out sc r = (dict_get (to_context_by_scope out) sc = None \<and>
     dict_get (to_impact_by_scope out) sc = None \<and> dict_get (to_routing_by_scope out) sc = None \<and>
     dict_get (to_unresolved_by_scope out) sc = Some r)"

definition scope_placed ::
  "(jval \<Rightarrow> string) \<Rightarrow> (jval \<Rightarrow> string) \<Rightarrow> registry \<Rightarrow> topology_stage_output \<Rightarrow> scope \<Rightarrow> bool" where
  "scope_placed rend dumps rg out sc = (\<exists>r. resolve_anomaly_scope rend dumps rg sc = Inr r \<and>
     (if tr_resolved r then scope_resolved out sc r else scope_unresolved out sc r))"

definition stage_inv ::
  "(jval \<Rightarrow> string) \<Rightarrow> (jval \<Rightarrow> string) \<Rightarrow> registry \<Rightarrow> scope set \<Rightarrow> topology_stage_output \<Rightarrow> bool" where
  "stage_inv rend dumps rg done out =
     (\<forall>sc. if sc \<in> done then scope_placed rend dumps rg out sc else scope_absent out sc)"

text \<open>A registry with one shared topic, owned by its consumer group and by the platform, for the witnesses.\<close>

definition sample_instance :: stream_instance where
  "sample_instance = \<lparr>si_env = ''prod'', si_cluster_id = ''c1'', si_topic_index = [], si_topics = [],
     si_shared_components = [(''namenode'', JStr ''nn1''), (''broker'', JStr ''b1'')],
     si_sources = [[(''source_system'', JStr ''erp''), (''criticality_tier'', JStr ''tier_0'')], [(''source_topic'', JStr ''in'')]],
     si_sinks = [[(''sink_id'', JStr ''lake'')]], si_peak_window_policy = None\<rparr>"

definition sample_stream :: stream where
  "sample_stream = \<lparr>st_stream_id = ''s1'', st_description = None, st_criticality_tier = None, st_owners = [], st_instances = [sample_instance]\<rparr>"

definition sample_registry :: registry where
  "sample_registry =
     \<lparr>rg_streams = [sample_stream], rg_streams_by_id = [(''s1'', sample_stream)],
      rg_topic_index_by_scope = [((''prod'', ''c1''),
        [(''orders'', \<lparr>ct_topic = ''orders'', ct_role = ''standardizer_shared'', ct_stream_id = ''s1'', ct_source_system = None\<rparr>)])],
      rg_routing_directory = [
        (''team-a'', \<lparr>re_routing_key = ''team-a'', re_owning_team_id = ''a'', re_owning_team_name = ''A'', re_support_channel = None,
           re_escalation_policy_ref = None, re_service_now_assignment_group = None\<rparr>),
        (''platform'', \<lparr>re_routing_key = ''platform'', re_owning_team_id = ''p'', re_owning_team_name = ''P'', re_support_channel = None,
           re_escalation_policy_ref = None, re_service_now_assignment_group = None\<rparr>)],
      rg_ownership_map = \<lparr>om_consumer_group_owners = [\<lparr>oe_key = (''prod'', ''c1'', ''billing''),
          oe_routing_key = ''team-a'', oe_source = None, oe_confidence = None, oe_reason_codes = []\<rparr>], om_topic_owners = [],
        om_stream_default_owner = [], om_platform_default = Some ''platform''\<rparr>\<rparr>"

section \<open>Lemmas\<close>

lemma dict_setdefault_get:
  "dict_get (dict_setdefault d k v) j = (if j = k \<and> dict_get d k = None then Some v else dict_get d j)"
proof -
  have "k \<in> set (map fst d) \<longleftrightarrow> dict_get d k \<noteq> None" by (simp add: map_of_eq_None_iff)
  then show ?thesis by (auto simp: dict_setdefault_def map_add_def split: option.splits)
qed

text \<open>\<open>setdefault\<close> keeps the first entry of a key, so the index is the first-match lookup.\<close>

lemma build_lookup_index_get: "dict_get (build_lookup_index es) k = map_of (owner_items es) k"
proof -
  have "dict_get (fold (\<lambda>e d. dict_setdefault d (oe_key e) (oe_routing_key e)) es d) k =
      (case dict_get d k of None \<Rightarrow> map_of (owner_items es) k | Some v \<Rightarrow> Some v)" for d
    by (induction es arbitrary: d) (auto simp: owner_items_def dict_setdefault_get split: option.splits)
  then show ?thesis by (simp add: build_lookup_index_def)
qed

lemma unresolved_ok:
  "\<exists>r. unresolved sc reason d = Inr r \<and> tr_scope r = sc \<and> \<not> tr_resolved r \<and> tr_reason_code r = reason \<and>
     (reason \<in> set unresolved_reasons \<longrightarrow> resolution_wf r)"
  by (simp add: unresolved_def validate_resolution_def resolution_wf_def)

lemma select_owner_spec:
  "select_owner_routing_key om env cid topic g sid = Some (level, key) \<longleftrightarrow>
     most_specific_owner om env cid topic g sid level key"
  by (cases g) (auto simp: select_owner_routing_key_def most_specific_owner_def build_lookup_index_get
      consumer_group_routing_key_def topic_routing_key_def stream_default_routing_key_def Let_def split: option.splits)

lemma blast_radius_get:
  "dict_get blast_radius_by_topic_role role =
     Some (if role = SOURCE_TOPIC then ''LOCAL_SOURCE_INGESTION'' else ''SHARED_KAFKA_INGESTION'')"
  by (cases role) (simp_all add: blast_radius_by_topic_role_def)

lemma resolve_ownership_cases:
  obtains (none) reason d where "reason \<in> {''owner_not_found'', ''routing_key_not_found''}"
      "resolve_ownership_routing sc om dir env cid topic g sid = Inr (unresolved sc reason d)"
      "reason = ''owner_not_found'' \<longrightarrow> (\<forall>level key. \<not> most_specific_owner om env cid topic g sid level key)"
      "reason = ''routing_key_not_found'' \<longrightarrow>
         (\<exists>level key. most_specific_owner om env cid topic g sid level key \<and> dict_get dir key = None)"
  | (found) ow key where "resolve_ownership_routing sc om dir env cid topic g sid = Inl ow"
      "most_specific_owner om env cid topic g sid (ow_lookup_level ow) key" "dict_get dir key = Some (ow_target ow)"
proof (cases "select_owner_routing_key om env cid topic g sid")
  case None
  then have "\<forall>level key. \<not> most_specific_owner om env cid topic g sid level key"
    by (simp flip: select_owner_spec)
  with None none [of "''owner_not_found''"] show ?thesis
    by (simp add: resolve_ownership_routing_def Let_def)
next
  case (Some lk)
  then obtain level key where lk: "select_owner_routing_key om env cid topic g sid = Some (level, key)" by (cases lk) simp
  then have ms: "most_specific_owner om env cid topic g sid level key" by (simp add: select_owner_spec)
  show ?thesis
  proof (cases "dict_get dir key")
    case None
    with lk ms none [of "''routing_key_not_found''"] show ?thesis
      by (auto simp: resolve_ownership_routing_def Let_def)
  next
    case (Some target)
    with lk ms found [of "\<lparr>ow_lookup_level = level, ow_target = target\<rparr>" key] show ?thesis
      by (simp add: resolve_ownership_routing_def Let_def)
  qed
qed

lemma resolve_cases:
  obtains (no) reason d where "reason \<in> set unresolved_reasons" "resolve_anomaly_scope rend dumps rg sc = unresolved sc reason d"
  | (yes) r env cid topic g topics te s inst ow key where "resolve_anomaly_scope rend dumps rg sc = Inr r"
      "tr_scope r = sc" "tr_resolved r" "resolution_wf r" "parse_anomaly_scope sc = Some (env, cid, topic, g)"
      "dict_get (rg_topic_index_by_scope rg) (env, cid) = Some topics" "dict_get topics topic = Some te"
      "dict_get (rg_streams_by_id rg) (ct_stream_id te) = Some s" "find_stream_instance s env cid = Some inst"
      "tr_stream_id r = Some (st_stream_id s)" "tr_topic_role r = normalize_topic_role (ct_role te)"
      "tr_ownership_routing r = Some ow" "dict_get (rg_routing_directory rg) key = Some (ow_target ow)"
      "most_specific_owner (rg_ownership_map rg) env cid topic g (st_stream_id s) (ow_lookup_level ow) key"
proof (cases "parse_anomaly_scope sc")
  case None
  then show ?thesis using no [of "''invalid_scope_shape''"] by (simp add: resolve_anomaly_scope_def unresolved_reasons_def)
next
  case (Some p)
  obtain env cid topic g where p: "parse_anomaly_scope sc = Some (env, cid, topic, g)" using Some by (cases p) simp
  note d = resolve_anomaly_scope_def p Let_def unresolved_reasons_def
  consider (a) "dict_get (rg_topic_index_by_scope rg) (env, cid) = None"
    | (b) topics where "dict_get (rg_topic_index_by_scope rg) (env, cid) = Some topics" "dict_get topics topic = None"
    | (c) topics te where "dict_get (rg_topic_index_by_scope rg) (env, cid) = Some topics" "dict_get topics topic = Some te"
        "dict_get (rg_streams_by_id rg) (ct_stream_id te) = None"
    | (e) topics te s where "dict_get (rg_topic_index_by_scope rg) (env, cid) = Some topics" "dict_get topics topic = Some te"
        "dict_get (rg_streams_by_id rg) (ct_stream_id te) = Some s" "find_stream_instance s env cid = None"
    | (f) topics te s inst where "dict_get (rg_topic_index_by_scope rg) (env, cid) = Some topics" "dict_get topics topic = Some te"
        "dict_get (rg_streams_by_id rg) (ct_stream_id te) = Some s" "find_stream_instance s env cid = Some inst"
        "normalize_topic_role (ct_role te) = None"
    | (h) topics te s inst role where "dict_get (rg_topic_index_by_scope rg) (env, cid) = Some topics" "dict_get topics topic = Some te"
        "dict_get (rg_streams_by_id rg) (ct_stream_id te) = Some s" "find_stream_instance s env cid = Some inst"
        "normalize_topic_role (ct_role te) = Some role"
    by (metis option.exhaust)
  then show ?thesis
  proof cases
    case a then show ?thesis using no [of "''scope_not_found''"] by (simp add: d)
  next
    case b then show ?thesis using no [of "''topic_not_found''"] by (simp add: d)
  next
    case c then show ?thesis using no [of "''stream_not_found''"] by (simp add: d)
  next
    case e then show ?thesis using no [of "''stream_instance_not_found''"] by (simp add: d)
  next
    case f then show ?thesis using no [of "''UNSUPPORTED_TOPIC_ROLE''"] by (simp add: d)
  next
    case h
    show ?thesis
    proof (cases rule: resolve_ownership_cases [of sc "rg_ownership_map rg" "rg_routing_directory rg" env cid topic g "st_stream_id s"])
      case (none reason dd)
      with h show ?thesis using no [of reason dd] by (auto simp: d blast_radius_get)
    next
      case (found ow key)
      with h have "\<exists>r. resolve_anomaly_scope rend dumps rg sc = Inr r \<and> tr_scope r = sc \<and> tr_resolved r \<and> resolution_wf r \<and>
          tr_stream_id r = Some (st_stream_id s) \<and> tr_topic_role r = normalize_topic_role (ct_role te) \<and>
          tr_ownership_routing r = Some ow"
        by (simp add: resolve_anomaly_scope_def p Let_def blast_radius_get validate_resolution_def resolution_wf_def)
      then obtain r where r: "resolve_anomaly_scope rend dumps rg sc = Inr r" "tr_scope r = sc" "tr_resolved r" "resolution_wf r"
          "tr_stream_id r = Some (st_stream_id s)" "tr_topic_role r = normalize_topic_role (ct_role te)"
          "tr_ownership_routing r = Some ow" by blast
      from yes [OF r(1-4) p h(1-4) r(5-7) found(3,2)] show ?thesis .
    qed
  qed
qed

lemma resolve_total:
  "\<exists>r. resolve_anomaly_scope rend dumps rg sc = Inr r \<and> tr_scope r = sc \<and> resolution_wf r"
proof (cases rule: resolve_cases [of rend dumps rg sc])
  case (no reason d)
  with unresolved_ok [of sc reason d] show ?thesis by auto
qed blast

lemma resolution_wf_present:
  assumes "resolution_wf r" "tr_resolved r"
  obtains sid role tier radius ow where "tr_stream_id r = Some sid" "tr_topic_role r = Some role"
    "tr_criticality_tier r = Some tier" "tr_blast_radius r = Some radius" "tr_ownership_routing r = Some ow"
  using assms by (auto simp: resolution_wf_def)

text \<open>The stage's loop keeps the four dictionaries keyed consistently.\<close>

lemma add_resolution_other:
  assumes "add_resolution sc r out = Inr out'" "sc' \<noteq> sc"
  shows "dict_get (to_context_by_scope out') sc' = dict_get (to_context_by_scope out) sc' \<and>
     dict_get (to_impact_by_scope out') sc' = dict_get (to_impact_by_scope out) sc' \<and>
     dict_get (to_routing_by_scope out') sc' = dict_get (to_routing_by_scope out) sc' \<and>
     dict_get (to_unresolved_by_scope out') sc' = dict_get (to_unresolved_by_scope out) sc'"
  using assms unfolding add_resolution_def by (simp split: if_splits option.splits) (hypsubst, simp)+

lemma add_resolution_frame:
  assumes "add_resolution sc r out = Inr out'" "sc' \<noteq> sc"
  shows "scope_placed rend dumps rg out' sc' = scope_placed rend dumps rg out sc'" "scope_absent out' sc' = scope_absent out sc'"
  using add_resolution_other [OF assms]
  by (simp_all only: scope_placed_def scope_resolved_def scope_unresolved_def scope_absent_def)

lemma add_resolution_placed:
  assumes "resolve_anomaly_scope rend dumps rg sc = Inr r"
    and "scope_placed rend dumps rg out sc \<or> scope_absent out sc"
  shows "\<exists>out'. add_resolution sc r out = Inr out' \<and> scope_placed rend dumps rg out' sc"
proof (cases "tr_resolved r")
  case True
  have "resolution_wf r" using resolve_total [of rend dumps rg sc] assms(1) by auto
  from this True obtain sid role tier radius ow where f: "tr_stream_id r = Some sid" "tr_topic_role r = Some role"
      "tr_criticality_tier r = Some tier" "tr_blast_radius r = Some radius" "tr_ownership_routing r = Some ow"
    by (rule resolution_wf_present)
  have "dict_get (to_unresolved_by_scope out) sc = None"
    using assms True by (auto simp: scope_placed_def scope_resolved_def scope_absent_def)
  then show ?thesis using assms(1) True f
    by (simp add: add_resolution_def scope_placed_def scope_resolved_def)
next
  case False
  have "dict_get (to_context_by_scope out) sc = None \<and> dict_get (to_impact_by_scope out) sc = None \<and>
      dict_get (to_routing_by_scope out) sc = None"
    using assms False by (auto simp: scope_placed_def scope_unresolved_def scope_absent_def)
  then show ?thesis using assms(1) False
    by (simp add: add_resolution_def scope_placed_def scope_unresolved_def)
qed

lemma add_resolution_inv:
  assumes inv: "stage_inv rend dumps rg done out" and r: "resolve_anomaly_scope rend dumps rg sc = Inr r"
  shows "\<exists>out'. add_resolution sc r out = Inr out' \<and> stage_inv rend dumps rg (insert sc done) out'"
proof -
  have "scope_placed rend dumps rg out sc \<or> scope_absent out sc" using inv by (metis stage_inv_def)
  from add_resolution_placed [OF r this] obtain out' where o: "add_resolution sc r out = Inr out'"
    and p: "scope_placed rend dumps rg out' sc" by blast
  have "stage_inv rend dumps rg (insert sc done) out'"
    unfolding stage_inv_def
  proof
    fix sc'
    show "if sc' \<in> insert sc done then scope_placed rend dumps rg out' sc' else scope_absent out' sc'"
      using p inv add_resolution_frame [OF o, of sc'] by (cases "sc' = sc") (auto simp: stage_inv_def)
  qed
  with o show ?thesis by blast
qed

lemma add_scopes_inv:
  "stage_inv rend dumps rg done out \<Longrightarrow>
     \<exists>out'. add_scopes (resolve_anomaly_scope rend dumps rg) scs out = Inr out' \<and> stage_inv rend dumps rg (set scs \<union> done) out'"
proof (induction scs arbitrary: out "done")
  case (Cons sc scs)
  obtain r where r: "resolve_anomaly_scope rend dumps rg sc = Inr r" using resolve_total by blast
  from add_resolution_inv [OF Cons.prems r] obtain out1 where o1: "add_resolution sc r out = Inr out1"
    and "stage_inv rend dumps rg (insert sc done) out1" by blast
  from Cons.IH [OF this(2)] r o1 show ?case by auto
qed simp

lemma topology_stage_inv:
  "\<exists>out. run_topology_stage_cycle rend dumps ev rg = Inr out \<and>
     stage_inv rend dumps rg (fst ` set (eo_gate_findings_by_scope ev)) out"
proof -
  have "stage_inv rend dumps rg {} \<lparr>to_context_by_scope = [], to_impact_by_scope = [], to_routing_by_scope = [],
      to_unresolved_by_scope = []\<rparr>" by (simp add: stage_inv_def scope_absent_def)
  from add_scopes_inv [OF this, of "sort (map fst (eo_gate_findings_by_scope ev))"] show ?thesis
    by (auto simp: run_topology_stage_cycle_def collect_topology_stage_output_def build_topology_stage_output_def)
qed

text \<open>Downstream impacts: deduplication by key and the final sort make the order of the input irrelevant.\<close>

lemma impact_key_inject: "impact_key a = impact_key b \<longleftrightarrow> a = b"
  by (auto simp: impact_key_def)

lemma setdefault_fold_facts:
  assumes "dict_wf d" "\<forall>(k, v) \<in> set d. k = impact_key v"
  shows "dict_wf (fold (\<lambda>i d. dict_setdefault d (impact_key i) i) xs d) \<and>
    set (fold (\<lambda>i d. dict_setdefault d (impact_key i) i) xs d) = set d \<union> (\<lambda>i. (impact_key i, i)) ` set xs"
  using assms
proof (induction xs arbitrary: d)
  case (Cons x xs)
  let ?d = "dict_setdefault d (impact_key x) x"
  have "dict_wf ?d" using Cons.prems by (auto simp: dict_setdefault_def dict_wf_def)
  moreover have s: "set ?d = insert (impact_key x, x) (set d)"
    using Cons.prems by (force simp: dict_setdefault_def impact_key_inject)
  moreover from s have "\<forall>(k, v) \<in> set ?d. k = impact_key v" using Cons.prems by auto
  ultimately show ?case using Cons.IH [of ?d] by auto
qed simp

lemma canonical_impacts:
  "map impact_key (map snd (sort_key fst (fold (\<lambda>i d. dict_setdefault d (impact_key i) i) xs []))) =
     sorted_list_of_set (impact_key ` set xs)"
proof -
  let ?d = "fold (\<lambda>i d. dict_setdefault d (impact_key i) i) xs []"
  have f: "dict_wf ?d" "set ?d = (\<lambda>i. (impact_key i, i)) ` set xs" using setdefault_fold_facts [of "[]" xs] by auto
  then have "map impact_key (map snd (sort_key fst ?d)) = map fst (sort_key fst ?d)" by auto
  also have "\<dots> = sorted_list_of_set (set (map fst (sort_key fst ?d)))"
    using f(1) by (intro sorted_list_of_set.idem_if_sorted_distinct [symmetric]) (auto simp: dict_wf_def distinct_map)
  also have "set (map fst (sort_key fst ?d)) = impact_key ` set xs" using f(2) by force
  finally show ?thesis .
qed

lemma set_map_filter: "set (List.map_filter f xs) = {y. \<exists>x \<in> set xs. f x = Some y}"
  by (force simp: List.map_filter_def)

text \<open>An owner the precedence order can select is one of the listed keys.\<close>

lemma map_of_SomeD_snd: "map_of xs k = Some v \<Longrightarrow> v \<in> snd ` set xs"
  by (force dest: map_of_SomeD)

lemma most_specific_owner_listed:
  assumes "most_specific_owner om env cid topic g sid level key"
  shows "key \<in> snd ` (set (owner_items (om_consumer_group_owners om)) \<union> set (owner_items (om_topic_owners om)) \<union> set (owner_items (om_stream_default_owner om))) \<or>
    om_platform_default om = Some key"
  using assms unfolding most_specific_owner_def Let_def image_Un
  by (elim disjE conjE) (auto simp: bind_eq_Some_conv dest: map_of_SomeD_snd)

lemma coherent_owner_known:
  assumes "registry_coherent rg" "most_specific_owner (rg_ownership_map rg) env cid topic g sid level key"
  shows "dict_get (rg_routing_directory rg) key \<noteq> None"
proof -
  let ?om = "rg_ownership_map rg"
  have "(\<forall>key \<in> snd ` (set (owner_items (om_consumer_group_owners ?om)) \<union> set (owner_items (om_topic_owners ?om)) \<union> set (owner_items (om_stream_default_owner ?om))).
         dict_get (rg_routing_directory rg) key \<noteq> None) \<and>
      (\<exists>key. om_platform_default ?om = Some key \<and> dict_get (rg_routing_directory rg) key \<noteq> None)"
    using assms(1) unfolding registry_coherent_def Let_def by (rule conjunct2)
  with most_specific_owner_listed [OF assms(2)] show ?thesis by force
qed

lemma coherent_owner_resolved:
  assumes "registry_coherent rg"
  shows "\<exists>ow. resolve_ownership_routing sc (rg_ownership_map rg) (rg_routing_directory rg) env cid topic g sid = Inl ow"
proof (cases rule: resolve_ownership_cases [of sc "rg_ownership_map rg" "rg_routing_directory rg" env cid topic g sid])
  case (none reason d)
  have known: "dict_get (rg_routing_directory rg) key \<noteq> None"
    if "most_specific_owner (rg_ownership_map rg) env cid topic g sid level key" for level key
    using assms that by (rule coherent_owner_known)
  have "\<exists>level key. most_specific_owner (rg_ownership_map rg) env cid topic g sid level key"
  proof -
    obtain key where "om_platform_default (rg_ownership_map rg) = Some key" using assms by (auto simp: registry_coherent_def Let_def)
    then have "select_owner_routing_key (rg_ownership_map rg) env cid topic g sid \<noteq> None"
      by (auto simp: select_owner_routing_key_def split: option.splits)
    then show ?thesis by (auto simp flip: select_owner_spec)
  qed
  then have "reason \<noteq> ''owner_not_found''" using none(3) by blast
  moreover have "reason \<noteq> ''routing_key_not_found''"
  proof
    assume "reason = ''routing_key_not_found''"
    with none(4) obtain level key where "most_specific_owner (rg_ownership_map rg) env cid topic g sid level key"
      "dict_get (rg_routing_directory rg) key = None" by blast
    with known [of level key] show False by simp
  qed
  ultimately show ?thesis using none(1) by simp
qed blast

lemma sample_resolves:
  "\<exists>r. resolve_anomaly_scope (\<lambda>_. []) (\<lambda>_. []) sample_registry [''prod'', ''c1'', ''billing'', ''orders''] = Inr r \<and> tr_resolved r \<and>
     tr_stream_id r = Some ''s1'' \<and> tr_criticality_tier r = Some TIER_0"
proof -
  have "(case resolve_anomaly_scope (\<lambda>_. []) (\<lambda>_. []) sample_registry [''prod'', ''c1'', ''billing'', ''orders''] of
      Inl _ \<Rightarrow> False | Inr r \<Rightarrow> tr_resolved r \<and> tr_stream_id r = Some ''s1'' \<and> tr_criticality_tier r = Some TIER_0)"
    by code_simp
  then show ?thesis by (simp split: sum.splits)
qed

lemma sample_coherent: "registry_coherent sample_registry"
proof -
  have "normalize_topic_role ''standardizer_shared'' = Some SHARED_TOPIC" by code_simp
  then show ?thesis by (simp add: registry_coherent_def sample_registry_def sample_stream_def owner_items_def sample_instance_def find_stream_instance_def)
qed

section \<open>Properties\<close>

text \<open>Resolving a scope always yields a result, never an exception, whatever the registry contains:
  the result names the scope asked for and passes the validator of \<open>TopologyResolution\<close>. A resolved
  result carries stream, role, tier, ownership and the blast radius of its role; an unresolved one
  carries none of these and one of the eight documented reason codes.
\<close>

theorem resolution_total_and_well_formed:
  "\<exists>r. resolve_anomaly_scope rend dumps rg sc = Inr r \<and> tr_scope r = sc \<and> resolution_wf r"
  by (rule resolve_total)

text \<open>C27: Ownership precedence. A resolved scope is routed to the directory entry of its most specific
  owner: the consumer-group owner if the scope names a group that has one, else the topic owner, else
  the stream's default owner, else the platform default; among duplicate entries of a level the first
  listed wins, and the reported lookup level is the one that was used.
\<close>

theorem routed_to_most_specific_owner:
  assumes "resolve_anomaly_scope rend dumps rg sc = Inr r" "tr_resolved r"
  shows "\<exists>env cid topic g sid ow key. parse_anomaly_scope sc = Some (env, cid, topic, g) \<and> tr_stream_id r = Some sid \<and>
    tr_ownership_routing r = Some ow \<and>
    most_specific_owner (rg_ownership_map rg) env cid topic g sid (ow_lookup_level ow) key \<and>
    dict_get (rg_routing_directory rg) key = Some (ow_target ow)"
proof (cases rule: resolve_cases [of rend dumps rg sc])
  case (no reason d)
  with assms unresolved_ok [of sc reason d] show ?thesis by auto
next
  case (yes r' env cid topic g topics te s inst ow key)
  with assms(1) show ?thesis by auto
qed

theorem routed_to_most_specific_owner_witness:
  "\<exists>env cid topic g sid (ow :: ownership_routing) key.
    parse_anomaly_scope [''prod'', ''c1'', ''billing'', ''orders''] = Some (env, cid, topic, g) \<and> sid = ''s1'' \<and>
    most_specific_owner (rg_ownership_map sample_registry) env cid topic g sid (ow_lookup_level ow) key \<and>
    dict_get (rg_routing_directory sample_registry) key = Some (ow_target ow)"
proof -
  obtain r where r: "resolve_anomaly_scope (\<lambda>_. []) (\<lambda>_. []) sample_registry [''prod'', ''c1'', ''billing'', ''orders''] = Inr r"
    and f: "tr_resolved r" "tr_stream_id r = Some ''s1''"
    using sample_resolves by blast
  obtain env cid topic g sid ow key where
    w: "parse_anomaly_scope [''prod'', ''c1'', ''billing'', ''orders''] = Some (env, cid, topic, g)" "tr_stream_id r = Some sid"
      "tr_ownership_routing r = Some ow"
      "most_specific_owner (rg_ownership_map sample_registry) env cid topic g sid (ow_lookup_level ow) key"
      "dict_get (rg_routing_directory sample_registry) key = Some (ow_target ow)"
    using routed_to_most_specific_owner [OF r f(1)] by (elim exE conjE) rule
  have "sid = ''s1''" using w(2) f(2) by simp
  with w(1,4,5) show ?thesis by blast
qed

text \<open>On a coherent registry (indexed topics have a stream with an instance in their scope and a known
  role, owners are in the routing directory, a platform default exists) every scope whose topic is
  indexed for its environment and cluster is resolved; unresolved scopes are exactly malformed or
  unindexed ones.
\<close>

theorem coherent_registry_resolves:
  assumes "registry_coherent rg" "parse_anomaly_scope sc = Some (env, cid, topic, g)"
    and "dict_get (rg_topic_index_by_scope rg) (env, cid) = Some topics" "dict_get topics topic \<noteq> None"
  shows "\<exists>r. resolve_anomaly_scope rend dumps rg sc = Inr r \<and> tr_resolved r"
proof -
  from assms(4) obtain te where te: "dict_get topics topic = Some te" by blast
  from assms(1) map_of_SomeD [OF assms(3)] map_of_SomeD [OF te]
  have "normalize_topic_role (ct_role te) \<noteq> None \<and>
      (\<exists>s. dict_get (rg_streams_by_id rg) (ct_stream_id te) = Some s \<and> find_stream_instance s env cid \<noteq> None)"
    unfolding registry_coherent_def by fastforce
  then obtain role s inst where f: "normalize_topic_role (ct_role te) = Some role"
      "dict_get (rg_streams_by_id rg) (ct_stream_id te) = Some s" "find_stream_instance s env cid = Some inst" by blast
  obtain ow where "resolve_ownership_routing sc (rg_ownership_map rg) (rg_routing_directory rg) env cid topic g (st_stream_id s) = Inl ow"
    using coherent_owner_resolved [OF assms(1)] by blast
  with assms(2,3) te f show ?thesis
    by (simp add: resolve_anomaly_scope_def Let_def blast_radius_get validate_resolution_def)
qed

theorem coherent_registry_resolves_witness:
  "\<exists>r. resolve_anomaly_scope (\<lambda>_. []) (\<lambda>_. []) sample_registry [''prod'', ''c1'', ''orders''] = Inr r \<and> tr_resolved r"
  by (rule coherent_registry_resolves [OF sample_coherent, where env = "''prod''" and cid = "''c1''" and topic = "''orders''"
        and g = None and topics = "snd (hd (rg_topic_index_by_scope sample_registry))"])
    code_simp+

text \<open>The topology stage never fails and accounts for every scope with findings exactly once: the
  context, impact and routing dictionaries have the same keys, those are disjoint from the unresolved
  ones, together they are all the scopes of the cycle, and each entry is that of the scope's resolution.
\<close>

theorem topology_stage_partition:
  "\<exists>out. run_topology_stage_cycle rend dumps ev rg = Inr out \<and>
     dom (dict_get (to_context_by_scope out)) = dom (dict_get (to_impact_by_scope out)) \<and>
     dom (dict_get (to_context_by_scope out)) = dom (dict_get (to_routing_by_scope out)) \<and>
     dom (dict_get (to_context_by_scope out)) \<inter> dom (dict_get (to_unresolved_by_scope out)) = {} \<and>
     dom (dict_get (to_context_by_scope out)) \<union> dom (dict_get (to_unresolved_by_scope out)) =
       fst ` set (eo_gate_findings_by_scope ev) \<and>
     stage_inv rend dumps rg (fst ` set (eo_gate_findings_by_scope ev)) out"
proof -
  obtain out where o: "run_topology_stage_cycle rend dumps ev rg = Inr out"
    and inv: "stage_inv rend dumps rg (fst ` set (eo_gate_findings_by_scope ev)) out"
    using topology_stage_inv by blast
  have "(sc \<in> dom (dict_get (to_context_by_scope out))) = (sc \<in> dom (dict_get (to_impact_by_scope out))) \<and>
      (sc \<in> dom (dict_get (to_context_by_scope out))) = (sc \<in> dom (dict_get (to_routing_by_scope out))) \<and>
      \<not> (sc \<in> dom (dict_get (to_context_by_scope out)) \<and> sc \<in> dom (dict_get (to_unresolved_by_scope out))) \<and>
      (sc \<in> dom (dict_get (to_context_by_scope out)) \<or> sc \<in> dom (dict_get (to_unresolved_by_scope out))) =
        (sc \<in> fst ` set (eo_gate_findings_by_scope ev))" for sc
    using inv [unfolded stage_inv_def, rule_format, of sc]
    by (auto simp: scope_placed_def scope_resolved_def scope_unresolved_def scope_absent_def split: if_splits)
  then show ?thesis by (intro exI [of _ out] conjI o inv) blast+
qed

text \<open>The impact list of a case is canonical: strictly increasing by component type, id and exposure,
  so without duplicates, and the same however the registry orders the sources, sinks and shared
  components of the instance.
\<close>

theorem downstream_impacts_canonical:
  assumes "set (si_sources a) = set (si_sources b)" "set (si_sinks a) = set (si_sinks b)"
    and "set (si_shared_components a) = set (si_shared_components b)"
  shows "derive_downstream_impacts rend dumps a = derive_downstream_impacts rend dumps b \<and>
    sorted_wrt (<) (map impact_key (derive_downstream_impacts rend dumps a))"
proof -
  have inj: "inj impact_key" by (simp add: inj_def impact_key_inject)
  have "map impact_key (derive_downstream_impacts rend dumps a) = map impact_key (derive_downstream_impacts rend dumps b)"
    unfolding derive_downstream_impacts_def Let_def canonical_impacts using assms by (simp add: set_map_filter)
  moreover have "sorted_wrt (<) (map impact_key (derive_downstream_impacts rend dumps a))"
    unfolding derive_downstream_impacts_def Let_def canonical_impacts by (rule strict_sorted_list_of_set)
  ultimately show ?thesis using inj by (simp add: inj_map_eq_map)
qed

theorem downstream_impacts_canonical_witness:
  "derive_downstream_impacts (\<lambda>_. []) (\<lambda>_. []) (sample_instance\<lparr>si_sources := rev (si_sources sample_instance)\<rparr>) =
     derive_downstream_impacts (\<lambda>_. []) (\<lambda>_. []) sample_instance"
  using downstream_impacts_canonical [of "sample_instance\<lparr>si_sources := rev (si_sources sample_instance)\<rparr>" sample_instance
      "\<lambda>_. []" "\<lambda>_. []"] by simp


end
