(* ===== verification/Denylist.thy ===== *)
theory Denylist
  imports Py_Base
begin

text \<open>
  The exposure denylist: the versioned model with its validators (\<open>denylist/loader.py\<close>) and the recursive
  sanitiser every output boundary calls (\<open>denylist/enforcement.py\<close>). Regular expressions are parameters:
  \<open>search p s\<close> is whether \<open>re.compile(p).search(s)\<close> finds a match and \<open>compiles p\<close> whether the pattern is valid;
  every theorem holds for all of them. Reading the YAML file is left out.
\<close>

section \<open>Model\<close>

record denylist_changelog_entry =
  dc_version :: string
  dc_date :: string
  dc_author :: string
  dc_reviewer :: string
  dc_summary :: string

record denylist =
  dl_denylist_version :: string
  dl_denied_field_names :: "string list"
  dl_denied_value_patterns :: "string list"
  dl_description :: string
  dl_changelog :: "denylist_changelog_entry list"

definition is_digit :: "char \<Rightarrow> bool" where
  "is_digit c = (let n = (of_char c :: nat) in 48 \<le> n \<and> n \<le> 57)"

text \<open>The pattern \<open>^\d{4}-\d{2}-\d{2}$\<close>; Python's \<open>$\<close> also matches before a final newline.\<close>

definition is_iso_date :: "string \<Rightarrow> bool" where
  "is_iso_date s =
     (let t = (if s \<noteq> [] \<and> last s = char_of (10 :: nat) then butlast s else s)
      in length t = 10 \<and> list_all is_digit (take 4 t) \<and> t ! 4 = CHR ''-'' \<and> list_all is_digit (take 2 (drop 5 t)) \<and>
         t ! 7 = CHR ''-'' \<and> list_all is_digit (drop 8 t))"

definition validate_changelog_entry :: "denylist_changelog_entry \<Rightarrow> denylist_changelog_entry result" where
  "validate_changelog_entry e =
     (if dc_version e = [] \<or> dc_date e = [] \<or> dc_author e = [] \<or> dc_reviewer e = [] \<or> dc_summary e = []
      then raise ValueError ''String should have at least 1 character''
      else if \<not> is_iso_date (dc_date e) then raise ValueError ''date must be in YYYY-MM-DD format''
      else Inr e)"

definition validate_denylist :: "(string \<Rightarrow> bool) \<Rightarrow> denylist \<Rightarrow> denylist result" where
  "validate_denylist compiles d =
     rbind (rmap_list validate_changelog_entry (dl_changelog d)) (\<lambda>_.
     if dl_denylist_version d = [] then raise ValueError ''String should have at least 1 character''
     else if \<not> list_all compiles (dl_denied_value_patterns d) then raise ValueError ''Invalid regex pattern''
     else Inr d)"

section \<open>Enforcement\<close>

fun sanitize_value :: "(string \<Rightarrow> bool) \<Rightarrow> (string \<Rightarrow> bool) \<Rightarrow> jval \<Rightarrow> bool \<times> jval \<times> nat"
  and sanitize_mapping :: "(string \<Rightarrow> bool) \<Rightarrow> (string \<Rightarrow> bool) \<Rightarrow> (string \<times> jval) list \<Rightarrow> (string \<times> jval) list \<times> nat"
  and sanitize_items :: "(string \<Rightarrow> bool) \<Rightarrow> (string \<Rightarrow> bool) \<Rightarrow> jval list \<Rightarrow> jval list \<times> nat" where
  "sanitize_value denied matches (JDict flds) =
     (let (r, n) = sanitize_mapping denied matches flds in (True, JDict r, n))"
| "sanitize_value denied matches (JList items) =
     (let (r, n) = sanitize_items denied matches items in (True, JList r, n))"
| "sanitize_value denied matches (JStr s) = (if matches s then (False, JNull, 0) else (True, JStr s, 0))"
| "sanitize_value denied matches JNull = (True, JNull, 0)"
| "sanitize_value denied matches (JBool b) = (True, JBool b, 0)"
| "sanitize_value denied matches (JInt i) = (True, JInt i, 0)"
| "sanitize_value denied matches (JFloat f) = (True, JFloat f, 0)"
| "sanitize_mapping denied matches [] = ([], 0)"
| "sanitize_mapping denied matches ((k, v) # rest) =
     (let (r, n) = sanitize_mapping denied matches rest
      in if denied k then (r, n + 1)
         else let (keep, v', m) = sanitize_value denied matches v
              in if keep then ((k, v') # r, n + m) else (r, n + 1 + m))"
| "sanitize_items denied matches [] = ([], 0)"
| "sanitize_items denied matches (v # rest) =
     (let (r, n) = sanitize_items denied matches rest;
          (keep, v', m) = sanitize_value denied matches v
      in if keep then (v' # r, n + m) else (r, n + m + 1))"

definition denied_name :: "denylist \<Rightarrow> string \<Rightarrow> bool" where
  "denied_name d key = (py_lower key \<in> set (map py_lower (dl_denied_field_names d)))"

definition denied_value :: "(string \<Rightarrow> string \<Rightarrow> bool) \<Rightarrow> denylist \<Rightarrow> string \<Rightarrow> bool" where
  "denied_value search d s = list_ex (\<lambda>p. search p s) (dl_denied_value_patterns d)"

definition apply_denylist_with_removed_count ::
  "(string \<Rightarrow> string \<Rightarrow> bool) \<Rightarrow> denylist \<Rightarrow> (string, jval) pydict \<Rightarrow> (string, jval) pydict \<times> nat" where
  "apply_denylist_with_removed_count search d flds = sanitize_mapping (denied_name d) (denied_value search d) flds"

definition apply_denylist ::
  "(string \<Rightarrow> string \<Rightarrow> bool) \<Rightarrow> denylist \<Rightarrow> (string, jval) pydict \<Rightarrow> (string, jval) pydict" where
  "apply_denylist search d flds = fst (apply_denylist_with_removed_count search d flds)"

text \<open>A value without a denied field name or a denied string at any depth.\<close>

fun exposable :: "(string \<Rightarrow> bool) \<Rightarrow> (string \<Rightarrow> bool) \<Rightarrow> jval \<Rightarrow> bool" where
  "exposable denied matches (JDict flds) = (\<forall>(k, v) \<in> set flds. \<not> denied k \<and> exposable denied matches v)"
| "exposable denied matches (JList items) = (\<forall>v \<in> set items. exposable denied matches v)"
| "exposable denied matches (JStr s) = (\<not> matches s)"
| "exposable denied matches _ = True"

definition sample_denylist :: denylist where
  "sample_denylist = \<lparr>dl_denylist_version = ''v1'', dl_denied_field_names = [''Password''], dl_denied_value_patterns = [''secret''],
     dl_description = [], dl_changelog = []\<rparr>"

section \<open>Lemmas\<close>

text \<open>What is kept is exposable; nothing is removed exactly from exposable values, which are kept as they are.\<close>

lemma sanitize_sound:
  "fst (sanitize_value denied matches v) \<Longrightarrow> exposable denied matches (fst (snd (sanitize_value denied matches v)))"
  "\<forall>(k, v) \<in> set (fst (sanitize_mapping denied matches flds)). \<not> denied k \<and> exposable denied matches v"
  "\<forall>v \<in> set (fst (sanitize_items denied matches items)). exposable denied matches v"
  by (induction denied matches v and denied matches flds and denied matches items
      rule: sanitize_value_sanitize_mapping_sanitize_items.induct)
    (auto simp: Let_def split_beta split: if_splits, (metis surjective_pairing)+)

lemma sanitize_count_zero:
  "fst (sanitize_value denied matches v) \<Longrightarrow> snd (snd (sanitize_value denied matches v)) = 0 \<Longrightarrow>
     fst (snd (sanitize_value denied matches v)) = v"
  "snd (sanitize_mapping denied matches flds) = 0 \<Longrightarrow> fst (sanitize_mapping denied matches flds) = flds"
  "snd (sanitize_items denied matches items) = 0 \<Longrightarrow> fst (sanitize_items denied matches items) = items"
  by (induction denied matches v and denied matches flds and denied matches items
      rule: sanitize_value_sanitize_mapping_sanitize_items.induct)
    (auto simp: Let_def split_beta split: if_splits, (metis surjective_pairing)+)

lemma sanitize_exposable:
  "exposable denied matches v \<Longrightarrow> sanitize_value denied matches v = (True, v, 0)"
  "\<forall>(k, v) \<in> set flds. \<not> denied k \<and> exposable denied matches v \<Longrightarrow> sanitize_mapping denied matches flds = (flds, 0)"
  "\<forall>v \<in> set items. exposable denied matches v \<Longrightarrow> sanitize_items denied matches items = (items, 0)"
  by (induction denied matches v and denied matches flds and denied matches items
      rule: sanitize_value_sanitize_mapping_sanitize_items.induct)
    (auto simp: Let_def split_beta split: if_splits)

lemma sanitize_keep: "fst (sanitize_value denied matches v) \<longleftrightarrow> (\<forall>s. v = JStr s \<longrightarrow> \<not> matches s)"
  by (cases v) (auto simp: Let_def split_beta)

lemma sanitize_keys:
  "map fst (fst (sanitize_mapping denied matches flds)) =
     map fst (filter (\<lambda>(k, v). \<not> denied k \<and> (\<forall>s. v = JStr s \<longrightarrow> \<not> matches s)) flds)"
proof (induction flds)
  case (Cons f flds)
  obtain k v where "f = (k, v)" by fastforce
  with Cons show ?case using sanitize_keep [of denied matches v] by (auto simp: Let_def split_beta)
qed simp

section \<open>Properties\<close>


end
