(* ===== verification/Casefile_Model.thy ===== *)
theory Casefile_Model
  imports Topology Denylist Outbox_State
begin

text \<open>
  The case-file models of \<open>models/case_file.py\<close> (with \<open>contracts/diagnosis_report.py\<close>) and the hashing and
  re-validation half of \<open>storage/casefile_io.py\<close>.

  Reading and writing a model is pydantic's work, which is outside the repository: a \<open>model_codec\<close> is the four entry points
  the code calls on a model class (\<open>model_dump(mode="json")\<close>, structural \<open>model_validate\<close>, \<open>model_dump_json\<close>, structural
  \<open>model_validate_json\<close>), a parameter of every definition; the validators the classes declare are the
  \<open>validate_\<close> functions, run after the structural part. The SHA-256 hex digest is a parameter too.
  The locale \<open>sealed_model\<close> states what the hash scheme relies on for models that JSON can carry (pydantic writes NaN and
  infinite floats as \<open>null\<close>, so a model that holds one does not read back), and holds the facts about sealing
  that the four case-file stages share.
\<close>

section \<open>Models\<close>

definition hash_placeholder :: string where
  "hash_placeholder = replicate 64 (CHR ''0'')"

record casefile_policy_versions =
  cv_rulebook_version :: string
  cv_peak_policy_version :: string
  cv_prometheus_metrics_contract_version :: string
  cv_exposure_denylist_version :: string
  cv_diagnosis_policy_version :: string

definition validate_policy_versions :: "casefile_policy_versions \<Rightarrow> casefile_policy_versions result" where
  "validate_policy_versions v =
     (if [] \<in> {cv_rulebook_version v, cv_peak_policy_version v, cv_prometheus_metrics_contract_version v,
               cv_exposure_denylist_version v, cv_diagnosis_policy_version v}
      then raise ValueError ''String should have at least 1 character'' else Inr v)"

text \<open>\<open>CaseFileDownstreamImpact\<close>, \<open>CaseFileRoutingContext\<close> and \<open>CaseFileEvidenceRow\<close> have the fields of the stage records they copy.\<close>

record casefile_topology_context =
  ctc_stream_id :: string
  ctc_topic_role :: topic_role
  ctc_criticality_tier :: criticality_tier
  ctc_source_system :: "string option"
  ctc_blast_radius :: string
  ctc_downstream_impacts :: "downstream_impact list"
  ctc_routing :: topology_routing_context

definition validate_downstream_impact :: "downstream_impact \<Rightarrow> downstream_impact result" where
  "validate_downstream_impact i =
     (if di_component_type i \<in> set [''shared_component'', ''sink'', ''source''] \<and>
         di_exposure_type i \<in> set [''DOWNSTREAM_DATA_FRESHNESS_RISK'', ''DIRECT_COMPONENT_RISK'', ''VISIBILITY_ONLY''] \<and>
         di_risk_status i = ''AT_RISK''
      then Inr i else raise ValueError ''Input should be a literal of the impact contract'')"

definition validate_routing_context :: "topology_routing_context \<Rightarrow> topology_routing_context result" where
  "validate_routing_context r =
     (if tx_lookup_level r \<in> set [''consumer_group_owner'', ''topic_owner'', ''stream_default_owner'', ''platform_default'']
      then Inr r else raise ValueError ''Input should be a lookup level'')"

definition validate_topology_context :: "casefile_topology_context \<Rightarrow> casefile_topology_context result" where
  "validate_topology_context c =
     (if ctc_blast_radius c \<notin> set [''LOCAL_SOURCE_INGESTION'', ''SHARED_KAFKA_INGESTION'']
      then raise ValueError ''Input should be a blast radius''
      else rbind (rmap_list validate_downstream_impact (ctc_downstream_impacts c)) (\<lambda>_.
           rbind (validate_routing_context (ctc_routing c)) (\<lambda>_. Inr c)))"

record casefile_evidence_snapshot =
  sn_scope :: "scope option"
  sn_rows :: "evidence_row list"
  sn_evidence_status_map :: status_map
  sn_telemetry_degraded_active :: bool
  sn_max_safe_action :: "action option"
  sn_peak_context :: "peak_window_context option"

record casefile_triage =
  tg_case_id :: string
  tg_scope :: scope
  tg_triage_timestamp :: instant
  tg_evidence_snapshot :: casefile_evidence_snapshot
  tg_topology_context :: casefile_topology_context
  tg_gate_input :: gate_input
  tg_action_decision :: action_decision
  tg_policy_versions :: casefile_policy_versions
  tg_triage_hash :: string

definition validate_triage_hash :: "string \<Rightarrow> string result" where
  "validate_triage_hash h =
     (if is_hex_64 h then Inr h else raise ValueError ''triage_hash must be a 64-char lowercase SHA-256 hex string'')"

text \<open>Reading a case file runs the validators of the models inside it too.\<close>

definition validate_gate_input :: "gate_input \<Rightarrow> gate_input result" where
  "validate_gate_input gi = rbind (mk_gate_input gi) (\<lambda>_.
     rbind (rmap_list validate_finding (gi_findings gi)) (\<lambda>fs. Inr (gi\<lparr>gi_findings := fs\<rparr>)))"

definition validate_casefile_triage :: "casefile_triage \<Rightarrow> casefile_triage result" where
  "validate_casefile_triage c =
     rbind (validate_topology_context (tg_topology_context c)) (\<lambda>_.
     rbind (validate_gate_input (tg_gate_input c)) (\<lambda>gi.
     rbind (validate_policy_versions (tg_policy_versions c)) (\<lambda>_.
     rbind (validate_triage_hash (tg_triage_hash c)) (\<lambda>_. Inr (c\<lparr>tg_gate_input := gi\<rparr>)))))"

datatype diagnosis_confidence = CONFIDENCE_LOW | CONFIDENCE_MEDIUM | CONFIDENCE_HIGH

record evidence_pack =
  ep_facts :: "string list"
  ep_missing_evidence :: "string list"
  ep_matched_rules :: "string list"

record diagnosis_report =
  dx_case_id :: "string option"
  dx_verdict :: string
  dx_fault_domain :: "string option"
  dx_confidence :: diagnosis_confidence
  dx_evidence_pack :: evidence_pack
  dx_next_checks :: "string list"
  dx_gaps :: "string list"
  dx_reason_codes :: "string list"
  dx_triage_hash :: "string option"

definition validate_diagnosis_report :: "diagnosis_report \<Rightarrow> diagnosis_report result" where
  "validate_diagnosis_report r =
     (if dx_verdict r = [] then raise ValueError ''verdict should have at least 1 character'' else Inr r)"

record casefile_diagnosis =
  dg_case_id :: string
  dg_diagnosis_report :: diagnosis_report
  dg_triage_hash :: string
  dg_diagnosis_hash :: string

definition validate_hash_field :: "string \<Rightarrow> string result" where
  "validate_hash_field h =
     (if is_hex_64 h then Inr h else raise ValueError ''hash fields must be 64-char lowercase SHA-256 hex strings'')"

definition validate_optional_diagnosis_hash :: "string option \<Rightarrow> string option result" where
  "validate_optional_diagnosis_hash h = (case h of
       None \<Rightarrow> Inr None
     | Some x \<Rightarrow> if is_hex_64 x then Inr h
                else raise ValueError ''diagnosis_hash must be a 64-char lowercase SHA-256 hex string'')"

definition validate_casefile_diagnosis :: "casefile_diagnosis \<Rightarrow> casefile_diagnosis result" where
  "validate_casefile_diagnosis c =
     rbind (validate_diagnosis_report (dg_diagnosis_report c)) (\<lambda>_.
     rbind (validate_hash_field (dg_triage_hash c)) (\<lambda>_.
     rbind (validate_hash_field (dg_diagnosis_hash c)) (\<lambda>_. Inr c)))"

record casefile_linkage =
  ln_case_id :: string
  ln_linkage_status :: string
  ln_linkage_reason :: string
  ln_incident_sys_id :: "string option"
  ln_problem_sys_id :: "string option"
  ln_problem_external_id :: "string option"
  ln_pir_task_sys_ids :: "string list"
  ln_pir_task_external_ids :: "string list"
  ln_triage_hash :: string
  ln_diagnosis_hash :: "string option"
  ln_linkage_hash :: string

definition linkage_statuses :: "string list" where
  "linkage_statuses = [''linked'', ''not-linked'', ''skipped'', ''failed'']"

definition normalize_optional_id :: "string option \<Rightarrow> string option result" where
  "normalize_optional_id v = (case v of
       None \<Rightarrow> Inr None
     | Some s \<Rightarrow> if py_strip s = [] then raise ValueError ''optional linkage identifiers must be non-empty when provided''
                else Inr (Some (py_strip s)))"

definition normalize_identifier_collection :: "string list \<Rightarrow> string list result" where
  "normalize_identifier_collection vs = (let normalized = map py_strip (filter (\<lambda>v. py_strip v \<noteq> []) vs)
     in if length normalized \<noteq> length vs then raise ValueError ''linkage identifier collections cannot contain empty values''
        else Inr normalized)"

definition validate_casefile_linkage :: "casefile_linkage \<Rightarrow> casefile_linkage result" where
  "validate_casefile_linkage c =
     (if ln_linkage_status c \<notin> set linkage_statuses then raise ValueError ''Input should be a linkage status''
      else rbind (normalize_optional_id (ln_incident_sys_id c)) (\<lambda>incident.
           rbind (normalize_optional_id (ln_problem_sys_id c)) (\<lambda>problem.
           rbind (normalize_optional_id (ln_problem_external_id c)) (\<lambda>problem_ext.
           rbind (normalize_identifier_collection (ln_pir_task_sys_ids c)) (\<lambda>pir.
           rbind (normalize_identifier_collection (ln_pir_task_external_ids c)) (\<lambda>pir_ext.
           rbind (validate_hash_field (ln_triage_hash c)) (\<lambda>_.
           rbind (validate_optional_diagnosis_hash (ln_diagnosis_hash c)) (\<lambda>_.
           rbind (validate_hash_field (ln_linkage_hash c)) (\<lambda>_.
           Inr (c\<lparr>ln_incident_sys_id := incident, ln_problem_sys_id := problem, ln_problem_external_id := problem_ext,
                  ln_pir_task_sys_ids := pir, ln_pir_task_external_ids := pir_ext\<rparr>))))))))))"

record casefile_label_data =
  ld_owner_confirmed :: "bool option"
  ld_resolution_category :: "string option"
  ld_false_positive :: "bool option"
  ld_missing_evidence_reason :: "string option"

definition evaluate_label_consistency_issues :: "casefile_label_data \<Rightarrow> string list" where
  "evaluate_label_consistency_issues d =
     (if ld_false_positive d = Some True \<and> ld_resolution_category d \<notin> {None, Some ''FALSE_POSITIVE''}
      then [''false_positive=True requires resolution_category to be None or 'FALSE_POSITIVE'' @ [CHR 0x27]] else []) @
     (if ld_owner_confirmed d = Some True \<and> ld_missing_evidence_reason d \<noteq> None
      then [''owner_confirmed=True requires missing_evidence_reason to be None''] else []) @
     (if ld_resolution_category d = Some ''FALSE_POSITIVE'' \<and> ld_false_positive d = Some False
      then [''resolution_category='FALSE_POSITIVE' cannot pair with false_positive=False''] else [])"

record casefile_labels =
  lb_case_id :: string
  lb_label_data :: casefile_label_data
  lb_triage_hash :: string
  lb_diagnosis_hash :: "string option"
  lb_labels_hash :: string

definition validate_casefile_labels :: "casefile_labels \<Rightarrow> casefile_labels result" where
  "validate_casefile_labels c =
     rbind (validate_hash_field (lb_triage_hash c)) (\<lambda>_.
     rbind (validate_optional_diagnosis_hash (lb_diagnosis_hash c)) (\<lambda>_.
     rbind (validate_hash_field (lb_labels_hash c)) (\<lambda>_. Inr c)))"

section \<open>Codecs, hashes, re-validation\<close>

record 'c model_codec =
  mc_dump :: "'c \<Rightarrow> (string, jval) pydict"
  mc_load :: "(string, jval) pydict \<Rightarrow> 'c result"
  mc_dump_json :: "'c \<Rightarrow> string"
  mc_load_json :: "string \<Rightarrow> 'c result"

record casefile_codecs =
  cd_triage :: "casefile_triage model_codec"
  cd_diagnosis :: "casefile_diagnosis model_codec"
  cd_linkage :: "casefile_linkage model_codec"
  cd_labels :: "casefile_labels model_codec"

definition model_validate :: "'c model_codec \<Rightarrow> ('c \<Rightarrow> 'c result) \<Rightarrow> (string, jval) pydict \<Rightarrow> 'c result" where
  "model_validate cd vld payload = rbind (mc_load cd payload) vld"

definition model_validate_json :: "'c model_codec \<Rightarrow> ('c \<Rightarrow> 'c result) \<Rightarrow> string \<Rightarrow> 'c result" where
  "model_validate_json cd vld text = rbind (mc_load_json cd text) vld"

definition compute_casefile_hash ::
  "(string \<Rightarrow> string) \<Rightarrow> 'c model_codec \<Rightarrow> ('c \<Rightarrow> 'c result) \<Rightarrow> string \<Rightarrow> 'c \<Rightarrow> string result" where
  "compute_casefile_hash sha256_hex cd vld hash_field c =
     rbind (model_validate cd vld (dict_set (mc_dump cd c) hash_field (JStr hash_placeholder))) (\<lambda>canonical.
       Inr (sha256_hex (mc_dump_json cd canonical)))"

definition compute_casefile_triage_hash :: "(string \<Rightarrow> string) \<Rightarrow> casefile_codecs \<Rightarrow> casefile_triage \<Rightarrow> string result" where
  "compute_casefile_triage_hash sha256_hex cds =
     compute_casefile_hash sha256_hex (cd_triage cds) validate_casefile_triage ''triage_hash''"

definition compute_casefile_diagnosis_hash :: "(string \<Rightarrow> string) \<Rightarrow> casefile_codecs \<Rightarrow> casefile_diagnosis \<Rightarrow> string result" where
  "compute_casefile_diagnosis_hash sha256_hex cds =
     compute_casefile_hash sha256_hex (cd_diagnosis cds) validate_casefile_diagnosis ''diagnosis_hash''"

definition compute_casefile_linkage_hash :: "(string \<Rightarrow> string) \<Rightarrow> casefile_codecs \<Rightarrow> casefile_linkage \<Rightarrow> string result" where
  "compute_casefile_linkage_hash sha256_hex cds =
     compute_casefile_hash sha256_hex (cd_linkage cds) validate_casefile_linkage ''linkage_hash''"

definition compute_casefile_labels_hash :: "(string \<Rightarrow> string) \<Rightarrow> casefile_codecs \<Rightarrow> casefile_labels \<Rightarrow> string result" where
  "compute_casefile_labels_hash sha256_hex cds =
     compute_casefile_hash sha256_hex (cd_labels cds) validate_casefile_labels ''labels_hash''"

text \<open>Parse, run the validators, and compare the stored hash with the recomputed one: the shape of the four readers.\<close>

definition validate_sealed_json ::
  "'c model_codec \<Rightarrow> ('c \<Rightarrow> 'c result) \<Rightarrow> ('c \<Rightarrow> string result) \<Rightarrow> ('c \<Rightarrow> string) \<Rightarrow> string \<Rightarrow> string \<Rightarrow> 'c result" where
  "validate_sealed_json cd vld compute_hash stored_hash mismatch payload =
     rbind (model_validate_json cd vld payload) (\<lambda>c.
     rbind (compute_hash c) (\<lambda>h. if stored_hash c = h then Inr c else raise ValueError mismatch))"

definition validate_casefile_triage_json :: "(string \<Rightarrow> string) \<Rightarrow> casefile_codecs \<Rightarrow> string \<Rightarrow> casefile_triage result" where
  "validate_casefile_triage_json sha256_hex cds =
     validate_sealed_json (cd_triage cds) validate_casefile_triage (compute_casefile_triage_hash sha256_hex cds) tg_triage_hash
       ''triage_hash does not match canonical serialized payload bytes''"

definition validate_casefile_diagnosis_json :: "(string \<Rightarrow> string) \<Rightarrow> casefile_codecs \<Rightarrow> string \<Rightarrow> casefile_diagnosis result" where
  "validate_casefile_diagnosis_json sha256_hex cds =
     validate_sealed_json (cd_diagnosis cds) validate_casefile_diagnosis (compute_casefile_diagnosis_hash sha256_hex cds)
       dg_diagnosis_hash ''diagnosis_hash does not match canonical serialized payload bytes''"

definition validate_casefile_linkage_json :: "(string \<Rightarrow> string) \<Rightarrow> casefile_codecs \<Rightarrow> string \<Rightarrow> casefile_linkage result" where
  "validate_casefile_linkage_json sha256_hex cds =
     validate_sealed_json (cd_linkage cds) validate_casefile_linkage (compute_casefile_linkage_hash sha256_hex cds)
       ln_linkage_hash ''linkage_hash does not match canonical serialized payload bytes''"

definition validate_casefile_labels_json :: "(string \<Rightarrow> string) \<Rightarrow> casefile_codecs \<Rightarrow> string \<Rightarrow> casefile_labels result" where
  "validate_casefile_labels_json sha256_hex cds =
     validate_sealed_json (cd_labels cds) validate_casefile_labels (compute_casefile_labels_hash sha256_hex cds)
       lb_labels_hash ''labels_hash does not match canonical serialized payload bytes''"

section \<open>Sealing\<close>

text \<open>
  \<open>carried c\<close> says that JSON can carry the model \<open>c\<close>. The laws are pydantic's documented behaviour on such models (a dump holds each
  field under its name and reads back as the same model, as text too), the shape of a SHA-256 hex digest,
  and two facts about the class: replacing the hash keeps the model readable and acceptable to its validators.
\<close>

locale sealed_model =
  fixes sha256_hex :: "string \<Rightarrow> string" and cd :: "'c model_codec" and vld :: "'c \<Rightarrow> 'c result" and hash_field :: string
    and stored_hash :: "'c \<Rightarrow> string" and with_hash :: "'c \<Rightarrow> string \<Rightarrow> 'c" and carried :: "'c \<Rightarrow> bool"
  assumes digest_hex: "is_hex_64 (sha256_hex x)"
    and text_roundtrip: "carried c \<Longrightarrow> mc_load_json cd (mc_dump_json cd c) = Inr c"
    and field_update: "\<lbrakk>carried c; is_hex_64 h\<rbrakk> \<Longrightarrow>
      mc_load cd (dict_set (mc_dump cd c) hash_field (JStr h)) = Inr (with_hash c h)"
    and carried_with: "\<lbrakk>carried c; is_hex_64 h\<rbrakk> \<Longrightarrow> carried (with_hash c h)"
    and accepted: "\<lbrakk>carried c; is_hex_64 (stored_hash c)\<rbrakk> \<Longrightarrow> vld c = Inr c"
    and stored_with: "stored_hash (with_hash c h) = h"
    and with_with: "with_hash (with_hash c h) h' = with_hash c h'"
begin

abbreviation hash_of :: "'c \<Rightarrow> string result" where
  "hash_of \<equiv> compute_casefile_hash sha256_hex cd vld hash_field"

definition digest :: "'c \<Rightarrow> string" where
  "digest c = sha256_hex (mc_dump_json cd (with_hash c hash_placeholder))"

lemma placeholder_hex: "is_hex_64 hash_placeholder"
  by (simp add: hash_placeholder_def is_hex_64_def list_all_iff)

lemma hash_of_carried: "carried c \<Longrightarrow> hash_of c = Inr (digest c)"
  by (simp add: compute_casefile_hash_def model_validate_def digest_def field_update placeholder_hex accepted carried_with stored_with)

text \<open>The hash ignores the hash field, so sealing a model does not change what it should be sealed with.\<close>

lemma digest_with: "digest (with_hash c h) = digest c"
  by (simp add: digest_def with_with)

lemma sealed_reads_back:
  assumes "carried c"
  shows "validate_sealed_json cd vld hash_of stored_hash m (mc_dump_json cd (with_hash c (digest c))) = Inr (with_hash c (digest c))"
proof -
  have "is_hex_64 (digest c)" by (simp add: digest_def digest_hex)
  then show ?thesis
    by (simp add: validate_sealed_json_def model_validate_json_def assms text_roundtrip accepted carried_with stored_with
        hash_of_carried digest_with)
qed

text \<open>A reader accepts only what was sealed: changing anything but the hash changes the hash, unless the digest collides.\<close>

lemma validated_is_sealed:
  assumes "validate_sealed_json cd vld hash_of stored_hash m payload = Inr c"
  shows "hash_of c = Inr (stored_hash c)"
  using assms by (auto simp: validate_sealed_json_def raise_def elim!: rbind_InrE split: if_splits)

lemma sealed_text_reads_back:
  assumes "carried c" "hash_of c = Inr (stored_hash c)"
  shows "validate_sealed_json cd vld hash_of stored_hash m (mc_dump_json cd c) = Inr c"
proof -
  have "stored_hash c = digest c" using assms hash_of_carried by simp
  then have "is_hex_64 (stored_hash c)" by (simp add: digest_def digest_hex)
  then show ?thesis
    by (simp add: validate_sealed_json_def model_validate_json_def assms text_roundtrip accepted)
qed

end

end
