(* ===== verification/Object_Store.thy ===== *)
theory Object_Store
  imports Py_Float
begin

text \<open>
  The object-store client: \<open>storage/client.py\<close>.

  The boto3 client is outside the repository: each of its calls is a parameter, a function that passes the server's state on
  and returns either its response or one of the failures the code distinguishes (a \<open>ClientError\<close> with the error code and
  HTTP status found in its response, a connectivity error, any other \<open>BotoCoreError\<close>). \<open>s3_server\<close> states what the code relies
  on: a put with \<open>If-None-Match: *\<close> never replaces an object, a failed call may or may not have taken effect, a
  read returns what is stored. \<open>object_store\<close> is the contract of \<open>ObjectStoreClientProtocol\<close> for its clients;
  the adapter over any such server satisfies it. Both are interpreted on a server whose calls fail as a schedule says.
\<close>

section \<open>Responses and failures\<close>

datatype s3_error = Client_Error "string option" "int option" | Connectivity_Error string | Boto_Core_Error string

record s3_put =
  sp_bucket :: string
  sp_key :: string
  sp_body :: string
  sp_content_type :: string
  sp_if_none_match :: "string option"
  sp_metadata :: "(string, string) pydict"
  sp_checksum_sha256 :: "string option"

datatype put_if_absent_result = CREATED | EXISTS

record object_summary =
  os_key :: string
  os_last_modified :: instant

record object_store_list_page =
  lp_objects :: "object_summary list"
  lp_next_continuation_token :: "string option"

record delete_objects_result =
  dr_deleted_keys :: "string list"
  dr_failed_keys :: "string list"

type_synonym 's s3_put_object = "'s \<Rightarrow> s3_put \<Rightarrow> (s3_error + unit) \<times> 's"

text \<open>\<open>None\<close> is a body that is not \<open>bytes\<close>.\<close>

type_synonym 's s3_get_object = "'s \<Rightarrow> string \<Rightarrow> string \<Rightarrow> (s3_error + string option) \<times> 's"

text \<open>Entries of a listing (key and time, where the response has them) and the continuation token.\<close>

type_synonym 's s3_list_objects = "'s \<Rightarrow> string \<Rightarrow> string \<Rightarrow> int \<Rightarrow> string option \<Rightarrow>
  (s3_error + (string option \<times> py_datetime option) list \<times> string option) \<times> 's"

text \<open>The keys reported as deleted and as failed.\<close>

type_synonym 's s3_delete_objects = "'s \<Rightarrow> string \<Rightarrow> string list \<Rightarrow>
  (s3_error + string option list \<times> string option list) \<times> 's"

definition text_or :: "string option \<Rightarrow> string \<Rightarrow> string" where
  "text_or code other = (case code of Some c \<Rightarrow> if c = [] then other else c | None \<Rightarrow> other)"

definition s3_exc :: "string \<Rightarrow> string \<Rightarrow> string \<Rightarrow> s3_error \<Rightarrow> py_exc" where
  "s3_exc op place_5xx place e = (case e of
       Client_Error code status \<Rightarrow>
         (case status of
            Some n \<Rightarrow>
              if 500 \<le> n then Exc CriticalDependencyError
                (''object storage unavailable during '' @ op @ '' '' @ place_5xx @ '': '' @ text_or code (py_str_int n))
              else Exc IntegrationError (''object storage '' @ op @ '' failed '' @ place @ '': '' @ text_or code ''unknown_client_error'')
          | None \<Rightarrow> Exc IntegrationError (''object storage '' @ op @ '' failed '' @ place @ '': '' @ text_or code ''unknown_client_error''))
     | Connectivity_Error m \<Rightarrow> Exc CriticalDependencyError (''object storage unavailable during '' @ op @ '' '' @ place @ '': '' @ m)
     | Boto_Core_Error m \<Rightarrow> Exc CriticalDependencyError (''object storage runtime error during '' @ op @ '' '' @ place @ '': '' @ m))"

section \<open>The S3 adapter\<close>

definition new_s3_bucket :: "string \<Rightarrow> string result" where
  "new_s3_bucket bucket = (if py_strip bucket = [] then raise ValueError ''bucket must not be empty'' else Inr (py_strip bucket))"

definition put_if_absent ::
  "'s s3_put_object \<Rightarrow> string \<Rightarrow> string \<Rightarrow> string \<Rightarrow> string \<Rightarrow> string option \<Rightarrow> (string, string) pydict \<Rightarrow> 's \<Rightarrow>
   put_if_absent_result result \<times> 's" where
  "put_if_absent put_object bucket key body content_type checksum metadata s =
     (case put_object s \<lparr>sp_bucket = bucket, sp_key = key, sp_body = body, sp_content_type = content_type,
          sp_if_none_match = Some ''*'', sp_metadata = metadata,
          sp_checksum_sha256 = (if checksum = Some [] then None else checksum)\<rparr> of
        (Inr _, s') \<Rightarrow> (Inr CREATED, s')
      | (Inl e, s') \<Rightarrow>
          (case e of
             Client_Error code status \<Rightarrow>
               if code \<in> {Some ''PreconditionFailed'', Some ''ConditionalRequestConflict''} \<or> status \<in> {Some 409, Some 412}
               then (Inr EXISTS, s')
               else (Inl (s3_exc ''put_if_absent'' (''key='' @ key) (''key='' @ key) e), s')
           | _ \<Rightarrow> (Inl (s3_exc ''put_if_absent'' (''key='' @ key) (''key='' @ key) e), s')))"

definition get_object_bytes :: "'s s3_get_object \<Rightarrow> string \<Rightarrow> string \<Rightarrow> 's \<Rightarrow> string result \<times> 's" where
  "get_object_bytes get_object bucket key s = (case get_object s bucket key of
       (Inr (Some body), s') \<Rightarrow> (Inr body, s')
     | (Inr None, s') \<Rightarrow> (raise IntegrationError (''object storage returned non-bytes payload for key='' @ key), s')
     | (Inl e, s') \<Rightarrow>
         (case e of
            Client_Error code status \<Rightarrow>
              if code \<in> {Some ''NoSuchKey'', Some ''NoSuchBucket'', Some ''NotFound''}
              then (raise ObjectNotFoundError (''object not found key='' @ key), s')
              else (Inl (s3_exc ''get_object'' (''key='' @ key) (''key='' @ key) e), s')
          | _ \<Rightarrow> (Inl (s3_exc ''get_object'' (''key='' @ key) (''key='' @ key) e), s')))"

definition object_summary_of :: "string option \<times> py_datetime option \<Rightarrow> object_summary result" where
  "object_summary_of item = (case item of
       (None, _) \<Rightarrow> raise IntegrationError ''object storage list returned invalid object key''
     | (Some key, Some (Aware t)) \<Rightarrow> Inr \<lparr>os_key = key, os_last_modified = t\<rparr>
     | (Some key, _) \<Rightarrow> raise IntegrationError ''object storage list returned non-aware LastModified timestamp'')"

definition s3_max_batch_keys :: int where
  "s3_max_batch_keys = 1000"

definition list_objects_page ::
  "'s s3_list_objects \<Rightarrow> string \<Rightarrow> string \<Rightarrow> string option \<Rightarrow> int \<Rightarrow> 's \<Rightarrow> object_store_list_page result \<times> 's" where
  "list_objects_page list_objects bucket prefix token max_keys s =
     (if max_keys \<le> 0 \<or> s3_max_batch_keys < max_keys then (raise ValueError ''max_keys must be between 1 and 1000'', s)
      else case list_objects s bucket prefix max_keys (if token = Some [] then None else token) of
        (Inl e, s') \<Rightarrow> (Inl (s3_exc ''list_objects'' (''key='' @ prefix)
            (''prefix='' @ prefix) e), s')
      | (Inr (contents, next_token), s') \<Rightarrow>
          (rbind (rmap_list object_summary_of contents) (\<lambda>objects.
             Inr \<lparr>lp_objects = objects, lp_next_continuation_token = next_token\<rparr>), s'))"

definition nonempty_keys :: "string option list \<Rightarrow> string list" where
  "nonempty_keys entries = filter (\<lambda>k. k \<noteq> []) (List.map_filter id entries)"

definition delete_objects_batch ::
  "'s s3_delete_objects \<Rightarrow> string \<Rightarrow> string list \<Rightarrow> string option \<Rightarrow> 's \<Rightarrow> delete_objects_result result \<times> 's" where
  "delete_objects_batch delete_objects bucket keys governance_approval_ref s =
     (let normalized = filter (\<lambda>k. k \<noteq> []) (map py_strip keys)
      in if normalized = [] then (Inr \<lparr>dr_deleted_keys = [], dr_failed_keys = []\<rparr>, s)
         else if s3_max_batch_keys < int (length normalized)
         then (raise ValueError ''delete_objects_batch supports at most 1000 keys per request'', s)
         else if (case governance_approval_ref of None \<Rightarrow> True | Some r \<Rightarrow> py_strip r = [])
         then (raise InvariantViolation ''governance_approval_ref is required for delete_objects_batch'', s)
         else case delete_objects s bucket normalized of
           (Inl e, s') \<Rightarrow> (Inl (s3_exc ''delete_objects_batch'' (''keys='' @ py_str_int (int (length normalized)))
               (''keys='' @ py_str_int (int (length normalized))) e), s')
         | (Inr (deleted, errors), s') \<Rightarrow>
             (Inr \<lparr>dr_deleted_keys = nonempty_keys deleted, dr_failed_keys = nonempty_keys errors\<rparr>, s'))"

section \<open>Contracts\<close>

locale s3_server =
  fixes put_object :: "'s s3_put_object" and get_object :: "'s s3_get_object"
    and contents :: "'s \<Rightarrow> string \<times> string \<Rightarrow> string option"
  assumes create_only: "\<lbrakk>sp_if_none_match rq = Some ''*''; put_object s rq = (r, s')\<rbrakk> \<Longrightarrow>
      contents s' = contents s \<or>
      contents s (sp_bucket rq, sp_key rq) = None \<and> contents s' = (contents s)((sp_bucket rq, sp_key rq) \<mapsto> sp_body rq)"
    and put_confirmed: "put_object s rq = (Inr (), s') \<Longrightarrow> contents s' (sp_bucket rq, sp_key rq) = Some (sp_body rq)"
    and get_reads: "get_object s b k = (answer, s') \<Longrightarrow> contents s' = contents s"
    and get_confirmed: "get_object s b k = (Inr (Some body), s') \<Longrightarrow> contents s (b, k) = Some body"

text \<open>What a client of \<open>ObjectStoreClientProtocol\<close> may rely on: \<open>view\<close> is the stored objects.\<close>

locale object_store =
  fixes put :: "string \<Rightarrow> string \<Rightarrow> string \<Rightarrow> string option \<Rightarrow> (string, string) pydict \<Rightarrow> 's \<Rightarrow> put_if_absent_result result \<times> 's"
    and get :: "string \<Rightarrow> 's \<Rightarrow> string result \<times> 's"
    and view :: "'s \<Rightarrow> string \<Rightarrow> string option"
  assumes put_effect: "put k body ct ck md s = (r, s') \<Longrightarrow> view s' = view s \<or> view s k = None \<and> view s' = (view s)(k \<mapsto> body)"
    and put_created: "put k body ct ck md s = (Inr CREATED, s') \<Longrightarrow> view s' k = Some body"
    and get_effect: "get k s = (answer, s') \<Longrightarrow> view s' = view s"
    and get_stored: "get k s = (Inr body, s') \<Longrightarrow> view s k = Some body"
begin

lemma put_keeps: "put k body ct ck md s = (r, s') \<Longrightarrow> view s j = Some b \<Longrightarrow> view s' j = Some b"
  using put_effect [of k body ct ck md s r s'] by (auto split: if_splits)

lemma put_other: "put k body ct ck md s = (r, s') \<Longrightarrow> j \<noteq> k \<Longrightarrow> view s' j = view s j"
  using put_effect [of k body ct ck md s r s'] by auto

end

locale s3_client = s3_server put_object get_object contents
  for put_object :: "'s s3_put_object" and get_object :: "'s s3_get_object" and contents +
  fixes bucket :: string

sublocale s3_client \<subseteq> store: object_store "put_if_absent put_object bucket" "get_object_bytes get_object bucket"
    "\<lambda>s k. contents s (bucket, k)"
proof (unfold_locales, goal_cases)
  case (1 k body ct ck md s r s')
  let ?rq = "\<lparr>sp_bucket = bucket, sp_key = k, sp_body = body, sp_content_type = ct, sp_if_none_match = Some ''*'',
    sp_metadata = md, sp_checksum_sha256 = (if ck = Some [] then None else ck)\<rparr>"
  obtain r0 where "put_object s ?rq = (r0, s')"
    using 1 by (auto simp: put_if_absent_def split: prod.splits sum.splits s3_error.splits if_splits)
  from create_only [OF _ this] show ?case by (auto simp: fun_eq_iff)
next
  case (2 k body ct ck md s s')
  then show ?case
    by (auto simp: put_if_absent_def split: prod.splits sum.splits s3_error.splits if_splits dest!: put_confirmed)
next
  case (3 k s r s')
  then obtain r0 where "get_object s bucket k = (r0, s')"
    by (auto simp: get_object_bytes_def raise_def split: prod.splits sum.splits option.splits s3_error.splits if_splits)
  from get_reads [OF this] show ?case by simp
next
  case (4 k s body s')
  then show ?case
    by (auto simp: get_object_bytes_def raise_def split: prod.splits sum.splits option.splits s3_error.splits if_splits
        dest!: get_confirmed)
qed

context s3_client
begin

lemma adapter_is_store: "object_store (put_if_absent put_object bucket) (get_object_bytes get_object bucket) (\<lambda>s k. contents s (bucket, k))"
  by unfold_locales

end

section \<open>A server with faults\<close>

text \<open>Each call takes the next entry of the fault schedule: the call may be refused, or take effect and lose its response.\<close>

datatype sim_fault = Refused s3_error | Lost s3_error

record sim_s3 =
  s3_objects :: "(string \<times> string, string) pydict"
  s3_faults :: "sim_fault option list"

definition sim_contents :: "sim_s3 \<Rightarrow> string \<times> string \<Rightarrow> string option" where
  "sim_contents s = dict_get (s3_objects s)"

definition next_fault :: "sim_s3 \<Rightarrow> sim_fault option \<times> sim_s3" where
  "next_fault s = (case s3_faults s of [] \<Rightarrow> (None, s) | f # fs \<Rightarrow> (f, s\<lparr>s3_faults := fs\<rparr>))"

definition sim_put_object :: "sim_s3 s3_put_object" where
  "sim_put_object s rq = (let (f, s') = next_fault s; loc = (sp_bucket rq, sp_key rq);
       absent = (sim_contents s loc = None); stored = s'\<lparr>s3_objects := dict_set (s3_objects s') loc (sp_body rq)\<rparr>
     in case f of
          Some (Refused e) \<Rightarrow> (Inl e, s')
        | Some (Lost e) \<Rightarrow> (Inl e, if absent \<or> sp_if_none_match rq \<noteq> Some ''*'' then stored else s')
        | None \<Rightarrow> if absent \<or> sp_if_none_match rq \<noteq> Some ''*'' then (Inr (), stored)
                  else (Inl (Client_Error (Some ''PreconditionFailed'') (Some 412)), s'))"

definition sim_get_object :: "sim_s3 s3_get_object" where
  "sim_get_object s b k = (let (f, s') = next_fault s
     in case f of
          Some (Refused e) \<Rightarrow> (Inl e, s')
        | Some (Lost e) \<Rightarrow> (Inl e, s')
        | None \<Rightarrow> (case sim_contents s (b, k) of
            Some body \<Rightarrow> (Inr (Some body), s')
          | None \<Rightarrow> (Inl (Client_Error (Some ''NoSuchKey'') (Some 404)), s')))"

lemma next_fault_objects: "s3_objects (snd (next_fault s)) = s3_objects s"
  by (simp add: next_fault_def split: list.splits)

interpretation s3sim: s3_server sim_put_object sim_get_object sim_contents
proof (unfold_locales, goal_cases)
  case (1 rq s r s')
  then show ?case using next_fault_objects [of s]
    by (auto simp: sim_put_object_def sim_contents_def Let_def fun_eq_iff split: prod.splits option.splits sim_fault.splits if_splits)
next
  case (2 s rq s')
  then show ?case using next_fault_objects [of s]
    by (auto simp: sim_put_object_def sim_contents_def Let_def split: prod.splits option.splits sim_fault.splits if_splits)
next
  case (3 s b k r s')
  then show ?case using next_fault_objects [of s]
    by (auto simp: sim_get_object_def sim_contents_def Let_def fun_eq_iff split: prod.splits option.splits sim_fault.splits)
next
  case (4 s b k body s')
  then show ?case using next_fault_objects [of s]
    by (auto simp: sim_get_object_def sim_contents_def Let_def split: prod.splits option.splits sim_fault.splits)
qed

interpretation s3sim_client: s3_client sim_put_object sim_get_object sim_contents "''casefiles''"
  by unfold_locales

end
