(* ===== verification/Casefile_IO.thy ===== *)
theory Casefile_IO
  imports Casefile_Model Object_Store
begin

text \<open>
  Write-once persistence of case files: the object-key and persistence half of \<open>storage/casefile_io.py\<close>.

  The object store is the pair of calls \<open>put\<close> (\<open>put_if_absent\<close>) and \<open>get\<close> (\<open>get_object_bytes\<close>) with its state passed on.
  Lemmas about it are proved in the context of the locale \<open>object_store\<close>, for any store that meets that contract.
\<close>

section \<open>Payloads and object keys\<close>

type_synonym 's store_put = "string \<Rightarrow> string \<Rightarrow> string \<Rightarrow> string option \<Rightarrow> (string, string) pydict \<Rightarrow> 's \<Rightarrow>
  put_if_absent_result result \<times> 's"

type_synonym 's store_get = "string \<Rightarrow> 's \<Rightarrow> string result \<times> 's"

datatype casefile_any =
    Triage_Payload casefile_triage | Diagnosis_Payload casefile_diagnosis
  | Linkage_Payload casefile_linkage | Labels_Payload casefile_labels

definition canonical_stage_names :: "string list" where
  "canonical_stage_names = [''triage'', ''diagnosis'', ''linkage'', ''labels'']"

definition normalize_stage_name :: "string \<Rightarrow> string result" where
  "normalize_stage_name stage =
     (if py_lower (py_strip stage) \<in> set canonical_stage_names then Inr (py_lower (py_strip stage))
      else raise ValueError (''Unsupported casefile stage '' @ [CHR 0x27] @ stage @ [CHR 0x27] @
        ''. Expected one of triage, diagnosis, linkage, labels''))"

definition map_result :: "('a \<Rightarrow> 'b) \<Rightarrow> 'a result \<Rightarrow> 'b result" where
  "map_result f r = rbind r (\<lambda>x. Inr (f x))"

definition validate_casefile_stage_json ::
  "(string \<Rightarrow> string) \<Rightarrow> casefile_codecs \<Rightarrow> string \<Rightarrow> string \<Rightarrow> casefile_any result" where
  "validate_casefile_stage_json sha256_hex cds payload stage = rbind (normalize_stage_name stage) (\<lambda>stage_name.
     if stage_name = ''triage'' then map_result Triage_Payload (validate_casefile_triage_json sha256_hex cds payload)
     else if stage_name = ''diagnosis'' then map_result Diagnosis_Payload (validate_casefile_diagnosis_json sha256_hex cds payload)
     else if stage_name = ''linkage'' then map_result Linkage_Payload (validate_casefile_linkage_json sha256_hex cds payload)
     else map_result Labels_Payload (validate_casefile_labels_json sha256_hex cds payload))"

definition build_casefile_stage_object_key :: "string \<Rightarrow> string \<Rightarrow> string result" where
  "build_casefile_stage_object_key case_id stage =
     (if py_strip case_id = [] then raise ValueError ''case_id must not be empty''
      else rbind (normalize_stage_name stage) (\<lambda>stage_name.
        Inr (''cases/'' @ py_strip case_id @ ''/'' @ stage_name @ ''.json'')))"

definition build_casefile_triage_object_key :: "string \<Rightarrow> string result" where
  "build_casefile_triage_object_key case_id = build_casefile_stage_object_key case_id ''triage''"

fun extract_stage_hash :: "casefile_any \<Rightarrow> string" where
  "extract_stage_hash (Triage_Payload c) = tg_triage_hash c"
| "extract_stage_hash (Diagnosis_Payload c) = dg_diagnosis_hash c"
| "extract_stage_hash (Linkage_Payload c) = ln_linkage_hash c"
| "extract_stage_hash (Labels_Payload c) = lb_labels_hash c"

text \<open>\<open>bytes.fromhex\<close> on text without spaces, and \<open>base64.b64encode\<close>.\<close>

definition hex_digits :: string where
  "hex_digits = ''0123456789abcdef''"

fun index_in :: "string \<Rightarrow> char \<Rightarrow> nat option" where
  "index_in [] c = None"
| "index_in (d # ds) c = (if c = d then Some 0 else map_option Suc (index_in ds c))"

fun bytes_fromhex :: "string \<Rightarrow> nat list result" where
  "bytes_fromhex [] = Inr []"
| "bytes_fromhex [c] = raise ValueError ''non-hexadecimal number found in fromhex() arg''"
| "bytes_fromhex (c # d # rest) =
     (case (index_in hex_digits (py_lower_char c), index_in hex_digits (py_lower_char d)) of
        (Some hi, Some lo) \<Rightarrow> rbind (bytes_fromhex rest) (\<lambda>bs. Inr ((16 * hi + lo) # bs))
      | _ \<Rightarrow> raise ValueError ''non-hexadecimal number found in fromhex() arg'')"

definition base64_alphabet :: string where
  "base64_alphabet = ''ABCDEFGHIJKLMNOPQRSTUVWXYZabcdefghijklmnopqrstuvwxyz0123456789+/''"

fun b64encode :: "nat list \<Rightarrow> string" where
  "b64encode [] = []"
| "b64encode [a] = map ((!) base64_alphabet) [a div 4, a mod 4 * 16] @ ''==''"
| "b64encode [a, b] = map ((!) base64_alphabet) [a div 4, a mod 4 * 16 + b div 16, b mod 16 * 4] @ ''=''"
| "b64encode (a # b # c # rest) =
     map ((!) base64_alphabet) [a div 4, a mod 4 * 16 + b div 16, b mod 16 * 4 + c div 64, c mod 64] @ b64encode rest"

definition to_s3_checksum_sha256 :: "string \<Rightarrow> string result" where
  "to_s3_checksum_sha256 hex = map_result b64encode (bytes_fromhex hex)"

section \<open>Write-once persistence\<close>

record persist_write_result =
  wr_object_path :: string
  wr_write_result :: string

definition persist_casefile_payload_write_once ::
  "'s store_put \<Rightarrow> 's store_get \<Rightarrow> (string \<Rightarrow> string) \<Rightarrow> casefile_codecs \<Rightarrow> string \<Rightarrow> string \<Rightarrow> string \<Rightarrow> string \<Rightarrow>
   (string, string) pydict \<Rightarrow> 's \<Rightarrow> persist_write_result result \<times> 's" where
  "persist_casefile_payload_write_once put get sha256_hex cds case_id stage payload stage_hash metadata s =
     st_bind (build_casefile_stage_object_key case_id stage, s) (\<lambda>object_path s.
     st_bind (to_s3_checksum_sha256 (sha256_hex payload), s) (\<lambda>checksum s.
     st_bind (put object_path payload ''application/json'' (Some checksum) metadata s) (\<lambda>put_result s.
       case put_result of
         CREATED \<Rightarrow> (Inr \<lparr>wr_object_path = object_path, wr_write_result = ''created''\<rparr>, s)
       | EXISTS \<Rightarrow> st_bind (get object_path s) (\<lambda>existing s.
           (if existing \<noteq> payload
            then raise InvariantViolation ''write-once invariant violation: existing object payload differs from retry payload''
            else case validate_casefile_stage_json sha256_hex cds existing stage of
              Inl _ \<Rightarrow> raise InvariantViolation (''write-once invariant violation: existing object is not a valid CaseFile '' @
                stage @ '' payload'')
            | Inr existing_casefile \<Rightarrow>
                if extract_stage_hash existing_casefile \<noteq> stage_hash
                then raise InvariantViolation ''write-once invariant violation: existing object hash does not match retry hash''
                else Inr \<lparr>wr_object_path = object_path, wr_write_result = ''idempotent''\<rparr>, s)))))"

record casefile_persist_result =
  cp_case_id :: string
  cp_object_path :: string
  cp_triage_hash :: string
  cp_write_result :: string

record casefile_stage_persist_result =
  sr_case_id :: string
  sr_stage :: string
  sr_object_path :: string
  sr_stage_hash :: string
  sr_write_result :: string

definition require_hash :: "string result \<Rightarrow> string \<Rightarrow> string \<Rightarrow> unit result" where
  "require_hash expected stored msg = rbind expected (\<lambda>h. if stored \<noteq> h then raise InvariantViolation msg else Inr ())"

definition persist_casefile_triage_write_once ::
  "'s store_put \<Rightarrow> 's store_get \<Rightarrow> (string \<Rightarrow> string) \<Rightarrow> casefile_codecs \<Rightarrow> casefile_triage \<Rightarrow> 's \<Rightarrow>
   casefile_persist_result result \<times> 's" where
  "persist_casefile_triage_write_once put get sha256_hex cds c s =
     (let payload = mc_dump_json (cd_triage cds) c
      in st_bind (require_hash (compute_casefile_triage_hash sha256_hex cds c) (tg_triage_hash c)
           ''triage_hash does not match canonical serialized payload bytes before persistence'', s) (\<lambda>_ s.
         st_bind (persist_casefile_payload_write_once put get sha256_hex cds (tg_case_id c) ''triage'' payload (tg_triage_hash c)
           [(''triage_hash'', tg_triage_hash c), (''payload_sha256'', sha256_hex payload)] s) (\<lambda>p s.
         (Inr \<lparr>cp_case_id = tg_case_id c, cp_object_path = wr_object_path p, cp_triage_hash = tg_triage_hash c,
               cp_write_result = wr_write_result p\<rparr>, s))))"

text \<open>The common tail of the three later stages: check the hash, write, report.\<close>

definition persist_stage ::
  "'s store_put \<Rightarrow> 's store_get \<Rightarrow> (string \<Rightarrow> string) \<Rightarrow> casefile_codecs \<Rightarrow> string \<Rightarrow> string \<Rightarrow> string \<Rightarrow> string result \<Rightarrow>
   string \<Rightarrow> string \<Rightarrow> (string, string) pydict \<Rightarrow> 's \<Rightarrow> casefile_stage_persist_result result \<times> 's" where
  "persist_stage put get sha256_hex cds case_id stage payload expected stage_hash mismatch metadata s =
     st_bind (require_hash expected stage_hash mismatch, s) (\<lambda>_ s.
     st_bind (persist_casefile_payload_write_once put get sha256_hex cds case_id stage payload stage_hash metadata s) (\<lambda>p s.
     (Inr \<lparr>sr_case_id = case_id, sr_stage = stage, sr_object_path = wr_object_path p, sr_stage_hash = stage_hash,
           sr_write_result = wr_write_result p\<rparr>, s)))"

definition persist_casefile_diagnosis_write_once ::
  "'s store_put \<Rightarrow> 's store_get \<Rightarrow> (string \<Rightarrow> string) \<Rightarrow> casefile_codecs \<Rightarrow> casefile_diagnosis \<Rightarrow> 's \<Rightarrow>
   casefile_stage_persist_result result \<times> 's" where
  "persist_casefile_diagnosis_write_once put get sha256_hex cds c =
     (let payload = mc_dump_json (cd_diagnosis cds) c
      in persist_stage put get sha256_hex cds (dg_case_id c) ''diagnosis'' payload
           (compute_casefile_diagnosis_hash sha256_hex cds c) (dg_diagnosis_hash c)
           ''diagnosis_hash does not match canonical serialized payload bytes before persistence''
           [(''triage_hash'', dg_triage_hash c), (''diagnosis_hash'', dg_diagnosis_hash c), (''payload_sha256'', sha256_hex payload)])"

definition optional_entry :: "string \<Rightarrow> string option \<Rightarrow> (string, string) pydict" where
  "optional_entry k v = (case v of None \<Rightarrow> [] | Some x \<Rightarrow> [(k, x)])"

definition persist_casefile_linkage_write_once ::
  "'s store_put \<Rightarrow> 's store_get \<Rightarrow> (string \<Rightarrow> string) \<Rightarrow> casefile_codecs \<Rightarrow> casefile_linkage \<Rightarrow> 's \<Rightarrow>
   casefile_stage_persist_result result \<times> 's" where
  "persist_casefile_linkage_write_once put get sha256_hex cds c =
     (let payload = mc_dump_json (cd_linkage cds) c
      in persist_stage put get sha256_hex cds (ln_case_id c) ''linkage'' payload
           (compute_casefile_linkage_hash sha256_hex cds c) (ln_linkage_hash c)
           ''linkage_hash does not match canonical serialized payload bytes before persistence''
           ([(''triage_hash'', ln_triage_hash c), (''linkage_hash'', ln_linkage_hash c), (''payload_sha256'', sha256_hex payload)] @
            optional_entry ''diagnosis_hash'' (ln_diagnosis_hash c) @
            optional_entry ''incident_sys_id'' (ln_incident_sys_id c) @
            optional_entry ''problem_sys_id'' (ln_problem_sys_id c) @
            optional_entry ''problem_external_id'' (ln_problem_external_id c) @
            (if ln_pir_task_sys_ids c = [] then [] else [(''pir_task_sys_ids'', py_join '','' (ln_pir_task_sys_ids c))]) @
            (if ln_pir_task_external_ids c = [] then []
             else [(''pir_task_external_ids'', py_join '','' (ln_pir_task_external_ids c))])))"

definition persist_casefile_labels_write_once ::
  "'s store_put \<Rightarrow> 's store_get \<Rightarrow> (string \<Rightarrow> string) \<Rightarrow> casefile_codecs \<Rightarrow> casefile_labels \<Rightarrow> 's \<Rightarrow>
   casefile_stage_persist_result result \<times> 's" where
  "persist_casefile_labels_write_once put get sha256_hex cds c =
     (let payload = mc_dump_json (cd_labels cds) c
      in persist_stage put get sha256_hex cds (lb_case_id c) ''labels'' payload
           (compute_casefile_labels_hash sha256_hex cds c) (lb_labels_hash c)
           ''labels_hash does not match canonical serialized payload bytes before persistence''
           ([(''triage_hash'', lb_triage_hash c), (''labels_hash'', lb_labels_hash c), (''payload_sha256'', sha256_hex payload)] @
            optional_entry ''diagnosis_hash'' (lb_diagnosis_hash c)))"

text \<open>A missing object is \<open>None\<close>: the typed error of the S3 adapter, or the \<open>KeyError\<close> of a dictionary-backed store.\<close>

definition read_casefile_stage_json_or_none ::
  "'s store_get \<Rightarrow> (string \<Rightarrow> string) \<Rightarrow> casefile_codecs \<Rightarrow> string \<Rightarrow> string \<Rightarrow> 's \<Rightarrow> casefile_any option result \<times> 's" where
  "read_casefile_stage_json_or_none get sha256_hex cds case_id stage s =
     st_bind (normalize_stage_name stage, s) (\<lambda>stage_name s.
     st_bind (build_casefile_stage_object_key case_id stage_name, s) (\<lambda>object_path s.
       case get object_path s of
         (Inr payload, s') \<Rightarrow> (map_result Some (validate_casefile_stage_json sha256_hex cds payload stage_name), s')
       | (Inl e, s') \<Rightarrow>
           if exc_type e = KeyError \<and> exc_str e = object_path \<or> exc_type e = ObjectNotFoundError then (Inr None, s')
           else (Inl e, s')))"

fun present_stages ::
  "'s store_get \<Rightarrow> (string \<Rightarrow> string) \<Rightarrow> casefile_codecs \<Rightarrow> string \<Rightarrow> string list \<Rightarrow> 's \<Rightarrow> string list result \<times> 's" where
  "present_stages get sha256_hex cds case_id [] s = (Inr [], s)"
| "present_stages get sha256_hex cds case_id (stage # stages) s =
     st_bind (read_casefile_stage_json_or_none get sha256_hex cds case_id stage s) (\<lambda>c s.
     st_bind (present_stages get sha256_hex cds case_id stages s) (\<lambda>rest s.
     (Inr (if c \<noteq> None then stage # rest else rest), s)))"

definition list_present_casefile_stages ::
  "'s store_get \<Rightarrow> (string \<Rightarrow> string) \<Rightarrow> casefile_codecs \<Rightarrow> string \<Rightarrow> 's \<Rightarrow> string list result \<times> 's" where
  "list_present_casefile_stages get sha256_hex cds case_id s = present_stages get sha256_hex cds case_id canonical_stage_names s"

section \<open>Object keys\<close>

text \<open>The key of a stage of a case, and that keys of different cases or stages differ.\<close>

definition stage_key :: "string \<Rightarrow> string \<Rightarrow> string" where
  "stage_key case_id stage = ''cases/'' @ py_strip case_id @ ''/'' @ stage @ ''.json''"

lemma normalize_canonical [simp]:
  "normalize_stage_name ''triage'' = Inr ''triage''" "normalize_stage_name ''diagnosis'' = Inr ''diagnosis''"
  "normalize_stage_name ''linkage'' = Inr ''linkage''" "normalize_stage_name ''labels'' = Inr ''labels''"
  by code_simp+

lemma build_key_canonical:
  "stage \<in> set canonical_stage_names \<Longrightarrow> build_casefile_stage_object_key case_id stage =
     (if py_strip case_id = [] then raise ValueError ''case_id must not be empty'' else Inr (stage_key case_id stage))"
  by (auto simp: canonical_stage_names_def build_casefile_stage_object_key_def stage_key_def)

lemma stage_suffix_inject:
  assumes "x @ ''/'' @ stage @ ''.json'' = y @ ''/'' @ stage' @ ''.json''"
    and "stage \<in> set canonical_stage_names" "stage' \<in> set canonical_stage_names"
  shows "x = y \<and> stage = stage'"
proof -
  have "rev (x @ ''/'' @ stage @ ''.json'') = rev (y @ ''/'' @ stage' @ ''.json'')" by (simp only: assms(1))
  with assms(2,3) show ?thesis by (auto simp: canonical_stage_names_def)
qed

lemma stage_key_inject:
  "\<lbrakk>stage \<in> set canonical_stage_names; stage' \<in> set canonical_stage_names\<rbrakk> \<Longrightarrow>
     stage_key x stage = stage_key y stage' \<longleftrightarrow> py_strip x = py_strip y \<and> stage = stage'"
  using stage_suffix_inject [of "py_strip x" stage "py_strip y" stage'] by (auto simp: stage_key_def)

lemma canonical_members [simp]:
  "''triage'' \<in> set canonical_stage_names" "''diagnosis'' \<in> set canonical_stage_names"
  "''linkage'' \<in> set canonical_stage_names" "''labels'' \<in> set canonical_stage_names"
  by (simp_all add: canonical_stage_names_def)

section \<open>What persistence does to the store\<close>

lemma st_bind_Inr: "st_bind m f = (Inr y, s') \<longleftrightarrow> (\<exists>x s1. m = (Inr x, s1) \<and> f x s1 = (Inr y, s'))"
  by (cases m) (auto simp: st_bind_def split: sum.splits)

lemma require_hash_ok [py_simps]: "require_hash expected stored msg = Inr u \<longleftrightarrow> expected = Inr stored"
  by (cases expected) (auto simp: require_hash_def raise_def)

context object_store
begin

lemma get_found: "get k s = (Inr body, s') \<Longrightarrow> view s' k = Some body"
  using get_effect [of k s "Inr body" s'] get_stored [of k s body s'] by simp

text \<open>The write of one payload: either nothing changed, or the key was free and now holds the payload; success means it holds it.\<close>

lemma persist_payload_effect:
  assumes "persist_casefile_payload_write_once put get sha256_hex cds cid stage payload h md s = (r, s')"
    and "stage \<in> set canonical_stage_names"
  shows "view s' = view s \<or> view s (stage_key cid stage) = None \<and> view s' = (view s)(stage_key cid stage \<mapsto> payload)"
proof (cases "py_strip cid = [] \<or> \<not> is_ok (to_s3_checksum_sha256 (sha256_hex payload))")
  case True
  then show ?thesis using assms
    by (auto simp: persist_casefile_payload_write_once_def build_key_canonical st_bind_def is_ok_def split: sum.splits)
next
  case False
  then obtain ck where ck: "to_s3_checksum_sha256 (sha256_hex payload) = Inr ck" and cid: "py_strip cid \<noteq> []"
    by (auto simp: is_ok_iff)
  obtain pr s1 where put1: "put (stage_key cid stage) payload ''application/json'' (Some ck) md s = (pr, s1)"
    by (cases "put (stage_key cid stage) payload ''application/json'' (Some ck) md s") auto
  have "view s' = view s1" using assms(1)
    by (auto simp: persist_casefile_payload_write_once_def build_key_canonical assms(2) cid ck put1 st_bind_def
        dest: get_effect split: sum.splits prod.splits put_if_absent_result.splits)
  then show ?thesis using put_effect [OF put1] by simp
qed

lemma persist_payload_confirmed:
  assumes "persist_casefile_payload_write_once put get sha256_hex cds cid stage payload h md s = (Inr p, s')"
    and "stage \<in> set canonical_stage_names"
  shows "wr_object_path p = stage_key cid stage" "view s' (stage_key cid stage) = Some payload" "py_strip cid \<noteq> []"
proof -
  from assms obtain ck pr s1 where cid: "py_strip cid \<noteq> []"
    and put1: "put (stage_key cid stage) payload ''application/json'' (Some ck) md s = (Inr pr, s1)"
    and rest: "(case pr of
         CREATED \<Rightarrow> (Inr \<lparr>wr_object_path = stage_key cid stage, wr_write_result = ''created''\<rparr>, s1)
       | EXISTS \<Rightarrow> st_bind (get (stage_key cid stage) s1) (\<lambda>existing s.
           (if existing \<noteq> payload
            then raise InvariantViolation ''write-once invariant violation: existing object payload differs from retry payload''
            else case validate_casefile_stage_json sha256_hex cds existing stage of
              Inl _ \<Rightarrow> raise InvariantViolation (''write-once invariant violation: existing object is not a valid CaseFile '' @
                stage @ '' payload'')
            | Inr existing_casefile \<Rightarrow>
                if extract_stage_hash existing_casefile \<noteq> h
                then raise InvariantViolation ''write-once invariant violation: existing object hash does not match retry hash''
                else Inr \<lparr>wr_object_path = stage_key cid stage, wr_write_result = ''idempotent''\<rparr>, s))) = (Inr p, s')"
    by (auto simp: persist_casefile_payload_write_once_def build_key_canonical st_bind_Inr raise_def split: if_splits)
  show "py_strip cid \<noteq> []" by (rule cid)
  show "wr_object_path p = stage_key cid stage" "view s' (stage_key cid stage) = Some payload"
    using rest put1
    by (auto simp: st_bind_Inr raise_def dest: put_created get_found
        split: put_if_absent_result.splits if_splits sum.splits)
qed

lemma persist_triage_effect:
  assumes "persist_casefile_triage_write_once put get sha256_hex cds c s = (r, s')"
  shows "view s' = view s \<or> view s (stage_key (tg_case_id c) ''triage'') = None \<and>
      view s' = (view s)(stage_key (tg_case_id c) ''triage'' \<mapsto> mc_dump_json (cd_triage cds) c) \<and>
      compute_casefile_triage_hash sha256_hex cds c = Inr (tg_triage_hash c)"
  using assms
  by (auto simp: persist_casefile_triage_write_once_def Let_def st_bind_def py_simps dest!: persist_payload_effect
      split: sum.splits prod.splits)

lemma persist_triage_confirmed:
  assumes "persist_casefile_triage_write_once put get sha256_hex cds c s = (Inr p, s')"
  shows "view s' (stage_key (tg_case_id c) ''triage'') = Some (mc_dump_json (cd_triage cds) c) \<and> py_strip (tg_case_id c) \<noteq> [] \<and>
    compute_casefile_triage_hash sha256_hex cds c = Inr (tg_triage_hash c) \<and> cp_case_id p = tg_case_id c \<and>
    cp_object_path p = stage_key (tg_case_id c) ''triage'' \<and> cp_triage_hash p = tg_triage_hash c"
  using assms by (auto simp: persist_casefile_triage_write_once_def Let_def st_bind_Inr py_simps dest: persist_payload_confirmed)

lemma persist_stage_effect:
  assumes "persist_stage put get sha256_hex cds cid stage payload expected h mm md s = (r, s')" "stage \<in> set canonical_stage_names"
  shows "view s' = view s \<or> view s (stage_key cid stage) = None \<and> view s' = (view s)(stage_key cid stage \<mapsto> payload) \<and> expected = Inr h"
  using assms
  by (auto simp: persist_stage_def Let_def st_bind_def py_simps dest!: persist_payload_effect split: sum.splits prod.splits)

text \<open>Reading a stage changes nothing; a value means the object is there and validates.\<close>

lemma read_stage_found:
  assumes "read_casefile_stage_json_or_none get sha256_hex cds cid stage s = (Inr (Some c), s')"
    and "stage \<in> set canonical_stage_names" "normalize_stage_name stage = Inr stage"
  shows "view s' = view s \<and> (\<exists>payload. view s (stage_key cid stage) = Some payload \<and>
    validate_casefile_stage_json sha256_hex cds payload stage = Inr c)"
  using assms
  by (auto simp: read_casefile_stage_json_or_none_def st_bind_Inr build_key_canonical map_result_def py_simps raise_def
      dest: get_effect get_stored split: if_splits prod.splits sum.splits)

end

end
