(* ===== verification/Casefile.thy ===== *)
theory Casefile
  imports Casefile_IO
begin

text \<open>
  The case-file stage: \<open>pipeline/stages/casefile.py\<close>.

  Assembly copies the stage outputs of one scope into a triage case file, sanitises it, seals it with its hash and
  re-validates the serialised form; persistence writes it once and hands the outbox its payload. The diagnosis, linkage and labels
  stages check the hashes of the stages they depend on before they write. Logging is left out.

  \<open>casefile_run\<close> is any interleaving of these writes by any number of processes: the hash checks of a stage may have read
  an earlier state of the store than the one its write meets. Its invariants are proved for every store that meets the
  contract \<open>object_store\<close>.
\<close>

section \<open>Assembly\<close>

definition resolve_scope_mapping :: "scope \<Rightarrow> (scope, 'a) pydict \<Rightarrow> 'a option" where
  "resolve_scope_mapping sc mapping = (case dict_get mapping sc of
       Some x \<Rightarrow> Some x
     | None \<Rightarrow> if length sc = 4 then dict_get mapping [sc ! 0, sc ! 1, sc ! 3] else None)"

definition build_topology_context :: "scope \<Rightarrow> topology_stage_output \<Rightarrow> casefile_topology_context result" where
  "build_topology_context sc topo =
     (case (resolve_scope_mapping sc (to_context_by_scope topo), resolve_scope_mapping sc (to_impact_by_scope topo),
            resolve_scope_mapping sc (to_routing_by_scope topo)) of
        (Some ctx, Some impact, Some routing) \<Rightarrow>
          validate_topology_context
            \<lparr>ctc_stream_id = cx_stream_id ctx, ctc_topic_role = cx_topic_role ctx, ctc_criticality_tier = cx_criticality_tier ctx,
             ctc_source_system = cx_source_system ctx, ctc_blast_radius = ti_blast_radius impact,
             ctc_downstream_impacts = ti_downstream_impacts impact, ctc_routing = routing\<rparr>
      | _ \<Rightarrow> raise KeyError ''Missing topology context required for casefile scope'')"

definition build_evidence_snapshot ::
  "scope \<Rightarrow> evidence_stage_output \<Rightarrow> peak_stage_output \<Rightarrow> gate_input \<Rightarrow> casefile_evidence_snapshot" where
  "build_evidence_snapshot sc ev po gi =
     (let stored = (case dict_get (eo_evidence_status_map_by_scope ev) sc of Some m \<Rightarrow> m | None \<Rightarrow> [])
      in \<lparr>sn_scope = Some sc, sn_rows = filter (\<lambda>r. er_scope r = sc) (eo_rows ev),
          sn_evidence_status_map = (if stored = [] then gi_evidence_status_map gi else stored),
          sn_telemetry_degraded_active = eo_telemetry_degraded_active ev, sn_max_safe_action = eo_max_safe_action ev,
          sn_peak_context = dict_get (po_peak_context_by_scope po) [environment_value (gi_env gi), gi_cluster_id gi, gi_topic gi]\<rparr>)"

definition derive_case_id :: "(string \<Rightarrow> string) \<Rightarrow> gate_input \<Rightarrow> string" where
  "derive_case_id sha256_hex gi =
     ''case-'' @ environment_value (gi_env gi) @ ''-'' @ gi_cluster_id gi @ ''-'' @ gi_topic gi @ ''-'' @
     take 12 (sha256_hex (gi_action_fingerprint gi))"

definition truthy_or :: "string option \<Rightarrow> string \<Rightarrow> string" where
  "truthy_or v other = (case v of Some s \<Rightarrow> if s = [] then other else s | None \<Rightarrow> other)"

definition sanitize_casefile ::
  "(string \<Rightarrow> string \<Rightarrow> bool) \<Rightarrow> casefile_codecs \<Rightarrow> denylist \<Rightarrow> casefile_triage \<Rightarrow> casefile_triage result" where
  "sanitize_casefile search cds d c =
     model_validate (cd_triage cds) validate_casefile_triage (apply_denylist search d (mc_dump (cd_triage cds) c))"

text \<open>The versions a case file is stamped with: of the rulebook, the peak policy (a literal), the metrics contract, the denylist and the diagnosis policy.\<close>

definition stamp_versions :: "rulebook \<Rightarrow> string \<Rightarrow> denylist \<Rightarrow> string \<Rightarrow> casefile_policy_versions" where
  "stamp_versions rb metrics_version d diagnosis_policy_version =
     \<lparr>cv_rulebook_version = py_str_int (rb_version rb), cv_peak_policy_version = ''v1'',
      cv_prometheus_metrics_contract_version = metrics_version, cv_exposure_denylist_version = dl_denylist_version d,
      cv_diagnosis_policy_version = diagnosis_policy_version\<rparr>"

definition resolve_timestamp :: "instant \<Rightarrow> py_datetime option \<Rightarrow> instant result" where
  "resolve_timestamp clock ts = (case ts of
       None \<Rightarrow> Inr clock
     | Some (Aware t) \<Rightarrow> Inr t
     | Some (Naive _) \<Rightarrow> raise ValueError ''triage_timestamp must be timezone-aware'')"

definition draft_casefile ::
  "(string \<Rightarrow> string) \<Rightarrow> instant \<Rightarrow> scope \<Rightarrow> evidence_stage_output \<Rightarrow> peak_stage_output \<Rightarrow> topology_stage_output \<Rightarrow> gate_input \<Rightarrow>
   action_decision \<Rightarrow> rulebook \<Rightarrow> string \<Rightarrow> denylist \<Rightarrow> string \<Rightarrow> py_datetime option \<Rightarrow> string option \<Rightarrow> casefile_triage result" where
  "draft_casefile sha256_hex clock sc ev po topo gi ad rb metrics_version d diagnosis_policy_version ts case_id =
     (if gi_action_fingerprint gi \<noteq> ad_action_fingerprint ad
      then raise ValueError ''gate_input/action_decision action_fingerprint mismatch''
      else if length sc \<noteq> 3 \<and> length sc \<noteq> 4 then raise ValueError ''Unsupported scope shape for casefile assembly''
      else if py_strip diagnosis_policy_version = [] then raise ValueError ''diagnosis_policy_version must not be empty''
      else rbind (resolve_timestamp clock ts) (\<lambda>t.
           rbind (build_topology_context sc topo) (\<lambda>topology_context.
           rbind (validate_policy_versions (stamp_versions rb metrics_version d diagnosis_policy_version)) (\<lambda>versions.
           rbind (validate_triage_hash hash_placeholder) (\<lambda>placeholder.
           Inr
             \<lparr>tg_case_id = truthy_or case_id (truthy_or (gi_case_id gi) (derive_case_id sha256_hex gi)), tg_scope = sc,
              tg_triage_timestamp = t, tg_evidence_snapshot = build_evidence_snapshot sc ev po gi,
              tg_topology_context = topology_context, tg_gate_input = gi, tg_action_decision = ad, tg_policy_versions = versions,
              tg_triage_hash = placeholder\<rparr>)))))"

definition assemble_casefile_triage_stage ::
  "(string \<Rightarrow> string) \<Rightarrow> (string \<Rightarrow> string \<Rightarrow> bool) \<Rightarrow> casefile_codecs \<Rightarrow> instant \<Rightarrow> scope \<Rightarrow> evidence_stage_output \<Rightarrow> peak_stage_output \<Rightarrow>
   topology_stage_output \<Rightarrow> gate_input \<Rightarrow> action_decision \<Rightarrow> rulebook \<Rightarrow> string \<Rightarrow> denylist \<Rightarrow> string \<Rightarrow> py_datetime option \<Rightarrow> string option \<Rightarrow>
   casefile_triage result" where
  "assemble_casefile_triage_stage sha256_hex search cds clock sc ev po topo gi ad rb metrics_version d diagnosis_policy_version ts case_id =
     rbind (draft_casefile sha256_hex clock sc ev po topo gi ad rb metrics_version d diagnosis_policy_version ts case_id) (\<lambda>draft.
     rbind (sanitize_casefile search cds d draft) (\<lambda>sanitized.
     rbind (compute_casefile_triage_hash sha256_hex cds sanitized) (\<lambda>triage_hash.
     validate_casefile_triage_json sha256_hex cds (mc_dump_json (cd_triage cds) (sanitized\<lparr>tg_triage_hash := triage_hash\<rparr>)))))"

section \<open>Persistence of the triage stage\<close>

definition persist_casefile_and_prepare_outbox_ready ::
  "'s store_put \<Rightarrow> 's store_get \<Rightarrow> (string \<Rightarrow> string) \<Rightarrow> casefile_codecs \<Rightarrow> casefile_triage \<Rightarrow> 's \<Rightarrow> ready_casefile result \<times> 's" where
  "persist_casefile_and_prepare_outbox_ready put get sha256_hex cds c s =
     st_bind (build_casefile_triage_object_key (tg_case_id c), s) (\<lambda>object_path s.
     st_bind (persist_casefile_triage_write_once put get sha256_hex cds c s) (\<lambda>p s.
       (case validate_ready_casefile \<lparr>rc_case_id = cp_case_id p, rc_object_path = cp_object_path p, rc_triage_hash = cp_triage_hash p\<rparr> of
          Inr ready \<Rightarrow> Inr ready
        | Inl _ \<Rightarrow> raise IntegrationError ''failed to construct outbox-ready payload from confirmed casefile persistence'', s)))"

section \<open>Later stages\<close>

text \<open>The two dependency checks the later stages share, with the stage's name in their messages.\<close>

definition require_triage_dependency ::
  "'s store_get \<Rightarrow> (string \<Rightarrow> string) \<Rightarrow> casefile_codecs \<Rightarrow> string \<Rightarrow> string \<Rightarrow> string \<Rightarrow> 's \<Rightarrow> unit result \<times> 's" where
  "require_triage_dependency get sha256_hex cds stage case_id triage_hash s =
     st_bind (read_casefile_stage_json_or_none get sha256_hex cds case_id ''triage'' s) (\<lambda>payload s.
       (case payload of
          None \<Rightarrow> raise InvariantViolation (stage @ '' stage requires triage.json to exist'')
        | Some (Triage_Payload t) \<Rightarrow> rbind (compute_casefile_triage_hash sha256_hex cds t) (\<lambda>h.
            if triage_hash \<noteq> h then raise InvariantViolation (stage @ '' stage triage_hash mismatch (tamper or stale dependency)'')
            else Inr ())
        | Some _ \<Rightarrow> raise OtherException ''not a triage payload'', s))"

definition require_diagnosis_dependency ::
  "'s store_get \<Rightarrow> (string \<Rightarrow> string) \<Rightarrow> casefile_codecs \<Rightarrow> string \<Rightarrow> string \<Rightarrow> string option \<Rightarrow> 's \<Rightarrow> unit result \<times> 's" where
  "require_diagnosis_dependency get sha256_hex cds stage case_id diagnosis_hash s = (case diagnosis_hash of
       None \<Rightarrow> (Inr (), s)
     | Some dh \<Rightarrow> st_bind (read_casefile_stage_json_or_none get sha256_hex cds case_id ''diagnosis'' s) (\<lambda>payload s.
         (case payload of
            None \<Rightarrow> raise InvariantViolation (stage @ '' stage diagnosis_hash was provided but diagnosis.json is absent'')
          | Some (Diagnosis_Payload c) \<Rightarrow> rbind (compute_casefile_diagnosis_hash sha256_hex cds c) (\<lambda>h.
              if dh \<noteq> h then raise InvariantViolation (stage @ '' stage diagnosis_hash mismatch'') else Inr ())
          | Some _ \<Rightarrow> raise OtherException ''not a diagnosis payload'', s)))"

definition validate_diagnosis_stage_hashes ::
  "'s store_get \<Rightarrow> (string \<Rightarrow> string) \<Rightarrow> casefile_codecs \<Rightarrow> casefile_diagnosis \<Rightarrow> 's \<Rightarrow> unit result \<times> 's" where
  "validate_diagnosis_stage_hashes get sha256_hex cds c s =
     st_bind (require_hash (compute_casefile_diagnosis_hash sha256_hex cds c) (dg_diagnosis_hash c)
        ''diagnosis_hash mismatch before stage persistence'', s) (\<lambda>_ s.
     require_triage_dependency get sha256_hex cds ''diagnosis'' (dg_case_id c) (dg_triage_hash c) s)"

definition validate_linkage_stage_hashes ::
  "'s store_get \<Rightarrow> (string \<Rightarrow> string) \<Rightarrow> casefile_codecs \<Rightarrow> casefile_linkage \<Rightarrow> 's \<Rightarrow> unit result \<times> 's" where
  "validate_linkage_stage_hashes get sha256_hex cds c s =
     st_bind (require_hash (compute_casefile_linkage_hash sha256_hex cds c) (ln_linkage_hash c)
        ''linkage_hash mismatch before stage persistence'', s) (\<lambda>_ s.
     st_bind (require_triage_dependency get sha256_hex cds ''linkage'' (ln_case_id c) (ln_triage_hash c) s) (\<lambda>_ s.
     require_diagnosis_dependency get sha256_hex cds ''linkage'' (ln_case_id c) (ln_diagnosis_hash c) s))"

definition validate_labels_stage_hashes ::
  "'s store_get \<Rightarrow> (string \<Rightarrow> string) \<Rightarrow> casefile_codecs \<Rightarrow> casefile_labels \<Rightarrow> 's \<Rightarrow> unit result \<times> 's" where
  "validate_labels_stage_hashes get sha256_hex cds c s =
     st_bind (require_hash (compute_casefile_labels_hash sha256_hex cds c) (lb_labels_hash c)
        ''labels_hash mismatch before stage persistence'', s) (\<lambda>_ s.
     st_bind (require_triage_dependency get sha256_hex cds ''labels'' (lb_case_id c) (lb_triage_hash c) s) (\<lambda>_ s.
     require_diagnosis_dependency get sha256_hex cds ''labels'' (lb_case_id c) (lb_diagnosis_hash c) s))"

definition persist_casefile_diagnosis_stage ::
  "'s store_put \<Rightarrow> 's store_get \<Rightarrow> (string \<Rightarrow> string) \<Rightarrow> casefile_codecs \<Rightarrow> casefile_diagnosis \<Rightarrow> 's \<Rightarrow> string result \<times> 's" where
  "persist_casefile_diagnosis_stage put get sha256_hex cds c s =
     st_bind (validate_diagnosis_stage_hashes get sha256_hex cds c s) (\<lambda>_ s.
     st_bind (persist_casefile_diagnosis_write_once put get sha256_hex cds c s) (\<lambda>p s. (Inr (sr_object_path p), s)))"

definition persist_casefile_linkage_stage ::
  "'s store_put \<Rightarrow> 's store_get \<Rightarrow> (string \<Rightarrow> string) \<Rightarrow> casefile_codecs \<Rightarrow> casefile_linkage \<Rightarrow> 's \<Rightarrow> string result \<times> 's" where
  "persist_casefile_linkage_stage put get sha256_hex cds c s =
     st_bind (validate_linkage_stage_hashes get sha256_hex cds c s) (\<lambda>_ s.
     st_bind (persist_casefile_linkage_write_once put get sha256_hex cds c s) (\<lambda>p s. (Inr (sr_object_path p), s)))"

definition persist_casefile_labels_stage ::
  "'s store_put \<Rightarrow> 's store_get \<Rightarrow> (string \<Rightarrow> string) \<Rightarrow> casefile_codecs \<Rightarrow> casefile_labels \<Rightarrow> 's \<Rightarrow> string result \<times> 's" where
  "persist_casefile_labels_stage put get sha256_hex cds c s =
     st_bind (validate_labels_stage_hashes get sha256_hex cds c s) (\<lambda>_ s.
     st_bind (persist_casefile_labels_write_once put get sha256_hex cds c s) (\<lambda>p s. (Inr (sr_object_path p), s)))"

definition load_casefile_diagnosis_stage_if_present ::
  "'s store_get \<Rightarrow> (string \<Rightarrow> string) \<Rightarrow> casefile_codecs \<Rightarrow> string \<Rightarrow> 's \<Rightarrow> casefile_any option result \<times> 's" where
  "load_casefile_diagnosis_stage_if_present get sha256_hex cds case_id s =
     read_casefile_stage_json_or_none get sha256_hex cds case_id ''diagnosis'' s"

definition load_casefile_linkage_stage_if_present ::
  "'s store_get \<Rightarrow> (string \<Rightarrow> string) \<Rightarrow> casefile_codecs \<Rightarrow> string \<Rightarrow> 's \<Rightarrow> casefile_any option result \<times> 's" where
  "load_casefile_linkage_stage_if_present get sha256_hex cds case_id s =
     read_casefile_stage_json_or_none get sha256_hex cds case_id ''linkage'' s"

definition load_casefile_labels_stage_if_present ::
  "'s store_get \<Rightarrow> (string \<Rightarrow> string) \<Rightarrow> casefile_codecs \<Rightarrow> string \<Rightarrow> 's \<Rightarrow> casefile_any option result \<times> 's" where
  "load_casefile_labels_stage_if_present get sha256_hex cds case_id s =
     read_casefile_stage_json_or_none get sha256_hex cds case_id ''labels'' s"

section \<open>Interleaved writers\<close>

inductive casefile_run ::
  "'s store_put \<Rightarrow> 's store_get \<Rightarrow> (string \<Rightarrow> string) \<Rightarrow> casefile_codecs \<Rightarrow> 's \<Rightarrow> 's list \<Rightarrow> bool"
  for put get sha256_hex cds s0 where
  run_start: "casefile_run put get sha256_hex cds s0 [s0]"
| run_triage: "\<lbrakk>casefile_run put get sha256_hex cds s0 (s # h);
    persist_casefile_triage_write_once put get sha256_hex cds c s = (r, s')\<rbrakk> \<Longrightarrow> casefile_run put get sha256_hex cds s0 (s' # s # h)"
| run_diagnosis: "\<lbrakk>casefile_run put get sha256_hex cds s0 (s # h); snap \<in> set (s # h);
    validate_diagnosis_stage_hashes get sha256_hex cds d snap = (Inr (), snap');
    persist_casefile_diagnosis_write_once put get sha256_hex cds d s = (rd, s')\<rbrakk> \<Longrightarrow> casefile_run put get sha256_hex cds s0 (s' # s # h)"
| run_linkage: "\<lbrakk>casefile_run put get sha256_hex cds s0 (s # h); snap \<in> set (s # h);
    validate_linkage_stage_hashes get sha256_hex cds l snap = (Inr (), snap');
    persist_casefile_linkage_write_once put get sha256_hex cds l s = (rd, s')\<rbrakk> \<Longrightarrow> casefile_run put get sha256_hex cds s0 (s' # s # h)"
| run_labels: "\<lbrakk>casefile_run put get sha256_hex cds s0 (s # h); snap \<in> set (s # h);
    validate_labels_stage_hashes get sha256_hex cds b snap = (Inr (), snap');
    persist_casefile_labels_write_once put get sha256_hex cds b s = (rd, s')\<rbrakk> \<Longrightarrow> casefile_run put get sha256_hex cds s0 (s' # s # h)"
| run_read: "\<lbrakk>casefile_run put get sha256_hex cds s0 (s # h); get k s = (rg, s')\<rbrakk> \<Longrightarrow> casefile_run put get sha256_hex cds s0 (s' # s # h)"

text \<open>A stage of a case is stored and validates with the given hash.\<close>

definition triage_stored :: "(string \<Rightarrow> string) \<Rightarrow> casefile_codecs \<Rightarrow> (string \<Rightarrow> string option) \<Rightarrow> string \<Rightarrow> string \<Rightarrow> bool" where
  "triage_stored sha256_hex cds v cid h = (\<exists>p t. v (stage_key cid ''triage'') = Some p \<and>
     validate_casefile_triage_json sha256_hex cds p = Inr t \<and> compute_casefile_triage_hash sha256_hex cds t = Inr h)"

definition diagnosis_stored :: "(string \<Rightarrow> string) \<Rightarrow> casefile_codecs \<Rightarrow> (string \<Rightarrow> string option) \<Rightarrow> string \<Rightarrow> string \<Rightarrow> bool" where
  "diagnosis_stored sha256_hex cds v cid h = (\<exists>p d. v (stage_key cid ''diagnosis'') = Some p \<and>
     validate_casefile_diagnosis_json sha256_hex cds p = Inr d \<and> compute_casefile_diagnosis_hash sha256_hex cds d = Inr h)"

text \<open>What a stored stage has to be: the text of a case file sealed with its own hash, and the hashes it names are those of stored stages of its case.\<close>

definition triage_entry ::
  "(string \<Rightarrow> string) \<Rightarrow> casefile_codecs \<Rightarrow> (string \<Rightarrow> string option) \<Rightarrow> string \<Rightarrow> string \<Rightarrow> bool" where
  "triage_entry sha256_hex cds v cid p = (\<exists>c. p = mc_dump_json (cd_triage cds) c \<and>
     py_strip (tg_case_id c) = py_strip cid \<and> compute_casefile_triage_hash sha256_hex cds c = Inr (tg_triage_hash c))"

definition diagnosis_entry ::
  "(string \<Rightarrow> string) \<Rightarrow> casefile_codecs \<Rightarrow> (string \<Rightarrow> string option) \<Rightarrow> string \<Rightarrow> string \<Rightarrow> bool" where
  "diagnosis_entry sha256_hex cds v cid p = (\<exists>c. p = mc_dump_json (cd_diagnosis cds) c \<and>
     py_strip (dg_case_id c) = py_strip cid \<and> compute_casefile_diagnosis_hash sha256_hex cds c = Inr (dg_diagnosis_hash c) \<and>
     triage_stored sha256_hex cds v cid (dg_triage_hash c))"

definition linkage_entry ::
  "(string \<Rightarrow> string) \<Rightarrow> casefile_codecs \<Rightarrow> (string \<Rightarrow> string option) \<Rightarrow> string \<Rightarrow> string \<Rightarrow> bool" where
  "linkage_entry sha256_hex cds v cid p = (\<exists>c. p = mc_dump_json (cd_linkage cds) c \<and>
     py_strip (ln_case_id c) = py_strip cid \<and> compute_casefile_linkage_hash sha256_hex cds c = Inr (ln_linkage_hash c) \<and>
     triage_stored sha256_hex cds v cid (ln_triage_hash c) \<and>
     (\<forall>h. ln_diagnosis_hash c = Some h \<longrightarrow> diagnosis_stored sha256_hex cds v cid h))"

definition labels_entry ::
  "(string \<Rightarrow> string) \<Rightarrow> casefile_codecs \<Rightarrow> (string \<Rightarrow> string option) \<Rightarrow> string \<Rightarrow> string \<Rightarrow> bool" where
  "labels_entry sha256_hex cds v cid p = (\<exists>c. p = mc_dump_json (cd_labels cds) c \<and>
     py_strip (lb_case_id c) = py_strip cid \<and> compute_casefile_labels_hash sha256_hex cds c = Inr (lb_labels_hash c) \<and>
     triage_stored sha256_hex cds v cid (lb_triage_hash c) \<and>
     (\<forall>h. lb_diagnosis_hash c = Some h \<longrightarrow> diagnosis_stored sha256_hex cds v cid h))"

definition entries_ok ::
  "((string \<Rightarrow> string option) \<Rightarrow> string \<Rightarrow> string \<Rightarrow> bool) \<Rightarrow> string \<Rightarrow> (string \<Rightarrow> string option) \<Rightarrow> bool" where
  "entries_ok entry stage v = (\<forall>cid p. v (stage_key cid stage) = Some p \<longrightarrow> entry v cid p)"

definition chain_ok :: "(string \<Rightarrow> string) \<Rightarrow> casefile_codecs \<Rightarrow> (string \<Rightarrow> string option) \<Rightarrow> bool" where
  "chain_ok sha256_hex cds v =
     (entries_ok (triage_entry sha256_hex cds) ''triage'' v \<and> entries_ok (diagnosis_entry sha256_hex cds) ''diagnosis'' v \<and>
      entries_ok (linkage_entry sha256_hex cds) ''linkage'' v \<and> entries_ok (labels_entry sha256_hex cds) ''labels'' v)"

section \<open>Lemmas\<close>

lemma stage_key_strip: "py_strip x = py_strip y \<Longrightarrow> stage_key x stage = stage_key y stage"
  by (simp add: stage_key_def)

lemma triage_stored_mono: "v \<subseteq>\<^sub>m v' \<Longrightarrow> triage_stored sha256_hex cds v cid h \<Longrightarrow> triage_stored sha256_hex cds v' cid h"
  unfolding triage_stored_def map_le_def by (metis domI)

lemma diagnosis_stored_mono: "v \<subseteq>\<^sub>m v' \<Longrightarrow> diagnosis_stored sha256_hex cds v cid h \<Longrightarrow> diagnosis_stored sha256_hex cds v' cid h"
  unfolding diagnosis_stored_def map_le_def by (metis domI)

lemma stored_strip:
  assumes "py_strip x = py_strip y"
  shows "triage_stored sha256_hex cds v x h = triage_stored sha256_hex cds v y h"
    "diagnosis_stored sha256_hex cds v x h = diagnosis_stored sha256_hex cds v y h"
  by (simp_all add: triage_stored_def diagnosis_stored_def stage_key_strip [OF assms])

lemma entry_mono:
  assumes "v \<subseteq>\<^sub>m v'"
  shows "triage_entry sha256_hex cds v cid p \<Longrightarrow> triage_entry sha256_hex cds v' cid p"
    "diagnosis_entry sha256_hex cds v cid p \<Longrightarrow> diagnosis_entry sha256_hex cds v' cid p"
    "linkage_entry sha256_hex cds v cid p \<Longrightarrow> linkage_entry sha256_hex cds v' cid p"
    "labels_entry sha256_hex cds v cid p \<Longrightarrow> labels_entry sha256_hex cds v' cid p"
  using triage_stored_mono [OF assms] diagnosis_stored_mono [OF assms]
  by (auto simp: triage_entry_def diagnosis_entry_def linkage_entry_def labels_entry_def)

text \<open>Adding an object under a free key keeps the entries of a stage right, if the new one is right when it belongs to that stage.\<close>

lemma entries_ok_add:
  assumes ok: "entries_ok entry stage v" and free: "v (stage_key cid0 stage0) = None"
    and canonical: "stage \<in> set canonical_stage_names" "stage0 \<in> set canonical_stage_names"
    and mono: "\<And>v v' cid p. v \<subseteq>\<^sub>m v' \<Longrightarrow> entry v cid p \<Longrightarrow> entry v' cid p"
    and new: "\<And>cid. stage0 = stage \<Longrightarrow> py_strip cid0 = py_strip cid \<Longrightarrow> entry (v(stage_key cid0 stage0 \<mapsto> p0)) cid p0"
  shows "entries_ok entry stage (v(stage_key cid0 stage0 \<mapsto> p0))"
proof -
  have "v \<subseteq>\<^sub>m v(stage_key cid0 stage0 \<mapsto> p0)" using free by (auto simp: map_le_def)
  from mono [OF this] show ?thesis using ok new
    by (auto simp: entries_ok_def stage_key_inject [OF canonical] split: if_splits)
qed

lemma chain_add:
  assumes ok: "chain_ok sha256_hex cds v" and free: "v (stage_key cid0 stage0) = None" and c: "stage0 \<in> set canonical_stage_names"
    and new: "\<And>cid. py_strip cid0 = py_strip cid \<Longrightarrow> let v' = v(stage_key cid0 stage0 \<mapsto> p0) in
      (stage0 = ''triage'' \<longrightarrow> triage_entry sha256_hex cds v' cid p0) \<and> (stage0 = ''diagnosis'' \<longrightarrow> diagnosis_entry sha256_hex cds v' cid p0) \<and>
      (stage0 = ''linkage'' \<longrightarrow> linkage_entry sha256_hex cds v' cid p0) \<and> (stage0 = ''labels'' \<longrightarrow> labels_entry sha256_hex cds v' cid p0)"
  shows "chain_ok sha256_hex cds (v(stage_key cid0 stage0 \<mapsto> p0))"
  unfolding chain_ok_def
  by (intro conjI; rule entries_ok_add [of _ _ v cid0 stage0])
    (use ok new free c in \<open>auto simp: chain_ok_def Let_def intro: entry_mono\<close>)

context object_store
begin

lemma require_triage_ok:
  assumes "require_triage_dependency get sha256_hex cds stage cid h s = (Inr (), s')"
  shows "view s' = view s" "triage_stored sha256_hex cds (view s) cid h"
proof -
  from assms obtain payload where r: "read_casefile_stage_json_or_none get sha256_hex cds cid ''triage'' s = (Inr payload, s')"
    and c: "(case payload of
          None \<Rightarrow> raise InvariantViolation (stage @ '' stage requires triage.json to exist'')
        | Some (Triage_Payload t) \<Rightarrow> rbind (compute_casefile_triage_hash sha256_hex cds t) (\<lambda>x.
            if h \<noteq> x then raise InvariantViolation (stage @ '' stage triage_hash mismatch (tamper or stale dependency)'')
            else Inr ())
        | Some _ \<Rightarrow> raise OtherException ''not a triage payload'') = Inr ()"
    by (auto simp: require_triage_dependency_def st_bind_Inr)
  from c obtain t where t: "payload = Some (Triage_Payload t)" "compute_casefile_triage_hash sha256_hex cds t = Inr h"
    by (auto simp: raise_def py_simps split: option.splits casefile_any.splits if_splits)
  from read_stage_found [OF r [unfolded t(1)]] t(2) show "view s' = view s" "triage_stored sha256_hex cds (view s) cid h"
    by (auto simp: triage_stored_def validate_casefile_stage_json_def map_result_def py_simps)
qed

lemma require_diagnosis_ok:
  assumes "require_diagnosis_dependency get sha256_hex cds stage cid dh s = (Inr (), s')"
  shows "view s' = view s" "dh = Some h \<Longrightarrow> diagnosis_stored sha256_hex cds (view s) cid h"
proof -
  have "view s' = view s \<and> (dh = Some h \<longrightarrow> diagnosis_stored sha256_hex cds (view s) cid h)"
  proof (cases dh)
    case None
    then show ?thesis using assms by (simp add: require_diagnosis_dependency_def)
  next
    case (Some x)
    with assms obtain payload where r: "read_casefile_stage_json_or_none get sha256_hex cds cid ''diagnosis'' s = (Inr payload, s')"
      and c: "(case payload of
            None \<Rightarrow> raise InvariantViolation (stage @ '' stage diagnosis_hash was provided but diagnosis.json is absent'')
          | Some (Diagnosis_Payload c) \<Rightarrow> rbind (compute_casefile_diagnosis_hash sha256_hex cds c) (\<lambda>y.
              if x \<noteq> y then raise InvariantViolation (stage @ '' stage diagnosis_hash mismatch'') else Inr ())
          | Some _ \<Rightarrow> raise OtherException ''not a diagnosis payload'') = Inr ()"
      by (auto simp: require_diagnosis_dependency_def st_bind_Inr)
    from c obtain d where d: "payload = Some (Diagnosis_Payload d)" "compute_casefile_diagnosis_hash sha256_hex cds d = Inr x"
      by (auto simp: raise_def py_simps split: option.splits casefile_any.splits if_splits)
    from read_stage_found [OF r [unfolded d(1)]] d(2) Some show ?thesis
      by (auto simp: diagnosis_stored_def validate_casefile_stage_json_def map_result_def py_simps)
  qed
  then show "view s' = view s" "dh = Some h \<Longrightarrow> diagnosis_stored sha256_hex cds (view s) cid h" by auto
qed

lemma validate_diagnosis_ok:
  assumes "validate_diagnosis_stage_hashes get sha256_hex cds d s = (Inr (), s')"
  shows "triage_stored sha256_hex cds (view s) (dg_case_id d) (dg_triage_hash d)"
  using assms by (auto simp: validate_diagnosis_stage_hashes_def st_bind_Inr dest: require_triage_ok)

lemma validate_linkage_ok:
  assumes "validate_linkage_stage_hashes get sha256_hex cds l s = (Inr (), s')"
  shows "triage_stored sha256_hex cds (view s) (ln_case_id l) (ln_triage_hash l)"
    "ln_diagnosis_hash l = Some h \<Longrightarrow> diagnosis_stored sha256_hex cds (view s) (ln_case_id l) h"
  using assms by (auto simp: validate_linkage_stage_hashes_def st_bind_Inr dest: require_triage_ok)
    (metis require_diagnosis_ok(2) require_triage_ok(1))

lemma validate_labels_ok:
  assumes "validate_labels_stage_hashes get sha256_hex cds b s = (Inr (), s')"
  shows "triage_stored sha256_hex cds (view s) (lb_case_id b) (lb_triage_hash b)"
    "lb_diagnosis_hash b = Some h \<Longrightarrow> diagnosis_stored sha256_hex cds (view s) (lb_case_id b) h"
  using assms by (auto simp: validate_labels_stage_hashes_def st_bind_Inr dest: require_triage_ok)
    (metis require_diagnosis_ok(2) require_triage_ok(1))

lemma view_grows: "view s' = view s \<or> view s k = None \<and> view s' = (view s)(k \<mapsto> p) \<and> P \<Longrightarrow> view s \<subseteq>\<^sub>m view s'"
  by (auto simp: map_le_def)

text \<open>One write of a stage keeps the chain if the entry it may have added is right.\<close>

lemma chain_write:
  assumes ok: "chain_ok sha256_hex cds (view s)"
    and e: "view s' = view s \<or> view s (stage_key cid stage) = None \<and> view s' = (view s)(stage_key cid stage \<mapsto> p) \<and> P"
    and canonical: "stage \<in> set canonical_stage_names"
    and new: "\<And>cid'. P \<Longrightarrow> py_strip cid = py_strip cid' \<Longrightarrow>
      (stage = ''triage'' \<longrightarrow> triage_entry sha256_hex cds (view s') cid' p) \<and> (stage = ''diagnosis'' \<longrightarrow> diagnosis_entry sha256_hex cds (view s') cid' p) \<and>
      (stage = ''linkage'' \<longrightarrow> linkage_entry sha256_hex cds (view s') cid' p) \<and> (stage = ''labels'' \<longrightarrow> labels_entry sha256_hex cds (view s') cid' p)"
  shows "chain_ok sha256_hex cds (view s') \<and> view s \<subseteq>\<^sub>m view s'"
proof (cases "view s' = view s")
  case True
  then show ?thesis using ok by simp
next
  case False
  with e have u: "view s (stage_key cid stage) = None" "view s' = (view s)(stage_key cid stage \<mapsto> p)" P by auto
  have "chain_ok sha256_hex cds ((view s)(stage_key cid stage \<mapsto> p))"
    using new [OF u(3)] unfolding u(2) by (intro chain_add [OF ok u(1) canonical]) (simp add: Let_def)
  then show ?thesis using u(2) view_grows [OF e] by simp
qed

lemma diagnosis_step:
  assumes ok: "chain_ok sha256_hex cds (view s)" and snap: "view snap \<subseteq>\<^sub>m view s"
    and checked: "validate_diagnosis_stage_hashes get sha256_hex cds d snap = (Inr (), snap')"
    and written: "persist_casefile_diagnosis_write_once put get sha256_hex cds d s = (r, s')"
  shows "chain_ok sha256_hex cds (view s') \<and> view s \<subseteq>\<^sub>m view s'"
proof -
  from written have e: "view s' = view s \<or> view s (stage_key (dg_case_id d) ''diagnosis'') = None \<and>
      view s' = (view s)(stage_key (dg_case_id d) ''diagnosis'' \<mapsto> mc_dump_json (cd_diagnosis cds) d) \<and>
      compute_casefile_diagnosis_hash sha256_hex cds d = Inr (dg_diagnosis_hash d)"
    unfolding persist_casefile_diagnosis_write_once_def Let_def by (rule persist_stage_effect) simp
  note deps = validate_diagnosis_ok [OF checked] and le = map_le_trans [OF snap view_grows [OF e]]
  have "triage_stored sha256_hex cds (view s') (dg_case_id d) (dg_triage_hash d)"
    using deps(1) triage_stored_mono [OF le] by blast
  then show ?thesis by (intro chain_write [OF ok e]) (auto simp: diagnosis_entry_def dest: stored_strip)
qed

lemma linkage_step:
  assumes ok: "chain_ok sha256_hex cds (view s)" and snap: "view snap \<subseteq>\<^sub>m view s"
    and checked: "validate_linkage_stage_hashes get sha256_hex cds l snap = (Inr (), snap')"
    and written: "persist_casefile_linkage_write_once put get sha256_hex cds l s = (r, s')"
  shows "chain_ok sha256_hex cds (view s') \<and> view s \<subseteq>\<^sub>m view s'"
proof -
  from written have e: "view s' = view s \<or> view s (stage_key (ln_case_id l) ''linkage'') = None \<and>
      view s' = (view s)(stage_key (ln_case_id l) ''linkage'' \<mapsto> mc_dump_json (cd_linkage cds) l) \<and>
      compute_casefile_linkage_hash sha256_hex cds l = Inr (ln_linkage_hash l)"
    unfolding persist_casefile_linkage_write_once_def Let_def by (rule persist_stage_effect) simp
  note deps = validate_linkage_ok [OF checked] and le = map_le_trans [OF snap view_grows [OF e]]
  have "triage_stored sha256_hex cds (view s') (ln_case_id l) (ln_triage_hash l)"
    "\<And>h. ln_diagnosis_hash l = Some h \<Longrightarrow> diagnosis_stored sha256_hex cds (view s') (ln_case_id l) h"
    using deps triage_stored_mono [OF le] diagnosis_stored_mono [OF le] by blast+
  then show ?thesis by (intro chain_write [OF ok e]) (auto simp: linkage_entry_def dest: stored_strip)
qed

lemma labels_step:
  assumes ok: "chain_ok sha256_hex cds (view s)" and snap: "view snap \<subseteq>\<^sub>m view s"
    and checked: "validate_labels_stage_hashes get sha256_hex cds b snap = (Inr (), snap')"
    and written: "persist_casefile_labels_write_once put get sha256_hex cds b s = (r, s')"
  shows "chain_ok sha256_hex cds (view s') \<and> view s \<subseteq>\<^sub>m view s'"
proof -
  from written have e: "view s' = view s \<or> view s (stage_key (lb_case_id b) ''labels'') = None \<and>
      view s' = (view s)(stage_key (lb_case_id b) ''labels'' \<mapsto> mc_dump_json (cd_labels cds) b) \<and>
      compute_casefile_labels_hash sha256_hex cds b = Inr (lb_labels_hash b)"
    unfolding persist_casefile_labels_write_once_def Let_def by (rule persist_stage_effect) simp
  note deps = validate_labels_ok [OF checked] and le = map_le_trans [OF snap view_grows [OF e]]
  have "triage_stored sha256_hex cds (view s') (lb_case_id b) (lb_triage_hash b)"
    "\<And>h. lb_diagnosis_hash b = Some h \<Longrightarrow> diagnosis_stored sha256_hex cds (view s') (lb_case_id b) h"
    using deps triage_stored_mono [OF le] diagnosis_stored_mono [OF le] by blast+
  then show ?thesis by (intro chain_write [OF ok e]) (auto simp: labels_entry_def dest: stored_strip)
qed

lemma triage_step:
  assumes "chain_ok sha256_hex cds (view s)" and "persist_casefile_triage_write_once put get sha256_hex cds c s = (r, s')"
  shows "chain_ok sha256_hex cds (view s') \<and> view s \<subseteq>\<^sub>m view s'"
  by (rule chain_write [OF assms(1) persist_triage_effect [OF assms(2)]]) (auto simp: triage_entry_def)

lemma run_invariant:
  assumes "casefile_run put get sha256_hex cds s0 hist" "view s0 = Map.empty"
  shows "chain_ok sha256_hex cds (view (hd hist)) \<and> (\<forall>s1 \<in> set hist. view s1 \<subseteq>\<^sub>m view (hd hist))"
  using assms
proof (induction rule: casefile_run.induct)
  case run_start
  then show ?case by (simp add: chain_ok_def entries_ok_def)
next
  case (run_triage s h c r s')
  then show ?case using triage_step [of sha256_hex cds s c r s'] by (auto intro: map_le_trans)
next
  case (run_diagnosis s h snap d snap' r s')
  then show ?case using diagnosis_step [of sha256_hex cds s snap d snap' r s'] by (auto intro: map_le_trans)
next
  case (run_linkage s h snap l snap' r s')
  then show ?case using linkage_step [of sha256_hex cds s snap l snap' r s'] by (auto intro: map_le_trans)
next
  case (run_labels s h snap b snap' r s')
  then show ?case using labels_step [of sha256_hex cds s snap b snap' r s'] by (auto intro: map_le_trans)
next
  case (run_read s h k r s')
  then show ?case using get_effect [of k s r s'] by auto
qed

end

end
