(* ===== verification/Guarded_Table.thy ===== *)
theory Guarded_Table
  imports Py_Base
begin

text \<open>
  The SQL operations the outbox and the linkage repositories are built from, on a table as a list
  of rows: select by key, insert under a uniqueness constraint, and the guarded
  \<open>UPDATE ... WHERE key = k AND status IN (...) RETURNING\<close>. The locale
  \<open>guarded_table\<close> states what a repository's row type must provide (an update keeps the key and
  sets the status) and proves the facts both repositories rely on; each interprets it on its own
  row type.
\<close>

definition tbl_get :: "('row \<Rightarrow> string) \<Rightarrow> 'row list \<Rightarrow> string \<Rightarrow> 'row option" where
  "tbl_get key tbl k = List.find (\<lambda>r. key r = k) tbl"

text \<open>\<open>None\<close> is the violated uniqueness constraint.\<close>

definition tbl_insert :: "('row \<Rightarrow> string) \<Rightarrow> 'row list \<Rightarrow> 'row \<Rightarrow> 'row list option" where
  "tbl_insert key tbl row = (if key row \<in> set (map key tbl) then None else Some (tbl @ [row]))"

text \<open>The updated row, if one matched, and the table after the update.\<close>

definition tbl_update ::
  "('row \<Rightarrow> string) \<Rightarrow> ('row \<Rightarrow> 'st) \<Rightarrow> ('row \<Rightarrow> 'row \<Rightarrow> 'row) \<Rightarrow> 'row list \<Rightarrow> string \<Rightarrow> 'st list \<Rightarrow> 'row \<Rightarrow>
   'row option \<times> 'row list" where
  "tbl_update key status merge tbl k expected nxt = (case tbl_get key tbl k of
       None \<Rightarrow> (None, tbl)
     | Some r \<Rightarrow> if status r \<in> set expected
         then (Some (merge r nxt), map (\<lambda>x. if key x = k then merge x nxt else x) tbl)
         else (None, tbl))"

lemma tbl_get_Some: "tbl_get key tbl k = Some r \<Longrightarrow> r \<in> set tbl \<and> key r = k"
  by (auto simp: tbl_get_def find_Some_iff)

lemma tbl_get_None: "tbl_get key tbl k = None \<longleftrightarrow> k \<notin> key ` set tbl"
  by (auto simp: tbl_get_def find_None_iff)

lemma tbl_get_append:
  "tbl_get key (xs @ ys) k = (case tbl_get key xs k of Some r \<Rightarrow> Some r | None \<Rightarrow> tbl_get key ys k)"
  by (induction xs) (auto simp: tbl_get_def)

lemma tbl_get_single: "tbl_get key [x] k = (if key x = k then Some x else None)"
  by (simp add: tbl_get_def)

lemma tbl_get_map:
  "(\<And>x. x \<in> set tbl \<Longrightarrow> key (f x) = key x) \<Longrightarrow> tbl_get key (map f tbl) k = map_option f (tbl_get key tbl k)"
  by (induction tbl) (auto simp: tbl_get_def)

locale guarded_table =
  fixes key :: "'row \<Rightarrow> string"
    and status :: "'row \<Rightarrow> 'st"
    and merge :: "'row \<Rightarrow> 'row \<Rightarrow> 'row"
  assumes merge_key: "key nxt = key r \<Longrightarrow> key (merge r nxt) = key r"
    and merge_status: "status (merge r nxt) = status nxt"
begin

text \<open>An insert adds a row that can be read back and touches no other.\<close>

lemma get_insert:
  assumes "tbl_insert key tbl row = Some tbl'"
  shows "tbl_get key tbl' k = (if k = key row then Some row else tbl_get key tbl k)"
proof -
  have "tbl_get key tbl (key row) = None" "tbl' = tbl @ [row]"
    using assms by (auto simp: tbl_insert_def tbl_get_None split: if_splits)
  then show ?thesis by (auto simp: tbl_get_append tbl_get_single split: option.splits)
qed

lemma insert_distinct:
  "tbl_insert key tbl row = Some tbl' \<Longrightarrow> distinct (map key tbl) \<Longrightarrow> distinct (map key tbl')"
  by (auto simp: tbl_insert_def split: if_splits)

text \<open>A guarded update changes at most the row with the key, and only from an expected status.\<close>

lemma update_cases:
  assumes "tbl_update key status merge tbl k expected nxt = (out, tbl')" and "key nxt = k"
  obtains r where "out = Some (merge r nxt)" "tbl_get key tbl k = Some r" "status r \<in> set expected"
      "\<And>j. tbl_get key tbl' j = (if j = k then Some (merge r nxt) else tbl_get key tbl j)" "map key tbl' = map key tbl"
  | "out = None" "tbl' = tbl" "\<And>r. tbl_get key tbl k = Some r \<Longrightarrow> status r \<notin> set expected"
proof (cases "tbl_get key tbl k")
  case None
  with assms(1) that(2) show thesis by (simp add: tbl_update_def)
next
  case (Some r)
  show thesis
  proof (cases "status r \<in> set expected")
    case False
    with assms(1) Some that(2) show thesis by (simp add: tbl_update_def)
  next
    case True
    let ?f = "\<lambda>x. if key x = k then merge x nxt else x"
    have u: "out = Some (merge r nxt)" "tbl' = map ?f tbl" using assms(1) Some True by (auto simp: tbl_update_def)
    have kf: "key (?f x) = key x" for x using assms(2) by (auto simp: merge_key)
    have g: "tbl_get key tbl' j = (if j = k then Some (merge r nxt) else tbl_get key tbl j)" for j
    proof -
      have "tbl_get key tbl' j = map_option ?f (tbl_get key tbl j)" unfolding u(2) by (rule tbl_get_map) (rule kf)
      also have "\<dots> = (if j = k then Some (merge r nxt) else tbl_get key tbl j)"
        using Some tbl_get_Some [of key tbl k r] by (cases "tbl_get key tbl j") (auto dest: tbl_get_Some)
      finally show ?thesis .
    qed
    have ks: "map key tbl' = map key tbl" unfolding u(2) by (simp only: map_map o_def kf)
    show thesis by (rule that(1) [OF u(1) Some True g ks])
  qed
qed

lemma update_distinct:
  assumes "tbl_update key status merge tbl k expected nxt = (out, tbl')" and "key nxt = k" and "distinct (map key tbl)"
  shows "distinct (map key tbl')"
  using assms(1,2) by (rule update_cases) (use assms(3) in simp_all)

end

end
