(* ===== verification/Outbox_Repository.thy ===== *)
theory Outbox_Repository
  imports Outbox_State Guarded_Table
begin

text \<open>
  The durable outbox repository (\<open>outbox/repository.py\<close>) over a table of records.

  An operation takes the table \<open>snap\<close> its first SELECT saw and the table \<open>tbl\<close> its write
  meets: under READ COMMITTED another worker may have committed in between, and in a sequential run
  the two are equal. It returns its result and the table after the transaction; an exception rolls
  back. \<open>fault\<close> is an \<open>SQLAlchemyError\<close> of the transaction with its text; \<open>tx_aborts\<close>
  says whether the database refuses further statements of a transaction after an
  \<open>IntegrityError\<close> (PostgreSQL does). The DDL helper is left out.

  \<open>outbox_run\<close> is the relation of the histories (newest table first) any number of workers can
  produce by interleaving these operations.
\<close>

section \<open>Rows and transactions\<close>

definition write_columns :: "outbox_record \<Rightarrow> outbox_record \<Rightarrow> outbox_record" where
  "write_columns row nxt = row\<lparr>or_status := or_status nxt, or_updated_at := or_updated_at nxt,
     or_delivery_attempts := or_delivery_attempts nxt, or_next_attempt_at := or_next_attempt_at nxt,
     or_last_error_code := or_last_error_code nxt, or_last_error_message := or_last_error_message nxt\<rparr>"

interpretation outbox_tbl: guarded_table or_case_id or_status write_columns
  by unfold_locales (simp_all add: write_columns_def)

definition row_to_record :: "outbox_record \<Rightarrow> outbox_record result" where
  "row_to_record row = validate_outbox_record row"

definition wrap_repo_exc :: "py_exc \<Rightarrow> py_exc" where
  "wrap_repo_exc e = (if exc_type e \<in> {CriticalDependencyError, InvariantViolation} then e
     else Exc CriticalDependencyError (''outbox repository operation failed: '' @ exc_str e))"

definition run_tx ::
  "string option \<Rightarrow> outbox_record list \<Rightarrow> ('a result \<times> outbox_record list) \<Rightarrow> 'a result \<times> outbox_record list" where
  "run_tx fault tbl body = (case fault of
       Some msg \<Rightarrow> (Inl (wrap_repo_exc (Exc OtherException msg)), tbl)
     | None \<Rightarrow> (case body of
         (Inr x, tbl') \<Rightarrow> (Inr x, tbl')
       | (Inl e, _) \<Rightarrow> (Inl (wrap_repo_exc e), tbl)))"

definition get_row :: "outbox_record list \<Rightarrow> string \<Rightarrow> outbox_record option result" where
  "get_row tbl case_id = (case tbl_get or_case_id tbl case_id of
       None \<Rightarrow> Inr None
     | Some row \<Rightarrow> rbind (row_to_record row) (\<lambda>r. Inr (Some r)))"

definition require_row :: "outbox_record list \<Rightarrow> string \<Rightarrow> outbox_record result" where
  "require_row tbl case_id = rbind (get_row tbl case_id) (\<lambda>r. case r of
       None \<Rightarrow> raise InvariantViolation (''outbox record not found for case_id='' @ case_id)
     | Some rec \<Rightarrow> Inr rec)"

definition assert_casefile_payload_match :: "outbox_record \<Rightarrow> ready_casefile \<Rightarrow> unit result" where
  "assert_casefile_payload_match existing c =
     (if or_casefile_object_path existing \<noteq> rc_object_path c
      then raise InvariantViolation ''existing outbox case_id has different casefile_object_path''
      else if or_triage_hash existing \<noteq> rc_triage_hash c
      then raise InvariantViolation ''existing outbox case_id has different triage_hash''
      else Inr ())"

definition write_transition ::
  "outbox_record list \<Rightarrow> string \<Rightarrow> outbox_record \<Rightarrow> outbox_state list \<Rightarrow> outbox_record result \<times> outbox_record list" where
  "write_transition tbl case_id nxt expected =
     (case tbl_update or_case_id or_status write_columns tbl case_id expected nxt of
        (Some row, tbl') \<Rightarrow> (row_to_record row, tbl')
      | (None, _) \<Rightarrow>
          (rbind (require_row tbl case_id) (\<lambda>latest.
             if or_status latest = or_status nxt then Inr latest
             else raise InvariantViolation ''outbox transition source-state guard failed''), tbl))"

section \<open>Operations\<close>

definition insert_pending_object ::
  "bool \<Rightarrow> instant \<Rightarrow> string option \<Rightarrow> ready_casefile \<Rightarrow> py_datetime option \<Rightarrow> outbox_record list \<Rightarrow> outbox_record list \<Rightarrow>
   outbox_record result \<times> outbox_record list" where
  "insert_pending_object tx_aborts clock fault c now snap tbl = (case resolve_now clock now of
       Inl e \<Rightarrow> (Inl e, tbl)
     | Inr t \<Rightarrow> run_tx fault tbl
         (case get_row snap (rc_case_id c) of
            Inl e \<Rightarrow> (Inl e, tbl)
          | Inr (Some existing) \<Rightarrow> (rbind (assert_casefile_payload_match existing c) (\<lambda>_. Inr existing), tbl)
          | Inr None \<Rightarrow>
              (case tbl_insert or_case_id tbl (new_outbox_record PENDING_OBJECT c t) of
                 Some tbl' \<Rightarrow> (row_to_record (new_outbox_record PENDING_OBJECT c t), tbl')
               | None \<Rightarrow>
                   if tx_aborts then (raise OtherException ''current transaction is aborted'', tbl)
                   else (rbind (require_row tbl (rc_case_id c)) (\<lambda>raced.
                           rbind (assert_casefile_payload_match raced c) (\<lambda>_. Inr raced)), tbl))))"

definition transition_to_ready ::
  "instant \<Rightarrow> string option \<Rightarrow> string \<Rightarrow> py_datetime option \<Rightarrow> outbox_record list \<Rightarrow> outbox_record list \<Rightarrow>
   outbox_record result \<times> outbox_record list" where
  "transition_to_ready clock fault case_id now snap tbl = (case resolve_now clock now of
       Inl e \<Rightarrow> (Inl e, tbl)
     | Inr t \<Rightarrow> run_tx fault tbl
         (case require_row snap case_id of
            Inl e \<Rightarrow> (Inl e, tbl)
          | Inr current \<Rightarrow>
              if or_status current = READY then (Inr current, tbl)
              else case mark_outbox_record_ready clock current (Some (Aware t)) of
                Inl e \<Rightarrow> (Inl e, tbl)
              | Inr nxt \<Rightarrow> write_transition tbl case_id nxt [PENDING_OBJECT]))"

definition transition_to_sent ::
  "instant \<Rightarrow> string option \<Rightarrow> string \<Rightarrow> py_datetime option \<Rightarrow> outbox_record list \<Rightarrow> outbox_record list \<Rightarrow>
   outbox_record result \<times> outbox_record list" where
  "transition_to_sent clock fault case_id now snap tbl = (case resolve_now clock now of
       Inl e \<Rightarrow> (Inl e, tbl)
     | Inr t \<Rightarrow> run_tx fault tbl
         (case require_row snap case_id of
            Inl e \<Rightarrow> (Inl e, tbl)
          | Inr current \<Rightarrow>
              if or_status current = SENT then (Inr current, tbl)
              else case mark_outbox_record_sent clock current (Some (Aware t)) of
                Inl e \<Rightarrow> (Inl e, tbl)
              | Inr nxt \<Rightarrow> write_transition tbl case_id nxt [or_status current]))"

definition transition_publish_failure ::
  "(string \<Rightarrow> nat list) \<Rightarrow> instant \<Rightarrow> string option \<Rightarrow> string \<Rightarrow> outbox_policy \<Rightarrow> string \<Rightarrow> string \<Rightarrow> string option \<Rightarrow>
   py_datetime option \<Rightarrow> outbox_record list \<Rightarrow> outbox_record list \<Rightarrow> outbox_record result \<times> outbox_record list" where
  "transition_publish_failure sha256 clock fault case_id policy app_env error_message error_code now snap tbl =
     (case resolve_now clock now of
       Inl e \<Rightarrow> (Inl e, tbl)
     | Inr t \<Rightarrow> run_tx fault tbl
         (case require_row snap case_id of
            Inl e \<Rightarrow> (Inl e, tbl)
          | Inr current \<Rightarrow>
              if or_status current = DEAD then (Inr current, tbl)
              else case mark_outbox_record_publish_failure sha256 clock current policy app_env error_message error_code
                     (Some (Aware t)) of
                Inl e \<Rightarrow> (Inl e, tbl)
              | Inr nxt \<Rightarrow> write_transition tbl case_id nxt [or_status current]))"

section \<open>Queries\<close>

definition read_tx :: "string option \<Rightarrow> 'a result \<Rightarrow> 'a result" where
  "read_tx fault body = (case fault of
       Some msg \<Rightarrow> Inl (wrap_repo_exc (Exc OtherException msg))
     | None \<Rightarrow> (case body of Inr x \<Rightarrow> Inr x | Inl e \<Rightarrow> Inl (wrap_repo_exc e)))"

definition get_by_case_id :: "string option \<Rightarrow> string \<Rightarrow> outbox_record list \<Rightarrow> outbox_record option result" where
  "get_by_case_id fault case_id tbl = read_tx fault (get_row tbl case_id)"

definition is_publishable :: "instant \<Rightarrow> outbox_record \<Rightarrow> bool" where
  "is_publishable now r = (or_status r = READY \<or>
     or_status r = RETRY \<and> (case or_next_attempt_at r of None \<Rightarrow> True | Some t \<Rightarrow> t \<le> now))"

text \<open>Rows with equal \<open>updated_at\<close> come in table order, one of the orders SQL allows.\<close>

definition select_publishable ::
  "instant \<Rightarrow> string option \<Rightarrow> py_datetime option \<Rightarrow> nat \<Rightarrow> outbox_record list \<Rightarrow> outbox_record list result" where
  "select_publishable clock fault now limit tbl = rbind (resolve_now clock now) (\<lambda>t.
     read_tx fault (rmap_list row_to_record (take limit (sort_key or_updated_at (filter (is_publishable t) tbl)))))"

definition select_expired_for_cleanup ::
  "instant \<Rightarrow> string option \<Rightarrow> outbox_policy \<Rightarrow> string \<Rightarrow> py_datetime option \<Rightarrow> nat \<Rightarrow> outbox_record list \<Rightarrow>
   outbox_record list result" where
  "select_expired_for_cleanup clock fault policy app_env now limit tbl = rbind (resolve_now clock now) (\<lambda>t.
     rbind (retention_cutoff_for_state clock policy app_env SENT (Some (Aware t))) (\<lambda>sent_cutoff.
     rbind (retention_cutoff_for_state clock policy app_env DEAD (Some (Aware t))) (\<lambda>dead_cutoff.
     read_tx fault (rmap_list row_to_record (take limit (sort_key or_updated_at (filter (\<lambda>r.
       or_status r = SENT \<and> (case sent_cutoff of Some c \<Rightarrow> or_updated_at r \<le> c | None \<Rightarrow> False) \<or>
       or_status r = DEAD \<and> (case dead_cutoff of Some c \<Rightarrow> or_updated_at r \<le> c | None \<Rightarrow> False)) tbl)))))))"

record outbox_health_snapshot =
  hs_pending_object_count :: int
  hs_ready_count :: int
  hs_retry_count :: int
  hs_dead_count :: int
  hs_sent_count :: int
  hs_oldest_pending_object_age_seconds :: pyfloat
  hs_oldest_ready_age_seconds :: pyfloat
  hs_oldest_retry_age_seconds :: pyfloat
  hs_oldest_dead_age_seconds :: pyfloat

definition total_seconds :: "int \<Rightarrow> pyfloat" where
  "total_seconds micros = fl_round (of_int micros / 1000000)"

text \<open>One row of the loop: the counter of its status, and the larger age (\<open>max\<close> keeps its first argument on ties).\<close>

definition count_and_age ::
  "instant \<Rightarrow> outbox_record \<Rightarrow> (outbox_state \<Rightarrow> int) \<times> (outbox_state \<Rightarrow> pyfloat) \<Rightarrow>
   (outbox_state \<Rightarrow> int) \<times> (outbox_state \<Rightarrow> pyfloat)" where
  "count_and_age now row acc = (case acc of (counts, ages) \<Rightarrow>
     let s = or_status row;
         age = py_max (total_seconds (now - or_updated_at row)) [Fin 0]
     in (counts(s := counts s + 1), if s = SENT then ages else ages(s := py_max (ages s) [age])))"

definition select_backlog_health ::
  "instant \<Rightarrow> string option \<Rightarrow> py_datetime option \<Rightarrow> outbox_record list \<Rightarrow> outbox_health_snapshot result" where
  "select_backlog_health clock fault now tbl = rbind (resolve_now clock now) (\<lambda>t.
     read_tx fault
       (let (counts, ages) = fold (count_and_age t) tbl (\<lambda>_. 0, \<lambda>_. Fin 0)
        in Inr \<lparr>hs_pending_object_count = counts PENDING_OBJECT, hs_ready_count = counts READY,
             hs_retry_count = counts RETRY, hs_dead_count = counts DEAD, hs_sent_count = counts SENT,
             hs_oldest_pending_object_age_seconds = ages PENDING_OBJECT, hs_oldest_ready_age_seconds = ages READY,
             hs_oldest_retry_age_seconds = ages RETRY, hs_oldest_dead_age_seconds = ages DEAD\<rparr>))"

section \<open>Interleaved workers\<close>

inductive outbox_run :: "(string \<Rightarrow> nat list) \<Rightarrow> outbox_policy \<Rightarrow> string \<Rightarrow> outbox_record list list \<Rightarrow> bool"
  for sha256 policy app_env where
  run_init: "outbox_run sha256 policy app_env [[]]"
| run_insert: "outbox_run sha256 policy app_env (tbl # h) \<Longrightarrow> snap \<in> set (tbl # h) \<Longrightarrow>
    insert_pending_object ab clock fault c now snap tbl = (res, tbl') \<Longrightarrow> outbox_run sha256 policy app_env (tbl' # tbl # h)"
| run_ready: "outbox_run sha256 policy app_env (tbl # h) \<Longrightarrow> snap \<in> set (tbl # h) \<Longrightarrow>
    transition_to_ready clock fault cid now snap tbl = (res, tbl') \<Longrightarrow> outbox_run sha256 policy app_env (tbl' # tbl # h)"
| run_sent: "outbox_run sha256 policy app_env (tbl # h) \<Longrightarrow> snap \<in> set (tbl # h) \<Longrightarrow>
    transition_to_sent clock fault cid now snap tbl = (res, tbl') \<Longrightarrow> outbox_run sha256 policy app_env (tbl' # tbl # h)"
| run_failure: "outbox_run sha256 policy app_env (tbl # h) \<Longrightarrow> snap \<in> set (tbl # h) \<Longrightarrow>
    transition_publish_failure sha256 clock fault cid policy app_env msg code now snap tbl = (res, tbl') \<Longrightarrow>
    outbox_run sha256 policy app_env (tbl' # tbl # h)"

text \<open>What survives between two tables of a history: no row is lost, its identity stays, a finished row stays as it is.\<close>

definition same_case :: "outbox_record \<Rightarrow> outbox_record \<Rightarrow> bool" where
  "same_case r r' = (or_case_id r' = or_case_id r \<and> or_casefile_object_path r' = or_casefile_object_path r \<and>
     or_triage_hash r' = or_triage_hash r \<and> or_created_at r' = or_created_at r)"

fun state_stage :: "outbox_state \<Rightarrow> nat" where
  "state_stage PENDING_OBJECT = 0"
| "state_stage READY = 1"
| "state_stage RETRY = 2"
| "state_stage SENT = 3"
| "state_stage DEAD = 3"

definition row_evolves :: "outbox_record \<Rightarrow> outbox_record \<Rightarrow> bool" where
  "row_evolves r r' = (same_case r r' \<and> state_stage (or_status r) \<le> state_stage (or_status r') \<and>
     (or_status r \<in> {SENT, DEAD} \<longrightarrow> r' = r))"

definition table_evolves :: "outbox_record list \<Rightarrow> outbox_record list \<Rightarrow> bool" where
  "table_evolves old new = (\<forall>k r. tbl_get or_case_id old k = Some r \<longrightarrow>
     (\<exists>r'. tbl_get or_case_id new k = Some r' \<and> row_evolves r r'))"

text \<open>How one operation may change a table, given what it read.\<close>

definition guarded_change ::
  "(string \<Rightarrow> nat list) \<Rightarrow> outbox_policy \<Rightarrow> string \<Rightarrow> outbox_record list \<Rightarrow> outbox_record list \<Rightarrow> outbox_record list \<Rightarrow> bool" where
  "guarded_change sha256 policy app_env snap tbl tbl' = (\<exists>cid cur nxt r.
     tbl_get or_case_id snap cid = Some cur \<and> outbox_step sha256 policy app_env cur nxt \<and>
     tbl_get or_case_id tbl cid = Some r \<and> or_status r = or_status cur \<and> map or_case_id tbl' = map or_case_id tbl \<and>
     (\<forall>j. tbl_get or_case_id tbl' j = (if j = cid then Some (write_columns r nxt) else tbl_get or_case_id tbl j)))"

definition run_invar :: "(string \<Rightarrow> nat list) \<Rightarrow> outbox_policy \<Rightarrow> string \<Rightarrow> outbox_record list list \<Rightarrow> bool" where
  "run_invar sha256 policy app_env h =
     (\<forall>tbl \<in> set h. table_evolves tbl (hd h) \<and> distinct (map or_case_id tbl) \<and>
        (\<forall>k r. tbl_get or_case_id tbl k = Some r \<longrightarrow> outbox_reachable sha256 policy app_env r))"

definition pending_table :: "outbox_record list" where
  "pending_table = [new_outbox_record PENDING_OBJECT sample_casefile 0]"

section \<open>Lemmas\<close>

lemma write_columns_same_case: "same_case r nxt \<Longrightarrow> write_columns r nxt = nxt"
  by (simp add: write_columns_def same_case_def)

lemma row_evolves_refl [simp]: "row_evolves r r"
  by (simp add: row_evolves_def same_case_def)

lemma row_evolves_trans: "row_evolves a b \<Longrightarrow> row_evolves b c \<Longrightarrow> row_evolves a c"
  by (auto simp: row_evolves_def same_case_def)

lemma table_evolves_refl [simp]: "table_evolves t t"
  by (auto simp: table_evolves_def)

lemma table_evolvesD:
  "table_evolves old new \<Longrightarrow> tbl_get or_case_id old k = Some r \<Longrightarrow> \<exists>r'. tbl_get or_case_id new k = Some r' \<and> row_evolves r r'"
  by (simp add: table_evolves_def)

lemma table_evolves_trans: "table_evolves a b \<Longrightarrow> table_evolves b c \<Longrightarrow> table_evolves a c"
  unfolding table_evolves_def by (meson row_evolves_trans)

lemma run_tx_table:
  "run_tx fault tbl body = (res, tbl') \<Longrightarrow> tbl' = tbl \<or> (\<exists>x. body = (Inr x, tbl') \<and> res = Inr x \<and> fault = None)"
  by (auto simp: run_tx_def split: option.splits prod.splits sum.splits)

lemma require_row_ok:
  "require_row tbl cid = Inr r \<longleftrightarrow> tbl_get or_case_id tbl cid = Some r \<and> is_ok (validate_outbox_record r)"
  by (auto simp: require_row_def get_row_def row_to_record_def is_ok_iff rbind_Inr_iff validate_outbox_record_def
      split: option.splits if_splits)

lemma write_transition_change:
  assumes "write_transition tbl cid nxt [or_status cur] = (Inr x, tbl')"
    and cur: "tbl_get or_case_id snap cid = Some cur" and step: "outbox_step sha256 policy app_env cur nxt"
    and id: "or_case_id nxt = or_case_id cur"
  shows "tbl' = tbl \<or> guarded_change sha256 policy app_env snap tbl tbl'"
proof -
  obtain out tbl1 where u: "tbl_update or_case_id or_status write_columns tbl cid [or_status cur] nxt = (out, tbl1)"
    by fastforce
  have cid: "or_case_id nxt = cid" using tbl_get_Some [OF cur] id by simp
  from u cid show ?thesis
  proof (rule outbox_tbl.update_cases)
    fix r
    assume r: "out = Some (write_columns r nxt)" "tbl_get or_case_id tbl cid = Some r" "or_status r \<in> set [or_status cur]"
      "\<And>j. tbl_get or_case_id tbl1 j = (if j = cid then Some (write_columns r nxt) else tbl_get or_case_id tbl j)"
      "map or_case_id tbl1 = map or_case_id tbl"
    from assms(1) u r(1) have "tbl' = tbl1" by (simp add: write_transition_def)
    with r cur step show ?thesis unfolding guarded_change_def by fastforce
  next
    assume "out = None" "tbl1 = tbl"
    with assms(1) u show ?thesis by (simp add: write_transition_def)
  qed
qed

lemma ready_change:
  assumes "transition_to_ready clock fault cid now snap tbl = (res, tbl')"
    and m: "resolve_max_retry_attempts policy app_env = Inr m"
  shows "tbl' = tbl \<or> guarded_change sha256 policy app_env snap tbl tbl'"
proof (cases "tbl' = tbl")
  case False
  with assms(1) obtain cur nxt t x where c: "require_row snap cid = Inr cur"
    "mark_outbox_record_ready clock cur (Some (Aware t)) = Inr nxt" "write_transition tbl cid nxt [PENDING_OBJECT] = (Inr x, tbl')"
    by (fastforce simp: transition_to_ready_def split: sum.splits if_splits dest!: run_tx_table)
  have step: "outbox_step sha256 policy app_env cur nxt" using c(2) by (rule outbox_step.step_ready)
  have "or_status cur = PENDING_OBJECT" using c(2) by (rule mark_ready_ok)
  then have w: "write_transition tbl cid nxt [or_status cur] = (Inr x, tbl')" using c(3) by simp
  show ?thesis
    by (rule write_transition_change [OF w _ step]) (use c(1) step_frame(1) [OF step m] in \<open>auto simp: require_row_ok\<close>)
qed simp

lemma sent_change:
  assumes "transition_to_sent clock fault cid now snap tbl = (res, tbl')"
    and m: "resolve_max_retry_attempts policy app_env = Inr m"
  shows "tbl' = tbl \<or> guarded_change sha256 policy app_env snap tbl tbl'"
proof (cases "tbl' = tbl")
  case False
  with assms(1) obtain cur nxt t x where c: "require_row snap cid = Inr cur"
    "mark_outbox_record_sent clock cur (Some (Aware t)) = Inr nxt" "write_transition tbl cid nxt [or_status cur] = (Inr x, tbl')"
    by (fastforce simp: transition_to_sent_def split: sum.splits if_splits dest!: run_tx_table)
  have step: "outbox_step sha256 policy app_env cur nxt" using c(2) by (rule outbox_step.step_sent)
  show ?thesis
    by (rule write_transition_change [OF c(3) _ step]) (use c(1) step_frame(1) [OF step m] in \<open>auto simp: require_row_ok\<close>)
qed simp

lemma failure_change:
  assumes "transition_publish_failure sha256 clock fault cid policy app_env msg code now snap tbl = (res, tbl')"
    and m: "resolve_max_retry_attempts policy app_env = Inr m"
  shows "tbl' = tbl \<or> guarded_change sha256 policy app_env snap tbl tbl'"
proof (cases "tbl' = tbl")
  case False
  with assms(1) obtain cur nxt t x where c: "require_row snap cid = Inr cur"
    "mark_outbox_record_publish_failure sha256 clock cur policy app_env msg code (Some (Aware t)) = Inr nxt"
    "write_transition tbl cid nxt [or_status cur] = (Inr x, tbl')"
    by (fastforce simp: transition_publish_failure_def split: sum.splits if_splits dest!: run_tx_table)
  have step: "outbox_step sha256 policy app_env cur nxt" using c(2) by (rule outbox_step.step_failure)
  show ?thesis
    by (rule write_transition_change [OF c(3) _ step]) (use c(1) step_frame(1) [OF step m] in \<open>auto simp: require_row_ok\<close>)
qed simp

lemma insert_change:
  assumes "insert_pending_object ab clock fault c now snap tbl = (res, tbl')" and "tbl' \<noteq> tbl"
  obtains row where "tbl_insert or_case_id tbl row = Some tbl'" "create_pending_outbox_record clock c now = Inr row"
proof -
  from assms obtain t where t: "resolve_now clock now = Inr t"
    and i: "tbl_insert or_case_id tbl (new_outbox_record PENDING_OBJECT c t) = Some tbl'"
    and v: "is_ok (row_to_record (new_outbox_record PENDING_OBJECT c t))"
    by (fastforce simp: insert_pending_object_def split: sum.splits option.splits if_splits dest!: run_tx_table)
  have "create_pending_outbox_record clock c now = Inr (new_outbox_record PENDING_OBJECT c t)"
    using t v by (auto simp: create_pending_outbox_record_def row_to_record_def validate_outbox_record_def split: if_splits)
  with i that show ?thesis by blast
qed

text \<open>A guarded change based on any earlier table moves one row along the diagram.\<close>

lemma guarded_change_invar:
  assumes ch: "guarded_change sha256 policy app_env snap tbl tbl'" and m: "resolve_max_retry_attempts policy app_env = Inr m"
    and inv: "run_invar sha256 policy app_env (tbl # h)" and snap: "snap \<in> set (tbl # h)"
  shows "table_evolves tbl tbl'" and "distinct (map or_case_id tbl')"
    and "tbl_get or_case_id tbl' k = Some q \<Longrightarrow> outbox_reachable sha256 policy app_env q"
proof -
  from ch obtain cid cur nxt r where cur: "tbl_get or_case_id snap cid = Some cur"
    and step: "outbox_step sha256 policy app_env cur nxt"
    and r: "tbl_get or_case_id tbl cid = Some r" "or_status r = or_status cur" and ids: "map or_case_id tbl' = map or_case_id tbl"
    and get: "\<And>j. tbl_get or_case_id tbl' j = (if j = cid then Some (write_columns r nxt) else tbl_get or_case_id tbl j)"
    unfolding guarded_change_def by blast
  from inv snap have ev: "table_evolves snap tbl" and reach: "\<And>k q. tbl_get or_case_id snap k = Some q \<Longrightarrow> outbox_reachable sha256 policy app_env q"
    and reach': "\<And>k q. tbl_get or_case_id tbl k = Some q \<Longrightarrow> outbox_reachable sha256 policy app_env q"
    and dist: "distinct (map or_case_id tbl)"
    by (auto simp: run_invar_def)
  have "same_case cur r" using table_evolvesD [OF ev cur] r(1) by (simp add: row_evolves_def)
  moreover have "same_case cur nxt" using step_frame(1) [OF step m] by (simp add: same_case_def)
  ultimately have sc: "same_case r nxt" by (simp add: same_case_def)
  then have w: "write_columns r nxt = nxt" by (rule write_columns_same_case)
  have "row_evolves r nxt" using sc step_frame(2) [OF step m] r(2) by (auto simp: row_evolves_def)
  then show "table_evolves tbl tbl'" using r(1) get w by (auto simp: table_evolves_def)
  show "distinct (map or_case_id tbl')" using ids dist by simp
  have "outbox_reachable sha256 policy app_env nxt" using reach [OF cur] step by (rule outbox_reachable.reach_step)
  then show "tbl_get or_case_id tbl' k = Some q \<Longrightarrow> outbox_reachable sha256 policy app_env q"
    using get [of k] w reach' by (auto split: if_splits)
qed

lemma insert_invar:
  assumes "tbl_insert or_case_id tbl row = Some tbl'" "create_pending_outbox_record clock c now = Inr row"
    and inv: "run_invar sha256 policy app_env (tbl # h)"
  shows "table_evolves tbl tbl'" and "distinct (map or_case_id tbl')"
    and "tbl_get or_case_id tbl' k = Some q \<Longrightarrow> outbox_reachable sha256 policy app_env q"
proof -
  note get = outbox_tbl.get_insert [OF assms(1)]
  have "tbl_get or_case_id tbl (or_case_id row) = None"
    using assms(1) by (auto simp: tbl_insert_def tbl_get_None split: if_splits)
  then show "table_evolves tbl tbl'" using get by (auto simp: table_evolves_def)
  show "distinct (map or_case_id tbl')"
    using outbox_tbl.insert_distinct [OF assms(1)] inv by (simp add: run_invar_def)
  show "tbl_get or_case_id tbl' k = Some q \<Longrightarrow> outbox_reachable sha256 policy app_env q"
    using get [of k] inv outbox_reachable.reach_pending [OF assms(2)] by (auto simp: run_invar_def split: if_splits)
qed

lemma run_invar_Cons:
  assumes "run_invar sha256 policy app_env (tbl # h)"
    and "table_evolves tbl tbl'" "distinct (map or_case_id tbl')"
    and "\<And>k q. tbl_get or_case_id tbl' k = Some q \<Longrightarrow> outbox_reachable sha256 policy app_env q"
  shows "run_invar sha256 policy app_env (tbl' # tbl # h)"
  using assms by (auto simp: run_invar_def intro: table_evolves_trans)

lemma run_invar_same: "run_invar sha256 policy app_env (tbl # h) \<Longrightarrow> run_invar sha256 policy app_env (tbl # tbl # h)"
  by (rule run_invar_Cons) (auto simp: run_invar_def)

lemma outbox_run_invar:
  assumes "outbox_run sha256 policy app_env h" and m: "resolve_max_retry_attempts policy app_env = Inr m"
  shows "run_invar sha256 policy app_env h"
  using assms(1)
proof induction
  case run_init
  then show ?case by (simp add: run_invar_def tbl_get_def)
next
  case (run_insert tbl h snap ab clock fault c now res tbl')
  show ?case
  proof (cases "tbl' = tbl")
    case True
    with run_insert.IH show ?thesis by (simp add: run_invar_same)
  next
    case False
    with run_insert.hyps(3) obtain row where "tbl_insert or_case_id tbl row = Some tbl'"
      "create_pending_outbox_record clock c now = Inr row" by (rule insert_change)
    from insert_invar [OF this run_insert.IH] run_insert.IH show ?thesis by (intro run_invar_Cons) auto
  qed
next
  case (run_ready tbl h snap clock fault cid now res tbl')
  from ready_change [OF run_ready.hyps(3) m, of sha256] show ?case
    using run_ready.IH run_ready.hyps(2) guarded_change_invar [OF _ m run_ready.IH run_ready.hyps(2)]
    by (auto intro: run_invar_same run_invar_Cons)
next
  case (run_sent tbl h snap clock fault cid now res tbl')
  from sent_change [OF run_sent.hyps(3) m, of sha256] show ?case
    using run_sent.IH run_sent.hyps(2) guarded_change_invar [OF _ m run_sent.IH run_sent.hyps(2)]
    by (auto intro: run_invar_same run_invar_Cons)
next
  case (run_failure tbl h snap clock fault cid msg code now res tbl')
  from failure_change [OF run_failure.hyps(3) m] show ?case
    using run_failure.IH run_failure.hyps(2) guarded_change_invar [OF _ m run_failure.IH run_failure.hyps(2)]
    by (auto intro: run_invar_same run_invar_Cons)
qed

lemma count_fold:
  "fst (fold (count_and_age now) rows acc) s = fst acc s + int (length (filter (\<lambda>r. or_status r = s) rows))"
  by (induction rows arbitrary: acc) (auto simp: count_and_age_def Let_def split: prod.splits)

lemma length_by_status:
  "length rows = (\<Sum>s \<in> {PENDING_OBJECT, READY, SENT, RETRY, DEAD}. length (filter (\<lambda>r. or_status r = s) rows))"
proof (induction rows)
  case (Cons r rows)
  then show ?case by (cases "or_status r") simp_all
qed simp

section \<open>Properties\<close>

text \<open>C7: whatever the interleaving of workers, the staleness of what they read, and the database errors they meet,
  every table of a history keeps one row per case, every row is a record the state machine can reach, and between
  an earlier table and the current one no row is lost, no row changes its case, path, hash or creation time, no row
  moves back in the life cycle, and a SENT or DEAD row never changes again.\<close>

theorem outbox_interleaving_safe:
  assumes "outbox_run sha256 policy app_env (tbl # h)" and "resolve_max_retry_attempts policy app_env = Inr m"
    and "old \<in> set (tbl # h)" and "tbl_get or_case_id old k = Some r"
  shows "distinct (map or_case_id tbl) \<and>
    (\<exists>r'. tbl_get or_case_id tbl k = Some r' \<and> outbox_reachable sha256 policy app_env r' \<and> same_case r r' \<and>
       state_stage (or_status r) \<le> state_stage (or_status r') \<and> (or_status r \<in> {SENT, DEAD} \<longrightarrow> r' = r))"
proof -
  from outbox_run_invar [OF assms(1,2)] assms(3) have "table_evolves old tbl" "distinct (map or_case_id tbl)"
    "\<And>k q. tbl_get or_case_id tbl k = Some q \<Longrightarrow> outbox_reachable sha256 policy app_env q"
    by (auto simp: run_invar_def)
  with table_evolvesD [OF _ assms(4)] show ?thesis unfolding row_evolves_def by blast
qed

lemma sample_run: "outbox_run (\<lambda>_. []) sample_outbox_policy ''prod'' [pending_table, []]"
proof -
  have "insert_pending_object True 0 None sample_casefile None [] [] =
      (Inr (new_outbox_record PENDING_OBJECT sample_casefile 0), pending_table)"
    using sample_pending by (simp add: insert_pending_object_def create_pending_outbox_record_def resolve_now_def
        run_tx_def get_row_def tbl_get_def tbl_insert_def row_to_record_def pending_table_def)
  from outbox_run.run_insert [OF outbox_run.run_init _ this] show ?thesis by simp
qed

lemma outbox_interleaving_safe_witness:
  "outbox_reachable (\<lambda>_. []) sample_outbox_policy ''prod'' (new_outbox_record PENDING_OBJECT sample_casefile 0)"
proof -
  have g: "tbl_get or_case_id pending_table ''c1'' = Some (new_outbox_record PENDING_OBJECT sample_casefile 0)"
    by (simp add: pending_table_def tbl_get_def new_outbox_record_def sample_casefile_def)
  from outbox_interleaving_safe [OF sample_run sample_policy_retries _ g] g show ?thesis by auto
qed

text \<open>the repository's transitions are idempotent where they claim to be: repeating a completed
  \<open>transition_to_sent\<close> returns the stored row and changes nothing, whatever the clock.\<close>

theorem transition_to_sent_idempotent:
  assumes "transition_to_sent clock None cid now tbl tbl = (Inr r, tbl')"
  shows "transition_to_sent clock' None cid None tbl' tbl' = (Inr r, tbl')"
proof -
  have keep: "transition_to_sent clock' None cid None t t = (Inr r, t)"
    if "require_row t cid = Inr r" "or_status r = SENT" for t
    using that by (simp add: transition_to_sent_def resolve_now_def run_tx_def)
  from assms obtain t cur where t: "resolve_now clock now = Inr t" and cur: "require_row tbl cid = Inr cur"
    by (auto simp: transition_to_sent_def run_tx_def split: sum.splits)
  show ?thesis
  proof (cases "or_status cur = SENT")
    case True
    with assms t cur have "r = cur" "tbl' = tbl" by (auto simp: transition_to_sent_def run_tx_def)
    with True cur show ?thesis by (intro keep) simp_all
  next
    case False
    with assms t cur obtain nxt where nxt: "mark_outbox_record_sent clock cur (Some (Aware t)) = Inr nxt"
      and w: "write_transition tbl cid nxt [or_status cur] = (Inr r, tbl')"
      by (auto simp: transition_to_sent_def run_tx_def split: sum.splits prod.splits)
    have sent: "or_status nxt = SENT" "or_case_id nxt = or_case_id cur" using nxt by (auto elim: mark_sent_ok)
    have get: "tbl_get or_case_id tbl cid = Some cur" using cur by (simp add: require_row_ok)
    then have id: "or_case_id nxt = cid" using sent(2) tbl_get_Some by fastforce
    obtain out tbl1 where u: "tbl_update or_case_id or_status write_columns tbl cid [or_status cur] nxt = (out, tbl1)"
      by fastforce
    from u id show ?thesis
    proof (rule outbox_tbl.update_cases)
      fix q
      assume q: "out = Some (write_columns q nxt)"
        and g: "\<And>j. tbl_get or_case_id tbl1 j = (if j = cid then Some (write_columns q nxt) else tbl_get or_case_id tbl j)"
      with w u have "row_to_record (write_columns q nxt) = Inr r" "tbl1 = tbl'" by (auto simp: write_transition_def)
      then have "r = write_columns q nxt" "is_ok (validate_outbox_record r)"
        by (auto simp: row_to_record_def validate_outbox_record_def split: if_splits)
      with g [of cid] \<open>tbl1 = tbl'\<close> sent(1) show ?thesis
        by (intro keep) (simp_all add: require_row_ok write_columns_def)
    qed (use get in auto)
  qed
qed

lemma transition_to_sent_idempotent_witness:
  "\<exists>r tbl'. transition_to_sent 3 None ''c1'' None [new_outbox_record READY sample_casefile 0]
       [new_outbox_record READY sample_casefile 0] = (Inr r, tbl') \<and>
     transition_to_sent 9 None ''c1'' None tbl' tbl' = (Inr r, tbl')"
proof -
  let ?t = "[new_outbox_record READY sample_casefile 0]"
  have ok: "validate_outbox_record (new_outbox_record READY sample_casefile 0\<lparr>or_status := s, or_updated_at := u,
      or_delivery_attempts := a, or_next_attempt_at := None, or_last_error_code := None, or_last_error_message := None\<rparr>) = Inr
      (new_outbox_record READY sample_casefile 0\<lparr>or_status := s, or_updated_at := u,
      or_delivery_attempts := a, or_next_attempt_at := None, or_last_error_code := None, or_last_error_message := None\<rparr>)"
    if "0 \<le> u" "0 \<le> a" for s u a
    using sample_pending that by (simp add: validate_outbox_record_def create_pending_outbox_record_def resolve_now_def
        new_outbox_record_def split: if_splits)
  have "validate_outbox_record (new_outbox_record READY sample_casefile 0) = Inr (new_outbox_record READY sample_casefile 0)"
    using ok [of 0 0 READY] by (simp add: new_outbox_record_def)
  then have "\<exists>r tbl'. transition_to_sent 3 None ''c1'' None ?t ?t = (Inr r, tbl')"
    using ok [of 3 1 SENT]
    by (simp add: transition_to_sent_def resolve_now_def run_tx_def require_row_def get_row_def tbl_get_def row_to_record_def
        mark_outbox_record_sent_def resolve_transition_now_def write_transition_def tbl_update_def write_columns_def)
      (simp add: new_outbox_record_def sample_casefile_def)
  then obtain r tbl' where r: "transition_to_sent 3 None ''c1'' None ?t ?t = (Inr r, tbl')" by blast
  from transition_to_sent_idempotent [OF r] r show ?thesis by blast
qed

text \<open>the backlog snapshot accounts for every row exactly once.\<close>

theorem backlog_counts_complete:
  assumes "select_backlog_health clock None now tbl = Inr snap"
  shows "hs_pending_object_count snap + hs_ready_count snap + hs_retry_count snap + hs_dead_count snap + hs_sent_count snap
    = int (length tbl)"
proof -
  from assms obtain t counts ages where f: "fold (count_and_age t) tbl (\<lambda>_. 0, \<lambda>_. Fin 0) = (counts, ages)"
    and "snap = \<lparr>hs_pending_object_count = counts PENDING_OBJECT, hs_ready_count = counts READY,
             hs_retry_count = counts RETRY, hs_dead_count = counts DEAD, hs_sent_count = counts SENT,
             hs_oldest_pending_object_age_seconds = ages PENDING_OBJECT, hs_oldest_ready_age_seconds = ages READY,
             hs_oldest_retry_age_seconds = ages RETRY, hs_oldest_dead_age_seconds = ages DEAD\<rparr>"
    by (auto simp: select_backlog_health_def read_tx_def Let_def split: prod.splits elim!: rbind_InrE)
  moreover have "counts s = int (length (filter (\<lambda>r. or_status r = s) tbl))" for s
    using count_fold [of t tbl "(\<lambda>_. 0, \<lambda>_. Fin 0)" s] f by simp
  ultimately show ?thesis using length_by_status [of tbl] by simp
qed

lemma backlog_counts_complete_witness:
  "\<exists>snap. select_backlog_health 5 None None pending_table = Inr snap \<and>
     hs_pending_object_count snap + hs_ready_count snap + hs_retry_count snap + hs_dead_count snap + hs_sent_count snap = 1"
proof -
  have "is_ok (select_backlog_health 5 None None pending_table)"
    by (simp add: select_backlog_health_def resolve_now_def read_tx_def Let_def split: prod.split)
  then obtain snap where s: "select_backlog_health 5 None None pending_table = Inr snap" unfolding is_ok_iff by blast
  from backlog_counts_complete [OF s] s show ?thesis by (auto simp: pending_table_def)
qed

text \<open>the publishable rows come oldest first: the query returns at most \<open>limit\<close> rows, all READY or due RETRY
  rows of the table in order of their last update, and a publishable row it leaves out is not older than any row it
  returns.\<close>

theorem publishable_oldest_first:
  assumes "select_publishable clock None now limit tbl = Inr rows" and "resolve_now clock now = Inr t"
  shows "length rows \<le> limit \<and> sorted (map or_updated_at rows) \<and>
    set rows \<subseteq> {r \<in> set tbl. is_publishable t r} \<and>
    (\<forall>r. r \<in> set tbl \<longrightarrow> is_publishable t r \<longrightarrow> r \<in> set rows \<or> (\<forall>q. q \<in> set rows \<longrightarrow> or_updated_at q \<le> or_updated_at r))"
proof -
  let ?all = "sort_key or_updated_at (filter (is_publishable t) tbl)"
  have "rmap_list row_to_record (take limit ?all) = Inr rows"
    using assms by (auto simp: select_publishable_def read_tx_def split: sum.splits)
  then have "list_all2 (=) (take limit ?all) rows"
    unfolding rmap_list_Inr
    by (rule list_all2_mono) (auto simp: row_to_record_def validate_outbox_record_def split: if_splits)
  then have rows: "rows = take limit ?all" by (simp only: list.rel_eq)
  have so: "sorted (map or_updated_at ?all)" by simp
  have all: "set ?all = {r \<in> set tbl. is_publishable t r}" by auto
  have "sorted (map or_updated_at rows)" unfolding rows take_map [symmetric] using so by (rule sorted_wrt_take)
  moreover have "set rows \<subseteq> {r \<in> set tbl. is_publishable t r}" unfolding rows using all set_take_subset by fastforce
  moreover have "or_updated_at q \<le> or_updated_at r" if "q \<in> set rows" "r \<in> set ?all" "r \<notin> set rows" for q r
  proof -
    have "r \<in> set (drop limit ?all)" using that(2,3) rows by (metis UnE append_take_drop_id set_append)
    moreover have "sorted (map or_updated_at (take limit ?all) @ map or_updated_at (drop limit ?all))"
      using so by (metis append_take_drop_id map_append)
    then have "\<forall>x \<in> set (take limit ?all). \<forall>y \<in> set (drop limit ?all). or_updated_at x \<le> or_updated_at y"
      unfolding sorted_append by simp
    ultimately show ?thesis using that(1) rows by blast
  qed
  ultimately show ?thesis using rows all by auto
qed

lemma publishable_oldest_first_witness:
  "\<exists>rows. select_publishable 0 None None 1 [new_outbox_record SENT sample_casefile 0] = Inr rows \<and> length rows \<le> 1"
proof -
  obtain rows where r: "select_publishable 0 None None 1 [new_outbox_record SENT sample_casefile 0] = Inr rows"
    by (simp add: select_publishable_def resolve_now_def read_tx_def is_publishable_def new_outbox_record_def)
  from publishable_oldest_first [OF r, of 0] r show ?thesis by (simp add: resolve_now_def)
qed

text \<open>the recovery branch for a lost insert race needs the transaction to survive the \<open>IntegrityError\<close>. On a
  database that aborts it, a worker that loses the race gets \<open>CriticalDependencyError\<close>, never the row the winner
  inserted.\<close>

theorem insert_race_not_recovered:
  assumes "tbl_get or_case_id snap (rc_case_id c) = None" and "rc_case_id c \<in> set (map or_case_id tbl)"
    and "resolve_now clock now = Inr t"
  shows "\<exists>msg. insert_pending_object True clock None c now snap tbl = (Inl (Exc CriticalDependencyError msg), tbl)"
  using assms
  by (auto simp: insert_pending_object_def get_row_def run_tx_def tbl_insert_def new_outbox_record_def wrap_repo_exc_def raise_def)

lemma insert_race_not_recovered_witness:
  "\<exists>msg. insert_pending_object True 7 None sample_casefile None [] pending_table = (Inl (Exc CriticalDependencyError msg), pending_table)"
  by (rule insert_race_not_recovered [of _ _ _ _ _ 7])
    (simp_all add: tbl_get_def resolve_now_def pending_table_def new_outbox_record_def)

end
