(* ===== verification/Alerts.thy ===== *)
theory Alerts
  imports Py_Float
begin

text \<open>
  Health registry (\<open>health/registry.py\<close>, \<open>models/health.py\<close>) and operational alerts: the policy
  contract with its validators (\<open>contracts/operational_alert_policy.py\<close>) and the evaluator
  (\<open>health/alerts.py\<close>). The evaluator's three mutable attributes are fields of the record
  \<open>alert_evaluator\<close>; its bounded deque is a list that keeps the last \<open>window_size\<close> results. The
  lock of the registry has no counterpart (updates are single steps), metrics are left out, and the
  metadata of an evaluation is a dictionary of JSON values.
\<close>

section \<open>Health registry\<close>

datatype health_status = HEALTHY | DEGRADED | UNAVAILABLE

record component_health =
  ch_component :: string
  ch_status :: health_status
  ch_reason :: "string option"
  ch_updated_at :: instant

type_synonym health_registry = "(string, component_health) pydict"

definition health_update ::
  "instant \<Rightarrow> string \<Rightarrow> health_status \<Rightarrow> string option \<Rightarrow> health_registry \<Rightarrow> health_registry" where
  "health_update clock component status reason reg = dict_set reg component
     \<lparr>ch_component = component, ch_status = status, ch_reason = reason, ch_updated_at = clock\<rparr>"

definition health_get :: "health_registry \<Rightarrow> string \<Rightarrow> health_status option" where
  "health_get reg component = map_option ch_status (dict_get reg component)"

definition health_is_degraded :: "health_registry \<Rightarrow> string \<Rightarrow> bool" where
  "health_is_degraded reg component = (health_get reg component \<in> {Some DEGRADED, Some UNAVAILABLE})"

section \<open>Policy\<close>

datatype alert_severity = SEV_WARNING | SEV_CRITICAL

record alert_rule =
  ru_rule_id :: string
  ru_component :: string
  ru_severity :: alert_severity
  ru_condition :: string
  ru_recommended_action :: string

record rule_by_severity =
  rs_warning :: "alert_rule option"
  rs_critical :: alert_rule

record threshold_by_severity =
  th_warning :: "pyfloat option"
  th_critical :: pyfloat

record 'a by_env =
  be_local :: 'a
  be_dev :: 'a
  be_uat :: 'a
  be_prod :: 'a

record outbox_alert_rules =
  oa_pending_object_age :: rule_by_severity
  oa_ready_age :: rule_by_severity
  oa_retry_age :: rule_by_severity
  oa_dead_count :: rule_by_severity

record prometheus_alert_rule =
  pa_rule :: alert_rule
  pa_activation_cycles_by_env :: "int by_env"

record thresholded_alert_rule =
  ta_thresholds_by_env :: "threshold_by_severity by_env"
  ta_rules :: rule_by_severity

record alert_policy =
  ap_outbox :: outbox_alert_rules
  ap_redis_connection_loss :: alert_rule
  ap_prometheus_unavailability :: prometheus_alert_rule
  ap_llm_error_rate :: thresholded_alert_rule
  ap_llm_window_size :: int
  ap_sn_correlation_fallback_rate :: thresholded_alert_rule
  ap_scheduler_interval_drift_seconds :: thresholded_alert_rule
  ap_pipeline_stage_latency_seconds :: thresholded_alert_rule

text \<open>The pattern \<open>^ALERT_[A-Z0-9_]+$\<close>.\<close>

definition is_rule_id :: "string \<Rightarrow> bool" where
  "is_rule_id s = (py_startswith s ''ALERT_'' \<and> drop 6 s \<noteq> [] \<and>
     list_all (\<lambda>c. let n = (of_char c :: nat) in (65 \<le> n \<and> n \<le> 90) \<or> (48 \<le> n \<and> n \<le> 57) \<or> n = 95) (drop 6 s))"

definition validate_alert_rule :: "alert_rule \<Rightarrow> alert_rule result" where
  "validate_alert_rule r =
     (if \<not> is_rule_id (ru_rule_id r) then raise ValueError ''rule_id should match pattern''
      else if ru_component r = [] \<or> ru_condition r = [] \<or> ru_recommended_action r = []
      then raise ValueError ''String should have at least 1 character''
      else Inr r)"

definition validate_severity_labels :: "rule_by_severity \<Rightarrow> rule_by_severity result" where
  "validate_severity_labels rs =
     rbind (case rs_warning rs of None \<Rightarrow> Inr () | Some w \<Rightarrow> rbind (validate_alert_rule w) (\<lambda>_. Inr ())) (\<lambda>_.
     rbind (validate_alert_rule (rs_critical rs)) (\<lambda>_.
       if (case rs_warning rs of None \<Rightarrow> False | Some w \<Rightarrow> ru_severity w \<noteq> SEV_WARNING)
       then raise ValueError ''warning rule severity must be warning''
       else if ru_severity (rs_critical rs) \<noteq> SEV_CRITICAL
       then raise ValueError ''critical rule severity must be critical''
       else Inr rs))"

definition validate_threshold_order_alert :: "threshold_by_severity \<Rightarrow> threshold_by_severity result" where
  "validate_threshold_order_alert th =
     (if \<not> fl_le (Fin 0) (th_critical th) \<or> (case th_warning th of None \<Rightarrow> False | Some w \<Rightarrow> \<not> fl_le (Fin 0) w)
      then raise ValueError ''Input should be greater than or equal to 0''
      else if (case th_warning th of None \<Rightarrow> False | Some w \<Rightarrow> fl_le (th_critical th) w)
      then raise ValueError ''warning must be less than critical''
      else Inr th)"

definition by_env_values :: "'a by_env \<Rightarrow> 'a list" where
  "by_env_values be = [be_local be, be_dev be, be_uat be, be_prod be]"

definition validate_thresholded :: "thresholded_alert_rule \<Rightarrow> unit result" where
  "validate_thresholded ta =
     rbind (rmap_list validate_threshold_order_alert (by_env_values (ta_thresholds_by_env ta))) (\<lambda>_.
     rbind (validate_severity_labels (ta_rules ta)) (\<lambda>_. Inr ()))"

definition rule_ids_of :: "rule_by_severity \<Rightarrow> string list" where
  "rule_ids_of rs = [case rs_warning rs of Some w \<Rightarrow> ru_rule_id w | None \<Rightarrow> [], ru_rule_id (rs_critical rs)]"

definition policy_rule_ids :: "alert_policy \<Rightarrow> string list" where
  "policy_rule_ids p =
     rule_ids_of (oa_pending_object_age (ap_outbox p)) @ rule_ids_of (oa_ready_age (ap_outbox p)) @
     rule_ids_of (oa_retry_age (ap_outbox p)) @ rule_ids_of (oa_dead_count (ap_outbox p)) @
     [ru_rule_id (ap_redis_connection_loss p), ru_rule_id (pa_rule (ap_prometheus_unavailability p))] @
     rule_ids_of (ta_rules (ap_llm_error_rate p)) @ rule_ids_of (ta_rules (ap_sn_correlation_fallback_rate p)) @
     rule_ids_of (ta_rules (ap_scheduler_interval_drift_seconds p)) @
     rule_ids_of (ta_rules (ap_pipeline_stage_latency_seconds p))"

definition validate_alert_policy :: "alert_policy \<Rightarrow> alert_policy result" where
  "validate_alert_policy p =
     rbind (rmap_list validate_severity_labels [oa_pending_object_age (ap_outbox p), oa_ready_age (ap_outbox p),
       oa_retry_age (ap_outbox p), oa_dead_count (ap_outbox p)]) (\<lambda>_.
     rbind (validate_alert_rule (ap_redis_connection_loss p)) (\<lambda>_.
     rbind (validate_alert_rule (pa_rule (ap_prometheus_unavailability p))) (\<lambda>_.
     rbind (rmap_list validate_thresholded [ap_llm_error_rate p, ap_sn_correlation_fallback_rate p,
       ap_scheduler_interval_drift_seconds p, ap_pipeline_stage_latency_seconds p]) (\<lambda>_.
     if \<not> list_all (\<lambda>n. 1 \<le> n) (ap_llm_window_size p # by_env_values (pa_activation_cycles_by_env (ap_prometheus_unavailability p)))
     then raise ValueError ''Input should be greater than or equal to 1''
     else let ids = filter (\<lambda>s. s \<noteq> []) (policy_rule_ids p)
          in if length ids \<noteq> card (set ids)
             then raise ValueError ''rule_id values must be unique within operational alert policy''
             else Inr p))))"

section \<open>Evaluator\<close>

datatype app_env = APP_LOCAL | APP_DEV | APP_UAT | APP_PROD

definition app_env_of :: "string \<Rightarrow> app_env option" where
  "app_env_of s = dict_get [(''local'', APP_LOCAL), (''dev'', APP_DEV), (''uat'', APP_UAT), (''prod'', APP_PROD)] s"

fun env_attr :: "'a by_env \<Rightarrow> app_env \<Rightarrow> 'a" where
  "env_attr be APP_LOCAL = be_local be"
| "env_attr be APP_DEV = be_dev be"
| "env_attr be APP_UAT = be_uat be"
| "env_attr be APP_PROD = be_prod be"

record alert_evaluation =
  ae_rule_id :: string
  ae_component :: string
  ae_severity :: alert_severity
  ae_condition :: string
  ae_recommended_action :: string
  ae_observed_value :: "pyfloat option"
  ae_threshold_value :: "pyfloat option"
  ae_metadata :: "(string, jval) pydict"

record alert_evaluator =
  av_policy :: alert_policy
  av_app_env :: app_env
  av_prometheus_outage_streak :: int
  av_llm_recent_failures :: "bool list"
  av_llm_last_alert_severity :: "alert_severity option"

definition new_alert_evaluator :: "alert_policy \<Rightarrow> string \<Rightarrow> alert_evaluator result" where
  "new_alert_evaluator policy env = (case app_env_of env of
       None \<Rightarrow> raise ValueError ''Unsupported app_env for operational alerts''
     | Some e \<Rightarrow> Inr \<lparr>av_policy = policy, av_app_env = e, av_prometheus_outage_streak = 0, av_llm_recent_failures = [],
                     av_llm_last_alert_severity = None\<rparr>)"

definition rule_for_severity :: "rule_by_severity \<Rightarrow> alert_severity \<Rightarrow> alert_rule option" where
  "rule_for_severity rules sev = (if sev = SEV_WARNING then rs_warning rules else Some (rs_critical rules))"

definition resolve_severity :: "pyfloat \<Rightarrow> threshold_by_severity \<Rightarrow> alert_severity option" where
  "resolve_severity observed th =
     (if fl_lt (th_critical th) observed then Some SEV_CRITICAL
      else case th_warning th of
        Some w \<Rightarrow> if fl_lt w observed then Some SEV_WARNING else None
      | None \<Rightarrow> None)"

definition build_evaluation ::
  "alert_rule \<Rightarrow> alert_severity \<Rightarrow> pyfloat option \<Rightarrow> pyfloat option \<Rightarrow> (string, jval) pydict \<Rightarrow> alert_evaluation result" where
  "build_evaluation rule sev observed threshold metadata =
     (if ru_severity rule \<noteq> sev then raise ValueError ''Alert rule severity mismatch''
      else Inr \<lparr>ae_rule_id = ru_rule_id rule, ae_component = ru_component rule, ae_severity = sev,
                ae_condition = ru_condition rule, ae_recommended_action = ru_recommended_action rule,
                ae_observed_value = observed, ae_threshold_value = threshold, ae_metadata = metadata\<rparr>)"

definition threshold_for :: "threshold_by_severity \<Rightarrow> alert_severity \<Rightarrow> pyfloat option" where
  "threshold_for th sev = (if sev = SEV_CRITICAL then Some (th_critical th) else th_warning th)"

text \<open>The common tail of the threshold evaluations: severity, rule of that severity, evaluation.\<close>

definition evaluate_thresholds ::
  "pyfloat \<Rightarrow> threshold_by_severity \<Rightarrow> rule_by_severity \<Rightarrow> (string, jval) pydict \<Rightarrow> alert_evaluation option result" where
  "evaluate_thresholds observed th rules metadata = (case resolve_severity observed th of
       None \<Rightarrow> Inr None
     | Some sev \<Rightarrow> (case rule_for_severity rules sev of
         None \<Rightarrow> Inr None
       | Some rule \<Rightarrow> rbind (build_evaluation rule sev (Some observed) (threshold_for th sev) metadata) (\<lambda>e. Inr (Some e))))"

definition outbox_rule_group_for_state :: "alert_policy \<Rightarrow> string \<Rightarrow> rule_by_severity result" where
  "outbox_rule_group_for_state p state =
     (if state = ''PENDING_OBJECT'' then Inr (oa_pending_object_age (ap_outbox p))
      else if state = ''READY'' then Inr (oa_ready_age (ap_outbox p))
      else if state = ''RETRY'' then Inr (oa_retry_age (ap_outbox p))
      else raise ValueError ''Unsupported outbox state for alert evaluation'')"

definition evaluate_outbox_state_age ::
  "alert_evaluator \<Rightarrow> string \<Rightarrow> pyfloat \<Rightarrow> pyfloat option \<Rightarrow> pyfloat \<Rightarrow> alert_evaluation option result" where
  "evaluate_outbox_state_age av state age warning critical =
     rbind (validate_threshold_order_alert \<lparr>th_warning = warning, th_critical = critical\<rparr>) (\<lambda>th.
     if resolve_severity age th = None then Inr None
     else rbind (outbox_rule_group_for_state (av_policy av) (py_upper state)) (\<lambda>rules.
       evaluate_thresholds age th rules [(''state'', JStr (py_upper state))]))"

definition evaluate_outbox_dead_count :: "alert_evaluator \<Rightarrow> int \<Rightarrow> int \<Rightarrow> alert_evaluation option result" where
  "evaluate_outbox_dead_count av dead_count critical_threshold =
     (if dead_count \<le> critical_threshold then Inr None
      else let sev = (if av_app_env av = APP_PROD then SEV_CRITICAL else SEV_WARNING)
           in case rule_for_severity (oa_dead_count (ap_outbox (av_policy av))) sev of
             None \<Rightarrow> Inr None
           | Some rule \<Rightarrow>
               rbind (fl_of_int dead_count) (\<lambda>d. rbind (fl_of_int critical_threshold) (\<lambda>c.
               rbind (build_evaluation rule sev (Some d) (Some c) [(''state'', JStr ''DEAD'')]) (\<lambda>e. Inr (Some e)))))"

definition evaluate_redis_connection :: "alert_evaluator \<Rightarrow> bool \<Rightarrow> alert_evaluation option result" where
  "evaluate_redis_connection av healthy =
     (if healthy then Inr None
      else rbind (build_evaluation (ap_redis_connection_loss (av_policy av)) SEV_CRITICAL (Some (Fin 0)) (Some (Fin 1)) [])
        (\<lambda>e. Inr (Some e)))"

definition record_prometheus_unavailability ::
  "bool \<Rightarrow> alert_evaluator \<Rightarrow> alert_evaluation option result \<times> alert_evaluator" where
  "record_prometheus_unavailability is_total_outage av =
     (if \<not> is_total_outage then (Inr None, av\<lparr>av_prometheus_outage_streak := 0\<rparr>)
      else let streak = av_prometheus_outage_streak av + 1;
               cycles = env_attr (pa_activation_cycles_by_env (ap_prometheus_unavailability (av_policy av))) (av_app_env av)
           in (if streak \<noteq> cycles then Inr None
               else rbind (fl_of_int streak) (\<lambda>s. rbind (fl_of_int cycles) (\<lambda>c.
                 rbind (build_evaluation (pa_rule (ap_prometheus_unavailability (av_policy av))) SEV_WARNING (Some s) (Some c) [])
                   (\<lambda>e. Inr (Some e)))),
               av\<lparr>av_prometheus_outage_streak := streak\<rparr>))"

definition evaluate_scheduler_drift :: "alert_evaluator \<Rightarrow> int \<Rightarrow> alert_evaluation option result" where
  "evaluate_scheduler_drift av drift_seconds =
     (let ta = ap_scheduler_interval_drift_seconds (av_policy av)
      in rbind (fl_of_int drift_seconds) (\<lambda>d.
         evaluate_thresholds d (env_attr (ta_thresholds_by_env ta) (av_app_env av)) (ta_rules ta) []))"

definition evaluate_pipeline_stage_latency :: "alert_evaluator \<Rightarrow> pyfloat \<Rightarrow> string \<Rightarrow> alert_evaluation option result" where
  "evaluate_pipeline_stage_latency av secs stage =
     (let ta = ap_pipeline_stage_latency_seconds (av_policy av)
      in evaluate_thresholds secs (env_attr (ta_thresholds_by_env ta) (av_app_env av)) (ta_rules ta) [(''stage'', JStr stage)])"

text \<open>\<open>max(x, 0.0)\<close> and \<open>min(x, 1.0)\<close> return their first argument unless the second is strictly larger (smaller).\<close>

definition bounded_rate :: "pyfloat \<Rightarrow> pyfloat" where
  "bounded_rate x = (let y = py_max x [Fin 0] in py_min y [Fin 1])"

definition evaluate_sn_correlation_fallback_rate ::
  "alert_evaluator \<Rightarrow> pyfloat \<Rightarrow> string list \<Rightarrow> int option \<Rightarrow> alert_evaluation option result" where
  "evaluate_sn_correlation_fallback_rate av fallback_rate tiers sample_size =
     (let ta = ap_sn_correlation_fallback_rate (av_policy av)
      in evaluate_thresholds (bounded_rate fallback_rate) (env_attr (ta_thresholds_by_env ta) (av_app_env av)) (ta_rules ta)
           [(''fallback_tiers'', JList (map JStr tiers)),
            (''sample_size'', case sample_size of None \<Rightarrow> JNull | Some n \<Rightarrow> JInt n)])"

text \<open>Appending to a deque with \<open>maxlen\<close> drops from the left.\<close>

definition deque_append :: "nat \<Rightarrow> 'a list \<Rightarrow> 'a \<Rightarrow> 'a list" where
  "deque_append n xs x = (let ys = xs @ [x] in drop (length ys - n) ys)"

definition error_rate_of :: "bool list \<Rightarrow> pyfloat" where
  "error_rate_of failures = fl_round (of_nat (length (filter id failures)) / of_nat (length failures))"

definition record_llm_invocation_result ::
  "string \<Rightarrow> alert_evaluator \<Rightarrow> alert_evaluation option result \<times> alert_evaluator" where
  "record_llm_invocation_result outcome av =
     (let ta = ap_llm_error_rate (av_policy av);
          recent = deque_append (nat (ap_llm_window_size (av_policy av))) (av_llm_recent_failures av) (outcome \<noteq> ''success'');
          av1 = av\<lparr>av_llm_recent_failures := recent\<rparr>
      in if int (length recent) < ap_llm_window_size (av_policy av) then (Inr None, av1)
         else let rate = error_rate_of recent;
                  th = env_attr (ta_thresholds_by_env ta) (av_app_env av)
              in case resolve_severity rate th of
                None \<Rightarrow> (Inr None, av1\<lparr>av_llm_last_alert_severity := None\<rparr>)
              | Some sev \<Rightarrow>
                  if av_llm_last_alert_severity av = Some sev then (Inr None, av1)
                  else (case rule_for_severity (ta_rules ta) sev of
                          None \<Rightarrow> Inr None
                        | Some rule \<Rightarrow> rbind (build_evaluation rule sev (Some rate) (threshold_for th sev)
                            [(''window_size'', JInt (int (length recent))),
                             (''error_count'', JInt (int (length (filter id recent))))]) (\<lambda>e. Inr (Some e)),
                        av1\<lparr>av_llm_last_alert_severity := Some sev\<rparr>))"

text \<open>Successive cycles seen by one evaluator, and the references its memory is compared with.\<close>

definition prometheus_after :: "alert_evaluator \<Rightarrow> bool list \<Rightarrow> alert_evaluator" where
  "prometheus_after av outages = fold (\<lambda>b a. snd (record_prometheus_unavailability b a)) outages av"

definition outage_run :: "bool list \<Rightarrow> nat" where
  "outage_run outages = length (takeWhile id (rev outages))"

definition llm_after :: "alert_evaluator \<Rightarrow> string list \<Rightarrow> alert_evaluator" where
  "llm_after av outcomes = fold (\<lambda>x a. snd (record_llm_invocation_result x a)) outcomes av"

definition last_n :: "nat \<Rightarrow> 'a list \<Rightarrow> 'a list" where
  "last_n n xs = drop (length xs - n) xs"

definition llm_severity :: "alert_evaluator \<Rightarrow> string list \<Rightarrow> alert_severity option" where
  "llm_severity av outcomes =
     (let n = ap_llm_window_size (av_policy av)
      in if int (length outcomes) < n then None
         else resolve_severity (error_rate_of (last_n (nat n) (map (\<lambda>x. x \<noteq> ''success'') outcomes)))
                (env_attr (ta_thresholds_by_env (ap_llm_error_rate (av_policy av))) (av_app_env av)))"

text \<open>A small policy, for the witnesses; \<open>redis_sev\<close> is the severity of the Redis rule.\<close>

definition sample_rule :: "string \<Rightarrow> alert_severity \<Rightarrow> alert_rule" where
  "sample_rule rid sev = \<lparr>ru_rule_id = ''ALERT_'' @ rid, ru_component = ''c'', ru_severity = sev, ru_condition = ''x'',
     ru_recommended_action = ''y''\<rparr>"

definition sample_rules :: "string \<Rightarrow> rule_by_severity" where
  "sample_rules rid = \<lparr>rs_warning = Some (sample_rule (rid @ ''_W'') SEV_WARNING), rs_critical = sample_rule (rid @ ''_C'') SEV_CRITICAL\<rparr>"

definition sample_thresholded :: "string \<Rightarrow> thresholded_alert_rule" where
  "sample_thresholded rid =
     (let th = \<lparr>th_warning = Some (Fin (1/4)), th_critical = Fin (1/2)\<rparr>
      in \<lparr>ta_thresholds_by_env = \<lparr>be_local = th, be_dev = th, be_uat = th, be_prod = th\<rparr>, ta_rules = sample_rules rid\<rparr>)"

definition sample_alert_policy :: "alert_severity \<Rightarrow> alert_policy" where
  "sample_alert_policy redis_sev =
     \<lparr>ap_outbox = \<lparr>oa_pending_object_age = sample_rules ''A'', oa_ready_age = sample_rules ''B'',
        oa_retry_age = sample_rules ''D'', oa_dead_count = sample_rules ''E''\<rparr>,
      ap_redis_connection_loss = sample_rule ''REDIS'' redis_sev,
      ap_prometheus_unavailability = \<lparr>pa_rule = sample_rule ''PROM'' SEV_WARNING,
        pa_activation_cycles_by_env = \<lparr>be_local = 3, be_dev = 3, be_uat = 2, be_prod = 2\<rparr>\<rparr>,
      ap_llm_error_rate = sample_thresholded ''F'', ap_llm_window_size = 1,
      ap_sn_correlation_fallback_rate = sample_thresholded ''G'',
      ap_scheduler_interval_drift_seconds = sample_thresholded ''H'',
      ap_pipeline_stage_latency_seconds = sample_thresholded ''I''\<rparr>"

section \<open>Lemmas\<close>

lemma health_get_update [simp]:
  "health_get (health_update clock c st reason reg) d = (if d = c then Some st else health_get reg d)"
  by (simp add: health_get_def health_update_def)

lemma build_evaluation_ok:
  "ru_severity rule = sev \<Longrightarrow> \<exists>e. build_evaluation rule sev a b m = Inr e \<and> ae_severity e = sev \<and> ae_rule_id e = ru_rule_id rule"
  by (simp add: build_evaluation_def)

lemma build_evaluation_ne: "rbind (build_evaluation rule sev a b m) (\<lambda>e. Inr (Some e)) \<noteq> Inr None"
  by (simp add: build_evaluation_def)

lemma outage_run_snoc: "outage_run (bs @ [b]) = (if b then outage_run bs + 1 else 0)"
  by (simp add: outage_run_def)

lemma prometheus_after_snoc: "prometheus_after av (bs @ [b]) = snd (record_prometheus_unavailability b (prometheus_after av bs))"
  by (simp add: prometheus_after_def)

lemma record_prometheus_frame:
  "snd (record_prometheus_unavailability b av) = av\<lparr>av_prometheus_outage_streak := if b then av_prometheus_outage_streak av + 1 else 0\<rparr>"
  by (simp add: record_prometheus_unavailability_def Let_def)

lemma prometheus_after_streak:
  assumes "av_prometheus_outage_streak av = 0"
  shows "prometheus_after av bs = av\<lparr>av_prometheus_outage_streak := int (outage_run bs)\<rparr>"
proof (induction bs rule: rev_induct)
  case Nil
  then show ?case using assms by (simp add: prometheus_after_def outage_run_def)
next
  case (snoc b bs)
  then show ?case by (simp add: prometheus_after_snoc record_prometheus_frame outage_run_snoc)
qed

lemma last_n_snoc: "0 < n \<Longrightarrow> last_n n (xs @ [x]) = deque_append n (last_n n xs) x"
  by (cases "n \<le> length xs") (auto simp: last_n_def deque_append_def Let_def Suc_diff_le)

lemma length_last_n: "length (last_n n xs) = min n (length xs)"
  by (simp add: last_n_def)

text \<open>The evaluator's memory is the window of the last outcomes and the severity of that window.\<close>

lemma llm_after_state:
  assumes "av_llm_recent_failures av = []" "av_llm_last_alert_severity av = None" "1 \<le> ap_llm_window_size (av_policy av)"
  shows "llm_after av outcomes = av\<lparr>
      av_llm_recent_failures := last_n (nat (ap_llm_window_size (av_policy av))) (map (\<lambda>x. x \<noteq> ''success'') outcomes),
      av_llm_last_alert_severity := llm_severity av outcomes\<rparr>"
proof (induction outcomes rule: rev_induct)
  case Nil
  then show ?case using assms by (simp add: llm_after_def last_n_def llm_severity_def)
next
  case (snoc x os)
  let ?n = "nat (ap_llm_window_size (av_policy av))" and ?f = "map (\<lambda>x. x \<noteq> ''success'')"
  have n: "0 < ?n" using assms(3) by simp
  have w: "deque_append ?n (last_n ?n (?f os)) (x \<noteq> ''success'') = last_n ?n (?f (os @ [x]))" by (simp add: last_n_snoc [OF n])
  have step: "llm_after av (os @ [x]) = snd (record_llm_invocation_result x (llm_after av os))" by (simp add: llm_after_def)
  have short: "int (length (last_n ?n (?f (os @ [x])))) < ap_llm_window_size (av_policy av) \<longleftrightarrow>
      int (length (os @ [x])) < ap_llm_window_size (av_policy av)"
    using n by (auto simp: length_last_n min_def)
  show ?case unfolding step snoc.IH record_llm_invocation_result_def
    using w short by (auto simp: Let_def llm_severity_def split: option.splits)
qed

section \<open>Properties\<close>

text \<open>C32: The Prometheus outage alert fires exactly once per outage: with a rule of severity warning, the cycle after any history
  of cycles returns an alert exactly when it extends the current run of outage cycles to the configured number of
  activation cycles. Shorter outages never alert, longer ones do not repeat it, and the evaluation never raises.\<close>

theorem prometheus_alert_once_per_outage:
  assumes "new_alert_evaluator p env = Inr av" and "ru_severity (pa_rule (ap_prometheus_unavailability p)) = SEV_WARNING"
    and "env_attr (pa_activation_cycles_by_env (ap_prometheus_unavailability p)) (av_app_env av) = c" "1 \<le> c" "c < 2 ^ 53"
  shows "\<exists>r. fst (record_prometheus_unavailability b (prometheus_after av history)) = Inr r \<and>
    (r \<noteq> None \<longleftrightarrow> int (outage_run (history @ [b])) = c)"
proof -
  have av: "av_prometheus_outage_streak av = 0" "av_policy av = p"
    using assms(1) by (auto simp: new_alert_evaluator_def split: option.splits)
  have "fl_of_int c = Inr (Fin (of_int c))" using assms(4,5) by (simp add: fl_of_int_def)
  with assms(2-4) av(2) show ?thesis
    by (auto simp: prometheus_after_streak [OF av(1)] record_prometheus_unavailability_def outage_run_snoc Let_def
        build_evaluation_def add.commute)
qed

theorem prometheus_alert_once_per_outage_witness:
  "\<exists>av r. new_alert_evaluator (sample_alert_policy SEV_CRITICAL) ''prod'' = Inr av \<and>
     fst (record_prometheus_unavailability True (prometheus_after av [True, False, True])) = Inr r \<and> r \<noteq> None"
proof -
  obtain av where av: "new_alert_evaluator (sample_alert_policy SEV_CRITICAL) ''prod'' = Inr av" "av_app_env av = APP_PROD"
    by (simp add: new_alert_evaluator_def app_env_of_def)
  have "\<exists>r. fst (record_prometheus_unavailability True (prometheus_after av [True, False, True])) = Inr r \<and>
      (r \<noteq> None \<longleftrightarrow> int (outage_run ([True, False, True] @ [True])) = 2)"
    by (rule prometheus_alert_once_per_outage [OF av(1)]) (simp_all add: sample_alert_policy_def sample_rule_def av(2))
  moreover have "outage_run ([True, False, True] @ [True]) = 2" by (simp add: outage_run_def)
  ultimately show ?thesis using av(1) by auto
qed

text \<open>The error-rate alert for diagnosis calls equals its stateless meaning: after any sequence of outcomes, the next outcome
  produces an alert (or the mismatch error of the rule) exactly when the window of the last outcomes is full and
  severe, its severity differs from that of the window before, and the policy has a rule for it.\<close>

theorem llm_alert_on_severity_change:
  assumes "new_alert_evaluator p env = Inr av" and "1 \<le> ap_llm_window_size p"
  shows "fst (record_llm_invocation_result x (llm_after av outcomes)) \<noteq> Inr None \<longleftrightarrow>
    (\<exists>sev. llm_severity av (outcomes @ [x]) = Some sev \<and> llm_severity av outcomes \<noteq> Some sev \<and>
       rule_for_severity (ta_rules (ap_llm_error_rate p)) sev \<noteq> None)"
proof -
  have av: "av_llm_recent_failures av = []" "av_llm_last_alert_severity av = None" "av_policy av = p"
    using assms(1) by (auto simp: new_alert_evaluator_def split: option.splits)
  let ?n = "nat (ap_llm_window_size p)" and ?f = "map (\<lambda>x. x \<noteq> ''success'')"
  have n: "0 < ?n" using assms(2) by simp
  have w: "deque_append ?n (last_n ?n (?f outcomes)) (x \<noteq> ''success'') = last_n ?n (?f (outcomes @ [x]))"
    by (simp add: last_n_snoc [OF n])
  have short: "int (length (last_n ?n (?f (outcomes @ [x])))) < ap_llm_window_size p \<longleftrightarrow>
      int (length (outcomes @ [x])) < ap_llm_window_size p"
    using n by (auto simp: length_last_n min_def)
  have st: "llm_after av outcomes = av\<lparr>av_llm_recent_failures := last_n ?n (?f outcomes),
      av_llm_last_alert_severity := llm_severity av outcomes\<rparr>"
    using llm_after_state [of av outcomes] av assms(2) by simp
  show ?thesis unfolding st record_llm_invocation_result_def
    using w short build_evaluation_ne by (auto simp: Let_def av llm_severity_def [of av "outcomes @ [x]"] split: option.splits)
qed

theorem llm_alert_on_severity_change_witness:
  "\<exists>av. new_alert_evaluator (sample_alert_policy SEV_CRITICAL) ''dev'' = Inr av \<and>
     fst (record_llm_invocation_result ''error'' (llm_after av [''success''])) \<noteq> Inr None"
proof -
  obtain av where av: "new_alert_evaluator (sample_alert_policy SEV_CRITICAL) ''dev'' = Inr av"
      "av_policy av = sample_alert_policy SEV_CRITICAL" "av_app_env av = APP_DEV"
    by (simp add: new_alert_evaluator_def app_env_of_def)
  have "llm_severity av ([''success''] @ [''error'']) = Some SEV_CRITICAL"
    using fl_round_of_int [of 1]
    by (simp add: llm_severity_def av sample_alert_policy_def sample_thresholded_def last_n_def error_rate_of_def Let_def resolve_severity_def)
  moreover have "llm_severity av [''success''] = None"
    by (simp add: llm_severity_def av fl_round_def sample_alert_policy_def sample_thresholded_def last_n_def error_rate_of_def Let_def resolve_severity_def)
  ultimately have "fst (record_llm_invocation_result ''error'' (llm_after av [''success''])) \<noteq> Inr None"
    by (subst llm_alert_on_severity_change [OF av(1)])
      (simp_all add: sample_alert_policy_def sample_thresholded_def rule_for_severity_def Let_def)
  with av(1) show ?thesis by blast
qed

text \<open>The policy contract does not check the severity of the single-rule alerts: for a policy that its validators accept, the
  Redis connection alert raises a ValueError, instead of alerting, exactly when its rule is not of severity critical.\<close>

theorem redis_alert_raises_iff:
  assumes "validate_alert_policy p = Inr p" "new_alert_evaluator p env = Inr av"
  shows "(\<exists>e. evaluate_redis_connection av False = Inl e \<and> exc_type e = ValueError) \<longleftrightarrow>
    ru_severity (ap_redis_connection_loss p) \<noteq> SEV_CRITICAL"
proof -
  have "av_policy av = p" using assms(2) by (auto simp: new_alert_evaluator_def split: option.splits)
  then show ?thesis by (simp add: evaluate_redis_connection_def build_evaluation_def raise_def)
qed

theorem redis_alert_raises_iff_witness:
  "\<exists>av e. new_alert_evaluator (sample_alert_policy SEV_WARNING) ''prod'' = Inr av \<and> evaluate_redis_connection av False = Inl e"
proof -
  obtain av where av: "new_alert_evaluator (sample_alert_policy SEV_WARNING) ''prod'' = Inr av"
    by (simp add: new_alert_evaluator_def app_env_of_def)
  have "is_ok (validate_alert_policy (sample_alert_policy SEV_WARNING))" by code_simp
  then have v: "validate_alert_policy (sample_alert_policy SEV_WARNING) = Inr (sample_alert_policy SEV_WARNING)"
    by (auto simp: is_ok_iff validate_alert_policy_def Let_def split: if_splits elim!: rbind_InrE)
  have "ru_severity (ap_redis_connection_loss (sample_alert_policy SEV_WARNING)) \<noteq> SEV_CRITICAL"
    by (simp add: sample_alert_policy_def sample_rule_def)
  with redis_alert_raises_iff [OF v av] av show ?thesis by blast
qed

end
