(* ===== verification/Peak.thy ===== *)
theory Peak
  imports Models Py_Float "HOL-Library.Product_Lexorder"
begin

text \<open>
  Stage 2 of the pipeline (\<open>pipeline/stages/peak.py\<close>): baseline profiles by nearest-rank
  percentiles, the classification of the current interval against them, and the sustained-window
  streaks per anomaly identity, one definition per function. Percentile ranks are computed in
  binary64 as the code does. The interval of an instant is found through \<open>timestamp()\<close>, a float
  of seconds, truncated and divided by the interval length. Evaluation times are aware instants;
  policies and the evaluation time are arguments (the code's defaults load files or read the clock).
\<close>

section \<open>Policy\<close>

record peak_threshold_policy =
  pt_peak_percentile :: int
  pt_near_peak_percentile :: int
  pt_bucket_minutes :: int
  pt_min_baseline_windows :: int

record peak_policy =
  pk_metric :: string
  pk_timezone :: string
  pk_recompute_frequency :: string
  pk_defaults :: peak_threshold_policy

definition topic_messages_metric_key :: string where
  "topic_messages_metric_key = ''topic_messages_in_per_sec''"

definition required_metrics_by_anomaly_family :: "(string, string list) pydict" where
  "required_metrics_by_anomaly_family =
     [(''CONSUMER_LAG'', [''consumer_group_lag'', ''consumer_group_offset'']),
      (''VOLUME_DROP'', [''topic_messages_in_per_sec'', ''total_produce_requests_per_sec'']),
      (''THROUGHPUT_CONSTRAINED_PROXY'', [''topic_messages_in_per_sec'', ''total_produce_requests_per_sec'',
         ''failed_produce_requests_per_sec''])]"

section \<open>Sustained windows\<close>

definition build_sustained_window_state_by_key ::
  "(sustained_key, sustained_status) pydict \<Rightarrow> (sustained_key, sustained_window_state) pydict" where
  "build_sustained_window_state_by_key d =
     map (\<lambda>(k, s). (k, \<lparr>sw_identity_key = ss_identity_key s,
         sw_consecutive_anomalous_buckets = ss_consecutive_anomalous_buckets s,
         sw_last_evaluated_at = ss_last_evaluated_at s\<rparr>)) (sort_key fst d)"

definition candidate_scope_status_maps_for_sustained_key ::
  "sustained_key \<Rightarrow> (scope, status_map) pydict \<Rightarrow> status_map list" where
  "candidate_scope_status_maps_for_sustained_key key statuses =
     (case key of (env, cluster_id, topic_or_group, _) \<Rightarrow>
        if py_startswith topic_or_group ''topic:'' then
          (case dict_get statuses [env, cluster_id, drop 6 topic_or_group] of Some m \<Rightarrow> [m] | None \<Rightarrow> [])
        else if py_startswith topic_or_group ''group:'' then
          map snd (filter (\<lambda>(sc, m). length sc = 4 \<and> sc ! 0 = env \<and> sc ! 1 = cluster_id \<and> sc ! 2 = drop 6 topic_or_group)
            statuses)
        else [])"

definition status_of :: "status_map \<Rightarrow> string \<Rightarrow> evidence_status" where
  "status_of m k = (case dict_get m k of Some s \<Rightarrow> s | None \<Rightarrow> UNKNOWN)"

definition has_insufficient_evidence_for_sustained_key ::
  "sustained_key \<Rightarrow> (scope, status_map) pydict option \<Rightarrow> bool" where
  "has_insufficient_evidence_for_sustained_key key statuses = (case statuses of
       None \<Rightarrow> False
     | Some sts \<Rightarrow> (case dict_get required_metrics_by_anomaly_family (snd (snd (snd key))) of
         None \<Rightarrow> False
       | Some required \<Rightarrow>
           \<not> list_ex (\<lambda>m. list_all (\<lambda>metric. status_of m metric = PRESENT) required)
               (candidate_scope_status_maps_for_sustained_key key sts)))"

definition to_sustained_identity_key :: "anomaly_finding \<Rightarrow> sustained_key option" where
  "to_sustained_identity_key f =
     (let sc = af_scope f; fam = anomaly_family_value (af_anomaly_family f)
      in if length sc = 3 then Some (sc ! 0, sc ! 1, ''topic:'' @ sc ! 2, fam)
         else if length sc = 4 then Some (sc ! 0, sc ! 1, ''group:'' @ sc ! 2, fam)
         else None)"

definition is_consecutive_interval :: "instant \<Rightarrow> instant \<Rightarrow> int \<Rightarrow> bool result" where
  "is_consecutive_interval previous current interval_minutes =
     (if interval_minutes \<le> 0 then raise ValueError ''evaluation_interval_minutes must be a positive integer''
      else let interval_seconds = interval_minutes * 60
           in Inr (epoch_second current div interval_seconds - epoch_second previous div interval_seconds = 1))"

definition next_streak_count ::
  "sustained_window_state option \<Rightarrow> bool \<Rightarrow> bool \<Rightarrow> instant \<Rightarrow> int \<Rightarrow> int result" where
  "next_streak_count prior anomalous insufficient now interval =
     (if insufficient then
        (case prior of
           None \<Rightarrow> Inr 0
         | Some p \<Rightarrow> rbind (is_consecutive_interval (sw_last_evaluated_at p) now interval) (\<lambda>c.
             Inr (if \<not> c then 0 else sw_consecutive_anomalous_buckets p)))
      else if \<not> anomalous then Inr 0
      else case prior of
           None \<Rightarrow> Inr 1
         | Some p \<Rightarrow> rbind (is_consecutive_interval (sw_last_evaluated_at p) now interval) (\<lambda>c.
             Inr (if c then sw_consecutive_anomalous_buckets p + 1 else 1)))"

definition streak_base_codes ::
  "sustained_window_state option \<Rightarrow> bool \<Rightarrow> bool \<Rightarrow> instant \<Rightarrow> int \<Rightarrow> string list result" where
  "streak_base_codes prior anomalous insufficient now interval =
     (if insufficient then
        (case prior of
           None \<Rightarrow> Inr [''INSUFFICIENT_EVIDENCE'']
         | Some p \<Rightarrow> rbind (is_consecutive_interval (sw_last_evaluated_at p) now interval) (\<lambda>c.
             Inr (if c then
                    (if 0 < sw_consecutive_anomalous_buckets p then [''INSUFFICIENT_EVIDENCE'', ''STREAK_HELD'']
                     else [''INSUFFICIENT_EVIDENCE'', ''STREAK_INACTIVE''])
                  else [''INSUFFICIENT_EVIDENCE'', ''STREAK_RESET_GAP''])))
      else if \<not> anomalous then
        Inr (case prior of
           Some p \<Rightarrow> if 0 < sw_consecutive_anomalous_buckets p then [''NON_ANOMALOUS_INTERVAL'', ''STREAK_RESET'']
                     else [''NON_ANOMALOUS_INTERVAL'']
         | None \<Rightarrow> [''NON_ANOMALOUS_INTERVAL''])
      else case prior of
           None \<Rightarrow> Inr [''ANOMALOUS_INTERVAL'', ''STREAK_STARTED'']
         | Some p \<Rightarrow> rbind (is_consecutive_interval (sw_last_evaluated_at p) now interval) (\<lambda>c.
             Inr (if c then
                    (if sw_consecutive_anomalous_buckets p = 0 then [''ANOMALOUS_INTERVAL'', ''STREAK_STARTED'']
                     else [''ANOMALOUS_INTERVAL'', ''STREAK_CONTINUES''])
                  else [''ANOMALOUS_INTERVAL'', ''STREAK_RESET_GAP''])))"

definition streak_reason_codes ::
  "sustained_window_state option \<Rightarrow> int \<Rightarrow> bool \<Rightarrow> bool \<Rightarrow> bool \<Rightarrow> instant \<Rightarrow> int \<Rightarrow> string list result" where
  "streak_reason_codes prior streak is_sustained anomalous insufficient now interval =
     rbind (streak_base_codes prior anomalous insufficient now interval) (\<lambda>base.
       Inr (base @ [if insufficient then ''SUSTAINED_UNCERTAIN''
                    else if is_sustained then ''SUSTAINED_THRESHOLD_MET''
                    else if streak = 0 then ''SUSTAINED_INACTIVE''
                    else ''SUSTAINED_THRESHOLD_NOT_MET'']))"

definition sustained_status_for_key ::
  "sustained_window_state option \<Rightarrow> bool \<Rightarrow> bool \<Rightarrow> int \<Rightarrow> int \<Rightarrow> instant \<Rightarrow> sustained_key \<Rightarrow> sustained_status result" where
  "sustained_status_for_key prior anomalous insufficient required interval now key =
     rbind (next_streak_count prior anomalous insufficient now interval) (\<lambda>streak.
     let is_sustained = (streak \<ge> required \<and> \<not> insufficient)
     in rbind (streak_reason_codes prior streak is_sustained anomalous insufficient now interval) (\<lambda>codes.
       Inr \<lparr>ss_identity_key = key, ss_is_sustained = is_sustained, ss_consecutive_anomalous_buckets = streak,
            ss_required_buckets = required, ss_last_evaluated_at = now, ss_reason_codes = codes\<rparr>))"

definition current_anomalous_keys :: "anomaly_finding list \<Rightarrow> sustained_key list" where
  "current_anomalous_keys fs = List.map_filter to_sustained_identity_key fs"

definition compute_sustained_status_by_key ::
  "anomaly_finding list \<Rightarrow> (sustained_key, sustained_window_state) pydict \<Rightarrow> int \<Rightarrow> int \<Rightarrow> instant \<Rightarrow>
   (scope, status_map) pydict option \<Rightarrow> (sustained_key, sustained_status) pydict result" where
  "compute_sustained_status_by_key findings prior required interval now statuses =
     (let current = current_anomalous_keys findings;
          keys = sort (remdups (map fst prior @ current))
      in rmap_list (\<lambda>key. rbind (sustained_status_for_key (dict_get prior key) (key \<in> set current)
            (has_insufficient_evidence_for_sustained_key key statuses) required interval now key)
            (\<lambda>s. Inr (key, s))) keys)"

section \<open>Profiles and classification\<close>

definition to_topic_scope :: "scope \<Rightarrow> peak_scope option" where
  "to_topic_scope sc = (if length sc = 3 then Some [sc ! 0, sc ! 1, sc ! 2]
     else if length sc = 4 then Some [sc ! 0, sc ! 1, sc ! 3] else None)"

text \<open>\<open>math.ceil\<close> of a float.\<close>

fun ceil_of_fl :: "pyfloat \<Rightarrow> int result" where
  "ceil_of_fl (Fin q) = Inr \<lceil>q\<rceil>"
| "ceil_of_fl NaN = raise ValueError ''cannot convert float NaN to integer''"
| "ceil_of_fl _ = raise OverflowError ''cannot convert float infinity to integer''"

definition nearest_rank :: "nat \<Rightarrow> int \<Rightarrow> int result" where
  "nearest_rank n percentile =
     rbind (fl_of_int (int n)) (\<lambda>len.
     rbind (ceil_of_fl (fl_mul (fl_round (of_int percentile / 100)) len)) (\<lambda>c. Inr (max 1 c)))"

definition nearest_rank_percentile :: "pyfloat list \<Rightarrow> int \<Rightarrow> pyfloat result" where
  "nearest_rank_percentile values percentile =
     rbind (nearest_rank (length values) percentile) (\<lambda>rank.
       if rank - 1 < int (length values) then Inr (values ! nat (rank - 1))
       else raise IndexError ''tuple index out of range'')"

text \<open>\<open>sorted\<close> of finite floats.\<close>

fun fin_val :: "pyfloat \<Rightarrow> rat" where
  "fin_val (Fin q) = q"
| "fin_val _ = 0"

definition finite_sorted :: "pyfloat list \<Rightarrow> pyfloat list" where
  "finite_sorted values = sort_key fin_val (filter fl_finite values)"

definition build_peak_profile ::
  "peak_scope \<Rightarrow> pyfloat list \<Rightarrow> peak_policy \<Rightarrow> instant \<Rightarrow> peak_profile option result" where
  "build_peak_profile sc history policy now =
     (let values = finite_sorted history; d = pk_defaults policy
      in if values = [] then Inr None
         else rbind (nearest_rank_percentile values (pt_near_peak_percentile d)) (\<lambda>peak_thr.
              rbind (nearest_rank_percentile values (pt_peak_percentile d)) (\<lambda>near_thr.
              Inr (Some \<lparr>pp_scope = sc, pp_source_metric = pk_metric policy, pp_peak_threshold_value = peak_thr,
                pp_near_peak_threshold_value = near_thr, pp_history_samples_count = length values,
                pp_has_sufficient_history = (int (length values) \<ge> pt_min_baseline_windows d),
                pp_recompute_frequency = pk_recompute_frequency policy, pp_computed_at = now\<rparr>))))"

definition classify_scope ::
  "peak_scope \<Rightarrow> pyfloat option \<Rightarrow> peak_profile option \<Rightarrow> evidence_status option \<Rightarrow> peak_classification" where
  "classify_scope sc current profile required_status = (case current of
       None \<Rightarrow>
         \<lparr>pc_scope = (case profile of Some p \<Rightarrow> pp_scope p | None \<Rightarrow> sc), pc_state = PEAK_UNKNOWN, pc_current_value = None,
          pc_confidence = Fin 0,
          pc_reason_codes = (if required_status = Some UNKNOWN then [''REQUIRED_EVIDENCE_UNKNOWN'']
            else if required_status = Some ABSENT then [''REQUIRED_EVIDENCE_ABSENT'']
            else if required_status = Some STALE then [''REQUIRED_EVIDENCE_STALE'']
            else [''MISSING_REQUIRED_SERIES'']),
          pc_is_peak_window = False, pc_is_near_peak_window = False,
          pc_peak_threshold_value = map_option pp_peak_threshold_value profile,
          pc_near_peak_threshold_value = map_option pp_near_peak_threshold_value profile\<rparr>
     | Some v \<Rightarrow> (case profile of
         None \<Rightarrow>
           \<lparr>pc_scope = sc, pc_state = PEAK_UNKNOWN, pc_current_value = Some v, pc_confidence = float_0_2,
            pc_reason_codes = [''INSUFFICIENT_HISTORY''], pc_is_peak_window = False, pc_is_near_peak_window = False,
            pc_peak_threshold_value = None, pc_near_peak_threshold_value = None\<rparr>
       | Some p \<Rightarrow>
           let is_peak = fl_le (pp_peak_threshold_value p) v;
               is_near = (is_peak \<or> fl_le (pp_near_peak_threshold_value p) v)
           in \<lparr>pc_scope = pp_scope p,
               pc_state = (if is_peak then PEAK else if is_near then NEAR_PEAK else OFF_PEAK),
               pc_current_value = Some v,
               pc_confidence = (if pp_has_sufficient_history p then Fin 1 else Fin (1 / 2)),
               pc_reason_codes = ''CLASSIFIED_FROM_BASELINE'' #
                 (if pp_has_sufficient_history p then [] else [''INSUFFICIENT_HISTORY'']),
               pc_is_peak_window = is_peak, pc_is_near_peak_window = is_near,
               pc_peak_threshold_value = Some (pp_peak_threshold_value p),
               pc_near_peak_threshold_value = Some (pp_near_peak_threshold_value p)\<rparr>))"

definition required_metric_status_for_peak_scope ::
  "peak_scope \<Rightarrow> (scope, status_map) pydict option \<Rightarrow> evidence_status option" where
  "required_metric_status_for_peak_scope sc statuses = (case statuses of
       None \<Rightarrow> None
     | Some sts \<Rightarrow> (case dict_get sts sc of
         None \<Rightarrow> Some UNKNOWN
       | Some m \<Rightarrow> Some (status_of m topic_messages_metric_key)))"

section \<open>The stage\<close>

text \<open>The row loop: the topic scopes seen and the finite current values per scope.\<close>

definition peak_row_step ::
  "evidence_row \<Rightarrow> (peak_scope, pyfloat list) pydict \<times> peak_scope list \<Rightarrow> (peak_scope, pyfloat list) pydict \<times> peak_scope list" where
  "peak_row_step row acc = (case acc of (values, known) \<Rightarrow>
     (case to_topic_scope (er_scope row) of
        None \<Rightarrow> (values, known)
      | Some ts \<Rightarrow>
          if er_metric_key row \<noteq> topic_messages_metric_key then (values, known @ [ts])
          else if \<not> fl_finite (er_value row) then (values, known @ [ts])
          else (dd_append values ts (er_value row), known @ [ts])))"

definition max_default_none :: "pyfloat list option \<Rightarrow> pyfloat option" where
  "max_default_none vs = (case vs of None \<Rightarrow> None | Some [] \<Rightarrow> None | Some (x # xs) \<Rightarrow> Some (py_max x xs))"

definition peak_context_of :: "peak_classification \<Rightarrow> peak_window_context" where
  "peak_context_of c = \<lparr>pw_classification = pc_state c, pw_is_peak_window = pc_is_peak_window c,
     pw_is_near_peak_window = pc_is_near_peak_window c, pw_confidence = pc_confidence c,
     pw_reason_codes = pc_reason_codes c\<rparr>"

definition classify_known_scope ::
  "(peak_scope, pyfloat list) pydict \<Rightarrow> (peak_scope, pyfloat list) pydict \<Rightarrow> (scope, status_map) pydict option \<Rightarrow>
   peak_policy \<Rightarrow> instant \<Rightarrow> peak_scope \<Rightarrow> (peak_scope \<times> peak_profile option \<times> peak_classification) result" where
  "classify_known_scope values history statuses policy now sc =
     rbind (build_peak_profile sc (case dict_get history sc of Some h \<Rightarrow> h | None \<Rightarrow> []) policy now) (\<lambda>profile.
       Inr (sc, profile, classify_scope sc (max_default_none (dict_get values sc)) profile
              (required_metric_status_for_peak_scope sc statuses)))"

definition collect_peak_stage_output ::
  "evidence_row list \<Rightarrow> (peak_scope, pyfloat list) pydict \<Rightarrow> (scope, status_map) pydict option \<Rightarrow>
   anomaly_finding list \<Rightarrow> (sustained_key, sustained_window_state) pydict option \<Rightarrow> peak_policy \<Rightarrow> rulebook \<Rightarrow>
   instant \<Rightarrow> peak_stage_output result" where
  "collect_peak_stage_output rows history statuses findings prior policy rb now =
     (let (values, seen) = fold peak_row_step rows ([], map fst history);
          scopes = sort (remdups seen)
      in rbind (rmap_list (classify_known_scope values history statuses policy now) scopes) (\<lambda>rs.
         rbind (compute_sustained_status_by_key findings (case prior of Some p \<Rightarrow> p | None \<Rightarrow> [])
                  (rb_sustained_intervals_required rb) (rb_evaluation_interval_minutes rb) now statuses) (\<lambda>sustained.
         Inr \<lparr>po_profiles_by_scope = List.map_filter (\<lambda>(sc, p, c). map_option (Pair sc) p) rs,
              po_classifications_by_scope = map (\<lambda>(sc, p, c). (sc, c)) rs,
              po_peak_context_by_scope = map (\<lambda>(sc, p, c). (sc, peak_context_of c)) rs,
              po_evidence_status_map_by_scope = (case statuses of Some s \<Rightarrow> s | None \<Rightarrow> []),
              po_sustained_by_key = sustained\<rparr>)))"

definition run_peak_stage_cycle ::
  "evidence_stage_output \<Rightarrow> (peak_scope, pyfloat list) pydict \<Rightarrow> (sustained_key, sustained_window_state) pydict option \<Rightarrow>
   instant \<Rightarrow> peak_policy \<Rightarrow> rulebook \<Rightarrow> peak_stage_output result" where
  "run_peak_stage_cycle ev history prior now policy rb =
     collect_peak_stage_output (eo_rows ev) history (Some (eo_evidence_status_map_by_scope ev))
       (ar_findings (eo_anomaly_result ev)) prior policy rb now"

section \<open>Cycles\<close>

text \<open>
  The hot loop of \<open>__main__.py\<close> threads the streak state: each cycle's statuses become the
  prior state of the next. A cycle is described by its findings, status map and evaluation time;
  \<open>sustained_cycles\<close> runs them, newest first, from no prior state.
\<close>

record sustained_cycle =
  sc_findings :: "anomaly_finding list"
  sc_statuses :: "(scope, status_map) pydict option"
  sc_time :: instant

fun sustained_cycles ::
  "int \<Rightarrow> int \<Rightarrow> sustained_cycle list \<Rightarrow> (sustained_key, sustained_status) pydict result" where
  "sustained_cycles required interval [] = Inr []"
| "sustained_cycles required interval (c # cs) =
     rbind (sustained_cycles required interval cs) (\<lambda>prev.
       compute_sustained_status_by_key (sc_findings c) (build_sustained_window_state_by_key prev) required interval
         (sc_time c) (sc_statuses c))"

text \<open>What a cycle says about one key, and whether two cycles fall into adjacent intervals.\<close>

definition cycle_anomalous :: "sustained_key \<Rightarrow> sustained_cycle \<Rightarrow> bool" where
  "cycle_anomalous key c = (key \<in> set (current_anomalous_keys (sc_findings c)))"

definition cycle_insufficient :: "sustained_key \<Rightarrow> sustained_cycle \<Rightarrow> bool" where
  "cycle_insufficient key c = has_insufficient_evidence_for_sustained_key key (sc_statuses c)"

definition adjacent_cycles :: "int \<Rightarrow> sustained_cycle \<Rightarrow> sustained_cycle \<Rightarrow> bool" where
  "adjacent_cycles interval older newer =
     (epoch_second (sc_time newer) div (interval * 60) - epoch_second (sc_time older) div (interval * 60) = 1)"

text \<open>
  The reference: an unbroken run is a suffix of adjacent cycles none of which observed the key as
  clear (evidence sufficient and not anomalous); its length counts the anomalous observations.
\<close>

fun unbroken_run :: "int \<Rightarrow> sustained_key \<Rightarrow> sustained_cycle list \<Rightarrow> sustained_cycle list" where
  "unbroken_run interval key [] = []"
| "unbroken_run interval key [c] = (if cycle_insufficient key c \<or> cycle_anomalous key c then [c] else [])"
| "unbroken_run interval key (c # d # cs) =
     (if cycle_insufficient key c \<or> cycle_anomalous key c
      then c # (if adjacent_cycles interval d c then unbroken_run interval key (d # cs) else [])
      else [])"

definition observed_anomalous :: "sustained_key \<Rightarrow> sustained_cycle \<Rightarrow> bool" where
  "observed_anomalous key c = (cycle_anomalous key c \<and> \<not> cycle_insufficient key c)"

definition run_count :: "int \<Rightarrow> sustained_key \<Rightarrow> sustained_cycle list \<Rightarrow> int" where
  "run_count interval key cs = int (length (filter (observed_anomalous key) (unbroken_run interval key cs)))"

text \<open>The state after some cycles agrees with the reference on every key.\<close>

definition cycles_agree ::
  "int \<Rightarrow> int \<Rightarrow> sustained_cycle list \<Rightarrow> (sustained_key, sustained_status) pydict \<Rightarrow> bool" where
  "cycles_agree required interval cs d = (dict_wf d \<and> (\<forall>key. case dict_get d key of
       None \<Rightarrow> \<forall>c \<in> set cs. \<not> cycle_anomalous key c
     | Some s \<Rightarrow> cs \<noteq> [] \<and> ss_consecutive_anomalous_buckets s = run_count interval key cs \<and>
         ss_is_sustained s = (required \<le> run_count interval key cs \<and> \<not> cycle_insufficient key (hd cs)) \<and>
         ss_last_evaluated_at s = sc_time (hd cs)))"

definition sustained_in :: "(sustained_key, sustained_status) pydict \<Rightarrow> sustained_key \<Rightarrow> bool" where
  "sustained_in d key = (case dict_get d key of None \<Rightarrow> False | Some s \<Rightarrow> ss_is_sustained s)"

text \<open>A volume drop seen in three adjacent five-minute intervals, for the witnesses.\<close>

definition sample_drop :: anomaly_finding where
  "sample_drop = \<lparr>af_finding_id = ''f'', af_anomaly_family = VOLUME_DROP, af_scope = [''prod'', ''c'', ''t''],
     af_severity = HIGH, af_reason_codes = [], af_evidence_required = [], af_allowed = [], af_is_primary = None\<rparr>"

definition sample_cycles :: "sustained_cycle list" where
  "sample_cycles = map (\<lambda>n. \<lparr>sc_findings = [sample_drop], sc_statuses = None, sc_time = seconds (300 * n)\<rparr>) [3, 2, 1]"

definition sample_policy :: peak_policy where
  "sample_policy = \<lparr>pk_metric = ''kafka_server_brokertopicmetrics_messagesinpersec'', pk_timezone = ''America/Toronto'',
     pk_recompute_frequency = ''weekly'',
     pk_defaults = \<lparr>pt_peak_percentile = 90, pt_near_peak_percentile = 95, pt_bucket_minutes = 15, pt_min_baseline_windows = 4\<rparr>\<rparr>"

section \<open>Lemmas: streaks\<close>

lemma dict_wf_sort [simp]: "dict_wf (sort_key f d) = dict_wf d"
  by (simp add: dict_wf_def distinct_map)

lemma dict_get_sort: "dict_wf d \<Longrightarrow> dict_get (sort_key f d) k = dict_get d k"
  unfolding dict_wf_def by (subst map_of_inject_set [of "sort_key f d" d, THEN iffD2]) (auto simp: distinct_map)

lemma build_state_get:
  assumes "dict_wf d"
  shows "dict_get (build_sustained_window_state_by_key d) k = map_option (\<lambda>s. \<lparr>sw_identity_key = ss_identity_key s,
     sw_consecutive_anomalous_buckets = ss_consecutive_anomalous_buckets s, sw_last_evaluated_at = ss_last_evaluated_at s\<rparr>)
     (dict_get d k)"
  unfolding build_sustained_window_state_by_key_def dict_get_sort [OF assms, symmetric, where f = fst]
  by (simp only: map_of_map o_apply)

lemma build_state_keys: "set (map fst (build_sustained_window_state_by_key d)) = set (map fst d)"
  by (force simp: build_sustained_window_state_by_key_def)

lemma rmap_list_pairs:
  assumes "rmap_list (\<lambda>k. rbind (f k) (\<lambda>v. Inr (k, v))) ks = Inr d"
  shows "map fst d = ks" and "\<And>k v. (k, v) \<in> set d \<Longrightarrow> f k = Inr v"
  using assms by (induction ks arbitrary: d) (auto elim!: rbind_InrE)

text \<open>The status of one key is total for a positive interval.\<close>

lemma status_for_key_total:
  assumes "0 < interval"
  shows "is_ok (sustained_status_for_key prior an ins required interval now key)"
  using assms
  by (auto simp: sustained_status_for_key_def next_streak_count_def streak_reason_codes_def streak_base_codes_def
      is_consecutive_interval_def Let_def split: option.splits)

lemma status_for_key_fields:
  assumes "sustained_status_for_key prior an ins required interval now key = Inr s"
  shows "next_streak_count prior an ins now interval = Inr (ss_consecutive_anomalous_buckets s)"
    and "ss_is_sustained s \<longleftrightarrow> required \<le> ss_consecutive_anomalous_buckets s \<and> \<not> ins"
    and "ss_last_evaluated_at s = now" and "ss_identity_key s = key"
  using assms by (auto simp: sustained_status_for_key_def Let_def elim!: rbind_InrE)

lemma compute_sustained_total:
  assumes "0 < interval"
  obtains d where "compute_sustained_status_by_key fs prior required interval now sts = Inr d"
    and "dict_wf d" and "set (map fst d) = set (map fst prior) \<union> set (current_anomalous_keys fs)"
    and "\<And>key s. dict_get d key = Some s \<Longrightarrow> sustained_status_for_key (dict_get prior key)
      (key \<in> set (current_anomalous_keys fs)) (has_insufficient_evidence_for_sustained_key key sts) required interval now key = Inr s"
proof -
  let ?f = "\<lambda>key. sustained_status_for_key (dict_get prior key) (key \<in> set (current_anomalous_keys fs))
      (has_insufficient_evidence_for_sustained_key key sts) required interval now key"
  let ?ks = "sort (remdups (map fst prior @ current_anomalous_keys fs))"
  have "is_ok (rbind (?f k) (\<lambda>s. Inr (k, s)))" for k
  proof -
    have "is_ok (?f k)" using assms by (rule status_for_key_total)
    then obtain v where "?f k = Inr v" unfolding is_ok_iff by blast
    then show ?thesis by simp
  qed
  then have "is_ok (rmap_list (\<lambda>k. rbind (?f k) (\<lambda>s. Inr (k, s))) ?ks)" by (intro rmap_list_ok)
  then obtain d where d: "rmap_list (\<lambda>k. rbind (?f k) (\<lambda>s. Inr (k, s))) ?ks = Inr d" by (auto simp: is_ok_iff)
  then have c: "compute_sustained_status_by_key fs prior required interval now sts = Inr d"
    by (simp add: compute_sustained_status_by_key_def Let_def)
  have keys: "map fst d = ?ks" and vals: "\<And>k v. (k, v) \<in> set d \<Longrightarrow> ?f k = Inr v"
    using rmap_list_pairs [OF d] by blast+
  have "dict_wf d" using keys by (simp add: dict_wf_def)
  moreover have "set (map fst d) = set (map fst prior) \<union> set (current_anomalous_keys fs)"
    using arg_cong [OF keys, of set] by simp
  ultimately show ?thesis using that [OF c] vals by (meson map_of_SomeD)
qed

text \<open>The reference count follows the recursion of the code.\<close>

lemma run_count_single:
  "run_count interval key [c] = (if observed_anomalous key c then 1 else 0)"
  by (auto simp: run_count_def observed_anomalous_def)

lemma run_count_Cons:
  "run_count interval key (c # d # cs) =
     (if cycle_insufficient key c then (if adjacent_cycles interval d c then run_count interval key (d # cs) else 0)
      else if \<not> cycle_anomalous key c then 0
      else if adjacent_cycles interval d c then run_count interval key (d # cs) + 1 else 1)"
  by (auto simp: run_count_def observed_anomalous_def)

lemma run_count_zero:
  "\<forall>c \<in> set cs. \<not> cycle_anomalous key c \<Longrightarrow> run_count interval key cs = 0"
proof -
  have "set (unbroken_run interval key cs) \<subseteq> set cs"
    by (induction interval key cs rule: unbroken_run.induct) auto
  then show "\<forall>c \<in> set cs. \<not> cycle_anomalous key c \<Longrightarrow> run_count interval key cs = 0"
    by (auto simp: run_count_def observed_anomalous_def filter_empty_conv)
qed

lemma cycles_agree_None:
  "cycles_agree required interval cs d \<Longrightarrow> dict_get d key = None \<Longrightarrow> \<forall>c \<in> set cs. \<not> cycle_anomalous key c"
  unfolding cycles_agree_def by (drule conjunct2) (drule spec [of _ key], simp)

lemma cycles_agree_Some:
  "cycles_agree required interval cs d \<Longrightarrow> dict_get d key = Some s \<Longrightarrow>
     cs \<noteq> [] \<and> ss_consecutive_anomalous_buckets s = run_count interval key cs \<and>
     ss_is_sustained s = (required \<le> run_count interval key cs \<and> \<not> cycle_insufficient key (hd cs)) \<and>
     ss_last_evaluated_at s = sc_time (hd cs)"
  unfolding cycles_agree_def by (drule conjunct2) (drule spec [of _ key], simp)

lemma cycles_agree_wf: "cycles_agree required interval cs d \<Longrightarrow> dict_wf d"
  by (simp add: cycles_agree_def)

lemma next_streak_run_count:
  assumes agree: "cycles_agree required interval cs prev" and "0 < interval"
    and n: "next_streak_count (dict_get (build_sustained_window_state_by_key prev) key) (cycle_anomalous key c)
      (cycle_insufficient key c) (sc_time c) interval = Inr n"
  shows "n = run_count interval key (c # cs)"
proof (cases "dict_get prev key")
  case None
  with agree have clear: "\<forall>c \<in> set cs. \<not> cycle_anomalous key c" by (rule cycles_agree_None)
  have "n = (if observed_anomalous key c then 1 else 0)"
    using n None by (auto simp: build_state_get [OF cycles_agree_wf [OF agree]] next_streak_count_def
        observed_anomalous_def split: if_splits)
  also have "\<dots> = run_count interval key (c # cs)"
  proof (cases cs)
    case (Cons d ds)
    then show ?thesis
      using run_count_zero [OF clear, of interval] by (simp add: run_count_Cons observed_anomalous_def)
  qed (simp add: run_count_single)
  finally show ?thesis .
next
  case (Some s)
  then obtain d ds where cs: "cs = d # ds" and "ss_consecutive_anomalous_buckets s = run_count interval key cs"
    and "ss_last_evaluated_at s = sc_time d"
    using cycles_agree_Some [OF agree Some] by (cases cs) simp_all
  then show ?thesis
    using n Some assms(2)
    by (auto simp: build_state_get [OF cycles_agree_wf [OF agree]] next_streak_count_def is_consecutive_interval_def
        Let_def run_count_Cons adjacent_cycles_def split: if_splits)
qed

lemma sustained_cycles_agree:
  assumes "0 < interval"
  shows "\<exists>d. sustained_cycles required interval cs = Inr d \<and> cycles_agree required interval cs d"
proof (induction cs)
  case (Cons c cs)
  then obtain prev where prev: "sustained_cycles required interval cs = Inr prev" "cycles_agree required interval cs prev"
    by blast
  let ?prior = "build_sustained_window_state_by_key prev"
  obtain d where d: "compute_sustained_status_by_key (sc_findings c) ?prior required interval (sc_time c) (sc_statuses c) = Inr d"
    and wf: "dict_wf d" and keys: "set (map fst d) = set (map fst ?prior) \<union> set (current_anomalous_keys (sc_findings c))"
    and st: "\<And>key s. dict_get d key = Some s \<Longrightarrow> sustained_status_for_key (dict_get ?prior key) (cycle_anomalous key c)
      (cycle_insufficient key c) required interval (sc_time c) key = Inr s"
    using compute_sustained_total [OF assms] unfolding cycle_anomalous_def cycle_insufficient_def by blast
  have "cycles_agree required interval (c # cs) d"
    unfolding cycles_agree_def
  proof (intro conjI allI wf)
    fix key
    show "case dict_get d key of None \<Rightarrow> \<forall>c \<in> set (c # cs). \<not> cycle_anomalous key c
      | Some s \<Rightarrow> c # cs \<noteq> [] \<and> ss_consecutive_anomalous_buckets s = run_count interval key (c # cs) \<and>
         ss_is_sustained s = (required \<le> run_count interval key (c # cs) \<and> \<not> cycle_insufficient key (hd (c # cs))) \<and>
         ss_last_evaluated_at s = sc_time (hd (c # cs))"
    proof (cases "dict_get d key")
      case None
      then have "key \<notin> set (map fst ?prior) \<union> set (current_anomalous_keys (sc_findings c))"
        unfolding keys [symmetric] by (simp add: map_of_eq_None_iff)
      moreover from this have "dict_get prev key = None"
        using build_state_keys [of prev] by (simp add: map_of_eq_None_iff)
      ultimately show ?thesis
        using None cycles_agree_None [OF prev(2), of key] by (simp add: cycle_anomalous_def)
    next
      case (Some s)
      note f = status_for_key_fields [OF st [OF Some]]
      from next_streak_run_count [OF prev(2) assms f(1)] f(2,3) Some show ?thesis by simp
    qed
  qed
  with prev(1) d show ?case by simp
qed (simp add: cycles_agree_def)

text \<open>Whole seconds are read back exactly.\<close>

section \<open>Lemmas: percentiles\<close>

text \<open>The rank computed in floating point stays within the sample for percentiles up to 100.\<close>

lemma nearest_rank_bounds:
  assumes "0 \<le> p" "p \<le> 100" "0 < n" "int n < 2 ^ 53"
  obtains r where "nearest_rank n p = Inr r" "1 \<le> r" "r \<le> int n"
proof -
  have q: "(0 :: rat) \<le> of_int p / 100" "(of_int p / 100 :: rat) \<le> of_int 1" using assms(1,2) by simp_all
  obtain v where v: "fl_round (of_int p / 100) = Fin v" "0 \<le> v" "v \<le> 1"
    by (rule fl_round_between [OF q]) (use that in auto)
  have "v * of_int (int n) \<le> of_int (int n)" using v(2,3) by (simp add: mult_left_le_one_le)
  moreover have "0 \<le> v * of_int (int n)" using v(2) by simp
  ultimately obtain w where w: "fl_round (v * of_int (int n)) = Fin w" "0 \<le> w" "w \<le> of_int (int n)"
    using assms(4) by (metis fl_round_between)
  have "fl_of_int (int n) = Inr (Fin (of_int (int n)))"
    using fl_round_of_int [of "int n"] assms(4) by (simp add: fl_of_int_def)
  then have "nearest_rank n p = Inr (max 1 \<lceil>w\<rceil>)"
    using v w by (simp add: nearest_rank_def)
  moreover have "\<lceil>w\<rceil> \<le> int n" using w(3) by (simp add: ceiling_le_iff)
  ultimately show ?thesis using assms(3) by (intro that [of "max 1 \<lceil>w\<rceil>"]) auto
qed

lemma nearest_rank_percentile_total:
  assumes "0 \<le> p" "p \<le> 100" "values \<noteq> []" "int (length values) < 2 ^ 53"
  obtains v where "nearest_rank_percentile values p = Inr v" "v \<in> set values"
proof -
  obtain r where "nearest_rank (length values) p = Inr r" "1 \<le> r" "r \<le> int (length values)"
    by (rule nearest_rank_bounds [OF assms(1,2) _ assms(4)]) (use assms(3) that in auto)
  then show ?thesis by (intro that [of "values ! nat (r - 1)"]) (auto simp: nearest_rank_percentile_def)
qed

lemma nearest_rank_mono:
  assumes "0 \<le> p" "p \<le> p'" "p' \<le> 100" "0 < n" "int n < 2 ^ 53"
    and "nearest_rank n p = Inr r" "nearest_rank n p' = Inr r'"
  shows "r \<le> r'"
proof -
  have q: "(0 :: rat) \<le> of_int p / 100" "(of_int p / 100 :: rat) \<le> of_int p' / 100" "(of_int p' / 100 :: rat) \<le> of_int 1"
    using assms(1-3) by (simp_all add: divide_right_mono)
  obtain v where v: "fl_round (of_int p / 100) = Fin v" "0 \<le> v" "v \<le> 1"
    by (rule fl_round_between [of "of_int p / 100" 1]) (use q in auto)
  obtain v' where v': "fl_round (of_int p' / 100) = Fin v'" "0 \<le> v'" "v' \<le> 1"
    by (rule fl_round_between [of "of_int p' / 100" 1]) (use q in auto)
  have "v \<le> v'" using fl_round_mono [OF q(1,2)] v(1) v'(1) by simp
  have len: "fl_of_int (int n) = Inr (Fin (of_int (int n)))"
    using fl_round_of_int [of "int n"] assms(5) by (simp add: fl_of_int_def)
  have "x * of_int (int n) \<le> of_int (int n)" if "0 \<le> x" "x \<le> 1" for x :: rat
    using that by (simp add: mult_left_le_one_le)
  then obtain w w' where w: "fl_round (v * of_int (int n)) = Fin w" "fl_round (v' * of_int (int n)) = Fin w'"
    using fl_round_between [of "v * of_int (int n)" "int n"] fl_round_between [of "v' * of_int (int n)" "int n"]
      v(2,3) v'(2,3) assms(5) by (metis mult_nonneg_nonneg of_int_0_le_iff of_nat_0_le_iff)
  have "w \<le> w'"
    using fl_round_mono [of "v * of_int (int n)" "v' * of_int (int n)"] w v(2) \<open>v \<le> v'\<close> by (simp add: mult_right_mono)
  then have "\<lceil>w\<rceil> \<le> \<lceil>w'\<rceil>" by (rule ceiling_mono)
  moreover have "r = max 1 \<lceil>w\<rceil>" "r' = max 1 \<lceil>w'\<rceil>" using assms(6,7) v(1) v'(1) w len by (auto simp: nearest_rank_def)
  ultimately show ?thesis by auto
qed

lemma finite_sorted_facts:
  "set (finite_sorted h) \<subseteq> set h" "sorted (map fin_val (finite_sorted h))" "\<forall>x \<in> set (finite_sorted h). fl_finite x"
  by (auto simp: finite_sorted_def)

lemma fl_le_fin_val: "fl_finite x \<Longrightarrow> fl_finite y \<Longrightarrow> fl_le x y \<longleftrightarrow> fin_val x \<le> fin_val y"
  by (cases x; cases y) simp_all

lemma nearest_rank_percentile_mono:
  assumes "0 \<le> p" "p \<le> p'" "p' \<le> 100" "values \<noteq> []" "int (length values) < 2 ^ 53"
    and "sorted (map fin_val values)" "\<forall>x \<in> set values. fl_finite x"
    and "nearest_rank_percentile values p = Inr v" "nearest_rank_percentile values p' = Inr v'"
  shows "fl_le v v'"
proof -
  from assms(8) obtain r where r: "nearest_rank (length values) p = Inr r" "r - 1 < int (length values)"
    "v = values ! nat (r - 1)" by (auto simp: nearest_rank_percentile_def split: if_splits)
  from assms(9) obtain r' where r': "nearest_rank (length values) p' = Inr r'" "r' - 1 < int (length values)"
    "v' = values ! nat (r' - 1)" by (auto simp: nearest_rank_percentile_def split: if_splits)
  have le: "r \<le> r'"
    by (rule nearest_rank_mono [OF assms(1-3) _ assms(5) r(1) r'(1)]) (use assms(4) in simp)
  have "1 \<le> r" using r(1) by (auto simp: nearest_rank_def elim!: rbind_InrE)
  then have idx: "nat (r - 1) \<le> nat (r' - 1)" "nat (r' - 1) < length values" using le r'(2) assms(4) by auto
  then have "fin_val v \<le> fin_val v'"
    using sorted_nth_mono [OF assms(6), of "nat (r - 1)" "nat (r' - 1)"] r(3) r'(3) by simp
  moreover have "fl_finite v" "fl_finite v'" using assms(7) idx r(3) r'(3) by simp_all
  ultimately show ?thesis by (simp add: fl_le_fin_val)
qed

section \<open>Properties\<close>

text \<open>C36: a baseline profile exists for every history with a finite sample, without an index error: for
  percentiles \<open>0 \<le> peak \<le> near_peak \<le> 100\<close> both thresholds, whose ranks are computed in floating point,
  are finite samples of the history, and the near-peak threshold is not above the peak threshold.\<close>

theorem peak_profile_thresholds:
  assumes "0 \<le> pt_peak_percentile (pk_defaults policy)"
    and "pt_peak_percentile (pk_defaults policy) \<le> pt_near_peak_percentile (pk_defaults policy)"
    and "pt_near_peak_percentile (pk_defaults policy) \<le> 100"
    and "\<exists>x \<in> set history. fl_finite x" and "int (length history) < 2 ^ 53"
  shows "\<exists>profile. build_peak_profile sc history policy now = Inr (Some profile) \<and>
    pp_near_peak_threshold_value profile \<in> set history \<and> pp_peak_threshold_value profile \<in> set history \<and>
    fl_le (pp_near_peak_threshold_value profile) (pp_peak_threshold_value profile)"
proof -
  let ?vs = "finite_sorted history" and ?d = "pk_defaults policy"
  have ne: "?vs \<noteq> []" using assms(4) by (auto simp: finite_sorted_def filter_empty_conv simp flip: set_empty)
  have "length ?vs \<le> length history" by (simp add: finite_sorted_def)
  then have len: "int (length ?vs) < 2 ^ 53" using assms(5) by linarith
  obtain pk where pk: "nearest_rank_percentile ?vs (pt_near_peak_percentile ?d) = Inr pk" "pk \<in> set ?vs"
    using nearest_rank_percentile_total [OF _ assms(3) ne len] assms(1,2) by (metis order_trans)
  obtain np where np: "nearest_rank_percentile ?vs (pt_peak_percentile ?d) = Inr np" "np \<in> set ?vs"
    using nearest_rank_percentile_total [OF assms(1) _ ne len] assms(2,3) by (metis order_trans)
  have "fl_le np pk"
    by (rule nearest_rank_percentile_mono [OF assms(1-3) ne len finite_sorted_facts(2,3) np(1) pk(1)])
  with pk np ne finite_sorted_facts(1) [of history] show ?thesis by (auto simp: build_peak_profile_def Let_def)
qed

lemma peak_profile_thresholds_witness:
  "\<exists>profile. build_peak_profile [''prod'', ''c'', ''t''] [Fin 3, NaN, Fin 1] sample_policy 0 = Inr (Some profile) \<and>
    pp_near_peak_threshold_value profile \<in> set [Fin 3, NaN, Fin 1] \<and>
    pp_peak_threshold_value profile \<in> set [Fin 3, NaN, Fin 1] \<and>
    fl_le (pp_near_peak_threshold_value profile) (pp_peak_threshold_value profile)"
  by (rule peak_profile_thresholds) (simp_all add: sample_policy_def)

text \<open>C11: over any sequence of evaluation cycles the streak bookkeeping never fails and agrees with its meaning:
  a key is sustained after the last cycle exactly when that cycle had sufficient evidence for it and the unbroken
  run of adjacent intervals ending there (no interval observed the key as clear) contains at least the required
  number of anomalous observations.\<close>

theorem sustained_iff_unbroken_run:
  assumes "0 < interval" and "0 < required"
  shows "\<exists>d. sustained_cycles required interval (c # cs) = Inr d \<and>
    (\<forall>key. sustained_in d key \<longleftrightarrow> \<not> cycle_insufficient key c \<and>
       required \<le> int (length (filter (observed_anomalous key) (unbroken_run interval key (c # cs)))))"
proof -
  obtain d where d: "sustained_cycles required interval (c # cs) = Inr d" "cycles_agree required interval (c # cs) d"
    using sustained_cycles_agree [OF assms(1)] by blast
  have "sustained_in d key \<longleftrightarrow> \<not> cycle_insufficient key c \<and> required \<le> run_count interval key (c # cs)" for key
  proof (cases "dict_get d key")
    case None
    then have "run_count interval key (c # cs) = 0" using run_count_zero cycles_agree_None [OF d(2)] by blast
    with None assms(2) show ?thesis by (simp add: sustained_in_def)
  next
    case (Some s)
    then show ?thesis using cycles_agree_Some [OF d(2) Some] by (auto simp: sustained_in_def)
  qed
  with d(1) show ?thesis unfolding run_count_def by blast
qed

lemma sustained_iff_unbroken_run_witness:
  "\<exists>d. sustained_cycles 3 5 sample_cycles = Inr d \<and> sustained_in d (''prod'', ''c'', ''topic:t'', ''VOLUME_DROP'')"
proof -
  let ?key = "(''prod'', ''c'', ''topic:t'', ''VOLUME_DROP'')"
  have run: "length (filter (observed_anomalous ?key) (unbroken_run 5 ?key sample_cycles)) = 3"
    by (simp add: sample_cycles_def observed_anomalous_def adjacent_cycles_def epoch_second_seconds cycle_anomalous_def
        cycle_insufficient_def has_insufficient_evidence_for_sustained_key_def current_anomalous_keys_def map_filter_def
        to_sustained_identity_key_def sample_drop_def)
  have suf: "\<not> cycle_insufficient ?key (hd sample_cycles)"
    by (simp add: cycle_insufficient_def has_insufficient_evidence_for_sustained_key_def sample_cycles_def)
  have sc: "hd sample_cycles # tl sample_cycles = sample_cycles" by (simp add: sample_cycles_def)
  obtain d where d: "sustained_cycles 3 5 sample_cycles = Inr d"
    and all: "\<forall>key. sustained_in d key \<longleftrightarrow> \<not> cycle_insufficient key (hd sample_cycles) \<and>
       3 \<le> int (length (filter (observed_anomalous key) (unbroken_run 5 key sample_cycles)))"
    using sustained_iff_unbroken_run [of 5 3 "hd sample_cycles" "tl sample_cycles", unfolded sc, OF zero_less_numeral
        zero_less_numeral] by (elim exE conjE)
  from all [THEN spec [of _ ?key]] run suf have "sustained_in d ?key" by simp
  with d show ?thesis by blast
qed

end
