(* ===== verification/Outbox_Worker.thy ===== *)
theory Outbox_Worker
  imports Casefile Outbox_Repository Alerts Peak
begin

text \<open>
  Publication of case events: \<open>outbox/publisher.py\<close>, the event contracts, \<open>pipeline/stages/outbox.py\<close> and the
  polling worker of \<open>outbox/worker.py\<close>.

  Kafka is a parameter: a call on its state that may raise. \<open>bus\<close> wraps that state with the list of event pairs offered to it so
  far, which is what Invariant A is about. Database transactions take their faults from a schedule. An error of the publish
  path carries the \<open>error_code\<close> attribute of \<open>PublishAfterDenylistError\<close> beside the exception. Log records are
  left out except for the threshold breaches, which the evaluation functions return.
\<close>

section \<open>Event contracts\<close>

record case_header_event =
  he_case_id :: string
  he_env :: environment
  he_cluster_id :: string
  he_stream_id :: string
  he_topic :: string
  he_anomaly_family :: anomaly_family
  he_criticality_tier :: criticality_tier
  he_final_action :: action
  he_routing_key :: string
  he_evaluation_ts :: instant

record triage_excerpt =
  xe_case_id :: string
  xe_env :: environment
  xe_cluster_id :: string
  xe_stream_id :: string
  xe_topic :: string
  xe_anomaly_family :: anomaly_family
  xe_topic_role :: topic_role
  xe_criticality_tier :: criticality_tier
  xe_routing_key :: string
  xe_sustained :: bool
  xe_peak :: "bool option"
  xe_evidence_status_map :: status_map
  xe_findings :: "finding list"
  xe_triage_timestamp :: instant

definition validate_triage_excerpt :: "triage_excerpt \<Rightarrow> triage_excerpt result" where
  "validate_triage_excerpt x = rbind (rmap_list validate_finding (xe_findings x)) (\<lambda>fs. Inr (x\<lparr>xe_findings := fs\<rparr>))"

section \<open>Publisher\<close>

record 'k bus =
  bus_offered :: "(case_header_event \<times> triage_excerpt) list"
  bus_headers :: "case_header_event list"
  bus_state :: 'k

type_synonym 'k publish_events = "'k \<Rightarrow> case_header_event \<Rightarrow> triage_excerpt \<Rightarrow> unit result \<times> 'k"
type_synonym 'k publish_header = "'k \<Rightarrow> case_header_event \<Rightarrow> unit result \<times> 'k"

definition publish_case_events :: "'k publish_events \<Rightarrow> case_header_event \<Rightarrow> triage_excerpt \<Rightarrow> 'k bus \<Rightarrow> unit result \<times> 'k bus" where
  "publish_case_events send h x b = (case send (bus_state b) h x of
       (r, k) \<Rightarrow> (r, b\<lparr>bus_offered := bus_offered b @ [(h, x)], bus_state := k\<rparr>))"

definition publish_case_header :: "'k publish_header \<Rightarrow> case_header_event \<Rightarrow> 'k bus \<Rightarrow> unit result \<times> 'k bus" where
  "publish_case_header send h b = (case send (bus_state b) h of
       (r, k) \<Rightarrow> (r, b\<lparr>bus_headers := bus_headers b @ [h], bus_state := k\<rparr>))"

record header_publish_evidence =
  hp_case_id :: string
  hp_casefile_object_path :: string
  hp_triage_hash :: string
  hp_published_at :: instant

record events_publish_evidence =
  pe_case_id :: string
  pe_casefile_object_path :: string
  pe_triage_hash :: string
  pe_published_at :: instant
  pe_event_count :: int
  pe_boundary_id :: string
  pe_removed_field_count :: nat

definition publish_boundary_id :: string where
  "publish_boundary_id = ''outbox.triage_excerpt.kafka_publish''"

definition readback_casefile_for_outbox_record ::
  "'s store_get \<Rightarrow> (string \<Rightarrow> string) \<Rightarrow> casefile_codecs \<Rightarrow> outbox_record \<Rightarrow> 's \<Rightarrow> casefile_triage result \<times> 's" where
  "readback_casefile_for_outbox_record get sha256_hex cds r s = (case get (or_casefile_object_path r) s of
       (Inl e, s') \<Rightarrow>
         (if exc_type e = CriticalDependencyError then Inl e
          else raise InvariantViolation ''cannot publish case events before casefile object is readable from storage'', s')
     | (Inr payload, s') \<Rightarrow>
         (case validate_casefile_triage_json sha256_hex cds payload of
            Inl _ \<Rightarrow> raise InvariantViolation ''cannot publish case events because persisted casefile payload failed hash validation''
          | Inr c \<Rightarrow>
              if tg_case_id c \<noteq> or_case_id r then raise InvariantViolation ''persisted casefile case_id does not match outbox record''
              else if tg_triage_hash c \<noteq> or_triage_hash r
              then raise InvariantViolation ''persisted casefile triage_hash does not match outbox record''
              else Inr c, s'))"

definition build_outbox_case_events :: "casefile_triage \<Rightarrow> case_header_event \<times> triage_excerpt" where
  "build_outbox_case_events c =
     (let gi = tg_gate_input c; tc = tg_topology_context c
      in (\<lparr>he_case_id = tg_case_id c, he_env = gi_env gi, he_cluster_id = gi_cluster_id gi, he_stream_id = gi_stream_id gi,
           he_topic = gi_topic gi, he_anomaly_family = gi_anomaly_family gi, he_criticality_tier = ctc_criticality_tier tc,
           he_final_action = ad_final_action (tg_action_decision c), he_routing_key = tx_routing_key (ctc_routing tc),
           he_evaluation_ts = tg_triage_timestamp c\<rparr>,
          \<lparr>xe_case_id = tg_case_id c, xe_env = gi_env gi, xe_cluster_id = gi_cluster_id gi, xe_stream_id = gi_stream_id gi,
           xe_topic = gi_topic gi, xe_anomaly_family = gi_anomaly_family gi, xe_topic_role = ctc_topic_role tc,
           xe_criticality_tier = ctc_criticality_tier tc, xe_routing_key = tx_routing_key (ctc_routing tc),
           xe_sustained = gi_sustained gi, xe_peak = gi_peak gi,
           xe_evidence_status_map = sn_evidence_status_map (tg_evidence_snapshot c), xe_findings = gi_findings gi,
           xe_triage_timestamp = tg_triage_timestamp c\<rparr>))"

definition sanitize_triage_excerpt_for_publish ::
  "(string \<Rightarrow> string \<Rightarrow> bool) \<Rightarrow> triage_excerpt model_codec \<Rightarrow> denylist \<Rightarrow> triage_excerpt \<Rightarrow> (triage_excerpt \<times> nat) result" where
  "sanitize_triage_excerpt_for_publish search xcd d x = (case apply_denylist_with_removed_count search d (mc_dump xcd x) of
       (payload, removed) \<Rightarrow> (case model_validate xcd validate_triage_excerpt payload of
          Inl _ \<Rightarrow> raise DenylistSanitizationError ''triage excerpt denylist sanitization produced schema-invalid payload''
        | Inr sanitized \<Rightarrow> Inr (sanitized, removed)))"

definition resolve_published_at :: "instant \<Rightarrow> py_datetime option \<Rightarrow> instant result" where
  "resolve_published_at clock t = (case t of
       None \<Rightarrow> Inr clock
     | Some (Aware x) \<Rightarrow> Inr x
     | Some (Naive _) \<Rightarrow> raise ValueError ''published_at must be timezone-aware'')"

definition publish_case_header_after_invariant_a ::
  "'s store_get \<Rightarrow> 'k publish_header \<Rightarrow> (string \<Rightarrow> string) \<Rightarrow> casefile_codecs \<Rightarrow> instant \<Rightarrow> outbox_record \<Rightarrow> case_header_event \<Rightarrow>
   py_datetime option \<Rightarrow> 's \<Rightarrow> 'k bus \<Rightarrow> header_publish_evidence result \<times> 's \<times> 'k bus" where
  "publish_case_header_after_invariant_a get send sha256_hex cds clock r h published_at s b =
     (if or_status r \<noteq> READY
      then (raise InvariantViolation (''cannot publish case header from outbox status='' @ outbox_state_value (or_status r) @ ''; expected READY''), s, b)
      else if he_case_id h \<noteq> or_case_id r
      then (raise InvariantViolation ''case_header_event.case_id does not match outbox record case_id'', s, b)
      else case readback_casefile_for_outbox_record get sha256_hex cds r s of
        (Inl e, s1) \<Rightarrow> (Inl e, s1, b)
      | (Inr _, s1) \<Rightarrow> (case publish_case_header send h b of
          (Inl e, b1) \<Rightarrow> (Inl e, s1, b1)
        | (Inr _, b1) \<Rightarrow> (rbind (resolve_published_at clock published_at) (\<lambda>t.
            Inr \<lparr>hp_case_id = or_case_id r, hp_casefile_object_path = or_casefile_object_path r, hp_triage_hash = or_triage_hash r,
                 hp_published_at = t\<rparr>), s1, b1)))"

type_synonym 'a pub_result = "py_exc \<times> string option + 'a"

definition publish_case_events_after_invariant_a ::
  "'s store_get \<Rightarrow> 'k publish_events \<Rightarrow> (string \<Rightarrow> string \<Rightarrow> bool) \<Rightarrow> (string \<Rightarrow> string) \<Rightarrow> casefile_codecs \<Rightarrow> triage_excerpt model_codec \<Rightarrow>
   denylist \<Rightarrow> instant \<Rightarrow> outbox_record \<Rightarrow> py_datetime option \<Rightarrow> 's \<Rightarrow> 'k bus \<Rightarrow> events_publish_evidence pub_result \<times> 's \<times> 'k bus" where
  "publish_case_events_after_invariant_a get send search sha256_hex cds xcd d clock r published_at s b =
     (if or_status r \<notin> {READY, RETRY}
      then (Inl (Exc InvariantViolation (''cannot publish case events from outbox status='' @ outbox_state_value (or_status r) @
              ''; expected READY or RETRY''), None), s, b)
      else case readback_casefile_for_outbox_record get sha256_hex cds r s of
        (Inl e, s1) \<Rightarrow> (Inl (e, None), s1, b)
      | (Inr c, s1) \<Rightarrow>
          (case build_outbox_case_events c of (h, x) \<Rightarrow>
           (case sanitize_triage_excerpt_for_publish search xcd d x of
              Inl e \<Rightarrow> (Inl (e, None), s1, b)
            | Inr (sanitized, removed) \<Rightarrow>
                (case publish_case_events send h sanitized b of
                   (Inl e, b1) \<Rightarrow> (Inl (Exc PublishAfterDenylistError ''case events publish failed after denylist sanitization'',
                                       Some (exc_name (exc_type e))), s1, b1)
                 | (Inr _, b1) \<Rightarrow>
                     (case resolve_published_at clock published_at of
                        Inl e \<Rightarrow> (Inl (e, None), s1, b1)
                      | Inr t \<Rightarrow> (Inr \<lparr>pe_case_id = or_case_id r, pe_casefile_object_path = or_casefile_object_path r,
                                      pe_triage_hash = or_triage_hash r, pe_published_at = t, pe_event_count = 2,
                                      pe_boundary_id = publish_boundary_id, pe_removed_field_count = removed\<rparr>, s1, b1))))))"

section \<open>Outbox stage\<close>

text \<open>The repository is optional; the two transactions of the stage each have their fault.\<close>

definition build_outbox_ready_record ::
  "bool \<Rightarrow> instant \<Rightarrow> string option \<Rightarrow> string option \<Rightarrow> ready_casefile \<Rightarrow> outbox_record list option \<Rightarrow>
   outbox_record result \<times> outbox_record list option" where
  "build_outbox_ready_record tx_aborts clock fault1 fault2 c repo = (case repo of
       None \<Rightarrow> (create_ready_outbox_record clock c None, None)
     | Some tbl \<Rightarrow> (case insert_pending_object tx_aborts clock fault1 c None tbl tbl of
         (Inl e, tbl1) \<Rightarrow> (Inl e, Some tbl1)
       | (Inr _, tbl1) \<Rightarrow> (case transition_to_ready clock fault2 (rc_case_id c) None tbl1 tbl1 of
           (res, tbl2) \<Rightarrow> (res, Some tbl2))))"

definition build_outbox_ready_transition_payload ::
  "bool \<Rightarrow> instant \<Rightarrow> string option \<Rightarrow> string option \<Rightarrow> ready_casefile \<Rightarrow> outbox_record list option \<Rightarrow>
   (string, string) pydict result \<times> outbox_record list option" where
  "build_outbox_ready_transition_payload tx_aborts clock fault1 fault2 c repo =
     (case build_outbox_ready_record tx_aborts clock fault1 fault2 c repo of
        (res, repo') \<Rightarrow> (rbind res (\<lambda>r. Inr [(''status'', outbox_state_value (or_status r)), (''case_id'', or_case_id r),
           (''casefile_object_path'', or_casefile_object_path r), (''triage_hash'', or_triage_hash r)]), repo'))"

definition publish_case_header_after_confirmed_casefile ::
  "'s store_get \<Rightarrow> 'k publish_header \<Rightarrow> (string \<Rightarrow> string) \<Rightarrow> casefile_codecs \<Rightarrow> bool \<Rightarrow> instant \<Rightarrow> string option \<Rightarrow> string option \<Rightarrow>
   string option \<Rightarrow> ready_casefile \<Rightarrow> case_header_event \<Rightarrow> outbox_record list option \<Rightarrow> 's \<Rightarrow> 'k bus \<Rightarrow>
   header_publish_evidence result \<times> outbox_record list option \<times> 's \<times> 'k bus" where
  "publish_case_header_after_confirmed_casefile get send sha256_hex cds tx_aborts clock fault1 fault2 fault3 c h repo s b =
     (case build_outbox_ready_record tx_aborts clock fault1 fault2 c repo of
        (Inl e, repo1) \<Rightarrow> (Inl e, repo1, s, b)
      | (Inr r, repo1) \<Rightarrow>
          (case publish_case_header_after_invariant_a get send sha256_hex cds clock r h None s b of
             (Inl e, s1, b1) \<Rightarrow> (Inl e, repo1, s1, b1)
           | (Inr evidence, s1, b1) \<Rightarrow>
               (case repo1 of
                  None \<Rightarrow> (Inr evidence, None, s1, b1)
                | Some tbl \<Rightarrow> (case transition_to_sent clock fault3 (or_case_id r) None tbl tbl of
                    (res, tbl') \<Rightarrow> (rbind res (\<lambda>_. Inr evidence), Some tbl', s1, b1)))))"

section \<open>Backlog health\<close>

record threshold_breach =
  tb_state :: string
  tb_severity :: string
  tb_actual_value :: pyfloat
  tb_threshold_value :: pyfloat

definition state_age_rows :: "outbox_policy \<Rightarrow> outbox_health_snapshot \<Rightarrow> (string \<times> pyfloat \<times> state_age_threshold) list" where
  "state_age_rows p h =
     [(''PENDING_OBJECT'', hs_oldest_pending_object_age_seconds h, op_pending_object p),
      (''READY'', hs_oldest_ready_age_seconds h, op_ready p), (''RETRY'', hs_oldest_retry_age_seconds h, op_retry p)]"

definition dead_threshold :: "outbox_policy \<Rightarrow> string \<Rightarrow> int" where
  "dead_threshold p app_env = (case dict_get (op_dead_count_critical_threshold p) app_env of Some n \<Rightarrow> n | None \<Rightarrow> 0)"

fun age_severity :: "(string \<times> pyfloat \<times> state_age_threshold) list \<Rightarrow> string \<Rightarrow> string option" where
  "age_severity [] severity = Some severity"
| "age_severity ((_, age, th) # rest) severity =
     (if fl_lt (critical_seconds th) age then None
      else age_severity rest (case warning_seconds th of Some w \<Rightarrow> if fl_lt w age then ''warning'' else severity | None \<Rightarrow> severity))"

text \<open>\<open>None\<close> is the early return of \<open>critical\<close>.\<close>

definition resolve_backlog_health_severity :: "outbox_policy \<Rightarrow> string \<Rightarrow> outbox_health_snapshot \<Rightarrow> string" where
  "resolve_backlog_health_severity p app_env h = (case age_severity (state_age_rows p h) ''info'' of
       None \<Rightarrow> ''critical''
     | Some severity \<Rightarrow>
         if dead_threshold p app_env < hs_dead_count h then (if app_env = ''prod'' then ''critical'' else ''warning'') else severity)"

definition state_age_breach :: "alert_evaluator option \<Rightarrow> string \<times> pyfloat \<times> state_age_threshold \<Rightarrow> threshold_breach option result" where
  "state_age_breach av row = (case row of (state, age, th) \<Rightarrow>
     (case (if fl_lt (critical_seconds th) age then Some (''critical'', critical_seconds th)
            else case warning_seconds th of Some w \<Rightarrow> if fl_lt w age then Some (''warning'', w) else None | None \<Rightarrow> None) of
        None \<Rightarrow> Inr None
      | Some (severity, threshold) \<Rightarrow>
          rbind (case av of None \<Rightarrow> Inr None
                 | Some a \<Rightarrow> evaluate_outbox_state_age a state age (warning_seconds th) (critical_seconds th)) (\<lambda>_.
            Inr (Some \<lparr>tb_state = state, tb_severity = severity, tb_actual_value = age, tb_threshold_value = threshold\<rparr>))))"

definition emit_state_age_threshold_breaches ::
  "outbox_policy \<Rightarrow> alert_evaluator option \<Rightarrow> outbox_health_snapshot \<Rightarrow> threshold_breach list result" where
  "emit_state_age_threshold_breaches p av h =
     rbind (rmap_list (state_age_breach av) (state_age_rows p h)) (\<lambda>bs. Inr (List.map_filter id bs))"

definition emit_dead_count_threshold_breach ::
  "outbox_policy \<Rightarrow> string \<Rightarrow> alert_evaluator option \<Rightarrow> outbox_health_snapshot \<Rightarrow> threshold_breach list result" where
  "emit_dead_count_threshold_breach p app_env av h =
     (if hs_dead_count h \<le> dead_threshold p app_env then Inr []
      else rbind (fl_of_int (hs_dead_count h)) (\<lambda>actual.
           rbind (fl_of_int (dead_threshold p app_env)) (\<lambda>threshold.
           rbind (case av of None \<Rightarrow> Inr None | Some a \<Rightarrow> evaluate_outbox_dead_count a (hs_dead_count h) (dead_threshold p app_env)) (\<lambda>_.
             Inr [\<lparr>tb_state = ''DEAD'', tb_severity = (if app_env = ''prod'' then ''critical'' else ''warning''),
                   tb_actual_value = actual, tb_threshold_value = threshold\<rparr>]))))"

section \<open>Delivery latency\<close>

definition latency_sample_window :: nat where
  "latency_sample_window = 1000"

definition record_delivery_latency_sample :: "pyfloat \<Rightarrow> pyfloat list \<Rightarrow> pyfloat list" where
  "record_delivery_latency_sample secs samples =
     (let samples' = samples @ [py_max secs [Fin 0]]
      in if latency_sample_window < length samples' then drop (length samples' - latency_sample_window) samples' else samples')"

definition worker_percentile :: "pyfloat list \<Rightarrow> pyfloat \<Rightarrow> pyfloat result" where
  "worker_percentile values percentile =
     (if values = [] then Inr (Fin 0)
      else if fl_le percentile (Fin 0) then Inr (py_min (hd values) (tl values))
      else if fl_le (Fin 1) percentile then Inr (py_max (hd values) (tl values))
      else rbind (fl_of_int (int (length values))) (\<lambda>n. rbind (ceil_of_fl (fl_mul percentile n)) (\<lambda>rank.
        Inr (sort_key fin_val values ! nat (min (max (rank - 1) 0) (int (length values) - 1))))))"

definition evaluate_delivery_slo :: "delivery_slo_thresholds \<Rightarrow> pyfloat list \<Rightarrow> threshold_breach list result" where
  "evaluate_delivery_slo slo samples =
     (if samples = [] then Inr []
      else rbind (worker_percentile samples (fl_round (95 / 100))) (\<lambda>p95.
           rbind (worker_percentile samples (fl_round (99 / 100))) (\<lambda>p99.
           Inr ((if fl_lt (p95_target_seconds slo) p95
                 then [\<lparr>tb_state = ''DELIVERY_SLO_P95'', tb_severity = ''warning'', tb_actual_value = p95, tb_threshold_value = p95_target_seconds slo\<rparr>]
                 else []) @
                (if fl_lt (p99_critical_seconds slo) p99
                 then [\<lparr>tb_state = ''DELIVERY_SLO_P99'', tb_severity = ''critical'', tb_actual_value = p99, tb_threshold_value = p99_critical_seconds slo\<rparr>]
                 else if fl_lt (p99_target_seconds slo) p99
                 then [\<lparr>tb_state = ''DELIVERY_SLO_P99'', tb_severity = ''warning'', tb_actual_value = p99, tb_threshold_value = p99_target_seconds slo\<rparr>]
                 else [])))))"

section \<open>Worker\<close>

record outbox_worker =
  wk_denylist :: denylist
  wk_policy :: outbox_policy
  wk_app_env :: string
  wk_alert_evaluator :: "alert_evaluator option"
  wk_batch_size :: int
  wk_poll_interval_seconds :: pyfloat

definition new_outbox_worker :: "outbox_worker \<Rightarrow> outbox_worker result" where
  "new_outbox_worker w =
     (if wk_batch_size w \<le> 0 then raise ValueError ''batch_size must be > 0''
      else if fl_le (wk_poll_interval_seconds w) (Fin 0) then raise ValueError ''poll_interval_seconds must be > 0''
      else Inr w)"

record worker_iteration_result =
  wi_scanned_count :: nat
  wi_sent_count :: nat
  wi_failed_count :: nat

text \<open>What the worker acts on: the object store, the outbox table with the faults of its coming transactions, Kafka, and its latency samples.\<close>

record ('s, 'k) worker_world =
  ww_store :: 's
  ww_rows :: "outbox_record list"
  ww_faults :: "string option list"
  ww_bus :: "'k bus"
  ww_samples :: "pyfloat list"

definition next_tx_fault :: "('s, 'k) worker_world \<Rightarrow> string option \<times> ('s, 'k) worker_world" where
  "next_tx_fault w = (case ww_faults w of [] \<Rightarrow> (None, w) | f # fs \<Rightarrow> (f, w\<lparr>ww_faults := fs\<rparr>))"

text \<open>The \<open>except\<close> branch: the failure is persisted; if that raises, the iteration ends with the exception.\<close>

definition record_failure ::
  "(string \<Rightarrow> nat list) \<Rightarrow> outbox_worker \<Rightarrow> instant \<Rightarrow> string \<Rightarrow> py_exc \<times> string option \<Rightarrow> ('s, 'k) worker_world \<Rightarrow>
   bool result \<times> ('s, 'k) worker_world" where
  "record_failure sha256 wk now cid err w = (case next_tx_fault w of (fault, w1) \<Rightarrow>
     (case transition_publish_failure sha256 now fault cid (wk_policy wk) (wk_app_env wk) (exc_str (fst err))
             (Some (case snd err of Some code \<Rightarrow> code | None \<Rightarrow> exc_name (exc_type (fst err)))) (Some (Aware now)) (ww_rows w1) (ww_rows w1) of
        (res, tbl) \<Rightarrow> (rbind res (\<lambda>_. Inr False), w1\<lparr>ww_rows := tbl\<rparr>)))"

text \<open>One record: \<open>Inr True\<close> counts as sent, \<open>Inr False\<close> as failed.\<close>

definition process_record ::
  "'s store_get \<Rightarrow> 'k publish_events \<Rightarrow> (string \<Rightarrow> string \<Rightarrow> bool) \<Rightarrow> (string \<Rightarrow> string) \<Rightarrow> (string \<Rightarrow> nat list) \<Rightarrow> casefile_codecs \<Rightarrow>
   triage_excerpt model_codec \<Rightarrow> outbox_worker \<Rightarrow> instant \<Rightarrow> outbox_record \<Rightarrow> ('s, 'k) worker_world \<Rightarrow> bool result \<times> ('s, 'k) worker_world" where
  "process_record get send search sha256_hex sha256 cds xcd wk now r w =
     (case publish_case_events_after_invariant_a get send search sha256_hex cds xcd (wk_denylist wk) now r (Some (Aware now))
             (ww_store w) (ww_bus w) of
        (Inl err, s1, b1) \<Rightarrow> record_failure sha256 wk now (or_case_id r) err (w\<lparr>ww_store := s1, ww_bus := b1\<rparr>)
      | (Inr evidence, s1, b1) \<Rightarrow>
          (case next_tx_fault (w\<lparr>ww_store := s1, ww_bus := b1\<rparr>) of (fault, w1) \<Rightarrow>
           (case transition_to_sent now fault (or_case_id r) (Some (Aware (pe_published_at evidence))) (ww_rows w1) (ww_rows w1) of
              (Inl e, tbl) \<Rightarrow> record_failure sha256 wk now (or_case_id r) (e, None) (w1\<lparr>ww_rows := tbl\<rparr>)
            | (Inr _, tbl) \<Rightarrow>
                (let samples = record_delivery_latency_sample
                       (py_max (total_seconds (pe_published_at evidence - or_created_at r)) [Fin 0]) (ww_samples w1);
                     w2 = w1\<lparr>ww_rows := tbl, ww_samples := samples\<rparr>
                 in case evaluate_delivery_slo (op_delivery_slo (wk_policy wk)) samples of
                      Inl e \<Rightarrow> record_failure sha256 wk now (or_case_id r) (e, None) w2
                    | Inr _ \<Rightarrow> (Inr True, w2)))))"

fun process_records ::
  "(outbox_record \<Rightarrow> ('s, 'k) worker_world \<Rightarrow> bool result \<times> ('s, 'k) worker_world) \<Rightarrow> outbox_record list \<Rightarrow> ('s, 'k) worker_world \<Rightarrow>
   (nat \<times> nat) result \<times> ('s, 'k) worker_world" where
  "process_records f [] w = (Inr (0, 0), w)"
| "process_records f (r # rs) w =
     st_bind (f r w) (\<lambda>ok w. st_bind (process_records f rs w) (\<lambda>(sent, failed) w.
       (Inr (if ok then (sent + 1, failed) else (sent, failed + 1)), w)))"

definition emit_backlog_health_logs ::
  "outbox_worker \<Rightarrow> instant \<Rightarrow> ('s, 'k) worker_world \<Rightarrow> (string \<times> threshold_breach list) result \<times> ('s, 'k) worker_world" where
  "emit_backlog_health_logs wk now w = (case next_tx_fault w of (fault, w1) \<Rightarrow>
     (rbind (select_backlog_health now fault (Some (Aware now)) (ww_rows w1)) (\<lambda>health.
      rbind (emit_state_age_threshold_breaches (wk_policy wk) (wk_alert_evaluator wk) health) (\<lambda>ages.
      rbind (emit_dead_count_threshold_breach (wk_policy wk) (wk_app_env wk) (wk_alert_evaluator wk) health) (\<lambda>dead.
        Inr (resolve_backlog_health_severity (wk_policy wk) (wk_app_env wk) health, ages @ dead)))), w1))"

definition run_once ::
  "'s store_get \<Rightarrow> 'k publish_events \<Rightarrow> (string \<Rightarrow> string \<Rightarrow> bool) \<Rightarrow> (string \<Rightarrow> string) \<Rightarrow> (string \<Rightarrow> nat list) \<Rightarrow> casefile_codecs \<Rightarrow>
   triage_excerpt model_codec \<Rightarrow> outbox_worker \<Rightarrow> instant \<Rightarrow> py_datetime option \<Rightarrow> ('s, 'k) worker_world \<Rightarrow>
   worker_iteration_result result \<times> ('s, 'k) worker_world" where
  "run_once get send search sha256_hex sha256 cds xcd wk clock now w = st_bind (resolve_now clock now, w) (\<lambda>t w.
     case next_tx_fault w of (fault, w1) \<Rightarrow>
     st_bind (select_publishable t fault (Some (Aware t)) (nat (wk_batch_size wk)) (ww_rows w1), w1) (\<lambda>publishable w.
     st_bind (emit_backlog_health_logs wk t w) (\<lambda>_ w.
     st_bind (process_records (process_record get send search sha256_hex sha256 cds xcd wk t) publishable w) (\<lambda>(sent, failed) w.
       (Inr \<lparr>wi_scanned_count = length publishable, wi_sent_count = sent, wi_failed_count = failed\<rparr>, w)))))"

text \<open>
  Specification side. An event pair is backed by a row when it is built from the case file that is stored at the row's path, verifies, and
  has the row's identifier and hash, with the excerpt sanitised; a row is settled when it has moved on by one attempt.
\<close>

definition event_backed ::
  "(string \<Rightarrow> string \<Rightarrow> bool) \<Rightarrow> (string \<Rightarrow> string) \<Rightarrow> casefile_codecs \<Rightarrow> triage_excerpt model_codec \<Rightarrow> denylist \<Rightarrow>
   (string \<Rightarrow> string option) \<Rightarrow> outbox_record \<Rightarrow> case_header_event \<times> triage_excerpt \<Rightarrow> bool" where
  "event_backed search sha256_hex cds xcd d v r hx = (\<exists>p c x0 n. v (or_casefile_object_path r) = Some p \<and>
     validate_casefile_triage_json sha256_hex cds p = Inr c \<and> tg_case_id c = or_case_id r \<and> tg_triage_hash c = or_triage_hash r \<and>
     build_outbox_case_events c = (fst hx, x0) \<and> sanitize_triage_excerpt_for_publish search xcd d x0 = Inr (snd hx, n) \<and>
     or_status r \<in> {READY, RETRY})"

definition settled :: "outbox_record \<Rightarrow> outbox_record \<Rightarrow> bool" where
  "settled r r' = (same_case r r' \<and> or_delivery_attempts r' = or_delivery_attempts r + 1 \<and> or_status r' \<in> {SENT, RETRY, DEAD})"

section \<open>Invariant A\<close>

context object_store
begin

lemma readback_ok:
  assumes "readback_casefile_for_outbox_record get sha256_hex cds r s = (res, s')"
  shows "view s' = view s" "res = Inr c \<Longrightarrow> \<exists>p. view s (or_casefile_object_path r) = Some p \<and>
    validate_casefile_triage_json sha256_hex cds p = Inr c \<and> tg_case_id c = or_case_id r \<and> tg_triage_hash c = or_triage_hash r"
  using assms
  by (auto simp: readback_casefile_for_outbox_record_def raise_def dest: get_effect get_stored split: prod.splits sum.splits if_splits)

lemma publish_backed:
  assumes "publish_case_events_after_invariant_a get send search sha256_hex cds xcd d clock r t s b = (res, s', b')"
  shows "view s' = view s \<and> (\<exists>new. bus_offered b' = bus_offered b @ new \<and>
    (\<forall>hx \<in> set new. event_backed search sha256_hex cds xcd d (view s) r hx))"
proof (cases "or_status r \<in> {READY, RETRY}")
  case False
  then show ?thesis using assms by (auto simp: publish_case_events_after_invariant_a_def)
next
  case True
  obtain res1 s1 where rb: "readback_casefile_for_outbox_record get sha256_hex cds r s = (res1, s1)"
    by (cases "readback_casefile_for_outbox_record get sha256_hex cds r s")
  note view1 = readback_ok(1) [OF rb]
  show ?thesis
  proof (cases res1)
    case (Inl e)
    then show ?thesis using assms True rb view1 by (auto simp: publish_case_events_after_invariant_a_def)
  next
    case (Inr c)
    obtain h x0 where hx: "build_outbox_case_events c = (h, x0)" by (cases "build_outbox_case_events c")
    show ?thesis
    proof (cases "sanitize_triage_excerpt_for_publish search xcd d x0")
      case (Inl e)
      then show ?thesis using assms True rb view1 \<open>res1 = Inr c\<close> hx by (auto simp: publish_case_events_after_invariant_a_def)
    next
      case (Inr xn)
      obtain x n where xn: "xn = (x, n)" by (cases xn)
      have "s' = s1 \<and> bus_offered b' = bus_offered b @ [(h, x)]"
        using assms True rb \<open>res1 = Inr c\<close> hx Inr xn
        by (auto simp: publish_case_events_after_invariant_a_def publish_case_events_def split: prod.splits sum.splits)
      moreover have "event_backed search sha256_hex cds xcd d (view s) r (h, x)"
        using readback_ok(2) [OF rb \<open>res1 = Inr c\<close>] hx Inr xn True by (auto simp: event_backed_def)
      ultimately show ?thesis using view1 by auto
    qed
  qed
qed

end

lemma next_tx_fault_frame:
  "next_tx_fault w = (f, w') \<Longrightarrow> ww_store w' = ww_store w \<and> ww_bus w' = ww_bus w \<and> ww_rows w' = ww_rows w \<and> ww_samples w' = ww_samples w"
  by (auto simp: next_tx_fault_def split: list.splits)

lemma record_failure_frame:
  "record_failure sha256 wk now cid err w = (res, w') \<Longrightarrow> ww_store w' = ww_store w \<and> ww_bus w' = ww_bus w"
  by (auto simp: record_failure_def dest: next_tx_fault_frame split: prod.splits)

lemma process_record_frame:
  assumes "process_record get send search sha256_hex sha256 cds xcd wk now r w = (res, w')"
  shows "\<exists>pr. publish_case_events_after_invariant_a get send search sha256_hex cds xcd (wk_denylist wk) now r (Some (Aware now))
    (ww_store w) (ww_bus w) = (pr, ww_store w', ww_bus w')"
proof -
  obtain pr s1 b1 where p: "publish_case_events_after_invariant_a get send search sha256_hex cds xcd (wk_denylist wk) now r (Some (Aware now))
    (ww_store w) (ww_bus w) = (pr, s1, b1)" by (cases "publish_case_events_after_invariant_a get send search sha256_hex cds xcd (wk_denylist wk)
      now r (Some (Aware now)) (ww_store w) (ww_bus w)") auto
  with assms have "ww_store w' = s1 \<and> ww_bus w' = b1"
    by (auto simp: process_record_def Let_def dest!: record_failure_frame next_tx_fault_frame split: sum.splits prod.splits)
  with p show ?thesis by simp
qed

lemma list_all2_eq_all: "list_all2 (\<lambda>x y. x = y \<and> P y) xs ys \<Longrightarrow> ys = xs \<and> list_all P ys"
  by (induction xs arbitrary: ys) (auto simp: list_all2_Cons1)

lemma select_publishable_rows:
  assumes "select_publishable clock fault now limit tbl = Inr rows"
  obtains t where "fault = None" "resolve_now clock now = Inr t" "rows = take limit (sort_key or_updated_at (filter (is_publishable t) tbl))"
    "list_all (\<lambda>r. is_ok (validate_outbox_record r)) rows"
proof -
  from assms obtain t where t: "resolve_now clock now = Inr t" "fault = None"
    and r: "rmap_list row_to_record (take limit (sort_key or_updated_at (filter (is_publishable t) tbl))) = Inr rows"
    by (auto simp: select_publishable_def read_tx_def elim!: rbind_InrE split: option.splits sum.splits)
  from r have "list_all2 (\<lambda>x y. x = y \<and> is_ok (validate_outbox_record y)) (take limit (sort_key or_updated_at (filter (is_publishable t) tbl))) rows"
    unfolding rmap_list_Inr
    by (rule list_all2_mono) (auto simp: row_to_record_def validate_outbox_record_def split: if_splits)
  then have "rows = take limit (sort_key or_updated_at (filter (is_publishable t) tbl))" "list_all (\<lambda>r. is_ok (validate_outbox_record r)) rows"
    by (auto dest!: list_all2_eq_all)
  from t(2,1) this show thesis by (rule that)
qed

lemma emit_backlog_frame:
  "emit_backlog_health_logs wk now w = (res, w') \<Longrightarrow> ww_store w' = ww_store w \<and> ww_bus w' = ww_bus w \<and> ww_rows w' = ww_rows w"
  by (auto simp: emit_backlog_health_logs_def dest: next_tx_fault_frame split: prod.splits)

text \<open>The shape of an iteration: it ends early without touching anything but the fault schedule, or it processes the selected rows.\<close>

lemma run_once_cases:
  assumes "run_once get send search sha256_hex sha256 cds xcd wk clock now w = (res, w')"
  obtains (early) e where "res = Inl e" "ww_store w' = ww_store w" "ww_bus w' = ww_bus w" "ww_rows w' = ww_rows w"
  | (rows) t fault w1 rows h w2 res2 where "resolve_now clock now = Inr t" "next_tx_fault w = (fault, w1)"
      "select_publishable t fault (Some (Aware t)) (nat (wk_batch_size wk)) (ww_rows w1) = Inr rows"
      "emit_backlog_health_logs wk t w1 = (Inr h, w2)"
      "process_records (process_record get send search sha256_hex sha256 cds xcd wk t) rows w2 = (res2, w')"
      "res = rbind res2 (\<lambda>(sent, failed). Inr \<lparr>wi_scanned_count = length rows, wi_sent_count = sent, wi_failed_count = failed\<rparr>)"
proof (cases "resolve_now clock now")
  case (Inl e)
  then show thesis using assms early by (auto simp: run_once_def)
next
  case (Inr t)
  note t = this
  obtain fault w1 where f: "next_tx_fault w = (fault, w1)" by (cases "next_tx_fault w")
  note fr = next_tx_fault_frame [OF f]
  show thesis
  proof (cases "select_publishable t fault (Some (Aware t)) (nat (wk_batch_size wk)) (ww_rows w1)")
    case (Inl e)
    then show thesis using assms t f fr early by (auto simp: run_once_def)
  next
    case (Inr rs)
    note rs = this
    obtain hr w2 where h: "emit_backlog_health_logs wk t w1 = (hr, w2)" by (cases "emit_backlog_health_logs wk t w1")
    show thesis
    proof (cases hr)
      case (Inl e)
      then show thesis using assms t f rs h fr emit_backlog_frame [OF h] early by (auto simp: run_once_def)
    next
      case (Inr hh)
      obtain res2 w3 where p: "process_records (process_record get send search sha256_hex sha256 cds xcd wk t) rs w2 = (res2, w3)"
        by (cases "process_records (process_record get send search sha256_hex sha256 cds xcd wk t) rs w2")
      have "w' = w3" "res = rbind res2 (\<lambda>(sent, failed). Inr \<lparr>wi_scanned_count = length rs, wi_sent_count = sent, wi_failed_count = failed\<rparr>)"
        using assms t f rs h Inr p by (cases res2; auto simp: run_once_def split: prod.splits)+
      then show thesis using rows [OF t f rs h [unfolded Inr]] p by simp
    qed
  qed
qed

context object_store
begin

lemma process_records_backed:
  assumes "process_records (process_record get send search sha256_hex sha256 cds xcd wk now) rs w = (res, w')"
  shows "view (ww_store w') = view (ww_store w) \<and> (\<exists>new. bus_offered (ww_bus w') = bus_offered (ww_bus w) @ new \<and>
    (\<forall>hx \<in> set new. \<exists>r \<in> set rs. event_backed search sha256_hex cds xcd (wk_denylist wk) (view (ww_store w)) r hx))"
  using assms
proof (induction rs arbitrary: w res w')
  case (Cons r rs)
  let ?f = "process_record get send search sha256_hex sha256 cds xcd wk now"
  obtain res1 w1 where f: "?f r w = (res1, w1)" by (cases "?f r w")
  from process_record_frame [OF f] obtain pr where
    "publish_case_events_after_invariant_a get send search sha256_hex cds xcd (wk_denylist wk) now r (Some (Aware now))
      (ww_store w) (ww_bus w) = (pr, ww_store w1, ww_bus w1)" by blast
  from publish_backed [OF this] obtain n1 where one: "view (ww_store w1) = view (ww_store w)"
    "bus_offered (ww_bus w1) = bus_offered (ww_bus w) @ n1"
    "\<forall>hx \<in> set n1. event_backed search sha256_hex cds xcd (wk_denylist wk) (view (ww_store w)) r hx" by blast
  show ?case
  proof (cases res1)
    case (Inl e)
    then have "w' = w1" using Cons.prems f by simp
    then show ?thesis using one by auto
  next
    case (Inr ok)
    obtain res2 w2 where rest: "process_records ?f rs w1 = (res2, w2)" by (cases "process_records ?f rs w1")
    then have "w' = w2" using Cons.prems f Inr by (cases res2) (auto split: prod.splits)
    with Cons.IH [OF rest] one show ?thesis by auto
  qed
qed simp

lemma run_once_backed:
  assumes "run_once get send search sha256_hex sha256 cds xcd wk clock now w = (res, w')"
  shows "view (ww_store w') = view (ww_store w) \<and> (\<exists>new. bus_offered (ww_bus w') = bus_offered (ww_bus w) @ new \<and>
    (\<forall>hx \<in> set new. \<exists>r \<in> set (ww_rows w). event_backed search sha256_hex cds xcd (wk_denylist wk) (view (ww_store w)) r hx))"
  using assms
proof (cases rule: run_once_cases)
  case early
  then show ?thesis by simp
next
  case (rows t fault w1 rows h w2 res2)
  have "set rows \<subseteq> set (ww_rows w1)" by (rule select_publishable_rows [OF rows(3)]) (auto dest: in_set_takeD)
  with process_records_backed [OF rows(5)] next_tx_fault_frame [OF rows(2)] emit_backlog_frame [OF rows(4)] show ?thesis by simp blast
qed

end

section \<open>Progress\<close>

lemma percentile_total:
  assumes "0 \<le> q" "q \<le> 1" "int (length values) < 2 ^ 53"
  shows "\<exists>x. worker_percentile values (fl_round q) = Inr x"
proof -
  obtain v where v: "fl_round q = Fin v" "0 \<le> v" "v \<le> 1"
    by (rule fl_round_between [of q 1]) (use assms(1,2) in auto)
  have "v * of_int (int (length values)) \<le> of_int (int (length values))" using v(2,3) by (simp add: mult_left_le_one_le)
  moreover have "0 \<le> v * of_int (int (length values))" using v(2) by simp
  ultimately obtain u where u: "fl_round (v * of_int (int (length values))) = Fin u"
    using assms(3) by (metis fl_round_between)
  have "fl_of_int (int (length values)) = Inr (Fin (of_int (int (length values))))"
    using fl_round_of_int [of "int (length values)"] assms(3) by (simp add: fl_of_int_def)
  then show ?thesis using v(1) u by (simp add: worker_percentile_def)
qed

lemma slo_total:
  assumes "int (length samples) < 2 ^ 53"
  shows "\<exists>bs. evaluate_delivery_slo slo samples = Inr bs"
  using percentile_total [of "95 / 100" samples] percentile_total [of "99 / 100" samples] assms
  by (auto simp: evaluate_delivery_slo_def)

lemma sample_window: "length (record_delivery_latency_sample x samples) \<le> max 1000 (length samples)"
  by (simp add: record_delivery_latency_sample_def Let_def latency_sample_window_def)

text \<open>On a healthy database a guarded write of a valid next record replaces the row and nothing else.\<close>

lemma guarded_write:
  assumes "tbl_get or_case_id tbl cid = Some cur" "same_case cur nxt" "is_ok (validate_outbox_record nxt)"
  shows "\<exists>tbl'. write_transition tbl cid nxt [or_status cur] = (Inr nxt, tbl') \<and> map or_case_id tbl' = map or_case_id tbl \<and>
    (\<forall>j. tbl_get or_case_id tbl' j = (if j = cid then Some nxt else tbl_get or_case_id tbl j))"
proof -
  obtain out tbl1 where u: "tbl_update or_case_id or_status write_columns tbl cid [or_status cur] nxt = (out, tbl1)" by fastforce
  have id: "or_case_id nxt = cid" using tbl_get_Some [OF assms(1)] assms(2) by (simp add: same_case_def)
  have n: "write_columns cur nxt = nxt" by (rule write_columns_same_case [OF assms(2)])
  have v: "row_to_record nxt = Inr nxt"
    using assms(3) by (auto simp: row_to_record_def validate_outbox_record_def split: if_splits)
  from u id show ?thesis
  proof (rule outbox_tbl.update_cases)
    fix q
    assume "out = Some (write_columns q nxt)" "tbl_get or_case_id tbl cid = Some q"
      "\<And>j. tbl_get or_case_id tbl1 j = (if j = cid then Some (write_columns q nxt) else tbl_get or_case_id tbl j)"
      "map or_case_id tbl1 = map or_case_id tbl"
    then show ?thesis using u assms(1) n v by (simp add: write_transition_def)
  qed (use assms(1) in auto)
qed

lemma sent_healthy:
  assumes row: "tbl_get or_case_id tbl cid = Some r" and st: "or_status r \<in> {READY, RETRY}" and v: "is_ok (validate_outbox_record r)"
  shows "\<exists>r' tbl'. transition_to_sent clock None cid (Some (Aware t)) tbl tbl = (Inr r', tbl') \<and> settled r r' \<and> or_status r' = SENT \<and>
    map or_case_id tbl' = map or_case_id tbl \<and> (\<forall>j. tbl_get or_case_id tbl' j = (if j = cid then Some r' else tbl_get or_case_id tbl j))"
proof -
  obtain nxt where m: "mark_outbox_record_sent clock r (Some (Aware t)) = Inr nxt"
    using st by (cases "t < or_updated_at r") (auto simp: mark_outbox_record_sent_def resolve_transition_now_def resolve_now_def)
  then have n: "settled r nxt" "or_status nxt = SENT" "is_ok (validate_outbox_record nxt)"
    using v by (auto simp: settled_def same_case_def validate_ok_iff elim!: mark_sent_ok)
  from guarded_write [OF row _ n(3)] n(1) obtain tbl' where w: "write_transition tbl cid nxt [or_status r] = (Inr nxt, tbl')"
    "map or_case_id tbl' = map or_case_id tbl" "\<forall>j. tbl_get or_case_id tbl' j = (if j = cid then Some nxt else tbl_get or_case_id tbl j)"
    by (auto simp: settled_def)
  have "require_row tbl cid = Inr r" using row v by (simp add: require_row_ok)
  then have "transition_to_sent clock None cid (Some (Aware t)) tbl tbl = (Inr nxt, tbl')"
    using st m w(1) by (auto simp: transition_to_sent_def resolve_now_def run_tx_def)
  then show ?thesis using n w(2,3) by blast
qed

lemma failure_healthy:
  assumes row: "tbl_get or_case_id tbl cid = Some r" and st: "or_status r \<in> {READY, RETRY}" and v: "is_ok (validate_outbox_record r)"
    and m: "resolve_max_retry_attempts policy app_env = Inr m"
  shows "\<exists>r' tbl'. transition_publish_failure sha256 clock None cid policy app_env msg code (Some (Aware t)) tbl tbl = (Inr r', tbl') \<and>
    settled r r' \<and> or_status r' \<noteq> SENT \<and> map or_case_id tbl' = map or_case_id tbl \<and>
    (\<forall>j. tbl_get or_case_id tbl' j = (if j = cid then Some r' else tbl_get or_case_id tbl j))"
proof -
  have eq: "resolve_transition_now clock r (Some (Aware t)) = resolve_transition_now t r None"
    by (simp add: resolve_transition_now_def resolve_now_def)
  have "0 \<le> or_delivery_attempts r" using v by (simp add: validate_ok_iff)
  from failure_total [OF st this m, of sha256 t msg code] obtain nxt where
    "mark_outbox_record_publish_failure sha256 t r policy app_env msg code None = Inr nxt" by blast
  then have f: "mark_outbox_record_publish_failure sha256 clock r policy app_env msg code (Some (Aware t)) = Inr nxt"
    unfolding mark_outbox_record_publish_failure_def eq .
  have n: "settled r nxt" "or_status nxt \<noteq> SENT" "is_ok (validate_outbox_record nxt)"
    by (rule mark_failure_ok [OF f m]; use v in \<open>auto simp: settled_def same_case_def validate_ok_iff\<close>)+
  from guarded_write [OF row _ n(3)] n(1) obtain tbl' where w: "write_transition tbl cid nxt [or_status r] = (Inr nxt, tbl')"
    "map or_case_id tbl' = map or_case_id tbl" "\<forall>j. tbl_get or_case_id tbl' j = (if j = cid then Some nxt else tbl_get or_case_id tbl j)"
    by (auto simp: settled_def)
  have "require_row tbl cid = Inr r" using row v by (simp add: require_row_ok)
  then have "transition_publish_failure sha256 clock None cid policy app_env msg code (Some (Aware t)) tbl tbl = (Inr nxt, tbl')"
    using st f w(1) by (auto simp: transition_publish_failure_def resolve_now_def run_tx_def)
  then show ?thesis using n w(2,3) by blast
qed

text \<open>One record on a healthy database: it is settled, as sent exactly if the step reports success, and nothing else changes.\<close>

definition settles :: "(bool result \<times> ('s, 'k) worker_world) \<Rightarrow> outbox_record \<Rightarrow> ('s, 'k) worker_world \<Rightarrow> bool" where
  "settles out r w = (\<exists>ok w' r'. out = (Inr ok, w') \<and> settled r r' \<and> (ok \<longleftrightarrow> or_status r' = SENT) \<and> ww_faults w' = [] \<and>
     length (ww_samples w') \<le> max 1000 (length (ww_samples w)) \<and> map or_case_id (ww_rows w') = map or_case_id (ww_rows w) \<and>
     (\<forall>j. tbl_get or_case_id (ww_rows w') j = (if j = or_case_id r then Some r' else tbl_get or_case_id (ww_rows w) j)))"

lemma settles_frame: "\<lbrakk>ww_rows w1 = ww_rows w; ww_samples w1 = ww_samples w\<rbrakk> \<Longrightarrow> settles out r w1 = settles out r w"
  by (simp add: settles_def)

lemma record_failure_settles:
  assumes "tbl_get or_case_id (ww_rows w) (or_case_id r) = Some r" "or_status r \<in> {READY, RETRY}" "is_ok (validate_outbox_record r)"
    "resolve_max_retry_attempts (wk_policy wk) (wk_app_env wk) = Inr m" "ww_faults w = []"
  shows "settles (record_failure sha256 wk now (or_case_id r) err w) r w"
proof -
  let ?code = "Some (case snd err of Some code \<Rightarrow> code | None \<Rightarrow> exc_name (exc_type (fst err)))"
  from failure_healthy [OF assms(1-4), of sha256 now "exc_str (fst err)" ?code now] obtain r' tbl' where
    "transition_publish_failure sha256 now None (or_case_id r) (wk_policy wk) (wk_app_env wk) (exc_str (fst err)) ?code (Some (Aware now))
       (ww_rows w) (ww_rows w) = (Inr r', tbl')" "settled r r'" "or_status r' \<noteq> SENT" "map or_case_id tbl' = map or_case_id (ww_rows w)"
    "\<forall>j. tbl_get or_case_id tbl' j = (if j = or_case_id r then Some r' else tbl_get or_case_id (ww_rows w) j)" by blast
  then show ?thesis using assms(5) by (auto simp: settles_def record_failure_def next_tx_fault_def)
qed

lemma process_record_settles:
  assumes row: "tbl_get or_case_id (ww_rows w) (or_case_id r) = Some r" "or_status r \<in> {READY, RETRY}" "is_ok (validate_outbox_record r)"
    and m: "resolve_max_retry_attempts (wk_policy wk) (wk_app_env wk) = Inr m" and f: "ww_faults w = []"
    and len: "length (ww_samples w) \<le> 1000"
  shows "settles (process_record get send search sha256_hex sha256 cds xcd wk now r w) r w"
proof -
  obtain pr s1 b1 where p: "publish_case_events_after_invariant_a get send search sha256_hex cds xcd (wk_denylist wk) now r (Some (Aware now))
    (ww_store w) (ww_bus w) = (pr, s1, b1)" by (cases "publish_case_events_after_invariant_a get send search sha256_hex cds xcd (wk_denylist wk)
      now r (Some (Aware now)) (ww_store w) (ww_bus w)") auto
  let ?w1 = "w\<lparr>ww_store := s1, ww_bus := b1\<rparr>"
  show ?thesis
  proof (cases pr)
    case (Inl err)
    have "settles (record_failure sha256 wk now (or_case_id r) err ?w1) r ?w1"
      by (rule record_failure_settles) (use row m f in auto)
    then show ?thesis using p Inl settles_frame [of ?w1 w] by (simp add: process_record_def)
  next
    case (Inr ev)
    from sent_healthy [OF row, of now "pe_published_at ev"] obtain r' tbl' where
      t: "transition_to_sent now None (or_case_id r) (Some (Aware (pe_published_at ev))) (ww_rows w) (ww_rows w) = (Inr r', tbl')"
      "settled r r'" "or_status r' = SENT" "map or_case_id tbl' = map or_case_id (ww_rows w)"
      "\<forall>j. tbl_get or_case_id tbl' j = (if j = or_case_id r then Some r' else tbl_get or_case_id (ww_rows w) j)" by blast
    let ?x = "py_max (total_seconds (pe_published_at ev - or_created_at r)) [Fin 0]"
    have l: "length (record_delivery_latency_sample ?x (ww_samples w)) \<le> 1000" using sample_window [of ?x "ww_samples w"] len by simp
    then obtain bs where "evaluate_delivery_slo (op_delivery_slo (wk_policy wk)) (record_delivery_latency_sample ?x (ww_samples w)) = Inr bs"
      using slo_total [of "record_delivery_latency_sample ?x (ww_samples w)" "op_delivery_slo (wk_policy wk)"] by auto
    then have "process_record get send search sha256_hex sha256 cds xcd wk now r w =
        (Inr True, w\<lparr>ww_store := s1, ww_bus := b1, ww_rows := tbl', ww_samples := record_delivery_latency_sample ?x (ww_samples w)\<rparr>)"
      using p Inr t(1) f by (simp add: process_record_def next_tx_fault_def Let_def)
    then show ?thesis using t(2-) f l unfolding settles_def by (intro exI [of _ True] exI) auto
  qed
qed

lemma process_records_settle:
  assumes step: "\<And>r w. \<lbrakk>tbl_get or_case_id (ww_rows w) (or_case_id r) = Some r; or_status r \<in> {READY, RETRY}; is_ok (validate_outbox_record r);
      ww_faults w = []; length (ww_samples w) \<le> 1000\<rbrakk> \<Longrightarrow> settles (f r w) r w"
    and "\<forall>r \<in> set rs. tbl_get or_case_id (ww_rows w) (or_case_id r) = Some r \<and> or_status r \<in> {READY, RETRY} \<and> is_ok (validate_outbox_record r)"
    and "distinct (map or_case_id rs)" "ww_faults w = []" "length (ww_samples w) \<le> 1000"
  shows "\<exists>sent failed w'. process_records f rs w = (Inr (sent, failed), w') \<and> sent + failed = length rs \<and>
    (\<forall>r \<in> set rs. \<exists>r'. tbl_get or_case_id (ww_rows w') (or_case_id r) = Some r' \<and> settled r r') \<and>
    sent = length (filter (\<lambda>r. map_option or_status (tbl_get or_case_id (ww_rows w') (or_case_id r)) = Some SENT) rs) \<and>
    (\<forall>j. j \<notin> or_case_id ` set rs \<longrightarrow> tbl_get or_case_id (ww_rows w') j = tbl_get or_case_id (ww_rows w) j)"
  using assms(2-)
proof (induction rs arbitrary: w)
  case (Cons r rs)
  have "settles (f r w) r w" by (rule step) (use Cons.prems in auto)
  then obtain ok w1 r' where one: "f r w = (Inr ok, w1)" "settled r r'" "ok \<longleftrightarrow> or_status r' = SENT" "ww_faults w1 = []"
    "length (ww_samples w1) \<le> 1000"
    "\<And>j. tbl_get or_case_id (ww_rows w1) j = (if j = or_case_id r then Some r' else tbl_get or_case_id (ww_rows w) j)"
    using Cons.prems(4) by (auto simp: settles_def)
  have fresh: "or_case_id x \<noteq> or_case_id r" if "x \<in> set rs" for x using Cons.prems(2) that by (auto simp: image_iff)
  have "\<exists>sent failed w'. process_records f rs w1 = (Inr (sent, failed), w') \<and> sent + failed = length rs \<and>
    (\<forall>r \<in> set rs. \<exists>r'. tbl_get or_case_id (ww_rows w') (or_case_id r) = Some r' \<and> settled r r') \<and>
    sent = length (filter (\<lambda>r. map_option or_status (tbl_get or_case_id (ww_rows w') (or_case_id r)) = Some SENT) rs) \<and>
    (\<forall>j. j \<notin> or_case_id ` set rs \<longrightarrow> tbl_get or_case_id (ww_rows w') j = tbl_get or_case_id (ww_rows w1) j)"
    by (rule Cons.IH) (use Cons.prems one fresh in auto)
  then obtain sent failed w' where rest: "process_records f rs w1 = (Inr (sent, failed), w')" "sent + failed = length rs"
    "\<forall>r \<in> set rs. \<exists>r'. tbl_get or_case_id (ww_rows w') (or_case_id r) = Some r' \<and> settled r r'"
    "sent = length (filter (\<lambda>r. map_option or_status (tbl_get or_case_id (ww_rows w') (or_case_id r)) = Some SENT) rs)"
    "\<And>j. j \<notin> or_case_id ` set rs \<Longrightarrow> tbl_get or_case_id (ww_rows w') j = tbl_get or_case_id (ww_rows w1) j" by blast
  have mine: "tbl_get or_case_id (ww_rows w') (or_case_id r) = Some r'" using rest(5) [of "or_case_id r"] Cons.prems(2) one(6) by simp
  show ?case
    using one rest mine by (cases ok) (auto simp: image_iff)
qed simp

end
