(* ===== verification/Casefile_Sample.thy ===== *)
theory Casefile_Sample
  imports Casefile
begin

text \<open>
  Case files to run the model on. The codecs carry, of a triage case file, its hash and timestamp, and of a later stage its own hash
  and that of the triage stage; everything else is fixed. They are enough to tell two case files of one case apart, and \<open>sealed_model\<close> is
  interpreted on them for all four stages of the model.
\<close>

definition case_gate_input :: gate_input where
  "case_gate_input = \<lparr>gi_env = PROD_ENV, gi_cluster_id = ''c1'', gi_stream_id = ''s1'', gi_topic = ''t1'', gi_topic_role = SOURCE_TOPIC,
     gi_anomaly_family = VOLUME_DROP, gi_criticality_tier = TIER_0, gi_proposed_action = OBSERVE, gi_diagnosis_confidence = Fin 0,
     gi_sustained = False, gi_findings = [], gi_evidence_status_map = [], gi_action_fingerprint = ''fp'', gi_consumer_group = None,
     gi_partition_count_observed = None, gi_peak = None, gi_case_id = None, gi_decision_basis = None\<rparr>"

definition case_observe :: action_decision where
  "case_observe = \<lparr>ad_final_action = OBSERVE, ad_env_cap_applied = False, ad_gate_rule_ids = [], ad_gate_reason_codes = [],
     ad_action_fingerprint = ''fp'', ad_postmortem_required = False, ad_postmortem_mode = None, ad_postmortem_reason_codes = []\<rparr>"

definition sample_triage :: "string \<Rightarrow> nat \<Rightarrow> casefile_triage" where
  "sample_triage h t =
     \<lparr>tg_case_id = ''case-prod-c1-t1-222222222222'', tg_scope = [''prod'', ''c1'', ''t1''], tg_triage_timestamp = int t,
      tg_evidence_snapshot = \<lparr>sn_scope = None, sn_rows = [], sn_evidence_status_map = [], sn_telemetry_degraded_active = False,
        sn_max_safe_action = None, sn_peak_context = None\<rparr>,
      tg_topology_context = \<lparr>ctc_stream_id = ''s1'', ctc_topic_role = SOURCE_TOPIC, ctc_criticality_tier = TIER_0, ctc_source_system = None,
        ctc_blast_radius = ''LOCAL_SOURCE_INGESTION'', ctc_downstream_impacts = [],
        ctc_routing = \<lparr>tx_lookup_level = ''topic_owner'', tx_routing_key = ''team'', tx_owning_team_id = ''team'', tx_owning_team_name = ''Team'',
          tx_support_channel = None, tx_escalation_policy_ref = None, tx_service_now_assignment_group = None\<rparr>\<rparr>,
      tg_gate_input = case_gate_input, tg_action_decision = case_observe,
      tg_policy_versions = \<lparr>cv_rulebook_version = ''1'', cv_peak_policy_version = ''v1'', cv_prometheus_metrics_contract_version = ''1.0.0'',
        cv_exposure_denylist_version = ''1.0.0'', cv_diagnosis_policy_version = ''v1''\<rparr>,
      tg_triage_hash = h\<rparr>"

definition sample_diagnosis :: "string \<Rightarrow> string \<Rightarrow> casefile_diagnosis" where
  "sample_diagnosis h th =
     \<lparr>dg_case_id = ''case-prod-c1-t1-222222222222'',
      dg_diagnosis_report = \<lparr>dx_case_id = None, dx_verdict = ''UNKNOWN'', dx_fault_domain = None, dx_confidence = CONFIDENCE_LOW,
        dx_evidence_pack = \<lparr>ep_facts = [], ep_missing_evidence = [], ep_matched_rules = []\<rparr>, dx_next_checks = [], dx_gaps = [],
        dx_reason_codes = [], dx_triage_hash = None\<rparr>,
      dg_triage_hash = th, dg_diagnosis_hash = h\<rparr>"

definition sample_linkage :: "string \<Rightarrow> string \<Rightarrow> casefile_linkage" where
  "sample_linkage h th =
     \<lparr>ln_case_id = ''case-prod-c1-t1-222222222222'', ln_linkage_status = ''linked'', ln_linkage_reason = ''matched'', ln_incident_sys_id = Some ''INC1'',
      ln_problem_sys_id = None, ln_problem_external_id = None, ln_pir_task_sys_ids = [], ln_pir_task_external_ids = [],
      ln_triage_hash = th, ln_diagnosis_hash = None, ln_linkage_hash = h\<rparr>"

definition sample_labels :: "string \<Rightarrow> string \<Rightarrow> casefile_labels" where
  "sample_labels h th =
     \<lparr>lb_case_id = ''case-prod-c1-t1-222222222222'',
      lb_label_data = \<lparr>ld_owner_confirmed = Some True, ld_resolution_category = None, ld_false_positive = None, ld_missing_evidence_reason = None\<rparr>,
      lb_triage_hash = th, lb_diagnosis_hash = None, lb_labels_hash = h\<rparr>"

definition load_two_hashes :: "string \<Rightarrow> (string \<Rightarrow> string \<Rightarrow> 'c) \<Rightarrow> (string, jval) pydict \<Rightarrow> 'c result" where
  "load_two_hashes k mk p = (case (dict_get p k, dict_get p ''triage_hash'') of
       (Some (JStr h), Some (JStr th)) \<Rightarrow> Inr (mk h th) | _ \<Rightarrow> raise ValueError ''Field required'')"

definition two_hash_codec :: "string \<Rightarrow> ('c \<Rightarrow> string) \<Rightarrow> ('c \<Rightarrow> string) \<Rightarrow> (string \<Rightarrow> string \<Rightarrow> 'c) \<Rightarrow> 'c model_codec" where
  "two_hash_codec k own triage mk =
     \<lparr>mc_dump = (\<lambda>c. [(k, JStr (own c)), (''triage_hash'', JStr (triage c))]), mc_load = load_two_hashes k mk,
      mc_dump_json = (\<lambda>c. own c @ triage c), mc_load_json = (\<lambda>s. Inr (mk (take 64 s) (drop 64 s)))\<rparr>"

definition sample_triage_codec :: "casefile_triage model_codec" where
  "sample_triage_codec =
     \<lparr>mc_dump = (\<lambda>c. [(''triage_hash'', JStr (tg_triage_hash c)), (''triage_timestamp'', JInt (tg_triage_timestamp c))]),
      mc_load = (\<lambda>p. case (dict_get p ''triage_hash'', dict_get p ''triage_timestamp'') of
          (Some (JStr h), Some (JInt t)) \<Rightarrow> Inr (sample_triage h (nat t)) | _ \<Rightarrow> raise ValueError ''Field required''),
      mc_dump_json = (\<lambda>c. tg_triage_hash c @ replicate (nat (tg_triage_timestamp c)) (CHR ''x'')),
      mc_load_json = (\<lambda>s. Inr (sample_triage (take 64 s) (length s - 64)))\<rparr>"

definition sample_codecs :: casefile_codecs where
  "sample_codecs =
     \<lparr>cd_triage = sample_triage_codec,
      cd_diagnosis = two_hash_codec ''diagnosis_hash'' dg_diagnosis_hash dg_triage_hash sample_diagnosis,
      cd_linkage = two_hash_codec ''linkage_hash'' ln_linkage_hash ln_triage_hash sample_linkage,
      cd_labels = two_hash_codec ''labels_hash'' lb_labels_hash lb_triage_hash sample_labels\<rparr>"

text \<open>A digest: 64 hex digits that depend on the length of the text.\<close>

definition sample_digest :: "string \<Rightarrow> string" where
  "sample_digest x = replicate 64 (hex_digits ! (length x mod 16))"

definition sample_carried :: "(string \<Rightarrow> 'd \<Rightarrow> 'c) \<Rightarrow> ('d \<Rightarrow> bool) \<Rightarrow> 'c \<Rightarrow> bool" where
  "sample_carried mk ok c = (\<exists>h d. is_hex_64 h \<and> ok d \<and> c = mk h d)"

lemma sample_digest_hex: "is_hex_64 (sample_digest x)"
proof -
  have "hex_digits ! (length x mod 16) \<in> set hex_digits" by (rule nth_mem) (simp add: hex_digits_def)
  then show ?thesis by (simp add: sample_digest_def is_hex_64_def list_all_iff hex_digits_def)
qed

lemma hex_length: "is_hex_64 h \<Longrightarrow> length h = 64"
  by (simp add: is_hex_64_def)

interpretation triage_seal: sealed_model sample_digest "cd_triage sample_codecs" validate_casefile_triage "''triage_hash''" tg_triage_hash
    "\<lambda>c h. c\<lparr>tg_triage_hash := h\<rparr>" "sample_carried sample_triage (\<lambda>_. True)"
  by unfold_locales
    (auto simp: sample_carried_def sample_digest_hex hex_length sample_codecs_def sample_triage_codec_def dict_set_def sample_triage_def
      validate_casefile_triage_def validate_topology_context_def validate_routing_context_def validate_policy_versions_def validate_triage_hash_def
      validate_gate_input_def mk_gate_input_def case_gate_input_def)

interpretation diagnosis_seal: sealed_model sample_digest "cd_diagnosis sample_codecs" validate_casefile_diagnosis "''diagnosis_hash''"
    dg_diagnosis_hash "\<lambda>c h. c\<lparr>dg_diagnosis_hash := h\<rparr>" "sample_carried sample_diagnosis is_hex_64"
  by unfold_locales
    (auto simp: sample_carried_def sample_digest_hex hex_length sample_codecs_def two_hash_codec_def load_two_hashes_def dict_set_def sample_diagnosis_def
      validate_casefile_diagnosis_def validate_diagnosis_report_def validate_hash_field_def)

interpretation linkage_seal: sealed_model sample_digest "cd_linkage sample_codecs" validate_casefile_linkage "''linkage_hash''"
    ln_linkage_hash "\<lambda>c h. c\<lparr>ln_linkage_hash := h\<rparr>" "sample_carried sample_linkage is_hex_64"
  by unfold_locales
    (auto simp: sample_carried_def sample_digest_hex hex_length sample_codecs_def two_hash_codec_def load_two_hashes_def dict_set_def sample_linkage_def
      validate_casefile_linkage_def linkage_statuses_def normalize_optional_id_def normalize_identifier_collection_def
      validate_optional_diagnosis_hash_def validate_hash_field_def py_strip_def py_isspace_def)

interpretation labels_seal: sealed_model sample_digest "cd_labels sample_codecs" validate_casefile_labels "''labels_hash''"
    lb_labels_hash "\<lambda>c h. c\<lparr>lb_labels_hash := h\<rparr>" "sample_carried sample_labels is_hex_64"
  by unfold_locales
    (auto simp: sample_carried_def sample_digest_hex hex_length sample_codecs_def two_hash_codec_def load_two_hashes_def dict_set_def sample_labels_def
      validate_casefile_labels_def validate_optional_diagnosis_hash_def validate_hash_field_def)

end
