(* ===== verification/Rulebook_V1.thy ===== *)
theory Rulebook_V1
  imports Gating
begin

text \<open>
  The rulebook the repository ships (\<open>config/policies/rulebook-v1.yaml\<close>) as a constant of the
  contract types, a direct decision procedure for it (\<open>v1_action\<close>, \<open>v1_final\<close>), and the
  proof that the gate interpreter of \<open>Gating\<close> refines that procedure: one lemma per gate, then
  the composition. Fields of the YAML file the contracts do not declare and the engine does not read
  (\<open>applies_when\<close>, the check parameters of gates other than AG4) are left out.
\<close>

section \<open>The shipped policy\<close>

definition empty_effect :: gate_effect where
  "empty_effect = \<lparr>ef_cap_action_to = None, ef_set_reason_codes = [], ef_set_reason_text = [],
     ef_confidence_floor = None, ef_force_postmortem_mode = None, ef_set_postmortem_required = None,
     ef_set_postmortem_reason_codes = []\<rparr>"

definition empty_effects :: gate_effects where
  "empty_effects = \<lparr>on_fail = None, on_cap_applied = None, on_duplicate = None, on_store_error = None, on_pass = None\<rparr>"

text \<open>The double nearest to 0.6.\<close>

definition float_0_6 :: pyfloat where
  "float_0_6 = Fin (5404319552844595 / 9007199254740992)"

definition ag0_v1 :: gate_spec where
  "ag0_v1 = \<lparr>gs_id = ''AG0'', gs_name = ''Schema & invariants'',
     gs_intent = ''Never page/ticket on malformed or incomplete decision inputs.'',
     gs_effect = empty_effects\<lparr>on_fail := Some (empty_effect\<lparr>ef_cap_action_to := Some ''OBSERVE'',
       ef_set_reason_codes := [''AG0_INVALID_INPUT''],
       ef_set_reason_text := [''Missing/invalid required fields for gating; forcing OBSERVE.''],
       ef_force_postmortem_mode := Some ''NONE''\<rparr>)\<rparr>,
     gs_checks = [\<lparr>gc_check_id = ''AG0_REQUIRED_FIELDS_PRESENT'', gc_type = ''required_fields_present'', gc_extra = []\<rparr>]\<rparr>"

definition ag1_v1 :: gate_spec where
  "ag1_v1 = \<lparr>gs_id = ''AG1'', gs_name = ''Environment + tier caps'',
     gs_intent = ''PAGE is only allowed in PROD + TIER_0.'',
     gs_effect = empty_effects\<lparr>on_cap_applied := Some (empty_effect\<lparr>
       ef_set_reason_codes := [''AG1_ENV_OR_TIER_CAP''],
       ef_set_reason_text := [''Action capped by environment and/or criticality tier policy.'']\<rparr>)\<rparr>,
     gs_checks = [\<lparr>gc_check_id = ''AG1_ENV_CAP'', gc_type = ''cap_by_env'', gc_extra = []\<rparr>,
       \<lparr>gc_check_id = ''AG1_TIER_CAP_PROD'', gc_type = ''cap_by_tier_in_prod'', gc_extra = []\<rparr>]\<rparr>"

definition ag2_v1 :: gate_spec where
  "ag2_v1 = \<lparr>gs_id = ''AG2'', gs_name = ''Evidence sufficiency (Finding-declared)'',
     gs_intent = ''If required evidence is UNKNOWN/ABSENT/STALE, downgrade (never assume 0).'',
     gs_effect = empty_effects\<lparr>on_fail := Some (empty_effect\<lparr>ef_cap_action_to := Some ''NOTIFY'',
       ef_set_reason_codes := [''AG2_INSUFFICIENT_EVIDENCE''],
       ef_set_reason_text := [''One or more required evidence keys are not PRESENT (UNKNOWN/ABSENT/STALE); downgrading action.''],
       ef_confidence_floor := Some float_0_6\<rparr>)\<rparr>,
     gs_checks = [\<lparr>gc_check_id = ''AG2_REQUIRED_EVIDENCE_PRESENT'', gc_type = ''required_evidence_present'', gc_extra = []\<rparr>]\<rparr>"

definition ag3_v1 :: gate_spec where
  "ag3_v1 = \<lparr>gs_id = ''AG3'', gs_name = ''Paging denied for SOURCE_TOPIC'',
     gs_intent = ''Never PAGE on SOURCE_TOPIC anomalies (routing noise + stewardship domain).'',
     gs_effect = empty_effects\<lparr>on_fail := Some (empty_effect\<lparr>ef_cap_action_to := Some ''TICKET'',
       ef_set_reason_codes := [''AG3_PAGING_DENIED_SOURCE_TOPIC''],
       ef_set_reason_text := [''Paging denied for SOURCE_TOPIC; capped to TICKET.'']\<rparr>)\<rparr>,
     gs_checks = [\<lparr>gc_check_id = ''AG3_DENY_PAGING_ON_SOURCE'', gc_type = ''always_fail'', gc_extra = []\<rparr>]\<rparr>"

definition ag4_v1 :: gate_spec where
  "ag4_v1 = \<lparr>gs_id = ''AG4'', gs_name = ''Confidence + sustained gating'',
     gs_intent = ''Prevent high-urgency actions when confidence/sustained are weak or UNKNOWN.'',
     gs_effect = empty_effects\<lparr>on_fail := Some (empty_effect\<lparr>ef_cap_action_to := Some ''OBSERVE'',
       ef_set_reason_text := [''High-urgency requires sustained=true and confidence>=0.6; capped to OBSERVE.'']\<rparr>)\<rparr>,
     gs_checks = [
       \<lparr>gc_check_id = ''AG4_CONFIDENCE_MIN'', gc_type = ''min_value'',
        gc_extra = [(''field'', JStr ''diagnosis_confidence''), (''min'', JFloat float_0_6),
                    (''reason_code_on_fail'', JStr ''LOW_CONFIDENCE'')]\<rparr>,
       \<lparr>gc_check_id = ''AG4_SUSTAINED_REQUIRED_FOR_HIGH_URGENCY'', gc_type = ''equals'',
        gc_extra = [(''field'', JStr ''sustained''), (''value'', JBool True),
                    (''reason_code_on_fail'', JStr ''NOT_SUSTAINED'')]\<rparr>]\<rparr>"

definition ag5_v1 :: gate_spec where
  "ag5_v1 = \<lparr>gs_id = ''AG5'', gs_name = ''Storm control (dedupe)'',
     gs_intent = ''Prevent repeated paging/ticket storms on the same fingerprint.'',
     gs_effect = empty_effects\<lparr>
       on_duplicate := Some (empty_effect\<lparr>ef_cap_action_to := Some ''OBSERVE'',
         ef_set_reason_codes := [''AG5_DUPLICATE_SUPPRESSED''],
         ef_set_reason_text := [''Duplicate action_fingerprint seen within TTL; suppressing to OBSERVE.'']\<rparr>),
       on_store_error := Some (empty_effect\<lparr>ef_cap_action_to := Some ''NOTIFY'',
         ef_set_reason_codes := [''AG5_DEDUPE_STORE_ERROR''],
         ef_set_reason_text := [''Dedupe store unavailable; preventing PAGE/TICKET and allowing NOTIFY only.'']\<rparr>)\<rparr>,
     gs_checks = [\<lparr>gc_check_id = ''AG5_DEDUPE'', gc_type = ''dedupe_check'', gc_extra = []\<rparr>]\<rparr>"

definition ag6_v1 :: gate_spec where
  "ag6_v1 = \<lparr>gs_id = ''AG6'', gs_name = ''Postmortem policy selector'',
     gs_intent = ''Selectively require postmortems (SOFT in Phase 1A; HARD in Phase 1B when SN linkage exists).'',
     gs_effect = empty_effects\<lparr>
       on_pass := Some (empty_effect\<lparr>ef_set_postmortem_required := Some True,
         ef_set_postmortem_reason_codes := [''PM_PEAK_SUSTAINED''],
         ef_set_reason_text := [''Peak + sustained on PROD TIER_0 => postmortem required (mode depends on phase).'']\<rparr>),
       on_fail := Some (empty_effect\<lparr>ef_set_postmortem_required := Some False\<rparr>)\<rparr>,
     gs_checks = [\<lparr>gc_check_id = ''AG6_PM_PEAK_SUSTAINED'', gc_type = ''all_true'', gc_extra = []\<rparr>]\<rparr>"

definition rulebook_v1 :: rulebook where
  "rulebook_v1 = \<lparr>rb_rulebook_id = ''rulebook.v1'', rb_version = 1, rb_evaluation_interval_minutes = 5,
     rb_sustained_intervals_required = 5,
     rb_defaults = \<lparr>rd_missing_series_policy = ''UNKNOWN_NOT_ZERO'', rd_required_evidence_policy = ''PRESENT_ONLY'',
       rd_missing_confidence_policy = ''DOWNGRADE'', rd_missing_sustained_policy = ''DOWNGRADE''\<rparr>,
     rb_caps = \<lparr>cap_max_action_by_env = [(''local'', ''OBSERVE''), (''harness'', ''OBSERVE''), (''dev'', ''NOTIFY''),
         (''uat'', ''TICKET''), (''prod'', ''PAGE'')],
       cap_max_action_by_tier_in_prod = [(''TIER_0'', ''PAGE''), (''TIER_1'', ''TICKET''), (''TIER_2'', ''NOTIFY''),
         (''UNKNOWN'', ''NOTIFY'')],
       cap_paging_denied_topic_roles = [''SOURCE_TOPIC'']\<rparr>,
     rb_gates = [ag0_v1, ag1_v1, ag2_v1, ag3_v1, ag4_v1, ag5_v1, ag6_v1]\<rparr>"

section \<open>The decision procedure the policy describes\<close>

fun v1_env_cap :: "environment \<Rightarrow> action" where
  "v1_env_cap LOCAL = OBSERVE"
| "v1_env_cap HARNESS = OBSERVE"
| "v1_env_cap DEV = NOTIFY"
| "v1_env_cap UAT = TICKET"
| "v1_env_cap PROD_ENV = PAGE"

fun v1_tier_cap :: "criticality_tier \<Rightarrow> action" where
  "v1_tier_cap TIER_0 = PAGE"
| "v1_tier_cap TIER_1 = TICKET"
| "v1_tier_cap TIER_2 = NOTIFY"
| "v1_tier_cap TIER_UNKNOWN = NOTIFY"

text \<open>The lowest of the proposal and the caps that apply, in no particular order.\<close>

definition v1_ceiling :: "gate_input \<Rightarrow> action" where
  "v1_ceiling gi = Min {gi_proposed_action gi,
     if ag0_is_valid gi then PAGE else OBSERVE,
     v1_env_cap (gi_env gi),
     if gi_env gi = PROD_ENV then v1_tier_cap (gi_criticality_tier gi) else PAGE,
     if ag2_has_insufficient_evidence gi then NOTIFY else PAGE,
     if gi_topic_role gi = SOURCE_TOPIC then TICKET else PAGE}"

definition v1_weak :: "gate_input \<Rightarrow> bool" where
  "v1_weak gi = (fl_lt (gi_diagnosis_confidence gi) float_0_6 \<or> \<not> gi_sustained gi)"

definition v1_action :: "gate_input \<Rightarrow> action" where
  "v1_action gi = (if TICKET \<le> v1_ceiling gi \<and> v1_weak gi then OBSERVE else v1_ceiling gi)"

text \<open>The dedupe store then confirms the action, suppresses it, or degrades it to a notification.\<close>

definition v1_after_dedupe ::
  "('s \<Rightarrow> string \<Rightarrow> bool result \<times> 's) \<Rightarrow> ('s \<Rightarrow> string \<Rightarrow> action \<Rightarrow> bool result \<times> 's) \<Rightarrow>
   string \<Rightarrow> action \<Rightarrow> 's option \<Rightarrow> action" where
  "v1_after_dedupe is_dup rem fp a store =
     (if a = OBSERVE then OBSERVE
      else case store of
        None \<Rightarrow> NOTIFY
      | Some s \<Rightarrow> (case is_dup s fp of
          (Inl e, s1) \<Rightarrow> NOTIFY
        | (Inr True, s1) \<Rightarrow> OBSERVE
        | (Inr False, s1) \<Rightarrow> (case rem s1 fp a of (Inl e, s2) \<Rightarrow> NOTIFY | (Inr _, s2) \<Rightarrow> a)))"

definition v1_final ::
  "('s \<Rightarrow> string \<Rightarrow> bool result \<times> 's) \<Rightarrow> ('s \<Rightarrow> string \<Rightarrow> action \<Rightarrow> bool result \<times> 's) \<Rightarrow>
   gate_input \<Rightarrow> 's option \<Rightarrow> action" where
  "v1_final is_dup rem gi store = v1_after_dedupe is_dup rem (gi_action_fingerprint gi) (v1_action gi) store"

definition v1_postmortem :: "gate_input \<Rightarrow> bool" where
  "v1_postmortem gi = (ag0_is_valid gi \<and> gi_env gi = PROD_ENV \<and> gi_criticality_tier gi = TIER_0 \<and>
     gi_peak gi = Some True \<and> gi_sustained gi)"

text \<open>The evaluation state between gates, as far as the procedure sees it.\<close>

definition v1_state :: "action \<Rightarrow> bool \<Rightarrow> evaluation_state \<Rightarrow> bool" where
  "v1_state a v st = (es_current_action st = a \<and> es_input_valid st = v \<and> \<not> es_postmortem_required st \<and>
     es_postmortem_mode st = None \<and> es_postmortem_reason_codes st = [])"

text \<open>A sustained, confident production incident on a TIER_0 shared topic, for the witnesses.\<close>

definition sample_finding :: finding where
  "sample_finding = \<lparr>fi_finding_id = ''f1'', fi_name = ''consumer_lag'', fi_is_anomalous = True,
     fi_evidence_required = [''lag''], fi_allowed = [], fi_is_primary = Some True, fi_severity = Some ''HIGH'',
     fi_reason_codes = []\<rparr>"

definition sample_gate_input :: gate_input where
  "sample_gate_input = \<lparr>gi_env = PROD_ENV, gi_cluster_id = ''c1'', gi_stream_id = ''s1'', gi_topic = ''orders'',
     gi_topic_role = SHARED_TOPIC, gi_anomaly_family = CONSUMER_LAG, gi_criticality_tier = TIER_0,
     gi_proposed_action = PAGE, gi_diagnosis_confidence = Fin (3 / 4), gi_sustained = True,
     gi_findings = [sample_finding], gi_evidence_status_map = [(''lag'', PRESENT)],
     gi_action_fingerprint = ''fp1'', gi_consumer_group = Some ''g1'', gi_partition_count_observed = None,
     gi_peak = Some True, gi_case_id = None, gi_decision_basis = None\<rparr>"

definition sample_store :: "sim_redis dedupe_store" where
  "sample_store = new_dedupe_store \<lparr>sim_now = 0, sim_keys = [], sim_up = True\<rparr> None"

section \<open>The interpreter refines the procedure\<close>

lemma v1_gate_spec [simp]:
  "gate_spec_for (rb_gates rulebook_v1) ''AG0'' = Some ag0_v1"
  "gate_spec_for (rb_gates rulebook_v1) ''AG1'' = Some ag1_v1"
  "gate_spec_for (rb_gates rulebook_v1) ''AG2'' = Some ag2_v1"
  "gate_spec_for (rb_gates rulebook_v1) ''AG3'' = Some ag3_v1"
  "gate_spec_for (rb_gates rulebook_v1) ''AG4'' = Some ag4_v1"
  "gate_spec_for (rb_gates rulebook_v1) ''AG5'' = Some ag5_v1"
  "gate_spec_for (rb_gates rulebook_v1) ''AG6'' = Some ag6_v1"
  by (simp_all add: gate_spec_for_def rulebook_v1_def ag0_v1_def ag1_v1_def ag2_v1_def ag3_v1_def ag4_v1_def
      ag5_v1_def ag6_v1_def)

lemma v1_order [simp]: "validate_rulebook_gate_order (rb_gates rulebook_v1) = Inr ()"
  by (simp add: validate_rulebook_gate_order_def rulebook_v1_def expected_gate_order_def ag0_v1_def ag1_v1_def
      ag2_v1_def ag3_v1_def ag4_v1_def ag5_v1_def ag6_v1_def)

lemmas v1_effect_simps = apply_gate_effect_def effect_cap_def effect_postmortem_def action_from_policy_value_def
  action_of_value_def empty_effects_def empty_effect_def Let_def v1_state_def

lemma upper_strip_none [simp]: "py_upper (py_strip ''NONE'') = ''NONE''"
  by code_simp

lemma v1_ag0:
  assumes "v1_state a True st"
  shows "\<exists>st'. eval_gate is_dup rem gi rulebook_v1 ''AG0'' st store = (Inr st', store) \<and>
    v1_state (min a (if ag0_is_valid gi then PAGE else OBSERVE)) (ag0_is_valid gi) st'"
  using assms by (auto simp: eval_gate_def pure_gate_def v1_effect_simps ag0_v1_def min_def)

lemma v1_env_lookup [simp]:
  "lookup_action_policy_entry (cap_max_action_by_env (rb_caps rulebook_v1)) (environment_value e) fb = Inr (v1_env_cap e)"
  by (cases e) (simp_all add: lookup_action_policy_entry_def rulebook_v1_def action_from_policy_value_def action_of_value_def)

lemma v1_tier_lookup [simp]:
  "lookup_action_policy_entry (cap_max_action_by_tier_in_prod (rb_caps rulebook_v1)) (tier_value t) fb = Inr (v1_tier_cap t)"
  by (cases t) (simp_all add: lookup_action_policy_entry_def rulebook_v1_def action_from_policy_value_def action_of_value_def)

lemma v1_ag1:
  assumes "v1_state a v st"
  shows "\<exists>st'. eval_gate is_dup rem gi rulebook_v1 ''AG1'' st store = (Inr st', store) \<and>
    v1_state (min a (min (v1_env_cap (gi_env gi))
      (if gi_env gi = PROD_ENV then v1_tier_cap (gi_criticality_tier gi) else PAGE))) v st'"
proof -
  have "min x PAGE = x" for x :: action by (simp add: min_def)
  then show ?thesis
    using assms by (auto simp: eval_gate_def pure_gate_def evaluate_ag1_def v1_effect_simps ag1_v1_def min.assoc)
qed

lemma v1_ag2:
  assumes "v1_state a v st"
  shows "\<exists>st'. eval_gate is_dup rem gi rulebook_v1 ''AG2'' st store = (Inr st', store) \<and>
    v1_state (min a (if ag2_has_insufficient_evidence gi then NOTIFY else PAGE)) v st'"
  using assms by (auto simp: eval_gate_def pure_gate_def v1_effect_simps ag2_v1_def min_def)

lemma v1_ag3:
  assumes "v1_state a v st"
  shows "\<exists>st'. eval_gate is_dup rem gi rulebook_v1 ''AG3'' st store = (Inr st', store) \<and>
    v1_state (min a (if gi_topic_role gi = SOURCE_TOPIC then TICKET else PAGE)) v st'"
proof -
  have "topic_role_value r = ''SOURCE_TOPIC'' \<longleftrightarrow> r = SOURCE_TOPIC" for r by (cases r) simp_all
  moreover have "a \<noteq> PAGE \<Longrightarrow> min a TICKET = a" by (cases a) (simp_all add: min_def less_eq_action_def)
  moreover have "cap_paging_denied_topic_roles (rb_caps rulebook_v1) = [''SOURCE_TOPIC'']"
    by (simp add: rulebook_v1_def)
  ultimately show ?thesis
    using assms by (auto simp: eval_gate_def pure_gate_def v1_effect_simps ag3_v1_def min.absorb1)
qed

lemma v1_ag4_codes:
  "\<exists>codes. ag4_failure_reason_codes ag4_v1 gi = Inr codes \<and> (codes = [] \<longleftrightarrow> \<not> v1_weak gi)"
proof -
  have "unique_in_order xs = [] \<longleftrightarrow> xs = []" for xs by (metis unique_in_order_set set_empty)
  then show ?thesis
    by (simp add: ag4_failure_reason_codes_def ag4_v1_def numeric_min_def v1_weak_def)
qed

lemma v1_ag4_effect:
  "v1_state a v st \<Longrightarrow>
   \<exists>st'. apply_gate_effect st (on_fail (gs_effect ag4_v1)) True False = Inr st' \<and> v1_state OBSERVE v st'"
  by (auto simp: v1_effect_simps ag4_v1_def min_def)

lemma v1_ag4:
  assumes "v1_state a v st"
  shows "\<exists>st'. eval_gate is_dup rem gi rulebook_v1 ''AG4'' st store = (Inr st', store) \<and>
    v1_state (if TICKET \<le> a \<and> v1_weak gi then OBSERVE else a) v st'"
proof -
  obtain codes where codes: "ag4_failure_reason_codes ag4_v1 gi = Inr codes" "codes = [] \<longleftrightarrow> \<not> v1_weak gi"
    using v1_ag4_codes by blast
  obtain st1 where st1: "apply_gate_effect st (on_fail (gs_effect ag4_v1)) True False = Inr st1" "v1_state OBSERVE v st1"
    using v1_ag4_effect [OF assms] by blast
  from st1(2) have "v1_state OBSERVE v (st1\<lparr>es_gate_reason_codes := cs\<rparr>)" for cs by (simp add: v1_state_def)
  moreover have "es_current_action st = a" using assms by (simp add: v1_state_def)
  ultimately show ?thesis
    using assms codes st1(1) by (simp add: eval_gate_def pure_gate_def less_eq_action_def not_less)
qed

lemma v1_ag5_effects:
  assumes "v1_state a v st"
  shows "\<exists>st'. apply_gate_effect st (on_duplicate (gs_effect ag5_v1)) True False = Inr st' \<and> v1_state OBSERVE v st'"
    and "\<exists>st'. apply_gate_effect st (on_store_error (gs_effect ag5_v1)) True False = Inr st' \<and> v1_state (min a NOTIFY) v st'"
  using assms by (auto simp: v1_effect_simps ag5_v1_def min_def)

lemma v1_ag5:
  assumes "v1_state a v st"
  shows "\<exists>st' store'. eval_gate is_dup rem gi rulebook_v1 ''AG5'' st store = (Inr st', store') \<and>
    v1_state (v1_after_dedupe is_dup rem (gi_action_fingerprint gi) a store) v st'"
proof -
  have a: "es_current_action st = a" using assms by (simp add: v1_state_def)
  obtain sd where dup: "apply_gate_effect st (on_duplicate (gs_effect ag5_v1)) True False = Inr sd" "v1_state OBSERVE v sd"
    using v1_ag5_effects(1) [OF assms] by blast
  obtain se where err: "apply_gate_effect st (on_store_error (gs_effect ag5_v1)) True False = Inr se"
    "v1_state (min a NOTIFY) v se"
    using v1_ag5_effects(2) [OF assms] by blast
  show ?thesis
  proof (cases "a = OBSERVE")
    case True
    then show ?thesis using assms a by (auto simp: eval_gate_def evaluate_ag5_def v1_after_dedupe_def)
  next
    case False
    then have "min a NOTIFY = NOTIFY" "\<not> action_priority a \<le> action_priority OBSERVE"
      by (cases a; simp add: min_def less_eq_action_def)+
    then show ?thesis
      using assms a dup err False
      by (auto simp: eval_gate_def evaluate_ag5_def v1_after_dedupe_def Let_def
          split: option.splits prod.splits sum.splits bool.splits)
  qed
qed

lemma v1_ag6:
  assumes "v1_state a v st"
  shows "\<exists>st'. eval_gate is_dup rem gi rulebook_v1 ''AG6'' st store = (Inr st', store) \<and> es_current_action st' = a \<and>
    es_postmortem_mode st' = None \<and>
    es_postmortem_required st' = (v \<and> gi_env gi = PROD_ENV \<and> gi_criticality_tier gi = TIER_0 \<and>
      gi_peak gi = Some True \<and> gi_sustained gi) \<and>
    es_postmortem_reason_codes st' = (if es_postmortem_required st' then [''PM_PEAK_SUSTAINED''] else [])"
  using assms by (auto simp: eval_gate_def pure_gate_def v1_effect_simps ag6_v1_def)

lemma Min_six: "Min {a, b, c, d, e, f} = min (min (min (min a b) (min c d)) e) (f :: 'a :: linorder)"
  by (simp add: min.assoc)

lemma v1_before_dedupe:
  assumes "v1_state (gi_proposed_action gi) True st"
  shows "\<exists>st'. run_gates is_dup rem gi rulebook_v1 [''AG0'', ''AG1'', ''AG2'', ''AG3'', ''AG4''] st store = (Inr st', store) \<and>
    v1_state (v1_action gi) (ag0_is_valid gi) st'"
proof -
  let ?e = "eval_gate is_dup rem gi rulebook_v1" and ?v = "ag0_is_valid gi"
  define a0 where "a0 = min (gi_proposed_action gi) (if ?v then PAGE else OBSERVE)"
  define a1 where "a1 = min a0 (min (v1_env_cap (gi_env gi))
      (if gi_env gi = PROD_ENV then v1_tier_cap (gi_criticality_tier gi) else PAGE))"
  define a2 where "a2 = min a1 (if ag2_has_insufficient_evidence gi then NOTIFY else PAGE)"
  define a3 where "a3 = min a2 (if gi_topic_role gi = SOURCE_TOPIC then TICKET else PAGE)"
  obtain s0 where 0: "?e ''AG0'' st store = (Inr s0, store)" "v1_state a0 ?v s0"
    using v1_ag0 [OF assms, of is_dup rem gi store] unfolding a0_def by blast
  obtain s1 where 1: "?e ''AG1'' s0 store = (Inr s1, store)" "v1_state a1 ?v s1"
    using v1_ag1 [OF 0(2), of is_dup rem gi store] unfolding a1_def by blast
  obtain s2 where 2: "?e ''AG2'' s1 store = (Inr s2, store)" "v1_state a2 ?v s2"
    using v1_ag2 [OF 1(2), of is_dup rem gi store] unfolding a2_def by blast
  obtain s3 where 3: "?e ''AG3'' s2 store = (Inr s3, store)" "v1_state a3 ?v s3"
    using v1_ag3 [OF 2(2), of is_dup rem gi store] unfolding a3_def by blast
  have a3: "a3 = v1_ceiling gi"
    unfolding a3_def a2_def a1_def a0_def v1_ceiling_def by (rule Min_six [symmetric])
  obtain s4 where 4: "?e ''AG4'' s3 store = (Inr s4, store)" "v1_state (v1_action gi) ?v s4"
    using v1_ag4 [OF 3(2), of is_dup rem gi store] unfolding a3 v1_action_def by blast
  from 0(1) 1(1) 2(1) 3(1) 4 show ?thesis by simp
qed

lemma v1_evaluate:
  "\<exists>d store'. evaluate_rulebook_gates is_dup rem gi rulebook_v1 store = (Inr d, store') \<and>
     ad_final_action d = v1_final is_dup rem gi store \<and>
     ad_postmortem_required d = v1_postmortem gi \<and>
     ad_postmortem_mode d = (if v1_postmortem gi then Some ''SOFT'' else None) \<and>
     ad_postmortem_reason_codes d = (if v1_postmortem gi then [''PM_PEAK_SUSTAINED''] else [])"
proof -
  let ?pre = "[''AG0'', ''AG1'', ''AG2'', ''AG3'', ''AG4'']"
  have "v1_state (gi_proposed_action gi) True (init_state (gi_proposed_action gi))"
    by (simp add: v1_state_def init_state_def)
  then obtain s4 where pre: "run_gates is_dup rem gi rulebook_v1 ?pre (init_state (gi_proposed_action gi)) store = (Inr s4, store)"
    and s4: "v1_state (v1_action gi) (ag0_is_valid gi) s4"
    using v1_before_dedupe [of gi _ is_dup rem store] by blast
  obtain s5 store' where 5: "eval_gate is_dup rem gi rulebook_v1 ''AG5'' s4 store = (Inr s5, store')"
    "v1_state (v1_final is_dup rem gi store) (ag0_is_valid gi) s5"
    using v1_ag5 [OF s4, of is_dup rem gi store] unfolding v1_final_def by blast
  obtain s6 where 6: "eval_gate is_dup rem gi rulebook_v1 ''AG6'' s5 store' = (Inr s6, store')"
    "es_current_action s6 = v1_final is_dup rem gi store" "es_postmortem_mode s6 = None"
    "es_postmortem_required s6 = v1_postmortem gi"
    "es_postmortem_reason_codes s6 = (if es_postmortem_required s6 then [''PM_PEAK_SUSTAINED''] else [])"
    using v1_ag6 [OF 5(2), of is_dup rem gi store'] unfolding v1_postmortem_def by blast
  have "run_gates is_dup rem gi rulebook_v1 (?pre @ [''AG5'', ''AG6'']) (init_state (gi_proposed_action gi)) store
      = (Inr s6, store')"
    unfolding run_gates_append using pre 5(1) 6(1) by simp
  then have "run_gates is_dup rem gi rulebook_v1 expected_gate_order (init_state (gi_proposed_action gi)) store
      = (Inr s6, store')" by (simp add: expected_gate_order_def)
  then have "evaluate_rulebook_gates is_dup rem gi rulebook_v1 store = (Inr (finalize_decision gi s6), store')"
    by (simp add: evaluate_rulebook_gates_def)
  with 6 show ?thesis by (simp add: finalize_decision_def unique_in_order_def)
qed

lemma v1_ceiling_page:
  "v1_ceiling gi = PAGE \<longleftrightarrow> gi_proposed_action gi = PAGE \<and> ag0_is_valid gi \<and> gi_env gi = PROD_ENV \<and>
     gi_criticality_tier gi = TIER_0 \<and> \<not> ag2_has_insufficient_evidence gi \<and> gi_topic_role gi \<noteq> SOURCE_TOPIC"
proof -
  have m: "min a b = PAGE \<longleftrightarrow> a = PAGE \<and> b = PAGE" for a b
    by (cases a; cases b) (simp_all add: min_def less_eq_action_def)
  have i: "(if b then PAGE else x) = PAGE \<longleftrightarrow> b \<or> x = PAGE" "(if b then x else PAGE) = PAGE \<longleftrightarrow> \<not> b \<or> x = PAGE" for b x
    by simp_all
  have c: "v1_env_cap e = PAGE \<longleftrightarrow> e = PROD_ENV" "v1_tier_cap t = PAGE \<longleftrightarrow> t = TIER_0" for e t
    by (cases e; simp) (cases t; simp)
  show ?thesis
    unfolding v1_ceiling_def Min_six m i c by blast
qed

lemma v1_action_page:
  "v1_action gi = PAGE \<longleftrightarrow> v1_ceiling gi = PAGE \<and> \<not> v1_weak gi"
  by (auto simp: v1_action_def)

lemma v1_after_dedupe_page:
  "v1_after_dedupe is_dup rem fp a store = PAGE \<longleftrightarrow>
     a = PAGE \<and> (\<exists>s s1 s2 b. store = Some s \<and> is_dup s fp = (Inr False, s1) \<and> rem s1 fp PAGE = (Inr b, s2))"
  by (auto simp: v1_after_dedupe_def split: option.splits prod.splits sum.splits bool.splits)

lemma v1_storm_control: "storm_control rulebook_v1"
  by (simp add: storm_control_def) (simp add: ag5_v1_def empty_effects_def empty_effect_def)

lemma v1_validates: "validate_rulebook rulebook_v1 = Inr rulebook_v1"
  by (simp add: validate_rulebook_def rulebook_v1_def validate_max_action_by_env_def validate_action_policy_value_def
      action_of_value_def validate_max_action_by_tier_in_prod_def require_all_gate_ids_def ag0_v1_def ag1_v1_def
      ag2_v1_def ag3_v1_def ag4_v1_def ag5_v1_def ag6_v1_def)

lemma v1_effects_ok:
  "effects_ok ag0_v1" "effects_ok ag1_v1" "effects_ok ag2_v1" "effects_ok ag3_v1" "effects_ok ag4_v1"
  "effects_ok ag5_v1" "effects_ok ag6_v1"
  by (simp_all add: effects_ok_def effect_ok_def empty_effects_def empty_effect_def action_of_value_def ag0_v1_def
      ag1_v1_def ag2_v1_def ag3_v1_def ag4_v1_def ag5_v1_def ag6_v1_def)

lemma v1_runnable: "rulebook_runnable rulebook_v1 env"
proof -
  have "map gs_id (rb_gates rulebook_v1) = expected_gate_order"
    using v1_order by (simp add: validate_rulebook_gate_order_def split: if_splits)
  moreover have "list_all effects_ok (rb_gates rulebook_v1)"
    unfolding rulebook_v1_def by (simp add: v1_effects_ok)
  moreover have "first_policy_entry (cap_max_action_by_env (rb_caps rulebook_v1)) (environment_value env # fb) \<noteq> None" for fb
    by (cases env) (simp_all add: rulebook_v1_def)
  moreover have "ag4_config_ok (gs_checks ag4_v1)"
    by (simp add: ag4_config_ok_def ag4_v1_def is_confidence_check_def is_sustained_check_def numeric_min_def)
  ultimately show ?thesis by (simp add: rulebook_runnable_def v1_validates)
qed

context redis_client
begin

lemma redis_batch_at_most_one_urgent:
  assumes "storm_control rb"
    and "evaluate_gate_inputs (store_is_duplicate rget) (store_remember rset) rb gis (Some s) = (Inr ds, store')"
    and "store_invar s" "i < j" "j < length gis"
    and "gi_action_fingerprint (gis ! i) = gi_action_fingerprint (gis ! j)" "NOTIFY < ad_final_action (ds ! i)"
  shows "ad_final_action (ds ! j) \<le> NOTIFY"
  using assms by (rule store.batch_at_most_one_urgent)

end

section \<open>Properties\<close>

text \<open>C1: under the shipped rulebook the gate engine always returns a decision, whatever the store does, and
  that decision is the one of the direct procedure: the final action is \<open>v1_final\<close>, and the postmortem
  fields are set (SOFT, PM_PEAK_SUSTAINED) exactly for a valid input on PROD TIER_0 in a peak window that is
  sustained.\<close>

theorem gate_engine_refines_policy:
  "\<exists>d store'. evaluate_rulebook_gates is_dup rem gi rulebook_v1 store = (Inr d, store') \<and>
     ad_final_action d = v1_final is_dup rem gi store \<and>
     ad_postmortem_required d = v1_postmortem gi \<and>
     ad_postmortem_mode d = (if v1_postmortem gi then Some ''SOFT'' else None) \<and>
     ad_postmortem_reason_codes d = (if v1_postmortem gi then [''PM_PEAK_SUSTAINED''] else [])"
  by (rule v1_evaluate)



text \<open>C12: whatever the rulebook and the store, a decision never exceeds the proposed action nor the action the
  rulebook allows in the input's environment, and in PROD nor the action it allows for the criticality tier.\<close>

theorem decision_within_caps:
  assumes "evaluate_rulebook_gates is_dup rem gi rb store = (Inr d, store')"
  shows "ad_final_action d \<le> gi_proposed_action gi \<and>
    (\<exists>env_cap. lookup_action_policy_entry (cap_max_action_by_env (rb_caps rb)) (environment_value (gi_env gi))
       (env_policy_fallback_keys (environment_value (gi_env gi))) = Inr env_cap \<and> ad_final_action d \<le> env_cap) \<and>
    (gi_env gi = PROD_ENV \<longrightarrow> (\<exists>tier_cap. ad_final_action d \<le> tier_cap \<and>
       lookup_action_policy_entry (cap_max_action_by_tier_in_prod (rb_caps rb)) (tier_value (gi_criticality_tier gi)) []
         = Inr tier_cap))"
  using env_cap_respected [OF assms] by blast

lemma decision_within_caps_witness:
  "\<exists>d. fst (evaluate_rulebook_gates (store_is_duplicate sim_get) (store_remember sim_set)
       (sample_gate_input\<lparr>gi_env := UAT\<rparr>) rulebook_v1 (Some sample_store)) = Inr d \<and> ad_final_action d \<le> TICKET"
proof -
  let ?gi = "sample_gate_input\<lparr>gi_env := UAT\<rparr>"
  obtain d store' where d: "evaluate_rulebook_gates (store_is_duplicate sim_get) (store_remember sim_set)
      ?gi rulebook_v1 (Some sample_store) = (Inr d, store')"
    using v1_evaluate by blast
  have "lookup_action_policy_entry (cap_max_action_by_env (rb_caps rulebook_v1)) (environment_value (gi_env ?gi)) fb
      = Inr TICKET" for fb
    unfolding v1_env_lookup by simp
  then have "ad_final_action d \<le> TICKET" using decision_within_caps [OF d] by simp
  with d show ?thesis by simp
qed

text \<open>C35: on a validated rulebook in the expected order whose environment caps cover the input's environment,
  whose effects name actions and whose AG4 gate declares its two checks, the evaluation always returns a decision:
  no gate raises, and every failure of the store is absorbed.\<close>

theorem evaluation_total:
  assumes "rulebook_runnable rb (gi_env gi)"
  shows "\<exists>d store'. evaluate_rulebook_gates is_dup rem gi rb store = (Inr d, store')"
  using assms by (rule evaluate_total)

lemma evaluation_total_witness:
  "\<exists>d store'. evaluate_rulebook_gates (store_is_duplicate sim_get) (store_remember sim_set) sample_gate_input
     rulebook_v1 (Some (sample_store\<lparr>ds_redis := \<lparr>sim_now = 0, sim_keys = [], sim_up = False\<rparr>\<rparr>)) = (Inr d, store')"
  by (rule evaluation_total [OF v1_runnable])

text \<open>C3: storm control. With the two AG5 effects of the shipped rulebook and a Redis server that behaves as
  documented (and may fail at any call), a batch raises at most one ticket or page per action fingerprint: after an
  urgent decision, every later decision of the batch for the same fingerprint is at most NOTIFY.\<close>

theorem at_most_one_urgent_per_fingerprint:
  assumes "redis_client rget rset present" and "storm_control rb"
    and "evaluate_gate_inputs (store_is_duplicate rget) (store_remember rset) rb gis (Some s) = (Inr ds, store')"
    and "store_invar s" "i < j" "j < length gis"
    and "gi_action_fingerprint (gis ! i) = gi_action_fingerprint (gis ! j)" "NOTIFY < ad_final_action (ds ! i)"
  shows "ad_final_action (ds ! j) \<le> NOTIFY"
  using assms by (rule redis_client.redis_batch_at_most_one_urgent)

lemma at_most_one_urgent_per_fingerprint_witness:
  "\<exists>ds store'. evaluate_gate_inputs (store_is_duplicate sim_get) (store_remember sim_set) rulebook_v1
      [sample_gate_input, sample_gate_input] (Some sample_store) = (Inr ds, store') \<and>
    ad_final_action (ds ! 0) = PAGE \<and> ad_final_action (ds ! 1) \<le> NOTIFY"
proof -
  let ?r = "evaluate_gate_inputs (store_is_duplicate sim_get) (store_remember sim_set) rulebook_v1
      [sample_gate_input, sample_gate_input] (Some sample_store)"
  have "map_sum id (map ad_final_action) (fst ?r) = Inr [PAGE, OBSERVE]" by code_simp
  then obtain ds store' where r: "?r = (Inr ds, store')" and ds: "map ad_final_action ds = [PAGE, OBSERVE]"
    by (cases ?r; cases "fst ?r") auto
  have page: "ad_final_action (ds ! 0) = PAGE" using ds by (cases ds) auto
  have inv: "store_invar sample_store" by (simp add: store_invar_def sample_store_def new_dedupe_store_def)
  have "ad_final_action (ds ! 1) \<le> NOTIFY"
    by (rule at_most_one_urgent_per_fingerprint [OF sim.redis_client_axioms v1_storm_control r inv, of 0 1])
      (simp_all add: page less_action_def)
  with r page show ?thesis by blast
qed

text \<open>every decision is well formed: it lists the seven gates in order and the input's fingerprint, repeats
  no reason code, and carries a postmortem mode exactly when a postmortem is required (and reason codes only
  then).\<close>

theorem decision_well_formed:
  assumes "evaluate_rulebook_gates is_dup rem gi rb store = (Inr d, store')"
  shows "ad_gate_rule_ids d = expected_gate_order \<and> ad_action_fingerprint d = gi_action_fingerprint gi \<and>
    distinct (ad_gate_reason_codes d) \<and> distinct (ad_postmortem_reason_codes d) \<and>
    (ad_postmortem_mode d \<noteq> None \<longleftrightarrow> ad_postmortem_required d) \<and>
    (ad_postmortem_reason_codes d \<noteq> [] \<longrightarrow> ad_postmortem_required d)"
  using assms by (rule evaluate_ok_run) (simp add: finalize_decision_def split: option.splits)

lemma decision_well_formed_witness:
  "\<exists>d store'. evaluate_rulebook_gates (store_is_duplicate sim_get) (store_remember sim_set) sample_gate_input
      rulebook_v1 (Some sample_store) = (Inr d, store') \<and> ad_postmortem_required d \<and> ad_postmortem_mode d \<noteq> None \<and>
      distinct (ad_gate_reason_codes d)"
proof -
  obtain d store' where d: "evaluate_rulebook_gates (store_is_duplicate sim_get) (store_remember sim_set)
      sample_gate_input rulebook_v1 (Some sample_store) = (Inr d, store')"
    and "ad_postmortem_required d = v1_postmortem sample_gate_input"
    using v1_evaluate by blast
  moreover have "v1_postmortem sample_gate_input"
    by (simp add: v1_postmortem_def sample_gate_input_def ag0_is_valid_def py_strip_def py_isspace_def)
  ultimately show ?thesis using decision_well_formed [OF d] by blast
qed

text \<open>AG5 reads the store, then claims the fingerprint, and drops the answer to the claim. A worker whose
  claim loses (\<open>remember\<close> answers False because another worker has set the key since the lookup) still issues
  the full action.\<close>

theorem lost_claim_still_acts:
  assumes "is_dup s (gi_action_fingerprint gi) = (Inr False, s1)"
    and "rem s1 (gi_action_fingerprint gi) (v1_action gi) = (Inr False, s2)"
  shows "\<exists>d store'. evaluate_rulebook_gates is_dup rem gi rulebook_v1 (Some s) = (Inr d, store') \<and>
    ad_final_action d = v1_action gi"
proof -
  have "v1_final is_dup rem gi (Some s) = v1_action gi"
    using assms by (simp add: v1_final_def v1_after_dedupe_def)
  then show ?thesis using v1_evaluate [of is_dup rem gi "Some s"] by metis
qed

lemma lost_claim_still_acts_witness:
  "\<exists>d store'. evaluate_rulebook_gates (\<lambda>s f. (Inr False, s)) (\<lambda>s f a. (Inr False, s)) sample_gate_input
     rulebook_v1 (Some ()) = (Inr d, store') \<and> ad_final_action d = v1_action sample_gate_input"
  by (rule lost_claim_still_acts) simp_all

end
