(* ===== verification/Casefile_Properties.thy ===== *)
theory Casefile_Properties
  imports Casefile_Sample Rulebook_V1
begin

text \<open>
  The properties of the case-file stage on the S3 adapter, over any server that meets \<open>s3_server\<close>: the stored stages form an
  append-only hash chain, an assembled case file verifies, a confirmed write is durable, and a case cannot be written a second time
  with other contents. The facts come from the locales \<open>object_store\<close> and \<open>sealed_model\<close>.
\<close>

section \<open>The adapter over a server\<close>

abbreviation stored :: "('s \<Rightarrow> string \<times> string \<Rightarrow> string option) \<Rightarrow> string \<Rightarrow> 's \<Rightarrow> string \<Rightarrow> string option" where
  "stored contents bucket s \<equiv> \<lambda>k. contents s (bucket, k)"

definition sample_sealed :: "nat \<Rightarrow> casefile_triage" where
  "sample_sealed t = sample_triage (sample_digest (replicate (64 + t) (CHR ''0''))) t"

definition sample_bucket :: "sim_fault option list \<Rightarrow> sim_s3" where
  "sample_bucket faults = \<lparr>s3_objects = [], s3_faults = faults\<rparr>"

abbreviation bucket_put :: "sim_s3 store_put" where
  "bucket_put \<equiv> put_if_absent sim_put_object ''casefiles''"

abbreviation bucket_get :: "sim_s3 store_get" where
  "bucket_get \<equiv> get_object_bytes sim_get_object ''casefiles''"

text \<open>The first write takes effect but loses its response; the retry finds the object and succeeds.\<close>

definition after_lost_write :: sim_s3 where
  "after_lost_write = snd (persist_casefile_triage_write_once bucket_put bucket_get sample_digest sample_codecs (sample_sealed 3)
     (sample_bucket [Some (Lost (Connectivity_Error ''timeout''))]))"

definition after_diagnosis :: sim_s3 where
  "after_diagnosis = snd (persist_casefile_diagnosis_write_once bucket_put bucket_get sample_digest sample_codecs
     (sample_diagnosis (sample_digest (replicate 128 (CHR ''0''))) (tg_triage_hash (sample_sealed 3))) after_lost_write)"

definition sample_topology :: topology_stage_output where
  "sample_topology =
     (let sc = [''prod'', ''c1'', ''t1'']
      in \<lparr>to_context_by_scope = [(sc, \<lparr>cx_stream_id = ''s1'', cx_topic_role = SOURCE_TOPIC, cx_criticality_tier = TIER_0, cx_source_system = None,
            cx_proposed_action = OBSERVE, cx_diagnosis_confidence = Fin 0, cx_partition_count_observed = None, cx_case_id = None,
            cx_decision_basis = None\<rparr>)],
          to_impact_by_scope = [(sc, \<lparr>ti_blast_radius = ''LOCAL_SOURCE_INGESTION'', ti_downstream_impacts = []\<rparr>)],
          to_routing_by_scope = [(sc, ctc_routing (tg_topology_context (sample_triage [] 0)))], to_unresolved_by_scope = []\<rparr>)"

definition sample_quiet :: evidence_stage_output where
  "sample_quiet = \<lparr>eo_rows = [], eo_anomaly_result = mk_anomaly_detection_result [], eo_gate_findings_by_scope = [],
     eo_evidence_status_map_by_scope = [], eo_telemetry_degraded_active = False, eo_telemetry_degraded_events = [], eo_max_safe_action = None\<rparr>"

definition sample_draft :: "nat \<Rightarrow> casefile_triage result" where
  "sample_draft t = draft_casefile sample_digest (int t) [''prod'', ''c1'', ''t1''] sample_quiet sample_peak sample_topology case_gate_input
     case_observe rulebook_v1 ''1.0.0'' sample_denylist ''v1'' None None"

lemma server_store:
  "s3_server put_object get_object contents \<Longrightarrow>
     object_store (put_if_absent put_object bucket) (get_object_bytes get_object bucket) (stored contents bucket)"
  by (rule s3_client.adapter_is_store) (rule s3_client.intro)

lemma stored_le: "stored contents bucket s1 \<subseteq>\<^sub>m stored contents bucket s2 \<longleftrightarrow>
    (\<forall>k b. contents s1 (bucket, k) = Some b \<longrightarrow> contents s2 (bucket, k) = Some b)"
  unfolding map_le_def by (metis (no_types, lifting) domD domI)

lemma sample_sealed_carried: "sample_carried sample_triage (\<lambda>_. True) (sample_sealed t)"
  using sample_digest_hex by (auto simp: sample_carried_def sample_sealed_def)

text \<open>A confirmed write holds the payload, so it cannot succeed where something else is stored.\<close>

lemma confirmed_ready:
  assumes "object_store put get view" and "persist_casefile_and_prepare_outbox_ready put get sha256_hex cds c s = (Inr ready, s')"
  shows "view s' (rc_object_path ready) = Some (mc_dump_json (cd_triage cds) c) \<and>
    ready = \<lparr>rc_case_id = tg_case_id c, rc_object_path = stage_key (tg_case_id c) ''triage'', rc_triage_hash = tg_triage_hash c\<rparr> \<and>
    compute_casefile_triage_hash sha256_hex cds c = Inr (tg_triage_hash c) \<and> validate_ready_casefile ready = Inr ready"
proof -
  let ?ready = "\<lambda>p. \<lparr>rc_case_id = cp_case_id p, rc_object_path = cp_object_path p, rc_triage_hash = cp_triage_hash p\<rparr>"
  from assms(2) obtain p where p: "persist_casefile_triage_write_once put get sha256_hex cds c s = (Inr p, s')"
    and "(case validate_ready_casefile (?ready p) of Inr ready \<Rightarrow> Inr ready
        | Inl _ \<Rightarrow> raise IntegrationError ''failed to construct outbox-ready payload from confirmed casefile persistence'') = Inr ready"
    by (auto simp: persist_casefile_and_prepare_outbox_ready_def st_bind_Inr)
  then have r: "validate_ready_casefile (?ready p) = Inr ready" by (simp add: raise_def split: sum.splits)
  then have eq: "ready = ?ready p"
    by (auto simp: validate_ready_casefile_def raise_def split: if_splits)
  from object_store.persist_triage_confirmed [OF assms(1) p] r eq show ?thesis by simp
qed

lemma confirmed_write:
  assumes "s3_server put_object get_object contents"
    and "persist_casefile_and_prepare_outbox_ready (put_if_absent put_object bucket) (get_object_bytes get_object bucket) sha256_hex cds c s = (Inr ready, s')"
  shows "contents s' (bucket, rc_object_path ready) = Some (mc_dump_json (cd_triage cds) c) \<and>
    ready = \<lparr>rc_case_id = tg_case_id c, rc_object_path = stage_key (tg_case_id c) ''triage'', rc_triage_hash = tg_triage_hash c\<rparr> \<and>
    compute_casefile_triage_hash sha256_hex cds c = Inr (tg_triage_hash c) \<and> validate_ready_casefile ready = Inr ready"
  by (rule confirmed_ready [OF server_store [OF assms(1)] assms(2)])

lemma persist_ready_effect:
  assumes "object_store put get view" and "persist_casefile_and_prepare_outbox_ready put get sha256_hex cds c s = (r, s')"
  shows "view s' = view s \<or> view s (stage_key (tg_case_id c) ''triage'') = None \<and>
    view s' = (view s)(stage_key (tg_case_id c) ''triage'' \<mapsto> mc_dump_json (cd_triage cds) c)"
proof -
  obtain r1 where "s' = s \<or> persist_casefile_triage_write_once put get sha256_hex cds c s = (r1, s')"
    using assms(2)
    by (cases "persist_casefile_triage_write_once put get sha256_hex cds c s")
      (auto simp: persist_casefile_and_prepare_outbox_ready_def st_bind_def split: sum.splits prod.splits)
  then show ?thesis by (auto dest!: object_store.persist_triage_effect [OF assms(1)])
qed

lemma persist_keeps:
  assumes "s3_server put_object get_object contents"
    and "persist_casefile_and_prepare_outbox_ready (put_if_absent put_object bucket) (get_object_bytes get_object bucket) sha256_hex cds c s = (r, s')"
    and "contents s (bucket, stage_key (tg_case_id c) ''triage'') = Some b"
  shows "stored contents bucket s' = stored contents bucket s"
  using persist_ready_effect [OF server_store [OF assms(1)] assms(2)] assms(3) by auto

section \<open>Properties\<close>



text \<open>C24: Assembly seals what it sanitised, and the result verifies. If the draft of a case file survives sanitisation and JSON can carry the
  sanitised case file, assembly returns exactly that case file with its hash set to the digest of its canonical text, and
  reading the serialised form back, with the hash check, gives the same case file.\<close>

theorem assembled_casefile_verifies:
  assumes "sealed_model sha256_hex (cd_triage cds) validate_casefile_triage ''triage_hash'' tg_triage_hash (\<lambda>c h. c\<lparr>tg_triage_hash := h\<rparr>) carried"
    and "draft_casefile sha256_hex clock sc ev po topo gi ad rb mv d dv ts cid = Inr draft"
    and "sanitize_casefile search cds d draft = Inr clean" "carried clean"
  shows "\<exists>c. assemble_casefile_triage_stage sha256_hex search cds clock sc ev po topo gi ad rb mv d dv ts cid = Inr c \<and>
    c = clean\<lparr>tg_triage_hash := sha256_hex (mc_dump_json (cd_triage cds) (clean\<lparr>tg_triage_hash := hash_placeholder\<rparr>))\<rparr> \<and>
    validate_casefile_triage_json sha256_hex cds (mc_dump_json (cd_triage cds) c) = Inr c"
proof -
  let ?h = "sha256_hex (mc_dump_json (cd_triage cds) (clean\<lparr>tg_triage_hash := hash_placeholder\<rparr>))"
  have h: "compute_casefile_triage_hash sha256_hex cds clean = Inr ?h"
    using sealed_model.hash_of_carried [OF assms(1,4)] sealed_model.digest_def [OF assms(1)]
    by (simp add: compute_casefile_triage_hash_def)
  have "validate_casefile_triage_json sha256_hex cds (mc_dump_json (cd_triage cds) (clean\<lparr>tg_triage_hash := ?h\<rparr>)) = Inr (clean\<lparr>tg_triage_hash := ?h\<rparr>)"
    using sealed_model.sealed_reads_back [OF assms(1,4)] sealed_model.digest_def [OF assms(1)]
    by (simp add: validate_casefile_triage_json_def compute_casefile_triage_hash_def)
  then show ?thesis by (simp add: assemble_casefile_triage_stage_def assms h)
qed

theorem assembled_casefile_verifies_witness:
  "\<exists>c. assemble_casefile_triage_stage sample_digest (\<lambda>_ _. False) sample_codecs 3 [''prod'', ''c1'', ''t1''] sample_quiet sample_peak sample_topology
      case_gate_input case_observe rulebook_v1 ''1.0.0'' sample_denylist ''v1'' None None = Inr c \<and>
    validate_casefile_triage_json sample_digest sample_codecs (mc_dump_json (cd_triage sample_codecs) c) = Inr c"
proof -
  have "rbind (sample_draft 3) (sanitize_casefile (\<lambda>_ _. False) sample_codecs sample_denylist) = Inr (sample_triage hash_placeholder 3)"
    by code_simp
  then obtain draft where d: "sample_draft 3 = Inr draft"
    and c: "sanitize_casefile (\<lambda>_ _. False) sample_codecs sample_denylist draft = Inr (sample_triage hash_placeholder 3)"
    by (auto elim: rbind_InrE)
  have "sample_carried sample_triage (\<lambda>_. True) (sample_triage hash_placeholder 3)"
    using triage_seal.placeholder_hex by (auto simp: sample_carried_def)
  from assembled_casefile_verifies [OF triage_seal.sealed_model_axioms d [unfolded sample_draft_def] c this] show ?thesis by auto
qed

text \<open>C23: A confirmed case file is durable and verifiable. When persistence returns the outbox payload, whatever faults occurred on the
  way, the object named by the payload holds the text of the case file, reading it back with the hash check gives the case file, and the payload
  carries the identifier and hash found there.\<close>

theorem confirmed_casefile_durable:
  assumes "s3_server put_object get_object contents"
    and "sealed_model sha256_hex (cd_triage cds) validate_casefile_triage ''triage_hash'' tg_triage_hash (\<lambda>c h. c\<lparr>tg_triage_hash := h\<rparr>) carried"
    and "carried c"
    and "persist_casefile_and_prepare_outbox_ready (put_if_absent put_object bucket) (get_object_bytes get_object bucket) sha256_hex cds c s = (Inr ready, s')"
  shows "\<exists>payload. contents s' (bucket, rc_object_path ready) = Some payload \<and>
    validate_casefile_triage_json sha256_hex cds payload = Inr c \<and> rc_case_id ready = tg_case_id c \<and> rc_triage_hash ready = tg_triage_hash c \<and>
    validate_ready_casefile ready = Inr ready"
proof -
  note w = confirmed_write [OF assms(1,4)]
  then have "validate_casefile_triage_json sha256_hex cds (mc_dump_json (cd_triage cds) c) = Inr c"
    using sealed_model.sealed_text_reads_back [OF assms(2,3)]
    by (simp add: validate_casefile_triage_json_def compute_casefile_triage_hash_def)
  with w show ?thesis by auto
qed

theorem confirmed_casefile_durable_witness:
  "\<exists>ready s' payload. persist_casefile_and_prepare_outbox_ready bucket_put bucket_get sample_digest sample_codecs (sample_sealed 3) after_lost_write = (Inr ready, s') \<and>
     sim_contents s' (''casefiles'', rc_object_path ready) = Some payload \<and>
     validate_casefile_triage_json sample_digest sample_codecs payload = Inr (sample_sealed 3)"
proof -
  have "is_ok (fst (persist_casefile_and_prepare_outbox_ready bucket_put bucket_get sample_digest sample_codecs (sample_sealed 3) after_lost_write))"
    by code_simp
  then obtain ready s' where p: "persist_casefile_and_prepare_outbox_ready bucket_put bucket_get sample_digest sample_codecs (sample_sealed 3) after_lost_write = (Inr ready, s')"
    by (metis is_ok_iff prod.collapse)
  from confirmed_casefile_durable [OF s3sim.s3_server_axioms triage_seal.sealed_model_axioms sample_sealed_carried p] p show ?thesis by blast
qed

text \<open>C37: A case is written once. The case identifier is derived from the environment, cluster, topic and action fingerprint alone, so an anomaly that
  lasts gives the same identifier in every cycle; once its case file is stored, persisting another case file of that identifier
  with other contents (another evaluation time is enough) fails whatever the store does, and leaves the store as it was.\<close>

theorem recurring_case_rejected:
  assumes "s3_server put_object get_object contents"
    and "draft_casefile sha256_hex clock1 sc ev1 po1 topo1 gi1 ad1 rb mv d dv None None = Inr draft1"
    and "draft_casefile sha256_hex clock2 sc ev2 po2 topo2 gi2 ad2 rb mv d dv None None = Inr draft2"
    and "gi_case_id gi1 = None" "gi_case_id gi2 = None" "gi_env gi1 = gi_env gi2" "gi_cluster_id gi1 = gi_cluster_id gi2"
      "gi_topic gi1 = gi_topic gi2" "gi_action_fingerprint gi1 = gi_action_fingerprint gi2"
    and "tg_case_id c1 = tg_case_id draft1" "tg_case_id c2 = tg_case_id draft2"
    and "persist_casefile_and_prepare_outbox_ready (put_if_absent put_object bucket) (get_object_bytes get_object bucket) sha256_hex cds c1 s = (Inr ready, s1)"
    and "contents s2 (bucket, rc_object_path ready) = contents s1 (bucket, rc_object_path ready)"
    and "mc_dump_json (cd_triage cds) c1 \<noteq> mc_dump_json (cd_triage cds) c2"
    and "persist_casefile_and_prepare_outbox_ready (put_if_absent put_object bucket) (get_object_bytes get_object bucket) sha256_hex cds c2 s2 = (r, s3)"
  shows "(\<exists>e. r = Inl e) \<and> (\<forall>k. contents s3 (bucket, k) = contents s2 (bucket, k))"
proof -
  have "tg_case_id c1 = tg_case_id c2"
    using assms(2-11)
    by (auto simp: draft_casefile_def derive_case_id_def truthy_or_def raise_def elim!: rbind_InrE split: if_splits)
  then have there: "contents s2 (bucket, stage_key (tg_case_id c2) ''triage'') = Some (mc_dump_json (cd_triage cds) c1)"
    using confirmed_write [OF assms(1,12)] assms(13) by auto
  then have same: "stored contents bucket s3 = stored contents bucket s2" by (rule persist_keeps [OF assms(1,15)])
  have "\<exists>e. r = Inl e"
  proof (cases r)
    case (Inr x)
    from confirmed_write [OF assms(1) assms(15) [unfolded Inr]] there fun_cong [OF same] assms(14) show ?thesis by force
  qed simp
  then show ?thesis using fun_cong [OF same] by simp
qed

theorem recurring_case_rejected_witness:
  "\<exists>e s3. persist_casefile_and_prepare_outbox_ready bucket_put bucket_get sample_digest sample_codecs (sample_sealed 4) after_lost_write = (Inl e, s3)"
proof -
  let ?persist = "persist_casefile_and_prepare_outbox_ready bucket_put bucket_get sample_digest sample_codecs"
  have "is_ok (sample_draft 3)" "is_ok (sample_draft 4)" by code_simp+
  then obtain d3 d4 where d: "sample_draft 3 = Inr d3" "sample_draft 4 = Inr d4" by (auto simp: is_ok_iff)
  have "rbind (sample_draft 3) (\<lambda>x. Inr (tg_case_id x)) = Inr (tg_case_id (sample_sealed 3))"
    "rbind (sample_draft 4) (\<lambda>x. Inr (tg_case_id x)) = Inr (tg_case_id (sample_sealed 4))" by code_simp+
  then have ids: "tg_case_id (sample_sealed 3) = tg_case_id d3" "tg_case_id (sample_sealed 4) = tg_case_id d4" by (simp_all add: d)
  have "is_ok (fst (?persist (sample_sealed 3) after_lost_write))" by code_simp
  then obtain ready s1 where p: "?persist (sample_sealed 3) after_lost_write = (Inr ready, s1)" by (metis is_ok_iff prod.collapse)
  obtain r s3 where q: "?persist (sample_sealed 4) s1 = (r, s3)" by (cases "?persist (sample_sealed 4) s1") auto
  have "mc_dump_json (cd_triage sample_codecs) (sample_sealed 3) \<noteq> mc_dump_json (cd_triage sample_codecs) (sample_sealed 4)" by code_simp
  moreover have "gi_case_id case_gate_input = None" by (simp add: case_gate_input_def)
  ultimately have rej: "\<exists>e. r = Inl e"
    using recurring_case_rejected [OF s3sim.s3_server_axioms d(1) [unfolded sample_draft_def] d(2) [unfolded sample_draft_def] _ _ refl refl refl refl
      ids p refl _ q] by blast
  have "snd (?persist (sample_sealed 3) after_lost_write) = after_lost_write" by code_simp
  then have "s1 = after_lost_write" by (simp add: p)
  with rej q show ?thesis by (auto simp: sample_gate_input_def)
qed

end
