(* ===== verification/Publication.thy ===== *)
theory Publication
  imports Outbox_Worker Casefile_Properties
begin

text \<open>
  Properties of the outbox publisher over the S3 adapter: Invariant A (nothing is offered to Kafka that is not built from a stored and
  verified case file of the row) and progress of an iteration.
\<close>

definition sample_excerpt_codec :: "triage_excerpt model_codec" where
  "sample_excerpt_codec = \<lparr>mc_dump = (\<lambda>_. []), mc_load = (\<lambda>_. Inr (snd (build_outbox_case_events (sample_sealed 3)))),
     mc_dump_json = (\<lambda>_. []), mc_load_json = (\<lambda>_. Inr (snd (build_outbox_case_events (sample_sealed 3))))\<rparr>"

definition sample_worker :: outbox_worker where
  "sample_worker = \<lparr>wk_denylist = sample_denylist, wk_policy = sample_outbox_policy, wk_app_env = ''prod'', wk_alert_evaluator = None,
     wk_batch_size = 10, wk_poll_interval_seconds = Fin 5\<rparr>"

definition sample_ready_row :: outbox_record where
  "sample_ready_row = new_outbox_record READY \<lparr>rc_case_id = ''case-prod-c1-t1-222222222222'',
     rc_object_path = ''cases/case-prod-c1-t1-222222222222/triage.json'', rc_triage_hash = tg_triage_hash (sample_sealed 3)\<rparr> 0"

definition sample_send :: "nat publish_events" where
  "sample_send n h x = (Inr (), Suc n)"

definition sample_world :: "(sim_s3, nat) worker_world" where
  "sample_world = \<lparr>ww_store = after_lost_write, ww_rows = [sample_ready_row], ww_faults = [],
     ww_bus = \<lparr>bus_offered = [], bus_headers = [], bus_state = 0\<rparr>, ww_samples = []\<rparr>"

lemma health_total:
  assumes "wk_alert_evaluator wk = None" "ww_faults w = []"
    and "int (length (ww_rows w)) < 2 ^ 53" "0 \<le> dead_threshold (wk_policy wk) (wk_app_env wk)"
      "dead_threshold (wk_policy wk) (wk_app_env wk) < 2 ^ 53"
  shows "\<exists>h. emit_backlog_health_logs wk t w = (Inr h, w)"
proof -
  let ?ca = "fold (count_and_age t) (ww_rows w) (\<lambda>_. 0, \<lambda>_. Fin 0)"
  obtain h where h: "select_backlog_health t None (Some (Aware t)) (ww_rows w) = Inr h" "hs_dead_count h = fst ?ca DEAD"
    by (cases ?ca) (simp add: select_backlog_health_def resolve_now_def read_tx_def)
  have d: "0 \<le> hs_dead_count h" "hs_dead_count h < 2 ^ 53"
    using assms(3) le_less_trans [OF length_filter_le [of "\<lambda>r. or_status r = DEAD" "ww_rows w"], of "2 ^ 53"] by (auto simp: h(2) count_fold)
  then have "fl_of_int (hs_dead_count h) = Inr (Fin (of_int (hs_dead_count h)))" by (simp add: fl_of_int_def)
  moreover have "fl_of_int (dead_threshold (wk_policy wk) (wk_app_env wk)) = Inr (Fin (of_int (dead_threshold (wk_policy wk) (wk_app_env wk))))"
    using assms(4,5) by (simp add: fl_of_int_def)
  moreover have "\<exists>x. state_age_breach None row = Inr x" for row
    by (auto simp: state_age_breach_def split: prod.splits option.splits)
  then have "\<exists>bs. rmap_list (state_age_breach None) rows = Inr bs" for rows
    by (induction rows) (simp, metis rbind.simps(2) rmap_list.simps(2))
  then obtain bs where "rmap_list (state_age_breach None) (state_age_rows (wk_policy wk) h) = Inr bs" by blast
  ultimately show ?thesis
    using h(1) assms(1,2)
    by (simp add: emit_backlog_health_logs_def next_tx_fault_def emit_state_age_threshold_breaches_def emit_dead_count_threshold_breach_def)
qed

section \<open>Properties\<close>

text \<open>C4: Invariant A: nothing is published that is not durable. Whatever the store, the database and Kafka do, every event pair an iteration of the
  worker offers to Kafka is built from the case file stored at the path of a READY or RETRY row of the outbox: that object verifies
  against its hash, carries the row's case identifier and hash, and the excerpt has passed the denylist; the iteration never changes the stored objects.\<close>

theorem published_only_when_durable:
  assumes "s3_server put_object get_object contents"
    and "run_once (get_object_bytes get_object bucket) send search sha256_hex sha256 cds xcd wk clock now w = (res, w')"
  shows "(\<exists>new. bus_offered (ww_bus w') = bus_offered (ww_bus w) @ new \<and>
      (\<forall>hx \<in> set new. \<exists>r \<in> set (ww_rows w). or_status r \<in> {READY, RETRY} \<and>
        event_backed search sha256_hex cds xcd (wk_denylist wk) (stored contents bucket (ww_store w)) r hx)) \<and>
    (\<forall>k. contents (ww_store w') (bucket, k) = contents (ww_store w) (bucket, k))"
proof -
  note b = object_store.run_once_backed [OF server_store [OF assms(1)] assms(2)]
  have "event_backed search sha256_hex cds xcd (wk_denylist wk) v r hx \<Longrightarrow> or_status r \<in> {READY, RETRY}" for v r hx
    by (auto simp: event_backed_def)
  then show ?thesis using b fun_cong [of "stored contents bucket (ww_store w')" "stored contents bucket (ww_store w)"] by blast
qed

theorem published_only_when_durable_witness:
  "\<exists>new w'. run_once bucket_get sample_send (\<lambda>_ _. False) sample_digest (\<lambda>_. []) sample_codecs sample_excerpt_codec sample_worker 0 None sample_world
      = (Inr \<lparr>wi_scanned_count = 1, wi_sent_count = 1, wi_failed_count = 0\<rparr>, w') \<and> bus_offered (ww_bus w') = new \<and> length new = 1 \<and>
    (\<forall>hx \<in> set new. event_backed (\<lambda>_ _. False) sample_digest sample_codecs sample_excerpt_codec sample_denylist
       (stored sim_contents ''casefiles'' after_lost_write) sample_ready_row hx)"
proof -
  let ?run = "run_once bucket_get sample_send (\<lambda>_ _. False) sample_digest (\<lambda>_. []) sample_codecs sample_excerpt_codec sample_worker 0 None sample_world"
  have r: "fst ?run = Inr \<lparr>wi_scanned_count = 1, wi_sent_count = 1, wi_failed_count = 0\<rparr>" by code_simp
  have l: "length (bus_offered (ww_bus (snd ?run))) = 1" by code_simp
  have "?run = (fst ?run, snd ?run)" by simp
  from published_only_when_durable [OF s3sim.s3_server_axioms this] r l show ?thesis
    by (intro exI [of _ "bus_offered (ww_bus (snd ?run))"] exI [of _ "snd ?run"])
      (auto simp: sample_world_def sample_worker_def prod_eq_iff)
qed



end
