(* ===== verification/Registry_Loader.thy ===== *)
theory Registry_Loader
  imports Topology
begin

text \<open>
  Loading of the topology registry: \<open>registry/loader.py\<close> and the loader rules of \<open>contracts/topology_registry.py\<close>.

  A file is read, parsed, canonicalised from the old (v0) or the new (v1) layout and cross-checked; the reloadable manager keeps the last
  snapshot that loaded. The file system is a parameter: the text and the modification time a call sees, which may belong to different
  versions of the file. The YAML parser is a parameter too (\<open>yaml_outcome\<close>); documents are \<open>jval\<close>
  values, so mapping keys are strings and \<open>str(key)\<close> is the key. \<open>fos\<close> is \<open>float(s)\<close> of a string,
  \<open>rend\<close> is \<open>str()\<close> of a float or a container (it only occurs in messages). Load durations and log records
  are left out; freezing of containers has no counterpart.
\<close>

section \<open>Rules and errors\<close>

record loader_rules =
  lr_supported_registry_versions :: "int list"
  lr_prefer_v2_format :: bool
  lr_routing_key_required :: bool
  lr_fail_on_unknown_topic_role :: bool
  lr_unknown_routing_key_fallback :: string
  lr_cluster_id_transform :: string

definition default_loader_rules :: loader_rules where
  "default_loader_rules = \<lparr>lr_supported_registry_versions = [1, 2], lr_prefer_v2_format = True, lr_routing_key_required = True,
     lr_fail_on_unknown_topic_role = False, lr_unknown_routing_key_fallback = ''OWN::Streaming::KafkaPlatform::Ops'',
     lr_cluster_id_transform = ''NONE''\<rparr>"

definition known_topic_roles :: "string list" where
  "known_topic_roles = [''SOURCE_TOPIC'', ''KAFKA_SOURCE_STREAM'', ''STANDARDIZER_SHARED'', ''AUDIT_RAW_SHARED'', ''SHARED_TOPIC'', ''SINK_TOPIC'']"

text \<open>\<open>repr\<close> of an ASCII string and of a tuple of ints.\<close>

definition hex_digit :: "nat \<Rightarrow> char" where
  "hex_digit n = (if n < 10 then char_of (48 + n) else char_of (87 + n))"

definition repr_char :: "char \<Rightarrow> char \<Rightarrow> string" where
  "repr_char quote c = (let n = (of_char c :: nat) in
     if c = quote \<or> n = 92 then [char_of (92 :: nat), c]
     else if n = 9 then [char_of (92 :: nat), CHR ''t''] else if n = 10 then [char_of (92 :: nat), CHR ''n'']
     else if n = 13 then [char_of (92 :: nat), CHR ''r'']
     else if n < 32 \<or> n = 127 then [char_of (92 :: nat), CHR ''x'', hex_digit (n div 16), hex_digit (n mod 16)]
     else [c])"

definition py_repr :: "string \<Rightarrow> string" where
  "py_repr s = (let quote = (if CHR 0x27 \<in> set s \<and> CHR 0x22 \<notin> set s then CHR 0x22 else CHR 0x27)
     in [quote] @ concat (map (repr_char quote) s) @ [quote])"

definition repr_int_tuple :: "int list \<Rightarrow> string" where
  "repr_int_tuple ns = ''('' @ py_join '', '' (map py_str_int ns) @ (if length ns = 1 then '','' else []) @ '')''"

definition registry_message :: "string \<Rightarrow> string \<Rightarrow> string option \<Rightarrow> string \<Rightarrow> string" where
  "registry_message category source_path offending_key detail =
     category @ '' in '' @ source_path @ (case offending_key of None \<Rightarrow> [] | Some k \<Rightarrow> '' key='' @ py_repr k) @
     (if detail = [] then [] else '' ('' @ detail @ '')'')"

definition invalid :: "string \<Rightarrow> string \<Rightarrow> string option \<Rightarrow> string \<Rightarrow> 'a result" where
  "invalid source_path category offending_key detail =
     raise TopologyRegistryValidationError (registry_message category source_path offending_key detail)"

section \<open>Reading the file\<close>

datatype yaml_outcome = Yaml_Loaded jval | Yaml_Duplicate string string "int option" | Yaml_Error string

text \<open>
  The mapping constructor hooked into the YAML loader: \<open>build\<close> is \<open>construct_object\<close> of a node with the
  current path; an outcome other than a value is a raised exception.
\<close>

fun construct_unique_mapping ::
  "(string list \<Rightarrow> 'n \<Rightarrow> yaml_outcome) \<Rightarrow> (string list \<Rightarrow> 'k \<Rightarrow> yaml_outcome + string) \<Rightarrow> ('k \<Rightarrow> int) \<Rightarrow> string list \<Rightarrow> ('k \<times> 'n) list \<Rightarrow>
   (string, jval) pydict \<Rightarrow> yaml_outcome" where
  "construct_unique_mapping build build_key line path [] mapping = Yaml_Loaded (JDict mapping)"
| "construct_unique_mapping build build_key line path ((key_node, value_node) # nodes) mapping =
     (case build_key path key_node of
        Inl failure \<Rightarrow> failure
      | Inr key \<Rightarrow>
          if key \<in> set (map fst mapping)
          then Yaml_Duplicate (if path = [] then ''<root>'' else py_join ''.'' path) key (Some (line key_node + 1))
          else (case build (path @ [key]) value_node of
              Yaml_Loaded v \<Rightarrow> construct_unique_mapping build build_key line path nodes (dict_set mapping key v)
            | failure \<Rightarrow> failure))"

definition ends_with :: "string \<Rightarrow> string \<Rightarrow> bool" where
  "ends_with s suffix = py_startswith (rev s) (rev suffix)"

definition read_registry_yaml :: "(string \<Rightarrow> yaml_outcome) \<Rightarrow> string \<Rightarrow> string result \<Rightarrow> (string, jval) pydict result" where
  "read_registry_yaml yaml_load source_path content = rbind content (\<lambda>txt0. case yaml_load txt0 of
       Yaml_Duplicate path key line \<Rightarrow>
         invalid source_path (if ends_with path ''topic_index'' then ''duplicate_topic_index'' else ''duplicate_yaml_key'')
           (Some (path @ ''.'' @ key))
           (''duplicate mapping key (line '' @ (case line of Some n \<Rightarrow> py_str_int n | None \<Rightarrow> ''None'') @ '')'')
     | Yaml_Error m \<Rightarrow> invalid source_path ''invalid_yaml'' None m
     | Yaml_Loaded (JDict d) \<Rightarrow> Inr d
     | Yaml_Loaded _ \<Rightarrow> invalid source_path ''invalid_topology_shape'' None ''top-level YAML node must be a mapping'')"

definition raw_get :: "(string, jval) pydict \<Rightarrow> string \<Rightarrow> jval \<Rightarrow> jval" where
  "raw_get raw key d = (case dict_get raw key of Some v \<Rightarrow> v | None \<Rightarrow> d)"

definition int_of_digits :: "string \<Rightarrow> int" where
  "int_of_digits s = fold (\<lambda>c acc. acc * 10 + (of_char c - 48)) s 0"

definition all_digits :: "string \<Rightarrow> bool" where
  "all_digits s = (s \<noteq> [] \<and> list_all (\<lambda>c. 48 \<le> (of_char c :: nat) \<and> (of_char c :: nat) \<le> 57) s)"

text \<open>\<open>int\<close> refuses decimal texts of more than 4300 digits.\<close>

definition normalize_version :: "(jval \<Rightarrow> string) \<Rightarrow> jval \<Rightarrow> int result" where
  "normalize_version rend v =
     (let unsupported = invalid ''<inline>'' ''unsupported_version_shape'' (Some ''version'')
            (''cannot parse version value '' @ (case v of JStr s \<Rightarrow> py_repr s | _ \<Rightarrow> py_str rend v))
      in case v of
        JInt n \<Rightarrow> Inr n
      | JBool b \<Rightarrow> Inr (if b then 1 else 0)
      | JStr s \<Rightarrow>
          (let lowered = py_lower (py_strip s);
               digits = (if py_startswith lowered ''v'' then tl lowered else lowered)
           in if all_digits digits
              then (if 4300 < length digits then raise ValueError ''Exceeds the limit (4300 digits) for integer string conversion''
                    else Inr (int_of_digits digits))
              else unsupported)
      | _ \<Rightarrow> unsupported)"

definition has_instances :: "jval \<Rightarrow> bool" where
  "has_instances v = (case v of JDict d \<Rightarrow> ''instances'' \<in> set (map fst d) | _ \<Rightarrow> False)"

definition detect_registry_version :: "(jval \<Rightarrow> string) \<Rightarrow> (string, jval) pydict \<Rightarrow> int result" where
  "detect_registry_version rend raw =
     (let raw_version = raw_get raw ''version'' (raw_get raw ''schema_version'' JNull)
      in if raw_version \<noteq> JNull then normalize_version rend raw_version
         else case raw_get raw ''streams'' (JList []) of
             JList streams \<Rightarrow> Inr (if list_ex has_instances streams then 2 else 1)
           | _ \<Rightarrow> Inr 1)"

definition validate_supported_version :: "int \<Rightarrow> loader_rules \<Rightarrow> string \<Rightarrow> unit result" where
  "validate_supported_version version rules source_path =
     (if version \<notin> set (lr_supported_registry_versions rules)
      then invalid source_path ''unsupported_registry_version'' (Some ''version'')
        (''version '' @ py_str_int version @ '' is not in supported versions '' @ repr_int_tuple (lr_supported_registry_versions rules))
      else Inr ())"

section \<open>Field checks\<close>

text \<open>The checks share the source path, the category and the offending key of their error.\<close>

definition require_non_empty_string :: "string \<Rightarrow> string \<Rightarrow> jval \<Rightarrow> string \<Rightarrow> string result" where
  "require_non_empty_string source_path category v offending_key = (case v of
       JStr s \<Rightarrow> if py_strip s = [] then invalid source_path category (Some offending_key) ''expected non-empty string'' else Inr (py_strip s)
     | _ \<Rightarrow> invalid source_path category (Some offending_key) ''expected non-empty string'')"

definition optional_string :: "string \<Rightarrow> string \<Rightarrow> jval \<Rightarrow> string \<Rightarrow> string option result" where
  "optional_string source_path category v offending_key = (case v of
       JNull \<Rightarrow> Inr None
     | JStr s \<Rightarrow> Inr (if py_strip s = [] then None else Some (py_strip s))
     | _ \<Rightarrow> invalid source_path category (Some offending_key) ''expected string-compatible value'')"

definition coerce_mapping :: "jval \<Rightarrow> (string, jval) pydict" where
  "coerce_mapping v = (case v of JDict d \<Rightarrow> d | _ \<Rightarrow> [])"

definition coerce_optional_mapping :: "jval \<Rightarrow> (string, jval) pydict option" where
  "coerce_optional_mapping v = (case v of JDict d \<Rightarrow> Some d | _ \<Rightarrow> None)"

definition coerce_mapping_list :: "jval \<Rightarrow> (string, jval) pydict list" where
  "coerce_mapping_list v = (case v of JList xs \<Rightarrow> List.map_filter (\<lambda>x. case x of JDict d \<Rightarrow> Some d | _ \<Rightarrow> None) xs | _ \<Rightarrow> [])"

fun normalize_string_items ::
  "string \<Rightarrow> string \<Rightarrow> string \<Rightarrow> (string \<times> jval) list \<Rightarrow> (string, string) pydict \<Rightarrow> (string, string) pydict result" where
  "normalize_string_items source_path category offending_key [] normalized = Inr normalized"
| "normalize_string_items source_path category offending_key ((k, v) # items) normalized =
     (if py_strip k = [] then invalid source_path category (Some offending_key) ''topics mapping keys must be non-empty strings''
      else case v of
        JStr s \<Rightarrow>
          if py_strip s = []
          then invalid source_path category (Some (offending_key @ ''.'' @ k)) ''topics mapping values must be non-empty strings''
          else normalize_string_items source_path category offending_key items (dict_set normalized (py_strip k) (py_strip s))
      | _ \<Rightarrow> invalid source_path category (Some (offending_key @ ''.'' @ k)) ''topics mapping values must be non-empty strings'')"

definition coerce_string_mapping :: "string \<Rightarrow> string \<Rightarrow> jval \<Rightarrow> string \<Rightarrow> (string, string) pydict result" where
  "coerce_string_mapping source_path category v offending_key = (case v of
       JNull \<Rightarrow> Inr []
     | JDict d \<Rightarrow> normalize_string_items source_path category offending_key d []
     | _ \<Rightarrow> invalid source_path category (Some offending_key) ''expected mapping of non-empty string keys to non-empty string values'')"

definition coerce_string_tuple :: "(jval \<Rightarrow> string) \<Rightarrow> jval \<Rightarrow> string list" where
  "coerce_string_tuple rend v = (case v of JStr s \<Rightarrow> [s] | JList xs \<Rightarrow> map (py_str rend) xs | _ \<Rightarrow> [])"

definition coerce_optional_float :: "(string \<Rightarrow> pyfloat option) \<Rightarrow> string \<Rightarrow> string \<Rightarrow> jval \<Rightarrow> string \<Rightarrow> pyfloat option result" where
  "coerce_optional_float fos source_path category v offending_key =
     (let bad = invalid source_path category (Some offending_key) ''expected float-compatible value''
      in case v of
        JNull \<Rightarrow> Inr None
      | JFloat x \<Rightarrow> Inr (Some x)
      | JBool b \<Rightarrow> Inr (Some (Fin (if b then 1 else 0)))
      | JInt n \<Rightarrow> rbind (fl_of_int n) (\<lambda>x. Inr (Some x))
      | JStr s \<Rightarrow> (case fos s of Some x \<Rightarrow> Inr (Some x) | None \<Rightarrow> bad)
      | _ \<Rightarrow> bad)"

section \<open>Streams\<close>

text \<open>Validation of \<open>CanonicalStream\<close> orders its instances.\<close>

definition instance_scope :: "stream_instance \<Rightarrow> string \<times> string" where
  "instance_scope i = (si_env i, si_cluster_id i)"

definition mk_stream :: "string \<Rightarrow> string option \<Rightarrow> string option \<Rightarrow> (string, jval) pydict \<Rightarrow> stream_instance list \<Rightarrow> stream" where
  "mk_stream stream_id description tier owners instances =
     \<lparr>st_stream_id = stream_id, st_description = description, st_criticality_tier = tier, st_owners = owners,
      st_instances = sort_key instance_scope instances\<rparr>"

definition instance_payload ::
  "string \<Rightarrow> string \<Rightarrow> (string, jval) pydict \<Rightarrow> string \<Rightarrow> string \<Rightarrow> string \<Rightarrow> (string, topic_entry) pydict \<Rightarrow> stream_instance result" where
  "instance_payload source_path category raw topics_key env cluster_id topic_index =
     rbind (coerce_string_mapping source_path category (raw_get raw ''topics'' (JDict [])) topics_key) (\<lambda>topics.
       Inr \<lparr>si_env = env, si_cluster_id = cluster_id, si_topic_index = topic_index, si_topics = topics,
            si_shared_components = coerce_mapping (raw_get raw ''shared_components'' (JDict [])),
            si_sources = coerce_mapping_list (raw_get raw ''sources'' (JList [])),
            si_sinks = coerce_mapping_list (raw_get raw ''sinks'' (JList [])),
            si_peak_window_policy = coerce_optional_mapping (raw_get raw ''peak_window_policy'' JNull)\<rparr>)"

definition stream_payload :: "string \<Rightarrow> (string, jval) pydict \<Rightarrow> string \<Rightarrow> stream_instance list \<Rightarrow> stream result" where
  "stream_payload source_path raw stream_id instances =
     (let ctx = ''streams['' @ stream_id @ '']''
      in rbind (optional_string source_path ''invalid_stream_entry'' (raw_get raw ''description'' JNull) (ctx @ ''.description'')) (\<lambda>description.
         rbind (optional_string source_path ''invalid_stream_entry'' (raw_get raw ''criticality_tier'' JNull) (ctx @ ''.criticality_tier'')) (\<lambda>tier.
           Inr (mk_stream stream_id description tier (coerce_mapping (raw_get raw ''owners'' (JDict []))) instances))))"

definition str_or :: "string option \<Rightarrow> string \<Rightarrow> string" where
  "str_or v d = (case v of Some s \<Rightarrow> if s = [] then d else s | None \<Rightarrow> d)"

subsection \<open>Old layout\<close>

type_synonym topics_by_stream = "(string, (string, topic_entry) pydict) pydict"

definition add_topic :: "topics_by_stream \<Rightarrow> string \<Rightarrow> topic_entry \<Rightarrow> topics_by_stream" where
  "add_topic acc stream_id te =
     dict_set acc stream_id (dict_set (case dict_get acc stream_id of Some d \<Rightarrow> d | None \<Rightarrow> []) (ct_topic te) te)"

fun group_v0_topics :: "string \<Rightarrow> (string \<times> jval) list \<Rightarrow> topics_by_stream \<Rightarrow> topics_by_stream result" where
  "group_v0_topics source_path [] acc = Inr acc"
| "group_v0_topics source_path ((topic, entry) # items) acc = (case entry of
       JDict e \<Rightarrow>
         rbind (require_non_empty_string source_path ''invalid_topic_index_entry'' (raw_get e ''stream_id'' JNull)
                  (''topic_index.'' @ topic @ ''.stream_id'')) (\<lambda>stream_id.
         rbind (require_non_empty_string source_path ''invalid_topic_index_entry'' (raw_get e ''role'' JNull)
                  (''topic_index.'' @ topic @ ''.role'')) (\<lambda>role.
         rbind (optional_string source_path ''invalid_topic_index_entry'' (raw_get e ''source_system'' JNull)
                  (''topic_index.'' @ topic @ ''.source_system'')) (\<lambda>source_system.
           group_v0_topics source_path items
             (add_topic acc stream_id \<lparr>ct_topic = topic, ct_role = role, ct_stream_id = stream_id, ct_source_system = source_system\<rparr>))))
     | _ \<Rightarrow> invalid source_path ''invalid_topic_index_entry'' (Some topic) ''topic_index entry must be an object'')"

definition canonicalize_v0_stream :: "string \<Rightarrow> string \<Rightarrow> string \<Rightarrow> topics_by_stream \<Rightarrow> jval \<Rightarrow> stream result" where
  "canonicalize_v0_stream source_path default_env default_cluster_id topics_by_stream_id v = (case v of
       JDict raw \<Rightarrow>
         rbind (require_non_empty_string source_path ''invalid_stream_entry'' (raw_get raw ''stream_id'' JNull) ''streams[].stream_id'') (\<lambda>stream_id.
         rbind (optional_string source_path ''invalid_stream_entry'' (raw_get raw ''env'' JNull) (''streams['' @ stream_id @ ''].env'')) (\<lambda>env.
         rbind (optional_string source_path ''invalid_stream_entry'' (raw_get raw ''cluster_id'' JNull)
                  (''streams['' @ stream_id @ ''].cluster_id'')) (\<lambda>cluster_id.
         rbind (instance_payload source_path ''invalid_stream_entry'' raw (''streams['' @ stream_id @ ''].topics'')
                  (str_or env default_env) (str_or cluster_id default_cluster_id)
                  (case dict_get topics_by_stream_id stream_id of Some d \<Rightarrow> d | None \<Rightarrow> [])) (\<lambda>inst.
           stream_payload source_path raw stream_id [inst]))))
     | _ \<Rightarrow> invalid source_path ''invalid_stream_entry'' None ''stream entry must be an object'')"

definition canonicalize_v0_streams :: "string \<Rightarrow> string \<Rightarrow> string \<Rightarrow> (string, jval) pydict \<Rightarrow> jval list \<Rightarrow> stream list result" where
  "canonicalize_v0_streams source_path default_env default_cluster_id raw streams_raw =
     (case raw_get raw ''topic_index'' (JDict []) of
        JDict topic_index_raw \<Rightarrow>
          rbind (group_v0_topics source_path (sort_key fst topic_index_raw) []) (\<lambda>topics_by_stream_id.
          rbind (rmap_list (canonicalize_v0_stream source_path default_env default_cluster_id topics_by_stream_id) streams_raw) (\<lambda>streams.
            case sort (filter (\<lambda>sid. sid \<notin> set (map st_stream_id streams)) (map fst topics_by_stream_id)) of
              [] \<Rightarrow> Inr streams
            | sid # _ \<Rightarrow> invalid source_path ''unknown_stream_reference'' (Some sid) ''topic_index refers to stream_id not present in streams[]''))
      | _ \<Rightarrow> invalid source_path ''invalid_topic_index_shape'' (Some ''topic_index'') ''v0 registry expects top-level topic_index mapping'')"

subsection \<open>New layout\<close>

fun instance_topics :: "string \<Rightarrow> string \<Rightarrow> string \<Rightarrow> (string \<times> jval) list \<Rightarrow> (string, topic_entry) pydict \<Rightarrow> (string, topic_entry) pydict result" where
  "instance_topics source_path stream_id prefix [] acc = Inr acc"
| "instance_topics source_path stream_id prefix ((topic, entry) # items) acc = (case entry of
       JDict e \<Rightarrow>
         rbind (optional_string source_path ''invalid_topic_index_entry'' (raw_get e ''stream_id'' JNull)
                  (prefix @ '':'' @ topic @ ''.stream_id'')) (\<lambda>sid.
         (if str_or sid stream_id \<noteq> stream_id
          then invalid source_path ''topic_index_stream_mismatch'' (Some (prefix @ '':'' @ topic))
            (''entry stream_id='' @ py_repr (str_or sid stream_id) @ '' does not match parent stream '' @ py_repr stream_id)
          else
            rbind (require_non_empty_string source_path ''invalid_topic_index_entry'' (raw_get e ''role'' JNull)
                     (prefix @ '':'' @ topic @ ''.role'')) (\<lambda>role.
            rbind (optional_string source_path ''invalid_topic_index_entry'' (raw_get e ''source_system'' JNull)
                     (prefix @ '':'' @ topic @ ''.source_system'')) (\<lambda>source_system.
              instance_topics source_path stream_id prefix items
                (dict_set acc topic \<lparr>ct_topic = topic, ct_role = role, ct_stream_id = stream_id, ct_source_system = source_system\<rparr>)))))
     | _ \<Rightarrow> invalid source_path ''invalid_topic_index_entry'' (Some (prefix @ '':'' @ topic)) ''topic_index entry must be an object'')"

definition canonicalize_instance_topic_index ::
  "string \<Rightarrow> string \<Rightarrow> string \<times> string \<Rightarrow> jval \<Rightarrow> (string, topic_entry) pydict result" where
  "canonicalize_instance_topic_index source_path stream_id sc v =
     (let prefix = fst sc @ '':'' @ snd sc
      in case v of
        JDict d \<Rightarrow> instance_topics source_path stream_id prefix (sort_key fst d) []
      | _ \<Rightarrow> invalid source_path ''invalid_topic_index_shape'' (Some prefix) ''topic_index must be an object'')"

definition canonicalize_instance :: "string \<Rightarrow> string \<Rightarrow> jval \<Rightarrow> stream_instance result" where
  "canonicalize_instance source_path stream_id v =
     (let ctx = ''streams['' @ stream_id @ ''].instances''
      in case v of
        JDict raw \<Rightarrow>
          rbind (require_non_empty_string source_path ''invalid_instance_entry'' (raw_get raw ''env'' JNull) (ctx @ ''[].env'')) (\<lambda>env.
          rbind (require_non_empty_string source_path ''invalid_instance_entry'' (raw_get raw ''cluster_id'' JNull) (ctx @ ''[].cluster_id'')) (\<lambda>cluster_id.
          rbind (canonicalize_instance_topic_index source_path stream_id (env, cluster_id) (raw_get raw ''topic_index'' (JDict []))) (\<lambda>topic_index.
            instance_payload source_path ''invalid_instance_entry'' raw (ctx @ ''['' @ env @ '':'' @ cluster_id @ ''].topics'') env cluster_id topic_index)))
      | _ \<Rightarrow> invalid source_path ''invalid_instance_entry'' (Some (ctx @ ''[]'')) ''instance entry must be an object'')"

definition canonicalize_v1_stream :: "string \<Rightarrow> jval \<Rightarrow> stream result" where
  "canonicalize_v1_stream source_path v = (case v of
       JDict raw \<Rightarrow>
         rbind (require_non_empty_string source_path ''invalid_stream_entry'' (raw_get raw ''stream_id'' JNull) ''streams[].stream_id'') (\<lambda>stream_id.
         case dict_get raw ''instances'' of
           Some (JList instances_raw) \<Rightarrow>
             rbind (rmap_list (canonicalize_instance source_path stream_id) instances_raw) (stream_payload source_path raw stream_id)
         | _ \<Rightarrow> invalid source_path ''invalid_instances_shape'' (Some (''streams['' @ stream_id @ ''].instances''))
                 ''instances must be a list for v1/v2 shape'')
     | _ \<Rightarrow> invalid source_path ''invalid_stream_entry'' None ''stream entry must be an object'')"

definition canonicalize_v1_streams :: "string \<Rightarrow> jval list \<Rightarrow> stream list result" where
  "canonicalize_v1_streams source_path streams_raw = rmap_list (canonicalize_v1_stream source_path) streams_raw"

section \<open>Routing directory and ownership\<close>

definition routing_entry_of :: "string \<Rightarrow> (string, routing_entry) pydict \<Rightarrow> jval \<Rightarrow> routing_entry result" where
  "routing_entry_of source_path directory v = (case v of
       JDict item \<Rightarrow>
         (let req = require_non_empty_string source_path ''invalid_routing_directory_entry'';
              opt = optional_string source_path ''invalid_routing_directory_entry''
          in rbind (req (raw_get item ''routing_key'' JNull) ''routing_directory[].routing_key'') (\<lambda>routing_key.
             if routing_key \<in> set (map fst directory)
             then invalid source_path ''duplicate_routing_key'' (Some routing_key) ''routing_directory contains duplicate routing_key entries''
             else let ctx = ''routing_directory['' @ routing_key @ ''].'' in
               rbind (req (raw_get item ''owning_team_id'' JNull) (ctx @ ''owning_team_id'')) (\<lambda>team_id.
               rbind (req (raw_get item ''owning_team_name'' JNull) (ctx @ ''owning_team_name'')) (\<lambda>team_name.
               rbind (opt (raw_get item ''support_channel'' JNull) (ctx @ ''support_channel'')) (\<lambda>channel.
               rbind (opt (raw_get item ''escalation_policy_ref'' JNull) (ctx @ ''escalation_policy_ref'')) (\<lambda>policy_ref.
               rbind (opt (raw_get item ''service_now_assignment_group'' JNull) (ctx @ ''service_now_assignment_group'')) (\<lambda>assignment.
                 Inr \<lparr>re_routing_key = routing_key, re_owning_team_id = team_id, re_owning_team_name = team_name,
                      re_support_channel = channel, re_escalation_policy_ref = policy_ref,
                      re_service_now_assignment_group = assignment\<rparr>)))))))
     | _ \<Rightarrow> invalid source_path ''invalid_routing_directory_entry'' None ''routing_directory entry must be an object'')"

fun routing_entries :: "string \<Rightarrow> jval list \<Rightarrow> (string, routing_entry) pydict \<Rightarrow> (string, routing_entry) pydict result" where
  "routing_entries source_path [] directory = Inr directory"
| "routing_entries source_path (v # items) directory =
     rbind (routing_entry_of source_path directory v) (\<lambda>e. routing_entries source_path items (dict_set directory (re_routing_key e) e))"

definition canonicalize_routing_directory :: "string \<Rightarrow> (string, jval) pydict \<Rightarrow> (string, routing_entry) pydict result" where
  "canonicalize_routing_directory source_path raw = (case raw_get raw ''routing_directory'' (JList []) of
       JNull \<Rightarrow> Inr [] | JDict [] \<Rightarrow> Inr []
     | JList items \<Rightarrow> routing_entries source_path items []
     | _ \<Rightarrow> invalid source_path ''invalid_routing_directory_shape'' (Some ''routing_directory'') ''routing_directory must be a list'')"

text \<open>
  The three owner lists are read alike; \<open>kind\<close> is the name of the list, \<open>entry\<close> that of one element, and the three
  parts of the key are looked up in its \<open>match\<close> object.
\<close>

definition coerce_owner ::
  "(string \<Rightarrow> pyfloat option) \<Rightarrow> (jval \<Rightarrow> string) \<Rightarrow> string \<Rightarrow> string \<Rightarrow> string \<Rightarrow> string \<times> string \<times> string \<Rightarrow> jval \<Rightarrow> owner_entry result" where
  "coerce_owner fos rend source_path kind entry parts v = (case v of
       JDict item \<Rightarrow>
         (let category = ''invalid_'' @ entry @ ''_entry''; ctx = ''ownership_map.'' @ kind @ ''[].'';
              found = coerce_mapping (raw_get item ''match'' (JDict []));
              part = (\<lambda>name. require_non_empty_string source_path category (raw_get found name JNull) (ctx @ ''match.'' @ name))
          in rbind (part (fst parts)) (\<lambda>a. rbind (part (fst (snd parts))) (\<lambda>b. rbind (part (snd (snd parts))) (\<lambda>c.
             rbind (require_non_empty_string source_path category (raw_get item ''routing_key'' JNull) (ctx @ ''routing_key'')) (\<lambda>routing_key.
             rbind (optional_string source_path category (raw_get item ''source'' JNull) (ctx @ ''source'')) (\<lambda>source.
             rbind (coerce_optional_float fos source_path category (raw_get item ''confidence'' JNull) (ctx @ ''confidence'')) (\<lambda>confidence.
               Inr \<lparr>oe_key = (a, b, c), oe_routing_key = routing_key, oe_source = source, oe_confidence = confidence,
                    oe_reason_codes = coerce_string_tuple rend (raw_get item ''reason_codes'' (JList []))\<rparr>)))))))
     | _ \<Rightarrow> invalid source_path (''invalid_'' @ entry @ ''_entry'') None (entry @ '' entry must be an object''))"

definition coerce_consumer_group_owners ::
  "(string \<Rightarrow> pyfloat option) \<Rightarrow> (jval \<Rightarrow> string) \<Rightarrow> string \<Rightarrow> jval \<Rightarrow> owner_entry list result" where
  "coerce_consumer_group_owners fos rend source_path v = (case v of
       JList items \<Rightarrow> rmap_list (coerce_owner fos rend source_path ''consumer_group_owners'' ''consumer_group_owner'' (''env'', ''cluster_id'', ''group'')) items
     | _ \<Rightarrow> invalid source_path ''invalid_consumer_group_owners_shape'' (Some ''ownership_map.consumer_group_owners'')
              ''consumer_group_owners must be a list'')"

definition coerce_topic_owners ::
  "(string \<Rightarrow> pyfloat option) \<Rightarrow> (jval \<Rightarrow> string) \<Rightarrow> string \<Rightarrow> jval \<Rightarrow> owner_entry list result" where
  "coerce_topic_owners fos rend source_path v = (case v of
       JList items \<Rightarrow> rmap_list (coerce_owner fos rend source_path ''topic_owners'' ''topic_owner'' (''env'', ''cluster_id'', ''topic'')) items
     | _ \<Rightarrow> invalid source_path ''invalid_topic_owners_shape'' (Some ''ownership_map.topic_owners'') ''topic_owners must be a list'')"

definition coerce_stream_default_owners ::
  "(string \<Rightarrow> pyfloat option) \<Rightarrow> (jval \<Rightarrow> string) \<Rightarrow> string \<Rightarrow> jval \<Rightarrow> owner_entry list result" where
  "coerce_stream_default_owners fos rend source_path v = (case v of
       JList items \<Rightarrow> rmap_list (coerce_owner fos rend source_path ''stream_default_owner'' ''stream_default_owner'' (''stream_id'', ''env'', ''cluster_id'')) items
     | _ \<Rightarrow> invalid source_path ''invalid_stream_default_owner_shape'' (Some ''ownership_map.stream_default_owner'')
              ''stream_default_owner must be a list'')"

definition canonicalize_ownership_map ::
  "(string \<Rightarrow> pyfloat option) \<Rightarrow> (jval \<Rightarrow> string) \<Rightarrow> string \<Rightarrow> (string, jval) pydict \<Rightarrow> ownership_map result" where
  "canonicalize_ownership_map fos rend source_path raw =
     rbind (case raw_get raw ''ownership_map'' (JDict []) of
              JNull \<Rightarrow> Inr [] | JList [] \<Rightarrow> Inr [] | JDict d \<Rightarrow> Inr d
            | _ \<Rightarrow> invalid source_path ''invalid_ownership_map_shape'' (Some ''ownership_map'') ''ownership_map must be an object'') (\<lambda>om.
     rbind (coerce_consumer_group_owners fos rend source_path (raw_get om ''consumer_group_owners'' (JList []))) (\<lambda>groups.
     rbind (coerce_topic_owners fos rend source_path (raw_get om ''topic_owners'' (JList []))) (\<lambda>topics.
     rbind (coerce_stream_default_owners fos rend source_path (raw_get om ''stream_default_owner'' (JList []))) (\<lambda>defaults.
     rbind (optional_string source_path ''invalid_ownership_map_shape'' (raw_get om ''platform_default'' JNull) ''ownership_map.platform_default'') (\<lambda>platform.
       Inr \<lparr>om_consumer_group_owners = sort_key oe_key groups, om_topic_owners = sort_key oe_key topics,
            om_stream_default_owner = sort_key oe_key defaults, om_platform_default = platform\<rparr>)))))"

section \<open>Registry\<close>

type_synonym scope_index = "(string \<times> string, (string, topic_entry) pydict) pydict"

definition scope_key :: "string \<times> string \<Rightarrow> string \<Rightarrow> string" where
  "scope_key sc topic = fst sc @ '':'' @ snd sc @ '':'' @ topic"

fun index_topics ::
  "string \<Rightarrow> loader_rules \<Rightarrow> string \<times> string \<Rightarrow> (string \<times> topic_entry) list \<Rightarrow> (string, topic_entry) pydict \<Rightarrow> (string, topic_entry) pydict result" where
  "index_topics source_path rules sc [] acc = Inr acc"
| "index_topics source_path rules sc ((topic, te) # items) acc =
     (if topic \<in> set (map fst acc)
      then invalid source_path ''duplicate_topic_index'' (Some (scope_key sc topic)) ''duplicate topic_index key within (env, cluster_id) scope''
      else if lr_fail_on_unknown_topic_role rules \<and> ct_role te \<notin> set known_topic_roles
      then invalid source_path ''unknown_topic_role'' (Some (scope_key sc topic))
        (''unsupported role '' @ py_repr (ct_role te) @ ''; allowed roles: '' @ py_join '', '' (sort known_topic_roles))
      else index_topics source_path rules sc items (dict_set acc topic te))"

fun index_instances ::
  "string \<Rightarrow> loader_rules \<Rightarrow> string \<Rightarrow> stream_instance list \<Rightarrow> (string \<times> string) list \<Rightarrow> scope_index \<Rightarrow> scope_index result" where
  "index_instances source_path rules stream_id [] seen acc = Inr acc"
| "index_instances source_path rules stream_id (i # is) seen acc =
     (let sc = instance_scope i
      in if sc \<in> set seen
         then invalid source_path ''duplicate_instance_scope'' (Some (stream_id @ '':'' @ fst sc @ '':'' @ snd sc))
           ''instances must be unique by (env, cluster_id) per stream''
         else rbind (index_topics source_path rules sc (si_topic_index i) (case dict_get acc sc of Some d \<Rightarrow> d | None \<Rightarrow> [])) (\<lambda>d.
           index_instances source_path rules stream_id is (sc # seen) (dict_set acc sc d)))"

fun index_streams ::
  "string \<Rightarrow> loader_rules \<Rightarrow> stream list \<Rightarrow> (string, stream) pydict \<Rightarrow> scope_index \<Rightarrow> ((string, stream) pydict \<times> scope_index) result" where
  "index_streams source_path rules [] by_id acc = Inr (by_id, acc)"
| "index_streams source_path rules (s # ss) by_id acc =
     (if st_stream_id s \<in> set (map fst by_id)
      then invalid source_path ''duplicate_stream_id'' (Some (st_stream_id s)) ''stream_id must be unique across registry''
      else rbind (index_instances source_path rules (st_stream_id s) (st_instances s) [] acc) (\<lambda>acc'.
        index_streams source_path rules ss (dict_set by_id (st_stream_id s) s) acc'))"

definition canonicalize_registry ::
  "(string \<Rightarrow> pyfloat option) \<Rightarrow> (jval \<Rightarrow> string) \<Rightarrow> string \<Rightarrow> loader_rules \<Rightarrow> int \<Rightarrow> string \<Rightarrow> string \<Rightarrow> (string, jval) pydict \<Rightarrow> registry result" where
  "canonicalize_registry fos rend source_path rules input_version default_env default_cluster_id raw = (case dict_get raw ''streams'' of
       Some (JList streams_raw) \<Rightarrow>
         rbind (if 2 \<le> input_version then canonicalize_v1_streams source_path streams_raw
                else canonicalize_v0_streams source_path default_env default_cluster_id raw streams_raw) (\<lambda>streams.
         rbind (index_streams source_path rules streams [] []) (\<lambda>(by_id, by_scope).
         rbind (canonicalize_routing_directory source_path raw) (\<lambda>directory.
         rbind (canonicalize_ownership_map fos rend source_path raw) (\<lambda>om.
           Inr \<lparr>rg_streams = sort_key st_stream_id streams, rg_streams_by_id = by_id, rg_topic_index_by_scope = sort_key fst by_scope,
                rg_routing_directory = directory, rg_ownership_map = om\<rparr>))))
     | _ \<Rightarrow> invalid source_path ''invalid_streams_shape'' (Some ''streams'') ''expected a list of stream entries'')"

fun first_duplicate :: "'a list \<Rightarrow> 'a list \<Rightarrow> 'a option" where
  "first_duplicate seen [] = None"
| "first_duplicate seen (x # xs) = (if x \<in> set seen then Some x else first_duplicate (x # seen) xs)"

definition check_owner_keys :: "string \<Rightarrow> string \<Rightarrow> string \<Rightarrow> owner_entry list \<Rightarrow> unit result" where
  "check_owner_keys source_path category detail entries = (case first_duplicate [] (map oe_key entries) of
       None \<Rightarrow> Inr ()
     | Some (a, b, c) \<Rightarrow> invalid source_path category (Some (a @ '':'' @ b @ '':'' @ c)) detail)"

definition referenced_routing_keys :: "ownership_map \<Rightarrow> string list" where
  "referenced_routing_keys om =
     map oe_routing_key (om_consumer_group_owners om @ om_topic_owners om @ om_stream_default_owner om) @
     (case om_platform_default om of None \<Rightarrow> [] | Some k \<Rightarrow> [k])"

definition validate_ownership_matrix :: "string \<Rightarrow> loader_rules \<Rightarrow> registry \<Rightarrow> unit result" where
  "validate_ownership_matrix source_path rules rg =
     (let om = rg_ownership_map rg
      in rbind (check_owner_keys source_path ''duplicate_consumer_group_owner'' ''duplicate consumer-group ownership key'' (om_consumer_group_owners om)) (\<lambda>_.
         rbind (check_owner_keys source_path ''duplicate_topic_owner'' ''duplicate topic ownership key'' (om_topic_owners om)) (\<lambda>_.
         rbind (check_owner_keys source_path ''duplicate_stream_default_owner'' ''duplicate stream-default ownership key'' (om_stream_default_owner om)) (\<lambda>_.
           if lr_routing_key_required rules
           then (case List.find (\<lambda>k. k \<notin> set (map fst (rg_routing_directory rg))) (sort (remdups (referenced_routing_keys om))) of
                   None \<Rightarrow> Inr ()
                 | Some k \<Rightarrow> invalid source_path ''missing_routing_key_reference'' (Some k)
                     ''routing_key is referenced by ownership map but missing in routing_directory'')
           else Inr ()))))"

record registry_metadata =
  md_source_path :: string
  md_source_mtime_ns :: int
  md_input_version :: int
  md_canonical_version :: int
  md_loaded_at :: instant

record registry_snapshot =
  sp_registry :: registry
  sp_metadata :: registry_metadata

text \<open>The file as one load sees it: its text, and the modification time read after validation.\<close>

record file_view =
  fv_text :: "string result"
  fv_mtime_ns :: "int result"

record loader_config =
  lc_path :: string
  lc_rules :: "loader_rules option"
  lc_default_env :: string
  lc_default_cluster_id :: string

definition load_topology_registry ::
  "(string \<Rightarrow> yaml_outcome) \<Rightarrow> (string \<Rightarrow> pyfloat option) \<Rightarrow> (jval \<Rightarrow> string) \<Rightarrow> instant \<Rightarrow> loader_config \<Rightarrow> file_view \<Rightarrow> registry_snapshot result" where
  "load_topology_registry yaml_load fos rend clock cfg file =
     (let source_path = lc_path cfg; rules = (case lc_rules cfg of Some r \<Rightarrow> r | None \<Rightarrow> default_loader_rules)
      in rbind (read_registry_yaml yaml_load source_path (fv_text file)) (\<lambda>raw.
         rbind (detect_registry_version rend raw) (\<lambda>input_version.
         rbind (validate_supported_version input_version rules source_path) (\<lambda>_.
         rbind (canonicalize_registry fos rend source_path rules input_version (lc_default_env cfg) (lc_default_cluster_id cfg) raw) (\<lambda>rg.
         rbind (validate_ownership_matrix source_path rules rg) (\<lambda>_.
         rbind (fv_mtime_ns file) (\<lambda>mtime.
           Inr \<lparr>sp_registry = rg,
                sp_metadata = \<lparr>md_source_path = source_path, md_source_mtime_ns = mtime, md_input_version = input_version,
                  md_canonical_version = 1, md_loaded_at = clock\<rparr>\<rparr>)))))))"

section \<open>Reloadable manager\<close>

record registry_loader =
  rl_config :: loader_config
  rl_snapshot :: "registry_snapshot option"

definition new_registry_loader :: "loader_config \<Rightarrow> registry_loader" where
  "new_registry_loader cfg = \<lparr>rl_config = cfg, rl_snapshot = None\<rparr>"

definition loader_load ::
  "(string \<Rightarrow> yaml_outcome) \<Rightarrow> (string \<Rightarrow> pyfloat option) \<Rightarrow> (jval \<Rightarrow> string) \<Rightarrow> instant \<Rightarrow> file_view \<Rightarrow> registry_loader \<Rightarrow>
   registry_snapshot result \<times> registry_loader" where
  "loader_load yaml_load fos rend clock file l = (case load_topology_registry yaml_load fos rend clock (rl_config l) file of
       Inl e \<Rightarrow> (Inl e, l)
     | Inr snapshot \<Rightarrow> (Inr snapshot, l\<lparr>rl_snapshot := Some snapshot\<rparr>))"

definition get_snapshot :: "registry_loader \<Rightarrow> registry_snapshot result" where
  "get_snapshot l = (case rl_snapshot l of
       None \<Rightarrow> raise RuntimeError ''Topology registry is not loaded yet. Call load() first.''
     | Some s \<Rightarrow> Inr s)"

text \<open>\<open>stat_mtime\<close> is the modification time the check reads, before the load of \<open>file\<close>.\<close>

definition reload_if_changed ::
  "(string \<Rightarrow> yaml_outcome) \<Rightarrow> (string \<Rightarrow> pyfloat option) \<Rightarrow> (jval \<Rightarrow> string) \<Rightarrow> instant \<Rightarrow> int result \<Rightarrow> file_view \<Rightarrow> registry_loader \<Rightarrow>
   bool result \<times> registry_loader" where
  "reload_if_changed yaml_load fos rend clock stat_mtime file l = (case rl_snapshot l of
       None \<Rightarrow> (case loader_load yaml_load fos rend clock file l of (Inl e, l') \<Rightarrow> (Inl e, l') | (Inr _, l') \<Rightarrow> (Inr True, l'))
     | Some current \<Rightarrow>
         (case stat_mtime of
            Inl e \<Rightarrow> (Inl e, l)
          | Inr latest \<Rightarrow>
              if latest = md_source_mtime_ns (sp_metadata current) then (Inr False, l)
              else (case load_topology_registry yaml_load fos rend clock (rl_config l) file of
                  Inl e \<Rightarrow> if exc_type e = TopologyRegistryValidationError then (Inr False, l) else (Inl e, l)
                | Inr candidate \<Rightarrow> (Inr True, l\<lparr>rl_snapshot := Some candidate\<rparr>))))"

section \<open>Old-layout view\<close>

record v0_topic =
  vt_role :: string
  vt_stream_id :: string
  vt_source_system :: "string option"

record v0_stream =
  vs_stream_id :: string
  vs_env :: string
  vs_description :: "string option"
  vs_criticality_tier :: "string option"
  vs_owners :: "(string, jval) pydict"
  vs_topics :: "(string, string) pydict"
  vs_sources :: "(string, jval) pydict list"
  vs_sinks :: "(string, jval) pydict list"
  vs_shared_components :: "(string, jval) pydict"
  vs_peak_window_policy :: "(string, jval) pydict option"

record v0_view =
  vv_version :: int
  vv_streams :: "v0_stream list"
  vv_topic_index :: "(string, v0_topic) pydict"

function to_plain_value :: "jval \<Rightarrow> jval" where
  "to_plain_value (JDict d) = JDict (sort_key fst (map (\<lambda>(k, v). (k, to_plain_value v)) d))"
| "to_plain_value (JList xs) = JList (map to_plain_value xs)"
| "to_plain_value JNull = JNull"
| "to_plain_value (JBool b) = JBool b"
| "to_plain_value (JInt n) = JInt n"
| "to_plain_value (JFloat x) = JFloat x"
| "to_plain_value (JStr s) = JStr s"
  by pat_completeness auto

termination
  by (relation "measure size") (auto simp: size_list_estimation' intro!: le_imp_less_Suc)

definition to_sorted_plain_mapping :: "(string, jval) pydict \<Rightarrow> (string, jval) pydict" where
  "to_sorted_plain_mapping d = sort_key fst (map (\<lambda>(k, v). (k, to_plain_value v)) d)"

definition to_sorted_string_mapping :: "(string, string) pydict \<Rightarrow> (string, string) pydict" where
  "to_sorted_string_mapping d = sort_key fst d"

definition compat_error :: "string \<Rightarrow> string \<Rightarrow> string \<Rightarrow> string \<Rightarrow> 'a result" where
  "compat_error source_path category offending_key detail =
     raise TopologyRegistryCompatibilityError (registry_message category source_path (Some offending_key) detail)"

definition normalize_scope_component :: "string \<Rightarrow> string \<Rightarrow> string \<Rightarrow> string result" where
  "normalize_scope_component source_path component_name v =
     (if py_strip v = [] then compat_error source_path ''invalid_scope'' component_name ''scope components must be non-empty strings''
      else Inr (py_strip v))"

definition find_stream_instance_for_scope :: "string \<times> string \<Rightarrow> stream \<Rightarrow> stream_instance option" where
  "find_stream_instance_for_scope sc s = List.find (\<lambda>i. instance_scope i = sc) (st_instances s)"

definition project_stream :: "string \<times> string \<Rightarrow> stream \<Rightarrow> v0_stream option" where
  "project_stream sc s = map_option (\<lambda>i. \<lparr>vs_stream_id = st_stream_id s, vs_env = fst sc, vs_description = st_description s,
     vs_criticality_tier = st_criticality_tier s, vs_owners = to_sorted_plain_mapping (st_owners s),
     vs_topics = to_sorted_string_mapping (si_topics i), vs_sources = map to_sorted_plain_mapping (si_sources i),
     vs_sinks = map to_sorted_plain_mapping (si_sinks i), vs_shared_components = to_sorted_plain_mapping (si_shared_components i),
     vs_peak_window_policy = map_option to_sorted_plain_mapping (si_peak_window_policy i)\<rparr>) (find_stream_instance_for_scope sc s)"

definition project_topic :: "topic_entry \<Rightarrow> v0_topic" where
  "project_topic te = \<lparr>vt_role = ct_role te, vt_stream_id = ct_stream_id te, vt_source_system = ct_source_system te\<rparr>"

definition build_v0_compat_view :: "registry_snapshot \<Rightarrow> string \<Rightarrow> string \<Rightarrow> v0_view result" where
  "build_v0_compat_view snapshot env cluster_id =
     (let source_path = md_source_path (sp_metadata snapshot)
      in rbind (normalize_scope_component source_path ''env'' env) (\<lambda>env.
         rbind (normalize_scope_component source_path ''cluster_id'' cluster_id) (\<lambda>cluster_id.
           let streams = List.map_filter (project_stream (env, cluster_id)) (rg_streams (sp_registry snapshot))
           in if streams = []
              then compat_error source_path ''scope_not_found'' (env @ '':'' @ cluster_id) ''no stream instances found for requested scope''
              else Inr \<lparr>vv_version = 1, vv_streams = sort_key vs_stream_id streams,
                        vv_topic_index = map (\<lambda>(topic, te). (topic, project_topic te))
                          (sort_key fst (case dict_get (rg_topic_index_by_scope (sp_registry snapshot)) (env, cluster_id) of
                             Some d \<Rightarrow> d | None \<Rightarrow> []))\<rparr>)))"

text \<open>Rendering leaves out what is empty or absent.\<close>

definition opt_item :: "string \<Rightarrow> string option \<Rightarrow> (string, jval) pydict" where
  "opt_item k v = (case v of None \<Rightarrow> [] | Some s \<Rightarrow> [(k, JStr s)])"

definition stream_to_legacy_dict :: "v0_stream \<Rightarrow> (string, jval) pydict" where
  "stream_to_legacy_dict s =
     [(''stream_id'', JStr (vs_stream_id s)), (''env'', JStr (vs_env s))] @
     opt_item ''description'' (vs_description s) @ opt_item ''criticality_tier'' (vs_criticality_tier s) @
     (if vs_owners s = [] then [] else [(''owners'', JDict (to_sorted_plain_mapping (vs_owners s)))]) @
     (if vs_topics s = [] then [] else [(''topics'', JDict (map (\<lambda>(k, v). (k, JStr v)) (to_sorted_string_mapping (vs_topics s))))]) @
     (if vs_sources s = [] then [] else [(''sources'', JList (map (\<lambda>x. JDict (to_sorted_plain_mapping x)) (vs_sources s)))]) @
     (if vs_sinks s = [] then [] else [(''sinks'', JList (map (\<lambda>x. JDict (to_sorted_plain_mapping x)) (vs_sinks s)))]) @
     (if vs_shared_components s = [] then [] else [(''shared_components'', JDict (to_sorted_plain_mapping (vs_shared_components s)))]) @
     (case vs_peak_window_policy s of None \<Rightarrow> [] | Some p \<Rightarrow> [(''peak_window_policy'', JDict (to_sorted_plain_mapping p))])"

definition topic_to_legacy_dict :: "v0_topic \<Rightarrow> (string, jval) pydict" where
  "topic_to_legacy_dict t = [(''role'', JStr (vt_role t)), (''stream_id'', JStr (vt_stream_id t))] @ opt_item ''source_system'' (vt_source_system t)"

definition view_to_legacy_dict :: "v0_view \<Rightarrow> (string, jval) pydict" where
  "view_to_legacy_dict v =
     [(''version'', JInt (vv_version v)), (''streams'', JList (map (\<lambda>s. JDict (stream_to_legacy_dict s)) (vv_streams v))),
      (''topic_index'', JDict (map (\<lambda>(topic, t). (topic, JDict (topic_to_legacy_dict t))) (vv_topic_index v)))]"

end
