(* ===== verification/Registry_Properties.thy ===== *)
theory Registry_Properties
  imports Registry_Loader Peak
begin

text \<open>
  What loading establishes. Canonical streams are normalised and belong together with their topics, the scope index is the union of the
  indices of the instances, owner keys are in the routing directory; together with the resolver this rules out most unresolved outcomes.
  The old-layout view can be loaded again. The reloadable manager only ever holds snapshots that loaded.
\<close>

section \<open>Specification\<close>

definition normalized :: "string \<Rightarrow> bool" where
  "normalized s = (s \<noteq> [] \<and> py_strip s = s)"

definition topic_entry_wf :: "string \<Rightarrow> string \<times> topic_entry \<Rightarrow> bool" where
  "topic_entry_wf stream_id = (\<lambda>(topic, te). ct_topic te = topic \<and> ct_stream_id te = stream_id \<and> normalized (ct_role te) \<and>
     pred_option normalized (ct_source_system te))"

definition instance_wf :: "string \<Rightarrow> stream_instance \<Rightarrow> bool" where
  "instance_wf stream_id i = (dict_wf (si_topic_index i) \<and> list_all (topic_entry_wf stream_id) (si_topic_index i) \<and>
     dict_wf (si_topics i) \<and> list_all (\<lambda>(k, v). normalized k \<and> normalized v) (si_topics i))"

definition stream_wf :: "stream \<Rightarrow> bool" where
  "stream_wf s = (normalized (st_stream_id s) \<and> pred_option normalized (st_description s) \<and> pred_option normalized (st_criticality_tier s) \<and>
     list_all (instance_wf (st_stream_id s)) (st_instances s))"

text \<open>The topics of a scope, without the loader's incremental index.\<close>

definition scope_instances :: "stream list \<Rightarrow> string \<times> string \<Rightarrow> stream_instance list" where
  "scope_instances streams sc = filter (\<lambda>i. instance_scope i = sc) (concat (map st_instances streams))"

definition scope_topics :: "stream list \<Rightarrow> string \<times> string \<Rightarrow> (string, topic_entry) pydict" where
  "scope_topics streams sc = concat (map si_topic_index (scope_instances streams sc))"

section \<open>Field checks\<close>

lemma invalid_simps [simp]: "invalid p c k d \<noteq> Inr x" "rbind (invalid p c k d) f = invalid p c k d"
    "invalid p c k d = Inl e \<longleftrightarrow> e = Exc TopologyRegistryValidationError (registry_message c p k d)"
  by (auto simp: invalid_def)

lemma require_non_empty_Inr: "require_non_empty_string p c v k = Inr s \<Longrightarrow> normalized s"
  by (auto simp: require_non_empty_string_def normalized_def split: jval.splits if_splits)

lemma optional_string_Inr: "optional_string p c v k = Inr r \<Longrightarrow> pred_option normalized r"
  by (auto simp: optional_string_def normalized_def split: jval.splits if_splits)

lemma require_non_empty_normalized [simp]: "normalized s \<Longrightarrow> require_non_empty_string p c (JStr s) k = Inr s"
  by (simp add: require_non_empty_string_def normalized_def)

lemma optional_string_normalized [simp]: "normalized s \<Longrightarrow> optional_string p c (JStr s) k = Inr (Some s)"
    "optional_string p c JNull k = Inr None"
  by (auto simp: optional_string_def normalized_def)

lemma dict_set_fresh: "k \<notin> set (map fst d) \<Longrightarrow> dict_set d k v = d @ [(k, v)]"
  unfolding dict_set_def by (induction d) auto

lemma dict_wf_append: "dict_wf (a @ b) \<longleftrightarrow> dict_wf a \<and> dict_wf b \<and> fst ` set a \<inter> fst ` set b = {}"
  by (auto simp: dict_wf_def)

lemma list_all_dict_set: "\<lbrakk>list_all P d; P (k, v)\<rbrakk> \<Longrightarrow> list_all P (dict_set d k v)"
  unfolding dict_set_def by (induction d) auto

lemma normalize_string_items_wf:
  "\<lbrakk>normalize_string_items p c key items acc = Inr d; dict_wf acc; list_all (\<lambda>(k, v). normalized k \<and> normalized v) acc\<rbrakk> \<Longrightarrow>
    dict_wf d \<and> list_all (\<lambda>(k, v). normalized k \<and> normalized v) d"
  by (induction p c key items acc rule: normalize_string_items.induct)
    (auto simp: normalized_def list_all_dict_set split: if_splits jval.splits)

lemma coerce_string_mapping_wf:
  "coerce_string_mapping p c v key = Inr d \<Longrightarrow> dict_wf d \<and> list_all (\<lambda>(k, v). normalized k \<and> normalized v) d"
  using normalize_string_items_wf [of p c key _ "[]" d] by (auto simp: coerce_string_mapping_def split: jval.splits)

section \<open>Canonical streams\<close>

lemma instance_topics_Cons:
  assumes "instance_topics p sid pre ((topic, entry) # items) acc = Inr d"
  obtains te where "instance_topics p sid pre items (dict_set acc topic te) = Inr d" "topic_entry_wf sid (topic, te)"
proof -
  from assms obtain e role src where "require_non_empty_string p ''invalid_topic_index_entry'' (raw_get e ''role'' JNull) (pre @ '':'' @ topic @ ''.role'') = Inr role"
    "optional_string p ''invalid_topic_index_entry'' (raw_get e ''source_system'' JNull) (pre @ '':'' @ topic @ ''.source_system'') = Inr src"
    "instance_topics p sid pre items (dict_set acc topic \<lparr>ct_topic = topic, ct_role = role, ct_stream_id = sid, ct_source_system = src\<rparr>) = Inr d"
    by (auto split: jval.splits if_splits elim!: rbind_InrE)
  then show thesis using that by (simp add: topic_entry_wf_def require_non_empty_Inr optional_string_Inr)
qed

lemma instance_topics_wf:
  "\<lbrakk>instance_topics p sid pre items acc = Inr d; dict_wf acc; list_all (topic_entry_wf sid) acc\<rbrakk> \<Longrightarrow>
    dict_wf d \<and> list_all (topic_entry_wf sid) d"
proof (induction items arbitrary: acc)
  case (Cons item items)
  obtain topic entry where i: "item = (topic, entry)" by fastforce
  obtain te where "instance_topics p sid pre items (dict_set acc topic te) = Inr d" "topic_entry_wf sid (topic, te)"
    by (rule instance_topics_Cons [OF Cons.prems(1) [unfolded i]])
  with Cons show ?case by (simp add: list_all_dict_set)
qed simp

lemma instance_payload_Inr:
  assumes "instance_payload p c raw key env cid d = Inr i"
  shows "si_env i = env" "si_cluster_id i = cid" "si_topic_index i = d"
    "dict_wf (si_topics i) \<and> list_all (\<lambda>(k, v). normalized k \<and> normalized v) (si_topics i)"
  using assms by (auto simp: instance_payload_def elim!: rbind_InrE dest: coerce_string_mapping_wf)

lemma canonicalize_instance_wf:
  assumes "canonicalize_instance p sid v = Inr i"
  shows "instance_wf sid i"
proof -
  from assms obtain raw key env cid pre items d where "instance_topics p sid pre items [] = Inr d"
    and i: "instance_payload p ''invalid_instance_entry'' raw key env cid d = Inr i"
    by (auto simp: canonicalize_instance_def canonicalize_instance_topic_index_def Let_def split: jval.splits elim!: rbind_InrE)
  from instance_topics_wf [OF this(1)] instance_payload_Inr [OF i] show ?thesis by (simp add: instance_wf_def)
qed

lemma stream_payload_wf:
  assumes "stream_payload p raw sid is = Inr s" "normalized sid" "list_all (instance_wf sid) is"
  shows "stream_wf s" "st_stream_id s = sid" "st_instances s = sort_key instance_scope is"
  using assms by (auto simp: stream_payload_def stream_wf_def mk_stream_def list_all_iff Let_def elim!: rbind_InrE dest: optional_string_Inr)

lemma canonicalize_v1_stream_wf: "canonicalize_v1_stream p v = Inr s \<Longrightarrow> stream_wf s"
proof -
  assume a: "canonicalize_v1_stream p v = Inr s"
  then obtain raw sid is_raw "is" where "require_non_empty_string p ''invalid_stream_entry'' (raw_get raw ''stream_id'' JNull) ''streams[].stream_id'' = Inr sid"
    "rmap_list (canonicalize_instance p sid) is_raw = Inr is" "stream_payload p raw sid is = Inr s"
    by (auto simp: canonicalize_v1_stream_def split: jval.splits option.splits elim!: rbind_InrE)
  moreover from this(2) have "list_all (instance_wf sid) is"
    by (auto simp: rmap_list_Inr list_all2_conv_all_nth list_all_length intro: canonicalize_instance_wf)
  ultimately show ?thesis by (meson stream_payload_wf(1) require_non_empty_Inr)
qed

text \<open>The topics grouped by stream while an old-layout file is read.\<close>

definition grouped_wf :: "topics_by_stream \<Rightarrow> bool" where
  "grouped_wf acc = (\<forall>sid d. dict_get acc sid = Some d \<longrightarrow> dict_wf d \<and> list_all (topic_entry_wf sid) d)"

lemma group_v0_topics_Cons:
  assumes "group_v0_topics p ((topic, entry) # items) acc = Inr g"
  obtains sid te where "group_v0_topics p items (add_topic acc sid te) = Inr g" "topic_entry_wf sid (topic, te)"
proof -
  from assms obtain e sid role src where "require_non_empty_string p ''invalid_topic_index_entry'' (raw_get e ''role'' JNull) (''topic_index.'' @ topic @ ''.role'') = Inr role"
    "optional_string p ''invalid_topic_index_entry'' (raw_get e ''source_system'' JNull) (''topic_index.'' @ topic @ ''.source_system'') = Inr src"
    "group_v0_topics p items (add_topic acc sid \<lparr>ct_topic = topic, ct_role = role, ct_stream_id = sid, ct_source_system = src\<rparr>) = Inr g"
    by (auto split: jval.splits if_splits elim!: rbind_InrE)
  then show thesis by (intro that) (auto simp: topic_entry_wf_def dest: require_non_empty_Inr optional_string_Inr)
qed

lemma add_topic_wf:
  assumes "grouped_wf acc" "topic_entry_wf sid (topic, te)"
  shows "grouped_wf (add_topic acc sid te)"
proof -
  have "ct_topic te = topic" using assms(2) by (simp add: topic_entry_wf_def)
  with assms show ?thesis by (auto simp: grouped_wf_def add_topic_def intro!: list_all_dict_set split: option.splits if_splits)
qed

lemma group_v0_topics_wf: "\<lbrakk>group_v0_topics p items acc = Inr g; grouped_wf acc\<rbrakk> \<Longrightarrow> grouped_wf g"
proof (induction items arbitrary: acc)
  case (Cons item items)
  obtain topic entry where i: "item = (topic, entry)" by fastforce
  obtain sid te where "group_v0_topics p items (add_topic acc sid te) = Inr g" "topic_entry_wf sid (topic, te)"
    by (rule group_v0_topics_Cons [OF Cons.prems(1) [unfolded i]])
  with Cons show ?case by (blast intro: add_topic_wf)
qed simp

lemma canonicalize_v0_stream_wf:
  assumes "canonicalize_v0_stream p env cid g v = Inr s" "grouped_wf g"
  shows "stream_wf s"
proof -
  from assms(1) obtain raw sid key e c i where sid: "require_non_empty_string p ''invalid_stream_entry'' (raw_get raw ''stream_id'' JNull) ''streams[].stream_id'' = Inr sid"
    and i: "instance_payload p ''invalid_stream_entry'' raw key e c (case dict_get g sid of Some d \<Rightarrow> d | None \<Rightarrow> []) = Inr i"
    and s: "stream_payload p raw sid [i] = Inr s"
    by (auto simp: canonicalize_v0_stream_def split: jval.splits elim!: rbind_InrE)
  have "instance_wf sid i"
    using instance_payload_Inr [OF i] assms(2) by (auto simp: instance_wf_def grouped_wf_def split: option.splits)
  with s sid show ?thesis by (auto intro: stream_payload_wf(1) require_non_empty_Inr)
qed

lemma canonicalize_v0_streams_wf:
  assumes "canonicalize_v0_streams p env cid raw ss = Inr streams"
  shows "list_all stream_wf streams"
proof -
  from assms obtain items g where "group_v0_topics p items [] = Inr g"
    and r: "rmap_list (canonicalize_v0_stream p env cid g) ss = Inr streams"
    by (auto simp: canonicalize_v0_streams_def split: jval.splits list.splits elim!: rbind_InrE)
  then have "grouped_wf g" using group_v0_topics_wf [of p items "[]" g] by (simp add: grouped_wf_def)
  with r show ?thesis by (auto simp: rmap_list_Inr list_all2_conv_all_nth list_all_length intro: canonicalize_v0_stream_wf)
qed

section \<open>Scope index\<close>

lemma index_topics_Inr:
  assumes "index_topics p rules sc items acc = Inr d"
  shows "d = acc @ items" "dict_wf acc \<longrightarrow> dict_wf d"
    "lr_fail_on_unknown_topic_role rules \<longrightarrow> (\<forall>(t, te) \<in> set items. ct_role te \<in> set known_topic_roles)"
  using assms
  by (induction p rules sc items acc rule: index_topics.induct) (auto simp: dict_set_fresh dict_wf_def split: if_splits)

definition index_of :: "scope_index \<Rightarrow> string \<times> string \<Rightarrow> (string, topic_entry) pydict" where
  "index_of acc sc = (case dict_get acc sc of Some d \<Rightarrow> d | None \<Rightarrow> [])"

definition index_wf :: "scope_index \<Rightarrow> bool" where
  "index_wf acc = (\<forall>sc. dict_wf (index_of acc sc))"

definition roles_known :: "stream_instance list \<Rightarrow> bool" where
  "roles_known is = (\<forall>i \<in> set is. \<forall>(t, te) \<in> set (si_topic_index i). ct_role te \<in> set known_topic_roles)"

text \<open>An index extended by the topics of some instances.\<close>

definition index_extended :: "loader_rules \<Rightarrow> scope_index \<Rightarrow> stream_instance list \<Rightarrow> scope_index \<Rightarrow> bool" where
  "index_extended rules acc is acc' =
     ((\<forall>sc. index_of acc' sc = index_of acc sc @ concat (map si_topic_index (filter (\<lambda>i. instance_scope i = sc) is))) \<and>
      fst ` set acc' = fst ` set acc \<union> instance_scope ` set is \<and>
      (index_wf acc \<longrightarrow> index_wf acc') \<and> (dict_wf acc \<longrightarrow> dict_wf acc') \<and>
      (lr_fail_on_unknown_topic_role rules \<longrightarrow> roles_known is))"

lemma index_of_set [simp]: "index_of (dict_set acc sc d) sc' = (if sc' = sc then d else index_of acc sc')"
  by (simp add: index_of_def)

lemma index_extended_Nil [simp]: "index_extended rules acc [] acc"
  by (simp add: index_extended_def roles_known_def)

lemma index_extended_append:
  "\<lbrakk>index_extended rules acc is acc1; index_extended rules acc1 js acc2\<rbrakk> \<Longrightarrow> index_extended rules acc (is @ js) acc2"
  unfolding index_extended_def roles_known_def by (elim conjE, intro conjI) (simp_all add: image_Un Un_assoc ball_Un)

lemma index_extended_step:
  assumes "index_topics p rules (instance_scope i) (si_topic_index i) (index_of acc (instance_scope i)) = Inr d"
  shows "index_extended rules acc [i] (dict_set acc (instance_scope i) d)"
  using index_topics_Inr [OF assms] by (auto simp: index_extended_def roles_known_def index_wf_def simp del: split_paired_All)

lemma index_instances_Inr:
  "index_instances p rules sid is seen acc = Inr acc' \<Longrightarrow>
     index_extended rules acc is acc' \<and> distinct (map instance_scope is) \<and> instance_scope ` set is \<inter> set seen = {}"
proof (induction "is" arbitrary: seen acc)
  case (Cons i "is")
  then obtain d where d: "index_topics p rules (instance_scope i) (si_topic_index i) (index_of acc (instance_scope i)) = Inr d"
    "index_instances p rules sid is (instance_scope i # seen) (dict_set acc (instance_scope i) d) = Inr acc'" "instance_scope i \<notin> set seen"
    by (auto simp: Let_def index_of_def split: if_splits elim!: rbind_InrE)
  from Cons.IH [OF d(2)] index_extended_append [OF index_extended_step [OF d(1)], of "is" acc'] d(3) show ?case by auto
qed simp

lemma index_streams_Inr:
  "index_streams p rules ss by_id acc = Inr (by_id', acc') \<Longrightarrow>
     by_id' = by_id @ map (\<lambda>s. (st_stream_id s, s)) ss \<and> (dict_wf by_id \<longrightarrow> dict_wf by_id') \<and>
     index_extended rules acc (concat (map st_instances ss)) acc' \<and> list_all (\<lambda>s. distinct (map instance_scope (st_instances s))) ss"
proof (induction ss arbitrary: by_id acc)
  case (Cons s ss)
  then obtain acc1 where a: "index_instances p rules (st_stream_id s) (st_instances s) [] acc = Inr acc1"
    "index_streams p rules ss (by_id @ [(st_stream_id s, s)]) acc1 = Inr (by_id', acc')" "st_stream_id s \<notin> fst ` set by_id"
    by (auto simp: dict_set_fresh split: if_splits elim!: rbind_InrE)
  have "dict_wf by_id \<longrightarrow> dict_wf (by_id @ [(st_stream_id s, s)])" using a(3) by (simp add: dict_wf_def)
  with Cons.IH [OF a(2)] index_instances_Inr [OF a(1)] index_extended_append [of rules acc "st_instances s" acc1] show ?case by auto
qed simp

section \<open>Loaded registries\<close>

definition directory_wf :: "(string, routing_entry) pydict \<Rightarrow> bool" where
  "directory_wf d = (\<forall>k e. dict_get d k = Some e \<longrightarrow> re_routing_key e = k)"

text \<open>What every loaded registry satisfies.\<close>

definition registry_wf :: "loader_rules \<Rightarrow> registry \<Rightarrow> bool" where
  "registry_wf rules rg =
     (distinct (map st_stream_id (rg_streams rg)) \<and> sorted (map st_stream_id (rg_streams rg)) \<and> list_all stream_wf (rg_streams rg) \<and>
      (\<forall>s \<in> set (rg_streams rg). distinct (map instance_scope (st_instances s))) \<and>
      (\<forall>s. dict_get (rg_streams_by_id rg) (st_stream_id s) = Some s \<longleftrightarrow> s \<in> set (rg_streams rg)) \<and>
      dict_wf (rg_topic_index_by_scope rg) \<and>
      (\<forall>sc. dict_wf (index_of (rg_topic_index_by_scope rg) sc) \<and>
         set (index_of (rg_topic_index_by_scope rg) sc) = set (scope_topics (rg_streams rg) sc) \<and>
         (dict_get (rg_topic_index_by_scope rg) sc \<noteq> None \<longleftrightarrow> scope_instances (rg_streams rg) sc \<noteq> [])) \<and>
      (lr_fail_on_unknown_topic_role rules \<longrightarrow> roles_known (concat (map st_instances (rg_streams rg)))) \<and>
      directory_wf (rg_routing_directory rg) \<and>
      (let om = rg_ownership_map rg
       in (\<forall>es \<in> {om_consumer_group_owners om, om_topic_owners om, om_stream_default_owner om}. distinct (map oe_key es)) \<and>
          (lr_routing_key_required rules \<longrightarrow> set (referenced_routing_keys om) \<subseteq> fst ` set (rg_routing_directory rg))))"

lemma first_duplicate_None: "first_duplicate seen xs = None \<Longrightarrow> distinct xs \<and> set xs \<inter> set seen = {}"
proof (induction xs arbitrary: seen)
  case (Cons x xs)
  then have "x \<notin> set seen" "first_duplicate (x # seen) xs = None" by (auto split: if_splits)
  with Cons.IH [of "x # seen"] show ?case by auto
qed simp

lemma validate_ownership_Inr:
  assumes "validate_ownership_matrix p rules rg = Inr u"
  shows "\<forall>es \<in> {om_consumer_group_owners (rg_ownership_map rg), om_topic_owners (rg_ownership_map rg), om_stream_default_owner (rg_ownership_map rg)}.
      distinct (map oe_key es)"
    "lr_routing_key_required rules \<Longrightarrow> set (referenced_routing_keys (rg_ownership_map rg)) \<subseteq> fst ` set (rg_routing_directory rg)"
proof -
  have c: "distinct (map oe_key es)" if "check_owner_keys p c d es = Inr v" for c d es v
    using that first_duplicate_None [of "[]" "map oe_key es"] by (auto simp: check_owner_keys_def split: option.splits)
  from assms show "\<forall>es \<in> {om_consumer_group_owners (rg_ownership_map rg), om_topic_owners (rg_ownership_map rg), om_stream_default_owner (rg_ownership_map rg)}.
      distinct (map oe_key es)"
    by (auto simp: validate_ownership_matrix_def Let_def elim!: rbind_InrE dest!: c)
  assume "lr_routing_key_required rules"
  with assms have "List.find (\<lambda>k. k \<notin> set (map fst (rg_routing_directory rg))) (sort (remdups (referenced_routing_keys (rg_ownership_map rg)))) = None"
    by (auto simp: validate_ownership_matrix_def Let_def split: option.splits elim!: rbind_InrE)
  then show "set (referenced_routing_keys (rg_ownership_map rg)) \<subseteq> fst ` set (rg_routing_directory rg)"
    by (auto simp: find_None_iff)
qed

lemma directory_wf_set: "\<lbrakk>directory_wf d; re_routing_key e = k\<rbrakk> \<Longrightarrow> directory_wf (dict_set d k e)"
  unfolding directory_wf_def by (metis dict_get_set option.inject)

lemma routing_entries_Inr: "\<lbrakk>routing_entries p items d = Inr d'; directory_wf d\<rbrakk> \<Longrightarrow> directory_wf d'"
proof (induction items arbitrary: d)
  case (Cons v items)
  from Cons.prems(1) obtain e where "routing_entries p items (dict_set d (re_routing_key e) e) = Inr d'" by (auto elim!: rbind_InrE)
  from Cons.IH [OF this] Cons.prems(2) show ?case by (simp add: directory_wf_set)
qed simp

lemma canonicalize_registry_Inr:
  assumes "canonicalize_registry fos rend p rules v env cid raw = Inr rg"
  obtains streams by_id by_scope where "list_all stream_wf streams" "index_streams p rules streams [] [] = Inr (by_id, by_scope)"
    "canonicalize_routing_directory p raw = Inr (rg_routing_directory rg)"
    "rg_streams rg = sort_key st_stream_id streams" "rg_streams_by_id rg = by_id" "rg_topic_index_by_scope rg = sort_key fst by_scope"
proof -
  from assms obtain ss streams by_id by_scope where s: "(if 2 \<le> v then canonicalize_v1_streams p ss else canonicalize_v0_streams p env cid raw ss) = Inr streams"
    and rest: "index_streams p rules streams [] [] = Inr (by_id, by_scope)" "canonicalize_routing_directory p raw = Inr (rg_routing_directory rg)"
      "rg_streams rg = sort_key st_stream_id streams" "rg_streams_by_id rg = by_id" "rg_topic_index_by_scope rg = sort_key fst by_scope"
    by (auto simp: canonicalize_registry_def split: option.splits jval.splits elim!: rbind_InrE)
  have "list_all stream_wf streams"
  proof (cases "2 \<le> v")
    case True
    with s have "rmap_list (canonicalize_v1_stream p) ss = Inr streams" by (simp add: canonicalize_v1_streams_def)
    then show ?thesis by (auto simp: rmap_list_Inr list_all2_conv_all_nth list_all_length intro: canonicalize_v1_stream_wf)
  next
    case False
    with s canonicalize_v0_streams_wf show ?thesis by simp
  qed
  with rest show thesis using that by blast
qed

lemma load_registry_wf:
  assumes "load_topology_registry yaml_load fos rend clock cfg file = Inr snap"
  shows "registry_wf (case lc_rules cfg of Some r \<Rightarrow> r | None \<Rightarrow> default_loader_rules) (sp_registry snap)"
proof -
  define rules where "rules = (case lc_rules cfg of Some r \<Rightarrow> r | None \<Rightarrow> default_loader_rules)"
  define rg where "rg = sp_registry snap"
  from assms obtain v env cid raw where c: "canonicalize_registry fos rend (lc_path cfg) rules v env cid raw = Inr rg"
    and v: "validate_ownership_matrix (lc_path cfg) rules rg = Inr ()"
    by (auto simp: load_topology_registry_def Let_def rg_def simp flip: rules_def elim!: rbind_InrE)
  from c obtain streams by_id by_scope where wf: "list_all stream_wf streams"
    and ix: "index_streams (lc_path cfg) rules streams [] [] = Inr (by_id, by_scope)"
    and dir: "canonicalize_routing_directory (lc_path cfg) raw = Inr (rg_routing_directory rg)"
    and rg: "rg_streams rg = sort_key st_stream_id streams" "rg_streams_by_id rg = by_id" "rg_topic_index_by_scope rg = sort_key fst by_scope"
    by (rule canonicalize_registry_Inr)
  note i = index_streams_Inr [OF ix]
  have by_id: "by_id = map (\<lambda>s. (st_stream_id s, s)) streams" and d: "distinct (map st_stream_id streams)"
    using i by (auto simp: dict_wf_def comp_def)
  have ext: "index_extended rules [] (concat (map st_instances streams)) by_scope" using i by simp
  then have bs: "dict_wf by_scope" "index_wf by_scope" by (auto simp: index_extended_def index_wf_def index_of_def)
  have same: "dict_get (rg_topic_index_by_scope rg) sc = dict_get by_scope sc" for sc using bs(1) by (simp add: rg dict_get_sort)
  have topics: "set (index_of by_scope sc) = set (scope_topics (rg_streams rg) sc)" for sc
  proof -
    have "index_of by_scope sc = concat (map si_topic_index (filter (\<lambda>i. instance_scope i = sc) (concat (map st_instances streams))))"
      using ext unfolding index_extended_def index_of_def [of "[]"] by (cases sc) simp
    then show ?thesis by (simp add: scope_topics_def scope_instances_def rg)
  qed
  have defined: "dict_get by_scope sc \<noteq> None \<longleftrightarrow> scope_instances (rg_streams rg) sc \<noteq> []" for sc
    using ext by (auto simp: index_extended_def scope_instances_def rg map_of_eq_None_iff filter_empty_conv)
  have ids: "dict_get by_id (st_stream_id s) = Some s \<longleftrightarrow> s \<in> set streams" for s
    using d by (auto simp: by_id map_of_eq_Some_iff comp_def)
  have dirs: "directory_wf (rg_routing_directory rg)"
    using dir routing_entries_Inr [of "lc_path cfg" _ "[]"]
    by (auto simp: canonicalize_routing_directory_def directory_wf_def [of "[]"] split: jval.splits list.splits)
  have "distinct (map st_stream_id (sort_key st_stream_id streams))" using d by (simp add: distinct_map)
  moreover have "list_all stream_wf (sort_key st_stream_id streams)" using wf by (simp add: list_all_iff)
  moreover have "\<forall>s \<in> set streams. distinct (map instance_scope (st_instances s))" using i by (simp add: list_all_iff)
  moreover have "lr_fail_on_unknown_topic_role rules \<longrightarrow> roles_known (concat (map st_instances (sort_key st_stream_id streams)))"
    using ext by (auto simp: index_extended_def roles_known_def)
  ultimately show ?thesis
    unfolding registry_wf_def Let_def rules_def [symmetric] rg_def [symmetric]
    using validate_ownership_Inr [OF v] bs topics defined ids dirs same
    by (simp add: rg index_of_def index_wf_def del: split_paired_All)
qed

lemma scope_topic_entry:
  assumes "registry_wf rules rg" "dict_get (rg_topic_index_by_scope rg) sc = Some d" "dict_get d topic = Some te"
  obtains s i where "s \<in> set (rg_streams rg)" "st_stream_id s = ct_stream_id te" "i \<in> set (st_instances s)" "instance_scope i = sc"
    "(topic, te) \<in> set (si_topic_index i)"
proof -
  have "set d = set (scope_topics (rg_streams rg) sc)"
    using assms(1) unfolding registry_wf_def index_of_def by (metis (no_types, lifting) assms(2) option.case(2))
  then have "(topic, te) \<in> set (scope_topics (rg_streams rg) sc)" using assms(3) by (auto dest: map_of_SomeD)
  then obtain s i where si: "s \<in> set (rg_streams rg)" "i \<in> set (st_instances s)" "instance_scope i = sc" "(topic, te) \<in> set (si_topic_index i)"
    by (auto simp: scope_topics_def scope_instances_def)
  then have "stream_wf s" using assms(1) by (auto simp: registry_wf_def list_all_iff)
  then have "ct_stream_id te = st_stream_id s" using si by (force simp: stream_wf_def instance_wf_def topic_entry_wf_def list_all_iff)
  with si show thesis using that by metis
qed

lemma known_role_normalizes: "role \<in> set known_topic_roles \<Longrightarrow> normalize_topic_role role \<noteq> None"
  by (auto simp: known_topic_roles_def normalize_topic_role_def topic_role_normalization_def py_strip_def py_isspace_def py_upper_def py_upper_char_def)

text \<open>The cross references the resolver follows: those of \<open>registry_coherent\<close>, without a platform default and known roles.\<close>

lemma loaded_topic_resolvable:
  assumes "registry_wf rules rg" "dict_get (rg_topic_index_by_scope rg) (env, cid) = Some d" "dict_get d topic = Some te"
  shows "\<exists>s. dict_get (rg_streams_by_id rg) (ct_stream_id te) = Some s \<and> find_stream_instance s env cid \<noteq> None"
    "lr_fail_on_unknown_topic_role rules \<Longrightarrow> normalize_topic_role (ct_role te) \<noteq> None"
proof -
  obtain s i where si: "s \<in> set (rg_streams rg)" "st_stream_id s = ct_stream_id te" "i \<in> set (st_instances s)" "instance_scope i = (env, cid)"
    "(topic, te) \<in> set (si_topic_index i)" by (rule scope_topic_entry [OF assms])
  have "dict_get (rg_streams_by_id rg) (ct_stream_id te) = Some s" using assms(1) si(1,2) unfolding registry_wf_def by metis
  moreover have "find_stream_instance s env cid \<noteq> None"
    using si(3,4) by (auto simp: find_stream_instance_def instance_scope_def find_None_iff)
  ultimately show "\<exists>s. dict_get (rg_streams_by_id rg) (ct_stream_id te) = Some s \<and> find_stream_instance s env cid \<noteq> None" by blast
  assume "lr_fail_on_unknown_topic_role rules"
  then have "ct_role te \<in> set known_topic_roles"
    using assms(1) si(1,3,5) by (force simp: registry_wf_def roles_known_def)
  then show "normalize_topic_role (ct_role te) \<noteq> None" by (rule known_role_normalizes)
qed

lemma loaded_owner_known:
  assumes "registry_wf rules rg" "lr_routing_key_required rules"
    and "select_owner_routing_key (rg_ownership_map rg) env cid topic g sid = Some (level, key)"
  shows "dict_get (rg_routing_directory rg) key \<noteq> None"
proof -
  have "most_specific_owner (rg_ownership_map rg) env cid topic g sid level key" using assms(3) by (simp add: select_owner_spec)
  from most_specific_owner_listed [OF this] have "key \<in> set (referenced_routing_keys (rg_ownership_map rg))"
    by (auto simp: referenced_routing_keys_def owner_items_def)
  then have "key \<in> fst ` set (rg_routing_directory rg)" using assms(1,2) by (auto simp: registry_wf_def Let_def)
  then show ?thesis by (simp add: map_of_eq_None_iff)
qed

section \<open>Errors\<close>

definition registry_exc :: "py_exc \<Rightarrow> bool" where
  "registry_exc e = (exc_type e \<in> {TopologyRegistryValidationError, OverflowError, ValueError})"

definition raises_registry :: "'a result \<Rightarrow> bool" where
  "raises_registry r = (case r of Inl e \<Rightarrow> registry_exc e | Inr _ \<Rightarrow> True)"

lemma raises_registry_simps [simp]: "raises_registry (Inr x)" "raises_registry (invalid p cat k d)"
    "raises_registry (raise c m) \<longleftrightarrow> c \<in> {TopologyRegistryValidationError, OverflowError, ValueError}"
  by (simp_all add: raises_registry_def registry_exc_def invalid_def raise_def)

lemma raises_registry_rbind [intro!]: "\<lbrakk>raises_registry r; \<And>x. r = Inr x \<Longrightarrow> raises_registry (f x)\<rbrakk> \<Longrightarrow> raises_registry (rbind r f)"
  by (cases r) (auto simp: raises_registry_def)

lemma raises_registry_rmap [intro!]: "(\<And>x. raises_registry (f x)) \<Longrightarrow> raises_registry (rmap_list f xs)"
  by (induction xs) auto

lemma raises_registry_checks [simp]: "raises_registry (require_non_empty_string p c v k)" "raises_registry (optional_string p c v k)"
    "raises_registry (normalize_string_items p c key items acc)" "raises_registry (coerce_string_mapping p c v k)"
    "raises_registry (coerce_optional_float fos p c v k)"
proof -
  show items: "raises_registry (normalize_string_items p c key items acc)" for key items acc
    by (induction p c key items acc rule: normalize_string_items.induct) (auto split: jval.splits)
  show "raises_registry (require_non_empty_string p c v k)" "raises_registry (optional_string p c v k)" "raises_registry (coerce_string_mapping p c v k)"
    by (auto simp: require_non_empty_string_def optional_string_def coerce_string_mapping_def items split: jval.splits)
  have "raises_registry (fl_of_int n)" for n by (auto simp: fl_of_int_def split: pyfloat.splits)
  then show "raises_registry (coerce_optional_float fos p c v k)"
    by (auto simp: coerce_optional_float_def Let_def split: jval.splits option.splits)
qed

lemma raises_registry_streams: "raises_registry (canonicalize_v0_streams p env cid raw ss)" "raises_registry (canonicalize_v1_streams p ss)"
proof -
  have i: "raises_registry (instance_payload p c raw key env cid d)" "raises_registry (stream_payload p raw sid is)" for c raw key env cid d sid "is"
    by (auto simp: instance_payload_def stream_payload_def Let_def)
  have "raises_registry (group_v0_topics p items acc)" for items acc
    by (induction p items acc rule: group_v0_topics.induct) (auto split: jval.splits)
  then show "raises_registry (canonicalize_v0_streams p env cid raw ss)"
    by (auto simp: canonicalize_v0_streams_def canonicalize_v0_stream_def i split: jval.splits list.splits)
  have "raises_registry (instance_topics p sid pre items acc)" for sid pre items acc
    by (induction p sid pre items acc rule: instance_topics.induct) (auto split: jval.splits)
  then show "raises_registry (canonicalize_v1_streams p ss)"
    by (auto simp: canonicalize_v1_streams_def canonicalize_v1_stream_def canonicalize_instance_def canonicalize_instance_topic_index_def Let_def i
        split: jval.splits option.splits)
qed

lemma raises_registry_index: "raises_registry (index_streams p rules ss by_id acc)"
proof -
  have t: "raises_registry (index_topics p rules sc items acc)" for sc items acc
    by (induction p rules sc items acc rule: index_topics.induct) auto
  have "raises_registry (index_instances p rules sid is seen acc)" for sid "is" seen acc
    by (induction "is" arbitrary: seen acc) (auto simp: Let_def t)
  then show ?thesis by (induction ss arbitrary: by_id acc) auto
qed

lemma raises_registry_owners: "raises_registry (canonicalize_routing_directory p raw)" "raises_registry (canonicalize_ownership_map fos rend p raw)"
    "raises_registry (validate_ownership_matrix p rules rg)"
proof -
  have "raises_registry (routing_entry_of p d v)" for d v by (auto simp: routing_entry_of_def Let_def split: jval.splits)
  then have "raises_registry (routing_entries p items d)" for items d by (induction items arbitrary: d) auto
  then show "raises_registry (canonicalize_routing_directory p raw)" by (auto simp: canonicalize_routing_directory_def split: jval.splits list.splits)
  have "raises_registry (coerce_owner fos rend p kind entry parts v)" for kind entry parts v by (auto simp: coerce_owner_def Let_def split: jval.splits)
  then have "raises_registry (coerce_consumer_group_owners fos rend p v)" "raises_registry (coerce_topic_owners fos rend p v)"
      "raises_registry (coerce_stream_default_owners fos rend p v)" for v
    by (auto simp: coerce_consumer_group_owners_def coerce_topic_owners_def coerce_stream_default_owners_def split: jval.splits)
  moreover have "raises_registry (case v of JNull \<Rightarrow> Inr [] | JList [] \<Rightarrow> Inr [] | JDict d \<Rightarrow> Inr d | _ \<Rightarrow> invalid p c k m)"
    for v :: jval and c k m by (auto split: jval.splits list.splits)
  ultimately show "raises_registry (canonicalize_ownership_map fos rend p raw)"
    unfolding canonicalize_ownership_map_def by (intro raises_registry_rbind) (simp_all only: raises_registry_checks raises_registry_simps)
  show "raises_registry (validate_ownership_matrix p rules rg)"
    by (auto simp: validate_ownership_matrix_def check_owner_keys_def Let_def split: option.splits)
qed

lemma raises_registry_load:
  assumes "is_ok (fv_text file)" "is_ok (fv_mtime_ns file)"
  shows "raises_registry (load_topology_registry yaml_load fos rend clock cfg file)"
proof -
  have "raises_registry (read_registry_yaml yaml_load p (fv_text file))" for p
    using assms(1) by (auto simp: read_registry_yaml_def is_ok_iff split: yaml_outcome.splits jval.splits)
  moreover have n: "raises_registry (normalize_version rend v)" for v
    by (auto simp: normalize_version_def Let_def split: jval.splits)
  have "raises_registry (detect_registry_version rend raw)" for raw
    by (auto simp: detect_registry_version_def Let_def n split: jval.splits)
  moreover have "raises_registry (validate_supported_version v rules p)" for v rules p by (simp add: validate_supported_version_def)
  moreover have "raises_registry (canonicalize_registry fos rend p rules v env cid raw)" for p rules v env cid raw
    by (auto simp: canonicalize_registry_def raises_registry_streams raises_registry_index raises_registry_owners split: option.splits jval.splits)
  moreover have "raises_registry (fv_mtime_ns file)" using assms(2) by (auto simp: is_ok_iff)
  ultimately show ?thesis unfolding load_topology_registry_def Let_def by (intro raises_registry_rbind) (simp_all add: raises_registry_owners)
qed

section \<open>The reloadable manager\<close>

text \<open>
  A manager in operation: loads and conditional reloads, each seeing whatever the file system and the parser return.
\<close>

inductive loader_reachable ::
  "(string \<Rightarrow> yaml_outcome) \<Rightarrow> (string \<Rightarrow> pyfloat option) \<Rightarrow> (jval \<Rightarrow> string) \<Rightarrow> loader_config \<Rightarrow> registry_loader \<Rightarrow> bool"
  for yaml_load fos rend cfg where
  reach_new: "loader_reachable yaml_load fos rend cfg (new_registry_loader cfg)"
| reach_load: "\<lbrakk>loader_reachable yaml_load fos rend cfg l; loader_load yaml_load fos rend clock file l = (r, l')\<rbrakk> \<Longrightarrow>
    loader_reachable yaml_load fos rend cfg l'"
| reach_reload: "\<lbrakk>loader_reachable yaml_load fos rend cfg l; reload_if_changed yaml_load fos rend clock m file l = (b, l')\<rbrakk> \<Longrightarrow>
    loader_reachable yaml_load fos rend cfg l'"

definition effective_rules :: "loader_config \<Rightarrow> loader_rules" where
  "effective_rules cfg = (case lc_rules cfg of Some r \<Rightarrow> r | None \<Rightarrow> default_loader_rules)"

definition loader_ok :: "loader_config \<Rightarrow> registry_loader \<Rightarrow> bool" where
  "loader_ok cfg l = (rl_config l = cfg \<and> (\<forall>s. rl_snapshot l = Some s \<longrightarrow>
     registry_wf (effective_rules cfg) (sp_registry s) \<and> md_source_path (sp_metadata s) = lc_path cfg))"

lemma load_source_path: "load_topology_registry yaml_load fos rend clock cfg file = Inr s \<Longrightarrow> md_source_path (sp_metadata s) = lc_path cfg"
  by (auto simp: load_topology_registry_def Let_def elim!: rbind_InrE)

lemma load_snapshot_ok:
  assumes "load_topology_registry yaml_load fos rend clock cfg file = Inr s"
  shows "registry_wf (effective_rules cfg) (sp_registry s) \<and> md_source_path (sp_metadata s) = lc_path cfg"
  using load_registry_wf [OF assms] load_source_path [OF assms] by (simp add: effective_rules_def)

lemma loader_load_ok:
  assumes "loader_ok cfg l" "loader_load yaml_load fos rend clock file l = (r, l')"
  shows "loader_ok cfg l'"
proof (cases "load_topology_registry yaml_load fos rend clock (rl_config l) file")
  case (Inr s)
  then show ?thesis using assms load_snapshot_ok [OF Inr] by (simp add: loader_load_def loader_ok_def) auto
qed (use assms in \<open>simp add: loader_load_def\<close>)

text \<open>A reload either does nothing to the manager or installs a freshly loaded snapshot and returns \<open>True\<close>.\<close>

lemma reload_cases:
  assumes "reload_if_changed yaml_load fos rend clock m file l = (b, l')"
  obtains (same) "b \<noteq> Inr True" "l' = l"
  | (swapped) s where "b = Inr True" "load_topology_registry yaml_load fos rend clock (rl_config l) file = Inr s" "l' = l\<lparr>rl_snapshot := Some s\<rparr>"
proof (cases "load_topology_registry yaml_load fos rend clock (rl_config l) file")
  case (Inl e)
  with assms have "b \<noteq> Inr True \<and> l' = l"
    by (cases "rl_snapshot l"; cases m) (auto simp: reload_if_changed_def loader_load_def split: if_splits)
  then show thesis using same by blast
next
  case (Inr s)
  with assms have "b \<noteq> Inr True \<and> l' = l \<or> b = Inr True \<and> l' = l\<lparr>rl_snapshot := Some s\<rparr>"
    by (cases "rl_snapshot l"; cases m) (auto simp: reload_if_changed_def loader_load_def split: if_splits)
  then show thesis using same swapped Inr by blast
qed

lemma reload_ok: "\<lbrakk>loader_ok cfg l; reload_if_changed yaml_load fos rend clock m file l = (b, l')\<rbrakk> \<Longrightarrow> loader_ok cfg l'"
  by (erule reload_cases) (auto simp: loader_ok_def dest: load_snapshot_ok)

lemma loader_reachable_ok: "loader_reachable yaml_load fos rend cfg l \<Longrightarrow> loader_ok cfg l"
proof (induction rule: loader_reachable.induct)
  case reach_new
  then show ?case by (simp add: loader_ok_def new_registry_loader_def)
qed (blast intro: loader_load_ok reload_ok)+

text \<open>The reload's own errors, once there is a snapshot and the file can be read.\<close>

lemma reload_raises:
  assumes "reload_if_changed yaml_load fos rend clock (Inr m) file l = (Inl e, l')" "rl_snapshot l \<noteq> None"
    and "is_ok (fv_text file)" "is_ok (fv_mtime_ns file)"
  shows "exc_type e \<in> {OverflowError, ValueError}"
  using assms raises_registry_load [OF assms(3,4), of yaml_load fos rend clock "rl_config l"]
  by (auto simp: reload_if_changed_def raises_registry_def registry_exc_def split: option.splits sum.splits if_splits)

section \<open>Sample registry file\<close>

text \<open>A file in the new layout with one owned topic and a platform default, and one whose owner is unknown.\<close>

definition sample_team :: "string \<Rightarrow> jval" where
  "sample_team key = JDict [(''routing_key'', JStr key), (''owning_team_id'', JStr ''t1''), (''owning_team_name'', JStr '' Team '')]"

definition sample_registry_doc :: "string \<Rightarrow> (string, jval) pydict" where
  "sample_registry_doc owner =
     [(''version'', JStr '' V2 ''),
      (''streams'', JList [JDict [(''stream_id'', JStr ''s1''), (''criticality_tier'', JStr ''TIER_1''),
         (''instances'', JList [JDict [(''env'', JStr ''prod''), (''cluster_id'', JStr ''c1''),
            (''topic_index'', JDict [(''orders'', JDict [(''role'', JStr ''SHARED_TOPIC'')])]), (''sources'', JList [])]])]]),
      (''routing_directory'', JList [sample_team ''k1'']),
      (''ownership_map'', JDict [(''platform_default'', JStr ''k1''), (''topic_owners'', JList [JDict [(''routing_key'', JStr owner),
         (''match'', JDict [(''env'', JStr ''prod''), (''cluster_id'', JStr ''c1''), (''topic'', JStr ''orders'')]), (''confidence'', JInt 1)]])])]"

definition sample_yaml :: "string \<Rightarrow> yaml_outcome" where
  "sample_yaml owner = Yaml_Loaded (JDict (sample_registry_doc owner))"

definition sample_loader_config :: loader_config where
  "sample_loader_config = \<lparr>lc_path = ''registry.yaml'', lc_rules = None, lc_default_env = ''prod'', lc_default_cluster_id = ''Business_Essential''\<rparr>"

definition sample_file :: "string \<Rightarrow> file_view" where
  "sample_file owner = \<lparr>fv_text = Inr owner, fv_mtime_ns = Inr 7\<rparr>"

abbreviation load_sample :: "string \<Rightarrow> registry_snapshot result" where
  "load_sample owner \<equiv> load_topology_registry sample_yaml (\<lambda>_. None) (\<lambda>_. []) 0 sample_loader_config (sample_file owner)"

lemma load_sample_ok: "is_ok (load_sample ''k1'')" "\<not> is_ok (load_sample ''k2'')"
  by code_simp+

section \<open>Resolution over a loaded registry\<close>

lemma unresolved_reason: "unresolved sc reason d = Inr r \<Longrightarrow> tr_reason_code r = reason"
  by (auto simp: unresolved_def validate_resolution_def)

lemma indexed_topic_outcome:
  assumes wf: "registry_wf rules rg" and req: "lr_routing_key_required rules" and p: "parse_anomaly_scope sc = Some (env, cid, topic, g)"
    and ix: "dict_get (rg_topic_index_by_scope rg) (env, cid) = Some topics" "dict_get topics topic = Some te"
    and r: "resolve_anomaly_scope rend dumps rg sc = Inr r" "\<not> tr_resolved r"
  shows "tr_reason_code r = ''owner_not_found'' \<and> om_platform_default (rg_ownership_map rg) = None \<or>
    tr_reason_code r = ''UNSUPPORTED_TOPIC_ROLE'' \<and> \<not> lr_fail_on_unknown_topic_role rules"
proof -
  obtain s inst where s: "dict_get (rg_streams_by_id rg) (ct_stream_id te) = Some s" "find_stream_instance s env cid = Some inst"
    using loaded_topic_resolvable(1) [OF wf ix] by blast
  note d = resolve_anomaly_scope_def Let_def p ix s blast_radius_get resolve_ownership_routing_def
  show ?thesis
  proof (cases "normalize_topic_role (ct_role te)")
    case None
    then show ?thesis using r loaded_topic_resolvable(2) [OF wf ix] by (auto simp: d dest: unresolved_reason)
  next
    case role: (Some role)
    show ?thesis
    proof (cases "select_owner_routing_key (rg_ownership_map rg) env cid topic g (st_stream_id s)")
      case None
      then have "om_platform_default (rg_ownership_map rg) = None" by (auto simp: select_owner_routing_key_def split: option.splits)
      then show ?thesis using r None by (auto simp: d role dest: unresolved_reason)
    next
      case (Some lk)
      obtain level key where lk: "lk = (level, key)" by fastforce
      obtain target where "dict_get (rg_routing_directory rg) key = Some target"
        using loaded_owner_known [OF wf req Some [unfolded lk]] by blast
      then show ?thesis using r Some lk by (auto simp: d role validate_resolution_def split: if_splits)
    qed
  qed
qed

section \<open>Properties\<close>

text \<open>C13: A registry that loads is well formed, whatever the file and the parser return: stream identifiers are unique and in order, no stream
  has two instances of a scope, identifiers and roles are stripped and non-empty, the index of every scope holds exactly the topics of
  the instances of that scope, each once and under its own stream, owner keys are unique, and every routing key the ownership map names is in
  the routing directory (when the rules require it).\<close>

theorem loaded_registry_well_formed:
  assumes "load_topology_registry yaml_load fos rend clock cfg file = Inr snap"
  shows "registry_wf (effective_rules cfg) (sp_registry snap)"
  using load_snapshot_ok [OF assms] by simp

theorem loaded_registry_well_formed_witness:
  "\<exists>snap. load_sample ''k1'' = Inr snap \<and> registry_wf default_loader_rules (sp_registry snap)"
proof -
  obtain snap where s: "load_sample ''k1'' = Inr snap" using load_sample_ok(1) by (auto simp: is_ok_iff)
  from loaded_registry_well_formed [OF this] have "registry_wf default_loader_rules (sp_registry snap)"
    by (simp add: effective_rules_def sample_loader_config_def)
  with s show ?thesis by blast
qed

text \<open>C16: A loaded registry never leaves the resolver with a dangling reference: a scope stays unresolved only because the scope itself is
  malformed or not indexed, its topic is not indexed, the topic has no owner, or its role is unknown; the latter two cannot happen with a
  platform default and with strict role checking. A missing stream, stream instance or routing key is ruled out at load time.\<close>

theorem loaded_registry_never_dangles:
  assumes "load_topology_registry yaml_load fos rend' clock cfg file = Inr snap" "lr_routing_key_required (effective_rules cfg)"
    and "resolve_anomaly_scope rend dumps (sp_registry snap) sc = Inr r" "\<not> tr_resolved r"
  shows "tr_reason_code r \<in> {''invalid_scope_shape'', ''scope_not_found'', ''topic_not_found'', ''owner_not_found'', ''UNSUPPORTED_TOPIC_ROLE''} \<and>
    (tr_reason_code r = ''owner_not_found'' \<longrightarrow> om_platform_default (rg_ownership_map (sp_registry snap)) = None) \<and>
    (tr_reason_code r = ''UNSUPPORTED_TOPIC_ROLE'' \<longrightarrow> \<not> lr_fail_on_unknown_topic_role (effective_rules cfg))"
proof -
  let ?rg = "sp_registry snap"
  have wf: "registry_wf (effective_rules cfg) ?rg" using load_snapshot_ok [OF assms(1)] by simp
  note d = resolve_anomaly_scope_def Let_def
  show ?thesis
  proof (cases "parse_anomaly_scope sc")
    case None
    then show ?thesis using assms(3) by (auto simp: d dest: unresolved_reason)
  next
    case (Some p)
    obtain env cid topic g where p: "parse_anomaly_scope sc = Some (env, cid, topic, g)" using Some by (cases p) simp
    consider (scope) "dict_get (rg_topic_index_by_scope ?rg) (env, cid) = None"
      | (topic) topics where "dict_get (rg_topic_index_by_scope ?rg) (env, cid) = Some topics" "dict_get topics topic = None"
      | (indexed) topics te where "dict_get (rg_topic_index_by_scope ?rg) (env, cid) = Some topics" "dict_get topics topic = Some te"
      by (metis option.exhaust)
    then show ?thesis
    proof cases
      case scope then show ?thesis using assms(3) p by (auto simp: d dest: unresolved_reason)
    next
      case topic then show ?thesis using assms(3) p by (auto simp: d dest: unresolved_reason)
    next
      case indexed
      from indexed_topic_outcome [OF wf assms(2) p this assms(3,4)] show ?thesis by auto
    qed
  qed
qed

theorem loaded_registry_never_dangles_witness:
  "\<exists>snap r. load_sample ''k1'' = Inr snap \<and> resolve_anomaly_scope (\<lambda>_. []) (\<lambda>_. []) (sp_registry snap) [''prod'', ''c1'', ''refunds''] = Inr r \<and>
     tr_reason_code r = ''topic_not_found'' \<and> om_platform_default (rg_ownership_map (sp_registry snap)) \<noteq> None"
proof -
  obtain snap where s: "load_sample ''k1'' = Inr snap" using load_sample_ok(1) by (auto simp: is_ok_iff)
  let ?res = "rbind (load_sample ''k1'') (\<lambda>snap. resolve_anomaly_scope (\<lambda>_. []) (\<lambda>_. []) (sp_registry snap) [''prod'', ''c1'', ''refunds''])"
  have "rbind ?res (\<lambda>r. Inr (tr_resolved r)) = Inr False" "rbind (load_sample ''k1'') (\<lambda>snap. Inr (om_platform_default (rg_ownership_map (sp_registry snap)))) = Inr (Some ''k1'')"
    "rbind ?res (\<lambda>r. Inr (tr_reason_code r)) = Inr ''topic_not_found''" by code_simp+
  with s obtain r where r: "resolve_anomaly_scope (\<lambda>_. []) (\<lambda>_. []) (sp_registry snap) [''prod'', ''c1'', ''refunds''] = Inr r" "\<not> tr_resolved r"
    "tr_reason_code r = ''topic_not_found''" "om_platform_default (rg_ownership_map (sp_registry snap)) = Some ''k1''" by (auto simp: rbind_Inr_iff)
  have "lr_routing_key_required (effective_rules sample_loader_config)"
    by (simp add: effective_rules_def sample_loader_config_def default_loader_rules_def)
  from loaded_registry_never_dangles [OF s this r(1,2)] r s show ?thesis by auto
qed

text \<open>C29: The manager keeps the last good snapshot. In any run of loads and reloads against a file system and a parser that may fail at every
  call, the snapshot it holds is well formed and comes from its own path; a reload that does not return \<open>True\<close>, by a rejected file or by
  any exception, leaves the manager as it was, and one that returns \<open>True\<close> has installed what the file now loads to.\<close>

theorem reload_keeps_last_good:
  assumes "loader_reachable yaml_load fos rend cfg l" "reload_if_changed yaml_load fos rend clock m file l = (b, l')"
  shows "loader_ok cfg l \<and> loader_ok cfg l' \<and> (b \<noteq> Inr True \<longrightarrow> l' = l) \<and>
    (b = Inr True \<longrightarrow> (\<exists>s. load_topology_registry yaml_load fos rend clock cfg file = Inr s \<and> rl_snapshot l' = Some s))"
proof -
  have ok: "loader_ok cfg l" using assms(1) by (rule loader_reachable_ok)
  then have "rl_config l = cfg" by (simp add: loader_ok_def)
  with ok reload_ok [OF ok assms(2)] assms(2) show ?thesis by (cases rule: reload_cases [OF assms(2)]) auto
qed

theorem reload_keeps_last_good_witness:
  "\<exists>s. load_sample ''k1'' = Inr s \<and>
    (let l = \<lparr>rl_config = sample_loader_config, rl_snapshot = Some s\<rparr>
     in reload_if_changed sample_yaml (\<lambda>_. None) (\<lambda>_. []) 0 (Inr 8) (sample_file ''k2'') l = (Inr False, l) \<and> loader_ok sample_loader_config l)"
proof -
  obtain s where s: "load_sample ''k1'' = Inr s" using load_sample_ok(1) by (auto simp: is_ok_iff)
  let ?l = "\<lparr>rl_config = sample_loader_config, rl_snapshot = Some s\<rparr>"
  let ?run = "reload_if_changed sample_yaml (\<lambda>_. None) (\<lambda>_. []) 0 (Inr 8) (sample_file ''k2'') ?l"
  have "loader_load sample_yaml (\<lambda>_. None) (\<lambda>_. []) 0 (sample_file ''k1'') (new_registry_loader sample_loader_config) = (Inr s, ?l)"
    using s by (simp add: loader_load_def new_registry_loader_def)
  then have reach: "loader_reachable sample_yaml (\<lambda>_. None) (\<lambda>_. []) sample_loader_config ?l" by (rule reach_load [OF reach_new])
  have "rbind (load_sample ''k1'') (\<lambda>s. fst (reload_if_changed sample_yaml (\<lambda>_. None) (\<lambda>_. []) 0 (Inr 8) (sample_file ''k2'')
      \<lparr>rl_config = sample_loader_config, rl_snapshot = Some s\<rparr>)) = Inr False" by code_simp
  then have "fst ?run = Inr False" using s by simp
  moreover have "?run = (fst ?run, snd ?run)" by simp
  ultimately show ?thesis using reload_keeps_last_good [OF reach, of 0 "Inr 8" "sample_file ''k2''" "fst ?run" "snd ?run"] s
    by (auto simp: Let_def prod_eq_iff)
qed

text \<open>What a bad file can raise. If the file can be read, a load fails with a validation error, an overflow (an ownership confidence given
  as an integer beyond the range of floats) or a value error (a version text of more than 4300 digits); a conditional reload with a snapshot
  in place only raises the latter two, which it does not treat as a rejected file.\<close>

theorem registry_file_errors:
  assumes "is_ok (fv_text file)" "is_ok (fv_mtime_ns file)" "rl_snapshot l \<noteq> None"
  shows "(\<forall>e. load_topology_registry yaml_load fos rend clock cfg file = Inl e \<longrightarrow>
      exc_type e \<in> {TopologyRegistryValidationError, OverflowError, ValueError}) \<and>
    (\<forall>e l'. reload_if_changed yaml_load fos rend clock (Inr m) file l = (Inl e, l') \<longrightarrow> exc_type e \<in> {OverflowError, ValueError} \<and> l' = l)"
proof (intro conjI allI impI)
  fix e assume "load_topology_registry yaml_load fos rend clock cfg file = Inl e"
  then show "exc_type e \<in> {TopologyRegistryValidationError, OverflowError, ValueError}"
    using raises_registry_load [OF assms(1,2), of yaml_load fos rend clock cfg] by (simp add: raises_registry_def registry_exc_def)
next
  fix e l' assume r: "reload_if_changed yaml_load fos rend clock (Inr m) file l = (Inl e, l')"
  then show "exc_type e \<in> {OverflowError, ValueError}" by (rule reload_raises [OF _ assms(3,1,2)])
  show "l' = l" using r by (cases rule: reload_cases [OF r]) auto
qed

text \<open>A file whose confidence overflows makes the reload raise.\<close>

definition huge_confidence :: int where
  "huge_confidence = 2 ^ 1024"

lemma fl_of_int_huge: "fl_of_int huge_confidence = raise OverflowError ''int too large to convert to float''"
proof -
  have q: "(of_int huge_confidence :: rat) = pow2 1024" unfolding huge_confidence_def pow2_def by simp
  have "pow2 (fl_exponent (pow2 1024)) \<le> pow2 1024" using fl_exponent_le [of "pow2 1024"] pow2_pos [of 1024] by (simp only: abs_of_pos less_irrefl)
  then have "fl_exponent (pow2 1024) \<le> 1024" by (rule pow2_mono)
  then have "pow2 1024 \<le> fl_value (pow2 1024)" by (intro fl_value_ge_pow2) (simp_all add: fl_ulp_def)
  moreover have "pow2 1024 \<noteq> 0" by (metis pow2_pos less_irrefl)
  ultimately have "fl_round (pow2 1024) = PInf" by (simp only: fl_round_value if_True simp_thms)
  then show ?thesis by (simp only: fl_of_int_def q pyfloat.case)
qed

definition huge_confidence_yaml :: yaml_outcome where
  "huge_confidence_yaml = Yaml_Loaded (JDict [(''version'', JInt 2), (''streams'', JList []),
     (''ownership_map'', JDict [(''topic_owners'', JList [JDict [(''routing_key'', JStr ''k1''), (''confidence'', JInt huge_confidence),
        (''match'', JDict [(''env'', JStr ''prod''), (''cluster_id'', JStr ''c1''), (''topic'', JStr ''orders'')])]])])])"

theorem registry_file_errors_witness:
  "\<exists>s e l'. load_sample ''k1'' = Inr s \<and>
    reload_if_changed (\<lambda>_. huge_confidence_yaml) (\<lambda>_. None) (\<lambda>_. []) 0 (Inr 8) (sample_file ''k1'')
      \<lparr>rl_config = sample_loader_config, rl_snapshot = Some s\<rparr> = (Inl e, l') \<and> exc_type e \<in> {OverflowError, ValueError}"
proof -
  obtain s where s: "load_sample ''k1'' = Inr s" using load_sample_ok(1) by (auto simp: is_ok_iff)
  let ?l = "\<lparr>rl_config = sample_loader_config, rl_snapshot = Some s\<rparr>"
  let ?run = "reload_if_changed (\<lambda>_. huge_confidence_yaml) (\<lambda>_. None) (\<lambda>_. []) 0 (Inr 8) (sample_file ''k1'') ?l"
  have "load_topology_registry (\<lambda>_. huge_confidence_yaml) (\<lambda>_. None) (\<lambda>_. []) 0 sample_loader_config (sample_file ''k1'') =
      raise OverflowError ''int too large to convert to float''"
    by (simp add: load_topology_registry_def read_registry_yaml_def huge_confidence_yaml_def sample_loader_config_def sample_file_def Let_def
        detect_registry_version_def raw_get_def normalize_version_def validate_supported_version_def default_loader_rules_def
        canonicalize_registry_def canonicalize_v1_streams_def canonicalize_routing_directory_def canonicalize_ownership_map_def
        coerce_consumer_group_owners_def coerce_topic_owners_def coerce_owner_def coerce_mapping_def require_non_empty_string_def optional_string_def
        coerce_optional_float_def fl_of_int_huge py_strip_def py_isspace_def)
  moreover have "md_source_mtime_ns (sp_metadata s) = 7"
    using s by (auto simp: load_topology_registry_def Let_def sample_file_def elim!: rbind_InrE)
  ultimately obtain e where e: "?run = (Inl e, snd ?run)" by (simp add: reload_if_changed_def raise_def)
  have "is_ok (fv_text (sample_file ''k1''))" "is_ok (fv_mtime_ns (sample_file ''k1''))" "rl_snapshot ?l \<noteq> None" by (simp_all add: sample_file_def)
  from registry_file_errors [OF this, of "\<lambda>_. huge_confidence_yaml" "\<lambda>_. None" "\<lambda>_. []" 0 sample_loader_config 8] e s show ?thesis by blast
qed

text \<open>
  The modification time is read after the text. A write between the two is lost: the snapshot carries the new time with the old content,
  and no later check reloads, whatever the file then holds.
\<close>

lemma reload_misses_racing_write:
  assumes "load_topology_registry yaml_load fos rend clock (rl_config l) \<lparr>fv_text = Inr old_text, fv_mtime_ns = Inr new_mtime\<rparr> = Inr s"
  shows "reload_if_changed yaml_load fos rend clock' (Inr new_mtime) \<lparr>fv_text = Inr new_text, fv_mtime_ns = mt\<rparr> (l\<lparr>rl_snapshot := Some s\<rparr>) =
    (Inr False, l\<lparr>rl_snapshot := Some s\<rparr>)"
proof -
  have "md_source_mtime_ns (sp_metadata s) = new_mtime" using assms by (auto simp: load_topology_registry_def Let_def elim!: rbind_InrE)
  then show ?thesis by (simp add: reload_if_changed_def)
qed

end
