(* ===== verification/Anomaly.thy ===== *)
theory Anomaly
  imports Models Py_Float
begin

text \<open>
  Anomaly detection on normalised evidence rows (\<open>pipeline/stages/anomaly.py\<close>) with its
  per-interval findings cache (\<open>cache/findings_cache.py\<close> and the TTL lookup of
  \<open>cache/evidence_window.py\<close>). Samples are binary64 numbers. The cache client is a parameter: the
  functions \<open>cget\<close> and \<open>cset\<close> over an opaque server state, each of which may raise; the
  locale \<open>kv_cache\<close> is what a working server does. The JSON text of a list of findings is a
  parameter too (\<open>enc\<close>, and \<open>dec\<close> which raises on anything it does not accept).
\<close>

section \<open>TTL policy\<close>

record redis_ttls_by_env =
  rt_evidence_window_seconds :: int
  rt_peak_profile_seconds :: int
  rt_dedupe_seconds :: int
  rt_dedupe_ttl_by_action :: ag5_dedupe_ttl_config

type_synonym redis_ttl_policy = "(string, redis_ttls_by_env) pydict"

definition validate_redis_ttl_policy :: "redis_ttl_policy \<Rightarrow> redis_ttl_policy result" where
  "validate_redis_ttl_policy p =
     (if {''local'', ''dev'', ''uat'', ''prod''} \<subseteq> set (map fst p) then Inr p
      else raise ValueError ''ttls_by_env is missing required environments'')"

definition evidence_window_ttl_seconds :: "string \<Rightarrow> redis_ttl_policy \<Rightarrow> int result" where
  "evidence_window_ttl_seconds env policy = (case dict_get policy env of
       Some t \<Rightarrow> Inr (rt_evidence_window_seconds t)
     | None \<Rightarrow>
         (case map (\<lambda>e. rt_evidence_window_seconds (snd e)) policy of
            [] \<Rightarrow> raise ValueError ''min() iterable argument is empty''
          | v # vs \<Rightarrow> Inr (fold min vs v)))"

section \<open>Findings cache\<close>

type_synonym 'r cache_get = "'r \<Rightarrow> string \<Rightarrow> string option result \<times> 'r"
type_synonym 'r cache_set = "'r \<Rightarrow> string \<Rightarrow> string \<Rightarrow> int \<Rightarrow> unit result \<times> 'r"

definition interval_bucket_epoch_seconds :: "instant \<Rightarrow> int \<Rightarrow> int result" where
  "interval_bucket_epoch_seconds evaluation_time interval_seconds =
     (if interval_seconds \<le> 0 then raise ValueError ''interval_seconds must be > 0''
      else let unix_seconds = epoch_second evaluation_time in Inr (unix_seconds - unix_seconds mod interval_seconds))"

definition build_interval_findings_cache_key :: "scope \<Rightarrow> instant \<Rightarrow> int \<Rightarrow> string result" where
  "build_interval_findings_cache_key sc evaluation_time interval_seconds =
     (if length sc < 3 then raise ValueError ''scope must include at least (env, cluster_id, topic)''
      else rbind (interval_bucket_epoch_seconds evaluation_time interval_seconds) (\<lambda>b.
        Inr (''evidence:findings|'' @ py_join ''|'' sc @ ''|'' @ py_str_int b)))"

definition build_legacy_interval_findings_cache_key :: "scope \<Rightarrow> instant \<Rightarrow> int \<Rightarrow> string result" where
  "build_legacy_interval_findings_cache_key sc evaluation_time interval_seconds =
     (if length sc < 3 then raise ValueError ''scope must include at least (env, cluster_id, topic)''
      else rbind (interval_bucket_epoch_seconds evaluation_time interval_seconds) (\<lambda>b.
        Inr (''evidence:findings:'' @ sc ! 0 @ ''|'' @ sc ! 1 @ ''|'' @ py_join ''|'' sc @ ''|'' @ py_str_int b)))"

definition get_interval_findings ::
  "(string \<Rightarrow> anomaly_finding list result) \<Rightarrow> 'r cache_get \<Rightarrow> scope \<Rightarrow> instant \<Rightarrow> int \<Rightarrow> 'r \<Rightarrow>
   anomaly_finding list option result \<times> 'r" where
  "get_interval_findings dec cget sc t interval r =
     st_bind (build_interval_findings_cache_key sc t interval, r) (\<lambda>k r.
     st_bind (cget r k) (\<lambda>raw r.
     st_bind (case raw of
        Some x \<Rightarrow> (Inr (Some x), r)
      | None \<Rightarrow> st_bind (build_legacy_interval_findings_cache_key sc t interval, r) (\<lambda>k' r. cget r k')) (\<lambda>raw r.
     (case raw of None \<Rightarrow> Inr None | Some payload \<Rightarrow> rbind (dec payload) (\<lambda>fs. Inr (Some fs)), r))))"

definition set_interval_findings ::
  "(anomaly_finding list \<Rightarrow> string) \<Rightarrow> 'r cache_set \<Rightarrow> scope \<Rightarrow> string \<Rightarrow> instant \<Rightarrow> anomaly_finding list \<Rightarrow>
   redis_ttl_policy \<Rightarrow> int \<Rightarrow> 'r \<Rightarrow> unit result \<times> 'r" where
  "set_interval_findings enc cset sc env t fs policy interval r =
     st_bind (evidence_window_ttl_seconds env policy, r) (\<lambda>ttl r.
     st_bind (build_interval_findings_cache_key sc t interval, r) (\<lambda>k r.
     cset r k (enc fs) ttl))"

text \<open>
  The read-through helper: a read error counts as a miss, a write error is ignored. \<open>scope[0]\<close> of
  an empty scope raises inside the guarded write.
\<close>

definition get_or_compute_interval_findings ::
  "(anomaly_finding list \<Rightarrow> string) \<Rightarrow> (string \<Rightarrow> anomaly_finding list result) \<Rightarrow> 'r cache_get \<Rightarrow> 'r cache_set \<Rightarrow>
   scope \<Rightarrow> instant \<Rightarrow> redis_ttl_policy \<Rightarrow> anomaly_finding list \<Rightarrow> int \<Rightarrow> 'r \<Rightarrow> anomaly_finding list \<times> 'r" where
  "get_or_compute_interval_findings enc dec cget cset sc t policy computed interval r =
     (let (res, r1) = get_interval_findings dec cget sc t interval r;
          cached = (case res of Inr c \<Rightarrow> c | Inl _ \<Rightarrow> None)
      in case cached of
        Some fs \<Rightarrow> (fs, r1)
      | None \<Rightarrow>
          (computed, case sc of [] \<Rightarrow> r1 | env # _ \<Rightarrow> snd (set_interval_findings enc cset sc env t computed policy interval r1)))"

section \<open>Detectors\<close>

type_synonym scope_metrics = "(string, pyfloat list) pydict"

definition metric_values :: "scope_metrics \<Rightarrow> string \<Rightarrow> pyfloat list" where
  "metric_values m k = (case dict_get m k of Some vs \<Rightarrow> vs | None \<Rightarrow> [])"

definition lag_finding :: "scope \<Rightarrow> anomaly_finding" where
  "lag_finding sc =
     \<lparr>af_finding_id = ''CONSUMER_LAG:'' @ py_join ''|'' sc, af_anomaly_family = CONSUMER_LAG, af_scope = sc,
      af_severity = HIGH, af_reason_codes = [''LAG_BUILDUP_DETECTED'', ''LAG_HIGH'', ''OFFSET_PROGRESS_LOW''],
      af_evidence_required = [''consumer_group_lag'', ''consumer_group_offset''], af_allowed = [], af_is_primary = Some True\<rparr>"

definition detect_consumer_lag_buildup :: "scope \<Rightarrow> scope_metrics \<Rightarrow> anomaly_finding option" where
  "detect_consumer_lag_buildup sc m =
     (case (metric_values m ''consumer_group_lag'', metric_values m ''consumer_group_offset'') of
        (l # ls, off # offs) \<Rightarrow>
          let lag_end = py_max l ls;
              lag_growth = (if length (l # ls) \<ge> 2 then fl_sub (last (l # ls)) l else lag_end);
              offset_progress = fl_sub (py_max off offs) (py_min off offs)
          in if fl_lt lag_end (Fin 100) then None
             else if fl_lt lag_growth (Fin 25) then None
             else if fl_lt (Fin 10) offset_progress then None
             else Some (lag_finding sc)
      | _ \<Rightarrow> None)"

text \<open>The double nearest to 0.05.\<close>

definition throughput_failure_ratio_min :: pyfloat where
  "throughput_failure_ratio_min = Fin (3602879701896397 / 72057594037927936)"

definition throughput_finding :: "scope \<Rightarrow> anomaly_finding" where
  "throughput_finding sc =
     \<lparr>af_finding_id = ''THROUGHPUT_CONSTRAINED_PROXY:'' @ py_join ''|'' sc,
      af_anomaly_family = THROUGHPUT_CONSTRAINED_PROXY, af_scope = sc, af_severity = HIGH,
      af_reason_codes = [''HIGH_THROUGHPUT'', ''PRODUCE_FAILURE_RATIO_HIGH''],
      af_evidence_required = [''topic_messages_in_per_sec'', ''total_produce_requests_per_sec'', ''failed_produce_requests_per_sec''],
      af_allowed = [], af_is_primary = Some True\<rparr>"

definition detect_throughput_constrained_proxy :: "scope \<Rightarrow> scope_metrics \<Rightarrow> anomaly_finding option" where
  "detect_throughput_constrained_proxy sc m =
     (case (metric_values m ''topic_messages_in_per_sec'', metric_values m ''total_produce_requests_per_sec'',
            metric_values m ''failed_produce_requests_per_sec'') of
        (t # ts, p # ps, f # fs) \<Rightarrow>
          let throughput = py_max t ts; total_produce = py_max p ps; failed_produce = py_max f fs
          in if fl_lt throughput (Fin 1000) then None
             else if fl_lt total_produce (Fin 100) then None
             else if fl_le total_produce (Fin 0) then None
             else if fl_lt (fl_div failed_produce total_produce) throughput_failure_ratio_min then None
             else Some (throughput_finding sc)
      | _ \<Rightarrow> None)"

definition volume_drop_finding :: "scope \<Rightarrow> anomaly_finding" where
  "volume_drop_finding sc =
     \<lparr>af_finding_id = ''VOLUME_DROP:'' @ py_join ''|'' sc, af_anomaly_family = VOLUME_DROP, af_scope = sc,
      af_severity = MEDIUM, af_reason_codes = [''EXPECTED_INGRESS_BUT_LOW_TRAFFIC'', ''VOLUME_DROP_VS_BASELINE''],
      af_evidence_required = [''topic_messages_in_per_sec'', ''total_produce_requests_per_sec''],
      af_allowed = [], af_is_primary = Some True\<rparr>"

definition detect_volume_drop :: "scope \<Rightarrow> scope_metrics \<Rightarrow> anomaly_finding option" where
  "detect_volume_drop sc m =
     (case (metric_values m ''topic_messages_in_per_sec'', metric_values m ''total_produce_requests_per_sec'') of
        (v # vs, p # ps) \<Rightarrow>
          let baseline_messages_in = py_max v vs; current_messages_in = py_min v vs; expected_requests = py_max p ps
          in if fl_lt baseline_messages_in (Fin 50) then None
             else if fl_lt expected_requests (Fin 150) then None
             else if fl_lt (Fin 1) current_messages_in then None
             else Some (volume_drop_finding sc)
      | _ \<Rightarrow> None)"

definition compute_scope_findings :: "scope \<Rightarrow> scope_metrics \<Rightarrow> anomaly_finding list" where
  "compute_scope_findings sc m =
     (case detect_consumer_lag_buildup sc m of Some f \<Rightarrow> [f] | None \<Rightarrow> []) @
     (case detect_throughput_constrained_proxy sc m of Some f \<Rightarrow> [f] | None \<Rightarrow> []) @
     (case detect_volume_drop sc m of Some f \<Rightarrow> [f] | None \<Rightarrow> [])"

section \<open>Detection stage\<close>

text \<open>The nested \<open>defaultdict\<close> of samples by scope and metric.\<close>

definition add_sample :: "evidence_row \<Rightarrow> (scope, scope_metrics) pydict \<Rightarrow> (scope, scope_metrics) pydict" where
  "add_sample row d = dict_set d (er_scope row)
     (dd_append (case dict_get d (er_scope row) of Some m \<Rightarrow> m | None \<Rightarrow> []) (er_metric_key row) (er_value row))"

definition metrics_by_scope :: "evidence_row list \<Rightarrow> (scope, scope_metrics) pydict" where
  "metrics_by_scope rows = fold add_sample rows []"

fun detect_cached ::
  "(scope \<Rightarrow> scope_metrics \<Rightarrow> 'r \<Rightarrow> anomaly_finding list \<times> 'r) \<Rightarrow> (scope \<times> scope_metrics) list \<Rightarrow> 'r \<Rightarrow>
   anomaly_finding list \<times> 'r" where
  "detect_cached step [] r = ([], r)"
| "detect_cached step ((sc, m) # rest) r =
     (let (fs, r1) = step sc m r; (gs, r2) = detect_cached step rest r1 in (fs @ gs, r2))"

text \<open>The cache is used only when client, TTL policy and evaluation time are all given; interval 300 s.\<close>

definition detect_anomaly_findings ::
  "(anomaly_finding list \<Rightarrow> string) \<Rightarrow> (string \<Rightarrow> anomaly_finding list result) \<Rightarrow> 'r cache_get \<Rightarrow> 'r cache_set \<Rightarrow>
   evidence_row list \<Rightarrow> 'r option \<Rightarrow> redis_ttl_policy option \<Rightarrow> instant option \<Rightarrow> anomaly_detection_result \<times> 'r option" where
  "detect_anomaly_findings enc dec cget cset rows client policy evaluation_time =
     (let items = sort_key fst (metrics_by_scope rows)
      in case (client, policy, evaluation_time) of
        (Some r, Some p, Some t) \<Rightarrow>
          let (fs, r') = detect_cached (\<lambda>sc m r. get_or_compute_interval_findings enc dec cget cset sc t p
                           (compute_scope_findings sc m) 300 r) items r
          in (mk_anomaly_detection_result fs, Some r')
      | _ \<Rightarrow> (mk_anomaly_detection_result (concat (map (\<lambda>(sc, m). compute_scope_findings sc m) items)), client))"

definition to_gate_finding :: "anomaly_finding \<Rightarrow> finding" where
  "to_gate_finding f =
     \<lparr>fi_finding_id = af_finding_id f, fi_name = py_lower (anomaly_family_value (af_anomaly_family f)), fi_is_anomalous = True,
      fi_evidence_required = af_evidence_required f, fi_allowed = af_allowed f, fi_is_primary = af_is_primary f,
      fi_severity = Some (severity_value (af_severity f)), fi_reason_codes = af_reason_codes f\<rparr>"

definition build_gate_findings_by_scope :: "anomaly_detection_result \<Rightarrow> (scope, finding list) pydict" where
  "build_gate_findings_by_scope res = map (\<lambda>(sc, fs). (sc, map to_gate_finding fs)) (ar_findings_by_scope res)"

text \<open>The samples of a metric in a scope, in row order.\<close>

definition samples :: "evidence_row list \<Rightarrow> scope \<Rightarrow> string \<Rightarrow> pyfloat list" where
  "samples rows sc k = map er_value (filter (\<lambda>r. er_scope r = sc \<and> er_metric_key r = k) rows)"

definition metrics_of :: "(scope, scope_metrics) pydict \<Rightarrow> scope \<Rightarrow> scope_metrics" where
  "metrics_of d sc = (case dict_get d sc of Some m \<Rightarrow> m | None \<Rightarrow> [])"

definition sample_rows :: "evidence_row list" where
  "sample_rows = map (\<lambda>(sc, k, v). \<lparr>er_metric_key = k, er_value = Fin v, er_labels = [], er_scope = sc\<rparr>)
     [([''prod'', ''c1'', ''g'', ''orders''], ''consumer_group_lag'', 100), ([''prod'', ''c1'', ''g'', ''orders''], ''consumer_group_lag'', 160),
      ([''prod'', ''c1'', ''g'', ''orders''], ''consumer_group_offset'', 7), ([''prod'', ''c1'', ''g'', ''orders''], ''consumer_group_offset'', 9),
      ([''prod'', ''c1'', ''orders''], ''topic_messages_in_per_sec'', 80), ([''prod'', ''c1'', ''orders''], ''topic_messages_in_per_sec'', 0),
      ([''prod'', ''c1'', ''orders''], ''total_produce_requests_per_sec'', 200)]"

definition sample_ttls :: redis_ttl_policy where
  "sample_ttls = [(''prod'', \<lparr>rt_evidence_window_seconds = 600, rt_peak_profile_seconds = 3600, rt_dedupe_seconds = 3600,
     rt_dedupe_ttl_by_action = \<lparr>page_seconds = 7200, ticket_seconds = 14400, notify_seconds = 3600\<rparr>\<rparr>)]"

section \<open>A working cache server\<close>

locale kv_cache =
  fixes cget :: "'r cache_get" and cset :: "'r cache_set" and view :: "'r \<Rightarrow> string \<Rightarrow> string option"
  assumes get_ok: "cget r k = (Inr v, r') \<Longrightarrow> v = view r k \<and> view r' = view r"
    and get_err: "cget r k = (Inl e, r') \<Longrightarrow> view r' = view r"
    and set_ok: "0 < ttl \<Longrightarrow> cset r k w ttl = (Inr u, r') \<Longrightarrow> view r' = (view r)(k \<mapsto> w)"
    and set_err: "cset r k w ttl = (Inl e, r') \<Longrightarrow> view r' = view r \<or> view r' = (view r)(k \<mapsto> w)"

locale kv_cache_up = kv_cache +
  assumes get_up: "\<exists>v r'. cget r k = (Inr v, r')"
    and set_up: "0 < ttl \<Longrightarrow> \<exists>u r'. cset r k w ttl = (Inr u, r')"
begin

lemma get_view: "\<exists>r'. cget r k = (Inr (view r k), r') \<and> view r' = view r"
  using get_up [of r k] get_ok by metis

lemma set_view:
  assumes "0 < ttl"
  shows "\<exists>r'. cset r k w ttl = (Inr (), r') \<and> view r' = (view r)(k \<mapsto> w)"
proof -
  obtain u :: unit and r' where "cset r k w ttl = (Inr u, r')" using set_up [OF assms] by blast
  then show ?thesis using set_ok [OF assms] by (cases u) blast
qed

text \<open>What a read of an interval's entry returns, in terms of the server's contents.\<close>

lemma get_interval_view:
  assumes "build_interval_findings_cache_key sc t n = Inr k" "build_legacy_interval_findings_cache_key sc t n = Inr k'"
  shows "\<exists>r'. get_interval_findings dec cget sc t n r =
      (case (case view r k of Some x \<Rightarrow> Some x | None \<Rightarrow> view r k') of
         None \<Rightarrow> Inr None | Some payload \<Rightarrow> rbind (dec payload) (\<lambda>fs. Inr (Some fs)), r') \<and> view r' = view r"
proof -
  obtain r1 where r1: "cget r k = (Inr (view r k), r1)" "view r1 = view r" using get_view by blast
  obtain r2 where r2: "cget r1 k' = (Inr (view r k'), r2)" "view r2 = view r" using get_view [of r1 k'] r1(2) by auto
  show ?thesis using assms r1 r2 by (cases "view r k") (auto simp: get_interval_findings_def)
qed

text \<open>Whatever the entry was, after the helper has run a read gives back the findings it returned.\<close>

lemma read_after_get_or_compute:
  assumes k: "build_interval_findings_cache_key sc t n = Inr k" "build_legacy_interval_findings_cache_key sc t n = Inr k'"
    and enc: "dec (enc computed) = Inr computed" and ttl: "evidence_window_ttl_seconds (hd sc) policy = Inr ttl" "0 < ttl"
    and call: "get_or_compute_interval_findings enc dec cget cset sc t policy computed n r = (fs, r')"
  shows "\<exists>r''. get_interval_findings dec cget sc t n r' = (Inr (Some fs), r'') \<and> view r'' = view r'"
proof -
  let ?entry = "\<lambda>r. case view r k of Some x \<Rightarrow> Some x | None \<Rightarrow> view r k'"
  obtain r1 where r1: "get_interval_findings dec cget sc t n r =
      (case ?entry r of None \<Rightarrow> Inr None | Some payload \<Rightarrow> rbind (dec payload) (\<lambda>fs. Inr (Some fs)), r1)" "view r1 = view r"
    using get_interval_view [OF k] by blast
  have sc: "sc \<noteq> []" using k(1) by (auto simp: build_interval_findings_cache_key_def)
  show ?thesis
  proof (cases "\<exists>payload. ?entry r = Some payload \<and> is_ok (dec payload)")
    case True
    then obtain payload gs where h: "?entry r = Some payload" "dec payload = Inr gs" by (auto simp: is_ok_iff)
    then have "fs = gs" "r' = r1" using call r1(1) by (simp_all add: get_or_compute_interval_findings_def)
    have e: "?entry r1 = Some payload" using h(1) unfolding r1(2) .
    show ?thesis using get_interval_view [OF k, of dec r1] unfolding e by (simp add: h(2) \<open>fs = gs\<close> \<open>r' = r1\<close>)
  next
    case False
    then have "(case fst (get_interval_findings dec cget sc t n r) of Inr c \<Rightarrow> c | Inl _ \<Rightarrow> None) = None"
      using r1(1) by (cases "?entry r") (auto simp: is_ok_iff split: sum.splits elim: rbind_InrE)
    then have fs: "fs = computed" and r': "r' = snd (set_interval_findings enc cset sc (hd sc) t computed policy n r1)"
      using call r1(1) sc by (auto simp: get_or_compute_interval_findings_def split: list.splits)
    obtain r2 where "cset r1 k (enc computed) ttl = (Inr (), r2)" "view r2 = (view r1)(k \<mapsto> enc computed)"
      using set_view [OF ttl(2)] by blast
    then have "view r' = (view r1)(k \<mapsto> enc computed)"
      using r' k ttl by (simp add: set_interval_findings_def)
    then show ?thesis using get_interval_view [OF k, of dec r'] enc fs by simp
  qed
qed

end

text \<open>A server with a clock and an availability flag.\<close>

record sim_cache =
  cs_now :: int
  cs_entries :: "(string, string \<times> int) pydict"
  cs_up :: bool

definition cs_view :: "sim_cache \<Rightarrow> string \<Rightarrow> string option" where
  "cs_view r k = (case dict_get (cs_entries r) k of
       Some (v, expiry) \<Rightarrow> if cs_now r < expiry then Some v else None | None \<Rightarrow> None)"

definition cs_get :: "sim_cache cache_get" where
  "cs_get r k = (if cs_up r then (Inr (cs_view r k), r) else (raise OtherException ''connection refused'', r))"

definition cs_set :: "sim_cache cache_set" where
  "cs_set r k v ttl = (if \<not> cs_up r then (raise OtherException ''connection refused'', r)
     else if ttl \<le> 0 then (raise OtherException ''invalid expire time'', r)
     else (Inr (), r\<lparr>cs_entries := dict_set (cs_entries r) k (v, cs_now r + ttl)\<rparr>))"

definition up_get :: "sim_cache cache_get" where
  "up_get r k = (Inr (cs_view r k), r)"

definition up_set :: "sim_cache cache_set" where
  "up_set r k v ttl = (if ttl \<le> 0 then (raise OtherException ''invalid expire time'', r)
     else (Inr (), r\<lparr>cs_entries := dict_set (cs_entries r) k (v, cs_now r + ttl)\<rparr>))"

interpretation cs: kv_cache cs_get cs_set cs_view
  by unfold_locales (auto simp: cs_get_def cs_set_def cs_view_def [abs_def] fun_eq_iff split: if_splits option.splits prod.splits)

interpretation cs_up: kv_cache_up up_get up_set cs_view
  by unfold_locales (auto simp: up_get_def up_set_def cs_view_def [abs_def] fun_eq_iff split: if_splits option.splits prod.splits)

section \<open>Lemmas\<close>

text \<open>The nested grouping collects, per scope and metric, the samples in row order.\<close>

lemma dd_append_values: "metric_values (dd_append m k v) j = (if j = k then metric_values m k @ [v] else metric_values m j)"
  by (simp add: metric_values_def dd_append_get split: option.splits)

lemma fold_add_sample:
  "metric_values (metrics_of (fold add_sample rows d) sc) k = metric_values (metrics_of d sc) k @ samples rows sc k"
  by (induction rows arbitrary: d) (auto simp: add_sample_def metrics_of_def samples_def dd_append_values)

lemma metrics_by_scope_values: "metric_values (metrics_of (metrics_by_scope rows) sc) k = samples rows sc k"
  by (simp add: metrics_by_scope_def fold_add_sample) (simp add: metrics_of_def metric_values_def)

lemma metrics_by_scope_keys: "fst ` set (metrics_by_scope rows) = er_scope ` set rows" and
  metrics_by_scope_wf: "dict_wf (metrics_by_scope rows)"
proof -
  have "fst ` set (fold add_sample rows d) = fst ` set d \<union> er_scope ` set rows \<and> (dict_wf d \<longrightarrow> dict_wf (fold add_sample rows d))" for d
    by (induction rows arbitrary: d) (auto simp: add_sample_def)
  then show "fst ` set (metrics_by_scope rows) = er_scope ` set rows" "dict_wf (metrics_by_scope rows)"
    by (simp_all add: metrics_by_scope_def)
qed

lemma metrics_by_scope_entry:
  "(sc, m) \<in> set (metrics_by_scope rows) \<longleftrightarrow> sc \<in> er_scope ` set rows \<and> m = metrics_of (metrics_by_scope rows) sc"
proof
  assume h: "(sc, m) \<in> set (metrics_by_scope rows)"
  then have "dict_get (metrics_by_scope rows) sc = Some m" using metrics_by_scope_wf by (simp add: dict_wf_def)
  then show "sc \<in> er_scope ` set rows \<and> m = metrics_of (metrics_by_scope rows) sc"
    using h by (force simp: metrics_of_def simp flip: metrics_by_scope_keys)
next
  assume h: "sc \<in> er_scope ` set rows \<and> m = metrics_of (metrics_by_scope rows) sc"
  then have "sc \<in> fst ` set (metrics_by_scope rows)" by (simp add: metrics_by_scope_keys)
  then obtain m' where "(sc, m') \<in> set (metrics_by_scope rows)" by auto
  moreover from this have "dict_get (metrics_by_scope rows) sc = Some m'" using metrics_by_scope_wf by (simp add: dict_wf_def)
  ultimately show "(sc, m) \<in> set (metrics_by_scope rows)" using h by (simp add: metrics_of_def)
qed

text \<open>Without a cache the findings are those of every scope that has rows.\<close>

lemma uncached_findings:
  "set (ar_findings (fst (detect_anomaly_findings enc dec cget cset rows None policy t))) =
     (\<Union>sc \<in> er_scope ` set rows. set (compute_scope_findings sc (metrics_of (metrics_by_scope rows) sc)))"
proof -
  have "ar_findings (fst (detect_anomaly_findings enc dec cget cset rows None policy t)) =
      concat (map (\<lambda>(sc, m). compute_scope_findings sc m) (sort_key fst (metrics_by_scope rows)))"
    by (simp add: detect_anomaly_findings_def mk_anomaly_detection_result_def Let_def)
  then have "set (ar_findings (fst (detect_anomaly_findings enc dec cget cset rows None policy t))) =
      {f. \<exists>sc m. (sc, m) \<in> set (metrics_by_scope rows) \<and> f \<in> set (compute_scope_findings sc m)}" by auto
  then show ?thesis unfolding metrics_by_scope_entry by blast
qed

lemma detect_cases:
  "detect_consumer_lag_buildup sc m \<in> {None, Some (lag_finding sc)}"
  "detect_throughput_constrained_proxy sc m \<in> {None, Some (throughput_finding sc)}"
  "detect_volume_drop sc m \<in> {None, Some (volume_drop_finding sc)}"
  by (simp_all add: detect_consumer_lag_buildup_def detect_throughput_constrained_proxy_def detect_volume_drop_def Let_def
      split: list.splits)

lemma compute_scope_findings_set:
  "set (compute_scope_findings sc m) =
     {f. f = lag_finding sc \<and> detect_consumer_lag_buildup sc m \<noteq> None \<or>
         f = throughput_finding sc \<and> detect_throughput_constrained_proxy sc m \<noteq> None \<or>
         f = volume_drop_finding sc \<and> detect_volume_drop sc m \<noteq> None}"
  using detect_cases [of sc m] by (auto simp: compute_scope_findings_def)

lemma finding_scope [simp]: "af_scope (lag_finding sc) = sc" "af_scope (throughput_finding sc) = sc" "af_scope (volume_drop_finding sc) = sc"
  by (simp_all add: lag_finding_def throughput_finding_def volume_drop_finding_def)

lemma finding_distinct: "lag_finding sc \<noteq> throughput_finding sc'" "lag_finding sc \<noteq> volume_drop_finding sc'"
  "throughput_finding sc \<noteq> volume_drop_finding sc'"
  by (simp_all add: lag_finding_def throughput_finding_def volume_drop_finding_def)

lemma in_compute_scope_findings:
  "lag_finding sc \<in> set (compute_scope_findings sc m) \<longleftrightarrow> detect_consumer_lag_buildup sc m \<noteq> None"
  "throughput_finding sc \<in> set (compute_scope_findings sc m) \<longleftrightarrow> detect_throughput_constrained_proxy sc m \<noteq> None"
  "volume_drop_finding sc \<in> set (compute_scope_findings sc m) \<longleftrightarrow> detect_volume_drop sc m \<noteq> None"
  by (simp_all add: compute_scope_findings_set finding_distinct finding_distinct [THEN not_sym])

text \<open>Maximum and minimum of finite samples.\<close>

lemma py_max_fin: "py_max (Fin x) (map Fin xs) = Fin (fold max xs x)"
  by (induction xs arbitrary: x) (auto simp: py_max_def max_def)

lemma py_min_fin: "py_min (Fin x) (map Fin xs) = Fin (fold min xs x)"
  by (induction xs arbitrary: x) (auto simp: py_min_def min_def)

lemma fold_max_ge: "(c::rat) \<le> fold max xs x \<longleftrightarrow> (\<exists>y \<in> set (x # xs). c \<le> y)"
  by (induction xs arbitrary: x) (auto simp: le_max_iff_disj)

lemma fold_min_le: "fold min xs x \<le> (c::rat) \<longleftrightarrow> (\<exists>y \<in> set (x # xs). y \<le> c)"
  by (induction xs arbitrary: x) (auto simp: min_le_iff_disj)

lemma finite_samples:
  assumes "\<forall>v \<in> set vs. fl_finite v"
  obtains xs where "vs = map Fin xs"
proof -
  have "\<exists>xs. vs = map Fin xs"
    using assms
  proof (induction vs)
    case (Cons v vs)
    then obtain xs x where "vs = map Fin xs" "v = Fin x" by (cases v) auto
    then show ?case by (metis list.simps(9))
  qed simp
  then show ?thesis using that by blast
qed

lemma fl_round_nonpos: "q \<le> 0 \<Longrightarrow> fl_le (fl_round q) (Fin 0)"
proof (cases "q = 0")
  case False
  assume "q \<le> 0"
  with False have "fl_value q \<le> 0"
    using round_half_even_le [of "q / pow2 (fl_ulp q)" 0] pow2_pos [of "fl_ulp q"]
    by (auto simp: fl_value_def mult_le_0_iff divide_le_0_iff intro: less_imp_le)
  moreover from this have "\<not> pow2 1024 \<le> fl_value q" using pow2_pos [of 1024] by linarith
  ultimately show ?thesis using False by (simp add: fl_round_value)
qed (simp add: fl_round_def)

text \<open>Differences of integer samples are compared exactly.\<close>

lemma fl_sub_int_lt:
  assumes "a - b < 2 ^ 53" "0 < c"
  shows "fl_lt (fl_sub (Fin (of_int a)) (Fin (of_int b))) (Fin (of_int c)) \<longleftrightarrow> a - b < c"
proof (cases "0 \<le> a - b")
  case True
  have "fl_round (of_int a - of_int b) = Fin (of_int (a - b))" using fl_round_of_int [OF True assms(1)] by simp
  then show ?thesis by (simp only: fl_sub.simps fl_lt.simps of_int_less_iff)
next
  case False
  then have "fl_le (fl_round (of_int a - of_int b)) (Fin 0)" by (intro fl_round_nonpos) simp
  then show ?thesis using False assms(2) by (cases "fl_round (of_int a - of_int b)") (auto simp: order_le_less_trans)
qed

lemma fl_sub_int_gt:
  assumes "a - b < 2 ^ 53" "0 \<le> a - b"
  shows "fl_lt (Fin (of_int c)) (fl_sub (Fin (of_int a)) (Fin (of_int b))) \<longleftrightarrow> c < a - b"
proof -
  have "fl_round (of_int a - of_int b) = Fin (of_int (a - b))" using fl_round_of_int [OF assms(2,1)] by simp
  then show ?thesis by (simp only: fl_sub.simps fl_lt.simps of_int_less_iff)
qed

lemma fold_max_int: "fold max (map rat_of_int xs) (of_int x) = of_int (fold max xs x)" and
  fold_min_int: "fold min (map rat_of_int xs) (of_int x) = of_int (fold min xs x)"
  by (induction xs arbitrary: x) (simp_all flip: of_int_max of_int_min)

lemma fold_max_int_ge: "(c::int) \<le> fold max xs x \<longleftrightarrow> (\<exists>y \<in> set (x # xs). c \<le> y)"
  by (induction xs arbitrary: x) (auto simp: le_max_iff_disj)

lemma fold_min_int_mem: "fold min xs (x::int) \<in> set (x # xs)" and fold_max_int_mem: "fold max xs (x::int) \<in> set (x # xs)"
  using Min_in [of "set (x # xs)"] Max_in [of "set (x # xs)"] unfolding Min.set_eq_fold Max.set_eq_fold by simp_all

lemma spread_le:
  "fold max xs (x::int) - fold min xs x \<le> c \<longleftrightarrow> (\<forall>a \<in> set (x # xs). \<forall>b \<in> set (x # xs). a - b \<le> c)"
proof -
  have "a \<le> fold max xs x" "fold min xs x \<le> a" if "a \<in> set (x # xs)" for a
    using that Max_ge [of "set (x # xs)" a] Min_le [of "set (x # xs)" a] unfolding Min.set_eq_fold Max.set_eq_fold by simp_all
  then show ?thesis using fold_min_int_mem [of xs x] fold_max_int_mem [of xs x] by (meson diff_mono order_trans)
qed

lemma detect_volume_drop_iff:
  assumes "metric_values m ''topic_messages_in_per_sec'' = map Fin vs" "metric_values m ''total_produce_requests_per_sec'' = map Fin ps"
  shows "detect_volume_drop sc m \<noteq> None \<longleftrightarrow> (\<exists>x \<in> set vs. 50 \<le> x) \<and> (\<exists>x \<in> set vs. x \<le> 1) \<and> (\<exists>x \<in> set ps. 150 \<le> x)"
proof (cases "vs = [] \<or> ps = []")
  case True
  with assms show ?thesis by (auto simp: detect_volume_drop_def split: list.splits)
next
  case False
  then obtain v vt p pt where l: "vs = v # vt" "ps = p # pt" by (meson neq_Nil_conv)
  have "detect_volume_drop sc m \<noteq> None \<longleftrightarrow>
      \<not> fold max vt v < 50 \<and> \<not> fold max pt p < 150 \<and> \<not> 1 < fold min vt v"
    by (simp add: detect_volume_drop_def assms l py_max_fin py_min_fin Let_def)
  also have "\<dots> \<longleftrightarrow> 50 \<le> fold max vt v \<and> fold min vt v \<le> 1 \<and> 150 \<le> fold max pt p" by auto
  finally show ?thesis by (simp only: fold_max_ge fold_min_le l)
qed

lemma detect_lag_iff:
  assumes "metric_values m ''consumer_group_lag'' = map (\<lambda>n. Fin (of_int n)) ls"
    and "metric_values m ''consumer_group_offset'' = map (\<lambda>n. Fin (of_int n)) os"
    and "\<forall>n \<in> set ls \<union> set os. 0 \<le> n \<and> n < 2 ^ 53"
  shows "detect_consumer_lag_buildup sc m \<noteq> None \<longleftrightarrow> ls \<noteq> [] \<and> os \<noteq> [] \<and> (\<exists>l \<in> set ls. 100 \<le> l) \<and>
    25 \<le> (if length ls \<ge> 2 then last ls - hd ls else hd ls) \<and> (\<forall>a \<in> set os. \<forall>b \<in> set os. a - b \<le> 10)"
proof (cases "ls = [] \<or> os = []")
  case True
  with assms show ?thesis by (auto simp: detect_consumer_lag_buildup_def split: list.splits)
next
  case False
  then obtain l lt q qt where e: "ls = l # lt" "os = q # qt" by (meson neq_Nil_conv)
  have mx: "py_max (Fin (of_int x)) (map (\<lambda>n. Fin (of_int n)) xs) = Fin (of_int (fold max xs x))"
    and mn: "py_min (Fin (of_int x)) (map (\<lambda>n. Fin (of_int n)) xs) = Fin (of_int (fold min xs x))" for x :: int and xs
    using py_max_fin [of "of_int x" "map of_int xs"] py_min_fin [of "of_int x" "map of_int xs"]
    by (simp_all add: fold_max_int fold_min_int comp_def)
  let ?growth = "if length ls \<ge> 2 then last ls - hd ls else fold max lt l"
  have g: "fl_lt (if length ls \<ge> 2 then fl_sub (Fin (of_int (last ls))) (Fin (of_int l)) else Fin (of_int (fold max lt l))) (Fin 25)
      \<longleftrightarrow> ?growth < 25"
  proof -
    have "last ls < 2 ^ 53" "0 \<le> l" using assms(3) e last_in_set [of ls] by auto
    then show ?thesis using fl_sub_int_lt [of "last ls" l 25] e by simp
  qed
  have "fold max qt q \<in> set os" "fold min qt q \<in> set os" using fold_max_int_mem [of qt q] fold_min_int_mem [of qt q] e by simp_all
  then have "0 \<le> fold min qt q" "fold max qt q < 2 ^ 53" using assms(3) by auto
  moreover have "fold min qt q \<le> fold max qt q" using spread_le [of qt q "fold max qt q - fold min qt q"] by force
  ultimately have p: "fl_lt (Fin 10) (fl_sub (Fin (of_int (fold max qt q))) (Fin (of_int (fold min qt q))))
      \<longleftrightarrow> \<not> fold max qt q - fold min qt q \<le> 10"
    using fl_sub_int_gt [of "fold max qt q" "fold min qt q" 10] by (simp add: not_le)
  have "detect_consumer_lag_buildup sc m \<noteq> None \<longleftrightarrow> \<not> fold max lt l < 100 \<and> \<not> ?growth < 25 \<and> fold max qt q - fold min qt q \<le> 10"
    using g p e by (simp add: detect_consumer_lag_buildup_def assms(1,2) mx mn Let_def last_map split: if_splits)
  then show ?thesis using e by (cases lt) (simp_all add: spread_le fold_max_int_ge not_less le_max_iff_disj disj_commute disj_left_commute)
qed

lemma samples_scope: "samples rows sc k \<noteq> [] \<Longrightarrow> sc \<in> er_scope ` set rows"
  by (auto simp: samples_def filter_empty_conv)

lemma scope_has_rows:
  assumes "f \<in> set (compute_scope_findings sc (metrics_of (metrics_by_scope rows) sc))"
  shows "sc \<in> er_scope ` set rows"
proof (rule ccontr)
  assume "sc \<notin> er_scope ` set rows"
  then have "metric_values (metrics_of (metrics_by_scope rows) sc) k = []" for k
    using samples_scope [of rows sc k] by (auto simp: metrics_by_scope_values)
  with assms show False
    by (simp add: compute_scope_findings_def detect_consumer_lag_buildup_def detect_throughput_constrained_proxy_def detect_volume_drop_def)
qed

text \<open>A finding of a scope is among the uncached findings exactly when the detector fires on that scope's samples.\<close>

lemma uncached_finding_iff:
  assumes "af_scope f = sc"
  shows "f \<in> set (ar_findings (fst (detect_anomaly_findings enc dec cget cset rows None policy t))) \<longleftrightarrow>
    f \<in> set (compute_scope_findings sc (metrics_of (metrics_by_scope rows) sc))"
proof -
  have "af_scope g = s" if "g \<in> set (compute_scope_findings s m)" for g s m
    using that by (auto simp: compute_scope_findings_set)
  note scope = this
  show ?thesis
  proof
    assume "f \<in> set (ar_findings (fst (detect_anomaly_findings enc dec cget cset rows None policy t)))"
    then obtain s where s: "f \<in> set (compute_scope_findings s (metrics_of (metrics_by_scope rows) s))"
      unfolding uncached_findings by (rule UN_E)
    then have "s = sc" using scope [OF s] assms by simp
    with s show "f \<in> set (compute_scope_findings sc (metrics_of (metrics_by_scope rows) sc))" by simp
  next
    assume "f \<in> set (compute_scope_findings sc (metrics_of (metrics_by_scope rows) sc))"
    then show "f \<in> set (ar_findings (fst (detect_anomaly_findings enc dec cget cset rows None policy t)))"
      unfolding uncached_findings using scope_has_rows by (intro UN_I)
  qed
qed

text \<open>Detected findings pass the validators of \<open>AnomalyFinding\<close> and of the gate's \<open>Finding\<close> unchanged.\<close>

lemma detected_findings_valid:
  assumes "f \<in> set (compute_scope_findings sc m)"
  shows "validate_anomaly_finding f = Inr f" "validate_finding (to_gate_finding f) = Inr (to_gate_finding f)"
proof -
  have "af_allowed f = []"
    using assms by (auto simp: compute_scope_findings_set lag_finding_def throughput_finding_def volume_drop_finding_def)
  then show "validate_anomaly_finding f = Inr f" "validate_finding (to_gate_finding f) = Inr (to_gate_finding f)"
    by (simp_all add: validate_anomaly_finding_def validate_finding_def to_gate_finding_def)
qed

text \<open>A cache that never produces an entry changes nothing.\<close>

lemma detect_cached_miss:
  assumes "\<And>sc m r. fst (step sc m r) = compute_scope_findings sc m"
  shows "fst (detect_cached step items r) = concat (map (\<lambda>(sc, m). compute_scope_findings sc m) items)"
proof (induction items arbitrary: r)
  case (Cons it items)
  then show ?case using assms by (cases it) (auto simp: Let_def split: prod.splits, metis fst_conv)
qed simp

lemma get_miss:
  assumes "\<And>r k. (case fst (cget r k) of Inl _ \<Rightarrow> True | Inr v \<Rightarrow> v = None)"
  shows "(case fst (get_interval_findings dec cget sc t n r) of Inr c \<Rightarrow> c | Inl _ \<Rightarrow> None) = None"
proof -
  have g: "\<exists>e r'. cget r k = (Inl e, r') \<or> cget r k = (Inr None, r')" for r k
    using assms [of r k] by (cases "cget r k") (auto split: sum.splits)
  show ?thesis
  proof (cases "build_interval_findings_cache_key sc t n")
    case (Inr k)
    obtain e r1 where r1: "cget r k = (Inl e, r1) \<or> cget r k = (Inr None, r1)" using g by blast
    show ?thesis
    proof (cases "build_legacy_interval_findings_cache_key sc t n")
      case (Inr k')
      obtain e' r2 where "cget r1 k' = (Inl e', r2) \<or> cget r1 k' = (Inr None, r2)" using g by blast
      with r1 Inr \<open>build_interval_findings_cache_key sc t n = Inr k\<close> show ?thesis by (auto simp: get_interval_findings_def)
    qed (use r1 Inr in \<open>auto simp: get_interval_findings_def\<close>)
  qed (simp add: get_interval_findings_def)
qed

text \<open>Samples of one cycle, for the witnesses: a group that lags and a topic whose traffic vanished.\<close>

lemma sample_rows_values:
  "samples sample_rows [''prod'', ''c1'', ''g'', ''orders''] ''consumer_group_lag'' = map (\<lambda>n. Fin (of_int n)) [100, 160]"
  "samples sample_rows [''prod'', ''c1'', ''g'', ''orders''] ''consumer_group_offset'' = map (\<lambda>n. Fin (of_int n)) [7, 9]"
  "samples sample_rows [''prod'', ''c1'', ''orders''] ''topic_messages_in_per_sec'' = [Fin 80, Fin 0]"
  "samples sample_rows [''prod'', ''c1'', ''orders''] ''total_produce_requests_per_sec'' = [Fin 200]"
  by (simp_all add: samples_def sample_rows_def)

section \<open>Properties\<close>

text \<open>Exactness of the volume-drop detector on finite samples: a scope gets the finding exactly when its message
  rate was at least 50 in some sample and at most 1 in some sample, while some produce rate was at least 150. The
  order of the samples does not matter.\<close>

theorem volume_drop_detected_iff:
  assumes "\<forall>r \<in> set rows. fl_finite (er_value r)"
  shows "volume_drop_finding sc \<in> set (ar_findings (fst (detect_anomaly_findings enc dec cget cset rows None policy t))) \<longleftrightarrow>
    (\<exists>x. Fin x \<in> set (samples rows sc ''topic_messages_in_per_sec'') \<and> 50 \<le> x) \<and>
    (\<exists>x. Fin x \<in> set (samples rows sc ''topic_messages_in_per_sec'') \<and> x \<le> 1) \<and>
    (\<exists>x. Fin x \<in> set (samples rows sc ''total_produce_requests_per_sec'') \<and> 150 \<le> x)"
proof -
  let ?m = "metrics_of (metrics_by_scope rows) sc"
  have "\<forall>v \<in> set (samples rows sc k). fl_finite v" for k using assms by (auto simp: samples_def)
  then obtain vs ps where "samples rows sc ''topic_messages_in_per_sec'' = map Fin vs"
      "samples rows sc ''total_produce_requests_per_sec'' = map Fin ps" by (metis finite_samples)
  with detect_volume_drop_iff [of ?m vs ps sc] show ?thesis
    unfolding uncached_finding_iff [of "volume_drop_finding sc" sc, OF finding_scope(3)] in_compute_scope_findings
    by (simp add: metrics_by_scope_values image_iff) blast
qed

theorem volume_drop_detected_iff_witness:
  "volume_drop_finding [''prod'', ''c1'', ''orders''] \<in>
     set (ar_findings (fst (detect_anomaly_findings (\<lambda>_. []) (\<lambda>_. Inr []) up_get up_set sample_rows None None None)))"
proof -
  have "\<forall>r \<in> set sample_rows. fl_finite (er_value r)" by (simp add: sample_rows_def)
  show ?thesis
    by (rule iffD2 [OF volume_drop_detected_iff [OF \<open>\<forall>r \<in> set sample_rows. fl_finite (er_value r)\<close>]])
      (simp add: sample_rows_values, rule conjI, rule exI [of _ 80], simp, rule exI [of _ 0], simp)
qed

text \<open>Exactness of the lag detector on non-negative integer lags and offsets below \<open>2 ^ 53\<close>: a consumer group gets the
  finding exactly when both series are present, some lag is at least 100, the lag grew by at least 25 from first to last
  sample (a single sample counts as its growth), and no two offsets are more than 10 apart.\<close>

theorem consumer_lag_detected_iff:
  assumes "samples rows sc ''consumer_group_lag'' = map (\<lambda>n. Fin (of_int n)) ls"
    and "samples rows sc ''consumer_group_offset'' = map (\<lambda>n. Fin (of_int n)) os"
    and "\<forall>n \<in> set ls \<union> set os. 0 \<le> n \<and> n < 2 ^ 53"
  shows "lag_finding sc \<in> set (ar_findings (fst (detect_anomaly_findings enc dec cget cset rows None policy t))) \<longleftrightarrow>
    ls \<noteq> [] \<and> os \<noteq> [] \<and> (\<exists>l \<in> set ls. 100 \<le> l) \<and>
    25 \<le> (if length ls \<ge> 2 then last ls - hd ls else hd ls) \<and> (\<forall>a \<in> set os. \<forall>b \<in> set os. a - b \<le> 10)"
proof -
  let ?m = "metrics_of (metrics_by_scope rows) sc"
  have "detect_consumer_lag_buildup sc ?m \<noteq> None \<longleftrightarrow> ls \<noteq> [] \<and> os \<noteq> [] \<and> (\<exists>l \<in> set ls. 100 \<le> l) \<and>
      25 \<le> (if length ls \<ge> 2 then last ls - hd ls else hd ls) \<and> (\<forall>a \<in> set os. \<forall>b \<in> set os. a - b \<le> 10)"
    by (rule detect_lag_iff) (use assms in \<open>simp_all add: metrics_by_scope_values\<close>)
  then show ?thesis
    unfolding uncached_finding_iff [of "lag_finding sc" sc, OF finding_scope(1)] in_compute_scope_findings .
qed

theorem consumer_lag_detected_iff_witness:
  "lag_finding [''prod'', ''c1'', ''g'', ''orders''] \<in>
     set (ar_findings (fst (detect_anomaly_findings (\<lambda>_. []) (\<lambda>_. Inr []) up_get up_set sample_rows None None None)))"
  using consumer_lag_detected_iff [OF sample_rows_values(1,2)] by simp

text \<open>Cache failures do not change what is detected: if every read of the findings cache raises or misses, the stage
  returns exactly the findings it computes without a cache, whatever the writes do.\<close>

theorem findings_cache_failure_transparent:
  assumes "\<And>r k. (case fst (cget r k) of Inl _ \<Rightarrow> True | Inr v \<Rightarrow> v = None)"
  shows "fst (detect_anomaly_findings enc dec cget cset rows (Some r) policy t) =
    fst (detect_anomaly_findings enc dec cget cset rows None policy t)"
proof (cases "policy = None \<or> t = None")
  case True
  then show ?thesis by (auto simp: detect_anomaly_findings_def Let_def split: option.splits)
next
  case False
  then obtain p u where pu: "policy = Some p" "t = Some u" by (cases policy; cases t) auto
  let ?step = "\<lambda>sc m r. get_or_compute_interval_findings enc dec cget cset sc u p (compute_scope_findings sc m) 300 r"
  have "fst (?step sc m r) = compute_scope_findings sc m" for sc m r
    using get_miss [of cget dec sc u 300 r, OF assms]
    by (cases "get_interval_findings dec cget sc u 300 r") (simp add: get_or_compute_interval_findings_def)
  from detect_cached_miss [of ?step "sort_key fst (metrics_by_scope rows)" r, OF this] show ?thesis
    by (cases "detect_cached ?step (sort_key fst (metrics_by_scope rows)) r") (simp add: detect_anomaly_findings_def pu)
qed

theorem findings_cache_failure_transparent_witness:
  "fst (detect_anomaly_findings (\<lambda>_. []) (\<lambda>_. Inr []) (\<lambda>r k. (raise OtherException ''down'', r)) up_set sample_rows
     (Some \<lparr>cs_now = 0, cs_entries = [], cs_up = False\<rparr>) None None) =
   fst (detect_anomaly_findings (\<lambda>_. []) (\<lambda>_. Inr []) (\<lambda>r k. (raise OtherException ''down'', r)) up_set sample_rows None None None)"
  by (rule findings_cache_failure_transparent) (simp add: raise_def)



end
