(* ===== verification/Evidence.thy ===== *)
theory Evidence
  imports Anomaly Alerts
begin

text \<open>
  Stage 1: collection and normalisation of Prometheus samples (\<open>pipeline/stages/evidence.py\<close>, the
  label normalisation of \<open>integrations/prometheus.py\<close>) and the scheduler's evidence cycle, which turns a total
  outage into a degraded-telemetry event and an action cap (\<open>run_evidence_stage_cycle\<close>). The Prometheus client
  is a parameter: what each query returned or raised, as \<open>query_outcome\<close>. \<open>fos\<close> is \<open>float()\<close> of a
  string. Metrics, logging and latency alerts are left out.
\<close>

section \<open>Rows\<close>

record raw_sample =
  rs_labels :: "(string, string) pydict option"
  rs_value :: "jval option"

definition normalize_labels :: "(string, string) pydict \<Rightarrow> (string, string) pydict result" where
  "normalize_labels labels = (case dict_get labels ''cluster_name'' of
       None \<Rightarrow> raise ValueError ''Prometheus label cluster_name is required for cluster_id normalization''
     | Some cluster_name \<Rightarrow> Inr (dict_set labels ''cluster_id'' cluster_name))"

definition lag_metric_keys :: "string list" where
  "lag_metric_keys = [''consumer_group_lag'', ''consumer_group_offset'']"

definition identity_ignore_labels :: "string list" where
  "identity_ignore_labels = [''instance'', ''job'', ''nodes_group'', ''client_id'', ''consumer_id'', ''member_host'', ''partition'']"

definition build_evidence_scope_key :: "(string, string) pydict \<Rightarrow> string \<Rightarrow> scope result" where
  "build_evidence_scope_key labels metric_key =
     rbind (normalize_labels labels) (\<lambda>normalized.
     case dict_get normalized ''env'' of
       None \<Rightarrow> raise ValueError ''Required label env missing for metric''
     | Some env \<Rightarrow>
     (case dict_get normalized ''cluster_id'' of
       None \<Rightarrow> raise KeyError ''cluster_id''
     | Some cluster_id \<Rightarrow>
         if metric_key \<in> set lag_metric_keys then
           (case (dict_get normalized ''group'', dict_get normalized ''topic'') of
              (Some g, Some topic) \<Rightarrow> Inr [env, cluster_id, g, topic]
            | _ \<Rightarrow> raise ValueError ''Required labels group and topic missing for lag metric'')
         else
           (case dict_get normalized ''topic'' of
              None \<Rightarrow> raise ValueError ''Required label topic missing for metric''
            | Some topic \<Rightarrow> Inr [env, cluster_id, topic])))"

definition py_float :: "(string \<Rightarrow> pyfloat option) \<Rightarrow> jval \<Rightarrow> pyfloat result" where
  "py_float fos v = (case v of
       JFloat f \<Rightarrow> Inr f
     | JInt n \<Rightarrow> fl_of_int n
     | JBool b \<Rightarrow> Inr (Fin (if b then 1 else 0))
     | JStr s \<Rightarrow> (case fos s of Some f \<Rightarrow> Inr f | None \<Rightarrow> raise ValueError ''could not convert string to float'')
     | _ \<Rightarrow> raise TypeError ''float() argument must be a string or a real number'')"

definition normalize_row :: "(string \<Rightarrow> pyfloat option) \<Rightarrow> string \<Rightarrow> raw_sample \<Rightarrow> evidence_row result" where
  "normalize_row fos metric_key s =
     rbind (case rs_labels s of None \<Rightarrow> raise KeyError ''labels'' | Some l \<Rightarrow> normalize_labels l) (\<lambda>normalized_raw.
     rbind (case rs_value s of None \<Rightarrow> raise KeyError ''value'' | Some v \<Rightarrow> py_float fos v) (\<lambda>value.
     rbind (build_evidence_scope_key normalized_raw metric_key) (\<lambda>sc.
     Inr \<lparr>er_metric_key = metric_key, er_value = value,
          er_labels = filter (\<lambda>(k, v). k \<notin> set identity_ignore_labels) normalized_raw, er_scope = sc\<rparr>)))"

text \<open>A sample whose normalisation raises ValueError or KeyError is skipped; other exceptions propagate.\<close>

fun collect_metric_rows ::
  "(string \<Rightarrow> pyfloat option) \<Rightarrow> string \<Rightarrow> raw_sample list \<Rightarrow> evidence_row list result" where
  "collect_metric_rows fos metric_key [] = Inr []"
| "collect_metric_rows fos metric_key (s # ss) = (case normalize_row fos metric_key s of
       Inr row \<Rightarrow> rbind (collect_metric_rows fos metric_key ss) (\<lambda>rows. Inr (row # rows))
     | Inl e \<Rightarrow> if exc_type e \<in> {ValueError, KeyError} then collect_metric_rows fos metric_key ss else Inl e)"

fun collect_evidence_rows ::
  "(string \<Rightarrow> pyfloat option) \<Rightarrow> (string, raw_sample list) pydict \<Rightarrow> evidence_row list result" where
  "collect_evidence_rows fos [] = Inr []"
| "collect_evidence_rows fos ((metric_key, ss) # rest) =
     rbind (collect_metric_rows fos metric_key ss) (\<lambda>rows.
     rbind (collect_evidence_rows fos rest) (\<lambda>more. Inr (rows @ more)))"

section \<open>Status maps and stage output\<close>

definition present_metrics_by_scope :: "evidence_row list \<Rightarrow> (scope, string list) pydict" where
  "present_metrics_by_scope rows = fold (\<lambda>row d. dd_append d (er_scope row) (er_metric_key row)) rows []"

definition build_evidence_status_map_by_scope :: "string list \<Rightarrow> evidence_row list \<Rightarrow> (scope, status_map) pydict" where
  "build_evidence_status_map_by_scope metric_keys rows =
     map (\<lambda>(sc, present). (sc, map (\<lambda>k. (k, if k \<in> set present then PRESENT else UNKNOWN)) metric_keys))
       (sort_key fst (present_metrics_by_scope rows))"

definition collect_evidence_stage_output ::
  "(string \<Rightarrow> pyfloat option) \<Rightarrow> (anomaly_finding list \<Rightarrow> string) \<Rightarrow> (string \<Rightarrow> anomaly_finding list result) \<Rightarrow>
   'r cache_get \<Rightarrow> 'r cache_set \<Rightarrow> (string, raw_sample list) pydict \<Rightarrow> 'r option \<Rightarrow> redis_ttl_policy option \<Rightarrow>
   instant option \<Rightarrow> bool \<Rightarrow> telemetry_degraded_event list \<Rightarrow> action option \<Rightarrow>
   evidence_stage_output result \<times> 'r option" where
  "collect_evidence_stage_output fos enc dec cget cset samples_by_metric client policy evaluation_time degraded events max_safe =
     (case collect_evidence_rows fos samples_by_metric of
        Inl e \<Rightarrow> (Inl e, client)
      | Inr rows \<Rightarrow>
          let (anomalies, client') = detect_anomaly_findings enc dec cget cset rows client policy evaluation_time
          in (Inr \<lparr>eo_rows = rows, eo_anomaly_result = anomalies,
                   eo_gate_findings_by_scope = build_gate_findings_by_scope anomalies,
                   eo_evidence_status_map_by_scope = build_evidence_status_map_by_scope (map fst samples_by_metric) rows,
                   eo_telemetry_degraded_active = degraded, eo_telemetry_degraded_events = events,
                   eo_max_safe_action = max_safe\<rparr>, client'))"

section \<open>Collection with outage diagnostics\<close>

datatype query_outcome =
    Samples "raw_sample list"
  | Source_failure string string  \<comment> \<open>URLError, TimeoutError or OSError: class name and message\<close>
  | Value_failure string string  \<comment> \<open>ValueError or a subclass: class name and message\<close>
  | Other_failure py_exc

record metric_query =
  mq_metric_name :: string
  mq_role :: string

record collection_diagnostics =
  cd_samples_by_metric :: "(string, raw_sample list) pydict"
  cd_failed_metric_keys :: "string list"
  cd_is_total_outage :: bool
  cd_outage_reason :: "string option"

definition is_prometheus_non_success_api_error :: "string \<Rightarrow> bool" where
  "is_prometheus_non_success_api_error message = py_startswith message ''Prometheus query failed for ''"

text \<open>One query: the samples to record and, for a source failure, its reason.\<close>

definition classify_query :: "query_outcome \<Rightarrow> (raw_sample list \<times> string option) result" where
  "classify_query q = (case q of
       Samples ss \<Rightarrow> Inr (ss, None)
     | Source_failure name msg \<Rightarrow> Inr ([], Some (name @ '': '' @ msg))
     | Value_failure name msg \<Rightarrow>
         Inr ([], if is_prometheus_non_success_api_error msg then Some (name @ '': '' @ msg) else None)
     | Other_failure e \<Rightarrow> Inl e)"

fun collect_queries ::
  "(string \<Rightarrow> query_outcome) \<Rightarrow> (string, metric_query) pydict \<Rightarrow>
   ((string, raw_sample list) pydict \<times> (string \<times> string) list) result" where
  "collect_queries query_instant [] = Inr ([], [])"
| "collect_queries query_instant ((key, q) # rest) =
     rbind (classify_query (query_instant (mq_metric_name q))) (\<lambda>(ss, failure).
     rbind (collect_queries query_instant rest) (\<lambda>(collected, failed).
     Inr ((key, ss) # collected, (case failure of None \<Rightarrow> [] | Some r \<Rightarrow> [(key, r)]) @ failed)))"

definition collect_prometheus_samples_with_diagnostics ::
  "(string \<Rightarrow> query_outcome) \<Rightarrow> (string, metric_query) pydict \<Rightarrow> collection_diagnostics result" where
  "collect_prometheus_samples_with_diagnostics query_instant queries =
     rbind (collect_queries query_instant queries) (\<lambda>(collected, failed).
     let total = (queries \<noteq> [] \<and> length failed = length queries)
     in Inr \<lparr>cd_samples_by_metric = collected, cd_failed_metric_keys = map fst failed, cd_is_total_outage = total,
             cd_outage_reason =
               (case failed of
                  (key, reason) # _ \<Rightarrow>
                    if total
                    then Some (''Prometheus source unavailable across all '' @ py_str_int (int (length queries)) @
                               '' configured metrics; first failure ['' @ key @ '']: '' @ reason)
                    else None
                | [] \<Rightarrow> None)\<rparr>)"

definition collect_prometheus_samples ::
  "(string \<Rightarrow> query_outcome) \<Rightarrow> (string, metric_query) pydict \<Rightarrow> (string, raw_sample list) pydict result" where
  "collect_prometheus_samples query_instant queries =
     rbind (collect_prometheus_samples_with_diagnostics query_instant queries) (\<lambda>d. Inr (cd_samples_by_metric d))"

section \<open>The evidence cycle\<close>

record evidence_world =
  ew_health :: health_registry
  ew_alerts :: "alert_evaluator option"

definition outage_event :: "string option \<Rightarrow> instant \<Rightarrow> telemetry_degraded_event" where
  "outage_event reason t = \<lparr>te_affected_scope = ''prometheus'',
     te_reason = (case reason of Some r \<Rightarrow> (if r = [] then ''Prometheus source unavailable across the full query set'' else r)
                  | None \<Rightarrow> ''Prometheus source unavailable across the full query set''),
     te_recovery_status = ''pending'', te_severity = ''warning'', te_timestamp = t\<rparr>"

definition recovery_event :: "instant \<Rightarrow> telemetry_degraded_event" where
  "recovery_event t = \<lparr>te_affected_scope = ''prometheus'',
     te_reason = ''Prometheus connectivity restored; resuming normal evaluation'',
     te_recovery_status = ''resolved'', te_severity = ''info'', te_timestamp = t\<rparr>"

text \<open>The alert evaluator records every cycle; an alert it builds is logged, an error it raises propagates.\<close>

definition record_outage :: "bool \<Rightarrow> evidence_world \<Rightarrow> unit result \<times> evidence_world" where
  "record_outage outage w = (case ew_alerts w of
       None \<Rightarrow> (Inr (), w)
     | Some av \<Rightarrow> (case record_prometheus_unavailability outage av of
         (r, av') \<Rightarrow> (rbind r (\<lambda>_. Inr ()), w\<lparr>ew_alerts := Some av'\<rparr>)))"

definition telemetry_transition ::
  "instant \<Rightarrow> collection_diagnostics \<Rightarrow> instant \<Rightarrow> evidence_world \<Rightarrow> telemetry_degraded_event list result \<times> evidence_world" where
  "telemetry_transition clock d t w =
     (let previous = health_get (ew_health w) ''prometheus''
      in if cd_is_total_outage d then
           (let (events, w1) =
              (if previous \<noteq> Some UNAVAILABLE
               then ([outage_event (cd_outage_reason d) t],
                     w\<lparr>ew_health := health_update clock ''prometheus'' UNAVAILABLE (cd_outage_reason d) (ew_health w)\<rparr>)
               else ([], w))
            in st_bind (record_outage True w1) (\<lambda>_ w2. (Inr events, w2)))
         else if previous = Some UNAVAILABLE then
           st_bind (record_outage False (w\<lparr>ew_health := health_update clock ''prometheus'' HEALTHY None (ew_health w)\<rparr>))
             (\<lambda>_ w2. (Inr [recovery_event t], w2))
         else st_bind (record_outage False w) (\<lambda>_ w2. (Inr [], w2)))"

definition run_evidence_stage_cycle ::
  "(string \<Rightarrow> pyfloat option) \<Rightarrow> (anomaly_finding list \<Rightarrow> string) \<Rightarrow> (string \<Rightarrow> anomaly_finding list result) \<Rightarrow>
   'r cache_get \<Rightarrow> 'r cache_set \<Rightarrow> instant \<Rightarrow> (string \<Rightarrow> query_outcome) \<Rightarrow> (string, metric_query) pydict \<Rightarrow> instant \<Rightarrow>
   redis_ttl_policy option \<Rightarrow> 'r option \<Rightarrow> evidence_world \<Rightarrow> evidence_stage_output result \<times> 'r option \<times> evidence_world" where
  "run_evidence_stage_cycle fos enc dec cget cset clock query_instant queries t policy client w =
     (case collect_prometheus_samples_with_diagnostics query_instant queries of
        Inl e \<Rightarrow> (Inl e, client, w)
      | Inr d \<Rightarrow>
          (case telemetry_transition clock d t w of
             (Inl e, w1) \<Rightarrow> (Inl e, client, w1)
           | (Inr events, w1) \<Rightarrow>
               (case collect_evidence_stage_output fos enc dec cget cset (cd_samples_by_metric d) client policy (Some t)
                       (cd_is_total_outage d) events (if cd_is_total_outage d then Some NOTIFY else None) of
                  (res, client') \<Rightarrow> (res, client', w1))))"

text \<open>
  Specification side: the shape of scopes by metric and by anomaly family, and the edges of a sequence of outage
  flags, each with the recovery status of the event it calls for.
\<close>

definition row_typed :: "evidence_row \<Rightarrow> bool" where
  "row_typed r = (length (er_scope r) = (if er_metric_key r \<in> set lag_metric_keys then 4 else 3))"

definition finding_typed :: "anomaly_finding \<Rightarrow> bool" where
  "finding_typed f = (length (af_scope f) = (if af_anomaly_family f = CONSUMER_LAG then 4 else 3))"

fun outage_edges :: "bool \<Rightarrow> bool list \<Rightarrow> string list" where
  "outage_edges previous [] = []"
| "outage_edges previous (b # bs) =
     (if b \<and> \<not> previous then [''pending''] else if \<not> b \<and> previous then [''resolved''] else []) @ outage_edges b bs"

fun telemetry_cycles ::
  "(instant \<times> collection_diagnostics \<times> instant) list \<Rightarrow> evidence_world \<Rightarrow> telemetry_degraded_event list result" where
  "telemetry_cycles [] w = Inr []"
| "telemetry_cycles ((clock, d, t) # cs) w = (case telemetry_transition clock d t w of
       (Inl e, _) \<Rightarrow> Inl e
     | (Inr events, w') \<Rightarrow> rbind (telemetry_cycles cs w') (\<lambda>more. Inr (events @ more)))"

text \<open>An outage of two cycles and its recovery, for the witnesses.\<close>

definition sample_diagnostics :: "bool \<Rightarrow> collection_diagnostics" where
  "sample_diagnostics outage = \<lparr>cd_samples_by_metric = [], cd_failed_metric_keys = [], cd_is_total_outage = outage,
     cd_outage_reason = None\<rparr>"

definition sample_samples :: "(string, raw_sample list) pydict" where
  "sample_samples =
     (let labels = [(''env'', ''prod''), (''cluster_name'', ''c1''), (''group'', ''g''), (''topic'', ''orders''), (''partition'', ''3'')]
      in [(''consumer_group_lag'', [\<lparr>rs_labels = Some labels, rs_value = Some (JFloat (Fin 500))\<rparr>, \<lparr>rs_labels = None, rs_value = None\<rparr>]),
          (''consumer_group_offset'', [\<lparr>rs_labels = Some labels, rs_value = Some (JFloat (Fin 7))\<rparr>])])"

section \<open>Lemmas\<close>

lemma build_scope_shape:
  assumes "build_evidence_scope_key labels k = Inr sc"
  shows "length sc = (if k \<in> set lag_metric_keys then 4 else 3)"
  using assms by (auto simp: build_evidence_scope_key_def split: option.splits if_splits elim!: rbind_InrE)

lemma normalize_row_ok:
  assumes "normalize_row fos k s = Inr row"
  shows "er_metric_key row = k" "row_typed row"
  using assms by (auto simp: normalize_row_def row_typed_def dest: build_scope_shape elim!: rbind_InrE)

lemma collect_metric_rows_ok:
  assumes "collect_metric_rows fos k ss = Inr rows" "row \<in> set rows"
  shows "er_metric_key row = k \<and> row_typed row"
  using assms
proof (induction ss arbitrary: rows)
  case (Cons s ss)
  show ?case
  proof (cases "normalize_row fos k s")
    case (Inl e)
    with Cons show ?thesis by (auto split: if_splits)
  next
    case (Inr r)
    with Cons.prems Cons.IH normalize_row_ok [OF Inr] show ?thesis by (auto elim!: rbind_InrE)
  qed
qed simp

lemma collect_evidence_rows_ok:
  assumes "collect_evidence_rows fos samples_by_metric = Inr rows" "row \<in> set rows"
  shows "er_metric_key row \<in> fst ` set samples_by_metric \<and> row_typed row"
  using assms
proof (induction samples_by_metric arbitrary: rows)
  case (Cons it items)
  obtain k ss where it: "it = (k, ss)" by fastforce
  from Cons.prems(1) it obtain rows1 rows2 where r: "collect_metric_rows fos k ss = Inr rows1"
    "collect_evidence_rows fos items = Inr rows2" "rows = rows1 @ rows2" by (auto elim!: rbind_InrE)
  from Cons.prems(2) r(3) consider "row \<in> set rows1" | "row \<in> set rows2" by auto
  then show ?case
  proof cases
    case 1 with collect_metric_rows_ok [OF r(1)] it show ?thesis by auto
  next
    case 2 with Cons.IH [OF r(2)] show ?thesis by auto
  qed
qed simp

lemma collect_metric_rows_empty [simp]: "collect_evidence_rows fos (map (\<lambda>k. (k, [])) ks) = Inr []"
  by (induction ks) auto

lemma present_metrics_get:
  "dict_get (present_metrics_by_scope rows) sc =
     (let ks = map er_metric_key (filter (\<lambda>r. er_scope r = sc) rows) in if ks = [] then None else Some ks)"
  unfolding present_metrics_by_scope_def using fold_dd_append_get [of er_scope er_metric_key rows "[]" sc] by (simp add: Let_def)

lemma present_metrics_wf: "dict_wf (present_metrics_by_scope rows)"
  unfolding present_metrics_by_scope_def by (rule fold_dd_append_wf) simp

lemma map_of_map_snd: "map_of (map (\<lambda>(k, v). (k, f v)) xs) k = map_option f (map_of xs k)"
  by (induction xs) auto

lemma sort_key_get: "dict_wf d \<Longrightarrow> dict_get (sort_key fst d) k = dict_get d k"
  unfolding dict_wf_def by (subst map_of_inject_set [of "sort_key fst d" d, THEN iffD2]) (auto simp: distinct_map)

lemma status_map_get:
  "dict_get (build_evidence_status_map_by_scope ks rows) sc =
     (if \<exists>r \<in> set rows. er_scope r = sc
      then Some (map (\<lambda>k. (k, if \<exists>r \<in> set rows. er_scope r = sc \<and> er_metric_key r = k then PRESENT else UNKNOWN)) ks)
      else None)"
proof -
  have "dict_get (build_evidence_status_map_by_scope ks rows) sc =
      map_option (\<lambda>present. map (\<lambda>k. (k, if k \<in> set present then PRESENT else UNKNOWN)) ks)
        (dict_get (present_metrics_by_scope rows) sc)"
    unfolding build_evidence_status_map_by_scope_def map_of_map_snd sort_key_get [OF present_metrics_wf] ..
  then show ?thesis by (auto simp: present_metrics_get Let_def filter_empty_conv image_iff)
qed

text \<open>Detected findings have the shape of their family, and a cache that holds such findings keeps it so.\<close>

lemma detected_finding_typed:
  assumes "\<forall>r \<in> set rows. row_typed r" "f \<in> set (compute_scope_findings sc (metrics_of (metrics_by_scope rows) sc))"
  shows "finding_typed f"
proof -
  have len: "samples rows sc k \<noteq> [] \<Longrightarrow> length sc = (if k \<in> set lag_metric_keys then 4 else 3)" for k
    using assms(1) by (auto simp: samples_def filter_empty_conv row_typed_def)
  from assms(2) consider "f = lag_finding sc" "detect_consumer_lag_buildup sc (metrics_of (metrics_by_scope rows) sc) \<noteq> None"
    | "f = throughput_finding sc" "detect_throughput_constrained_proxy sc (metrics_of (metrics_by_scope rows) sc) \<noteq> None"
    | "f = volume_drop_finding sc" "detect_volume_drop sc (metrics_of (metrics_by_scope rows) sc) \<noteq> None"
    by (auto simp: compute_scope_findings_set)
  then show ?thesis
  proof cases
    case 1
    then have "samples rows sc ''consumer_group_lag'' \<noteq> []"
      by (auto simp: detect_consumer_lag_buildup_def metrics_by_scope_values)
    from len [OF this] 1 show ?thesis by (simp add: finding_typed_def lag_finding_def lag_metric_keys_def)
  next
    case 2
    then have "samples rows sc ''topic_messages_in_per_sec'' \<noteq> []"
      by (auto simp: detect_throughput_constrained_proxy_def metrics_by_scope_values)
    from len [OF this] 2 show ?thesis by (simp add: finding_typed_def throughput_finding_def lag_metric_keys_def)
  next
    case 3
    then have "samples rows sc ''topic_messages_in_per_sec'' \<noteq> []"
      by (auto simp: detect_volume_drop_def metrics_by_scope_values)
    from len [OF this] 3 show ?thesis by (simp add: finding_typed_def volume_drop_finding_def lag_metric_keys_def)
  qed
qed

lemma get_or_compute_all:
  assumes "\<And>payload fs. dec payload = Inr fs \<Longrightarrow> list_all P fs" "list_all P computed"
  shows "list_all P (fst (get_or_compute_interval_findings enc dec cget cset sc t policy computed n r))"
proof -
  obtain res r1 where g: "get_interval_findings dec cget sc t n r = (res, r1)" by fastforce
  have "list_all P fs" if "res = Inr (Some fs)" for fs
  proof -
    from g that have "\<exists>payload. dec payload = Inr fs"
      by (auto simp: get_interval_findings_def st_bind_def split: prod.splits sum.splits option.splits elim!: rbind_InrE)
    then show ?thesis using assms(1) by blast
  qed
  then show ?thesis using g assms(2)
    by (auto simp: get_or_compute_interval_findings_def split: sum.splits option.splits)
qed

lemma detect_cached_all:
  assumes "\<And>sc m r. (sc, m) \<in> set items \<Longrightarrow> list_all P (fst (step sc m r))"
  shows "list_all P (fst (detect_cached step items r))"
  using assms
proof (induction items arbitrary: r)
  case (Cons it items)
  obtain sc m where it: "it = (sc, m)" by fastforce
  obtain fs r1 where s: "step sc m r = (fs, r1)" by fastforce
  have "list_all P fs" using Cons.prems [of sc m r] it s by simp
  moreover have "list_all P (fst (detect_cached step items r1))" using Cons by simp
  ultimately show ?case by (simp add: it s split_beta)
qed simp

lemma detect_findings_typed:
  assumes "\<forall>r \<in> set rows. row_typed r" "\<And>payload fs. dec payload = Inr fs \<Longrightarrow> list_all finding_typed fs"
  shows "list_all finding_typed (ar_findings (fst (detect_anomaly_findings enc dec cget cset rows client policy t)))"
proof -
  have m: "list_all finding_typed (compute_scope_findings sc m)" if "(sc, m) \<in> set (sort_key fst (metrics_by_scope rows))" for sc m
    using that detected_finding_typed [OF assms(1)] by (auto simp: metrics_by_scope_entry list_all_iff)
  show ?thesis
  proof (cases "\<exists>r p u. client = Some r \<and> policy = Some p \<and> t = Some u")
    case True
    then obtain r p u where e: "client = Some r" "policy = Some p" "t = Some u" by blast
    let ?step = "\<lambda>sc m r. get_or_compute_interval_findings enc dec cget cset sc u p (compute_scope_findings sc m) 300 r"
    have "list_all finding_typed (fst (detect_cached ?step (sort_key fst (metrics_by_scope rows)) r))"
      by (rule detect_cached_all) (rule get_or_compute_all [OF assms(2) m])
    then show ?thesis
      by (simp add: detect_anomaly_findings_def e mk_anomaly_detection_result_def split_beta Let_def)
  next
    case False
    then have "ar_findings (fst (detect_anomaly_findings enc dec cget cset rows client policy t)) =
        concat (map (\<lambda>(sc, m). compute_scope_findings sc m) (sort_key fst (metrics_by_scope rows)))"
      by (cases client; cases policy; cases t) (auto simp: detect_anomaly_findings_def mk_anomaly_detection_result_def Let_def)
    then show ?thesis using m by (fastforce simp: list_all_iff)
  qed
qed

lemma collect_queries_failed:
  assumes "collect_queries query_instant queries = Inr (collected, failed)"
  shows "length failed \<le> length queries \<and> map fst collected = map fst queries \<and>
    (length failed = length queries \<longrightarrow> collected = map (\<lambda>k. (k, [])) (map fst queries))"
  using assms
proof (induction queries arbitrary: collected failed)
  case (Cons it qs)
  obtain k q where it: "it = (k, q)" by fastforce
  from Cons.prems it obtain ss failure c f where r: "classify_query (query_instant (mq_metric_name q)) = Inr (ss, failure)"
      "collect_queries query_instant qs = Inr (c, f)" "collected = (k, ss) # c"
      "failed = (case failure of None \<Rightarrow> [] | Some r \<Rightarrow> [(k, r)]) @ f"
    by (auto elim!: rbind_InrE)
  have "failure \<noteq> None \<Longrightarrow> ss = []"
    using r(1) by (auto simp: classify_query_def split: query_outcome.splits if_splits)
  with Cons.IH [OF r(2)] r(3,4) it show ?case by (auto split: option.splits)
qed simp

lemma diagnostics_outage:
  assumes "collect_prometheus_samples_with_diagnostics query_instant queries = Inr d" "cd_is_total_outage d"
  shows "\<exists>ks. cd_samples_by_metric d = map (\<lambda>k. (k, [])) ks"
proof -
  from assms(1) obtain collected failed where c: "collect_queries query_instant queries = Inr (collected, failed)"
    and d: "cd_samples_by_metric d = collected" "cd_is_total_outage d = (queries \<noteq> [] \<and> length failed = length queries)"
    by (auto simp: collect_prometheus_samples_with_diagnostics_def Let_def elim!: rbind_InrE)
  show ?thesis using collect_queries_failed [OF c] d assms(2) by blast
qed

lemma record_outage_health: "ew_health (snd (record_outage b w)) = ew_health w"
  by (simp add: record_outage_def split: option.splits prod.splits)

lemma telemetry_transition_step:
  assumes "telemetry_transition clock d t w = (Inr events, w')"
  shows "map te_recovery_status events @ rest =
      (let previous = (health_get (ew_health w) ''prometheus'' = Some UNAVAILABLE)
       in (if cd_is_total_outage d \<and> \<not> previous then [''pending'']
           else if \<not> cd_is_total_outage d \<and> previous then [''resolved''] else []) @ rest) \<and>
    (health_get (ew_health w') ''prometheus'' = Some UNAVAILABLE) = cd_is_total_outage d"
proof -
  have h: "ew_health w2 = ew_health v" if "record_outage b v = (r, w2)" for b v r w2
    using record_outage_health [of b v] that by simp
  show ?thesis using assms
    by (auto simp: telemetry_transition_def Let_def st_bind_def outage_event_def recovery_event_def
        split: if_splits prod.splits sum.splits dest!: h)
qed

section \<open>Properties\<close>

text \<open>Scope typing of the evidence stage. Every row of a lag metric is scoped by environment, cluster, group and topic, every other
  row by environment, cluster and topic; if the findings cache only holds findings of that shape, every finding of the
  stage is a lag finding of a four-part scope or another finding of a three-part scope; and the scopes with gate
  findings are the scopes of those findings. The shape errors of the later stages are therefore unreachable.\<close>

theorem evidence_stage_typing:
  assumes "collect_evidence_stage_output fos enc dec cget cset samples_by_metric client policy t degraded events cap = (Inr ev, client')"
    and "\<And>payload fs. dec payload = Inr fs \<Longrightarrow> list_all finding_typed fs"
  shows "(\<forall>r \<in> set (eo_rows ev). row_typed r) \<and> (\<forall>f \<in> set (ar_findings (eo_anomaly_result ev)). finding_typed f) \<and>
    fst ` set (eo_gate_findings_by_scope ev) = af_scope ` set (ar_findings (eo_anomaly_result ev)) \<and>
    (\<forall>sc \<in> fst ` set (eo_gate_findings_by_scope ev). length sc = 3 \<or> length sc = 4)"
proof -
  from assms(1) obtain rows where rows: "collect_evidence_rows fos samples_by_metric = Inr rows" "eo_rows ev = rows"
    and an: "eo_anomaly_result ev = fst (detect_anomaly_findings enc dec cget cset rows client policy t)"
    and gf: "eo_gate_findings_by_scope ev = build_gate_findings_by_scope (eo_anomaly_result ev)"
    by (auto simp: collect_evidence_stage_output_def split: sum.splits prod.splits)
  have typed: "\<forall>r \<in> set rows. row_typed r" using collect_evidence_rows_ok [OF rows(1)] by blast
  have f: "\<forall>f \<in> set (ar_findings (eo_anomaly_result ev)). finding_typed f"
    using detect_findings_typed [OF typed assms(2)] an by (simp add: list_all_iff)
  have "\<exists>fs. eo_anomaly_result ev = mk_anomaly_detection_result fs"
    unfolding an detect_anomaly_findings_def Let_def by (auto split: prod.splits option.splits)
  then obtain fs where fs: "eo_anomaly_result ev = mk_anomaly_detection_result fs" by blast
  have keys: "fst ` set (eo_gate_findings_by_scope ev) = af_scope ` set (ar_findings (eo_anomaly_result ev))"
    using group_findings_keys [of fs] by (simp add: gf build_gate_findings_by_scope_def fs mk_anomaly_detection_result_def image_image split_beta)
  then have "\<forall>sc \<in> fst ` set (eo_gate_findings_by_scope ev). length sc = 3 \<or> length sc = 4"
    using f by (auto simp: finding_typed_def split: if_splits)
  with f keys typed rows(2) show ?thesis by blast
qed

theorem evidence_stage_typing_witness:
  "\<exists>ev c. collect_evidence_stage_output (\<lambda>_. None) (\<lambda>_. []) (\<lambda>_. Inr []) up_get up_set sample_samples None None None False [] None = (Inr ev, c) \<and>
     (\<forall>f \<in> set (ar_findings (eo_anomaly_result ev)). finding_typed f)"
proof -
  have "is_ok (collect_evidence_rows (\<lambda>_. None) sample_samples)" by code_simp
  then obtain rows where "collect_evidence_rows (\<lambda>_. None) sample_samples = Inr rows" by (auto simp: is_ok_iff)
  then obtain ev c where e: "collect_evidence_stage_output (\<lambda>_. None) (\<lambda>_. []) (\<lambda>_. Inr []) up_get up_set sample_samples None None None False [] None = (Inr ev, c)"
    by (simp add: collect_evidence_stage_output_def split_beta)
  from evidence_stage_typing [OF e] e show ?thesis by fastforce
qed

text \<open>Evidence status maps are exact: a scope has a map exactly when it has a row, and for every queried metric the map says
  PRESENT if the scope has a row of that metric and UNKNOWN otherwise, never a missing entry read as zero.\<close>

theorem evidence_status_exact:
  "dict_get (build_evidence_status_map_by_scope metric_keys rows) sc =
     (if \<exists>r \<in> set rows. er_scope r = sc
      then Some (map (\<lambda>k. (k, if \<exists>r \<in> set rows. er_scope r = sc \<and> er_metric_key r = k then PRESENT else UNKNOWN)) metric_keys)
      else None)"
  by (rule status_map_get)

text \<open>C38: A total Prometheus outage is silent: in a cycle that reports degraded telemetry there are no rows, no findings and no status
  maps, so although the action cap is NOTIFY there is nothing downstream for it to cap.\<close>

theorem total_outage_is_silent:
  assumes "run_evidence_stage_cycle fos enc dec cget cset clock query_instant queries t policy client w = (Inr ev, client', w')"
    and "eo_telemetry_degraded_active ev"
  shows "eo_rows ev = [] \<and> eo_gate_findings_by_scope ev = [] \<and> eo_evidence_status_map_by_scope ev = [] \<and>
    eo_max_safe_action ev = Some NOTIFY"
proof -
  from assms(1) obtain d events where d: "collect_prometheus_samples_with_diagnostics query_instant queries = Inr d"
    and c: "collect_evidence_stage_output fos enc dec cget cset (cd_samples_by_metric d) client policy (Some t)
        (cd_is_total_outage d) events (if cd_is_total_outage d then Some NOTIFY else None) = (Inr ev, client')"
    by (auto simp: run_evidence_stage_cycle_def split: sum.splits prod.splits)
  from c assms(2) have outage: "cd_is_total_outage d"
    by (auto simp: collect_evidence_stage_output_def split: sum.splits prod.splits)
  obtain ks where "cd_samples_by_metric d = map (\<lambda>k. (k, [])) ks" using diagnostics_outage [OF d outage] by blast
  with c outage show ?thesis
    by (auto simp: collect_evidence_stage_output_def detect_anomaly_findings_def metrics_by_scope_def build_gate_findings_by_scope_def
        build_evidence_status_map_by_scope_def present_metrics_by_scope_def mk_anomaly_detection_result_def
        group_findings_by_scope_def split: option.splits)
qed

theorem total_outage_is_silent_witness:
  "\<exists>ev c w. run_evidence_stage_cycle (\<lambda>_. None) (\<lambda>_. []) (\<lambda>_. Inr []) up_get up_set 0 (\<lambda>_. Source_failure ''URLError'' ''refused'')
     [(''consumer_group_lag'', \<lparr>mq_metric_name = ''lag'', mq_role = ''r''\<rparr>)] 0 None None \<lparr>ew_health = [], ew_alerts = None\<rparr> = (Inr ev, c, w) \<and>
     eo_gate_findings_by_scope ev = []"
proof -
  obtain ev c w where e: "run_evidence_stage_cycle (\<lambda>_. None) (\<lambda>_. []) (\<lambda>_. Inr []) up_get up_set 0 (\<lambda>_. Source_failure ''URLError'' ''refused'')
     [(''consumer_group_lag'', \<lparr>mq_metric_name = ''lag'', mq_role = ''r''\<rparr>)] 0 None None \<lparr>ew_health = [], ew_alerts = None\<rparr> = (Inr ev, c, w)"
    and deg: "eo_telemetry_degraded_active ev"
    by (simp add: run_evidence_stage_cycle_def collect_prometheus_samples_with_diagnostics_def classify_query_def telemetry_transition_def
        health_get_def record_outage_def collect_evidence_stage_output_def detect_anomaly_findings_def Let_def)
  from total_outage_is_silent [OF e deg] e show ?thesis by blast
qed

text \<open>Degraded-telemetry events are edge triggered: over any sequence of cycles that start with Prometheus available, the events emitted are
  one pending event at each start of an outage and one resolved event at each end of one, in order, and none in between.\<close>

theorem telemetry_events_edge_triggered:
  assumes "telemetry_cycles cycles w = Inr events"
  shows "map te_recovery_status events =
    outage_edges (health_get (ew_health w) ''prometheus'' = Some UNAVAILABLE) (map (\<lambda>(clock, d, t). cd_is_total_outage d) cycles)"
  using assms
proof (induction cycles arbitrary: w events)
  case (Cons c cycles)
  obtain clock d t where c: "c = (clock, d, t)" by (cases c) auto
  from Cons.prems c obtain evs w' more where s: "telemetry_transition clock d t w = (Inr evs, w')"
    and m: "telemetry_cycles cycles w' = Inr more" "events = evs @ more"
    by (auto split: prod.splits sum.splits elim!: rbind_InrE)
  from telemetry_transition_step [OF s] Cons.IH [OF m(1)] show ?case by (simp add: c m(2) Let_def)
qed simp

theorem telemetry_events_edge_triggered_witness:
  "\<exists>events. telemetry_cycles (map (\<lambda>b. (0, sample_diagnostics b, 0)) [False, True, True, False]) \<lparr>ew_health = [], ew_alerts = None\<rparr> = Inr events \<and>
     map te_recovery_status events = [''pending'', ''resolved'']"
proof -
  have "is_ok (telemetry_cycles (map (\<lambda>b. (0, sample_diagnostics b, 0)) [False, True, True, False]) \<lparr>ew_health = [], ew_alerts = None\<rparr>)"
    by code_simp
  then obtain events where e: "telemetry_cycles (map (\<lambda>b. (0, sample_diagnostics b, 0)) [False, True, True, False])
      \<lparr>ew_health = [], ew_alerts = None\<rparr> = Inr events" by (auto simp: is_ok_iff)
  from telemetry_events_edge_triggered [OF e] e show ?thesis by (simp add: health_get_def sample_diagnostics_def)
qed

end
