(* ===== verification/Dispatch.thy ===== *)
theory Dispatch
  imports Topology Denylist
begin

text \<open>
  Stage 7 and its two outbound adapters: \<open>integrations/slack.py\<close>, \<open>integrations/pagerduty.py\<close> and
  \<open>pipeline/stages/dispatch.py\<close>. The outside world is the record \<open>outside\<close>: an opaque HTTP state, the structured log entries that carry
  case data, and the requests attempted. \<open>http\<close> is \<open>urlopen\<close> of a POST (it may raise), \<open>search\<close> the regular
  expression search of the denylist and \<open>rend\<close> is \<open>str()\<close> of a container. Latency measurement is left out, and
  the non-ASCII punctuation of message texts is written in ASCII.
\<close>

section \<open>Outside world\<close>

datatype integration_mode = MODE_OFF | MODE_LOG | MODE_MOCK | MODE_LIVE

fun mode_value :: "integration_mode \<Rightarrow> string" where
  "mode_value MODE_OFF = ''OFF''"
| "mode_value MODE_LOG = ''LOG''"
| "mode_value MODE_MOCK = ''MOCK''"
| "mode_value MODE_LIVE = ''LIVE''"

record 'w outside =
  ox_http :: 'w
  ox_log :: "(string \<times> (string, jval) pydict) list"
  ox_posts :: "(string \<times> jval) list"

type_synonym 'w http_post = "'w \<Rightarrow> string \<Rightarrow> jval \<Rightarrow> unit result \<times> 'w"

definition log_event :: "string \<Rightarrow> (string, jval) pydict \<Rightarrow> 'w outside \<Rightarrow> 'w outside" where
  "log_event name flds w = w\<lparr>ox_log := ox_log w @ [(name, flds)]\<rparr>"

text \<open>A POST inside \<open>try ... except Exception\<close>: an error is logged under the given event name.\<close>

definition post_swallowing ::
  "'w http_post \<Rightarrow> string \<Rightarrow> (string, jval) pydict \<Rightarrow> string \<Rightarrow> jval \<Rightarrow> 'w outside \<Rightarrow> 'w outside" where
  "post_swallowing http failure_event failure_fields url payload w =
     (case http (ox_http w) url payload of
        (res, h) \<Rightarrow>
          let w1 = w\<lparr>ox_http := h, ox_posts := ox_posts w @ [(url, payload)]\<rparr>
          in case res of
            Inr _ \<Rightarrow> w1
          | Inl e \<Rightarrow> log_event failure_event (failure_fields @ [(''error'', JStr (exc_str e))]) w1)"

definition opt_json :: "string option \<Rightarrow> jval" where
  "opt_json x = (case x of None \<Rightarrow> JNull | Some s \<Rightarrow> JStr s)"

section \<open>PagerDuty client\<close>

record pd_client =
  pd_mode :: integration_mode
  pd_routing_key :: "string option"
  pd_mock_send_count :: int

definition pd_events_v2_url :: string where
  "pd_events_v2_url = ''https://events.pagerduty.com/v2/enqueue''"

definition page_trigger_payload :: "string \<Rightarrow> string \<Rightarrow> string \<Rightarrow> string \<Rightarrow> string \<Rightarrow> jval" where
  "page_trigger_payload service_key case_id fingerprint routing_key summary =
     JDict [(''routing_key'', JStr service_key), (''dedup_key'', JStr fingerprint), (''event_action'', JStr ''trigger''),
       (''payload'', JDict [(''summary'', JStr summary), (''severity'', JStr ''critical''),
          (''source'', JStr ''aiops-triage-pipeline''),
          (''custom_details'', JDict [(''case_id'', JStr case_id), (''topology_routing_key'', JStr routing_key),
             (''action_fingerprint'', JStr fingerprint)])])]"

definition pd_send_live ::
  "'w http_post \<Rightarrow> pd_client \<Rightarrow> string \<Rightarrow> string \<Rightarrow> string \<Rightarrow> string \<Rightarrow> 'w outside \<Rightarrow> 'w outside" where
  "pd_send_live http c case_id fingerprint routing_key summary w =
     (case pd_routing_key c of
        None \<Rightarrow> log_event ''pd_page_trigger_no_routing_key'' [(''case_id'', JStr case_id), (''action_fingerprint'', JStr fingerprint)] w
      | Some service_key \<Rightarrow>
          if service_key = []
          then log_event ''pd_page_trigger_no_routing_key'' [(''case_id'', JStr case_id), (''action_fingerprint'', JStr fingerprint)] w
          else post_swallowing http ''pd_page_trigger_send_failed'' [(''case_id'', JStr case_id), (''action_fingerprint'', JStr fingerprint)]
                 pd_events_v2_url (page_trigger_payload service_key case_id fingerprint routing_key summary) w)"

definition send_page_trigger ::
  "'w http_post \<Rightarrow> string \<Rightarrow> string \<Rightarrow> string \<Rightarrow> string \<Rightarrow> pd_client \<Rightarrow> 'w outside \<Rightarrow> unit result \<times> pd_client \<times> 'w outside" where
  "send_page_trigger http case_id fingerprint routing_key summary c w =
     (if pd_mode c = MODE_OFF then (Inr (), c, w)
      else let w1 = log_event ''pd_page_trigger_dispatch''
             [(''case_id'', JStr case_id), (''action_fingerprint'', JStr fingerprint), (''topology_routing_key'', JStr routing_key),
              (''mode'', JStr (mode_value (pd_mode c))), (''summary'', JStr summary)] w
           in if pd_mode c = MODE_LOG then (Inr (), c, w1)
              else if pd_mode c = MODE_MOCK then (Inr (), c\<lparr>pd_mock_send_count := pd_mock_send_count c + 1\<rparr>, w1)
              else (Inr (), c, pd_send_live http c case_id fingerprint routing_key summary w1))"

section \<open>Slack client\<close>

record slack_client =
  sl_mode :: integration_mode
  sl_webhook_url :: "string option"
  sl_mock_send_count :: int

record degraded_mode_event =
  dm_affected_scope :: string
  dm_reason :: string
  dm_capped_action_level :: string
  dm_estimated_impact_window :: "string option"
  dm_timestamp :: instant

text \<open>\<open>sanitized.get(key, default)\<close> in an f-string, and \<open>sanitized.get(key) or 'N/A'\<close>.\<close>

definition get_text :: "(jval \<Rightarrow> string) \<Rightarrow> (string, jval) pydict \<Rightarrow> string \<Rightarrow> string \<Rightarrow> string" where
  "get_text rend flds key dflt = (case dict_get flds key of Some v \<Rightarrow> py_str rend v | None \<Rightarrow> dflt)"

definition get_or_na :: "(jval \<Rightarrow> string) \<Rightarrow> (string, jval) pydict \<Rightarrow> string \<Rightarrow> string" where
  "get_or_na rend flds key = (case dict_get flds key of
       Some (JStr s) \<Rightarrow> if s = [] then ''N/A'' else s
     | Some JNull \<Rightarrow> ''N/A'' | None \<Rightarrow> ''N/A'' | Some v \<Rightarrow> py_str rend v)"

text \<open>
  The tail the three sends share: mode switch after the log entry, then delivery to the webhook if one is configured.
\<close>

definition slack_deliver ::
  "'w http_post \<Rightarrow> string \<Rightarrow> string \<Rightarrow> (string, jval) pydict \<Rightarrow> string \<Rightarrow> slack_client \<Rightarrow> 'w outside \<Rightarrow> unit result \<times> slack_client \<times> 'w outside" where
  "slack_deliver http no_webhook_event failure_event ids text_msg c w =
     (if sl_mode c = MODE_LOG then (Inr (), c, w)
      else if sl_mode c = MODE_MOCK then (Inr (), c\<lparr>sl_mock_send_count := sl_mock_send_count c + 1\<rparr>, w)
      else case sl_webhook_url c of
        None \<Rightarrow> (Inr (), c, log_event no_webhook_event ids w)
      | Some url \<Rightarrow>
          if url = [] then (Inr (), c, log_event no_webhook_event ids w)
          else (Inr (), c, post_swallowing http failure_event ids url (JDict [(''text'', JStr text_msg)]) w))"

definition send_degraded_mode_event ::
  "'w http_post \<Rightarrow> degraded_mode_event \<Rightarrow> slack_client \<Rightarrow> 'w outside \<Rightarrow> unit result \<times> slack_client \<times> 'w outside" where
  "send_degraded_mode_event http e c w =
     (if sl_mode c = MODE_OFF then (Inr (), c, w)
      else slack_deliver http ''degraded_mode_slack_no_webhook'' ''degraded_mode_slack_send_failed'' [(''affected_scope'', JStr (dm_affected_scope e))]
        ('':rotating_light: *Degraded Mode Alert* - `'' @ dm_affected_scope e @ ''`'' @ [CHR 0x0A] @
         ''Reason: '' @ dm_reason e @ [CHR 0x0A] @ ''Capped action level: `'' @ dm_capped_action_level e @ ''`'' @ [CHR 0x0A] @
         ''Estimated impact: '' @ (case dm_estimated_impact_window e of Some s \<Rightarrow> if s = [] then ''unknown'' else s | None \<Rightarrow> ''unknown''))
        c (log_event ''degraded_mode_slack_dispatch''
          [(''slack_mode'', JStr (mode_value (sl_mode c))), (''affected_scope'', JStr (dm_affected_scope e)), (''reason'', JStr (dm_reason e)),
           (''capped_action_level'', JStr (dm_capped_action_level e)), (''estimated_impact_window'', opt_json (dm_estimated_impact_window e))] w))"

definition postmortem_fields :: "string \<Rightarrow> string \<Rightarrow> string \<Rightarrow> string option \<Rightarrow> bool \<Rightarrow> string list \<Rightarrow> (string, jval) pydict" where
  "postmortem_fields case_id final_action routing_key support_channel required reason_codes =
     [(''case_id'', JStr case_id), (''final_action'', JStr final_action), (''routing_key'', JStr routing_key),
      (''support_channel'', opt_json support_channel), (''postmortem_required'', JBool required),
      (''reason_codes'', JList (map JStr reason_codes))]"

definition postmortem_text :: "(jval \<Rightarrow> string) \<Rightarrow> (string, jval) pydict \<Rightarrow> string" where
  "postmortem_text rend sanitized =
     '':memo: *Postmortem Obligation - SOFT Enforcement*'' @ [CHR 0x0A] @
     ''Case: `'' @ get_text rend sanitized ''case_id'' ''[redacted]'' @ ''`'' @ [CHR 0x0A] @
     ''Action: `'' @ get_text rend sanitized ''final_action'' ''[redacted]'' @ ''`'' @ [CHR 0x0A] @
     ''Routing: `'' @ get_text rend sanitized ''routing_key'' ''[redacted]'' @ ''`'' @ [CHR 0x0A] @
     ''Support Channel: '' @ get_or_na rend sanitized ''support_channel'' @ [CHR 0x0A] @
     ''Reason Codes: '' @ get_text rend sanitized ''reason_codes'' ''[]''"

definition send_postmortem_notification ::
  "'w http_post \<Rightarrow> (string \<Rightarrow> string \<Rightarrow> bool) \<Rightarrow> (jval \<Rightarrow> string) \<Rightarrow> denylist \<Rightarrow> string \<Rightarrow> string \<Rightarrow> string \<Rightarrow> string option \<Rightarrow> bool \<Rightarrow> string list \<Rightarrow>
   slack_client \<Rightarrow> 'w outside \<Rightarrow> unit result \<times> slack_client \<times> 'w outside" where
  "send_postmortem_notification http search rend d case_id final_action routing_key support_channel required reason_codes c w =
     (if sl_mode c = MODE_OFF then (Inr (), c, w)
      else let sanitized = apply_denylist search d (postmortem_fields case_id final_action routing_key support_channel required reason_codes)
           in slack_deliver http ''postmortem_notification_no_webhook'' ''postmortem_notification_send_failed'' []
             (postmortem_text rend sanitized)
             c (log_event ''postmortem_notification_dispatch'' ((''slack_mode'', JStr (mode_value (sl_mode c))) # sanitized) w))"

definition linkage_failed_fields ::
  "string \<Rightarrow> string \<Rightarrow> string \<Rightarrow> string \<Rightarrow> string option \<Rightarrow> string \<Rightarrow> string option \<Rightarrow> int \<Rightarrow> int \<Rightarrow> pyfloat \<Rightarrow> (string, jval) pydict" where
  "linkage_failed_fields timestamp case_id request_id pd_incident_id incident_sys_id reason_code error_message attempts window latency =
     [(''timestamp'', JStr timestamp), (''request_id'', JStr request_id), (''case_id'', JStr case_id),
      (''action'', JStr ''sn_linkage_failed_final_escalation''), (''outcome'', JStr ''FAILED_FINAL''), (''latency_ms'', JFloat latency),
      (''pd_incident_id'', JStr pd_incident_id), (''incident_sys_id'', opt_json incident_sys_id), (''reason_code'', JStr reason_code),
      (''error_message'', opt_json error_message), (''attempt_count'', JInt attempts), (''retry_window_minutes'', JInt window)]"

definition linkage_failed_text :: "(jval \<Rightarrow> string) \<Rightarrow> (string, jval) pydict \<Rightarrow> string" where
  "linkage_failed_text rend sanitized =
     '':warning: *ServiceNow Linkage FAILED_FINAL*'' @ [CHR 0x0A] @
     ''Case: `'' @ get_text rend sanitized ''case_id'' ''[redacted]'' @ ''`'' @ [CHR 0x0A] @
     ''Request: `'' @ get_text rend sanitized ''request_id'' ''[redacted]'' @ ''`'' @ [CHR 0x0A] @
     ''PD Incident: `'' @ get_text rend sanitized ''pd_incident_id'' ''[redacted]'' @ ''`'' @ [CHR 0x0A] @
     ''SN Incident: `'' @ get_or_na rend sanitized ''incident_sys_id'' @ ''`'' @ [CHR 0x0A] @
     ''Reason: `'' @ get_text rend sanitized ''reason_code'' ''[redacted]'' @ ''`'' @ [CHR 0x0A] @
     ''Attempts: `'' @ get_text rend sanitized ''attempt_count'' ''[redacted]'' @ ''` over `'' @
     get_text rend sanitized ''retry_window_minutes'' ''[redacted]'' @ ''m`''"

definition send_linkage_failed_final_escalation ::
  "'w http_post \<Rightarrow> (string \<Rightarrow> string \<Rightarrow> bool) \<Rightarrow> (jval \<Rightarrow> string) \<Rightarrow> denylist \<Rightarrow> (string, jval) pydict \<Rightarrow> string \<Rightarrow> string \<Rightarrow>
   slack_client \<Rightarrow> 'w outside \<Rightarrow> unit result \<times> slack_client \<times> 'w outside" where
  "send_linkage_failed_final_escalation http search rend d raw_fields request_id case_id c w =
     (if sl_mode c = MODE_OFF then (Inr (), c, w)
      else let sanitized = apply_denylist search d raw_fields
           in slack_deliver http ''sn_linkage_failed_final_no_webhook'' ''sn_linkage_failed_final_send_failed''
             [(''request_id'', JStr request_id), (''case_id'', JStr case_id)]
             (linkage_failed_text rend sanitized)
             c (log_event ''sn_linkage_failed_final_escalation_dispatch'' ((''slack_mode'', JStr (mode_value (sl_mode c))) # sanitized) w))"

section \<open>Dispatch stage\<close>

definition dispatch_log ::
  "string \<Rightarrow> action_decision \<Rightarrow> string \<Rightarrow> integration_mode \<Rightarrow> (string, jval) pydict" where
  "dispatch_log case_id dec routing_key mode =
     [(''case_id'', JStr case_id), (''final_action'', JStr (action_value (ad_final_action dec))),
      (''action_fingerprint'', JStr (ad_action_fingerprint dec)), (''topology_routing_key'', JStr routing_key), (''mode'', JStr (mode_value mode))]"

definition dispatch_action ::
  "'w http_post \<Rightarrow> (string \<Rightarrow> string \<Rightarrow> bool) \<Rightarrow> (jval \<Rightarrow> string) \<Rightarrow> denylist \<Rightarrow> string \<Rightarrow> action_decision \<Rightarrow> topology_routing_context option \<Rightarrow>
   pd_client \<Rightarrow> slack_client \<Rightarrow> 'w outside \<Rightarrow> pd_client \<times> slack_client \<times> 'w outside" where
  "dispatch_action http search rend d case_id dec routing pd sl w =
     (let routing_key = (case routing of Some r \<Rightarrow> tx_routing_key r | None \<Rightarrow> ''unknown'');
          (pd1, w1) =
            (if ad_final_action dec = PAGE then
               (case send_page_trigger http case_id (ad_action_fingerprint dec) routing_key
                       (''AIOps PAGE alert - fingerprint='' @ ad_action_fingerprint dec @ '' routing_key='' @ routing_key) pd w of
                  (Inl e, pd', w') \<Rightarrow> (pd', log_event ''action_dispatch_pd_failed''
                    (dispatch_log case_id dec routing_key (pd_mode pd) @ [(''error'', JStr (exc_str e))]) w')
                | (Inr _, pd', w') \<Rightarrow> (pd', log_event ''action_dispatched''
                    (dispatch_log case_id dec routing_key (pd_mode pd) @ [(''outcome'', JStr ''pd_trigger_sent'')]) w'))
             else (pd, log_event ''action_dispatched''
                    (dispatch_log case_id dec routing_key (pd_mode pd) @ [(''outcome'', JStr ''no_pd_trigger'')]) w))
      in if ad_postmortem_required dec then
           (case send_postmortem_notification http search rend d case_id (action_value (ad_final_action dec)) routing_key
                   (case routing of Some r \<Rightarrow> tx_support_channel r | None \<Rightarrow> None) (ad_postmortem_required dec)
                   (ad_postmortem_reason_codes dec) sl w1 of
              (Inl e, sl', w2) \<Rightarrow> (pd1, sl', log_event ''action_dispatch_postmortem_failed''
                (dispatch_log case_id dec routing_key (sl_mode sl) @ [(''error'', JStr (exc_str e))]) w2)
            | (Inr _, sl', w2) \<Rightarrow> (pd1, sl', log_event ''action_dispatch_postmortem_sent''
                (dispatch_log case_id dec routing_key (sl_mode sl)) w2))
         else (pd1, sl, w1))"

text \<open>The requests a dispatch is meant to attempt.\<close>

definition configured :: "string option \<Rightarrow> bool" where
  "configured x = (\<exists>s. x = Some s \<and> s \<noteq> [])"

definition page_posts :: "pd_client \<Rightarrow> string \<Rightarrow> action_decision \<Rightarrow> string \<Rightarrow> (string \<times> jval) list" where
  "page_posts pd case_id dec routing_key =
     (if ad_final_action dec = PAGE \<and> pd_mode pd = MODE_LIVE \<and> configured (pd_routing_key pd)
      then [(pd_events_v2_url, page_trigger_payload (the (pd_routing_key pd)) case_id (ad_action_fingerprint dec) routing_key
              (''AIOps PAGE alert - fingerprint='' @ ad_action_fingerprint dec @ '' routing_key='' @ routing_key))]
      else [])"

definition sample_decision :: action_decision where
  "sample_decision = \<lparr>ad_final_action = PAGE, ad_env_cap_applied = False, ad_gate_rule_ids = [], ad_gate_reason_codes = [],
     ad_action_fingerprint = ''fp'', ad_postmortem_required = True, ad_postmortem_mode = Some ''SOFT'', ad_postmortem_reason_codes = [''PEAK'']\<rparr>"

section \<open>Lemmas\<close>

lemma log_event_simps [simp]:
  "ox_posts (log_event n f w) = ox_posts w" "ox_log (log_event n f w) = ox_log w @ [(n, f)]" "ox_http (log_event n f w) = ox_http w"
  by (simp_all add: log_event_def)

lemma post_swallowing_posts [simp]: "ox_posts (post_swallowing http ev f url payload w) = ox_posts w @ [(url, payload)]"
  by (simp add: post_swallowing_def Let_def split: prod.splits sum.splits)

lemma post_swallowing_log:
  "\<exists>l. ox_log (post_swallowing http ev f url payload w) = ox_log w @ l \<and> fst ` set l \<subseteq> {ev}"
  by (auto simp: post_swallowing_def Let_def split: prod.splits sum.splits)

lemma pd_send_live_posts:
  "ox_posts (pd_send_live http c cid fp rk sm w) = ox_posts w @
     (if configured (pd_routing_key c) then [(pd_events_v2_url, page_trigger_payload (the (pd_routing_key c)) cid fp rk sm)] else [])"
  by (auto simp: pd_send_live_def configured_def split: option.splits)

lemma send_page_trigger_effect:
  "\<exists>c' w'. send_page_trigger http cid fp rk sm c w = (Inr (), c', w') \<and> ox_posts w' = ox_posts w @
     (if pd_mode c = MODE_LIVE \<and> configured (pd_routing_key c)
      then [(pd_events_v2_url, page_trigger_payload (the (pd_routing_key c)) cid fp rk sm)] else [])"
  by (cases "pd_mode c") (simp_all add: send_page_trigger_def pd_send_live_posts)

lemma slack_deliver_effect:
  assumes "sl_mode c \<noteq> MODE_OFF"
  shows "\<exists>c' w'. slack_deliver http a b ids msg c w = (Inr (), c', w') \<and> ox_posts w' = ox_posts w @
     (if sl_mode c = MODE_LIVE \<and> configured (sl_webhook_url c) then [(the (sl_webhook_url c), JDict [(''text'', JStr msg)])] else [])"
  using assms by (cases "sl_mode c") (auto simp: slack_deliver_def configured_def split: option.splits)

lemma send_postmortem_effect:
  "\<exists>c' w' msg. send_postmortem_notification http search rend d cid act rk chan req codes c w = (Inr (), c', w') \<and> ox_posts w' = ox_posts w @
     (if sl_mode c = MODE_LIVE \<and> configured (sl_webhook_url c) then [(the (sl_webhook_url c), JDict [(''text'', JStr msg)])] else [])"
proof (cases "sl_mode c = MODE_OFF")
  case True
  then show ?thesis by (simp add: send_postmortem_notification_def)
next
  case False
  let ?s = "apply_denylist search d (postmortem_fields cid act rk chan req codes)"
  let ?w = "log_event ''postmortem_notification_dispatch'' ((''slack_mode'', JStr (mode_value (sl_mode c))) # ?s) w"
  obtain c' w' where "slack_deliver http ''postmortem_notification_no_webhook'' ''postmortem_notification_send_failed'' []
      (postmortem_text rend ?s) c ?w = (Inr (), c', w')"
    and "ox_posts w' = ox_posts ?w @ (if sl_mode c = MODE_LIVE \<and> configured (sl_webhook_url c)
      then [(the (sl_webhook_url c), JDict [(''text'', JStr (postmortem_text rend ?s))])] else [])"
    using slack_deliver_effect [OF False] by blast
  then show ?thesis using False by (simp add: send_postmortem_notification_def Let_def)
qed

section \<open>Properties\<close>

text \<open>The effects of a dispatch are exact: whatever the HTTP calls do, exactly one page trigger is attempted, keyed by the action fingerprint, if the
  decision is PAGE and PagerDuty is live with a service key, and exactly one Slack message follows it if a postmortem is
  required and Slack is live with a webhook; nothing else is ever posted.\<close>

theorem dispatch_effects_exact:
  "\<exists>msg. ox_posts (snd (snd (dispatch_action http search rend d case_id dec routing pd sl w))) = ox_posts w @
     page_posts pd case_id dec (case routing of Some r \<Rightarrow> tx_routing_key r | None \<Rightarrow> ''unknown'') @
     (if ad_postmortem_required dec \<and> sl_mode sl = MODE_LIVE \<and> configured (sl_webhook_url sl)
      then [(the (sl_webhook_url sl), JDict [(''text'', JStr msg)])] else [])"
proof -
  let ?rk = "case routing of Some r \<Rightarrow> tx_routing_key r | None \<Rightarrow> ''unknown''"
  let ?sm = "''AIOps PAGE alert - fingerprint='' @ ad_action_fingerprint dec @ '' routing_key='' @ ?rk"
  obtain pd1 w0 where p: "send_page_trigger http case_id (ad_action_fingerprint dec) ?rk ?sm pd w = (Inr (), pd1, w0)"
    and p0: "ad_final_action dec = PAGE \<Longrightarrow> ox_posts w0 = ox_posts w @ page_posts pd case_id dec ?rk"
    using send_page_trigger_effect [of http case_id "ad_action_fingerprint dec" ?rk ?sm pd w] by (auto simp: page_posts_def)
  obtain pd2 w1 where first: "(if ad_final_action dec = PAGE
      then (pd1, log_event ''action_dispatched'' (dispatch_log case_id dec ?rk (pd_mode pd) @ [(''outcome'', JStr ''pd_trigger_sent'')]) w0)
      else (pd, log_event ''action_dispatched'' (dispatch_log case_id dec ?rk (pd_mode pd) @ [(''outcome'', JStr ''no_pd_trigger'')]) w)) = (pd2, w1)"
    by fastforce
  then have w1: "ox_posts w1 = ox_posts w @ page_posts pd case_id dec ?rk"
    using p0 by (auto simp: page_posts_def split: if_splits)
  obtain sl' w2 msg where s: "send_postmortem_notification http search rend d case_id (action_value (ad_final_action dec)) ?rk
      (case routing of Some r \<Rightarrow> tx_support_channel r | None \<Rightarrow> None) True (ad_postmortem_reason_codes dec) sl w1 = (Inr (), sl', w2)"
    and w2: "ox_posts w2 = ox_posts w1 @ (if sl_mode sl = MODE_LIVE \<and> configured (sl_webhook_url sl)
      then [(the (sl_webhook_url sl), JDict [(''text'', JStr msg)])] else [])"
    using send_postmortem_effect by metis
  show ?thesis
    by (rule exI [of _ msg]) (use first p s w1 w2 in \<open>auto simp: dispatch_action_def Let_def split: if_splits\<close>)
qed

text \<open>A page that PagerDuty never received is still reported as sent: for a PAGE decision the dispatch log always ends its first part with
  \<open>outcome=pd_trigger_sent\<close> and never contains the failure event, whatever the HTTP call does, because the client
  swallows its errors.\<close>

theorem page_failure_reported_as_sent:
  assumes "ad_final_action dec = PAGE" "\<not> ad_postmortem_required dec"
  shows "let (_, _, w') = dispatch_action http search rend d case_id dec routing pd sl w
    in (\<exists>before. ox_log w' = before @ [(''action_dispatched'',
         dispatch_log case_id dec (case routing of Some r \<Rightarrow> tx_routing_key r | None \<Rightarrow> ''unknown'') (pd_mode pd) @
         [(''outcome'', JStr ''pd_trigger_sent'')])])"
proof -
  let ?rk = "case routing of Some r \<Rightarrow> tx_routing_key r | None \<Rightarrow> ''unknown''"
  let ?sm = "''AIOps PAGE alert - fingerprint='' @ ad_action_fingerprint dec @ '' routing_key='' @ ?rk"
  obtain pd1 w0 where "send_page_trigger http case_id (ad_action_fingerprint dec) ?rk ?sm pd w = (Inr (), pd1, w0)"
    using send_page_trigger_effect by blast
  then show ?thesis using assms by (simp add: dispatch_action_def Let_def)
qed

theorem page_failure_reported_as_sent_witness:
  "\<exists>before. ox_log (snd (snd (dispatch_action (\<lambda>h url p. (raise OtherException ''timeout'', h)) (\<lambda>_ _. False) (\<lambda>_. []) sample_denylist ''c1''
     (sample_decision\<lparr>ad_postmortem_required := False\<rparr>) None \<lparr>pd_mode = MODE_LIVE, pd_routing_key = Some ''k'', pd_mock_send_count = 0\<rparr>
     \<lparr>sl_mode = MODE_OFF, sl_webhook_url = None, sl_mock_send_count = 0\<rparr> \<lparr>ox_http = (), ox_log = [], ox_posts = []\<rparr>))) =
   before @ [(''action_dispatched'', dispatch_log ''c1'' (sample_decision\<lparr>ad_postmortem_required := False\<rparr>) ''unknown'' MODE_LIVE @
     [(''outcome'', JStr ''pd_trigger_sent'')])]"
  using page_failure_reported_as_sent [of "sample_decision\<lparr>ad_postmortem_required := False\<rparr>"
      "\<lambda>h url p. (raise OtherException ''timeout'', h)" "\<lambda>_ _. False" "\<lambda>_. []" sample_denylist "''c1''" None
      "\<lparr>pd_mode = MODE_LIVE, pd_routing_key = Some ''k'', pd_mock_send_count = 0\<rparr>"
      "\<lparr>sl_mode = MODE_OFF, sl_webhook_url = None, sl_mock_send_count = 0\<rparr>" "\<lparr>ox_http = (), ox_log = [], ox_posts = []\<rparr>"]
  by (simp add: sample_decision_def split_beta)

end
