(* ===== verification/Scheduler.thy ===== *)
theory Scheduler
  imports Evidence Dispatch Dedupe_Store
begin

text \<open>
  The wall-clock part of \<open>pipeline/scheduler.py\<close>: interval boundaries, drift and missed intervals of a tick, and
  the degraded-mode event for the AG5 dedupe store. Times are microseconds; whole seconds are taken through the float that
  \<open>timestamp()\<close> and \<open>total_seconds()\<close> return. The stage cycles of the same file are in the theories of
  their stages.
\<close>

section \<open>Ticks\<close>

record scheduler_tick =
  tk_expected_boundary :: instant
  tk_actual_fire_time :: instant
  tk_drift_seconds :: int
  tk_missed_intervals :: int

definition floor_to_interval_boundary :: "instant \<Rightarrow> int \<Rightarrow> instant result" where
  "floor_to_interval_boundary t interval_seconds =
     (if interval_seconds = 0 then raise OtherException ''integer modulo by zero''
      else let s = epoch_second t in Inr (seconds (s - s mod interval_seconds)))"

definition next_interval_boundary :: "instant \<Rightarrow> int \<Rightarrow> instant result" where
  "next_interval_boundary t interval_seconds =
     rbind (floor_to_interval_boundary t interval_seconds) (\<lambda>b. Inr (b + seconds interval_seconds))"

definition evaluate_scheduler_tick ::
  "alert_evaluator option \<Rightarrow> instant \<Rightarrow> instant option \<Rightarrow> int \<Rightarrow> scheduler_tick result" where
  "evaluate_scheduler_tick av fire previous interval_seconds =
     rbind (floor_to_interval_boundary fire interval_seconds) (\<lambda>expected.
     let drift = epoch_second (fire - expected);
         missed = (case previous of
            None \<Rightarrow> 0
          | Some p \<Rightarrow> max (epoch_second (expected - p) div interval_seconds - 1) 0)
     in rbind (case av of None \<Rightarrow> Inr None | Some a \<Rightarrow> evaluate_scheduler_drift a drift) (\<lambda>_.
        Inr \<lparr>tk_expected_boundary = expected, tk_actual_fire_time = fire, tk_drift_seconds = drift, tk_missed_intervals = missed\<rparr>))"

section \<open>Degraded dedupe store\<close>

text \<open>
  \<open>store\<close> is the health a trackable store reports (\<open>None\<close> for no store or one that is not trackable); the event is
  sent to Slack when a client is given.
\<close>

definition emit_redis_degraded_mode_events ::
  "'w http_post \<Rightarrow> instant \<Rightarrow> 'r dedupe_store option \<Rightarrow> instant \<Rightarrow> alert_evaluator option \<Rightarrow> health_registry \<Rightarrow> slack_client option \<Rightarrow>
   'w outside \<Rightarrow> degraded_mode_event list result \<times> health_registry \<times> slack_client option \<times> 'w outside" where
  "emit_redis_degraded_mode_events http clock store t av reg slack w = (case store of
       None \<Rightarrow> (Inr [], reg, slack, w)
     | Some st \<Rightarrow>
         let previous = health_get reg ''redis''
         in if \<not> ds_is_healthy st then
              (if previous \<notin> {Some DEGRADED, Some UNAVAILABLE} then
                 (let reg' = health_update clock ''redis'' DEGRADED (ds_last_error st) reg;
                      e = \<lparr>dm_affected_scope = ''redis'',
                           dm_reason = (case ds_last_error st of Some s \<Rightarrow> if s = [] then ''Redis dedupe store unavailable'' else s
                                        | None \<Rightarrow> ''Redis dedupe store unavailable''),
                           dm_capped_action_level = ''NOTIFY-only'', dm_estimated_impact_window = Some ''unknown'', dm_timestamp = t\<rparr>
                  in case (case av of None \<Rightarrow> Inr None | Some a \<Rightarrow> evaluate_redis_connection a False) of
                    Inl x \<Rightarrow> (Inl x, reg', slack, w)
                  | Inr _ \<Rightarrow>
                      (case slack of
                         None \<Rightarrow> (Inr [e], reg', None, w)
                       | Some c \<Rightarrow> (case send_degraded_mode_event http e c w of
                           (r, c', w') \<Rightarrow> (rbind r (\<lambda>_. Inr [e]), reg', Some c', w'))))
               else (Inr [], reg, slack, w))
            else if previous \<in> {Some DEGRADED, Some UNAVAILABLE}
              then (Inr [], health_update clock ''redis'' HEALTHY None reg, slack, w)
              else (Inr [], reg, slack, w))"

section \<open>Lemmas\<close>

text \<open>Binary fractions with at most 53 significant bits are exact.\<close>

lemma fl_round_dyadic:
  assumes "0 \<le> m" "m < 2 ^ 53" "k \<le> 1074"
  shows "fl_round (of_int m / 2 ^ k) = Fin (of_int m / 2 ^ k)"
proof (cases "m = 0")
  case True
  then show ?thesis by (simp add: fl_round_def)
next
  case False
  define q :: rat where "q = of_int m / 2 ^ k"
  have q0: "0 < q" using False assms(1) by (simp add: q_def)
  have mlt: "(of_int m :: rat) < 2 ^ 53" using assms(2) by (metis of_int_less_iff of_int_numeral of_int_power)
  have qlt: "q < pow2 (53 - int k)"
  proof -
    have "pow2 (53 - int k) = pow2 53 / pow2 (int k)" by (simp add: pow2_div)
    also have "\<dots> = 2 ^ 53 / 2 ^ k" by (simp add: pow2_def)
    finally show ?thesis using mlt by (simp add: q_def divide_strict_right_mono)
  qed
  have "pow2 (fl_exponent q) < pow2 (53 - int k)" using fl_exponent_le [of q] q0 qlt by simp
  then have "fl_exponent q < 53 - int k" by (rule pow2_less)
  then have u: "fl_ulp q \<le> - int k" using assms(3) by (simp add: fl_ulp_def)
  have un: "fl_ulp q \<le> 0" using u by simp
  have "k \<le> nat (- fl_ulp q)" using u by linarith
  then obtain j where j: "nat (- fl_ulp q) = k + j" using le_Suc_ex by blast
  have "q / pow2 (fl_ulp q) = q * 2 ^ (k + j)" using pow2_neg_inverse [OF un] j by simp
  also have "\<dots> = of_int (m * 2 ^ j)" by (simp add: q_def power_add)
  finally have "fl_value q = of_int (m * 2 ^ j) * pow2 (fl_ulp q)" by (simp only: fl_value_def round_half_even_of_int)
  also have "\<dots> = q" using un j by (auto simp: pow2_def q_def power_add)
  finally have v: "fl_value q = q" .
  have "(2 :: rat) ^ 53 < pow2 1024" by (simp add: pow2_def)
  moreover have "q \<le> of_int m" using assms(1) by (simp add: q_def divide_le_eq_1 pos_divide_le_eq mult_le_cancel_left1)
  ultimately have "q < pow2 1024" using mlt by linarith
  moreover have "\<not> q \<le> - pow2 1024" using q0 pow2_pos [of 1024] by linarith
  ultimately show ?thesis using q0 v by (simp add: fl_round_value flip: q_def)
qed

text \<open>Until the year 2242 the float of a timestamp never rounds up to the next second.\<close>

lemma epoch_second_floor:
  assumes "0 \<le> t" "t < 2 ^ 33 * 1000000"
  shows "epoch_second t = t div 1000000"
proof -
  define n where "n = t div 1000000"
  define q :: rat where "q = of_int t / 1000000"
  have n: "0 \<le> n" "n < 2 ^ 33" "n * 1000000 \<le> t" "t \<le> n * 1000000 + 999999" using assms by (auto simp: n_def)
  have nq: "of_int n \<le> q"
  proof -
    have "(of_int (n * 1000000) :: rat) \<le> of_int t" using n(3) by (simp only: of_int_le_iff)
    then show ?thesis by (simp add: q_def)
  qed
  have qn: "q \<le> of_int n + 999999 / 1000000"
  proof -
    have "(of_int t :: rat) \<le> of_int (n * 1000000 + 999999)" using n(4) by (simp only: of_int_le_iff)
    then show ?thesis by (simp add: q_def field_simps)
  qed
  define c :: rat where "c = of_int ((n + 1) * 2 ^ 20 - 1) / 2 ^ 20"
  have c: "fl_round c = Fin c" unfolding c_def by (rule fl_round_dyadic) (use n(1,2) in simp_all)
  have c_eq: "c = of_int n + 1 - 1 / 1048576" by (simp add: c_def field_simps)
  have "q \<le> c" using qn c_eq by simp
  have q0: "0 \<le> q" using assms(1) by (simp add: q_def)
  have n1: "n + 1 < 2 ^ 53" using n(2) by simp
  have qn1: "q \<le> of_int (n + 1)" using qn by simp
  obtain v where v: "fl_round q = Fin v" "of_int n \<le> v"
    using fl_round_between [OF q0 qn1 n1] nq by metis
  have "v \<le> c" using fl_round_mono [OF q0 \<open>q \<le> c\<close>] v(1) c by simp
  then have "v < of_int n + 1" using c_eq by simp
  with v(2) have "\<lfloor>v\<rfloor> = n" by (simp add: floor_unique)
  moreover have "0 \<le> v" using v(2) n(1) by (meson of_int_0_le_iff order_trans)
  ultimately show ?thesis using v(1) by (simp add: epoch_second_def n_def q_def)
qed

lemma floor_boundary:
  assumes "0 \<le> t" "t < 2 ^ 33 * 1000000" "0 < n"
  shows "floor_to_interval_boundary t n = Inr (seconds (n * (t div 1000000 div n)))"
  using assms by (simp add: floor_to_interval_boundary_def epoch_second_floor Let_def minus_mod_eq_mult_div mult.commute)

text \<open>A degraded-mode event is emitted exactly on the transition to an unhealthy store.\<close>

lemma redis_event_iff:
  assumes "emit_redis_degraded_mode_events http clock (Some st) t av reg slack w = (Inr events, reg', slack', w')"
  shows "(events \<noteq> []) = (\<not> ds_is_healthy st \<and> \<not> health_is_degraded reg ''redis'')"
    and "health_is_degraded reg' ''redis'' = (\<not> ds_is_healthy st)"
  using assms by (auto simp: emit_redis_degraded_mode_events_def health_is_degraded_def Let_def
      split: if_splits sum.splits option.splits prod.splits)

section \<open>Properties\<close>

text \<open>Ticks follow the wall clock. For a positive interval and any fire time from 1970 to 2242, the expected boundary is the last multiple of the
  interval not after the fire time, the drift is the whole seconds since that boundary and less than the interval, the next
  boundary is in the future, and with the previous boundary at an earlier multiple the missed intervals are the boundaries
  strictly in between.\<close>

theorem scheduler_tick_exact:
  assumes "0 \<le> fire" "fire < 2 ^ 33 * 1000000" "0 < n" "0 \<le> k" "n * k \<le> fire div 1000000"
  shows "\<exists>tick l. evaluate_scheduler_tick None fire (Some (seconds (n * k))) n = Inr tick \<and>
    tk_expected_boundary tick = seconds (n * l) \<and> seconds (n * l) \<le> fire \<and> fire < seconds (n * l) + seconds n \<and>
    next_interval_boundary fire n = Inr (seconds (n * l) + seconds n) \<and>
    tk_drift_seconds tick = (fire - seconds (n * l)) div 1000000 \<and> 0 \<le> tk_drift_seconds tick \<and> tk_drift_seconds tick < n \<and>
    tk_missed_intervals tick = max (l - k - 1) 0"
proof -
  define s l where "s = fire div 1000000" and "l = s div n"
  have b: "floor_to_interval_boundary fire n = Inr (seconds (n * l))"
    using floor_boundary [OF assms(1-3)] by (simp add: s_def l_def)
  have s: "s * 1000000 \<le> fire" "fire < s * 1000000 + 1000000" "0 \<le> s" using assms(1) by (auto simp: s_def)
  have "n * l + s mod n = s" by (simp add: l_def)
  then have l: "n * l \<le> s" "s < n * l + n"
    using pos_mod_bound [OF assms(3), of s] pos_mod_sign [OF assms(3), of s] by linarith+
  have "n * k < n * (l + 1)" using assms(5) l(2) by (simp add: s_def algebra_simps)
  then have kl: "k \<le> l" using assms(3) by (simp add: mult_less_cancel_left)
  have le: "seconds (n * l) \<le> fire" using l(1) s(1) by (simp add: seconds_def)
  have lt: "fire < seconds (n * l) + seconds n" using l(2) s(2) by (simp add: seconds_def)
  have "0 \<le> n * k" "0 \<le> n * l" using assms(3,4) kl by simp_all
  have "epoch_second (fire - seconds (n * l)) = (fire - seconds (n * l)) div 1000000"
    using le assms(2) \<open>0 \<le> n * l\<close> by (intro epoch_second_floor) (simp_all add: seconds_def)
  moreover have "0 \<le> (fire - seconds (n * l)) div 1000000" "(fire - seconds (n * l)) div 1000000 < n"
    using le lt by (simp_all add: seconds_def)
  moreover have "epoch_second (seconds (n * l) - seconds (n * k)) div n = l - k"
  proof -
    have e: "seconds (n * l) - seconds (n * k) = seconds (n * (l - k))" by (simp add: seconds_def algebra_simps)
    have "n * (l - k) \<le> s" using l(1) \<open>0 \<le> n * k\<close> by (simp add: algebra_simps)
    moreover have "s < 2 ^ 33" using assms(2) by (simp add: s_def)
    ultimately have "epoch_second (seconds (n * (l - k))) = n * (l - k)"
      using assms(3) kl by (intro epoch_second_seconds) simp_all
    then show ?thesis using assms(3) by (simp add: e)
  qed
  ultimately show ?thesis using b le lt
    by (intro exI [of _ "\<lparr>tk_expected_boundary = seconds (n * l), tk_actual_fire_time = fire,
          tk_drift_seconds = (fire - seconds (n * l)) div 1000000, tk_missed_intervals = max (l - k - 1) 0\<rparr>"] exI [of _ l])
      (simp add: evaluate_scheduler_tick_def next_interval_boundary_def Let_def)
qed

theorem scheduler_tick_exact_witness:
  "\<exists>tick l. evaluate_scheduler_tick None 1700000000999999 (Some (seconds (300 * 5666665))) 300 = Inr tick \<and>
     tk_expected_boundary tick = seconds (300 * l) \<and> tk_missed_intervals tick = max (l - 5666665 - 1) 0"
  using scheduler_tick_exact [of 1700000000999999 300 5666665] by auto

end
