(* ===== verification/Hot_Path.thy ===== *)
theory Hot_Path
  imports Publication Registry_Properties Scheduler Gate_Inputs Rulebook_V1
begin

text \<open>
  The hot-path loop of \<open>__main__.py\<close> (\<open>_hot_path_scheduler_loop\<close>): one cycle composes the registry reload,
  the evidence, peak, topology, gate-input and gate-decision stages, and for every decision the case file, the outbox row
  and the dispatch. The external services are the record \<open>hot_services\<close>, the policies loaded at startup
  \<open>hot_config\<close>, the state the loop keeps or acts on \<open>hot_world\<close>, and what one cycle meets outside
  (times, query outcomes, the registry file) \<open>hot_cycle\<close>. The Redis client is one: the dedupe store's, and the
  findings cache of the evidence stage.
\<close>

section \<open>Configuration and state\<close>

record ('r, 's, 'w) hot_services =
  sv_float_of_string :: "string \<Rightarrow> pyfloat option"
  sv_render :: "jval \<Rightarrow> string"
  sv_dumps :: "jval \<Rightarrow> string"
  sv_yaml_load :: "string \<Rightarrow> yaml_outcome"
  sv_search :: "string \<Rightarrow> string \<Rightarrow> bool"
  sv_sha256_hex :: "string \<Rightarrow> string"
  sv_codecs :: casefile_codecs
  sv_encode_findings :: "anomaly_finding list \<Rightarrow> string"
  sv_decode_findings :: "string \<Rightarrow> anomaly_finding list result"
  sv_cache_get :: "'r cache_get"
  sv_cache_set :: "'r cache_set"
  sv_redis_get :: "'r redis_get"
  sv_redis_set :: "'r redis_set"
  sv_put :: "'s store_put"
  sv_get :: "'s store_get"
  sv_http :: "'w http_post"

record hot_config =
  hc_interval_seconds :: int
  hc_metric_queries :: "(string, metric_query) pydict"
  hc_peak_policy :: peak_policy
  hc_rulebook :: rulebook
  hc_redis_ttl_policy :: redis_ttl_policy
  hc_metrics_version :: string
  hc_denylist :: denylist

record ('r, 's, 'w) hot_world =
  hw_previous_boundary :: "instant option"
  hw_prior_sustained :: "(sustained_key, sustained_window_state) pydict option"
  hw_dedupe :: "'r dedupe_store"
  hw_evidence :: evidence_world
  hw_loader :: registry_loader
  hw_store :: 's
  hw_rows :: "outbox_record list"
  hw_faults :: "string option list"
  hw_pd :: pd_client
  hw_slack :: slack_client
  hw_outside :: "'w outside"

text \<open>\<open>cy_now\<close> is the evaluation time, \<open>cy_clock\<close> every later reading of the clock in the cycle.\<close>

record hot_cycle =
  cy_now :: instant
  cy_clock :: instant
  cy_query :: "string \<Rightarrow> query_outcome"
  cy_stat_mtime :: "int result"
  cy_file :: file_view
  cy_tx_aborts :: bool

section \<open>Cases\<close>

definition take_fault :: "('r, 's, 'w) hot_world \<Rightarrow> string option \<times> ('r, 's, 'w) hot_world" where
  "take_fault w = (case hw_faults w of [] \<Rightarrow> (None, w) | f # fs \<Rightarrow> (f, w\<lparr>hw_faults := fs\<rparr>))"

text \<open>The steps of one case; an error ends the case, with what was done so far.\<close>

definition persist_case ::
  "('r, 's, 'w) hot_services \<Rightarrow> hot_cycle \<Rightarrow> casefile_triage \<Rightarrow> ('r, 's, 'w) hot_world \<Rightarrow> ready_casefile result \<times> ('r, 's, 'w) hot_world" where
  "persist_case sv cy c w =
     (case persist_casefile_and_prepare_outbox_ready (sv_put sv) (sv_get sv) (sv_sha256_hex sv) (sv_codecs sv) c (hw_store w) of
        (res, s) \<Rightarrow> (res, w\<lparr>hw_store := s\<rparr>))"

definition insert_case ::
  "hot_cycle \<Rightarrow> ready_casefile \<Rightarrow> ('r, 's, 'w) hot_world \<Rightarrow> outbox_record result \<times> ('r, 's, 'w) hot_world" where
  "insert_case cy ready w = (case take_fault w of (fault, w1) \<Rightarrow>
     (case insert_pending_object (cy_tx_aborts cy) (cy_clock cy) fault ready None (hw_rows w1) (hw_rows w1) of
        (res, rows) \<Rightarrow> (res, w1\<lparr>hw_rows := rows\<rparr>)))"

definition dispatch_case ::
  "('r, 's, 'w) hot_services \<Rightarrow> hot_config \<Rightarrow> string \<Rightarrow> action_decision \<Rightarrow> topology_routing_context option \<Rightarrow>
   ('r, 's, 'w) hot_world \<Rightarrow> ('r, 's, 'w) hot_world" where
  "dispatch_case sv cfg case_id dec routing w =
     (case dispatch_action (sv_http sv) (sv_search sv) (sv_render sv) (hc_denylist cfg) case_id dec routing (hw_pd w) (hw_slack w) (hw_outside w) of
        (pd, sl, ox) \<Rightarrow> w\<lparr>hw_pd := pd, hw_slack := sl, hw_outside := ox\<rparr>)"

definition process_case ::
  "('r, 's, 'w) hot_services \<Rightarrow> hot_config \<Rightarrow> hot_cycle \<Rightarrow> evidence_stage_output \<Rightarrow> peak_stage_output \<Rightarrow> topology_stage_output \<Rightarrow>
   scope \<Rightarrow> gate_input \<Rightarrow> action_decision \<Rightarrow> ('r, 's, 'w) hot_world \<Rightarrow> unit result \<times> ('r, 's, 'w) hot_world" where
  "process_case sv cfg cy ev po topo sc gi dec w =
     st_bind (assemble_casefile_triage_stage (sv_sha256_hex sv) (sv_search sv) (sv_codecs sv) (cy_clock cy) sc ev po topo gi dec
                (hc_rulebook cfg) (hc_metrics_version cfg) (hc_denylist cfg) ''v1'' None None, w) (\<lambda>c w.
     st_bind (persist_case sv cy c w) (\<lambda>ready w.
     st_bind (insert_case cy ready w) (\<lambda>_ w.
       (Inr (), dispatch_case sv cfg (tg_case_id c) dec (dict_get (to_routing_by_scope topo) sc) w))))"

text \<open>A decision without a gate input of its fingerprint is skipped; a case that fails is logged, and the loop goes on.\<close>

fun process_decisions ::
  "(gate_input \<Rightarrow> action_decision \<Rightarrow> 'x \<Rightarrow> unit result \<times> 'x) \<Rightarrow> gate_input list \<Rightarrow> action_decision list \<Rightarrow> 'x \<Rightarrow> 'x" where
  "process_decisions f gis [] w = w"
| "process_decisions f gis (d # ds) w =
     process_decisions f gis ds
       (case List.find (\<lambda>gi. gi_action_fingerprint gi = ad_action_fingerprint d) gis of None \<Rightarrow> w | Some gi \<Rightarrow> snd (f gi d w))"

fun process_scopes ::
  "(scope \<Rightarrow> gate_input \<Rightarrow> action_decision \<Rightarrow> 'x \<Rightarrow> unit result \<times> 'x) \<Rightarrow> (scope, gate_input list) pydict \<Rightarrow>
   (scope \<times> action_decision list) list \<Rightarrow> 'x \<Rightarrow> 'x" where
  "process_scopes f inputs [] w = w"
| "process_scopes f inputs ((sc, ds) # rest) w =
     process_scopes f inputs rest
       (process_decisions (f sc) (case dict_get inputs sc of Some gis \<Rightarrow> gis | None \<Rightarrow> []) ds w)"

section \<open>Stages\<close>

record stage_outputs =
  sg_evidence :: evidence_stage_output
  sg_peak :: peak_stage_output
  sg_topology :: topology_stage_output
  sg_inputs :: "(scope, gate_input list) pydict"
  sg_decisions :: "(scope, action_decision list) pydict"

definition reload_stage :: "('r, 's, 'w) hot_services \<Rightarrow> hot_cycle \<Rightarrow> ('r, 's, 'w) hot_world \<Rightarrow> registry_snapshot result \<times> ('r, 's, 'w) hot_world" where
  "reload_stage sv cy w =
     (case reload_if_changed (sv_yaml_load sv) (sv_float_of_string sv) (sv_render sv) (cy_clock cy) (cy_stat_mtime cy) (cy_file cy) (hw_loader w) of
        (res, l) \<Rightarrow> (rbind res (\<lambda>_. get_snapshot l), w\<lparr>hw_loader := l\<rparr>))"

definition evidence_stage ::
  "('r, 's, 'w) hot_services \<Rightarrow> hot_config \<Rightarrow> hot_cycle \<Rightarrow> ('r, 's, 'w) hot_world \<Rightarrow> evidence_stage_output result \<times> ('r, 's, 'w) hot_world" where
  "evidence_stage sv cfg cy w =
     (case run_evidence_stage_cycle (sv_float_of_string sv) (sv_encode_findings sv) (sv_decode_findings sv) (sv_cache_get sv) (sv_cache_set sv)
             (cy_clock cy) (cy_query cy) (hc_metric_queries cfg) (cy_now cy) (Some (hc_redis_ttl_policy cfg)) (Some (ds_redis (hw_dedupe w)))
             (hw_evidence w) of
        (res, client, ew) \<Rightarrow>
          (res, w\<lparr>hw_evidence := ew,
                  hw_dedupe := (case client of Some r \<Rightarrow> (hw_dedupe w)\<lparr>ds_redis := r\<rparr> | None \<Rightarrow> hw_dedupe w)\<rparr>))"

definition peak_stage ::
  "hot_config \<Rightarrow> hot_cycle \<Rightarrow> evidence_stage_output \<Rightarrow> ('r, 's, 'w) hot_world \<Rightarrow> peak_stage_output result \<times> ('r, 's, 'w) hot_world" where
  "peak_stage cfg cy ev w =
     (case run_peak_stage_cycle ev [] (hw_prior_sustained w) (cy_now cy) (hc_peak_policy cfg) (hc_rulebook cfg) of
        Inl e \<Rightarrow> (Inl e, w)
      | Inr po \<Rightarrow> (Inr po, w\<lparr>hw_prior_sustained := Some (build_sustained_window_state_by_key (po_sustained_by_key po))\<rparr>))"

definition decision_stage ::
  "('r, 's, 'w) hot_services \<Rightarrow> hot_config \<Rightarrow> (scope, gate_input list) pydict \<Rightarrow> ('r, 's, 'w) hot_world \<Rightarrow>
   (scope, action_decision list) pydict result \<times> ('r, 's, 'w) hot_world" where
  "decision_stage sv cfg inputs w =
     (case run_gate_decision_stage_cycle (store_is_duplicate (sv_redis_get sv)) (store_remember (sv_redis_set sv)) inputs (hc_rulebook cfg)
             (Some (hw_dedupe w)) of
        (res, store) \<Rightarrow> (res, w\<lparr>hw_dedupe := (case store of Some st \<Rightarrow> st | None \<Rightarrow> hw_dedupe w)\<rparr>))"

definition run_stages ::
  "('r, 's, 'w) hot_services \<Rightarrow> hot_config \<Rightarrow> hot_cycle \<Rightarrow> ('r, 's, 'w) hot_world \<Rightarrow> stage_outputs result \<times> ('r, 's, 'w) hot_world" where
  "run_stages sv cfg cy w =
     st_bind (reload_stage sv cy w) (\<lambda>snapshot w.
     st_bind (evidence_stage sv cfg cy w) (\<lambda>ev w.
     st_bind (peak_stage cfg cy ev w) (\<lambda>po w.
     st_bind (run_topology_stage_cycle (sv_render sv) (sv_dumps sv) ev (sp_registry snapshot), w) (\<lambda>topo w.
     st_bind (run_gate_input_stage_cycle ev po (to_context_by_scope topo), w) (\<lambda>inputs w.
     st_bind (decision_stage sv cfg inputs w) (\<lambda>decisions w.
       (Inr \<lparr>sg_evidence = ev, sg_peak = po, sg_topology = topo, sg_inputs = inputs, sg_decisions = decisions\<rparr>, w)))))))"

text \<open>The body of the cycle's \<open>try\<close>: the decisions of the cycle, empty when a stage failed.\<close>

definition cycle_body ::
  "('r, 's, 'w) hot_services \<Rightarrow> hot_config \<Rightarrow> hot_cycle \<Rightarrow> ('r, 's, 'w) hot_world \<Rightarrow>
   (scope, action_decision list) pydict \<times> ('r, 's, 'w) hot_world" where
  "cycle_body sv cfg cy w = (case run_stages sv cfg cy w of
       (Inl e, w1) \<Rightarrow> ([], w1)
     | (Inr sg, w1) \<Rightarrow>
         (sg_decisions sg,
          process_scopes (process_case sv cfg cy (sg_evidence sg) (sg_peak sg) (sg_topology sg)) (sg_inputs sg) (sg_decisions sg) w1))"

section \<open>The loop\<close>

definition degraded_mode_stage :: "('r, 's, 'w) hot_services \<Rightarrow> hot_cycle \<Rightarrow> ('r, 's, 'w) hot_world \<Rightarrow> unit result \<times> ('r, 's, 'w) hot_world" where
  "degraded_mode_stage sv cy w =
     (case emit_redis_degraded_mode_events (sv_http sv) (cy_clock cy) (Some (hw_dedupe w)) (cy_now cy) (ew_alerts (hw_evidence w))
             (ew_health (hw_evidence w)) (Some (hw_slack w)) (hw_outside w) of
        (res, reg, sl, ox) \<Rightarrow>
          (rbind res (\<lambda>_. Inr ()),
           w\<lparr>hw_evidence := (hw_evidence w)\<lparr>ew_health := reg\<rparr>, hw_slack := (case sl of Some c \<Rightarrow> c | None \<Rightarrow> hw_slack w), hw_outside := ox\<rparr>))"

record cycle_report =
  cr_decisions :: "(scope, action_decision list) pydict"
  cr_produced_cases :: nat
  cr_sleep_seconds :: pyfloat

text \<open>An error outside the \<open>try\<close> ends the loop, and the process with it.\<close>

definition hot_path_cycle ::
  "('r, 's, 'w) hot_services \<Rightarrow> hot_config \<Rightarrow> hot_cycle \<Rightarrow> ('r, 's, 'w) hot_world \<Rightarrow> cycle_report result \<times> ('r, 's, 'w) hot_world" where
  "hot_path_cycle sv cfg cy w =
     st_bind (evaluate_scheduler_tick (ew_alerts (hw_evidence w)) (cy_now cy) (hw_previous_boundary w) (hc_interval_seconds cfg), w) (\<lambda>tick w.
     case cycle_body sv cfg cy (w\<lparr>hw_previous_boundary := Some (tk_expected_boundary tick)\<rparr>) of (decisions, w1) \<Rightarrow>
     st_bind (degraded_mode_stage sv cy w1) (\<lambda>_ w.
     st_bind (next_interval_boundary (cy_now cy) (hc_interval_seconds cfg), w) (\<lambda>boundary w.
       (Inr \<lparr>cr_decisions = decisions, cr_produced_cases = sum_list (map (length \<circ> snd) decisions),
             cr_sleep_seconds = py_max (Fin 0) [total_seconds (boundary - cy_clock cy)]\<rparr>, w))))"

text \<open>The loop over the cycles it meets; it returns only by an error.\<close>

fun hot_path_loop ::
  "('r, 's, 'w) hot_services \<Rightarrow> hot_config \<Rightarrow> hot_cycle list \<Rightarrow> ('r, 's, 'w) hot_world \<Rightarrow> cycle_report list result \<times> ('r, 's, 'w) hot_world" where
  "hot_path_loop sv cfg [] w = (Inr [], w)"
| "hot_path_loop sv cfg (cy # cys) w =
     st_bind (hot_path_cycle sv cfg cy w) (\<lambda>rep w. st_bind (hot_path_loop sv cfg cys w) (\<lambda>reps w. (Inr (rep # reps), w)))"

end
