(* ===== verification/Hot_Path_Sample.thy ===== *)
theory Hot_Path_Sample
  imports Hot_Path
begin

text \<open>
  A cycle to run the loop on: one topic whose traffic has dropped, a registry that knows it, an empty bucket and an empty outbox, with the
  outputs its stages produce.
\<close>

definition sample_hot_registry :: registry where
  "sample_hot_registry = sample_registry\<lparr>rg_streams_by_id := [(''s1'', sample_stream\<lparr>st_criticality_tier := Some ''TIER_0'',
     st_instances := [sample_instance\<lparr>si_shared_components := [], si_sources := [], si_sinks := []\<rparr>]\<rparr>)]\<rparr>"

definition sample_services :: "(sim_redis, sim_s3, unit) hot_services" where
  "sample_services = \<lparr>sv_float_of_string = (\<lambda>_. None), sv_render = (\<lambda>_. []), sv_dumps = (\<lambda>_. []), sv_yaml_load = sample_yaml,
     sv_search = (\<lambda>_ _. False), sv_sha256_hex = sample_digest, sv_codecs = sample_codecs, sv_encode_findings = (\<lambda>_. []),
     sv_decode_findings = (\<lambda>_. Inr []), sv_cache_get = (\<lambda>r _. (Inr None, r)), sv_cache_set = (\<lambda>r _ _ _. (Inr (), r)),
     sv_redis_get = sim_get, sv_redis_set = sim_set, sv_put = bucket_put, sv_get = bucket_get, sv_http = (\<lambda>w _ _. (Inr (), w))\<rparr>"

definition sample_hot_config :: hot_config where
  "sample_hot_config = \<lparr>hc_interval_seconds = 300,
     hc_metric_queries = [(''topic_messages_in_per_sec'', \<lparr>mq_metric_name = ''in'', mq_role = ''r''\<rparr>),
       (''total_produce_requests_per_sec'', \<lparr>mq_metric_name = ''produce'', mq_role = ''r''\<rparr>)],
     hc_peak_policy = sample_policy, hc_rulebook = rulebook_v1, hc_redis_ttl_policy = sample_ttls, hc_metrics_version = ''1.0.0'',
     hc_denylist = sample_denylist\<rparr>"

definition sample_hot_cycle :: hot_cycle where
  "sample_hot_cycle =
     (let row = (\<lambda>v. \<lparr>rs_labels = Some [(''env'', ''prod''), (''cluster_name'', ''c1''), (''topic'', ''orders'')], rs_value = Some (JFloat (Fin v))\<rparr>)
      in \<lparr>cy_now = 3, cy_clock = 3, cy_query = (\<lambda>name. Samples (if name = ''in'' then [row 60, row 0] else [row 200])),
          cy_stat_mtime = Inr 7, cy_file = sample_file ''k1'', cy_tx_aborts = False\<rparr>)"

definition sample_hot_world :: "(sim_redis, sim_s3, unit) hot_world" where
  "sample_hot_world = \<lparr>hw_previous_boundary = None, hw_prior_sustained = None, hw_dedupe = sample_store,
     hw_evidence = \<lparr>ew_health = [], ew_alerts = None\<rparr>,
     hw_loader = \<lparr>rl_config = sample_loader_config, rl_snapshot = Some \<lparr>sp_registry = sample_hot_registry,
       sp_metadata = \<lparr>md_source_path = ''registry.yaml'', md_source_mtime_ns = 7, md_input_version = 2, md_canonical_version = 1, md_loaded_at = 0\<rparr>\<rparr>\<rparr>,
     hw_store = sample_bucket [], hw_rows = [], hw_faults = [], hw_pd = \<lparr>pd_mode = MODE_LIVE, pd_routing_key = Some ''key'', pd_mock_send_count = 0\<rparr>,
     hw_slack = \<lparr>sl_mode = MODE_LIVE, sl_webhook_url = Some ''hook'', sl_mock_send_count = 0\<rparr>,
     hw_outside = \<lparr>ox_http = (), ox_log = [], ox_posts = []\<rparr>\<rparr>"

definition drop_scope :: scope where
  "drop_scope = [''prod'', ''c1'', ''orders'']"

definition drop_row :: "string \<Rightarrow> rat \<Rightarrow> evidence_row" where
  "drop_row k v = \<lparr>er_metric_key = k, er_value = Fin v, er_labels = [(''env'', ''prod''), (''cluster_name'', ''c1''), (''topic'', ''orders''),
     (''cluster_id'', ''c1'')], er_scope = drop_scope\<rparr>"

definition drop_finding :: finding where
  "drop_finding = \<lparr>fi_finding_id = ''VOLUME_DROP:prod|c1|orders'', fi_name = ''volume_drop'', fi_is_anomalous = True,
     fi_evidence_required = [''topic_messages_in_per_sec'', ''total_produce_requests_per_sec''], fi_allowed = [], fi_is_primary = Some True,
     fi_severity = Some ''MEDIUM'', fi_reason_codes = [''EXPECTED_INGRESS_BUT_LOW_TRAFFIC'', ''VOLUME_DROP_VS_BASELINE'']\<rparr>"

definition drop_statuses :: status_map where
  "drop_statuses = [(''topic_messages_in_per_sec'', PRESENT), (''total_produce_requests_per_sec'', PRESENT)]"

definition drop_evidence :: evidence_stage_output where
  "drop_evidence = \<lparr>eo_rows = [drop_row ''topic_messages_in_per_sec'' 60, drop_row ''topic_messages_in_per_sec'' 0,
       drop_row ''total_produce_requests_per_sec'' 200],
     eo_anomaly_result = mk_anomaly_detection_result [volume_drop_finding drop_scope], eo_gate_findings_by_scope = [(drop_scope, [drop_finding])],
     eo_evidence_status_map_by_scope = [(drop_scope, drop_statuses)], eo_telemetry_degraded_active = False, eo_telemetry_degraded_events = [],
     eo_max_safe_action = None\<rparr>"

definition drop_peak :: peak_stage_output where
  "drop_peak = \<lparr>po_profiles_by_scope = [],
     po_classifications_by_scope = [(drop_scope, classify_scope drop_scope (Some (Fin 60)) None (Some PRESENT))],
     po_peak_context_by_scope = [(drop_scope, peak_context_of (classify_scope drop_scope (Some (Fin 60)) None (Some PRESENT)))],
     po_evidence_status_map_by_scope = [(drop_scope, drop_statuses)],
     po_sustained_by_key = [((''prod'', ''c1'', ''topic:orders'', ''VOLUME_DROP''),
       \<lparr>ss_identity_key = (''prod'', ''c1'', ''topic:orders'', ''VOLUME_DROP''), ss_is_sustained = False, ss_consecutive_anomalous_buckets = 1,
        ss_required_buckets = 5, ss_last_evaluated_at = 3,
        ss_reason_codes = [''ANOMALOUS_INTERVAL'', ''STREAK_STARTED'', ''SUSTAINED_THRESHOLD_NOT_MET'']\<rparr>)]\<rparr>"

definition drop_topology :: topology_stage_output where
  "drop_topology = \<lparr>to_context_by_scope = [(drop_scope, \<lparr>cx_stream_id = ''s1'', cx_topic_role = SHARED_TOPIC, cx_criticality_tier = TIER_0,
       cx_source_system = None, cx_proposed_action = OBSERVE, cx_diagnosis_confidence = Fin 0, cx_partition_count_observed = None,
       cx_case_id = None, cx_decision_basis = None\<rparr>)],
     to_impact_by_scope = [(drop_scope, \<lparr>ti_blast_radius = ''SHARED_KAFKA_INGESTION'', ti_downstream_impacts = []\<rparr>)],
     to_routing_by_scope = [(drop_scope, \<lparr>tx_lookup_level = ''platform_default'', tx_routing_key = ''platform'', tx_owning_team_id = ''p'',
       tx_owning_team_name = ''P'', tx_support_channel = None, tx_escalation_policy_ref = None, tx_service_now_assignment_group = None\<rparr>)],
     to_unresolved_by_scope = []\<rparr>"

definition drop_input :: gate_input where
  "drop_input = \<lparr>gi_env = PROD_ENV, gi_cluster_id = ''c1'', gi_stream_id = ''s1'', gi_topic = ''orders'', gi_topic_role = SHARED_TOPIC,
     gi_anomaly_family = VOLUME_DROP, gi_criticality_tier = TIER_0, gi_proposed_action = OBSERVE, gi_diagnosis_confidence = Fin 0,
     gi_sustained = False, gi_findings = [drop_finding], gi_evidence_status_map = drop_statuses,
     gi_action_fingerprint = ''prod/c1/s1/SHARED_TOPIC/orders/VOLUME_DROP/TIER_0'', gi_consumer_group = None,
     gi_partition_count_observed = None, gi_peak = Some False, gi_case_id = None, gi_decision_basis = None\<rparr>"

definition drop_decision :: action_decision where
  "drop_decision = \<lparr>ad_final_action = OBSERVE, ad_env_cap_applied = False, ad_gate_rule_ids = expected_gate_order, ad_gate_reason_codes = [],
     ad_action_fingerprint = ''prod/c1/s1/SHARED_TOPIC/orders/VOLUME_DROP/TIER_0'', ad_postmortem_required = False, ad_postmortem_mode = None,
     ad_postmortem_reason_codes = []\<rparr>"

section \<open>The stages\<close>

lemma drop_evidence_stage:
  "run_evidence_stage_cycle (\<lambda>_. None) (\<lambda>_. []) (\<lambda>_. Inr []) (\<lambda>r _. (Inr None, r)) (\<lambda>r _ _ _. (Inr (), r)) 3 (cy_query sample_hot_cycle)
     (hc_metric_queries sample_hot_config) 3 (Some sample_ttls) (Some (ds_redis sample_store)) \<lparr>ew_health = [], ew_alerts = None\<rparr> =
     (Inr drop_evidence, Some (ds_redis sample_store), \<lparr>ew_health = [], ew_alerts = None\<rparr>)"
  by code_simp

lemma drop_peak_stage: "run_peak_stage_cycle drop_evidence [] None 3 sample_policy rulebook_v1 = Inr drop_peak"
  by code_simp

lemma drop_topology_stage: "run_topology_stage_cycle (\<lambda>_. []) (\<lambda>_. []) drop_evidence sample_hot_registry = Inr drop_topology"
  by code_simp

lemma drop_inputs_stage:
  "run_gate_input_stage_cycle drop_evidence drop_peak (to_context_by_scope drop_topology) = Inr [(drop_scope, [drop_input])]"
  by code_simp

lemma drop_decision_stage:
  "run_gate_decision_stage_cycle (store_is_duplicate sim_get) (store_remember sim_set) [(drop_scope, [drop_input])] rulebook_v1 (Some sample_store) =
     (Inr [(drop_scope, [drop_decision])], Some sample_store)"
  by code_simp

section \<open>The case\<close>

definition drop_ready :: ready_casefile where
  "drop_ready = \<lparr>rc_case_id = ''case-prod-c1-t1-222222222222'', rc_object_path = ''cases/case-prod-c1-t1-222222222222/triage.json'',
     rc_triage_hash = tg_triage_hash (sample_sealed 3)\<rparr>"

lemma drop_assembled:
  "assemble_casefile_triage_stage sample_digest (\<lambda>_ _. False) sample_codecs 3 drop_scope drop_evidence drop_peak drop_topology drop_input drop_decision
     rulebook_v1 ''1.0.0'' sample_denylist ''v1'' None None = Inr (sample_sealed 3)"
  by code_simp

lemma drop_persisted:
  "fst (persist_casefile_and_prepare_outbox_ready bucket_put bucket_get sample_digest sample_codecs (sample_sealed 3) (sample_bucket [])) = Inr drop_ready"
  by code_simp

lemma drop_inserted:
  "insert_pending_object False 3 None drop_ready None [] [] = (Inr (new_outbox_record PENDING_OBJECT drop_ready 3), [new_outbox_record PENDING_OBJECT drop_ready 3])"
  by code_simp

section \<open>The cycle\<close>

lemmas drop_world_defs = sample_services_def sample_hot_config_def sample_hot_world_def

lemma drop_stages:
  "\<exists>w. run_stages sample_services sample_hot_config sample_hot_cycle (sample_hot_world\<lparr>hw_previous_boundary := b\<rparr>) =
     (Inr \<lparr>sg_evidence = drop_evidence, sg_peak = drop_peak, sg_topology = drop_topology, sg_inputs = [(drop_scope, [drop_input])],
        sg_decisions = [(drop_scope, [drop_decision])]\<rparr>, w) \<and>
     hw_store w = sample_bucket [] \<and> hw_rows w = [] \<and> hw_faults w = [] \<and> hw_dedupe w = sample_store \<and>
     hw_evidence w = \<lparr>ew_health = [], ew_alerts = None\<rparr>"
proof -
  have cy: "cy_now sample_hot_cycle = 3" "cy_clock sample_hot_cycle = 3" "cy_stat_mtime sample_hot_cycle = Inr 7" by (simp_all add: sample_hot_cycle_def Let_def)
  have ev: "run_evidence_stage_cycle (\<lambda>_. None) (\<lambda>_. []) (\<lambda>_. Inr []) (\<lambda>r _. (Inr None, r)) (\<lambda>r _ _ _. (Inr (), r)) 3 (cy_query sample_hot_cycle)
     [(''topic_messages_in_per_sec'', \<lparr>mq_metric_name = ''in'', mq_role = ''r''\<rparr>),
      (''total_produce_requests_per_sec'', \<lparr>mq_metric_name = ''produce'', mq_role = ''r''\<rparr>)] 3 (Some sample_ttls) (Some (ds_redis sample_store))
     \<lparr>ew_health = [], ew_alerts = None\<rparr> = (Inr drop_evidence, Some (ds_redis sample_store), \<lparr>ew_health = [], ew_alerts = None\<rparr>)"
    using drop_evidence_stage by (simp add: sample_hot_config_def)
  show ?thesis
    by (simp add: run_stages_def reload_stage_def reload_if_changed_def get_snapshot_def evidence_stage_def peak_stage_def decision_stage_def
        drop_world_defs cy ev drop_peak_stage drop_topology_stage drop_inputs_stage drop_decision_stage)
qed

lemma drop_cycle:
  "\<exists>rep w. hot_path_cycle sample_services sample_hot_config sample_hot_cycle sample_hot_world = (Inr rep, w) \<and>
     cr_decisions rep = [(drop_scope, [drop_decision])] \<and> hw_rows w = [new_outbox_record PENDING_OBJECT drop_ready 3]"
proof -
  let ?sv = sample_services and ?cfg = sample_hot_config and ?cy = sample_hot_cycle and ?b = "Some 0"
  have t: "evaluate_scheduler_tick None 3 None 300 = Inr \<lparr>tk_expected_boundary = 0, tk_actual_fire_time = 3, tk_drift_seconds = 0, tk_missed_intervals = 0\<rparr>"
    by code_simp
  obtain w1 where st: "run_stages ?sv ?cfg ?cy (sample_hot_world\<lparr>hw_previous_boundary := ?b\<rparr>) =
     (Inr \<lparr>sg_evidence = drop_evidence, sg_peak = drop_peak, sg_topology = drop_topology, sg_inputs = [(drop_scope, [drop_input])],
        sg_decisions = [(drop_scope, [drop_decision])]\<rparr>, w1)"
    and w1: "hw_store w1 = sample_bucket []" "hw_rows w1 = []" "hw_faults w1 = []" "hw_dedupe w1 = sample_store"
      "hw_evidence w1 = \<lparr>ew_health = [], ew_alerts = None\<rparr>"
    using drop_stages by blast
  have cy: "cy_now ?cy = 3" "cy_clock ?cy = 3" "\<not> cy_tx_aborts ?cy" by (simp_all add: sample_hot_cycle_def Let_def)
  obtain s where p: "persist_casefile_and_prepare_outbox_ready bucket_put bucket_get sample_digest sample_codecs (sample_sealed 3) (sample_bucket []) = (Inr drop_ready, s)"
    using drop_persisted by (metis prod.collapse)
  let ?w2 = "w1\<lparr>hw_store := s, hw_rows := [new_outbox_record PENDING_OBJECT drop_ready 3]\<rparr>"
  have c: "process_case ?sv ?cfg ?cy drop_evidence drop_peak drop_topology drop_scope drop_input drop_decision w1 =
      (Inr (), dispatch_case ?sv ?cfg (tg_case_id (sample_sealed 3)) drop_decision (dict_get (to_routing_by_scope drop_topology) drop_scope) ?w2)"
    using w1 p cy drop_assembled drop_inserted
    by (simp add: process_case_def persist_case_def insert_case_def take_fault_def sample_services_def sample_hot_config_def)
  let ?w3 = "dispatch_case ?sv ?cfg (tg_case_id (sample_sealed 3)) drop_decision (dict_get (to_routing_by_scope drop_topology) drop_scope) ?w2"
  have "gi_action_fingerprint drop_input = ad_action_fingerprint drop_decision" by (simp add: drop_input_def drop_decision_def)
  then have b: "cycle_body ?sv ?cfg ?cy (sample_hot_world\<lparr>hw_previous_boundary := ?b\<rparr>) = ([(drop_scope, [drop_decision])], ?w3)"
    by (simp add: cycle_body_def st c)
  have w3: "hw_rows ?w3 = [new_outbox_record PENDING_OBJECT drop_ready 3]" "hw_dedupe ?w3 = sample_store" "hw_evidence ?w3 = \<lparr>ew_health = [], ew_alerts = None\<rparr>"
    using w1 by (simp_all add: dispatch_case_def split: prod.splits)
  then have "\<exists>w. degraded_mode_stage ?sv ?cy ?w3 = (Inr (), w) \<and> hw_rows w = hw_rows ?w3"
    by (simp add: degraded_mode_stage_def emit_redis_degraded_mode_events_def sample_store_def new_dedupe_store_def health_get_def)
  then obtain w4 where d: "degraded_mode_stage ?sv ?cy ?w3 = (Inr (), w4)" "hw_rows w4 = hw_rows ?w3" by blast
  have n: "next_interval_boundary 3 300 = Inr (seconds 300)" by code_simp
  have "evaluate_scheduler_tick (ew_alerts (hw_evidence sample_hot_world)) (cy_now ?cy) (hw_previous_boundary sample_hot_world) (hc_interval_seconds ?cfg) =
      Inr \<lparr>tk_expected_boundary = 0, tk_actual_fire_time = 3, tk_drift_seconds = 0, tk_missed_intervals = 0\<rparr>"
    using t cy by (simp add: sample_hot_world_def sample_hot_config_def)
  then show ?thesis using b d n cy w3(1) by (simp add: hot_path_cycle_def) (simp add: sample_hot_config_def)
qed

end
