(* ===== verification/Hot_Path_Properties.thy ===== *)
theory Hot_Path_Properties
  imports Hot_Path_Sample
begin

text \<open>
  Properties of the hot-path loop: what it can decide and post, that the rows it writes are backed by stored case files, that no
  failure of a service ends it, and what the outbox publisher gets to see of its work.
\<close>

section \<open>Specification side\<close>

text \<open>A decision nobody is told about.\<close>

definition quiet :: "action_decision \<Rightarrow> bool" where
  "quiet d = (ad_final_action d = OBSERVE \<and> \<not> ad_postmortem_required d)"

definition all_decisions :: "(action_decision \<Rightarrow> bool) \<Rightarrow> (scope, action_decision list) pydict \<Rightarrow> bool" where
  "all_decisions P ds = list_all (\<lambda>x. list_all P (snd x)) ds"

text \<open>A row whose case file is stored where the row says, verifies, and is the one of the row.\<close>

definition row_backed :: "(string \<Rightarrow> string) \<Rightarrow> casefile_codecs \<Rightarrow> (string \<Rightarrow> string option) \<Rightarrow> outbox_record \<Rightarrow> bool" where
  "row_backed sha256_hex cds v r = (\<exists>p c. v (or_casefile_object_path r) = Some p \<and> validate_casefile_triage_json sha256_hex cds p = Inr c \<and>
     tg_case_id c = or_case_id r \<and> tg_triage_hash c = or_triage_hash r)"

text \<open>What the stages leave alone.\<close>

definition stages_frame :: "('r, 's, 'w) hot_world \<Rightarrow> ('r, 's, 'w) hot_world \<Rightarrow> bool" where
  "stages_frame w w' = (hw_store w' = hw_store w \<and> hw_rows w' = hw_rows w \<and> hw_faults w' = hw_faults w \<and> hw_pd w' = hw_pd w \<and>
     hw_slack w' = hw_slack w \<and> hw_outside w' = hw_outside w \<and> hw_previous_boundary w' = hw_previous_boundary w)"

definition policy_of :: "('r, 's, 'w) hot_world \<Rightarrow> alert_policy option" where
  "policy_of w = map_option av_policy (ew_alerts (hw_evidence w))"

text \<open>
  Both processes on one bucket and one outbox table: cycles of the hot path, whatever they meet, and iterations of the publisher.
\<close>

inductive pipeline_run ::
  "('r, 's, 'w) hot_services \<Rightarrow> hot_config \<Rightarrow> 'k publish_events \<Rightarrow> (string \<Rightarrow> nat list) \<Rightarrow> triage_excerpt model_codec \<Rightarrow> outbox_worker \<Rightarrow>
   ('r, 's, 'w) hot_world \<Rightarrow> 'k bus \<Rightarrow> bool"
  for sv cfg send sha256 xcd wk where
  run_start: "\<lbrakk>hw_rows w = []; bus_offered b = []\<rbrakk> \<Longrightarrow> pipeline_run sv cfg send sha256 xcd wk w b"
| run_cycle: "\<lbrakk>pipeline_run sv cfg send sha256 xcd wk w b; hot_path_cycle sv cfg cy (w\<lparr>hw_faults := faults\<rparr>) = (res, w')\<rbrakk> \<Longrightarrow>
    pipeline_run sv cfg send sha256 xcd wk w' b"
| run_publisher: "\<lbrakk>pipeline_run sv cfg send sha256 xcd wk w b;
    run_once (sv_get sv) send (sv_search sv) (sv_sha256_hex sv) sha256 (sv_codecs sv) xcd wk clock now
      \<lparr>ww_store = hw_store w, ww_rows = hw_rows w, ww_faults = faults, ww_bus = b, ww_samples = latencies\<rparr> = (res', ww)\<rbrakk> \<Longrightarrow>
    pipeline_run sv cfg send sha256 xcd wk (w\<lparr>hw_store := ww_store ww, hw_rows := ww_rows ww\<rparr>) (ww_bus ww)"

section \<open>Decisions\<close>

lemma topology_contexts_observe:
  assumes "run_topology_stage_cycle rend dumps ev rg = Inr topo" "dict_get (to_context_by_scope topo) sc = Some cx"
  shows "cx_proposed_action cx = OBSERVE"
proof -
  have i: "stage_inv rend dumps rg (fst ` set (eo_gate_findings_by_scope ev)) topo"
    using topology_stage_inv [of rend dumps ev rg] assms(1) by auto
  show ?thesis
    using assms(2) i [unfolded stage_inv_def, rule_format, of sc]
    by (auto simp: scope_placed_def scope_resolved_def scope_unresolved_def scope_absent_def split: if_splits)
qed

lemma classify_without_profile: "\<not> pc_is_peak_window (classify_scope sc v None st)"
  by (simp add: classify_scope_def split: option.splits)

lemma no_history_no_peak:
  assumes "run_peak_stage_cycle ev [] prior now policy rb = Inr po" "peak_flag_of po pk"
  shows "pk \<noteq> Some True"
proof -
  have c: "\<not> pc_is_peak_window c" if "classify_known_scope vals [] sts policy now sc = Inr (sc', p, c)" for vals sts sc sc' p c
    using that classify_without_profile by (auto simp: classify_known_scope_def build_peak_profile_def finite_sorted_def)
  from assms(1) obtain rs vals scopes sts where rs: "rmap_list (classify_known_scope vals [] sts policy now) scopes = Inr rs"
    and po: "po_peak_context_by_scope po = map (\<lambda>(sc, p, c). (sc, peak_context_of c)) rs"
    by (auto simp: run_peak_stage_cycle_def collect_peak_stage_output_def split: prod.splits elim!: rbind_InrE)
  have "\<forall>(sc, p, x) \<in> set rs. \<not> pc_is_peak_window x"
    using rs unfolding rmap_list_Inr by (induction rule: list_all2_induct) (auto dest: c)
  then show ?thesis using assms(2) by (fastforce simp: peak_flag_of_def po peak_context_of_def dest!: map_of_SomeD)
qed

lemma cap_observe: "cap_action_to_max_safe OBSERVE m = OBSERVE"
  using cap_action_to_max_safe_le(1) [of OBSERVE m] by (cases "cap_action_to_max_safe OBSERVE m") (simp_all add: less_eq_action_def)

lemma hot_inputs_observe:
  assumes "run_topology_stage_cycle rend dumps ev rg = Inr topo" "run_peak_stage_cycle ev [] prior now policy rb = Inr po"
    and "run_gate_input_stage_cycle ev po (to_context_by_scope topo) = Inr inputs"
  shows "all_inputs (\<lambda>gi. gi_proposed_action gi = OBSERVE \<and> gi_peak gi \<noteq> Some True) inputs"
proof -
  let ?ctxs = "to_context_by_scope topo"
  have cx: "cx_proposed_action cx = OBSERVE" if "resolve_context_for_scope sc ?ctxs = Some cx" for sc cx
    using that topology_contexts_observe [OF assms(1)] by (auto simp: resolve_context_for_scope_def split: option.splits if_splits)
  have "gi_peak gi = pk" if "assemble_gate_input po' ms ctx sc env topic st pk fs f = Inr gi" for po' ms ctx sc env topic st pk fs f gi
    using that by (auto simp: assemble_gate_input_def mk_gate_input_def split: if_splits elim!: rbind_InrE)
  then show ?thesis
    using assms(3) no_history_no_peak [OF assms(2)]
    unfolding run_gate_input_stage_cycle_def Let_def
    by (elim collect_inputs_inv) (auto simp: assemble_ok(1) cx cap_observe)
qed

lemma evaluate_inputs_all:
  assumes "evaluate_gate_inputs is_dup rem rb gis store = (Inr ds, store')"
    and "\<And>gi st d st'. \<lbrakk>gi \<in> set gis; evaluate_rulebook_gates is_dup rem gi rb st = (Inr d, st')\<rbrakk> \<Longrightarrow> Q d"
  shows "list_all Q ds"
  using assms
proof (induction gis arbitrary: store ds)
  case (Cons gi gis)
  then obtain d st1 ds' where e: "evaluate_rulebook_gates is_dup rem gi rb store = (Inr d, st1)"
    and r: "evaluate_gate_inputs is_dup rem rb gis st1 = (Inr ds', store')" and ds: "ds = d # ds'"
    by (auto split: prod.splits sum.splits)
  have "Q d" using Cons.prems(2) e by auto
  moreover have "list_all Q ds'" by (rule Cons.IH [OF r]) (use Cons.prems(2) in auto)
  ultimately show ?case by (simp add: ds)
qed simp

lemma evaluate_scopes_all:
  assumes "evaluate_scopes is_dup rem rb items acc store = (Inr res, store')" "all_decisions Q acc"
    and "\<And>sc gis gi st d st'. \<lbrakk>(sc, gis) \<in> set items; gi \<in> set gis; evaluate_rulebook_gates is_dup rem gi rb st = (Inr d, st')\<rbrakk> \<Longrightarrow> Q d"
  shows "all_decisions Q res"
  using assms
proof (induction items arbitrary: acc store)
  case (Cons it items)
  obtain sc gis where it: "it = (sc, gis)" by (cases it)
  with Cons.prems(1) obtain ds st1 where e: "evaluate_gate_inputs is_dup rem rb gis store = (Inr ds, st1)"
    and r: "evaluate_scopes is_dup rem rb items (dict_set acc sc ds) st1 = (Inr res, store')"
    by (auto split: prod.splits sum.splits)
  have "list_all Q ds" by (rule evaluate_inputs_all [OF e], rule Cons.prems(3) [of sc gis]) (simp_all add: it)
  then have "all_decisions Q (dict_set acc sc ds)"
    using Cons.prems(2) unfolding all_decisions_def by (intro list_all_dict_set) simp_all
  then show ?case by (rule Cons.IH [OF r]) (meson Cons.prems(3) list.set_intros(2))
qed simp

text \<open>Nothing above OBSERVE is proposed and no input is in a peak window, so every decision is quiet.\<close>

lemma v1_quiet:
  assumes "evaluate_rulebook_gates is_dup rem gi rulebook_v1 store = (Inr d, store')" "gi_proposed_action gi = OBSERVE" "gi_peak gi \<noteq> Some True"
  shows "quiet d"
proof -
  have "ad_final_action d \<le> OBSERVE" using env_cap_respected(1) [OF assms(1)] assms(2) by simp
  then have "ad_final_action d = OBSERVE" by (cases "ad_final_action d") (simp_all add: less_eq_action_def)
  moreover have "ad_postmortem_required d = v1_postmortem gi" using v1_evaluate [of is_dup rem gi store] assms(1) by auto
  ultimately show ?thesis using assms(3) by (simp add: quiet_def v1_postmortem_def)
qed

lemma decisions_quiet:
  assumes "run_gate_decision_stage_cycle is_dup rem inputs rulebook_v1 store = (Inr ds, store')"
    and "all_inputs (\<lambda>gi. gi_proposed_action gi = OBSERVE \<and> gi_peak gi \<noteq> Some True) inputs"
  shows "all_decisions quiet ds"
proof (rule evaluate_scopes_all)
  show "evaluate_scopes is_dup rem rulebook_v1 (sort_key fst inputs) [] store = (Inr ds, store')"
    using assms(1) by (simp add: run_gate_decision_stage_cycle_def evaluate_rulebook_gate_inputs_by_scope_def)
qed (use assms(2) v1_quiet in \<open>fastforce simp: all_decisions_def all_inputs_def\<close>)+

section \<open>Stages\<close>

lemma stages_frame_refl [simp]: "stages_frame w w" by (simp add: stages_frame_def)

lemma stages_frame_trans: "\<lbrakk>stages_frame a b; stages_frame b c\<rbrakk> \<Longrightarrow> stages_frame a c" by (simp add: stages_frame_def)

lemma reload_stage_frame: "reload_stage sv cy w = (r, w') \<Longrightarrow> stages_frame w w' \<and> policy_of w' = policy_of w"
  by (auto simp: reload_stage_def stages_frame_def policy_of_def split: prod.splits)

lemma record_outage_policy: "map_option av_policy (ew_alerts (snd (record_outage b w))) = map_option av_policy (ew_alerts w)"
proof (cases "ew_alerts w")
  case (Some av)
  then show ?thesis using record_prometheus_frame [of b av]
    by (cases "record_prometheus_unavailability b av") (simp add: record_outage_def)
qed (simp add: record_outage_def)

lemma telemetry_policy:
  "telemetry_transition clock d t w = (r, w') \<Longrightarrow> map_option av_policy (ew_alerts w') = map_option av_policy (ew_alerts w)"
proof -
  have p: "map_option av_policy (ew_alerts w2) = map_option av_policy (ew_alerts v)" if "record_outage b v = (x, w2)" for b v x w2
    using record_outage_policy [of b v] that by simp
  assume "telemetry_transition clock d t w = (r, w')"
  then show ?thesis
    by (auto simp: telemetry_transition_def Let_def st_bind_def split: if_splits prod.splits sum.splits dest!: p)
qed

lemma evidence_stage_frame: "evidence_stage sv cfg cy w = (r, w') \<Longrightarrow> stages_frame w w' \<and> policy_of w' = policy_of w"
  by (auto simp: evidence_stage_def run_evidence_stage_cycle_def stages_frame_def policy_of_def split: prod.splits sum.splits
      dest!: telemetry_policy)

lemma peak_stage_frame: "peak_stage cfg cy ev w = (r, w') \<Longrightarrow> stages_frame w w' \<and> policy_of w' = policy_of w"
  by (auto simp: peak_stage_def stages_frame_def policy_of_def split: sum.splits)

lemma decision_stage_frame: "decision_stage sv cfg inputs w = (r, w') \<Longrightarrow> stages_frame w w' \<and> policy_of w' = policy_of w"
  by (auto simp: decision_stage_def stages_frame_def policy_of_def split: prod.splits)

lemmas stage_frames = reload_stage_frame evidence_stage_frame peak_stage_frame decision_stage_frame

text \<open>Sequencing of steps that keep a reflexive and transitive relation.\<close>

lemma st_bind_keeps:
  assumes "st_bind m f = (r, w')" "\<And>a w1. m = (a, w1) \<Longrightarrow> R w w1" "\<And>x w1 r w'. f x w1 = (r, w') \<Longrightarrow> R w1 w'"
    and "\<And>a b c. \<lbrakk>R a b; R b c\<rbrakk> \<Longrightarrow> R a c"
  shows "R w w'"
  using assms by (cases m; cases "fst m") (auto split: prod.splits sum.splits)

lemma run_stages_frame:
  assumes "run_stages sv cfg cy w = (r, w')"
  shows "stages_frame w w' \<and> policy_of w' = policy_of w"
proof -
  define R :: "('a, 'b, 'c) hot_world \<Rightarrow> ('a, 'b, 'c) hot_world \<Rightarrow> bool" where "R a b = (stages_frame a b \<and> policy_of b = policy_of a)" for a b
  have t: "R a c" if "R a b" "R b c" for a b c using that stages_frame_trans by (auto simp: R_def)
  have f: "R a b" if "reload_stage sv cy a = (x, b)" for a b x using that by (simp add: R_def reload_stage_frame)
  have e: "R a b" if "evidence_stage sv cfg cy a = (x, b)" for a b x using that by (simp add: R_def evidence_stage_frame)
  have p: "R a b" if "peak_stage cfg cy ev a = (x, b)" for a b x ev using that by (simp add: R_def peak_stage_frame)
  have d: "R a b" if "decision_stage sv cfg inputs a = (x, b)" for a b x inputs using that by (simp add: R_def decision_stage_frame)
  have s: "R a b" if "(y, a) = (x, b)" for a b and x y :: "'z result" using that by (simp add: R_def)
  have "R w w'"
    using assms unfolding run_stages_def
    by (elim st_bind_keeps [OF _ _ _ t]) (auto intro: f e p d s)
  then show ?thesis by (simp add: R_def)
qed


section \<open>Cases\<close>

lemma process_decisions_inv:
  assumes "I w" "\<And>gi d w r w'. \<lbrakk>d \<in> set ds; f gi d w = (r, w'); I w\<rbrakk> \<Longrightarrow> I w'"
  shows "I (process_decisions f gis ds w)"
  using assms
proof (induction ds arbitrary: w)
  case (Cons d ds)
  let ?g = "List.find (\<lambda>gi. gi_action_fingerprint gi = ad_action_fingerprint d) gis"
  have "I (case ?g of None \<Rightarrow> w | Some gi \<Rightarrow> snd (f gi d w))"
    using Cons.prems by (cases ?g) (auto, metis list.set_intros(1) prod.collapse)
  then show ?case unfolding process_decisions.simps by (rule Cons.IH) (meson Cons.prems(2) list.set_intros(2))
qed simp

lemma process_scopes_inv:
  assumes "I w" "\<And>sc ds gi d w r w'. \<lbrakk>(sc, ds) \<in> set items; d \<in> set ds; f sc gi d w = (r, w'); I w\<rbrakk> \<Longrightarrow> I w'"
  shows "I (process_scopes f inputs items w)"
  using assms
proof (induction items arbitrary: w)
  case (Cons it items)
  obtain sc ds where it: "it = (sc, ds)" by (cases it)
  let ?w = "process_decisions (f sc) (case dict_get inputs sc of Some gis \<Rightarrow> gis | None \<Rightarrow> []) ds w"
  have "I ?w" by (rule process_decisions_inv, rule Cons.prems(1), rule Cons.prems(2) [of sc ds]) (simp_all add: it)
  then show ?case unfolding it process_scopes.simps by (rule Cons.IH) (meson Cons.prems(2) list.set_intros(2))
qed simp

lemma take_fault_frame: "take_fault w = (f, w1) \<Longrightarrow> \<exists>fs. w1 = w\<lparr>hw_faults := fs\<rparr>"
  by (cases "hw_faults w") (auto simp: take_fault_def intro: exI [of _ "[]"])

text \<open>A case runs through its steps as far as they succeed.\<close>

lemma process_case_cases:
  assumes "process_case sv cfg cy ev po topo sc gi d w = (r, w')"
  obtains (unassembled) "w' = w"
  | (assembled) c pr s where
      "assemble_casefile_triage_stage (sv_sha256_hex sv) (sv_search sv) (sv_codecs sv) (cy_clock cy) sc ev po topo gi d
         (hc_rulebook cfg) (hc_metrics_version cfg) (hc_denylist cfg) ''v1'' None None = Inr c"
      "persist_casefile_and_prepare_outbox_ready (sv_put sv) (sv_get sv) (sv_sha256_hex sv) (sv_codecs sv) c (hw_store w) = (pr, s)"
      "\<not> is_ok pr" "w' = w\<lparr>hw_store := s\<rparr>"
  | (persisted) c ready s fault w1 ir rows where
      "assemble_casefile_triage_stage (sv_sha256_hex sv) (sv_search sv) (sv_codecs sv) (cy_clock cy) sc ev po topo gi d
         (hc_rulebook cfg) (hc_metrics_version cfg) (hc_denylist cfg) ''v1'' None None = Inr c"
      "persist_casefile_and_prepare_outbox_ready (sv_put sv) (sv_get sv) (sv_sha256_hex sv) (sv_codecs sv) c (hw_store w) = (Inr ready, s)"
      "take_fault (w\<lparr>hw_store := s\<rparr>) = (fault, w1)"
      "insert_pending_object (cy_tx_aborts cy) (cy_clock cy) fault ready None (hw_rows w) (hw_rows w) = (ir, rows)"
      "w' = (if is_ok ir then dispatch_case sv cfg (tg_case_id c) d (dict_get (to_routing_by_scope topo) sc) (w1\<lparr>hw_rows := rows\<rparr>)
             else w1\<lparr>hw_rows := rows\<rparr>)"
proof -
  let ?a = "assemble_casefile_triage_stage (sv_sha256_hex sv) (sv_search sv) (sv_codecs sv) (cy_clock cy) sc ev po topo gi d
         (hc_rulebook cfg) (hc_metrics_version cfg) (hc_denylist cfg) ''v1'' None None"
  show thesis
  proof (cases ?a)
    case (Inl e)
    then show thesis using assms unassembled by (simp add: process_case_def)
  next
    case (Inr c)
    obtain pr s where p: "persist_casefile_and_prepare_outbox_ready (sv_put sv) (sv_get sv) (sv_sha256_hex sv) (sv_codecs sv) c (hw_store w) = (pr, s)"
      by force
    show thesis
    proof (cases pr)
      case (Inl e)
      then show thesis using assms assembled [OF Inr p] p \<open>?a = Inr c\<close> by (simp add: process_case_def persist_case_def)
    next
      case (Inr ready)
      obtain fault w1 where f: "take_fault (w\<lparr>hw_store := s\<rparr>) = (fault, w1)" by force
      then have rows: "hw_rows w1 = hw_rows w" using take_fault_frame by fastforce
      obtain ir rs where i: "insert_pending_object (cy_tx_aborts cy) (cy_clock cy) fault ready None (hw_rows w) (hw_rows w) = (ir, rs)"
        by force
      have "w' = (if is_ok ir then dispatch_case sv cfg (tg_case_id c) d (dict_get (to_routing_by_scope topo) sc) (w1\<lparr>hw_rows := rs\<rparr>)
             else w1\<lparr>hw_rows := rs\<rparr>)"
        using assms p \<open>?a = Inr c\<close> Inr f i rows
        by (cases ir) (simp_all add: process_case_def persist_case_def insert_case_def)
      then show thesis using persisted [OF \<open>?a = Inr c\<close> _ f i] p Inr by blast
    qed
  qed
qed

text \<open>Quiet decisions are logged and nothing else.\<close>

lemma quiet_dispatch:
  assumes "quiet d"
  shows "dispatch_action http search rend dl cid d routing pd sl w =
    (pd, sl, log_event ''action_dispatched'' (dispatch_log cid d (case routing of Some r \<Rightarrow> tx_routing_key r | None \<Rightarrow> ''unknown'') (pd_mode pd) @
       [(''outcome'', JStr ''no_pd_trigger'')]) w)"
  using assms by (simp add: dispatch_action_def quiet_def Let_def)

definition quiet_frame :: "('r, 's, 'w) hot_world \<Rightarrow> ('r, 's, 'w) hot_world \<Rightarrow> bool" where
  "quiet_frame w w' = (hw_slack w' = hw_slack w \<and> hw_pd w' = hw_pd w \<and> ox_posts (hw_outside w') = ox_posts (hw_outside w) \<and>
     hw_dedupe w' = hw_dedupe w \<and> hw_evidence w' = hw_evidence w)"

lemma process_case_quiet:
  assumes "process_case sv cfg cy ev po topo sc gi d w = (r, w')" "quiet d"
  shows "quiet_frame w w'"
  using assms(1)
proof (cases rule: process_case_cases)
  case (persisted c ready s fault w1 ir rows)
  then show ?thesis
    using take_fault_frame [OF persisted(3)] by (auto simp: quiet_frame_def dispatch_case_def quiet_dispatch [OF assms(2)])
qed (simp_all add: quiet_frame_def)

text \<open>Whatever the decision, a case never touches the evaluators or the dedupe store.\<close>

lemma process_case_evidence:
  assumes "process_case sv cfg cy ev po topo sc gi d w = (r, w')"
  shows "hw_evidence w' = hw_evidence w"
  using assms
proof (cases rule: process_case_cases)
  case (persisted c ready s fault w1 ir rows)
  then show ?thesis
    using take_fault_frame [OF persisted(3)] by (auto simp: dispatch_case_def split: prod.splits)
qed simp_all

lemma cycle_body_policy:
  assumes "cycle_body sv cfg cy w = (ds, w')"
  shows "policy_of w' = policy_of w"
proof (cases "run_stages sv cfg cy w")
  case (Pair r w1)
  show ?thesis
  proof (cases r)
    case (Inl e)
    then show ?thesis using assms Pair run_stages_frame [OF Pair] by (simp add: cycle_body_def)
  next
    case (Inr sg)
    let ?f = "process_case sv cfg cy (sg_evidence sg) (sg_peak sg) (sg_topology sg)"
    have "hw_evidence (process_scopes ?f (sg_inputs sg) (sg_decisions sg) w1) = hw_evidence w1"
      by (rule process_scopes_inv) (auto dest: process_case_evidence)
    then show ?thesis using assms Pair Inr run_stages_frame [OF Pair] by (auto simp: cycle_body_def policy_of_def)
  qed
qed

lemma run_stages_quiet:
  assumes "run_stages sv cfg cy w = (Inr sg, w')" "hc_rulebook cfg = rulebook_v1"
  shows "all_decisions quiet (sg_decisions sg)"
proof -
  from assms(1) obtain rg ev po topo inputs w0 w1 w2 w3 w4 ds where
    "evidence_stage sv cfg cy w0 = (Inr ev, w1)" and t: "run_topology_stage_cycle (sv_render sv) (sv_dumps sv) ev rg = Inr topo"
    and p: "peak_stage cfg cy ev w1 = (Inr po, w2)"
    and g: "run_gate_input_stage_cycle ev po (to_context_by_scope topo) = Inr inputs"
    and d: "decision_stage sv cfg inputs w3 = (Inr ds, w4)" and sg: "sg_decisions sg = ds"
    by (auto simp: run_stages_def st_bind_Inr)
  from p obtain prior where "run_peak_stage_cycle ev [] prior (cy_now cy) (hc_peak_policy cfg) (hc_rulebook cfg) = Inr po"
    by (auto simp: peak_stage_def split: sum.splits)
  note i = hot_inputs_observe [OF t this g]
  from d obtain store where "run_gate_decision_stage_cycle (store_is_duplicate (sv_redis_get sv)) (store_remember (sv_redis_set sv)) inputs
      rulebook_v1 (Some (hw_dedupe w3)) = (Inr ds, store)"
    using assms(2) by (auto simp: decision_stage_def split: prod.splits)
  from decisions_quiet [OF this i] show ?thesis by (simp add: sg)
qed

lemma cycle_body_quiet:
  assumes "cycle_body sv cfg cy w = (ds, w')" "hc_rulebook cfg = rulebook_v1"
  shows "all_decisions quiet ds \<and> hw_slack w' = hw_slack w \<and> ox_posts (hw_outside w') = ox_posts (hw_outside w)"
proof (cases "run_stages sv cfg cy w")
  case (Pair r w1)
  note fr = run_stages_frame [OF Pair]
  show ?thesis
  proof (cases r)
    case (Inl e)
    then show ?thesis using assms(1) Pair fr by (auto simp: cycle_body_def all_decisions_def stages_frame_def)
  next
    case (Inr sg)
    note q = run_stages_quiet [OF Pair [unfolded Inr] assms(2)]
    let ?f = "process_case sv cfg cy (sg_evidence sg) (sg_peak sg) (sg_topology sg)"
    have "quiet_frame w1 (process_scopes ?f (sg_inputs sg) (sg_decisions sg) w1)"
    proof (rule process_scopes_inv)
      show "quiet_frame w1 w1" by (simp add: quiet_frame_def)
      show "quiet_frame w1 v'" if "(sc, ds) \<in> set (sg_decisions sg)" "d \<in> set ds" "?f sc gi d v = (r, v')" "quiet_frame w1 v" for sc ds gi d v r v'
      proof -
        have "quiet d" using q that(1,2) by (fastforce simp: all_decisions_def list_all_iff)
        with process_case_quiet [OF that(3)] that(4) show ?thesis by (simp add: quiet_frame_def)
      qed
    qed
    then show ?thesis using assms(1) Pair Inr fr q by (auto simp: cycle_body_def stages_frame_def quiet_frame_def)
  qed
qed

section \<open>Posts\<close>

text \<open>At most \<open>n\<close> requests left the process, all of them to the Slack webhook.\<close>

definition slack_only :: "nat \<Rightarrow> ('r, 's, 'w) hot_world \<Rightarrow> ('r, 's, 'w) hot_world \<Rightarrow> bool" where
  "slack_only n w w' = (sl_webhook_url (hw_slack w') = sl_webhook_url (hw_slack w) \<and>
     (\<exists>posts. ox_posts (hw_outside w') = ox_posts (hw_outside w) @ posts \<and> length posts \<le> n \<and>
        list_all (\<lambda>post. sl_webhook_url (hw_slack w) = Some (fst post)) posts))"

lemma slack_only_trans: "\<lbrakk>slack_only m a b; slack_only n b c\<rbrakk> \<Longrightarrow> slack_only (m + n) a c"
  unfolding slack_only_def
proof (elim conjE exE, intro conjI exI)
  fix p q
  assume "ox_posts (hw_outside b) = ox_posts (hw_outside a) @ p" "ox_posts (hw_outside c) = ox_posts (hw_outside b) @ q"
  then show "ox_posts (hw_outside c) = ox_posts (hw_outside a) @ p @ q" by simp
qed simp_all

lemma slack_deliver_url:
  "slack_deliver http a b ids msg c w = (r, c', w') \<Longrightarrow> r = Inr () \<and> sl_webhook_url c' = sl_webhook_url c \<and>
     (\<exists>posts. ox_posts w' = ox_posts w @ posts \<and> length posts \<le> 1 \<and> list_all (\<lambda>post. sl_webhook_url c = Some (fst post)) posts)"
  by (auto simp: slack_deliver_def split: if_splits option.splits)

lemma send_degraded_url:
  "send_degraded_mode_event http e c w = (r, c', w') \<Longrightarrow> r = Inr () \<and> sl_webhook_url c' = sl_webhook_url c \<and>
     (\<exists>posts. ox_posts w' = ox_posts w @ posts \<and> length posts \<le> 1 \<and> list_all (\<lambda>post. sl_webhook_url c = Some (fst post)) posts)"
  by (auto simp: send_degraded_mode_event_def split: if_splits dest!: slack_deliver_url)

lemma degraded_stage_posts:
  assumes "degraded_mode_stage sv cy w = (r, w')"
  shows "slack_only 1 w w' \<and> policy_of w' = policy_of w \<and> hw_rows w' = hw_rows w \<and> hw_store w' = hw_store w"
  using assms
  by (auto simp: degraded_mode_stage_def emit_redis_degraded_mode_events_def slack_only_def policy_of_def Let_def
      split: if_splits sum.splits option.splits prod.splits dest!: send_degraded_url)

text \<open>A cycle is its body between the tick and the degraded-mode events.\<close>

lemma cycle_cases:
  assumes "hot_path_cycle sv cfg cy w = (res, w')"
  obtains (dead) e where "res = Inl e" "w' = w"
      "evaluate_scheduler_tick (ew_alerts (hw_evidence w)) (cy_now cy) (hw_previous_boundary w) (hc_interval_seconds cfg) = Inl e"
  | (ran) tick ds w1 dr where
      "evaluate_scheduler_tick (ew_alerts (hw_evidence w)) (cy_now cy) (hw_previous_boundary w) (hc_interval_seconds cfg) = Inr tick"
      "cycle_body sv cfg cy (w\<lparr>hw_previous_boundary := Some (tk_expected_boundary tick)\<rparr>) = (ds, w1)"
      "degraded_mode_stage sv cy w1 = (dr, w')" "\<And>rep. res = Inr rep \<Longrightarrow> cr_decisions rep = ds"
      "is_ok res = (is_ok dr \<and> is_ok (next_interval_boundary (cy_now cy) (hc_interval_seconds cfg)))"
proof (cases "evaluate_scheduler_tick (ew_alerts (hw_evidence w)) (cy_now cy) (hw_previous_boundary w) (hc_interval_seconds cfg)")
  case (Inl e)
  then show thesis using assms dead by (auto simp: hot_path_cycle_def)
next
  case (Inr tick)
  obtain ds w1 where b: "cycle_body sv cfg cy (w\<lparr>hw_previous_boundary := Some (tk_expected_boundary tick)\<rparr>) = (ds, w1)" by force
  obtain dr w2 where d: "degraded_mode_stage sv cy w1 = (dr, w2)" by force
  have "w2 = w' \<and> (\<forall>rep. res = Inr rep \<longrightarrow> cr_decisions rep = ds) \<and>
      is_ok res = (is_ok dr \<and> is_ok (next_interval_boundary (cy_now cy) (hc_interval_seconds cfg)))"
    using assms Inr b d
    by (cases dr; cases "next_interval_boundary (cy_now cy) (hc_interval_seconds cfg)") (auto simp: hot_path_cycle_def)
  then show thesis using ran [OF Inr b] d by blast
qed

lemma cycle_quiet:
  assumes "hot_path_cycle sv cfg cy w = (res, w')" "hc_rulebook cfg = rulebook_v1"
  shows "slack_only 1 w w' \<and> (\<forall>rep. res = Inr rep \<longrightarrow> all_decisions quiet (cr_decisions rep))"
  using assms(1)
proof (cases rule: cycle_cases)
  case dead
  then show ?thesis by (simp add: slack_only_def)
next
  case (ran tick ds w1 dr)
  from cycle_body_quiet [OF ran(2) assms(2)] degraded_stage_posts [OF ran(3)] ran(4) show ?thesis by (simp add: slack_only_def)
qed

lemma loop_quiet:
  assumes "hot_path_loop sv cfg cys w = (res, w')" "hc_rulebook cfg = rulebook_v1"
  shows "slack_only (length cys) w w' \<and> (\<forall>reps. res = Inr reps \<longrightarrow> list_all (\<lambda>rep. all_decisions quiet (cr_decisions rep)) reps)"
  using assms(1)
proof (induction cys arbitrary: w res)
  case Nil
  then show ?case by (auto simp: slack_only_def)
next
  case (Cons cy cys)
  obtain r1 w1 where c: "hot_path_cycle sv cfg cy w = (r1, w1)" by force
  note q = cycle_quiet [OF c assms(2)]
  show ?case
  proof (cases r1)
    case (Inl e)
    then have "res = Inl e" "w' = w1" using Cons.prems c by simp_all
    then show ?thesis using q slack_only_trans [of 1 w w1 "length cys" w1] by (simp add: slack_only_def)
  next
    case (Inr rep)
    obtain r2 w2 where l: "hot_path_loop sv cfg cys w1 = (r2, w2)" by force
    have "w2 = w'" and r: "res = rbind r2 (\<lambda>reps. Inr (rep # reps))" using Cons.prems c Inr l by (cases r2; auto)+
    with Cons.IH [OF l [unfolded \<open>w2 = w'\<close>]] q Inr slack_only_trans [of 1 w w1 "length cys" w'] show ?thesis by (auto elim!: rbind_InrE)
  qed
qed

section \<open>Rows\<close>

lemma insert_pending_rows:
  assumes "insert_pending_object ab clock fault c now snap tbl = (res, tbl')" "tbl' \<noteq> tbl"
  shows "\<exists>t. tbl' = tbl @ [new_outbox_record PENDING_OBJECT c t]"
proof -
  from insert_change [OF assms] obtain row where i: "tbl_insert or_case_id tbl row = Some tbl'" "create_pending_outbox_record clock c now = Inr row" .
  then obtain t where "row = new_outbox_record PENDING_OBJECT c t"
    by (auto simp: create_pending_outbox_record_def validate_outbox_record_def elim!: rbind_InrE split: if_splits)
  then show ?thesis using i(1) by (auto simp: tbl_insert_def split: if_splits)
qed

text \<open>Rows are only appended, and what is appended satisfies \<open>P\<close>.\<close>

definition appends :: "(outbox_record \<Rightarrow> bool) \<Rightarrow> outbox_record list \<Rightarrow> outbox_record list \<Rightarrow> bool" where
  "appends P old new = (\<exists>rs. new = old @ rs \<and> list_all P rs)"

lemma appends_refl [simp]: "appends P xs xs" by (simp add: appends_def)

lemma appends_trans: "\<lbrakk>appends P a b; appends P b c\<rbrakk> \<Longrightarrow> appends P a c"
  by (auto simp: appends_def)

lemma appends_mono: "\<lbrakk>appends P a b; \<And>r. P r \<Longrightarrow> Q r\<rbrakk> \<Longrightarrow> appends Q a b"
  unfolding appends_def by (blast intro: list.pred_mono_strong)

lemma process_case_pending:
  assumes "process_case sv cfg cy ev po topo sc gi d w = (r, w')"
  shows "appends (\<lambda>r. or_status r = PENDING_OBJECT) (hw_rows w) (hw_rows w')"
  using assms
proof (cases rule: process_case_cases)
  case (persisted c ready s fault w1 ir rows)
  have "hw_rows w' = rows" using persisted(5) by (auto simp: dispatch_case_def split: prod.splits if_splits)
  then show ?thesis using insert_pending_rows [OF persisted(4)]
    by (cases "rows = hw_rows w") (auto simp: appends_def new_outbox_record_def)
qed simp_all

text \<open>The case files behind them; \<open>carried\<close> as in \<open>sealed_model\<close>.\<close>

definition reads_carried :: "(string \<Rightarrow> string) \<Rightarrow> casefile_codecs \<Rightarrow> (casefile_triage \<Rightarrow> bool) \<Rightarrow> bool" where
  "reads_carried sha256_hex cds carried =
     (\<forall>c c'. validate_casefile_triage_json sha256_hex cds (mc_dump_json (cd_triage cds) c) = Inr c' \<longrightarrow> carried c')"

lemma row_backed_mono: "\<lbrakk>row_backed sha256_hex cds v r; v \<subseteq>\<^sub>m v'\<rbrakk> \<Longrightarrow> row_backed sha256_hex cds v' r"
  unfolding row_backed_def map_le_def by (metis domI)

lemma persisted_backed:
  assumes "object_store put get view"
    and "sealed_model sha256_hex (cd_triage cds) validate_casefile_triage ''triage_hash'' tg_triage_hash (\<lambda>c h. c\<lparr>tg_triage_hash := h\<rparr>) carried"
    and "carried c" "persist_casefile_and_prepare_outbox_ready put get sha256_hex cds c s = (Inr ready, s')"
  shows "row_backed sha256_hex cds (view s') (new_outbox_record st ready t)"
proof -
  note w = confirmed_ready [OF assms(1,4)]
  then have "validate_casefile_triage_json sha256_hex cds (mc_dump_json (cd_triage cds) c) = Inr c"
    using sealed_model.sealed_text_reads_back [OF assms(2,3)]
    by (simp add: validate_casefile_triage_json_def compute_casefile_triage_hash_def)
  with w show ?thesis by (auto simp: row_backed_def new_outbox_record_def)
qed

lemma persist_view_le:
  "\<lbrakk>object_store put get view; persist_casefile_and_prepare_outbox_ready put get sha256_hex cds c s = (r, s')\<rbrakk> \<Longrightarrow> view s \<subseteq>\<^sub>m view s'"
  by (drule (1) persist_ready_effect) (auto simp: map_le_def)

lemma process_case_backed:
  assumes "process_case sv cfg cy ev po topo sc gi d w = (r, w')"
    and "object_store (sv_put sv) (sv_get sv) view"
    and "sealed_model (sv_sha256_hex sv) (cd_triage (sv_codecs sv)) validate_casefile_triage ''triage_hash'' tg_triage_hash (\<lambda>c h. c\<lparr>tg_triage_hash := h\<rparr>) carried"
    and "reads_carried (sv_sha256_hex sv) (sv_codecs sv) carried"
  shows "view (hw_store w) \<subseteq>\<^sub>m view (hw_store w') \<and>
    appends (row_backed (sv_sha256_hex sv) (sv_codecs sv) (view (hw_store w'))) (hw_rows w) (hw_rows w')"
  using assms(1)
proof (cases rule: process_case_cases)
  case (assembled c pr s)
  then show ?thesis using persist_view_le [OF assms(2) assembled(2)] by simp
next
  case (persisted c ready s fault w1 ir rows)
  have w: "hw_rows w' = rows" "hw_store w' = s"
    using persisted(5) take_fault_frame [OF persisted(3)] by (auto simp: dispatch_case_def split: prod.splits if_splits)
  have "carried c" using persisted(1) assms(4)
    by (auto simp: assemble_casefile_triage_stage_def reads_carried_def elim!: rbind_InrE)
  from persisted_backed [OF assms(2,3) this persisted(2)] insert_pending_rows [OF persisted(4)] persist_view_le [OF assms(2) persisted(2)]
  show ?thesis by (cases "rows = hw_rows w") (auto simp: w appends_def)
qed simp

text \<open>Lifting to cycles: a relation every case and the steps around the cases keep.\<close>

lemma cycle_body_keeps:
  assumes "cycle_body sv cfg cy w = (ds, w')"
    and "\<And>w1. \<lbrakk>hw_store w1 = hw_store w; hw_rows w1 = hw_rows w\<rbrakk> \<Longrightarrow> R w w1" "\<And>a b c. \<lbrakk>R a b; R b c\<rbrakk> \<Longrightarrow> R a c"
    and "\<And>ev po topo sc gi d v r v'. process_case sv cfg cy ev po topo sc gi d v = (r, v') \<Longrightarrow> R v v'"
  shows "R w w'"
proof (cases "run_stages sv cfg cy w")
  case (Pair r w1)
  then have "R w w1" using run_stages_frame [OF Pair] assms(2) by (simp add: stages_frame_def)
  moreover have "R w (process_scopes (process_case sv cfg cy ev po topo) inputs items w1)" for ev po topo inputs items
    by (rule process_scopes_inv [of "R w"]) (use \<open>R w w1\<close> assms(3,4) in blast)+
  ultimately show ?thesis using assms(1) Pair by (auto simp: cycle_body_def split: sum.splits)
qed

lemma cycle_keeps:
  assumes "hot_path_cycle sv cfg cy w = (res, w')"
    and frame: "\<And>v v1. \<lbrakk>hw_store v1 = hw_store v; hw_rows v1 = hw_rows v\<rbrakk> \<Longrightarrow> R v v1" and trans: "\<And>a b c. \<lbrakk>R a b; R b c\<rbrakk> \<Longrightarrow> R a c"
    and step: "\<And>ev po topo sc gi d v r v'. process_case sv cfg cy ev po topo sc gi d v = (r, v') \<Longrightarrow> R v v'"
  shows "R w w'"
  using assms(1)
proof (cases rule: cycle_cases)
  case dead
  then show ?thesis using frame by simp
next
  case (ran tick ds w1 dr)
  let ?w = "w\<lparr>hw_previous_boundary := Some (tk_expected_boundary tick)\<rparr>"
  have "R w ?w" by (rule frame) simp_all
  moreover have "R ?w w1" by (rule cycle_body_keeps [OF ran(2) frame trans step])
  moreover have "R w1 w'" by (rule frame) (use degraded_stage_posts [OF ran(3)] in simp_all)
  ultimately show ?thesis by (blast intro: trans)
qed

lemma cycle_pending:
  assumes "hot_path_cycle sv cfg cy w = (res, w')"
  shows "appends (\<lambda>r. or_status r = PENDING_OBJECT) (hw_rows w) (hw_rows w')"
  using assms by (rule cycle_keeps) (auto intro: appends_trans process_case_pending)

lemma cycle_backed:
  assumes "hot_path_cycle sv cfg cy w = (res, w')"
    and "object_store (sv_put sv) (sv_get sv) view"
    and "sealed_model (sv_sha256_hex sv) (cd_triage (sv_codecs sv)) validate_casefile_triage ''triage_hash'' tg_triage_hash (\<lambda>c h. c\<lparr>tg_triage_hash := h\<rparr>) carried"
    and "reads_carried (sv_sha256_hex sv) (sv_codecs sv) carried"
  shows "view (hw_store w) \<subseteq>\<^sub>m view (hw_store w') \<and>
    appends (row_backed (sv_sha256_hex sv) (sv_codecs sv) (view (hw_store w'))) (hw_rows w) (hw_rows w')"
  using assms(1)
proof (rule cycle_keeps)
  fix a b c :: "('a, 'b, 'c) hot_world"
  let ?P = "\<lambda>v. row_backed (sv_sha256_hex sv) (sv_codecs sv) (view (hw_store v))"
  assume ab: "view (hw_store a) \<subseteq>\<^sub>m view (hw_store b) \<and> appends (?P b) (hw_rows a) (hw_rows b)"
    and bc: "view (hw_store b) \<subseteq>\<^sub>m view (hw_store c) \<and> appends (?P c) (hw_rows b) (hw_rows c)"
  have "appends (?P c) (hw_rows a) (hw_rows b)" using ab bc by (blast intro: appends_mono row_backed_mono)
  then show "view (hw_store a) \<subseteq>\<^sub>m view (hw_store c) \<and> appends (?P c) (hw_rows a) (hw_rows c)"
    using ab bc by (blast intro: appends_trans map_le_trans)
qed (simp, rule process_case_backed [OF _ assms(2-4)])

section \<open>Survival\<close>

text \<open>A loaded policy whose Redis rule carries the severity the evaluator asks for.\<close>

definition loop_policy :: "alert_policy \<Rightarrow> bool" where
  "loop_policy p = (validate_alert_policy p = Inr p \<and> ru_severity (ap_redis_connection_loss p) = SEV_CRITICAL)"

lemma severity_labels_ok:
  assumes "is_ok (validate_severity_labels rs)"
  shows "\<exists>x. evaluate_thresholds observed th rs m = Inr x"
  using assms
  by (auto simp: validate_severity_labels_def evaluate_thresholds_def resolve_severity_def rule_for_severity_def build_evaluation_def is_ok_iff
      elim!: rbind_InrE split: option.splits if_splits)

lemma loop_policy_drift:
  assumes "loop_policy (av_policy av)" "0 \<le> d" "d < 2 ^ 53"
  shows "\<exists>x. evaluate_scheduler_drift av d = Inr x"
proof -
  have "is_ok (validate_severity_labels (ta_rules (ap_scheduler_interval_drift_seconds (av_policy av))))"
    using assms(1) by (auto simp: loop_policy_def validate_alert_policy_def validate_thresholded_def is_ok_iff elim!: rbind_InrE)
  moreover have "fl_of_int d = Inr (Fin (of_int d))" using assms(2,3) by (simp add: fl_of_int_def)
  ultimately show ?thesis by (simp add: evaluate_scheduler_drift_def severity_labels_ok Let_def)
qed

lemma loop_policy_redis: "loop_policy (av_policy av) \<Longrightarrow> \<exists>x. evaluate_redis_connection av b = Inr x"
  by (simp add: loop_policy_def evaluate_redis_connection_def build_evaluation_def)

lemma tick_total:
  assumes "0 \<le> t" "t < 2 ^ 33 * 1000000" "0 < n" "pred_option (\<lambda>a. loop_policy (av_policy a)) av"
  shows "\<exists>tick. evaluate_scheduler_tick av t prev n = Inr tick"
proof -
  define b where "b = seconds (n * (t div 1000000 div n))"
  have fb: "floor_to_interval_boundary t n = Inr b" using floor_boundary [OF assms(1-3)] by (simp add: b_def)
  have "n * (t div 1000000 div n) \<le> t div 1000000" using assms(3) by (smt (verit) mult_div_mod_eq pos_mod_sign)
  moreover have "0 \<le> n * (t div 1000000 div n)" using assms(1,3) by (simp add: pos_imp_zdiv_nonneg_iff)
  ultimately have "0 \<le> t - b" "t - b < 2 ^ 33 * 1000000" using assms(2) by (auto simp: b_def seconds_def)
  then have "epoch_second (t - b) = (t - b) div 1000000" "0 \<le> (t - b) div 1000000" "(t - b) div 1000000 < 2 ^ 53"
    by (auto simp: epoch_second_floor)
  then show ?thesis using loop_policy_drift [of "the av" "epoch_second (t - b)"] assms(4) fb
    by (cases av) (auto simp: evaluate_scheduler_tick_def Let_def)
qed

lemma emit_redis_total:
  assumes "\<And>a. av = Some a \<Longrightarrow> \<exists>x. evaluate_redis_connection a False = Inr x"
    and "emit_redis_degraded_mode_events http clock (Some st) t av reg (Some sl) ox = (res, out)"
  shows "is_ok res"
proof (cases av)
  case None
  then show ?thesis using assms(2)
    by (auto simp: emit_redis_degraded_mode_events_def Let_def is_ok_iff split: prod.splits if_splits dest!: send_degraded_url)
next
  case (Some a)
  with assms(1) obtain x where "evaluate_redis_connection a False = Inr x" by blast
  with Some show ?thesis using assms(2)
    by (auto simp: emit_redis_degraded_mode_events_def Let_def is_ok_iff split: prod.splits if_splits dest!: send_degraded_url)
qed

lemma degraded_stage_total:
  assumes "pred_option loop_policy (policy_of w)" "degraded_mode_stage sv cy w = (r, w')"
  shows "is_ok r"
proof -
  have "\<And>a. ew_alerts (hw_evidence w) = Some a \<Longrightarrow> \<exists>x. evaluate_redis_connection a False = Inr x"
    using assms(1) by (auto simp: policy_of_def intro: loop_policy_redis)
  from emit_redis_total [OF this] assms(2) show ?thesis
    by (fastforce simp: degraded_mode_stage_def is_ok_iff split: prod.splits)
qed

lemma cycle_survives:
  assumes "0 < hc_interval_seconds cfg" "0 \<le> cy_now cy" "cy_now cy < 2 ^ 33 * 1000000" "pred_option loop_policy (policy_of w)"
  shows "\<exists>rep w'. hot_path_cycle sv cfg cy w = (Inr rep, w') \<and> policy_of w' = policy_of w"
proof -
  obtain res w' where c: "hot_path_cycle sv cfg cy w = (res, w')" by force
  have "pred_option (\<lambda>a. loop_policy (av_policy a)) (ew_alerts (hw_evidence w))"
    using assms(4) by (cases "ew_alerts (hw_evidence w)") (auto simp: policy_of_def)
  from tick_total [OF assms(2,3,1) this] obtain tick where
    t: "evaluate_scheduler_tick (ew_alerts (hw_evidence w)) (cy_now cy) (hw_previous_boundary w) (hc_interval_seconds cfg) = Inr tick" by blast
  have n: "is_ok (next_interval_boundary (cy_now cy) (hc_interval_seconds cfg))"
    using assms(1) by (simp add: next_interval_boundary_def floor_to_interval_boundary_def Let_def is_ok_iff)
  from c show ?thesis
  proof (cases rule: cycle_cases)
    case (dead e)
    then show ?thesis using t by simp
  next
    case (ran tick' ds w1 dr)
    have p: "policy_of w1 = policy_of w" using cycle_body_policy [OF ran(2)] by (simp add: policy_of_def)
    then have "is_ok dr" using degraded_stage_total [OF _ ran(3)] assms(4) by simp
    then have "is_ok res" using ran(5) n by simp
    then show ?thesis using c p degraded_stage_posts [OF ran(3)] by (auto simp: is_ok_iff)
  qed
qed

lemma loop_survives:
  assumes "0 < hc_interval_seconds cfg" "list_all (\<lambda>cy. 0 \<le> cy_now cy \<and> cy_now cy < 2 ^ 33 * 1000000) cys" "pred_option loop_policy (policy_of w)"
  shows "\<exists>reps w'. hot_path_loop sv cfg cys w = (Inr reps, w') \<and> length reps = length cys"
  using assms(2,3)
proof (induction cys arbitrary: w)
  case (Cons cy cys)
  then obtain rep w1 where "hot_path_cycle sv cfg cy w = (Inr rep, w1)" "policy_of w1 = policy_of w"
    using cycle_survives [OF assms(1), of cy w sv] by auto
  with Cons.IH [of w1] Cons.prems show ?case by auto
qed simp

section \<open>With the publisher\<close>

lemma no_pending_selected:
  assumes "select_publishable t fault now n rows = Inr rs" "list_all (\<lambda>r. or_status r = PENDING_OBJECT) rows"
  shows "rs = []"
proof -
  have "filter (is_publishable t') rows = []" for t'
    using assms(2) by (induction rows) (auto simp: is_publishable_def)
  then show ?thesis using assms(1)
    by (auto simp: select_publishable_def read_tx_def split: option.splits elim!: rbind_InrE)
qed

lemma publisher_idle:
  assumes "run_once get send search sha256_hex sha256 cds xcd wk clock now w = (res, w')" "list_all (\<lambda>r. or_status r = PENDING_OBJECT) (ww_rows w)"
  shows "ww_rows w' = ww_rows w \<and> bus_offered (ww_bus w') = bus_offered (ww_bus w)"
  using assms(1)
proof (cases rule: run_once_cases)
  case (rows t fault w1 rs h w2 res2)
  have "rs = []" using no_pending_selected [OF rows(3)] next_tx_fault_frame [OF rows(2)] assms(2) by simp
  then show ?thesis using rows(5) next_tx_fault_frame [OF rows(2)] emit_backlog_frame [OF rows(4)] by simp
qed simp

lemma pipeline_idle:
  assumes "pipeline_run sv cfg send sha256 xcd wk w b"
  shows "list_all (\<lambda>r. or_status r = PENDING_OBJECT) (hw_rows w) \<and> bus_offered b = []"
  using assms
proof (induction rule: pipeline_run.induct)
  case (run_cycle w b cy faults res w')
  then show ?case using cycle_pending [OF run_cycle.hyps(2)] by (auto simp: appends_def)
next
  case (run_publisher w b clock now faults latencies res' ww)
  then show ?case using publisher_idle [OF run_publisher.hyps(2)] by simp
qed simp

lemma sample_loop:
  "\<exists>rep w. hot_path_loop sample_services sample_hot_config [sample_hot_cycle] sample_hot_world = (Inr [rep], w) \<and>
     cr_decisions rep = [(drop_scope, [drop_decision])] \<and> hw_rows w = [new_outbox_record PENDING_OBJECT drop_ready 3]"
  using drop_cycle by auto

lemma sample_hot_rulebook: "hc_rulebook sample_hot_config = rulebook_v1"
  by (simp add: sample_hot_config_def)

lemma sample_reads_carried: "reads_carried sample_digest sample_codecs (sample_carried sample_triage (\<lambda>_. True))"
proof -
  have "is_hex_64 (tg_triage_hash c')" if "validate_casefile_triage_json sample_digest sample_codecs p = Inr c'" for p c'
    using that
    by (auto simp: validate_casefile_triage_json_def validate_sealed_json_def compute_casefile_triage_hash_def compute_casefile_hash_def
        raise_def sample_digest_hex elim!: rbind_InrE split: if_splits)
  moreover have "c' = sample_triage (tg_triage_hash c') (nat (tg_triage_timestamp c'))"
    if "validate_casefile_triage_json sample_digest sample_codecs p = Inr c'" for p c'
    using that by (auto simp: validate_casefile_triage_json_def validate_sealed_json_def model_validate_json_def sample_codecs_def
        sample_triage_codec_def validate_casefile_triage_def raise_def elim!: rbind_InrE split: if_splits)
      (auto simp: sample_triage_def validate_gate_input_def mk_gate_input_def raise_def case_gate_input_def elim!: rbind_InrE split: if_splits)
  ultimately show ?thesis unfolding reads_carried_def sample_carried_def by blast
qed

section \<open>Properties\<close>

text \<open>C20: The wired hot path only observes. Under the shipped rulebook, whatever Prometheus reports and whatever the services do, over any number
  of cycles every decision is OBSERVE without a postmortem, no page is ever triggered, and the only requests sent are degraded-mode
  messages to the Slack webhook, at most one per cycle. (No topology context carries a proposed action, and the loop passes no history to the peak stage.)\<close>

theorem hot_path_only_observes:
  assumes "hot_path_loop sv cfg cys w = (res, w')" "hc_rulebook cfg = rulebook_v1"
  shows "slack_only (length cys) w w' \<and> (\<forall>reps. res = Inr reps \<longrightarrow> list_all (\<lambda>rep. all_decisions quiet (cr_decisions rep)) reps)"
  using assms by (rule loop_quiet)

theorem hot_path_only_observes_witness:
  "\<exists>rep w. hot_path_loop sample_services sample_hot_config [sample_hot_cycle] sample_hot_world = (Inr [rep], w) \<and>
     cr_decisions rep = [(drop_scope, [drop_decision])] \<and> all_decisions quiet (cr_decisions rep) \<and> slack_only 1 sample_hot_world w"
proof -
  obtain rep w where l: "hot_path_loop sample_services sample_hot_config [sample_hot_cycle] sample_hot_world = (Inr [rep], w)"
    "cr_decisions rep = [(drop_scope, [drop_decision])]" using sample_loop by blast
  from hot_path_only_observes [OF l(1) sample_hot_rulebook] l show ?thesis by auto
qed



text \<open>C6: Write-before-publish holds in the composition. For an object store that keeps its contract, a cycle of the hot path never changes or
  removes a stored object or an outbox row; every row it adds is PENDING_OBJECT and names a case file that is stored, verifies
  against its hash, and has the row's identifier and hash.\<close>

theorem hot_path_rows_backed:
  assumes "object_store (sv_put sv) (sv_get sv) view"
    and "sealed_model (sv_sha256_hex sv) (cd_triage (sv_codecs sv)) validate_casefile_triage ''triage_hash'' tg_triage_hash
      (\<lambda>c h. c\<lparr>tg_triage_hash := h\<rparr>) carried"
    and "reads_carried (sv_sha256_hex sv) (sv_codecs sv) carried"
    and "hot_path_cycle sv cfg cy w = (res, w')"
  shows "view (hw_store w) \<subseteq>\<^sub>m view (hw_store w') \<and>
    appends (\<lambda>r. or_status r = PENDING_OBJECT \<and> row_backed (sv_sha256_hex sv) (sv_codecs sv) (view (hw_store w')) r) (hw_rows w) (hw_rows w')"
  using cycle_backed [OF assms(4,1-3)] cycle_pending [OF assms(4)] by (auto simp: appends_def list_all_iff)

theorem hot_path_rows_backed_witness:
  "\<exists>rep w. hot_path_cycle sample_services sample_hot_config sample_hot_cycle sample_hot_world = (Inr rep, w) \<and>
     hw_rows w = [new_outbox_record PENDING_OBJECT drop_ready 3] \<and>
     row_backed sample_digest sample_codecs (stored sim_contents ''casefiles'' (hw_store w)) (new_outbox_record PENDING_OBJECT drop_ready 3)"
proof -
  obtain rep w where c: "hot_path_cycle sample_services sample_hot_config sample_hot_cycle sample_hot_world = (Inr rep, w)"
    "hw_rows w = [new_outbox_record PENDING_OBJECT drop_ready 3]" using drop_cycle by blast
  have sv: "sv_put sample_services = bucket_put" "sv_get sample_services = bucket_get" "sv_sha256_hex sample_services = sample_digest"
    "sv_codecs sample_services = sample_codecs" "hw_rows sample_hot_world = []" by (simp_all add: sample_services_def sample_hot_world_def)
  from hot_path_rows_backed [of sample_services "stored sim_contents ''casefiles''", unfolded sv, OF server_store [OF s3sim.s3_server_axioms]
      triage_seal.sealed_model_axioms sample_reads_carried c(1)] c show ?thesis by (auto simp: appends_def sv)
qed

text \<open>No case ever reaches Kafka. Whatever the two processes meet and however their steps interleave, starting from an empty outbox: no row
  ever leaves PENDING_OBJECT and the publisher never offers an event, because the loop that inserts rows has no step that makes them READY.\<close>

theorem hot_path_never_publishes:
  assumes "pipeline_run sv cfg send sha256 xcd wk w b"
  shows "list_all (\<lambda>r. or_status r = PENDING_OBJECT) (hw_rows w) \<and> bus_offered b = []"
  using assms by (rule pipeline_idle)

theorem hot_path_never_publishes_witness:
  "\<exists>w b. pipeline_run sample_services sample_hot_config sample_send (\<lambda>_. []) sample_excerpt_codec sample_worker w b \<and>
     hw_rows w = [new_outbox_record PENDING_OBJECT drop_ready 3] \<and> bus_offered b = []"
proof -
  let ?run = "pipeline_run sample_services sample_hot_config sample_send (\<lambda>_. []) sample_excerpt_codec sample_worker"
  let ?b = "\<lparr>bus_offered = [], bus_headers = [], bus_state = 0\<rparr>"
  obtain rep w where c: "hot_path_cycle sample_services sample_hot_config sample_hot_cycle sample_hot_world = (Inr rep, w)"
    "hw_rows w = [new_outbox_record PENDING_OBJECT drop_ready 3]" using drop_cycle by blast
  have "?run sample_hot_world ?b" by (rule pipeline_run.run_start) (simp_all add: sample_hot_world_def)
  moreover have "sample_hot_world\<lparr>hw_faults := []\<rparr> = sample_hot_world" by (simp add: sample_hot_world_def)
  ultimately have "?run w ?b" using c(1) by (metis pipeline_run.run_cycle)
  from hot_path_never_publishes [OF this] this c(2) show ?thesis by blast
qed

end
