(* ===== verification/Linkage_State.thy ===== *)
theory Linkage_State
  imports Outbox_State
begin

text \<open>
  The ServiceNow linkage retry record and its state machine: \<open>linkage/schema.py\<close> and
  \<open>linkage/state_machine.py\<close>. As for the outbox, \<open>clock\<close> is what
  \<open>datetime.now(tz=UTC)\<close> would return and \<open>sha256\<close> the digest behind the retry jitter;
  the module's private \<open>_resolve_now\<close> is the outbox one, word for word.

  \<open>linkage_step\<close> is the step relation of the mark functions, where a search starts only when
  \<open>is_retry_due\<close> allows it at a reading of the clock taken before, as the linkage stage does; the invariants bound every retry by the
  record's deadline and the number of attempts by the length of the window.
\<close>

section \<open>Record\<close>

datatype linkage_retry_state = PENDING | SEARCHING | FAILED_TEMP | LINKED | FAILED_FINAL

fun linkage_state_value :: "linkage_retry_state \<Rightarrow> string" where
  "linkage_state_value PENDING = ''PENDING''"
| "linkage_state_value SEARCHING = ''SEARCHING''"
| "linkage_state_value FAILED_TEMP = ''FAILED_TEMP''"
| "linkage_state_value LINKED = ''LINKED''"
| "linkage_state_value FAILED_FINAL = ''FAILED_FINAL''"

record linkage_record =
  lr_case_id :: string
  lr_pd_incident_id :: string
  lr_incident_sys_id :: "string option"
  lr_state :: linkage_retry_state
  lr_attempt_count :: int
  lr_retry_window_minutes :: int
  lr_first_attempt_at :: instant
  lr_updated_at :: instant
  lr_deadline_at :: instant
  lr_next_attempt_at :: "instant option"
  lr_request_id :: "string option"
  lr_last_error_code :: "string option"
  lr_last_error_message :: "string option"
  lr_last_retry_after_seconds :: "int option"
  lr_last_reason_metadata :: "(string, jval) pydict"

definition validate_optional_non_empty :: "string option \<Rightarrow> string option result" where
  "validate_optional_non_empty v = (case v of
       None \<Rightarrow> Inr None
     | Some s \<Rightarrow> if py_strip s = [] then raise ValueError ''optional linkage fields must be non-empty when provided''
                else Inr (Some (py_strip s)))"

definition non_blank :: "string \<Rightarrow> bool" where
  "non_blank s = list_ex (\<lambda>c. \<not> py_isspace c) s"

definition validate_linkage_record :: "linkage_record \<Rightarrow> linkage_record result" where
  "validate_linkage_record r =
     (if \<not> non_blank (lr_case_id r) \<or> \<not> non_blank (lr_pd_incident_id r) then raise ValueError ''identifier fields cannot be blank''
      else if lr_attempt_count r < 0 then raise ValueError ''attempt_count should be greater than or equal to 0''
      else if lr_retry_window_minutes r < 1 then raise ValueError ''retry_window_minutes should be greater than or equal to 1''
      else if lr_updated_at r < lr_first_attempt_at r then raise ValueError ''updated_at must be >= first_attempt_at''
      else if lr_deadline_at r < lr_first_attempt_at r then raise ValueError ''deadline_at must be >= first_attempt_at''
      else if (case lr_last_retry_after_seconds r of None \<Rightarrow> False | Some n \<Rightarrow> n < 1)
      then raise ValueError ''last_retry_after_seconds should be greater than or equal to 1''
      else rbind (validate_optional_non_empty (lr_incident_sys_id r)) (\<lambda>sys.
           rbind (validate_optional_non_empty (lr_request_id r)) (\<lambda>req.
           rbind (validate_optional_non_empty (lr_last_error_code r)) (\<lambda>code.
           rbind (validate_optional_non_empty (lr_last_error_message r)) (\<lambda>msg.
             Inr (r\<lparr>lr_incident_sys_id := sys, lr_request_id := req, lr_last_error_code := code,
                    lr_last_error_message := msg\<rparr>))))))"

section \<open>State machine\<close>

definition create_pending_linkage_retry_record ::
  "instant \<Rightarrow> string \<Rightarrow> string \<Rightarrow> string option \<Rightarrow> int \<Rightarrow> py_datetime option \<Rightarrow> linkage_record result" where
  "create_pending_linkage_retry_record clock case_id pd_incident_id incident_sys_id window now =
     rbind (resolve_now clock now) (\<lambda>t.
       validate_linkage_record
         \<lparr>lr_case_id = case_id, lr_pd_incident_id = pd_incident_id, lr_incident_sys_id = incident_sys_id,
          lr_state = PENDING, lr_attempt_count = 0, lr_retry_window_minutes = window, lr_first_attempt_at = t,
          lr_updated_at = t, lr_deadline_at = t + minutes window, lr_next_attempt_at = None, lr_request_id = None,
          lr_last_error_code = None, lr_last_error_message = None, lr_last_retry_after_seconds = None,
          lr_last_reason_metadata = []\<rparr>)"

definition is_retry_due :: "instant \<Rightarrow> linkage_record \<Rightarrow> py_datetime option \<Rightarrow> bool result" where
  "is_retry_due clock r now = rbind (resolve_now clock now) (\<lambda>t.
     Inr (if lr_state r = FAILED_TEMP then (case lr_next_attempt_at r of None \<Rightarrow> True | Some n \<Rightarrow> n \<le> t)
          else lr_state r \<in> {PENDING, SEARCHING}))"

definition lk_transition_now :: "instant \<Rightarrow> linkage_record \<Rightarrow> py_datetime option \<Rightarrow> instant result" where
  "lk_transition_now clock r now = rbind (resolve_now clock now) (\<lambda>t.
     if t < lr_updated_at r then Inr (lr_updated_at r) else Inr t)"

definition mark_linkage_searching :: "instant \<Rightarrow> linkage_record \<Rightarrow> py_datetime option \<Rightarrow> linkage_record result" where
  "mark_linkage_searching clock r now =
     (if lr_state r \<in> {LINKED, FAILED_FINAL}
      then raise InvariantViolation (''cannot enter SEARCHING from state='' @ linkage_state_value (lr_state r))
      else rbind (lk_transition_now clock r now) (\<lambda>t.
        Inr (r\<lparr>lr_state := SEARCHING, lr_updated_at := t, lr_next_attempt_at := None\<rparr>)))"

text \<open>\<open>a or b\<close> on an optional string: the empty string is falsy.\<close>

definition str_or :: "string option \<Rightarrow> string option \<Rightarrow> string option" where
  "str_or a b = (case a of None \<Rightarrow> b | Some s \<Rightarrow> if s = [] then b else a)"

definition mark_linkage_success ::
  "instant \<Rightarrow> linkage_record \<Rightarrow> string option \<Rightarrow> string option \<Rightarrow> (string, jval) pydict option \<Rightarrow> py_datetime option \<Rightarrow>
   linkage_record result" where
  "mark_linkage_success clock r request_id incident_sys_id reason_metadata now =
     (if lr_state r \<noteq> SEARCHING
      then raise InvariantViolation (''cannot mark linkage success from state='' @ linkage_state_value (lr_state r))
      else rbind (lk_transition_now clock r now) (\<lambda>t.
        Inr (r\<lparr>lr_state := LINKED, lr_attempt_count := lr_attempt_count r + 1, lr_updated_at := t,
               lr_incident_sys_id := str_or incident_sys_id (lr_incident_sys_id r), lr_request_id := request_id,
               lr_next_attempt_at := None, lr_last_error_code := None, lr_last_error_message := None,
               lr_last_retry_after_seconds := None,
               lr_last_reason_metadata := (case reason_metadata of None \<Rightarrow> [] | Some m \<Rightarrow> m)\<rparr>)))"

definition final_failure ::
  "linkage_record \<Rightarrow> instant \<Rightarrow> string option \<Rightarrow> string \<Rightarrow> string \<Rightarrow> int option \<Rightarrow> (string, jval) pydict \<Rightarrow> linkage_record" where
  "final_failure r t request_id code msg retry_after metadata =
     r\<lparr>lr_state := FAILED_FINAL, lr_attempt_count := lr_attempt_count r + 1, lr_updated_at := t,
       lr_request_id := request_id, lr_next_attempt_at := None, lr_last_error_code := Some code,
       lr_last_error_message := Some msg, lr_last_retry_after_seconds := retry_after,
       lr_last_reason_metadata := metadata\<rparr>"

definition mark_linkage_failure ::
  "(string \<Rightarrow> nat list) \<Rightarrow> instant \<Rightarrow> linkage_record \<Rightarrow> bool \<Rightarrow> string \<Rightarrow> string \<Rightarrow> string option \<Rightarrow> int \<Rightarrow> int \<Rightarrow> pyfloat \<Rightarrow>
   int option \<Rightarrow> (string, jval) pydict option \<Rightarrow> py_datetime option \<Rightarrow> linkage_record result" where
  "mark_linkage_failure sha256 clock r transient code msg request_id base_seconds max_seconds ratio retry_after
      reason_metadata now =
     (if lr_state r \<noteq> SEARCHING
      then raise InvariantViolation (''cannot mark linkage failure from state='' @ linkage_state_value (lr_state r))
      else rbind (lk_transition_now clock r now) (\<lambda>t.
        let metadata = (case reason_metadata of None \<Rightarrow> [] | Some m \<Rightarrow> m);
            exhausted = ''retry window exhausted before scheduling next attempt''
        in if \<not> transient then Inr (final_failure r t request_id code msg retry_after metadata)
           else if t \<ge> lr_deadline_at r then
             Inr (final_failure r t request_id ''retry_window_exhausted'' exhausted retry_after
                    (dict_set metadata ''source_error_code'' (JStr code)))
           else rbind (compute_retry_delay_seconds sha256 (lr_case_id r) (lr_attempt_count r + 1) base_seconds max_seconds ratio) (\<lambda>d0.
             let bounded = (case retry_after of Some n \<Rightarrow> if 0 < n then Some (min n max_seconds) else None | None \<Rightarrow> None);
                 delay = (case bounded of Some b \<Rightarrow> max d0 b | None \<Rightarrow> d0);
                 next_at = t + seconds delay
             in if next_at > lr_deadline_at r then
                  Inr (final_failure r t request_id ''retry_window_exhausted'' exhausted bounded
                         (dict_set (dict_set metadata ''source_error_code'' (JStr code))
                            ''source_retry_delay_seconds'' (JInt delay)))
                else Inr (r\<lparr>lr_state := FAILED_TEMP, lr_attempt_count := lr_attempt_count r + 1, lr_updated_at := t,
                            lr_request_id := request_id, lr_next_attempt_at := Some next_at,
                            lr_last_error_code := Some code, lr_last_error_message := Some msg,
                            lr_last_retry_after_seconds := bounded, lr_last_reason_metadata := metadata\<rparr>))))"

section \<open>Step relation\<close>

inductive linkage_step :: "(string \<Rightarrow> nat list) \<Rightarrow> linkage_record \<Rightarrow> linkage_record \<Rightarrow> bool" for sha256 where
  lk_search: "is_retry_due earlier r now = Inr True \<Longrightarrow> earlier \<le> clock \<Longrightarrow> mark_linkage_searching clock r now = Inr r' \<Longrightarrow>
    linkage_step sha256 r r'"
| lk_success: "mark_linkage_success clock r req sys md now = Inr r' \<Longrightarrow> linkage_step sha256 r r'"
| lk_failure: "mark_linkage_failure sha256 clock r transient code msg req b mx ratio ra md now = Inr r' \<Longrightarrow> linkage_step sha256 r r'"

inductive linkage_reachable :: "(string \<Rightarrow> nat list) \<Rightarrow> linkage_record \<Rightarrow> bool" for sha256 where
  lk_created: "create_pending_linkage_retry_record clock cid pd sys window now = Inr r \<Longrightarrow> linkage_reachable sha256 r"
| lk_stepped: "linkage_reachable sha256 r \<Longrightarrow> linkage_step sha256 r r' \<Longrightarrow> linkage_reachable sha256 r'"

definition linkage_invar :: "linkage_record \<Rightarrow> bool" where
  "linkage_invar r =
     (1 \<le> lr_retry_window_minutes r \<and> 0 \<le> lr_attempt_count r \<and> lr_first_attempt_at r \<le> lr_updated_at r \<and>
      lr_deadline_at r = lr_first_attempt_at r + minutes (lr_retry_window_minutes r) \<and>
      (lr_next_attempt_at r \<noteq> None \<longleftrightarrow> lr_state r = FAILED_TEMP) \<and>
      (case lr_next_attempt_at r of
         None \<Rightarrow> True
       | Some t \<Rightarrow> lr_updated_at r < t \<and> t \<le> lr_deadline_at r \<and>
           lr_first_attempt_at r + seconds (lr_attempt_count r) \<le> t) \<and>
      (lr_state r = PENDING \<longrightarrow> lr_attempt_count r = 0) \<and>
      (lr_state r = SEARCHING \<longrightarrow> lr_first_attempt_at r + seconds (lr_attempt_count r) \<le> lr_updated_at r) \<and>
      lr_attempt_count r \<le> 60 * lr_retry_window_minutes r + (if lr_state r \<in> {LINKED, FAILED_FINAL} then 1 else 0))"

section \<open>Lemmas\<close>

lemma lk_now_ge: "lk_transition_now clock r now = Inr t \<Longrightarrow> lr_updated_at r \<le> t"
  by (auto simp: lk_transition_now_def split: if_splits elim!: rbind_InrE)

lemma delay_positive: "compute_retry_delay_seconds sha256 cid n b m ratio = Inr d \<Longrightarrow> 1 \<le> d"
  by (auto simp: compute_retry_delay_seconds_def Let_def split: if_splits elim!: rbind_InrE)

lemma lk_now_ge_now:
  "lk_transition_now clock r now = Inr t \<Longrightarrow> resolve_now earlier now = Inr t0 \<Longrightarrow> earlier \<le> clock \<Longrightarrow> t0 \<le> t"
  by (auto simp: lk_transition_now_def resolve_now_def split: if_splits option.splits py_datetime.splits)

lemma searching_ok:
  assumes "is_retry_due earlier r now = Inr True" "earlier \<le> clock" "mark_linkage_searching clock r now = Inr r'"
  obtains t where "lr_state r \<in> {PENDING, SEARCHING, FAILED_TEMP}" "lr_updated_at r \<le> t"
    "lr_state r = FAILED_TEMP \<Longrightarrow> (case lr_next_attempt_at r of None \<Rightarrow> True | Some n \<Rightarrow> n \<le> t)"
    "r' = r\<lparr>lr_state := SEARCHING, lr_updated_at := t, lr_next_attempt_at := None\<rparr>"
proof -
  from assms(3) obtain t where t: "lk_transition_now clock r now = Inr t" "lr_state r \<notin> {LINKED, FAILED_FINAL}"
    "r' = r\<lparr>lr_state := SEARCHING, lr_updated_at := t, lr_next_attempt_at := None\<rparr>"
    by (auto simp: mark_linkage_searching_def split: if_splits elim!: rbind_InrE)
  from assms(1) obtain t0 where t0: "resolve_now earlier now = Inr t0"
    "lr_state r = FAILED_TEMP \<Longrightarrow> (case lr_next_attempt_at r of None \<Rightarrow> True | Some n \<Rightarrow> n \<le> t0)"
    by (auto simp: is_retry_due_def split: if_splits elim!: rbind_InrE)
  have "lr_state r \<in> {PENDING, SEARCHING, FAILED_TEMP}" using t(2) by (cases "lr_state r") auto
  with t t0 lk_now_ge [OF t(1)] lk_now_ge_now [OF t(1) t0(1) assms(2)] show ?thesis
    by (intro that [of t]) (auto split: option.splits)
qed

lemma success_ok:
  assumes "mark_linkage_success clock r req sys md now = Inr r'"
  obtains t where "lr_state r = SEARCHING" "lr_updated_at r \<le> t" "lr_state r' = LINKED" "lr_updated_at r' = t"
    "lr_attempt_count r' = lr_attempt_count r + 1" "lr_next_attempt_at r' = None" "lr_deadline_at r' = lr_deadline_at r"
    "lr_first_attempt_at r' = lr_first_attempt_at r" "lr_retry_window_minutes r' = lr_retry_window_minutes r"
    "lr_case_id r' = lr_case_id r" "lr_pd_incident_id r' = lr_pd_incident_id r"
  using assms by (auto simp: mark_linkage_success_def split: if_splits elim!: rbind_InrE dest: lk_now_ge)

lemma failure_ok:
  assumes "mark_linkage_failure sha256 clock r tr code msg req b mx ratio ra md now = Inr r'"
  obtains t where "lr_state r = SEARCHING" "lr_updated_at r \<le> t" "lr_updated_at r' = t"
    "lr_attempt_count r' = lr_attempt_count r + 1" "lr_deadline_at r' = lr_deadline_at r"
    "lr_first_attempt_at r' = lr_first_attempt_at r" "lr_retry_window_minutes r' = lr_retry_window_minutes r"
    "lr_case_id r' = lr_case_id r" "lr_pd_incident_id r' = lr_pd_incident_id r"
    "lr_state r' = FAILED_FINAL \<and> lr_next_attempt_at r' = None \<or>
     lr_state r' = FAILED_TEMP \<and> tr \<and> (\<exists>n. lr_next_attempt_at r' = Some n \<and> t + seconds 1 \<le> n \<and> n \<le> lr_deadline_at r)"
proof -
  from assms obtain t where t: "lk_transition_now clock r now = Inr t" and st: "lr_state r = SEARCHING"
    by (auto simp: mark_linkage_failure_def split: if_splits elim!: rbind_InrE)
  note le = lk_now_ge [OF t]
  show ?thesis
  proof (cases "\<not> tr \<or> t \<ge> lr_deadline_at r")
    case True
    with assms t st le show ?thesis
      by (intro that [of t]) (auto simp: mark_linkage_failure_def final_failure_def Let_def split: if_splits)
  next
    case False
    then obtain d0 where d0: "compute_retry_delay_seconds sha256 (lr_case_id r) (lr_attempt_count r + 1) b mx ratio = Inr d0"
      using assms t st by (auto simp: mark_linkage_failure_def Let_def elim!: rbind_InrE)
    have "seconds 1 \<le> seconds (case x of Some y \<Rightarrow> max d0 y | None \<Rightarrow> d0)" for x
      using delay_positive [OF d0] by (auto simp: seconds_def split: option.splits)
    with False assms t st le d0 show ?thesis
      by (intro that [of t]) (auto simp: mark_linkage_failure_def final_failure_def Let_def split: if_splits)
  qed
qed

lemma created_invar: "create_pending_linkage_retry_record clock cid pd sys window now = Inr r \<Longrightarrow> linkage_invar r"
  by (auto simp: create_pending_linkage_retry_record_def validate_linkage_record_def linkage_invar_def
      split: if_splits elim!: rbind_InrE)

lemma linkage_step_invar:
  assumes "linkage_step sha256 r r'" "linkage_invar r"
  shows "linkage_invar r'"
  using assms(1)
proof cases
  case (lk_search earlier now clock)
  then show ?thesis
    by (rule searching_ok) (use assms(2) in \<open>auto simp: linkage_invar_def seconds_def split: option.splits\<close>)
next
  case (lk_success clock req sys md now)
  then show ?thesis by (rule success_ok) (use assms(2) in \<open>auto simp: linkage_invar_def\<close>)
next
  case (lk_failure clock transient code msg req b mx ratio ra md now)
  then show ?thesis
    by (rule failure_ok) (use assms(2) in \<open>auto simp: linkage_invar_def seconds_def minutes_def\<close>)
qed

lemma linkage_reachable_invar: "linkage_reachable sha256 r \<Longrightarrow> linkage_invar r"
  by (induction rule: linkage_reachable.induct) (auto intro: created_invar linkage_step_invar)

lemma linkage_step_frame:
  assumes "linkage_step sha256 r r'"
  shows "lr_case_id r' = lr_case_id r \<and> lr_pd_incident_id r' = lr_pd_incident_id r \<and>
      lr_first_attempt_at r' = lr_first_attempt_at r \<and> lr_deadline_at r' = lr_deadline_at r \<and>
      lr_retry_window_minutes r' = lr_retry_window_minutes r \<and> lr_updated_at r \<le> lr_updated_at r' \<and>
      (lr_state r, lr_state r') \<in> {(PENDING, SEARCHING), (SEARCHING, SEARCHING), (FAILED_TEMP, SEARCHING),
        (SEARCHING, LINKED), (SEARCHING, FAILED_TEMP), (SEARCHING, FAILED_FINAL)}"
  using assms
proof cases
  case lk_search
  then show ?thesis by (rule searching_ok) auto
next
  case lk_success
  then show ?thesis by (rule success_ok) auto
next
  case lk_failure
  then show ?thesis by (rule failure_ok) auto
qed

section \<open>Properties\<close>

text \<open>linkage retries stay inside the window. Every record the state machine reaches keeps its deadline at
  \<open>retry_window_minutes\<close> after the first attempt; it carries a next attempt time exactly in FAILED_TEMP, later than
  the last update and not after the deadline; and since every retry waits at least a second, the number of attempts
  never exceeds the seconds of the window plus one.\<close>

theorem linkage_retries_bounded:
  assumes "linkage_reachable sha256 r"
  shows "lr_deadline_at r = lr_first_attempt_at r + minutes (lr_retry_window_minutes r) \<and>
    (lr_next_attempt_at r \<noteq> None \<longleftrightarrow> lr_state r = FAILED_TEMP) \<and>
    (case lr_next_attempt_at r of None \<Rightarrow> True | Some t \<Rightarrow> lr_updated_at r < t \<and> t \<le> lr_deadline_at r) \<and>
    lr_attempt_count r \<le> 60 * lr_retry_window_minutes r + 1"
  using linkage_reachable_invar [OF assms]
  by (auto simp: linkage_invar_def split: option.splits if_splits)

lemma linkage_retries_bounded_witness:
  "\<exists>r. create_pending_linkage_retry_record 0 ''c1'' ''pd1'' None 120 None = Inr r \<and> lr_attempt_count r \<le> 7201"
proof -
  obtain r where r: "create_pending_linkage_retry_record 0 ''c1'' ''pd1'' None 120 None = Inr r" and "lr_retry_window_minutes r = 120"
    by (simp add: create_pending_linkage_retry_record_def resolve_now_def validate_linkage_record_def non_blank_def
        py_isspace_def validate_optional_non_empty_def minutes_def)
  with linkage_retries_bounded [OF linkage_reachable.lk_created [OF r]] show ?thesis by auto
qed

text \<open>a linkage step keeps the case, the incident, the first attempt and the deadline, never moves
  \<open>updated_at\<close> backward and follows the diagram; in particular LINKED and FAILED_FINAL are final.\<close>

theorem linkage_transition_frame:
  assumes "linkage_step sha256 r r'"
  shows "lr_case_id r' = lr_case_id r \<and> lr_pd_incident_id r' = lr_pd_incident_id r \<and>
    lr_first_attempt_at r' = lr_first_attempt_at r \<and> lr_deadline_at r' = lr_deadline_at r \<and>
    lr_updated_at r \<le> lr_updated_at r' \<and>
    (lr_state r, lr_state r') \<in> {(PENDING, SEARCHING), (SEARCHING, SEARCHING), (FAILED_TEMP, SEARCHING),
      (SEARCHING, LINKED), (SEARCHING, FAILED_TEMP), (SEARCHING, FAILED_FINAL)}"
  using linkage_step_frame [OF assms] by blast

lemma linkage_transition_frame_witness:
  "\<exists>r r'. create_pending_linkage_retry_record 0 ''c1'' ''pd1'' None 120 None = Inr r \<and>
     mark_linkage_searching 5 r None = Inr r' \<and> lr_deadline_at r' = lr_deadline_at r"
proof -
  obtain r where r: "create_pending_linkage_retry_record 0 ''c1'' ''pd1'' None 120 None = Inr r" and st: "lr_state r = PENDING"
    by (simp add: create_pending_linkage_retry_record_def resolve_now_def validate_linkage_record_def non_blank_def
        py_isspace_def validate_optional_non_empty_def minutes_def)
  have due: "is_retry_due 5 r None = Inr True" using st by (simp add: is_retry_due_def resolve_now_def)
  have "is_ok (mark_linkage_searching 5 r None)"
    using st by (simp add: mark_linkage_searching_def lk_transition_now_def resolve_now_def)
  then obtain r' where r': "mark_linkage_searching 5 r None = Inr r'" unfolding is_ok_iff by blast
  from linkage_transition_frame [OF linkage_step.lk_search [OF due order_refl r']] r r' show ?thesis by blast
qed

end
