(* ===== verification/Linkage_Repository.thy ===== *)
theory Linkage_Repository
  imports Linkage_State Guarded_Table
begin

text \<open>
  The durable linkage retry repository (\<open>linkage/repository.py\<close>) over a table of records, with
  the conventions of \<open>Outbox_Repository\<close>: \<open>snap\<close> is what the first SELECT saw, \<open>tbl\<close>
  the table the write meets, \<open>fault\<close> a database error, \<open>tx_aborts\<close> whether the database
  refuses statements after an \<open>IntegrityError\<close>. The metadata column is JSON text: writing and
  reading a record sorts the keys of every dictionary in it (\<open>json_roundtrip\<close>).
\<close>

section \<open>Rows\<close>

primrec json_sorted :: "jval \<Rightarrow> jval" where
  "json_sorted JNull = JNull"
| "json_sorted (JBool b) = JBool b"
| "json_sorted (JInt n) = JInt n"
| "json_sorted (JFloat x) = JFloat x"
| "json_sorted (JStr s) = JStr s"
| "json_sorted (JList vs) = JList (map json_sorted vs)"
| "json_sorted (JDict kvs) = JDict (sort_key fst (map (map_prod id json_sorted) kvs))"

definition json_roundtrip :: "(string, jval) pydict \<Rightarrow> (string, jval) pydict" where
  "json_roundtrip d = sort_key fst (map (map_prod id json_sorted) d)"

text \<open>The update writes every column of the record.\<close>

definition record_to_row :: "linkage_record \<Rightarrow> linkage_record" where
  "record_to_row r = r\<lparr>lr_last_reason_metadata := json_roundtrip (lr_last_reason_metadata r)\<rparr>"

definition lk_write_columns :: "linkage_record \<Rightarrow> linkage_record \<Rightarrow> linkage_record" where
  "lk_write_columns row nxt = record_to_row nxt"

interpretation linkage_tbl: guarded_table lr_case_id lr_state lk_write_columns
  by unfold_locales (simp_all add: lk_write_columns_def record_to_row_def)

definition lk_row_to_record :: "linkage_record \<Rightarrow> linkage_record result" where
  "lk_row_to_record row = validate_linkage_record row"

definition lk_wrap_repo_exc :: "py_exc \<Rightarrow> py_exc" where
  "lk_wrap_repo_exc e = (if exc_type e \<in> {CriticalDependencyError, InvariantViolation} then e
     else Exc CriticalDependencyError (''sn linkage retry repository operation failed: '' @ exc_str e))"

definition lk_run_tx ::
  "string option \<Rightarrow> linkage_record list \<Rightarrow> ('a result \<times> linkage_record list) \<Rightarrow> 'a result \<times> linkage_record list" where
  "lk_run_tx fault tbl body = (case fault of
       Some msg \<Rightarrow> (Inl (lk_wrap_repo_exc (Exc OtherException msg)), tbl)
     | None \<Rightarrow> (case body of
         (Inr x, tbl') \<Rightarrow> (Inr x, tbl')
       | (Inl e, _) \<Rightarrow> (Inl (lk_wrap_repo_exc e), tbl)))"

definition lk_get_row :: "linkage_record list \<Rightarrow> string \<Rightarrow> linkage_record option result" where
  "lk_get_row tbl case_id = (case tbl_get lr_case_id tbl case_id of
       None \<Rightarrow> Inr None
     | Some row \<Rightarrow> rbind (lk_row_to_record row) (\<lambda>r. Inr (Some r)))"

definition lk_require_row :: "linkage_record list \<Rightarrow> string \<Rightarrow> linkage_record result" where
  "lk_require_row tbl case_id = rbind (lk_get_row tbl case_id) (\<lambda>r. case r of
       None \<Rightarrow> raise InvariantViolation (''sn linkage retry record not found for case_id='' @ case_id)
     | Some rec \<Rightarrow> Inr rec)"

definition assert_linkage_identity :: "linkage_record \<Rightarrow> string \<Rightarrow> unit result" where
  "assert_linkage_identity existing pd_incident_id =
     (if lr_pd_incident_id existing \<noteq> pd_incident_id
      then raise InvariantViolation ''existing sn linkage retry case_id has different pd_incident_id'' else Inr ())"

section \<open>Operations\<close>

definition get_or_create_pending ::
  "bool \<Rightarrow> instant \<Rightarrow> string option \<Rightarrow> string \<Rightarrow> string \<Rightarrow> string option \<Rightarrow> int \<Rightarrow> py_datetime option \<Rightarrow>
   linkage_record list \<Rightarrow> linkage_record list \<Rightarrow> linkage_record result \<times> linkage_record list" where
  "get_or_create_pending tx_aborts clock fault case_id pd_incident_id incident_sys_id window now snap tbl =
     (case create_pending_linkage_retry_record clock case_id pd_incident_id incident_sys_id window now of
        Inl e \<Rightarrow> (Inl e, tbl)
      | Inr pending \<Rightarrow> lk_run_tx fault tbl
          (case lk_get_row snap case_id of
             Inl e \<Rightarrow> (Inl e, tbl)
           | Inr (Some existing) \<Rightarrow> (rbind (assert_linkage_identity existing pd_incident_id) (\<lambda>_. Inr existing), tbl)
           | Inr None \<Rightarrow>
               (case tbl_insert lr_case_id tbl (record_to_row pending) of
                  Some tbl' \<Rightarrow> (lk_row_to_record (record_to_row pending), tbl')
                | None \<Rightarrow>
                    if tx_aborts then (raise OtherException ''current transaction is aborted'', tbl)
                    else (rbind (lk_require_row tbl case_id) (\<lambda>raced.
                            rbind (assert_linkage_identity raced pd_incident_id) (\<lambda>_. Inr raced)), tbl))))"

definition persist_transition ::
  "string option \<Rightarrow> string \<Rightarrow> linkage_record \<Rightarrow> linkage_retry_state list \<Rightarrow> linkage_record list \<Rightarrow>
   linkage_record result \<times> linkage_record list" where
  "persist_transition fault case_id nxt expected tbl = lk_run_tx fault tbl
     (case tbl_update lr_case_id lr_state lk_write_columns tbl case_id expected nxt of
        (Some row, tbl') \<Rightarrow> (lk_row_to_record row, tbl')
      | (None, _) \<Rightarrow>
          (rbind (lk_require_row tbl case_id) (\<lambda>latest.
             if lr_state latest = lr_state nxt then Inr latest
             else raise InvariantViolation ''sn linkage retry transition source-state guard failed''), tbl))"

definition lk_read_tx :: "string option \<Rightarrow> 'a result \<Rightarrow> 'a result" where
  "lk_read_tx fault body = (case fault of
       Some msg \<Rightarrow> Inl (lk_wrap_repo_exc (Exc OtherException msg))
     | None \<Rightarrow> (case body of Inr x \<Rightarrow> Inr x | Inl e \<Rightarrow> Inl (lk_wrap_repo_exc e)))"

definition lk_get_by_case_id :: "string option \<Rightarrow> string \<Rightarrow> linkage_record list \<Rightarrow> linkage_record option result" where
  "lk_get_by_case_id fault case_id tbl = lk_read_tx fault (lk_get_row tbl case_id)"

text \<open>Ascending order with NULLs last, as PostgreSQL sorts; equal keys in table order.\<close>

definition null_last :: "instant option \<Rightarrow> nat" where
  "null_last v = (case v of None \<Rightarrow> 1 | Some _ \<Rightarrow> 0)"

definition select_retry_candidates ::
  "instant \<Rightarrow> string option \<Rightarrow> py_datetime option \<Rightarrow> nat \<Rightarrow> linkage_record list \<Rightarrow> linkage_record list result" where
  "select_retry_candidates clock fault now limit tbl = rbind (resolve_now clock now) (\<lambda>t.
     lk_read_tx fault (rmap_list lk_row_to_record (take limit
       (sort_key (\<lambda>r. null_last (lr_next_attempt_at r))
         (sort_key (\<lambda>r. case lr_next_attempt_at r of None \<Rightarrow> 0 | Some n \<Rightarrow> n)
           (sort_key lr_updated_at
             (filter (\<lambda>r. lr_state r = FAILED_TEMP \<and> (case lr_next_attempt_at r of None \<Rightarrow> True | Some n \<Rightarrow> n \<le> t)) tbl)))))))"

section \<open>Lemmas\<close>

lemma lk_run_tx_table:
  "lk_run_tx fault tbl body = (res, tbl') \<Longrightarrow> tbl' = tbl \<or> (\<exists>x. body = (Inr x, tbl') \<and> res = Inr x \<and> fault = None)"
  by (auto simp: lk_run_tx_def split: option.splits prod.splits sum.splits)

lemma lk_wrap_type: "exc_type (lk_wrap_repo_exc e) = CriticalDependencyError \<or> exc_type (lk_wrap_repo_exc e) = InvariantViolation"
  by (simp add: lk_wrap_repo_exc_def)

section \<open>Properties\<close>

text \<open>the guard of \<open>persist_transition\<close>. A successful call either wrote the new record over the row of the case,
  whose state was one of the expected source states, and changed no other row, or left the table alone and returned
  a row that is already in the target state; a failed call leaves the table alone.\<close>

theorem linkage_guarded_write:
  assumes "persist_transition fault cid nxt expected tbl = (res, tbl')" and "lr_case_id nxt = cid"
  shows "(\<exists>row r. res = Inr r \<and> tbl_get lr_case_id tbl cid = Some row \<and> lr_state row \<in> set expected \<and>
      lr_state r = lr_state nxt \<and> tbl_get lr_case_id tbl' cid = Some (record_to_row nxt) \<and>
      (\<forall>j. j \<noteq> cid \<longrightarrow> tbl_get lr_case_id tbl' j = tbl_get lr_case_id tbl j)) \<or>
    tbl' = tbl \<and> (case res of Inl e \<Rightarrow> exc_type e \<in> {CriticalDependencyError, InvariantViolation} | Inr r \<Rightarrow> lr_state r = lr_state nxt)"
proof (cases fault)
  case (Some msg)
  with assms(1) show ?thesis by (auto simp: persist_transition_def lk_run_tx_def lk_wrap_type)
next
  case None
  have vs: "validate_linkage_record x = Inr y \<Longrightarrow> lr_state y = lr_state x" for x y
    by (auto simp: validate_linkage_record_def split: if_splits elim!: rbind_InrE)
  obtain out tbl1 where u: "tbl_update lr_case_id lr_state lk_write_columns tbl cid expected nxt = (out, tbl1)" by fastforce
  from u assms(2) show ?thesis
  proof (rule linkage_tbl.update_cases)
    fix row
    assume row: "out = Some (lk_write_columns row nxt)" "tbl_get lr_case_id tbl cid = Some row" "lr_state row \<in> set expected"
      "\<And>j. tbl_get lr_case_id tbl1 j = (if j = cid then Some (lk_write_columns row nxt) else tbl_get lr_case_id tbl j)"
    let ?w = "record_to_row nxt"
    show ?thesis
    proof (cases "validate_linkage_record ?w")
      case (Inl e)
      with assms(1) u None row(1) show ?thesis
        by (auto simp: persist_transition_def lk_run_tx_def lk_write_columns_def lk_row_to_record_def lk_wrap_type)
    next
      case (Inr r)
      then have "res = Inr r" "tbl' = tbl1"
        using assms(1) u None row(1) by (auto simp: persist_transition_def lk_run_tx_def lk_write_columns_def lk_row_to_record_def)
      with row(2-4) vs [OF Inr] show ?thesis by (auto simp: lk_write_columns_def record_to_row_def)
    qed
  next
    assume "out = None" "tbl1 = tbl"
    with assms(1) u None show ?thesis
      using lk_wrap_type
      by (auto simp: persist_transition_def lk_run_tx_def split: sum.splits if_splits elim!: rbind_InrE)
  qed
qed

lemma linkage_guarded_write_witness:
  "\<exists>r. create_pending_linkage_retry_record 0 ''c1'' ''pd1'' None 120 None = Inr r \<and>
     (case fst (persist_transition None ''c1'' (r\<lparr>lr_state := SEARCHING\<rparr>) [PENDING] [record_to_row r]) of
        Inl e \<Rightarrow> exc_type e \<in> {CriticalDependencyError, InvariantViolation} | Inr q \<Rightarrow> lr_state q = SEARCHING)"
proof -
  obtain r where r: "create_pending_linkage_retry_record 0 ''c1'' ''pd1'' None 120 None = Inr r" and id: "lr_case_id r = ''c1''"
    by (simp add: create_pending_linkage_retry_record_def resolve_now_def validate_linkage_record_def non_blank_def
        py_isspace_def validate_optional_non_empty_def minutes_def)
  obtain res tbl' where p: "persist_transition None ''c1'' (r\<lparr>lr_state := SEARCHING\<rparr>) [PENDING] [record_to_row r] = (res, tbl')"
    by fastforce
  from linkage_guarded_write [OF p] id p r show ?thesis by (auto split: sum.splits)
qed

end
