(* ===== verification/Calendar.thy ===== *)
theory Calendar
  imports Py_Float
begin

text \<open>
  The part of Python's \<open>datetime\<close> and \<open>calendar\<close> that the retention lifecycle uses: the proleptic Gregorian date of an
  instant, \<open>monthrange\<close>, \<open>replace(year, month, day)\<close>, and the month subtraction of \<open>storage/lifecycle.py\<close> on top of them. Days are numbered
  from 1970-01-01, months from January of year 0.
\<close>

section \<open>Dates\<close>

definition is_leap :: "int \<Rightarrow> bool" where
  "is_leap y = (y mod 4 = 0 \<and> (y mod 100 \<noteq> 0 \<or> y mod 400 = 0))"

definition days_in_month :: "int \<Rightarrow> int \<Rightarrow> int" where
  "days_in_month y m = (if m = 2 then (if is_leap y then 29 else 28) else if m \<in> {4, 6, 9, 11} then 30 else 31)"

definition days_before_month :: "int \<Rightarrow> int \<Rightarrow> int" where
  "days_before_month y m = [0, 31, 59, 90, 120, 151, 181, 212, 243, 273, 304, 334] ! nat (m - 1) + (if 2 < m \<and> is_leap y then 1 else 0)"

definition year_start :: "int \<Rightarrow> int" where
  "year_start y = 365 * (y - 1970) + ((y - 1) div 4 - (y - 1) div 100 + (y - 1) div 400) - 477"

definition day_number :: "int \<Rightarrow> int \<Rightarrow> int \<Rightarrow> int" where
  "day_number y m d = year_start y + days_before_month y m + d - 1"

lemma div_step: "0 < k \<Longrightarrow> (y :: int) div k - (y - 1) div k = (if y mod k = 0 then 1 else 0)"
proof -
  assume k: "0 < k"
  show ?thesis
  proof (cases "y mod k = 0")
    case True
    have "(y - 1) div k = (k * (y div k - 1) + (k - 1)) div k" using True k by (simp add: algebra_simps mult_div_mod_eq [symmetric]) (metis True minus_mod_eq_div_mult minus_mod_eq_mult_div diff_zero)
    also have "\<dots> = y div k - 1" using k by simp
    finally show ?thesis using True by simp
  next
    case False
    have "0 \<le> y mod k - 1" "y mod k - 1 < k" using False k pos_mod_sign [OF k, of y] pos_mod_bound [OF k, of y] by auto
    then have "(k * (y div k) + (y mod k - 1)) div k = y div k" using k by simp
    then show ?thesis using False by (simp add: algebra_simps)
  qed
qed

lemma leap_count:
  "\<lbrakk>c \<Longrightarrow> q; f \<Longrightarrow> c\<rbrakk> \<Longrightarrow> (x :: int) + 365 + (if q then 1 else 0) - (if c then 1 else 0) + (if f then 1 else 0) =
     x + (if q \<and> (\<not> c \<or> f) then 366 else 365)"
  by (cases q; cases c; cases f) simp_all

lemma year_start_step: "year_start (y + 1) = year_start y + (if is_leap y then 366 else 365)"
proof -
  have d: "y div 4 - (y - 1) div 4 = (if y mod 4 = 0 then 1 else 0)" "y div 100 - (y - 1) div 100 = (if y mod 100 = 0 then 1 else 0)"
    "y div 400 - (y - 1) div 400 = (if y mod 400 = 0 then 1 else 0)" by (rule div_step; simp)+
  have "(4 :: int) dvd 100" "(100 :: int) dvd 400" by simp_all
  then have i: "y mod 100 = 0 \<Longrightarrow> y mod 4 = 0" "y mod 400 = 0 \<Longrightarrow> y mod 100 = 0" by (meson dvd_trans mod_0_imp_dvd mod_eq_0_iff_dvd)+
  have "year_start (y + 1) = year_start y + 365 + (y div 4 - (y - 1) div 4) - (y div 100 - (y - 1) div 100) + (y div 400 - (y - 1) div 400)"
    by (simp add: year_start_def)
  also have "\<dots> = year_start y + (if is_leap y then 366 else 365)" unfolding d is_leap_def using i by (rule leap_count)
  finally show ?thesis .
qed

lemma year_start_bounds:
  "365 * int j \<le> year_start (1970 + int j)" "year_start (1970 + int j) \<le> 366 * int j"
  "- 366 * int j \<le> year_start (1970 - int j)" "year_start (1970 - int j) \<le> - 365 * int j"
proof (induction j)
  case (Suc j)
  { case 1 show ?case using year_start_step [of "1970 + int j"] Suc.IH(1) by (auto simp: algebra_simps split: if_splits) }
  { case 2 show ?case using year_start_step [of "1970 + int j"] Suc.IH(2) by (auto simp: algebra_simps split: if_splits) }
  { case 3 show ?case using year_start_step [of "1970 - int (Suc j)"] Suc.IH(3) by (auto simp: algebra_simps split: if_splits) }
  { case 4 show ?case using year_start_step [of "1970 - int (Suc j)"] Suc.IH(4) by (auto simp: algebra_simps split: if_splits) }
qed (simp_all add: year_start_def)

text \<open>The year of a day: a lower estimate, then forward to the year the day is in.\<close>

function year_search :: "int \<Rightarrow> int \<Rightarrow> int" where
  "year_search n y = (if year_start (y + 1) \<le> n then year_search n (y + 1) else y)"
  by pat_completeness auto
termination
  by (relation "measure (\<lambda>(n, y). nat (n - year_start y))") (auto simp: year_start_step split: if_splits)

declare year_search.simps [simp del]

definition year_of_day :: "int \<Rightarrow> int" where
  "year_of_day n = year_search n (1970 + (if n < 0 then n div 365 else n div 366))"

definition month_of_day :: "int \<Rightarrow> int" where
  "month_of_day n =
     (let y = year_of_day n; k = n - year_start y
      in int (length (filter (\<lambda>m. days_before_month y m \<le> k) [1, 2, 3, 4, 5, 6, 7, 8, 9, 10, 11, 12])))"

definition day_of_month :: "int \<Rightarrow> int" where
  "day_of_month n = n - year_start (year_of_day n) - days_before_month (year_of_day n) (month_of_day n) + 1"

section \<open>Month arithmetic\<close>

definition micros_per_day :: int where
  "micros_per_day = 86400000000"

definition replace_date :: "int \<Rightarrow> int \<Rightarrow> int \<Rightarrow> instant \<Rightarrow> instant result" where
  "replace_date y m d t =
     (if y < 1 \<or> 9999 < y then raise ValueError (''year '' @ py_str_int y @ '' is out of range'')
      else Inr (day_number y m d * micros_per_day + t mod micros_per_day))"

definition subtract_months :: "instant \<Rightarrow> int \<Rightarrow> instant result" where
  "subtract_months t months =
     (let n = t div micros_per_day; total = year_of_day n * 12 + (month_of_day n - 1) - months;
          y = total div 12; m = total mod 12 + 1
      in replace_date y m (min (day_of_month n) (days_in_month y m)) t)"

section \<open>Lemmas\<close>

lemma year_search_bounds: "year_start y \<le> n \<Longrightarrow> year_start (year_search n y) \<le> n \<and> n < year_start (year_search n y + 1)"
proof (induction n y rule: year_search.induct)
  case (1 n y)
  show ?case
  proof (cases "year_start (y + 1) \<le> n")
    case True
    with 1 show ?thesis by (simp add: year_search.simps [of n y])
  next
    case False
    with 1 show ?thesis by (simp add: year_search.simps [of n y])
  qed
qed

lemma year_of_day_bounds: "year_start (year_of_day n) \<le> n" "n < year_start (year_of_day n + 1)"
proof -
  have "year_start (1970 + (if n < 0 then n div 365 else n div 366)) \<le> n"
  proof (cases "n < 0")
    case True
    have "year_start (1970 - int (nat (- (n div 365)))) \<le> - 365 * int (nat (- (n div 365)))" by (rule year_start_bounds)
    moreover have "n div 365 < 0" using True by (simp add: pos_imp_zdiv_neg_iff)
    moreover have "365 * (n div 365) \<le> n" by simp
    ultimately show ?thesis using True by simp
  next
    case False
    have "year_start (1970 + int (nat (n div 366))) \<le> 366 * int (nat (n div 366))" by (rule year_start_bounds)
    moreover have "0 \<le> n div 366" "366 * (n div 366) \<le> n" using False by (simp_all add: pos_imp_zdiv_nonneg_iff)
    ultimately show ?thesis using False by simp
  qed
  from year_search_bounds [OF this] show "year_start (year_of_day n) \<le> n" "n < year_start (year_of_day n + 1)"
    by (simp_all add: year_of_day_def)
qed

lemma month_cases:
  assumes "1 \<le> (m :: int)" "m \<le> 12"
  obtains "m = 1" | "m = 2" | "m = 3" | "m = 4" | "m = 5" | "m = 6" | "m = 7" | "m = 8" | "m = 9" | "m = 10" | "m = 11" | "m = 12"
proof -
  have "m = 1 \<or> m = 2 \<or> m = 3 \<or> m = 4 \<or> m = 5 \<or> m = 6 \<or> m = 7 \<or> m = 8 \<or> m = 9 \<or> m = 10 \<or> m = 11 \<or> m = 12"
    using assms by presburger
  with that show thesis by blast
qed

lemma days_in_month_bounds: "28 \<le> days_in_month y m" "days_in_month y m \<le> 31"
  by (simp_all add: days_in_month_def)

lemma days_before_month_step:
  assumes "1 \<le> m" "m < 12"
  shows "days_before_month y (m + 1) = days_before_month y m + days_in_month y m"
  by (rule month_cases [of m]) (use assms in \<open>simp_all add: days_before_month_def days_in_month_def\<close>)

lemma days_before_month_ends: "days_before_month y 1 = 0" "days_before_month y 12 + days_in_month y 12 = (if is_leap y then 366 else 365)"
  by (simp_all add: days_before_month_def days_in_month_def)

text \<open>The months of a year partition its days.\<close>

lemma month_of_year_day:
  assumes "0 \<le> k" "k < (if is_leap y then 366 else 365)"
  defines "m \<equiv> int (length (filter (\<lambda>m. days_before_month y m \<le> k) [1, 2, 3, 4, 5, 6, 7, 8, 9, 10, 11, 12]))"
  shows "1 \<le> m \<and> m \<le> 12 \<and> days_before_month y m \<le> k \<and> k < days_before_month y m + days_in_month y m"
proof (cases "is_leap y")
  case True
  then show ?thesis using assms(1,2) by (auto simp: m_def days_before_month_def days_in_month_def)
next
  case False
  then show ?thesis using assms(1,2) by (auto simp: m_def days_before_month_def days_in_month_def)
qed

lemma date_of_day:
  "1 \<le> month_of_day n" "month_of_day n \<le> 12" "1 \<le> day_of_month n" "day_of_month n \<le> days_in_month (year_of_day n) (month_of_day n)"
  "day_number (year_of_day n) (month_of_day n) (day_of_month n) = n"
proof -
  let ?y = "year_of_day n" and ?m = "month_of_day n" and ?k = "n - year_start (year_of_day n)"
  have k: "0 \<le> ?k" "?k < (if is_leap ?y then 366 else 365)" using year_of_day_bounds [of n] by (simp_all add: year_start_step split: if_splits)
  from month_of_year_day [OF k] have m: "1 \<le> ?m \<and> ?m \<le> 12 \<and> days_before_month ?y ?m \<le> ?k \<and> ?k < days_before_month ?y ?m + days_in_month ?y ?m"
    by (simp only: month_of_day_def Let_def)
  then show "1 \<le> month_of_day n" "month_of_day n \<le> 12" "1 \<le> day_of_month n" "day_of_month n \<le> days_in_month ?y ?m"
    by (simp_all add: day_of_month_def)
  show "day_number ?y ?m (day_of_month n) = n" by (simp add: day_number_def day_of_month_def)
qed

text \<open>Months counted through: the first day of a month, and the distance of two months.\<close>

definition month_start :: "int \<Rightarrow> int" where
  "month_start i = day_number (i div 12) (i mod 12 + 1) 1"

definition month_length :: "int \<Rightarrow> int" where
  "month_length i = days_in_month (i div 12) (i mod 12 + 1)"

lemma month_start_step: "month_start (i + 1) = month_start i + month_length i"
proof -
  define y r where "y = i div 12" and "r = i mod 12"
  have i: "i = 12 * y + r" "0 \<le> r" "r < 12" by (simp_all add: y_def r_def)
  show ?thesis
  proof (cases "r = 11")
    case True
    then have "i + 1 = 12 * (y + 1)" using i by simp
    then have "(i + 1) div 12 = y + 1" "(i + 1) mod 12 = 0" by simp_all
    then show ?thesis using True days_before_month_ends [of y] days_before_month_ends(1) [of "y + 1"]
      by (simp add: month_start_def month_length_def day_number_def year_start_step flip: y_def r_def)
  next
    case False
    have "i + 1 = 12 * y + (r + 1)" using i by simp
    moreover have "0 \<le> r + 1" "r + 1 < 12" using i False by simp_all
    moreover from this have "(12 * y + (r + 1)) mod 12 = r + 1" by (simp only: mod_mult_self4 mod_pos_pos_trivial)
    ultimately have e: "(i + 1) div 12 = y" "(i + 1) mod 12 = r + 1" by (simp_all only:)
    from days_before_month_step [of "r + 1" y] i(2,3) False show ?thesis
      by (simp add: month_start_def month_length_def day_number_def e flip: y_def r_def)
  qed
qed

lemma month_span: "28 * int j \<le> month_start (i + int j) - month_start i" "month_start (i + int j) - month_start i \<le> 31 * int j"
proof (induction j)
  case (Suc j)
  note s = month_start_step [of "i + int j"] and b = days_in_month_bounds [of "(i + int j) div 12" "(i + int j) mod 12 + 1"]
  { case 1 show ?case using Suc.IH(1) s b by (simp add: month_length_def algebra_simps) }
  { case 2 show ?case using Suc.IH(2) s b by (simp add: month_length_def algebra_simps) }
qed simp_all

section \<open>Subtracting months\<close>

definition month_index :: "int \<Rightarrow> int" where
  "month_index n = year_of_day n * 12 + (month_of_day n - 1)"

lemma month_index_parts: "month_index n div 12 = year_of_day n" "month_index n mod 12 + 1 = month_of_day n"
proof -
  have m: "0 \<le> month_of_day n - 1" "month_of_day n - 1 < 12" using date_of_day(1,2) [of n] by simp_all
  have e: "month_index n = 12 * year_of_day n + (month_of_day n - 1)" by (simp add: month_index_def)
  show "month_index n mod 12 + 1 = month_of_day n" unfolding e using m by (simp only: mod_mult_self4 mod_pos_pos_trivial)
  show "month_index n div 12 = year_of_day n" unfolding e using m by simp
qed

lemma day_in_month: "n = month_start (month_index n) + day_of_month n - 1" "1 \<le> day_of_month n" "day_of_month n \<le> month_length (month_index n)"
  using date_of_day [of n] by (simp_all add: month_start_def month_length_def month_index_parts day_number_def)

text \<open>The day the subtraction goes to.\<close>

definition months_before :: "int \<Rightarrow> int \<Rightarrow> int" where
  "months_before k n = month_start (month_index n - k) + min (day_of_month n) (month_length (month_index n - k)) - 1"

lemma subtract_months_day:
  "subtract_months t k =
     (let y = (month_index (t div micros_per_day) - k) div 12
      in if y < 1 \<or> 9999 < y then raise ValueError (''year '' @ py_str_int y @ '' is out of range'')
         else Inr (months_before k (t div micros_per_day) * micros_per_day + t mod micros_per_day))"
  by (simp add: subtract_months_def replace_date_def month_index_def months_before_def month_start_def month_length_def day_number_def Let_def)

lemma months_before_window: "28 * int k \<le> n - months_before (int k) n" "n - months_before (int k) n \<le> 31 * int k"
proof -
  define i where "i = month_index n - int k"
  have l: "28 \<le> month_length i" "month_length i \<le> 31" by (simp_all add: month_length_def days_in_month_bounds)
  note d = day_in_month [of n]
  have n31: "month_length (month_index n) \<le> 31" by (simp add: month_length_def days_in_month_bounds)
  have k: "month_index n = i + int k" by (simp add: i_def)
  note s = month_span [where i = i and j = k]
  have e: "n - months_before (int k) n = (month_start (i + int k) - month_start i) + (day_of_month n - min (day_of_month n) (month_length i))"
    using d(1) by (simp add: months_before_def k algebra_simps)
  then show "28 * int k \<le> n - months_before (int k) n" using s(1) by linarith
  show "n - months_before (int k) n \<le> 31 * int k"
  proof (cases k)
    case 0
    then show ?thesis using d(3) k e by simp
  next
    case (Suc j)
    have "month_start (i + int k) - month_start i = month_length i + (month_start (i + 1 + int j) - month_start (i + 1))"
    proof -
      have ik: "i + int k = i + 1 + int j" by (simp add: Suc)
      show ?thesis unfolding ik using month_start_step [of i] by simp
    qed
    also have "\<dots> \<le> month_length i + 31 * int j" using month_span(2) [of "i + 1" j] by simp
    finally show ?thesis using e d(3) n31 l by (simp add: Suc min_def split: if_splits)
  qed
qed

text \<open>A cutoff lies 28 to 31 days per month back.\<close>

lemma subtract_months_window:
  assumes "subtract_months t (int k) = Inr c"
  shows "t - 31 * int k * micros_per_day \<le> c \<and> c \<le> t - 28 * int k * micros_per_day"
proof -
  define n where "n = t div micros_per_day"
  have "c = months_before (int k) n * micros_per_day + t mod micros_per_day"
    using assms by (auto simp: subtract_months_day Let_def n_def split: if_splits)
  moreover have "t = n * micros_per_day + t mod micros_per_day" by (simp add: n_def)
  ultimately have "t - c = (n - months_before (int k) n) * micros_per_day" by (simp add: algebra_simps)
  moreover have "28 * int k * micros_per_day \<le> (n - months_before (int k) n) * micros_per_day"
    "(n - months_before (int k) n) * micros_per_day \<le> 31 * int k * micros_per_day"
    using months_before_window [where k = k and n = n] by (simp_all add: micros_per_day_def)
  ultimately show ?thesis by linarith
qed

end
