(* ===== verification/Lifecycle.thy ===== *)
theory Lifecycle
  imports Calendar Object_Store Models
begin

text \<open>
  The retention lifecycle: \<open>storage/lifecycle.py\<close> and \<open>contracts/casefile_retention_policy.py\<close>. A run lists the objects under
  \<open>cases/\<close>, groups them by case, and deletes the objects of every case created before the cutoff of its environment. The listing loop is a partial function, as it only
  ends when the server returns no continuation token; \<open>s3_inventory\<close> states S3's documented listing and deletion, under which it
  does.
\<close>

section \<open>Policy\<close>

record retention_policy =
  rp_schema_version :: string
  rp_retention_by_env :: "(string, int) pydict"

definition validate_retention_policy :: "retention_policy \<Rightarrow> retention_policy result" where
  "validate_retention_policy p =
     (if rp_schema_version p \<noteq> ''v1'' then raise ValueError ''Input should be v1''
      else if \<not> list_all (\<lambda>(_, m). 1 \<le> m) (rp_retention_by_env p) then raise ValueError ''Input should be greater than or equal to 1''
      else if \<not> list_all (\<lambda>e. dict_get (rp_retention_by_env p) e \<noteq> None) [''local'', ''dev'', ''uat'', ''prod'']
      then raise ValueError ''retention_by_env is missing required environments''
      else Inr p)"

definition as_aware_utc :: "py_datetime \<Rightarrow> string \<Rightarrow> instant result" where
  "as_aware_utc value field_name = (case value of
       Aware t \<Rightarrow> Inr t
     | Naive _ \<Rightarrow> raise ValueError (field_name @ '' must be timezone-aware''))"

definition lifecycle_now :: "instant \<Rightarrow> py_datetime option \<Rightarrow> instant result" where
  "lifecycle_now clock now = as_aware_utc (case now of Some t \<Rightarrow> t | None \<Rightarrow> Aware clock) ''now''"

definition resolve_retention_cutoff :: "retention_policy \<Rightarrow> string \<Rightarrow> instant \<Rightarrow> py_datetime option \<Rightarrow> instant result" where
  "resolve_retention_cutoff policy app_env clock now = (case dict_get (rp_retention_by_env policy) app_env of
       None \<Rightarrow> raise ValueError (''unsupported app_env for casefile retention policy: '' @ app_env)
     | Some months \<Rightarrow> rbind (lifecycle_now clock now) (\<lambda>t. subtract_months t months))"

section \<open>Cases of a listing\<close>

definition is_stage_char :: "char \<Rightarrow> bool" where
  "is_stage_char c = (let n = (of_char c :: nat) in 65 \<le> n \<and> n \<le> 90 \<or> 97 \<le> n \<and> n \<le> 122 \<or> 48 \<le> n \<and> n \<le> 57 \<or> n = 95 \<or> n = 45)"

text \<open>The match of \<open>^cases/([^/]+)/([A-Za-z0-9_-]+)\.json$\<close>, whose \<open>$\<close> also matches before a final newline.\<close>

definition stage_part :: "string \<Rightarrow> bool" where
  "stage_part rest =
     (let n = length rest - 5 in 5 < length rest \<and> drop n rest = ''.json'' \<and> list_all is_stage_char (take n rest))"

definition extract_case_id :: "string \<Rightarrow> string option" where
  "extract_case_id key =
     (if \<not> py_startswith key ''cases/'' then None
      else let rest = drop 6 key; case_id = takeWhile (\<lambda>c. c \<noteq> CHR ''/'') rest; after = dropWhile (\<lambda>c. c \<noteq> CHR ''/'') rest
           in if case_id \<noteq> [] \<and> after \<noteq> [] \<and>
                (stage_part (tl after) \<or> last (tl after) = CHR 0x0A \<and> tl after \<noteq> [] \<and> stage_part (butlast (tl after)))
              then Some case_id else None)"

type_synonym case_objects = "(string, (string \<times> instant) list) pydict"

definition add_case_object :: "object_summary \<Rightarrow> case_objects \<Rightarrow> case_objects" where
  "add_case_object item acc = (case extract_case_id (os_key item) of
       None \<Rightarrow> acc
     | Some c \<Rightarrow> dd_append acc c (os_key item, os_last_modified item))"

definition is_triage_key :: "string \<Rightarrow> bool" where
  "is_triage_key key = py_startswith (rev key) (rev ''/triage.json'')"

definition resolve_case_created_at :: "(string \<times> instant) list \<Rightarrow> instant" where
  "resolve_case_created_at objects =
     (let triage_times = map snd (filter (\<lambda>(k, t). is_triage_key k) objects)
      in if triage_times \<noteq> [] then min_list triage_times else min_list (map snd objects))"

definition ordered_keys :: "instant \<Rightarrow> case_objects \<Rightarrow> string list" where
  "ordered_keys cutoff acc =
     sort (remdups (concat (map (\<lambda>(c, objects). if resolve_case_created_at objects \<le> cutoff then map fst objects else []) acc)))"

fun chunk_loop :: "nat \<Rightarrow> string list \<Rightarrow> string list \<Rightarrow> string list list" where
  "chunk_loop n chunk [] = (if chunk = [] then [] else [chunk])"
| "chunk_loop n chunk (v # vs) =
     (let c = chunk @ [v] in if n \<le> length c then c # chunk_loop n [] vs else chunk_loop n c vs)"

definition chunked :: "string list \<Rightarrow> int \<Rightarrow> string list list" where
  "chunked keys chunk_size = chunk_loop (nat chunk_size) [] keys"

section \<open>Runner\<close>

record lifecycle_runner =
  lr_policy :: retention_policy
  lr_app_env :: string
  lr_governance_approval_ref :: "string option"
  lr_delete_batch_size :: int
  lr_list_page_size :: int

definition max_batch_keys :: int where
  "max_batch_keys = 1000"

definition new_lifecycle_runner :: "retention_policy \<Rightarrow> string \<Rightarrow> string option \<Rightarrow> int \<Rightarrow> int \<Rightarrow> lifecycle_runner result" where
  "new_lifecycle_runner policy app_env approval delete_batch_size list_page_size =
     (if delete_batch_size \<le> 0 \<or> max_batch_keys < delete_batch_size then raise ValueError ''delete_batch_size must be between 1 and 1000''
      else if list_page_size \<le> 0 \<or> max_batch_keys < list_page_size then raise ValueError ''list_page_size must be between 1 and 1000''
      else Inr \<lparr>lr_policy = policy, lr_app_env = app_env,
        lr_governance_approval_ref = (case approval of Some r \<Rightarrow> if r = [] then None else Some (py_strip r) | None \<Rightarrow> None),
        lr_delete_batch_size = delete_batch_size, lr_list_page_size = list_page_size\<rparr>)"

record lifecycle_run_result =
  lu_scanned_count :: nat
  lu_eligible_count :: nat
  lu_purged_count :: nat
  lu_failed_count :: nat
  lu_case_ids :: "string list"

partial_function (option) list_case_objects ::
  "(string option \<Rightarrow> 's \<Rightarrow> object_store_list_page result \<times> 's) \<Rightarrow> string option \<Rightarrow> nat \<Rightarrow> case_objects \<Rightarrow> 's \<Rightarrow>
   ((nat \<times> case_objects) result \<times> 's) option" where
  "list_case_objects page_of token scanned acc s = (case page_of token s of
       (Inl e, s') \<Rightarrow> Some (Inl e, s')
     | (Inr page, s') \<Rightarrow>
         (case lp_next_continuation_token page of
            None \<Rightarrow> Some (Inr (scanned + length (lp_objects page), fold add_case_object (lp_objects page) acc), s')
          | Some t \<Rightarrow>
              list_case_objects page_of (Some t) (scanned + length (lp_objects page)) (fold add_case_object (lp_objects page) acc) s'))"

fun delete_batches ::
  "(string list \<Rightarrow> 's \<Rightarrow> delete_objects_result result \<times> 's) \<Rightarrow> string list list \<Rightarrow> 's \<Rightarrow> (string list \<times> string list) result \<times> 's" where
  "delete_batches del [] s = (Inr ([], []), s)"
| "delete_batches del (ks # rest) s =
     st_bind (del ks s) (\<lambda>r s. st_bind (delete_batches del rest s) (\<lambda>(purged, failed) s.
       (Inr (dr_deleted_keys r @ purged, dr_failed_keys r @ failed), s)))"

definition purge ::
  "(string list \<Rightarrow> 's \<Rightarrow> delete_objects_result result \<times> 's) \<Rightarrow> lifecycle_runner \<Rightarrow> instant \<Rightarrow> nat \<times> case_objects \<Rightarrow> 's \<Rightarrow>
   lifecycle_run_result result \<times> 's" where
  "purge del r cutoff listing s = (case listing of (scanned, acc) \<Rightarrow>
     let keys = ordered_keys cutoff acc
     in if keys \<noteq> [] \<and> lr_governance_approval_ref r = None
        then (raise InvariantViolation ''governance approval metadata is required for destructive lifecycle purge'', s)
        else st_bind (delete_batches del (chunked keys (lr_delete_batch_size r)) s) (\<lambda>(purged, failed) s.
          (Inr \<lparr>lu_scanned_count = scanned, lu_eligible_count = length keys, lu_purged_count = length purged,
                lu_failed_count = length failed, lu_case_ids = sort (remdups (List.map_filter extract_case_id (purged @ failed)))\<rparr>, s)))"

definition casefile_prefix :: string where
  "casefile_prefix = ''cases/''"

definition lifecycle_run_once ::
  "'s s3_list_objects \<Rightarrow> 's s3_delete_objects \<Rightarrow> string \<Rightarrow> lifecycle_runner \<Rightarrow> instant \<Rightarrow> py_datetime option \<Rightarrow> 's \<Rightarrow>
   (lifecycle_run_result result \<times> 's) option" where
  "lifecycle_run_once list_objects delete_objects bucket r clock now s =
     (case rbind (lifecycle_now clock now) (\<lambda>t. resolve_retention_cutoff (lr_policy r) (lr_app_env r) clock (Some (Aware t))) of
        Inl e \<Rightarrow> Some (Inl e, s)
      | Inr cutoff \<Rightarrow>
          (case list_case_objects (\<lambda>token. list_objects_page list_objects bucket casefile_prefix token (lr_list_page_size r)) None 0 [] s of
             None \<Rightarrow> None
           | Some (Inl e, s') \<Rightarrow> Some (Inl e, s')
           | Some (Inr listing, s') \<Rightarrow>
               Some (purge (\<lambda>keys. delete_objects_batch delete_objects bucket keys (lr_governance_approval_ref r)) r cutoff listing s')))"

section \<open>What S3 documents\<close>

text \<open>
  The objects of a bucket with their times, as pairs. A listing returns at most the requested number of the entries after the token, and a
  token that leads on exactly when entries remain; a deletion removes some of the requested keys, also when it fails, and every requested key it does not
  report as failed is gone.
\<close>

locale s3_inventory =
  fixes list_objects :: "'s s3_list_objects" and delete_objects :: "'s s3_delete_objects"
    and objects :: "'s \<Rightarrow> string \<Rightarrow> (string \<times> instant) list" and pos :: "string \<Rightarrow> nat"
  assumes list_pure: "list_objects s b p n tok = (r, s') \<Longrightarrow> objects s' = objects s"
    and list_page: "\<lbrakk>list_objects s b p n tok = (Inr (entries, nxt), s'); 0 < n\<rbrakk> \<Longrightarrow>
      \<exists>m. 1 \<le> m \<and> m \<le> nat n \<and>
        (let all = filter (\<lambda>x. py_startswith (fst x) p) (objects s b); start = (case tok of None \<Rightarrow> 0 | Some t \<Rightarrow> pos t)
         in entries = map (\<lambda>x. (Some (fst x), Some (Aware (snd x)))) (take m (drop start all)) \<and>
            (case nxt of None \<Rightarrow> length all \<le> start + m
             | Some t \<Rightarrow> t \<noteq> [] \<and> pos t = start + m \<and> start + m < length all))"
    and delete_some: "delete_objects s b ks = (answer, s') \<Longrightarrow> \<exists>gone \<subseteq> set ks. objects s' b = filter (\<lambda>x. fst x \<notin> gone) (objects s b)"
    and delete_reported: "\<lbrakk>delete_objects s b ks = (Inr (deleted, errors), s'); k \<in> set ks; Some k \<notin> set errors\<rbrakk> \<Longrightarrow>
      k \<notin> fst ` set (objects s' b)"

text \<open>Specification side: the objects of a case, and the keys whose case was created by the cutoff.\<close>

definition case_pairs :: "(string \<times> instant) list \<Rightarrow> string \<Rightarrow> (string \<times> instant) list" where
  "case_pairs objects c = filter (\<lambda>x. extract_case_id (fst x) = Some c) objects"

definition expired :: "(string \<times> instant) list \<Rightarrow> instant \<Rightarrow> string \<Rightarrow> bool" where
  "expired objects cutoff k = (\<exists>c. extract_case_id k = Some c \<and> case_pairs objects c \<noteq> [] \<and>
     resolve_case_created_at (case_pairs objects c) \<le> cutoff)"

definition summary :: "string \<times> instant \<Rightarrow> object_summary" where
  "summary x = \<lparr>os_key = fst x, os_last_modified = snd x\<rparr>"

text \<open>A simulated inventory: objects per bucket, keys under a legal hold, and a schedule of answers to fail.\<close>

record inventory =
  inv_objects :: "(string, (string \<times> instant) list) pydict"
  inv_locked :: "string list"
  inv_faults :: "s3_error option list"

definition inv_bucket :: "inventory \<Rightarrow> string \<Rightarrow> (string \<times> instant) list" where
  "inv_bucket s b = (case dict_get (inv_objects s) b of Some os \<Rightarrow> os | None \<Rightarrow> [])"

definition inventory_list :: "inventory s3_list_objects" where
  "inventory_list s b p n tok =
     (let s' = s\<lparr>inv_faults := tl (inv_faults s)\<rparr>; everything = filter (\<lambda>x. py_startswith (fst x) p) (inv_bucket s b);
          start = (case tok of None \<Rightarrow> 0 | Some t \<Rightarrow> length t)
      in case inv_faults s of
           Some e # _ \<Rightarrow> (Inl e, s')
         | _ \<Rightarrow> (Inr (map (\<lambda>x. (Some (fst x), Some (Aware (snd x)))) (take (nat n) (drop start everything)),
                  if start + nat n < length everything then Some (replicate (start + nat n) CHR ''x'') else None), s'))"

definition inventory_delete :: "inventory s3_delete_objects" where
  "inventory_delete s b ks =
     (let s' = s\<lparr>inv_faults := tl (inv_faults s)\<rparr>; gone = filter (\<lambda>k. k \<notin> set (inv_locked s)) ks
      in case inv_faults s of
           Some e # _ \<Rightarrow> (Inl e, s')
         | _ \<Rightarrow> (Inr (map Some gone, map Some (filter (\<lambda>k. k \<in> set (inv_locked s)) ks)),
                  s'\<lparr>inv_objects := dict_set (inv_objects s) b (filter (\<lambda>x. fst x \<notin> set gone) (inv_bucket s b))\<rparr>))"

text \<open>A bucket with an expired case and a recent one, listed in two pages.\<close>

definition demo_policy :: retention_policy where
  "demo_policy = \<lparr>rp_schema_version = ''v1'', rp_retention_by_env = [(''local'', 1), (''dev'', 1), (''uat'', 6), (''prod'', 25)]\<rparr>"

definition demo_runner :: lifecycle_runner where
  "demo_runner = \<lparr>lr_policy = demo_policy, lr_app_env = ''dev'', lr_governance_approval_ref = Some ''CHG-1'',
     lr_delete_batch_size = 1, lr_list_page_size = 2\<rparr>"

definition demo_inventory :: inventory where
  "demo_inventory = \<lparr>inv_objects = [(''b'', [(''cases/o/d.json'', 40 * micros_per_day), (''cases/o/t.json'', 3),
       (''cases/n/t.json'', 90 * micros_per_day)])], inv_locked = [], inv_faults = []\<rparr>"

definition demo_inventory_after :: inventory where
  "demo_inventory_after = demo_inventory\<lparr>inv_objects := [(''b'', [(''cases/n/t.json'', 90 * micros_per_day)])]\<rparr>"

definition demo_run_result :: lifecycle_run_result where
  "demo_run_result = \<lparr>lu_scanned_count = 3, lu_eligible_count = 2, lu_purged_count = 2, lu_failed_count = 0, lu_case_ids = [''o'']\<rparr>"

section \<open>Lemmas\<close>

lemma add_objects_get:
  "dict_get (fold add_case_object (map summary xs) acc) c =
     (let new = case_pairs xs c in if new = [] then dict_get acc c else Some ((case dict_get acc c of Some vs \<Rightarrow> vs | None \<Rightarrow> []) @ new))"
  by (induction xs arbitrary: acc)
    (auto simp: case_pairs_def add_case_object_def summary_def dd_append_get Let_def split: option.splits)

lemma add_objects_wf: "dict_wf acc \<Longrightarrow> dict_wf (fold add_case_object xs acc)"
  by (induction xs arbitrary: acc) (auto simp: add_case_object_def split: option.splits)

lemma ordered_keys_listed:
  "set (ordered_keys cutoff (fold add_case_object (map summary xs) [])) = {k \<in> fst ` set xs. expired xs cutoff k}"
proof -
  let ?acc = "fold add_case_object (map summary xs) []"
  have wf: "dict_wf ?acc" by (rule add_objects_wf) simp
  have get: "dict_get ?acc c = (if case_pairs xs c = [] then None else Some (case_pairs xs c))" for c
    by (simp add: add_objects_get Let_def)
  have mem: "(c, os) \<in> set ?acc \<longleftrightarrow> case_pairs xs c \<noteq> [] \<and> os = case_pairs xs c" for c os
  proof -
    have "(c, os) \<in> set ?acc \<longleftrightarrow> dict_get ?acc c = Some os"
      using map_of_eq_Some_iff [of ?acc c os] wf by (simp add: dict_wf_def)
    then show ?thesis unfolding get by auto
  qed
  have "set (ordered_keys cutoff ?acc) = {k. \<exists>c os. (c, os) \<in> set ?acc \<and> resolve_case_created_at os \<le> cutoff \<and> k \<in> fst ` set os}"
    by (force simp: ordered_keys_def split: if_splits)
  also have "\<dots> =
      {k. \<exists>c. case_pairs xs c \<noteq> [] \<and> resolve_case_created_at (case_pairs xs c) \<le> cutoff \<and> k \<in> fst ` set (case_pairs xs c)}"
    unfolding mem by blast
  also have "\<dots> = {k \<in> fst ` set xs. expired xs cutoff k}" by (auto simp: expired_def case_pairs_def)
  finally show ?thesis .
qed

lemma concat_chunk_loop: "concat (chunk_loop n chunk vs) = chunk @ vs"
  by (induction n chunk vs rule: chunk_loop.induct) (simp_all add: Let_def)

lemma py_strip_bounded:
  assumes "k \<noteq> []" "\<not> py_isspace (hd k)" "\<not> py_isspace (last k)"
  shows "py_strip k = k"
proof -
  have a: "dropWhile py_isspace k = k" using assms(1,2) by (cases k) simp_all
  have "dropWhile py_isspace (rev k) = rev k" using assms(1,3) by (cases k rule: rev_cases) simp_all
  then show ?thesis unfolding py_strip_def a by simp
qed

lemma py_strip_snoc:
  assumes "k \<noteq> []" "\<not> py_isspace (hd k)" "\<not> py_isspace (last k)" "py_isspace w"
  shows "py_strip (k @ [w]) = k"
proof -
  have a: "dropWhile py_isspace (k @ [w]) = k @ [w]" using assms(1,2) by (cases k) simp_all
  have b: "rev (k @ [w]) = w # rev k" by simp
  have "dropWhile py_isspace (rev k) = rev k" using assms(1,3) by (cases k rule: rev_cases) simp_all
  then show ?thesis unfolding py_strip_def a b using assms(4) by simp
qed

lemma stage_part_end: "stage_part r \<Longrightarrow> r \<noteq> [] \<and> last r = CHR ''n''"
proof -
  assume "stage_part r"
  then have "drop (length r - 5) r = ''.json''" "5 < length r" by (auto simp: stage_part_def Let_def)
  then have "r = take (length r - 5) r @ ''.json''" by (metis append_take_drop_id)
  then show ?thesis by (metis Nil_is_append_conv last_appendR last.simps list.distinct(1))
qed

text \<open>Stripping a key, which the client does before it deletes, stays within the case.\<close>

lemma extract_strip:
  assumes "extract_case_id k = Some c"
  shows "extract_case_id (py_strip k) = Some c"
proof -
  let ?rest = "drop 6 k" and ?p = "\<lambda>ch. ch \<noteq> CHR ''/''"
  define after where "after = dropWhile ?p ?rest"
  from assms have st: "py_startswith k ''cases/''" and c: "c = takeWhile ?p ?rest" "c \<noteq> []" "after \<noteq> []"
    and m: "stage_part (tl after) \<or> last (tl after) = CHR 0x0A \<and> tl after \<noteq> [] \<and> stage_part (butlast (tl after))"
    by (auto simp: extract_case_id_def after_def Let_def split: if_splits)
  from st obtain t where "k = ''cases/'' @ t" unfolding py_startswith_iff by blast
  then have k: "k = ''cases/'' @ ?rest" by simp
  have rest: "?rest = c @ after" by (simp add: c(1) after_def)
  have af: "after = CHR ''/'' # tl after" using c(3) hd_dropWhile [of ?p ?rest] by (cases after) (auto simp: after_def)
  have whole: "k = (''cases/'' @ c @ [CHR ''/'']) @ tl after"
    using k rest af by (metis append.assoc append_Cons append_Nil)
  have np: "\<not> py_isspace CHR ''c''" "\<not> py_isspace CHR ''n''" "py_isspace CHR 0x0A" by (simp_all add: py_isspace_def)
  from m show ?thesis
  proof
    assume s: "stage_part (tl after)"
    have "last k = CHR ''n''" using stage_part_end [OF s] whole by (metis last_appendR)
    moreover have "hd k = CHR ''c''" "k \<noteq> []" by (subst k, simp)+
    ultimately have "py_strip k = k" using np by (intro py_strip_bounded) simp_all
    then show ?thesis using assms by simp
  next
    assume s: "last (tl after) = CHR 0x0A \<and> tl after \<noteq> [] \<and> stage_part (butlast (tl after))"
    define a0 where "a0 = butlast (tl after)"
    have ta: "tl after = a0 @ [CHR 0x0A]" using s by (metis a0_def append_butlast_last_id)
    let ?k0 = "''cases/'' @ c @ CHR ''/'' # a0"
    have kk: "k = ?k0 @ [CHR 0x0A]" using whole ta by simp
    have "last ?k0 = CHR ''n''" using stage_part_end [of a0] s by (simp add: a0_def)
    then have e: "py_strip k = ?k0" unfolding kk using np by (intro py_strip_snoc) simp_all
    have cp: "\<forall>x \<in> set c. ?p x" using c(1) by (metis set_takeWhileD)
    have "takeWhile ?p (c @ CHR ''/'' # a0) = c" "dropWhile ?p (c @ CHR ''/'' # a0) = CHR ''/'' # a0"
      using cp by (simp_all add: takeWhile_append2 dropWhile_append2)
    then show ?thesis unfolding e using s c(2) by (simp add: extract_case_id_def py_startswith_iff Let_def a0_def)
  qed
qed

lemma strip_expired: "expired objs cutoff k \<Longrightarrow> expired objs cutoff (py_strip k)"
  using extract_strip unfolding expired_def by blast

lemma extract_prefixed: "extract_case_id k = Some c \<Longrightarrow> py_startswith k casefile_prefix"
  by (simp add: extract_case_id_def casefile_prefix_def split: if_splits)

lemma expired_listed: "expired (filter (\<lambda>x. py_startswith (fst x) casefile_prefix) objs) cutoff k \<longleftrightarrow> expired objs cutoff k"
proof -
  have "case_pairs (filter (\<lambda>x. py_startswith (fst x) casefile_prefix) objs) c = case_pairs objs c" for c
    unfolding case_pairs_def filter_filter by (rule filter_cong) (auto dest: extract_prefixed)
  then show ?thesis by (simp add: expired_def)
qed

lemma summaries_read: "rmap_list object_summary_of (map (\<lambda>x. (Some (fst x), Some (Aware (snd x)))) xs) = Inr (map summary xs)"
  by (induction xs) (simp_all add: object_summary_of_def summary_def)

lemma nonempty_keys_empty: "nonempty_keys es = [] \<Longrightarrow> k \<noteq> [] \<Longrightarrow> Some k \<notin> set es"
  by (induction es) (auto simp: nonempty_keys_def map_filter_simps split: option.splits if_splits)

context s3_inventory
begin

lemma page_read:
  assumes "list_objects_page list_objects b p tok n s = (answer, s')" "0 < n" "tok \<noteq> Some []"
  shows "objects s' = objects s"
    and "answer = Inr page \<Longrightarrow>
      \<exists>m \<ge> 1. (let all = filter (\<lambda>x. py_startswith (fst x) p) (objects s b); start = (case tok of None \<Rightarrow> 0 | Some t \<Rightarrow> pos t)
        in lp_objects page = map summary (take m (drop start all)) \<and>
          (case lp_next_continuation_token page of None \<Rightarrow> length all \<le> start + m
           | Some t \<Rightarrow> t \<noteq> [] \<and> pos t = start + m \<and> start + m < length all))"
proof -
  show "objects s' = objects s"
    using assms by (auto simp: list_objects_page_def dest: list_pure split: if_splits sum.splits prod.splits)
  assume a: "answer = Inr page"
  then obtain contents nxt where call: "list_objects s b p n tok = (Inr (contents, nxt), s')"
    and pg: "rbind (rmap_list object_summary_of contents) (\<lambda>os. Inr \<lparr>lp_objects = os, lp_next_continuation_token = nxt\<rparr>) = Inr page"
    using assms by (auto simp: list_objects_page_def split: if_splits sum.splits prod.splits)
  from list_page [OF call assms(2)] obtain m where "1 \<le> m" and
    m: "let all = filter (\<lambda>x. py_startswith (fst x) p) (objects s b); start = (case tok of None \<Rightarrow> 0 | Some t \<Rightarrow> pos t)
         in contents = map (\<lambda>x. (Some (fst x), Some (Aware (snd x)))) (take m (drop start all)) \<and>
            (case nxt of None \<Rightarrow> length all \<le> start + m
             | Some t \<Rightarrow> t \<noteq> [] \<and> pos t = start + m \<and> start + m < length all)" by blast
  moreover have "lp_objects page = map summary (take m (drop (case tok of None \<Rightarrow> 0 | Some t \<Rightarrow> pos t)
      (filter (\<lambda>x. py_startswith (fst x) p) (objects s b))))" "lp_next_continuation_token page = nxt"
    using m pg by (auto simp: Let_def summaries_read)
  ultimately show "\<exists>m \<ge> 1. (let all = filter (\<lambda>x. py_startswith (fst x) p) (objects s b); start = (case tok of None \<Rightarrow> 0 | Some t \<Rightarrow> pos t)
        in lp_objects page = map summary (take m (drop start all)) \<and>
          (case lp_next_continuation_token page of None \<Rightarrow> length all \<le> start + m
           | Some t \<Rightarrow> t \<noteq> [] \<and> pos t = start + m \<and> start + m < length all))"
    unfolding Let_def by (intro exI [of _ m]) simp
qed

text \<open>The loop ends: a token only leads to a later position of the listing.\<close>

lemma listing_ends:
  assumes "everything = filter (\<lambda>x. py_startswith (fst x) p) (objects s b)" "0 < n" "tok \<noteq> Some []"
  shows "\<exists>answer s'. list_case_objects (\<lambda>t. list_objects_page list_objects b p t n) tok scanned acc s = Some (answer, s') \<and>
    objects s' = objects s \<and>
    (\<forall>found. answer = Inr found \<longrightarrow>
       (let rest = drop (case tok of None \<Rightarrow> 0 | Some t \<Rightarrow> pos t) everything
        in found = (scanned + length rest, fold add_case_object (map summary rest) acc)))"
  using assms
proof (induction "length everything - (case tok of None \<Rightarrow> 0 | Some t \<Rightarrow> pos t)" arbitrary: tok scanned acc s rule: less_induct)
  case less
  let ?start = "case tok of None \<Rightarrow> 0 | Some t \<Rightarrow> pos t" and ?all = "filter (\<lambda>x. py_startswith (fst x) p) (objects s b)"
  obtain answer s1 where call: "list_objects_page list_objects b p tok n s = (answer, s1)" by (meson surj_pair)
  note same = page_read(1) [OF call less.prems(2,3)]
  show ?case
  proof (cases answer)
    case (Inl e)
    then show ?thesis using call same by (simp add: list_case_objects.simps)
  next
    case (Inr page)
    from page_read(2) [OF call less.prems(2,3) Inr] obtain m where m: "1 \<le> m"
      and os: "lp_objects page = map summary (take m (drop ?start ?all))"
      and nxt: "case lp_next_continuation_token page of None \<Rightarrow> length ?all \<le> ?start + m
           | Some t \<Rightarrow> t \<noteq> [] \<and> pos t = ?start + m \<and> ?start + m < length ?all"
      by (auto simp: Let_def)
    show ?thesis
    proof (cases "lp_next_continuation_token page")
      case None
      then have "take m (drop ?start ?all) = drop ?start ?all" using nxt by simp
      then show ?thesis using call Inr None os same less.prems(1) by (simp add: list_case_objects.simps Let_def)
    next
      case (Some t)
      let ?acc = "fold add_case_object (lp_objects page) acc" and ?n = "scanned + length (lp_objects page)"
      have "pos t = ?start + m" using nxt Some by simp
      then have cut: "drop ?start ?all = take m (drop ?start ?all) @ drop (pos t) ?all"
        by (simp only: append_take_drop_id add.commute [of ?start m] flip: drop_drop)
      have "\<exists>answer s'. list_case_objects (\<lambda>t. list_objects_page list_objects b p t n) (Some t) ?n ?acc s1 = Some (answer, s') \<and>
        objects s' = objects s1 \<and>
        (\<forall>found. answer = Inr found \<longrightarrow>
           (let rest = drop (pos t) ?all in found = (?n + length rest, fold add_case_object (map summary rest) ?acc)))"
      proof -
        have "length everything - pos t < length everything - ?start" using nxt Some m less.prems(1) by (simp, linarith)
        moreover have "everything = filter (\<lambda>x. py_startswith (fst x) p) (objects s1 b)" using same less.prems(1) by simp
        moreover have "Some t \<noteq> Some []" using nxt Some by simp
        ultimately show ?thesis using less.hyps [of "Some t" s1 ?n ?acc] less.prems(1,2) by simp
      qed
      moreover have "length (drop ?start ?all) = length (lp_objects page) + length (drop (pos t) ?all)"
        by (subst cut) (simp add: os)
      moreover have "fold add_case_object (map summary (drop ?start ?all)) acc = fold add_case_object (map summary (drop (pos t) ?all)) ?acc"
        by (subst cut) (simp add: os)
      ultimately show ?thesis using call Inr Some same less.prems(1) by (subst list_case_objects.simps) (auto simp: Let_def)
    qed
  qed
qed

lemma batch_deleted:
  assumes "delete_objects_batch delete_objects b ks ref s = (answer, s')"
  shows "\<exists>gone \<subseteq> set (map py_strip ks). objects s' b = filter (\<lambda>x. fst x \<notin> gone) (objects s b) \<and> (gone \<noteq> {} \<longrightarrow> ref \<noteq> None)"
    and "\<lbrakk>answer = Inr r; dr_failed_keys r = []; k \<in> set ks; py_strip k \<noteq> []\<rbrakk> \<Longrightarrow> py_strip k \<notin> fst ` set (objects s' b)"
proof -
  let ?keys = "filter (\<lambda>k. k \<noteq> []) (map py_strip ks)"
  show "\<exists>gone \<subseteq> set (map py_strip ks). objects s' b = filter (\<lambda>x. fst x \<notin> gone) (objects s b) \<and> (gone \<noteq> {} \<longrightarrow> ref \<noteq> None)"
  proof -
    obtain reply s1 where d: "delete_objects s b ?keys = (reply, s1)" by (meson surj_pair)
    then have "s' = s \<or> s' = s1 \<and> ref \<noteq> None"
      using assms by (cases reply) (auto simp: delete_objects_batch_def Let_def split: if_splits option.splits prod.splits)
    moreover obtain gone where "gone \<subseteq> set ?keys" "objects s1 b = filter (\<lambda>x. fst x \<notin> gone) (objects s b)" using delete_some [OF d] by blast
    moreover have "set ?keys \<subseteq> set (map py_strip ks)" by auto
    ultimately show ?thesis by (metis (no_types, lifting) empty_iff empty_subsetI filter_True subset_trans)
  qed
  assume a: "answer = Inr r" "dr_failed_keys r = []" "k \<in> set ks" "py_strip k \<noteq> []"
  then have "py_strip k \<in> set ?keys" by simp
  moreover from this have "?keys \<noteq> []" by (metis empty_iff list.set(1))
  moreover from this obtain deleted errors where "delete_objects s b ?keys = (Inr (deleted, errors), s')" "nonempty_keys errors = []"
    using assms a(1,2) by (auto simp: delete_objects_batch_def Let_def simp del: filter_map split: if_splits option.splits sum.splits prod.splits)
  ultimately show "py_strip k \<notin> fst ` set (objects s' b)" using delete_reported nonempty_keys_empty a(4) by blast
qed

lemma batches_deleted:
  assumes "delete_batches (\<lambda>ks. delete_objects_batch delete_objects b ks ref) batches s = (answer, s')"
  shows "\<exists>gone \<subseteq> set (map py_strip (concat batches)). objects s' b = filter (\<lambda>x. fst x \<notin> gone) (objects s b) \<and> (gone \<noteq> {} \<longrightarrow> ref \<noteq> None)"
    and "\<lbrakk>answer = Inr (purged, []); k \<in> set (concat batches); py_strip k \<noteq> []\<rbrakk> \<Longrightarrow> py_strip k \<notin> fst ` set (objects s' b)"
  using assms
proof (induction batches arbitrary: s answer purged)
  case Nil
  {
    case 1
    then show ?case by (intro exI [of _ "{}"]) simp
  next
    case 2
    then show ?case by simp
  }
next
  case (Cons ks batches)
  {
    case 1
    obtain r1 s1 where c: "delete_objects_batch delete_objects b ks ref s = (r1, s1)" by (meson surj_pair)
    obtain g1 where g1: "g1 \<subseteq> set (map py_strip ks)" "objects s1 b = filter (\<lambda>x. fst x \<notin> g1) (objects s b)" "g1 \<noteq> {} \<longrightarrow> ref \<noteq> None"
      using batch_deleted(1) [OF c] by blast
    show ?case
    proof (cases r1)
      case (Inl e)
      then show ?thesis using 1 c g1 by (intro exI [of _ g1]) auto
    next
      case (Inr r)
      then obtain answer2 where "delete_batches (\<lambda>ks. delete_objects_batch delete_objects b ks ref) batches s1 = (answer2, s')"
        using 1 c by (auto simp: st_bind_def split: sum.splits prod.splits)
      from Cons.IH(1) [OF this] obtain g2 where "g2 \<subseteq> set (map py_strip (concat batches))"
        "objects s' b = filter (\<lambda>x. fst x \<notin> g2) (objects s1 b)" "g2 \<noteq> {} \<longrightarrow> ref \<noteq> None" by blast
      then show ?thesis using g1 by (intro exI [of _ "g1 \<union> g2"]) (auto simp: filter_filter)
    qed
  next
    case 2
    then obtain r s1 rest where c: "delete_objects_batch delete_objects b ks ref s = (Inr r, s1)" "dr_failed_keys r = []"
      and d: "delete_batches (\<lambda>ks. delete_objects_batch delete_objects b ks ref) batches s1 = (Inr (rest, []), s')"
      by (auto simp: st_bind_def split: sum.splits prod.splits)
    have "fst ` set (objects s' b) \<subseteq> fst ` set (objects s1 b)" using Cons.IH(1) [OF d] by fastforce
    then show ?case using 2 batch_deleted(2) [OF c(1) refl c(2)] Cons.IH(2) [OF refl _ _ d] by auto
  }
qed

lemma purge_effect:
  fixes objs b
  defines "listed \<equiv> filter (\<lambda>x. py_startswith (fst x) casefile_prefix) objs"
  assumes run: "purge (\<lambda>ks. delete_objects_batch delete_objects b ks (lr_governance_approval_ref r)) r cutoff
      (n, fold add_case_object (map summary listed) []) s = (answer, s')" and objs: "objects s b = objs"
  shows "\<exists>gone. objects s' b = filter (\<lambda>x. fst x \<notin> gone) objs \<and>
      (\<forall>k \<in> gone. lr_governance_approval_ref r \<noteq> None \<and> expired objs cutoff k)"
    and "\<lbrakk>answer = Inr u; lu_failed_count u = 0; k \<in> fst ` set (objects s' b); py_strip k = k\<rbrakk> \<Longrightarrow> \<not> expired objs cutoff k"
proof -
  let ?keys = "ordered_keys cutoff (fold add_case_object (map summary listed) [])" and ?ref = "lr_governance_approval_ref r"
  have keys: "set ?keys = {k \<in> fst ` set listed. expired objs cutoff k}"
    by (simp add: ordered_keys_listed listed_def expired_listed)
  have all: "concat (chunked ?keys (lr_delete_batch_size r)) = ?keys" by (simp add: chunked_def concat_chunk_loop)
  let ?del = "delete_batches (\<lambda>ks. delete_objects_batch delete_objects b ks ?ref) (chunked ?keys (lr_delete_batch_size r)) s"
  obtain reply s1 where d: "?del = (reply, s1)" by (meson surj_pair)
  have cases: "s' = s \<and> \<not> is_ok answer \<or>
      s' = s1 \<and> (\<forall>u. answer = Inr u \<longrightarrow> lu_failed_count u = 0 \<longrightarrow> (\<exists>purged. reply = Inr (purged, [])))"
  proof (cases "?keys \<noteq> [] \<and> ?ref = None")
    case True
    then show ?thesis using run by (auto simp: purge_def Let_def)
  next
    case False
    then have "purge (\<lambda>ks. delete_objects_batch delete_objects b ks ?ref) r cutoff (n, fold add_case_object (map summary listed) []) s =
      st_bind (reply, s1) (\<lambda>(purged, failed) s.
          (Inr \<lparr>lu_scanned_count = n, lu_eligible_count = length ?keys, lu_purged_count = length purged,
                lu_failed_count = length failed, lu_case_ids = sort (remdups (List.map_filter extract_case_id (purged @ failed)))\<rparr>, s))"
      unfolding purge_def Let_def prod.case d by (simp only: False if_False)
    then show ?thesis using run by (cases reply) (auto simp: st_bind_def)
  qed
  obtain gone where g: "gone \<subseteq> set (map py_strip ?keys)" "objects s1 b = filter (\<lambda>x. fst x \<notin> gone) objs" "gone \<noteq> {} \<longrightarrow> ?ref \<noteq> None"
    using batches_deleted(1) [OF d] unfolding all objs by blast
  have exp: "\<forall>k \<in> gone. ?ref \<noteq> None \<and> expired objs cutoff k"
  proof
    fix k assume k: "k \<in> gone"
    then obtain k0 where "k0 \<in> set ?keys" "k = py_strip k0" using g(1) by auto
    then show "?ref \<noteq> None \<and> expired objs cutoff k" using g(3) k keys strip_expired by blast
  qed
  show "\<exists>gone. objects s' b = filter (\<lambda>x. fst x \<notin> gone) objs \<and> (\<forall>k \<in> gone. ?ref \<noteq> None \<and> expired objs cutoff k)"
    using cases
  proof
    assume "s' = s \<and> \<not> is_ok answer"
    then show ?thesis by (intro exI [of _ "{}"]) (simp add: objs)
  next
    assume "s' = s1 \<and> (\<forall>u. answer = Inr u \<longrightarrow> lu_failed_count u = 0 \<longrightarrow> (\<exists>purged. reply = Inr (purged, [])))"
    then show ?thesis using g(2) exp by blast
  qed
  assume a: "answer = Inr u" "lu_failed_count u = 0" "k \<in> fst ` set (objects s' b)" "py_strip k = k"
  with cases obtain purged where 2: "s' = s1" and r: "reply = Inr (purged, [])" by auto
  show "\<not> expired objs cutoff k"
  proof
    assume e: "expired objs cutoff k"
    have "k \<in> fst ` set objs" using a(3) 2 g(2) by auto
    moreover have "py_startswith k casefile_prefix" "k \<noteq> []"
      using e extract_prefixed unfolding expired_def by (blast, auto simp: extract_case_id_def)
    ultimately have "k \<in> {k \<in> fst ` set listed. expired objs cutoff k}" using e unfolding listed_def by auto
    then have "k \<in> set ?keys" unfolding keys .
    then show False using batches_deleted(2) [OF d r, of k] a(3,4) 2 all \<open>k \<noteq> []\<close> by simp
  qed
qed

end

lemma run_cutoff: "rbind (lifecycle_now clock now) (\<lambda>t. resolve_retention_cutoff policy env clock (Some (Aware t))) = Inr c \<longleftrightarrow>
    resolve_retention_cutoff policy env clock now = Inr c"
  by (cases "lifecycle_now clock now") (auto simp: resolve_retention_cutoff_def lifecycle_now_def as_aware_utc_def split: option.splits)

context s3_inventory
begin

lemma run_effect:
  assumes "new_lifecycle_runner policy env approval db ps = Inr r"
  shows "\<exists>answer s'. lifecycle_run_once list_objects delete_objects b r clock now s = Some (answer, s') \<and>
    (\<exists>gone. objects s' b = filter (\<lambda>x. fst x \<notin> gone) (objects s b) \<and>
       (\<forall>k \<in> gone. lr_governance_approval_ref r \<noteq> None \<and>
         (\<exists>cutoff. resolve_retention_cutoff policy env clock now = Inr cutoff \<and> expired (objects s b) cutoff k))) \<and>
    (\<forall>u. answer = Inr u \<longrightarrow> lu_failed_count u = 0 \<longrightarrow>
      (\<exists>cutoff. resolve_retention_cutoff policy env clock now = Inr cutoff \<and>
        (\<forall>k \<in> fst ` set (objects s' b). py_strip k = k \<longrightarrow> \<not> expired (objects s b) cutoff k)))"
proof -
  have r: "lr_policy r = policy" "lr_app_env r = env" "0 < lr_list_page_size r"
    using assms by (auto simp: new_lifecycle_runner_def split: if_splits)
  let ?cut = "rbind (lifecycle_now clock now) (\<lambda>t. resolve_retention_cutoff policy env clock (Some (Aware t)))"
  have same: "\<exists>gone. objects s b = filter (\<lambda>x. fst x \<notin> gone) (objects s b) \<and>
       (\<forall>k \<in> gone. lr_governance_approval_ref r \<noteq> None \<and>
         (\<exists>cutoff. resolve_retention_cutoff policy env clock now = Inr cutoff \<and> expired (objects s b) cutoff k))"
    by (intro exI [of _ "{}"]) simp
  show ?thesis
  proof (cases ?cut)
    case (Inl e)
    then show ?thesis using same r by (simp add: lifecycle_run_once_def)
  next
    case (Inr cutoff)
    note c = Inr [unfolded run_cutoff]
    let ?listed = "filter (\<lambda>x. py_startswith (fst x) casefile_prefix) (objects s b)"
    from listing_ends [where tok = None and p = casefile_prefix and s = s and b = b and scanned = 0 and acc = "[]", OF refl r(3)] obtain found s1 where
      l: "list_case_objects (\<lambda>t. list_objects_page list_objects b casefile_prefix t (lr_list_page_size r)) None 0 [] s = Some (found, s1)"
      and keep: "objects s1 = objects s"
      and f: "\<And>x. found = Inr x \<Longrightarrow> x = (length ?listed, fold add_case_object (map summary ?listed) [])"
      unfolding Let_def by auto
    show ?thesis
    proof (cases found)
      case (Inl e)
      then show ?thesis using \<open>?cut = Inr cutoff\<close> same r l keep by (simp add: lifecycle_run_once_def)
    next
      case (Inr x)
      let ?p = "purge (\<lambda>ks. delete_objects_batch delete_objects b ks (lr_governance_approval_ref r)) r cutoff
        (length ?listed, fold add_case_object (map summary ?listed) []) s1"
      obtain answer s2 where p: "?p = (answer, s2)" by (meson surj_pair)
      then have "lifecycle_run_once list_objects delete_objects b r clock now s = Some (answer, s2)"
        using \<open>?cut = Inr cutoff\<close> Inr f [OF Inr] l r by (simp add: lifecycle_run_once_def)
      moreover have "objects s1 b = objects s b" using keep by simp
      note purge_effect [OF p this]
      ultimately show ?thesis using c by auto
    qed
  qed
qed

lemma run_keeps:
  assumes "new_lifecycle_runner policy env approval db ps = Inr r" "lifecycle_run_once list_objects delete_objects b r clock now s = Some (answer, s')"
    and "x \<in> set (objects s b)" "\<And>cutoff. resolve_retention_cutoff policy env clock now = Inr cutoff \<Longrightarrow> \<not> expired (objects s b) cutoff (fst x)"
  shows "x \<in> set (objects s' b)"
proof -
  from run_effect [OF assms(1), of b clock now s] assms(2) obtain gone where
    "objects s' b = filter (\<lambda>x. fst x \<notin> gone) (objects s b)"
    "\<forall>k \<in> gone. \<exists>cutoff. resolve_retention_cutoff policy env clock now = Inr cutoff \<and> expired (objects s b) cutoff k" by auto
  then show ?thesis using assms(3,4) by auto
qed

lemma run_purges:
  assumes "new_lifecycle_runner policy env approval db ps = Inr r" "lifecycle_run_once list_objects delete_objects b r clock now s = Some (Inr u, s')"
    and "lu_failed_count u = 0" "py_strip k = k"
    and "\<And>cutoff. resolve_retention_cutoff policy env clock now = Inr cutoff \<Longrightarrow> expired (objects s b) cutoff k"
  shows "k \<notin> fst ` set (objects s' b)"
proof -
  from run_effect [OF assms(1), of b clock now s] assms(2,3) obtain cutoff where
    "resolve_retention_cutoff policy env clock now = Inr cutoff"
    "\<forall>k \<in> fst ` set (objects s' b). py_strip k = k \<longrightarrow> \<not> expired (objects s b) cutoff k" by auto
  then show ?thesis using assms(4,5) by blast
qed

end

interpretation inventory: s3_inventory inventory_list inventory_delete inv_bucket length
proof
  show "inv_bucket s' = inv_bucket s" if "inventory_list s b p n tok = (answer, s')" for s b p n tok answer s'
    using that by (auto simp: inventory_list_def inv_bucket_def fun_eq_iff Let_def split: list.splits option.splits)
  show "\<exists>m. 1 \<le> m \<and> m \<le> nat n \<and>
        (let all = filter (\<lambda>x. py_startswith (fst x) p) (inv_bucket s b); start = (case tok of None \<Rightarrow> 0 | Some t \<Rightarrow> length t)
         in entries = map (\<lambda>x. (Some (fst x), Some (Aware (snd x)))) (take m (drop start all)) \<and>
            (case nxt of None \<Rightarrow> length all \<le> start + m
             | Some t \<Rightarrow> t \<noteq> [] \<and> length t = start + m \<and> start + m < length all))"
    if "inventory_list s b p n tok = (Inr (entries, nxt), s')" "0 < n" for s b p n tok entries nxt s'
    using that by (intro exI [of _ "nat n"]) (auto simp: inventory_list_def Let_def split: list.splits option.splits if_splits)
  show "\<exists>gone \<subseteq> set ks. inv_bucket s' b = filter (\<lambda>x. fst x \<notin> gone) (inv_bucket s b)"
    if "inventory_delete s b ks = (answer, s')" for s b ks answer s'
  proof (cases "inv_bucket s' b = inv_bucket s b")
    case True
    then show ?thesis by (intro exI [of _ "{}"]) simp
  next
    case False
    then show ?thesis using that
      by (intro exI [of _ "{k \<in> set ks. k \<notin> set (inv_locked s)}"])
        (auto simp: inventory_delete_def inv_bucket_def Let_def split: list.splits option.splits)
  qed
  show "k \<notin> fst ` set (inv_bucket s' b)"
    if "inventory_delete s b ks = (Inr (deleted, errors), s')" "k \<in> set ks" "Some k \<notin> set errors" for s b ks deleted errors s' k
    using that by (auto simp: inventory_delete_def inv_bucket_def Let_def split: list.splits option.splits)
qed

lemma demo_page:
  "list_objects_page inventory_list ''b'' casefile_prefix None 2 demo_inventory =
     (Inr \<lparr>lp_objects = map summary (take 2 (inv_bucket demo_inventory ''b'')), lp_next_continuation_token = Some ''xx''\<rparr>, demo_inventory)"
  "list_objects_page inventory_list ''b'' casefile_prefix (Some ''xx'') 2 demo_inventory =
     (Inr \<lparr>lp_objects = map summary (drop 2 (inv_bucket demo_inventory ''b'')), lp_next_continuation_token = None\<rparr>, demo_inventory)"
  by code_simp+

lemma demo_cutoff: "rbind (lifecycle_now 0 (Some (Aware (100 * micros_per_day)))) (\<lambda>t. resolve_retention_cutoff demo_policy ''dev'' 0 (Some (Aware t))) =
    Inr (69 * micros_per_day)"
  by code_simp

lemma demo_purge:
  "purge (\<lambda>ks. delete_objects_batch inventory_delete ''b'' ks (Some ''CHG-1'')) demo_runner (69 * micros_per_day)
     (3, fold add_case_object (map summary (inv_bucket demo_inventory ''b'')) []) demo_inventory = (Inr demo_run_result, demo_inventory_after)"
  by code_simp

lemma demo_run:
  "lifecycle_run_once inventory_list inventory_delete ''b'' demo_runner 0 (Some (Aware (100 * micros_per_day))) demo_inventory =
     Some (Inr demo_run_result, demo_inventory_after)"
proof -
  have r: "lr_policy demo_runner = demo_policy" "lr_app_env demo_runner = ''dev''" "lr_list_page_size demo_runner = 2"
    "lr_governance_approval_ref demo_runner = Some ''CHG-1''" by (simp_all add: demo_runner_def)
  have n: "length (inv_bucket demo_inventory ''b'') = 3"
    by (simp add: demo_inventory_def inv_bucket_def)
  have "fold add_case_object (map summary (drop 2 (inv_bucket demo_inventory ''b'')))
      (fold add_case_object (map summary (take 2 (inv_bucket demo_inventory ''b''))) []) =
    fold add_case_object (map summary (inv_bucket demo_inventory ''b'')) []"
    by (metis append_take_drop_id comp_apply fold_append map_append)
  then show ?thesis unfolding lifecycle_run_once_def r demo_cutoff
    using n demo_purge by (simp add: list_case_objects.simps demo_page numeral_3_eq_3)
qed

lemma demo_runner_made: "new_lifecycle_runner demo_policy ''dev'' (Some ''CHG-1'') 1 2 = Inr demo_runner"
  by code_simp

section \<open>Properties\<close>

text \<open>C17: a lifecycle run always ends, on any number of pages. It only deletes objects of cases created by the cutoff of the runner's
  environment, and none without a governance approval; when it returns with no failed key, no object of an expired case is left, save a key
  that the client's stripping changes.
\<close>

theorem lifecycle_purges_expired:
  assumes "s3_inventory list_objects delete_objects objects pos" "new_lifecycle_runner policy env approval db ps = Inr r"
  shows "\<exists>answer s'. lifecycle_run_once list_objects delete_objects b r clock now s = Some (answer, s') \<and>
    (\<exists>gone. objects s' b = filter (\<lambda>x. fst x \<notin> gone) (objects s b) \<and>
       (\<forall>k \<in> gone. lr_governance_approval_ref r \<noteq> None \<and>
         (\<exists>cutoff. resolve_retention_cutoff policy env clock now = Inr cutoff \<and> expired (objects s b) cutoff k))) \<and>
    (\<forall>u. answer = Inr u \<longrightarrow> lu_failed_count u = 0 \<longrightarrow>
      (\<exists>cutoff. resolve_retention_cutoff policy env clock now = Inr cutoff \<and>
        (\<forall>k \<in> fst ` set (objects s' b). py_strip k = k \<longrightarrow> \<not> expired (objects s b) cutoff k)))"
  by (rule s3_inventory.run_effect [OF assms])

theorem lifecycle_purges_expired_witness:
  "lifecycle_run_once inventory_list inventory_delete ''b'' demo_runner 0 (Some (Aware (100 * micros_per_day))) demo_inventory =
     Some (Inr demo_run_result, demo_inventory_after) \<and>
   (\<exists>gone. inv_bucket demo_inventory_after ''b'' = filter (\<lambda>x. fst x \<notin> gone) (inv_bucket demo_inventory ''b'') \<and>
     (\<forall>k \<in> gone. \<exists>cutoff. resolve_retention_cutoff demo_policy ''dev'' 0 (Some (Aware (100 * micros_per_day))) = Inr cutoff \<and>
        expired (inv_bucket demo_inventory ''b'') cutoff k))"
  using lifecycle_purges_expired [OF inventory.s3_inventory_axioms demo_runner_made, of "''b''" 0 "Some (Aware (100 * micros_per_day))" demo_inventory]
    demo_run by auto

text \<open>under a valid policy of \<open>m\<close> months, every object of a case created less than 28 times \<open>m\<close> days ago survives a run, and every object of a case
  created 31 times \<open>m\<close> days ago or earlier is gone after a run that reports no failed key.
\<close>

theorem retention_window:
  assumes "s3_inventory list_objects delete_objects objects pos" "new_lifecycle_runner policy env approval db ps = Inr r"
    and policy: "validate_retention_policy policy = Inr policy" "dict_get (rp_retention_by_env policy) env = Some m"
    and now: "lifecycle_now clock now = Inr t"
    and run: "lifecycle_run_once list_objects delete_objects b r clock now s = Some (answer, s')"
    and x: "x \<in> set (objects s b)" "extract_case_id (fst x) = Some c" "created = resolve_case_created_at (case_pairs (objects s b) c)"
  shows "(t - 28 * m * micros_per_day < created \<longrightarrow> x \<in> set (objects s' b)) \<and>
    (created \<le> t - 31 * m * micros_per_day \<longrightarrow> is_ok answer \<longrightarrow> lu_failed_count (projr answer) = 0 \<longrightarrow> py_strip (fst x) = fst x \<longrightarrow>
       fst x \<notin> fst ` set (objects s' b))"
proof -
  have "1 \<le> m" using policy by (auto simp: validate_retention_policy_def list_all_iff dest!: map_of_SomeD split: if_splits)
  then obtain k where m: "m = int k" using zero_le_imp_eq_int [of m] by auto
  have window: "t - 31 * m * micros_per_day \<le> cutoff \<and> cutoff \<le> t - 28 * m * micros_per_day"
    if "resolve_retention_cutoff policy env clock now = Inr cutoff" for cutoff
    using that subtract_months_window [of t k cutoff] policy(2) now by (simp add: resolve_retention_cutoff_def m)
  have pairs: "case_pairs (objects s b) c \<noteq> []" using x by (auto simp: case_pairs_def filter_empty_conv)
  then have e: "expired (objects s b) cutoff (fst x) \<longleftrightarrow> created \<le> cutoff" for cutoff using x by (auto simp: expired_def)
  show ?thesis
  proof (intro conjI impI)
    assume young: "t - 28 * m * micros_per_day < created"
    show "x \<in> set (objects s' b)"
      by (rule s3_inventory.run_keeps [OF assms(1,2) run x(1)]) (use young window e in fastforce)
  next
    assume old: "created \<le> t - 31 * m * micros_per_day" "is_ok answer" "lu_failed_count (projr answer) = 0" "py_strip (fst x) = fst x"
    then have "answer = Inr (projr answer)" by (auto simp: is_ok_iff)
    with run have "lifecycle_run_once list_objects delete_objects b r clock now s = Some (Inr (projr answer), s')" by simp
    then show "fst x \<notin> fst ` set (objects s' b)"
      by (rule s3_inventory.run_purges [OF assms(1,2) _ old(3,4)]) (use old(1) window e in fastforce)
  qed
qed

theorem retention_window_witness:
  "(''cases/n/t.json'', 90 * micros_per_day) \<in> set (inv_bucket demo_inventory_after ''b'') \<and>
   ''cases/o/t.json'' \<notin> fst ` set (inv_bucket demo_inventory_after ''b'')"
proof -
  let ?t = "100 * micros_per_day"
  note window = retention_window [OF inventory.s3_inventory_axioms demo_runner_made _ _ _ demo_run, where m = 1 and t = ?t]
  have pre: "validate_retention_policy demo_policy = Inr demo_policy" "dict_get (rp_retention_by_env demo_policy) ''dev'' = Some 1"
    "lifecycle_now 0 (Some (Aware ?t)) = Inr ?t" by code_simp+
  have c: "extract_case_id ''cases/n/t.json'' = Some ''n''" "extract_case_id ''cases/o/t.json'' = Some ''o''" "extract_case_id ''cases/o/d.json'' = Some ''o''"
    by code_simp+
  have created: "resolve_case_created_at (case_pairs (inv_bucket demo_inventory ''b'') ''n'') = 90 * micros_per_day"
    "resolve_case_created_at (case_pairs (inv_bucket demo_inventory ''b'') ''o'') = 3" by code_simp+
  have x: "(''cases/n/t.json'', 90 * micros_per_day) \<in> set (inv_bucket demo_inventory ''b'')" "(''cases/o/t.json'', 3) \<in> set (inv_bucket demo_inventory ''b'')"
    by (simp_all add: demo_inventory_def inv_bucket_def)
  have strip: "py_strip ''cases/o/t.json'' = ''cases/o/t.json''" by code_simp
  have ok: "is_ok (Inr demo_run_result :: lifecycle_run_result result)" "lu_failed_count (projr (Inr demo_run_result :: lifecycle_run_result result)) = 0"
    by (simp_all add: demo_run_result_def)
  have new: "?t - 28 * 1 * micros_per_day < 90 * micros_per_day" and old: "3 \<le> ?t - 31 * 1 * micros_per_day"
    by (simp_all add: micros_per_day_def)
  note young_case = window [OF pre x(1) _ created(1) [symmetric], unfolded fst_conv, OF c(1)]
  note old_case = window [OF pre x(2) _ created(2) [symmetric], unfolded fst_conv, OF c(2)]
  show ?thesis using young_case new old_case old ok strip by blast
qed

end
