(* ===== verification/Table_Url.thy ===== *)
theory Table_Url
  imports Py_Base
begin

text \<open>
  The addresses of the ServiceNow Table API: \<open>_build_table_url\<close> of \<open>integrations/servicenow.py\<close> with \<open>urllib.parse.quote\<close>
  (no safe characters) and \<open>urlencode\<close> on ASCII text, and the decoding a server performs, under which the components the
  client composes come back unchanged.
\<close>

section \<open>Encoding\<close>

definition url_unreserved :: "char \<Rightarrow> bool" where
  "url_unreserved c = (let n = (of_char c :: nat)
     in 65 \<le> n \<and> n \<le> 90 \<or> 97 \<le> n \<and> n \<le> 122 \<or> 48 \<le> n \<and> n \<le> 57 \<or> n \<in> {95, 46, 45, 126})"

definition hex_digit :: "nat \<Rightarrow> char" where
  "hex_digit n = char_of (if n < 10 then 48 + n else 55 + n)"

definition percent :: "char \<Rightarrow> string" where
  "percent c = (let n = (of_char c :: nat) in [CHR ''%'', hex_digit (n div 16), hex_digit (n mod 16)])"

definition quote_char :: "char \<Rightarrow> string" where
  "quote_char c = (if url_unreserved c then [c] else percent c)"

definition url_quote :: "string \<Rightarrow> string" where
  "url_quote s = concat (map quote_char s)"

definition url_quote_plus :: "string \<Rightarrow> string" where
  "url_quote_plus s = concat (map (\<lambda>c. if c = CHR '' '' then ''+'' else quote_char c) s)"

definition urlencode :: "(string, string) pydict \<Rightarrow> string" where
  "urlencode params = py_join ''&'' (map (\<lambda>(k, v). url_quote_plus k @ ''='' @ url_quote_plus v) params)"

definition table_url :: "string \<Rightarrow> string \<Rightarrow> (string, string) pydict \<Rightarrow> string option \<Rightarrow> string" where
  "table_url base table params record_sys_id =
     base @ ''/api/now/table/'' @ url_quote table @
     (case record_sys_id of Some s \<Rightarrow> if s = [] then [] else ''/'' @ url_quote s | None \<Rightarrow> []) @
     (if params = [] then [] else ''?'' @ urlencode params)"

definition build_table_url :: "string option \<Rightarrow> string \<Rightarrow> (string, string) pydict \<Rightarrow> string option \<Rightarrow> string result" where
  "build_table_url base_url table params record_sys_id = (case base_url of
       Some base \<Rightarrow>
         if base = [] then raise ValueError ''ServiceNow base_url is required for LIVE mode''
         else Inr (table_url base table params record_sys_id)
     | None \<Rightarrow> raise ValueError ''ServiceNow base_url is required for LIVE mode'')"

section \<open>Decoding\<close>

definition unhex :: "char \<Rightarrow> nat" where
  "unhex c = (let n = (of_char c :: nat) in if n < 65 then n - 48 else n - 55)"

fun url_unquote :: "string \<Rightarrow> string" where
  "url_unquote (c # a # b # s) =
     (if c = CHR ''%'' then char_of (16 * unhex a + unhex b) # url_unquote s else c # url_unquote (a # b # s))"
| "url_unquote s = s"

fun split_on :: "char \<Rightarrow> string \<Rightarrow> string list" where
  "split_on x [] = [[]]"
| "split_on x (c # s) = (if c = x then [] # split_on x s else (case split_on x s of [] \<Rightarrow> [[c]] | w # ws \<Rightarrow> (c # w) # ws))"

definition unquote_plus :: "string \<Rightarrow> string" where
  "unquote_plus s = url_unquote (map (\<lambda>c. if c = CHR ''+'' then CHR '' '' else c) s)"

definition decode_param :: "string \<Rightarrow> string \<times> string" where
  "decode_param p = (let k = takeWhile (\<lambda>c. c \<noteq> CHR ''='') p
     in (unquote_plus k, unquote_plus (drop (Suc (length k)) p)))"

text \<open>The path segments after the API prefix and the query parameters.\<close>

definition decode_url :: "string \<Rightarrow> string \<Rightarrow> (string list \<times> (string \<times> string) list) option" where
  "decode_url base u =
     (let prefix = base @ ''/api/now/table/'' in
      if \<not> py_startswith u prefix then None
      else let rest = drop (length prefix) u; path = takeWhile (\<lambda>c. c \<noteq> CHR ''?'') rest; query = drop (Suc (length path)) rest
           in Some (map url_unquote (split_on CHR ''/'' path),
                    if query = [] then [] else map decode_param (split_on CHR ''&'' query)))"

section \<open>Lemmas\<close>

lemma hex_round:
  assumes "n < 16"
  shows "unhex (hex_digit n) = n" "of_char (hex_digit n) = (if n < 10 then 48 + n else 55 + n)"
  using assms by (simp_all add: unhex_def hex_digit_def)

lemma quote_char_safe: "d \<in> set (quote_char c) \<Longrightarrow> url_unreserved d \<or> d = CHR ''%''"
proof -
  assume d: "d \<in> set (quote_char c)"
  have h: "url_unreserved (hex_digit n)" if "n < 16" for n
    using that by (auto simp: url_unreserved_def hex_round(2))
  have "(of_char c :: nat) div 16 < 16" by (simp add: less_mult_imp_div_less)
  then show ?thesis using d h by (auto simp: quote_char_def percent_def Let_def split: if_splits)
qed

lemma reserved_chars: "\<not> url_unreserved CHR ''/''" "\<not> url_unreserved CHR ''?''" "\<not> url_unreserved CHR ''&''"
    "\<not> url_unreserved CHR ''=''" "\<not> url_unreserved CHR ''+''" "\<not> url_unreserved CHR ''%''" "\<not> url_unreserved CHR '' ''"
  by (simp_all add: url_unreserved_def)

lemma unquote_char: "url_unquote (quote_char c @ s) = c # url_unquote s"
proof (cases "url_unreserved c")
  case True
  then have "c \<noteq> CHR ''%''" using reserved_chars by auto
  then show ?thesis using True by (cases s rule: url_unquote.cases) (auto simp: quote_char_def)
next
  case False
  have "(of_char c :: nat) div 16 < 16" by (simp add: less_mult_imp_div_less)
  then have "unhex (hex_digit (of_char c div 16)) = of_char c div 16" "unhex (hex_digit (of_char c mod 16)) = of_char c mod 16"
    by (simp_all add: hex_round(1))
  then show ?thesis using False by (simp add: quote_char_def percent_def Let_def)
qed

lemma unquote_quote: "url_unquote (url_quote s) = s"
  by (induction s) (simp_all add: url_quote_def unquote_char)

lemma quote_chars: "d \<in> set (url_quote s) \<Longrightarrow> url_unreserved d \<or> d = CHR ''%''"
  by (auto simp: url_quote_def dest: quote_char_safe)

lemma quote_plus_chars: "d \<in> set (url_quote_plus s) \<Longrightarrow> url_unreserved d \<or> d \<in> {CHR ''%'', CHR ''+''}"
  by (auto simp: url_quote_plus_def dest: quote_char_safe split: if_splits)

lemma quote_plus_round: "unquote_plus (url_quote_plus s) = s"
proof -
  let ?f = "\<lambda>c. if c = CHR ''+'' then CHR '' '' else c"
  have q: "map ?f (quote_char c) = quote_char c" for c
    by (rule map_idI) (use quote_char_safe [of _ c] reserved_chars in auto)
  have "map ?f (url_quote_plus s) = concat (map (\<lambda>c. if c = CHR '' '' then '' '' else quote_char c) s)"
    by (induction s) (simp_all add: url_quote_plus_def q)
  moreover have "url_unquote (concat (map (\<lambda>c. if c = CHR '' '' then '' '' else quote_char c) s)) = s"
  proof (induction s)
    case (Cons c s)
    have "url_unquote (CHR '' '' # u) = CHR '' '' # url_unquote u" for u
      by (cases u rule: url_unquote.cases) auto
    with Cons show ?case by (simp add: unquote_char)
  qed simp
  ultimately show ?thesis by (simp add: unquote_plus_def)
qed

lemma split_on_free: "x \<notin> set s \<Longrightarrow> split_on x s = [s]"
  by (induction s) auto

lemma split_on_append: "x \<notin> set s \<Longrightarrow> split_on x (s @ x # t) = s # split_on x t"
  by (induction s) auto

lemma split_on_join: "\<lbrakk>ws \<noteq> []; \<forall>w \<in> set ws. x \<notin> set w\<rbrakk> \<Longrightarrow> split_on x (py_join [x] ws) = ws"
  by (induction "[x]" ws rule: py_join.induct) (simp_all add: split_on_free split_on_append)

lemma takeWhile_until: "x \<notin> set s \<Longrightarrow> takeWhile (\<lambda>c. c \<noteq> x) (s @ x # t) = s" "x \<notin> set s \<Longrightarrow> takeWhile (\<lambda>c. c \<noteq> x) s = s"
  by (induction s) auto

lemma decode_encode_param: "decode_param (url_quote_plus k @ ''='' @ url_quote_plus v) = (k, v)"
proof -
  have "CHR ''='' \<notin> set (url_quote_plus k)" using quote_plus_chars reserved_chars by fastforce
  then show ?thesis by (simp add: decode_param_def takeWhile_until quote_plus_round)
qed

lemma decode_query: "params \<noteq> [] \<Longrightarrow> map decode_param (split_on CHR ''&'' (urlencode params)) = params"
proof -
  let ?enc = "\<lambda>(k, v). url_quote_plus k @ ''='' @ url_quote_plus v"
  assume "params \<noteq> []"
  moreover have "CHR ''&'' \<notin> set (?enc p)" for p
    using quote_plus_chars reserved_chars by (cases p) fastforce
  ultimately have "split_on CHR ''&'' (urlencode params) = map ?enc params"
    unfolding urlencode_def by (intro split_on_join) auto
  moreover have "map decode_param (map ?enc params) = params"
    by (induction params) (auto simp: decode_encode_param [simplified])
  ultimately show ?thesis by simp
qed

lemma urlencode_nonempty: "params \<noteq> [] \<Longrightarrow> urlencode params \<noteq> []"
  by (cases params; cases "tl params") (auto simp: urlencode_def)

lemma decode_table_url:
  "decode_url base (table_url base table params record_sys_id) =
     Some ([table] @ (case record_sys_id of Some s \<Rightarrow> if s = [] then [] else [s] | None \<Rightarrow> []), params)"
proof -
  let ?sys = "case record_sys_id of Some s \<Rightarrow> if s = [] then [] else [s] | None \<Rightarrow> []"
  define path where "path = py_join ''/'' (map url_quote (table # ?sys))"
  have free: "CHR ''/'' \<notin> set (url_quote s)" "CHR ''?'' \<notin> set (url_quote s)" for s
    using quote_chars reserved_chars by fastforce+
  have path: "map url_unquote (split_on CHR ''/'' path) = table # ?sys" "CHR ''?'' \<notin> set path"
    unfolding path_def using free by (auto simp: split_on_free split_on_append unquote_quote split: option.splits)
  define pre where "pre = base @ ''/api/now/table/''"
  have url: "table_url base table params record_sys_id = pre @ path @ (if params = [] then [] else CHR ''?'' # urlencode params)"
    unfolding table_url_def path_def pre_def by (auto split: option.splits)
  show ?thesis unfolding url decode_url_def pre_def [symmetric] Let_def
    using path urlencode_nonempty [of params] decode_query [of params] by (cases "params = []") (simp_all add: takeWhile_until)
qed

section \<open>Property\<close>

text \<open>no identifier can change the shape of a request. Whatever text the table, the record and the query parameters hold,
  a server that decodes the address the client builds gets back exactly that table, that record and those parameters.\<close>

theorem table_url_roundtrip:
  "decode_url base (table_url base table params record_sys_id) =
     Some ([table] @ (case record_sys_id of Some s \<Rightarrow> if s = [] then [] else [s] | None \<Rightarrow> []), params)"
  by (rule decode_table_url)

end
