(* ===== verification/ServiceNow.thy ===== *)
theory ServiceNow
  imports Table_Url Linkage_State Dispatch Calendar
begin

text \<open>
  The ServiceNow adapter: \<open>contracts/sn_linkage.py\<close> and \<open>integrations/servicenow.py\<close>. An operation threads the state
  \<open>sn_state\<close>: the server, the requests sent so far, and the identifiers of the mock mode. The parameters are \<open>http\<close> for
  \<open>urlopen\<close> (its reply with the body decoded by \<open>json.loads\<close>), \<open>dumps\<close> for \<open>json.dumps(sort_keys=True)\<close>, \<open>rend\<close> for
  \<open>str()\<close> of a container or float, \<open>search\<close> for the denylist's regular expressions, \<open>sha256_hex\<close>, and the date parsers; \<open>rid\<close> is
  the \<open>uuid4\<close> request identifier. Log records, latency and metrics are left out.
\<close>

section \<open>Contract\<close>

record sn_contract =
  nc_schema_version :: string
  nc_enabled :: bool
  nc_incident_table :: string
  nc_problem_table :: string
  nc_pir_task_table :: string
  nc_external_id_field :: string
  nc_tier1_correlation_fields :: "string list"
  nc_tier2_text_fields :: "string list"
  nc_tier2_include_work_notes :: bool
  nc_tier3_window_minutes :: int
  nc_tier3_assignment_groups :: "string list"
  nc_live_timeout_seconds :: pyfloat
  nc_max_results_per_tier :: int
  nc_max_upsert_lookup_results :: int
  nc_max_correlation_window_days :: int
  nc_correlation_strategy :: "string list"
  nc_retry_window_minutes :: int
  nc_retry_base_seconds :: int
  nc_retry_max_seconds :: int
  nc_retry_jitter_ratio :: pyfloat
  nc_transient_error_classifications :: "string list"
  nc_mi_creation_allowed :: bool

definition default_sn_contract :: sn_contract where
  "default_sn_contract =
     \<lparr>nc_schema_version = ''v1'', nc_enabled = False, nc_incident_table = ''incident'', nc_problem_table = ''problem'',
      nc_pir_task_table = ''problem_task'', nc_external_id_field = ''external_id'',
      nc_tier1_correlation_fields = [''u_pagerduty_incident_id'', ''correlation_id'', ''u_correlation_id''],
      nc_tier2_text_fields = [''short_description'', ''description''], nc_tier2_include_work_notes = False,
      nc_tier3_window_minutes = 120, nc_tier3_assignment_groups = [], nc_live_timeout_seconds = Fin 5,
      nc_max_results_per_tier = 25, nc_max_upsert_lookup_results = 5, nc_max_correlation_window_days = 7,
      nc_correlation_strategy = [''tier1'', ''tier2'', ''tier3''], nc_retry_window_minutes = 120, nc_retry_base_seconds = 30,
      nc_retry_max_seconds = 900, nc_retry_jitter_ratio = fl_round (2 / 10),
      nc_transient_error_classifications = [''timeout'', ''connection_error'', ''http_429'', ''http_5xx''], nc_mi_creation_allowed = False\<rparr>"

definition int_between :: "int \<Rightarrow> int \<Rightarrow> int \<Rightarrow> unit result" where
  "int_between lo hi n = (if n < lo then raise ValueError ''Input should be greater than or equal to the minimum''
     else if hi < n then raise ValueError ''Input should be less than or equal to the maximum'' else Inr ())"

definition sn_contract_fields_ok :: "sn_contract \<Rightarrow> unit result" where
  "sn_contract_fields_ok c =
     (if nc_schema_version c \<noteq> ''v1'' then raise ValueError ''Input should be v1''
      else if \<not> set (nc_tier2_text_fields c) \<subseteq> {''short_description'', ''description'', ''work_notes''}
      then raise ValueError ''Input should be short_description, description or work_notes''
      else rbind (int_between 1 720 (nc_tier3_window_minutes c)) (\<lambda>_.
           if \<not> fl_lt (Fin 0) (nc_live_timeout_seconds c) then raise ValueError ''Input should be greater than 0''
      else rbind (int_between 1 100 (nc_max_results_per_tier c)) (\<lambda>_.
           rbind (int_between 1 100 (nc_max_upsert_lookup_results c)) (\<lambda>_.
           rbind (int_between 1 720 (nc_retry_window_minutes c)) (\<lambda>_.
           rbind (int_between 1 3600 (nc_retry_base_seconds c)) (\<lambda>_.
           rbind (int_between 1 86400 (nc_retry_max_seconds c)) (\<lambda>_.
           if \<not> (fl_le (Fin 0) (nc_retry_jitter_ratio c) \<and> fl_le (nc_retry_jitter_ratio c) (Fin 1))
           then raise ValueError ''Input should be between 0 and 1'' else Inr ())))))))"

text \<open>The position of a tier, if the strategy has it.\<close>

fun tier_position :: "string list \<Rightarrow> string \<Rightarrow> nat option" where
  "tier_position [] t = None"
| "tier_position (x # xs) t = (if x = t then Some 0 else map_option Suc (tier_position xs t))"

definition tier_after :: "string list \<Rightarrow> string \<Rightarrow> string \<Rightarrow> bool" where
  "tier_after xs a b = (case (tier_position xs a, tier_position xs b) of (Some i, Some j) \<Rightarrow> j < i | _ \<Rightarrow> False)"

definition major_incident_tables :: "string list" where
  "major_incident_tables = [''major_incident'', ''incident_major'', ''incident'']"

definition validate_sn_contract :: "sn_contract \<Rightarrow> sn_contract result" where
  "validate_sn_contract c = rbind (sn_contract_fields_ok c) (\<lambda>_.
     if py_strip (nc_incident_table c) = [] then raise ValueError ''incident_table must be non-empty''
     else if py_strip (nc_problem_table c) = [] then raise ValueError ''problem_table must be non-empty''
     else if py_strip (nc_pir_task_table c) = [] then raise ValueError ''pir_task_table must be non-empty''
     else if py_strip (nc_external_id_field c) = [] then raise ValueError ''external_id_field must be non-empty''
     else if nc_tier1_correlation_fields c = [] then raise ValueError ''tier1_correlation_fields must contain at least one field''
     else if list_ex (\<lambda>f. py_strip f = []) (nc_tier1_correlation_fields c)
     then raise ValueError ''tier1_correlation_fields cannot contain empty values''
     else if nc_tier2_include_work_notes c \<and> ''work_notes'' \<notin> set (nc_tier2_text_fields c)
     then raise ValueError ''tier2_include_work_notes=true requires 'work_notes' in tier2_text_fields''
     else if ''tier1'' \<notin> set (nc_correlation_strategy c) then raise ValueError ''correlation_strategy must include tier1''
     else if \<not> distinct (nc_correlation_strategy c) then raise ValueError ''correlation_strategy cannot contain duplicate tiers''
     else if \<not> set (nc_correlation_strategy c) \<subseteq> {''tier1'', ''tier2'', ''tier3''}
     then raise ValueError ''correlation_strategy contains unsupported tier''
     else if nc_retry_max_seconds c < nc_retry_base_seconds c then raise ValueError ''retry_base_seconds must be <= retry_max_seconds''
     else if list_ex (\<lambda>x. py_strip x = []) (nc_transient_error_classifications c)
     then raise ValueError ''transient_error_classifications cannot contain empty values''
     else if \<not> distinct (nc_transient_error_classifications c)
     then raise ValueError ''transient_error_classifications cannot contain duplicates''
     else if tier_after (nc_correlation_strategy c) ''tier1'' ''tier2''
     then raise ValueError ''correlation_strategy must evaluate tier1 before tier2''
     else if tier_after (nc_correlation_strategy c) ''tier2'' ''tier3''
     then raise ValueError ''correlation_strategy must evaluate tier2 before tier3''
     else if nc_problem_table c = nc_incident_table c \<or> nc_pir_task_table c = nc_incident_table c
     then raise ValueError ''write tables must be distinct from incident_table''
     else if \<not> nc_mi_creation_allowed c \<and> py_lower (nc_problem_table c) \<in> set major_incident_tables
     then raise ValueError ''problem_table cannot target major incident tables''
     else if \<not> nc_mi_creation_allowed c \<and> py_lower (nc_pir_task_table c) \<in> set major_incident_tables
     then raise ValueError ''pir_task_table cannot target major incident tables''
     else Inr c)"

section \<open>Client and transport\<close>

record sn_client =
  sn_mode :: integration_mode
  sn_base_url :: "string option"
  sn_auth_token :: "string option"
  sn_contract :: sn_contract
  sn_mock_match_tier :: string
  sn_denylist :: denylist

definition rstrip_slashes :: "string \<Rightarrow> string" where
  "rstrip_slashes s = rev (dropWhile (\<lambda>c. c = CHR ''/'') (rev s))"

definition unset_denylist :: denylist where
  "unset_denylist = \<lparr>dl_denylist_version = ''unset'', dl_denied_field_names = [], dl_denied_value_patterns = [],
     dl_description = [], dl_changelog = []\<rparr>"

definition new_sn_client ::
  "integration_mode \<Rightarrow> string option \<Rightarrow> string option \<Rightarrow> sn_contract option \<Rightarrow> string \<Rightarrow> denylist option \<Rightarrow> sn_client" where
  "new_sn_client mode base_url auth_token contract tier d =
     \<lparr>sn_mode = mode, sn_base_url = (case base_url of Some u \<Rightarrow> if u = [] then None else Some (rstrip_slashes u) | None \<Rightarrow> None),
      sn_auth_token = auth_token, sn_contract = (case contract of Some c \<Rightarrow> c | None \<Rightarrow> default_sn_contract), sn_mock_match_tier = tier,
      sn_denylist = (case d of Some x \<Rightarrow> x | None \<Rightarrow> unset_denylist)\<rparr>"

datatype sn_method = GET | POST | PATCH

record sn_request =
  rq_method :: sn_method
  rq_url :: string
  rq_headers :: "(string, string) pydict"
  rq_body :: "jval option"

text \<open>A reply: an empty body, a decoded one, an \<open>HTTPError\<close> with its \<open>Retry-After\<close> header and reason, or another exception.\<close>

datatype sn_reply = Empty_Body | Json_Body jval | Http_Failure int "string option" string | Other_Failure string

record 'w sn_state =
  ss_server :: 'w
  ss_requests :: "sn_request list"
  ss_mock_sys_ids :: "(string \<times> string, string) pydict"

type_synonym 'w sn_http = "'w \<Rightarrow> sn_request \<Rightarrow> sn_reply \<times> 'w"

record 'w sn_services =
  sx_http :: "'w sn_http"
  sx_dumps :: "jval \<Rightarrow> string"
  sx_rend :: "jval \<Rightarrow> string"
  sx_search :: "string \<Rightarrow> string \<Rightarrow> bool"
  sx_sha256_hex :: "string \<Rightarrow> string"
  sx_http_date :: "string \<Rightarrow> py_datetime option"
  sx_iso_date :: "string \<Rightarrow> py_datetime option"
  sx_strptime :: "string \<Rightarrow> int option"
  sx_clock :: instant

section \<open>Errors of a request\<close>

definition all_digit_text :: "string \<Rightarrow> bool" where
  "all_digit_text s = (s \<noteq> [] \<and> list_all is_digit s)"

definition digits_value :: "string \<Rightarrow> int" where
  "digits_value s = fold (\<lambda>c acc. acc * 10 + (of_char c - 48)) s 0"

text \<open>\<open>int(text)\<close>: sign, digits with single underscores between them, at most 4300 digits.\<close>

definition py_int_text :: "string \<Rightarrow> int option" where
  "py_int_text s =
     (let t = py_strip s; negative = py_startswith t ''-'';
          body = (if negative \<or> py_startswith t ''+'' then tl t else t); parts = split_on CHR ''_'' body; ds = concat parts
      in if list_all all_digit_text parts \<and> length ds \<le> 4300 then Some (if negative then - digits_value ds else digits_value ds) else None)"

definition positive :: "int \<Rightarrow> int option" where
  "positive n = (if 0 < n then Some n else None)"

definition seconds_between :: "int \<Rightarrow> int" where
  "seconds_between d = (if 0 \<le> d then d div 1000000 else - ((- d) div 1000000))"

definition parse_retry_after_header :: "'w sn_services \<Rightarrow> string option \<Rightarrow> int option" where
  "parse_retry_after_header sx v = (case v of None \<Rightarrow> None
     | Some s \<Rightarrow>
         let t = py_strip s
         in if t = [] then None
            else if list_all is_digit t then positive (digits_value t)
            else case sx_http_date sx t of
                None \<Rightarrow> None
              | Some (Aware d) \<Rightarrow> Some (max (seconds_between (d - sx_clock sx)) 1)
              | Some (Naive d) \<Rightarrow> Some (max (seconds_between (d - sx_clock sx)) 1))"

definition format_http_error :: "'w sn_services \<Rightarrow> int \<Rightarrow> string option \<Rightarrow> string \<Rightarrow> string" where
  "format_http_error sx code retry_after reason =
     py_join '';'' ([''http_status='' @ py_str_int code] @
       (case parse_retry_after_header sx retry_after of Some n \<Rightarrow> [''retry_after_seconds='' @ py_str_int n] | None \<Rightarrow> []) @
       (if reason = [] then [] else [''reason='' @ reason]))"

definition contains_any :: "string list \<Rightarrow> string \<Rightarrow> bool" where
  "contains_any markers s = list_ex (\<lambda>m. py_contains m s) markers"

definition extract_error_code :: "string \<Rightarrow> string option" where
  "extract_error_code error =
     (let s = py_lower error
      in if contains_any [''http_status=429'', ''http error 429''] s then Some ''http_429''
         else if contains_any [''http_status=500'', ''http_status=502'', ''http_status=503'', ''http_status=504'',
           ''http error 500'', ''http error 502'', ''http error 503'', ''http error 504''] s then Some ''http_5xx''
         else if contains_any [''timed out'', ''timeout''] s then Some ''timeout''
         else if contains_any [''connection refused'', ''connection reset'', ''connection aborted''] s then Some ''connection_error''
         else None)"

text \<open>The text after the first occurrence of a marker.\<close>

fun after_marker :: "string \<Rightarrow> string \<Rightarrow> string option" where
  "after_marker m [] = (if m = [] then Some [] else None)"
| "after_marker m (c # s) = (if py_startswith (c # s) m then Some (drop (length m) (c # s)) else after_marker m s)"

definition extract_retry_after_seconds :: "string \<Rightarrow> int option" where
  "extract_retry_after_seconds error = (case after_marker ''retry_after_seconds='' error of
       None \<Rightarrow> None
     | Some rest \<Rightarrow> (case py_int_text (takeWhile (\<lambda>c. c \<noteq> CHR '';'') rest) of Some n \<Rightarrow> positive n | None \<Rightarrow> None))"

definition build_error_metadata :: "string \<Rightarrow> (string, jval) pydict" where
  "build_error_metadata error =
     (if error = [] then []
      else [(''error'', JStr error)] @
           (case extract_error_code error of Some c \<Rightarrow> [(''error_code'', JStr c)] | None \<Rightarrow> []) @
           (case extract_retry_after_seconds error of Some n \<Rightarrow> [(''retry_after_seconds'', JInt n)] | None \<Rightarrow> []))"

section \<open>Requests\<close>

definition quoted :: "string \<Rightarrow> string" where
  "quoted s = [CHR 0x27] @ s @ [CHR 0x27]"

fun json_type_name :: "jval \<Rightarrow> string" where
  "json_type_name JNull = ''NoneType''"
| "json_type_name (JBool _) = ''bool''"
| "json_type_name (JInt _) = ''int''"
| "json_type_name (JFloat _) = ''float''"
| "json_type_name (JStr _) = ''str''"
| "json_type_name (JList _) = ''list''"
| "json_type_name (JDict _) = ''dict''"

definition no_get :: "jval \<Rightarrow> string" where
  "no_get v = quoted (json_type_name v) @ '' object has no attribute '' @ quoted ''get''"

definition dict_of :: "jval \<Rightarrow> (string, jval) pydict option" where
  "dict_of v = (case v of JDict d \<Rightarrow> Some d | _ \<Rightarrow> None)"

text \<open>The records and the error of a GET; an error with an empty text is falsy to the callers.\<close>

definition reply_records :: "'w sn_services \<Rightarrow> sn_reply \<Rightarrow> (string, jval) pydict list \<times> string option" where
  "reply_records sx reply = (case reply of
       Empty_Body \<Rightarrow> ([], None)
     | Json_Body payload \<Rightarrow>
         (case dict_of payload of
            None \<Rightarrow> ([], Some (no_get payload))
          | Some d \<Rightarrow>
              (case dict_get d ''result'' of
                 None \<Rightarrow> ([], None)
               | Some (JDict r) \<Rightarrow> ([r], None)
               | Some (JList items) \<Rightarrow> (List.map_filter dict_of items, None)
               | Some _ \<Rightarrow> ([], Some (''ServiceNow response '' @ quoted ''result'' @ '' must be a list or object''))))
     | Http_Failure code retry_after reason \<Rightarrow> ([], Some (format_http_error sx code retry_after reason))
     | Other_Failure msg \<Rightarrow> ([], Some msg))"

definition reply_record :: "'w sn_services \<Rightarrow> sn_reply \<Rightarrow> (string, jval) pydict \<times> string option" where
  "reply_record sx reply = (case reply of
       Empty_Body \<Rightarrow> ([], None)
     | Json_Body payload \<Rightarrow>
         (case dict_of payload of
            None \<Rightarrow> ([], Some (no_get payload))
          | Some d \<Rightarrow>
              (case dict_get d ''result'' of
                 Some (JDict r) \<Rightarrow> (r, None)
               | Some (JList (JDict r # _)) \<Rightarrow> (r, None)
               | _ \<Rightarrow> ([], None)))
     | Http_Failure code retry_after reason \<Rightarrow> ([], Some (format_http_error sx code retry_after reason))
     | Other_Failure msg \<Rightarrow> ([], Some msg))"

definition truthy_text :: "string option \<Rightarrow> string option" where
  "truthy_text e = (if e = Some [] then None else e)"

definition build_headers :: "sn_client \<Rightarrow> (string, string) pydict" where
  "build_headers cl = (''Accept'', ''application/json'') #
     (case truthy_text (sn_auth_token cl) of Some t \<Rightarrow> [(''Authorization'', ''Bearer '' @ t)] | None \<Rightarrow> [])"

text \<open>\<open>urllib.request.Request\<close> refuses an address without a scheme, before the \<open>try\<close>.\<close>

definition unwrap_url :: "string \<Rightarrow> string" where
  "unwrap_url u =
     (let a = py_strip u;
          b = (if py_startswith a ''<'' \<and> last a = CHR ''>'' then py_strip (butlast (tl a)) else a)
      in if py_startswith b ''URL:'' then py_strip (drop 4 b) else b)"

definition has_scheme :: "string \<Rightarrow> bool" where
  "has_scheme u = (let scheme = takeWhile (\<lambda>c. c \<noteq> CHR '':'' \<and> c \<noteq> CHR ''/'') u
     in scheme \<noteq> [] \<and> py_startswith (drop (length scheme) u) '':'')"

definition new_request :: "sn_method \<Rightarrow> string \<Rightarrow> (string, string) pydict \<Rightarrow> jval option \<Rightarrow> sn_request result" where
  "new_request meth url headers body =
     (if has_scheme (unwrap_url url) then Inr \<lparr>rq_method = meth, rq_url = url, rq_headers = headers, rq_body = body\<rparr>
      else raise ValueError (''unknown url type: '' @ quoted url))"

definition send_request :: "'w sn_services \<Rightarrow> sn_request \<Rightarrow> 'w sn_state \<Rightarrow> sn_reply \<times> 'w sn_state" where
  "send_request sx rq s = (case sx_http sx (ss_server s) rq of
     (reply, w) \<Rightarrow> (reply, s\<lparr>ss_server := w, ss_requests := ss_requests s @ [rq]\<rparr>))"

definition request_records ::
  "'w sn_services \<Rightarrow> sn_client \<Rightarrow> string \<Rightarrow> (string, string) pydict \<Rightarrow> 'w sn_state \<Rightarrow>
   ((string, jval) pydict list \<times> string option) result \<times> 'w sn_state" where
  "request_records sx cl table params s =
     st_bind (rbind (build_table_url (sn_base_url cl) table params None) (\<lambda>url. new_request GET url (build_headers cl) None), s) (\<lambda>rq s.
       case send_request sx rq s of (reply, s') \<Rightarrow> (Inr (reply_records sx reply), s'))"

definition request_record_mutation ::
  "'w sn_services \<Rightarrow> sn_client \<Rightarrow> sn_method \<Rightarrow> string \<Rightarrow> (string, jval) pydict \<Rightarrow> string option \<Rightarrow> 'w sn_state \<Rightarrow>
   ((string, jval) pydict \<times> string option) result \<times> 'w sn_state" where
  "request_record_mutation sx cl meth table payload record_sys_id s =
     st_bind (rbind (build_table_url (sn_base_url cl) table [] record_sys_id) (\<lambda>url.
         new_request meth url (build_headers cl @ [(''Content-Type'', ''application/json'')]) (Some (JDict payload))), s) (\<lambda>rq s.
       case send_request sx rq s of (reply, s') \<Rightarrow> (Inr (reply_record sx reply), s'))"

section \<open>Identifiers and payloads\<close>

definition escape_query_value :: "string \<Rightarrow> string" where
  "escape_query_value v = filter (\<lambda>c. c \<noteq> CHR ''^'') v"

fun dedupe_from :: "string list \<Rightarrow> string list \<Rightarrow> string list" where
  "dedupe_from seen [] = []"
| "dedupe_from seen (x # xs) = (if x = [] \<or> x \<in> set seen then dedupe_from seen xs else x # dedupe_from (x # seen) xs)"

definition dedupe_preserve_order :: "string list \<Rightarrow> string list" where
  "dedupe_preserve_order items = dedupe_from [] items"

definition missing_required_values :: "string \<Rightarrow> string \<Rightarrow> string \<Rightarrow> string list" where
  "missing_required_values case_id pd_incident_id routing_key =
     (if py_strip case_id = [] then [''case_id''] else []) @ (if py_strip pd_incident_id = [] then [''pd_incident_id''] else []) @
     (if py_strip routing_key = [] then [''routing_key''] else [])"

definition build_external_id :: "'w sn_services \<Rightarrow> string \<Rightarrow> string \<Rightarrow> string \<Rightarrow> string option \<Rightarrow> string" where
  "build_external_id sx knd case_id pd_incident_id task_type =
     (let cid = py_strip case_id; pd = py_strip pd_incident_id; task = truthy_text (map_option py_strip task_type);
          digest = take 12 (sx_sha256_hex sx (py_join ''|'' ([cid, pd] @ (case task of Some t \<Rightarrow> [t] | None \<Rightarrow> []))))
      in ''aiops:'' @ knd @ '':'' @ cid @ '':'' @ pd @ '':'' @ digest @ (case task of Some t \<Rightarrow> '':'' @ t | None \<Rightarrow> []))"

definition build_problem_external_id :: "'w sn_services \<Rightarrow> string \<Rightarrow> string \<Rightarrow> string" where
  "build_problem_external_id sx case_id pd_incident_id = build_external_id sx ''problem'' case_id pd_incident_id None"

definition build_pir_task_external_id :: "'w sn_services \<Rightarrow> string \<Rightarrow> string \<Rightarrow> string \<Rightarrow> string" where
  "build_pir_task_external_id sx case_id pd_incident_id task_type = build_external_id sx ''pir-task'' case_id pd_incident_id (Some task_type)"

definition assert_write_scope :: "sn_client \<Rightarrow> string \<Rightarrow> unit result" where
  "assert_write_scope cl table =
     (let c = sn_contract cl in
      if table \<noteq> nc_problem_table c \<and> table \<noteq> nc_pir_task_table c
      then raise ValueError ''write scope violation: only Problem/PIR task tables are allowed''
      else if table = nc_incident_table c then raise ValueError ''write scope violation: incident table is read-only''
      else Inr ())"

definition assert_mi_guardrails :: "'w sn_services \<Rightarrow> sn_client \<Rightarrow> string \<Rightarrow> (string, jval) pydict \<Rightarrow> unit result" where
  "assert_mi_guardrails sx cl table payload =
     (if nc_mi_creation_allowed (sn_contract cl) then Inr ()
      else if py_contains ''major_incident'' (py_lower table)
      then raise ValueError ''MI-1 posture violation: major incident table writes are disallowed''
      else let lowered = py_lower (sx_dumps sx (JDict payload))
           in if py_contains ''major incident'' lowered \<or> py_contains ''major_incident'' lowered
              then raise ValueError ''MI-1 posture violation: major incident fields are disallowed''
              else Inr ())"

fun restore_required :: "string list \<Rightarrow> (string, jval) pydict \<Rightarrow> (string, jval) pydict \<Rightarrow> (string, jval) pydict" where
  "restore_required [] payload sanitized = sanitized"
| "restore_required (f # fs) payload sanitized =
     restore_required fs payload (case dict_get payload f of Some v \<Rightarrow> dict_set sanitized f v | None \<Rightarrow> sanitized)"

definition set_default :: "string \<Rightarrow> jval \<Rightarrow> (string, jval) pydict \<Rightarrow> (string, jval) pydict" where
  "set_default k v d = (if k \<in> fst ` set d then d else dict_set d k v)"

definition sanitize_payload_for_write ::
  "'w sn_services \<Rightarrow> sn_client \<Rightarrow> string \<Rightarrow> (string, jval) pydict \<Rightarrow> string list \<Rightarrow> (string, jval) pydict result" where
  "sanitize_payload_for_write sx cl table payload required =
     (let restored = restore_required required payload (apply_denylist (sx_search sx) (sn_denylist cl) payload);
          sanitized = set_default ''description'' (JStr (sx_dumps sx (JDict [(''source'', JStr ''aiops'')])))
            (set_default ''short_description'' (JStr ''AIOps linkage update'') restored)
      in rbind (assert_write_scope cl table) (\<lambda>_. rbind (assert_mi_guardrails sx cl table sanitized) (\<lambda>_. Inr sanitized)))"

definition present :: "string \<Rightarrow> string option \<Rightarrow> (string, jval) pydict" where
  "present k v = (case v of Some x \<Rightarrow> if py_strip x = [] then [] else [(k, JStr x)] | None \<Rightarrow> [])"

definition build_description ::
  "'w sn_services \<Rightarrow> sn_client \<Rightarrow> string \<Rightarrow> string \<Rightarrow> string option \<Rightarrow> string option \<Rightarrow> (string, jval) pydict \<Rightarrow> string" where
  "build_description sx cl case_id pd_incident_id incident_sys_id problem_sys_id context =
     sx_dumps sx (JDict (apply_denylist (sx_search sx) (sn_denylist cl)
       ([(''case_id'', JStr case_id), (''pd_incident_id'', JStr pd_incident_id), (''context'', JDict context)] @
        present ''incident_sys_id'' incident_sys_id @ present ''problem_sys_id'' problem_sys_id)))"

definition context_or_empty :: "(string, jval) pydict option \<Rightarrow> (string, jval) pydict" where
  "context_or_empty context = (case context of Some c \<Rightarrow> c | None \<Rightarrow> [])"

definition build_problem_payload ::
  "'w sn_services \<Rightarrow> sn_client \<Rightarrow> string \<Rightarrow> string \<Rightarrow> string \<Rightarrow> string \<Rightarrow> string \<Rightarrow> (string, jval) pydict option \<Rightarrow> (string, jval) pydict result" where
  "build_problem_payload sx cl external_id case_id pd_incident_id incident_sys_id summary context =
     (let field = nc_external_id_field (sn_contract cl);
          title = (if py_strip summary = [] then ''AIOps case '' @ case_id else py_strip summary);
          desc = build_description sx cl case_id pd_incident_id (Some incident_sys_id) None (context_or_empty context)
      in sanitize_payload_for_write sx cl (nc_problem_table (sn_contract cl))
           (dict_set (dict_set [(field, JStr external_id)] ''short_description'' (JStr title)) ''description'' (JStr desc)) [field])"

definition build_pir_task_payload ::
  "'w sn_services \<Rightarrow> sn_client \<Rightarrow> string \<Rightarrow> string \<Rightarrow> string \<Rightarrow> string \<Rightarrow> string \<Rightarrow> string \<Rightarrow> (string, jval) pydict option \<Rightarrow>
   (string, jval) pydict result" where
  "build_pir_task_payload sx cl external_id case_id pd_incident_id problem_sys_id task_type summary context =
     (let field = nc_external_id_field (sn_contract cl);
          cx = fold (\<lambda>(k, v) d. dict_set d k v) (context_or_empty context) [(''task_type'', JStr task_type)];
          desc = build_description sx cl case_id pd_incident_id None (Some problem_sys_id) cx
      in sanitize_payload_for_write sx cl (nc_pir_task_table (sn_contract cl))
           (dict_set (dict_set (dict_set [(field, JStr external_id)] ''problem'' (JStr problem_sys_id))
              ''short_description'' (JStr (task_type @ '': '' @ py_strip summary))) ''description'' (JStr desc)) [field, ''problem''])"

section \<open>Upsert of one record\<close>

datatype upsert_outcome = Up_Created | Up_Updated | Up_Skipped | Up_Failed

record sn_upsert =
  up_table :: string
  up_external_id :: string
  up_outcome :: upsert_outcome
  up_reason :: string
  up_request_id :: string
  up_sys_id :: "string option"
  up_reason_metadata :: "(string, jval) pydict"

definition upsert_result ::
  "string \<Rightarrow> string \<Rightarrow> string \<Rightarrow> upsert_outcome \<Rightarrow> string \<Rightarrow> string option \<Rightarrow> (string, jval) pydict \<Rightarrow> sn_upsert" where
  "upsert_result rid table external_id outcome reason sys_id metadata =
     \<lparr>up_table = table, up_external_id = external_id, up_outcome = outcome, up_reason = reason, up_request_id = rid,
      up_sys_id = sys_id, up_reason_metadata = metadata\<rparr>"

definition coerce_to_string :: "(jval \<Rightarrow> string) \<Rightarrow> jval option \<Rightarrow> string option" where
  "coerce_to_string rend v = (case v of None \<Rightarrow> None | Some JNull \<Rightarrow> None | Some x \<Rightarrow> Some (py_str rend x))"

definition record_sys_ids :: "(jval \<Rightarrow> string) \<Rightarrow> (string, jval) pydict list \<Rightarrow> string list" where
  "record_sys_ids rend records =
     sort (remdups (List.map_filter (\<lambda>r. truthy_text (coerce_to_string rend (dict_get r ''sys_id''))) records))"

definition extract_existing_sys_id :: "(jval \<Rightarrow> string) \<Rightarrow> (string, jval) pydict list \<Rightarrow> string option result" where
  "extract_existing_sys_id rend records = (case record_sys_ids rend records of
       [] \<Rightarrow> Inr None
     | [x] \<Rightarrow> Inr (Some x)
     | xs \<Rightarrow> raise ValueError (''multiple existing records found for external_id: '' @ py_join '','' xs))"

definition mock_upsert ::
  "'w sn_services \<Rightarrow> string \<Rightarrow> string \<Rightarrow> string \<Rightarrow> 'w sn_state \<Rightarrow> sn_upsert \<times> 'w sn_state" where
  "mock_upsert sx rid table external_id s = (case dict_get (ss_mock_sys_ids s) (table, external_id) of
       Some sid \<Rightarrow> (upsert_result rid table external_id Up_Updated ''mock_upsert'' (Some sid) [], s)
     | None \<Rightarrow>
         let sid = ''mock-'' @ take 12 (sx_sha256_hex sx (table @ ''|'' @ external_id))
         in (upsert_result rid table external_id Up_Created ''mock_upsert'' (Some sid) [],
             s\<lparr>ss_mock_sys_ids := dict_set (ss_mock_sys_ids s) (table, external_id) sid\<rparr>))"

definition lookup_params :: "sn_contract \<Rightarrow> string \<Rightarrow> (string, string) pydict" where
  "lookup_params c external_id =
     [(''sysparm_query'', nc_external_id_field c @ ''='' @ escape_query_value external_id),
      (''sysparm_limit'', py_str_int (nc_max_upsert_lookup_results c)),
      (''sysparm_fields'', ''sys_id,'' @ nc_external_id_field c)]"

definition create_record ::
  "'w sn_services \<Rightarrow> sn_client \<Rightarrow> string \<Rightarrow> string \<Rightarrow> string \<Rightarrow> (string, jval) pydict \<Rightarrow> 'w sn_state \<Rightarrow> sn_upsert result \<times> 'w sn_state" where
  "create_record sx cl rid table external_id payload s =
     st_bind (request_record_mutation sx cl POST table payload None s) (\<lambda>(written, error) s.
       (Inr (case truthy_text error of
          Some e \<Rightarrow> upsert_result rid table external_id Up_Failed ''create_error'' None (build_error_metadata e)
        | None \<Rightarrow> (case coerce_to_string (sx_rend sx) (dict_get written ''sys_id'') of
            None \<Rightarrow> upsert_result rid table external_id Up_Failed ''create_error'' None (build_error_metadata ''missing_sys_id'')
          | Some sid \<Rightarrow> upsert_result rid table external_id Up_Created ''created'' (Some sid) [])), s))"

definition update_record ::
  "'w sn_services \<Rightarrow> sn_client \<Rightarrow> string \<Rightarrow> string \<Rightarrow> string \<Rightarrow> (string, jval) pydict \<Rightarrow> string \<Rightarrow> 'w sn_state \<Rightarrow> sn_upsert result \<times> 'w sn_state" where
  "update_record sx cl rid table external_id payload existing s =
     st_bind (request_record_mutation sx cl PATCH table payload (Some existing) s) (\<lambda>(written, error) s.
       (Inr (case truthy_text error of
          Some e \<Rightarrow> upsert_result rid table external_id Up_Failed ''update_error'' None (build_error_metadata e)
        | None \<Rightarrow> upsert_result rid table external_id Up_Updated ''updated''
            (Some (case truthy_text (coerce_to_string (sx_rend sx) (dict_get written ''sys_id'')) of Some sid \<Rightarrow> sid | None \<Rightarrow> existing)) []), s))"

definition upsert_live ::
  "'w sn_services \<Rightarrow> sn_client \<Rightarrow> string \<Rightarrow> string \<Rightarrow> string \<Rightarrow> (string, jval) pydict \<Rightarrow> 'w sn_state \<Rightarrow> sn_upsert result \<times> 'w sn_state" where
  "upsert_live sx cl rid table external_id payload s =
     (let failed = (\<lambda>e. upsert_result rid table external_id Up_Failed ''lookup_error'' None (build_error_metadata e)) in
      st_bind (request_records sx cl table (lookup_params (sn_contract cl) external_id) s) (\<lambda>(records, error) s.
        case truthy_text error of
          Some e \<Rightarrow> (Inr (failed e), s)
        | None \<Rightarrow>
            (case extract_existing_sys_id (sx_rend sx) records of
               Inl e \<Rightarrow> (Inr (failed (exc_str e)), s)
             | Inr None \<Rightarrow> create_record sx cl rid table external_id payload s
             | Inr (Some sid) \<Rightarrow> update_record sx cl rid table external_id payload sid s)))"

definition upsert_record ::
  "'w sn_services \<Rightarrow> sn_client \<Rightarrow> string \<Rightarrow> string \<Rightarrow> string \<Rightarrow> (string, jval) pydict \<Rightarrow> 'w sn_state \<Rightarrow> sn_upsert result \<times> 'w sn_state" where
  "upsert_record sx cl rid table external_id payload s =
     st_bind (assert_write_scope cl table, s) (\<lambda>_ s.
       if sn_mode cl = MODE_OFF then (Inr (upsert_result rid table external_id Up_Skipped ''mode_off'' None []), s)
       else if sn_mode cl = MODE_LOG then (Inr (upsert_result rid table external_id Up_Skipped ''mode_log_noop'' None []), s)
       else if sn_mode cl = MODE_MOCK then (case mock_upsert sx rid table external_id s of (r, s') \<Rightarrow> (Inr r, s'))
       else if truthy_text (sn_base_url cl) = None then (Inr (upsert_result rid table external_id Up_Failed ''missing_base_url'' None []), s)
       else upsert_live sx cl rid table external_id payload s)"

section \<open>Problem and PIR tasks\<close>

definition names :: "string list \<Rightarrow> (string, jval) pydict" where
  "names missing = [(''missing_fields'', JList (map JStr missing))]"

definition upsert_problem ::
  "'w sn_services \<Rightarrow> sn_client \<Rightarrow> string \<Rightarrow> string \<Rightarrow> string \<Rightarrow> string \<Rightarrow> string \<Rightarrow> (string, jval) pydict option \<Rightarrow> 'w sn_state \<Rightarrow>
   sn_upsert result \<times> 'w sn_state" where
  "upsert_problem sx cl rid case_id pd_incident_id incident_sys_id summary context s =
     (let table = nc_problem_table (sn_contract cl); missing = missing_required_values case_id pd_incident_id incident_sys_id
      in if missing \<noteq> [] then (Inr (upsert_result rid table [] Up_Failed ''invalid_input'' None (names missing)), s)
         else let external_id = build_problem_external_id sx case_id pd_incident_id
              in st_bind (build_problem_payload sx cl external_id case_id pd_incident_id incident_sys_id summary context, s) (\<lambda>payload s.
                   upsert_record sx cl rid table external_id payload s))"

definition upsert_pir_task ::
  "'w sn_services \<Rightarrow> sn_client \<Rightarrow> string \<Rightarrow> string \<Rightarrow> string \<Rightarrow> string \<Rightarrow> string \<Rightarrow> string \<Rightarrow> (string, jval) pydict option \<Rightarrow> 'w sn_state \<Rightarrow>
   sn_upsert result \<times> 'w sn_state" where
  "upsert_pir_task sx cl rid case_id pd_incident_id problem_sys_id task_type summary context s =
     (let table = nc_pir_task_table (sn_contract cl); missing = missing_required_values case_id pd_incident_id task_type
      in if py_strip problem_sys_id = []
         then (Inr (upsert_result rid table [] Up_Failed ''invalid_input'' None (names [''problem_sys_id''])), s)
         else if missing \<noteq> [] then (Inr (upsert_result rid table [] Up_Failed ''invalid_input'' None (names missing)), s)
         else let external_id = build_pir_task_external_id sx case_id pd_incident_id task_type
              in st_bind (build_pir_task_payload sx cl external_id case_id pd_incident_id problem_sys_id task_type summary context, s) (\<lambda>payload s.
                   upsert_record sx cl rid table external_id payload s))"

record linkage_write =
  wr_linkage_status :: string
  wr_linkage_reason :: string
  wr_request_id :: string
  wr_incident_sys_id :: "string option"
  wr_problem_sys_id :: "string option"
  wr_problem_external_id :: "string option"
  wr_pir_task_sys_ids :: "string list"
  wr_pir_task_external_ids :: "string list"
  wr_linkage_state :: "linkage_retry_state option"
  wr_retryable :: "bool option"
  wr_next_attempt_at :: "instant option"
  wr_reason_metadata :: "(string, jval) pydict"

definition write_result :: "string \<Rightarrow> string \<Rightarrow> string \<Rightarrow> string option \<Rightarrow> (string, jval) pydict \<Rightarrow> linkage_write" where
  "write_result status reason rid incident_sys_id metadata =
     \<lparr>wr_linkage_status = status, wr_linkage_reason = reason, wr_request_id = rid, wr_incident_sys_id = incident_sys_id,
      wr_problem_sys_id = None, wr_problem_external_id = None, wr_pir_task_sys_ids = [], wr_pir_task_external_ids = [],
      wr_linkage_state = None, wr_retryable = None, wr_next_attempt_at = None, wr_reason_metadata = metadata\<rparr>"

definition dict_merge :: "(string, jval) pydict \<Rightarrow> (string, jval) pydict \<Rightarrow> (string, jval) pydict" where
  "dict_merge d e = fold (\<lambda>(k, v) d. dict_set d k v) e d"

text \<open>The loop over the task types, from the identifiers gathered so far.\<close>

fun upsert_pir_tasks ::
  "(string \<Rightarrow> 's \<Rightarrow> sn_upsert result \<times> 's) \<Rightarrow> linkage_write \<Rightarrow> string list \<Rightarrow> 's \<Rightarrow> linkage_write result \<times> 's" where
  "upsert_pir_tasks upsert acc [] s = (Inr (acc\<lparr>wr_linkage_status := ''linked'', wr_linkage_reason := ''linked''\<rparr>), s)"
| "upsert_pir_tasks upsert acc (t # ts) s = st_bind (upsert t s) (\<lambda>u s.
     let acc1 = acc\<lparr>wr_pir_task_external_ids := wr_pir_task_external_ids acc @ [up_external_id u]\<rparr> in
     if up_outcome u = Up_Failed then
       (Inr (acc1\<lparr>wr_linkage_status := ''failed'', wr_linkage_reason := ''upsert_error'',
          wr_reason_metadata := dict_merge [(''pir_task_reason'', JStr (up_reason u))] (up_reason_metadata u)\<rparr>), s)
     else if up_outcome u = Up_Skipped then
       (Inr (acc1\<lparr>wr_linkage_status := ''skipped'', wr_linkage_reason := up_reason u, wr_pir_task_sys_ids := []\<rparr>), s)
     else upsert_pir_tasks upsert
            (acc1\<lparr>wr_pir_task_sys_ids := wr_pir_task_sys_ids acc1 @ (case up_sys_id u of Some x \<Rightarrow> [x] | None \<Rightarrow> [])\<rparr>) ts s)"

definition link_problem ::
  "'w sn_services \<Rightarrow> sn_client \<Rightarrow> string \<Rightarrow> string \<Rightarrow> string \<Rightarrow> string \<Rightarrow> string \<Rightarrow> string list \<Rightarrow> (string, jval) pydict option \<Rightarrow>
   'w sn_state \<Rightarrow> linkage_write result \<times> 'w sn_state" where
  "link_problem sx cl rid case_id pd_incident_id incident_sys_id summary task_types context s =
     st_bind (upsert_problem sx cl rid case_id pd_incident_id incident_sys_id summary context s) (\<lambda>problem s.
       let base = (write_result ''failed'' ''upsert_error'' rid (Some incident_sys_id) [])\<lparr>wr_problem_external_id := Some (up_external_id problem)\<rparr> in
       if up_outcome problem = Up_Failed then
         (Inr (base\<lparr>wr_reason_metadata := dict_merge [(''problem_reason'', JStr (up_reason problem))] (up_reason_metadata problem)\<rparr>), s)
       else if up_outcome problem = Up_Skipped then
         (Inr (base\<lparr>wr_linkage_status := ''skipped'', wr_linkage_reason := up_reason problem\<rparr>), s)
       else case up_sys_id problem of
           None \<Rightarrow> (Inr (base\<lparr>wr_reason_metadata := [(''problem_reason'', JStr ''missing_problem_sys_id'')]\<rparr>), s)
         | Some problem_sys_id \<Rightarrow>
             upsert_pir_tasks (\<lambda>task_type. upsert_pir_task sx cl rid case_id pd_incident_id problem_sys_id task_type summary context)
               (base\<lparr>wr_problem_sys_id := Some problem_sys_id\<rparr>) task_types s)"

definition upsert_problem_and_pir_tasks ::
  "'w sn_services \<Rightarrow> sn_client \<Rightarrow> string \<Rightarrow> string \<Rightarrow> string \<Rightarrow> string option \<Rightarrow> string \<Rightarrow> string list \<Rightarrow> (string, jval) pydict option \<Rightarrow>
   'w sn_state \<Rightarrow> linkage_write \<times> 'w sn_state" where
  "upsert_problem_and_pir_tasks sx cl rid case_id pd_incident_id incident_sys_id summary pir_task_types context s =
     (case incident_sys_id of
        None \<Rightarrow> (write_result ''not-linked'' ''missing_incident_sys_id'' rid None [], s)
      | Some sys \<Rightarrow>
          if py_strip sys = [] then (write_result ''not-linked'' ''missing_incident_sys_id'' rid (Some sys) [], s)
          else let task_types = dedupe_preserve_order pir_task_types
               in if task_types = [] then (write_result ''failed'' ''invalid_input'' rid (Some sys) (names [''pir_task_types'']), s)
                  else case link_problem sx cl rid case_id pd_incident_id sys summary task_types context s of
                      (Inr r, s') \<Rightarrow> (r, s')
                    | (Inl e, s') \<Rightarrow> (write_result ''failed'' ''upsert_error'' rid (Some sys) (build_error_metadata (exc_str e)), s'))"

section \<open>Correlation\<close>

record sn_correlation =
  co_matched :: bool
  co_matched_tier :: string
  co_incident_sys_id :: "string option"
  co_reason :: string
  co_reason_metadata :: "(string, jval) pydict"

definition no_match :: "string \<Rightarrow> string \<Rightarrow> (string, jval) pydict \<Rightarrow> sn_correlation" where
  "no_match rid reason metadata = \<lparr>co_matched = False, co_matched_tier = ''none'', co_incident_sys_id = None, co_reason = reason,
     co_reason_metadata = (''request_id'', JStr rid) # metadata\<rparr>"

definition build_tier1_query :: "sn_contract \<Rightarrow> string \<Rightarrow> string" where
  "build_tier1_query c pd_incident_id =
     py_join ''^NQ'' (map (\<lambda>field. field @ ''='' @ escape_query_value pd_incident_id) (nc_tier1_correlation_fields c))"

definition build_tier2_query :: "sn_contract \<Rightarrow> string \<Rightarrow> string \<Rightarrow> string \<Rightarrow> string list \<Rightarrow> string" where
  "build_tier2_query c pd_incident_id case_id routing_key keywords =
     (let tokens = dedupe_preserve_order ([pd_incident_id, case_id, routing_key] @ keywords);
          text_fields = (if nc_tier2_include_work_notes c \<and> ''work_notes'' \<notin> set (nc_tier2_text_fields c)
            then nc_tier2_text_fields c @ [''work_notes''] else nc_tier2_text_fields c)
      in py_join ''^NQ'' (concat (map (\<lambda>t. map (\<lambda>field. field @ ''LIKE'' @ escape_query_value t) text_fields) tokens)))"

definition two_digits :: "int \<Rightarrow> string" where
  "two_digits n = (if n < 10 then ''0'' else []) @ py_str_int n"

text \<open>\<open>strftime("%Y-%m-%d %H:%M:%S")\<close> in UTC.\<close>

definition format_instant :: "instant \<Rightarrow> string" where
  "format_instant t = (let n = t div micros_per_day; y = year_of_day n; sod = (t mod micros_per_day) div 1000000
     in py_str_int y @ ''-'' @ two_digits (month_of_day n) @ ''-'' @ two_digits (day_of_month n) @ '' '' @
        two_digits (sod div 3600) @ '':'' @ two_digits (sod div 60 mod 60) @ '':'' @ two_digits (sod mod 60))"

definition build_tier3_query :: "sn_contract \<Rightarrow> string \<Rightarrow> instant \<Rightarrow> string" where
  "build_tier3_query c routing_key case_timestamp =
     (let key = escape_query_value routing_key;
          window = ''sys_created_on>='' @ format_instant (case_timestamp - minutes (nc_tier3_window_minutes c)) @
            ''^sys_created_on<='' @ format_instant case_timestamp @ ''^''
      in py_join ''^NQ'' ([window @ ''short_descriptionLIKE'' @ key, window @ ''descriptionLIKE'' @ key] @
           (if nc_tier2_include_work_notes c then [window @ ''work_notesLIKE'' @ key] else []) @
           map (\<lambda>g. window @ ''assignment_group='' @ escape_query_value g @ ''^short_descriptionLIKE'' @ key) (nc_tier3_assignment_groups c)))"

definition build_sysparm_fields :: "sn_contract \<Rightarrow> string" where
  "build_sysparm_fields c = py_join '','' ([''sys_id'', ''number'', ''short_description'', ''description'', ''sys_created_on''] @
     (if nc_tier2_include_work_notes c then [''work_notes''] else []))"

definition query_incidents ::
  "'w sn_services \<Rightarrow> sn_client \<Rightarrow> string \<Rightarrow> 'w sn_state \<Rightarrow> ((string, jval) pydict list \<times> string option) result \<times> 'w sn_state" where
  "query_incidents sx cl query s =
     (if truthy_text (sn_base_url cl) = None then (Inr ([], Some ''missing_base_url''), s)
      else let c = sn_contract cl in
        st_bind (request_records sx cl (nc_incident_table c)
          [(''sysparm_query'', query), (''sysparm_limit'', py_str_int (nc_max_results_per_tier c)), (''sysparm_fields'', build_sysparm_fields c)] s)
          (\<lambda>(records, error) s. (Inr (case truthy_text error of Some e \<Rightarrow> ([], Some e) | None \<Rightarrow> (records, None)), s)))"

text \<open>\<open>datetime.min\<close>, the creation time of an incident without a readable one.\<close>

definition datetime_min :: instant where
  "datetime_min = - 62135596800000000"

definition replace_z :: "string \<Rightarrow> string" where
  "replace_z v = concat (map (\<lambda>c. if c = CHR ''Z'' then ''+00:00'' else [c]) v)"

definition parse_created_on :: "'w sn_services \<Rightarrow> string option \<Rightarrow> instant" where
  "parse_created_on sx v = (case truthy_text v of
       None \<Rightarrow> datetime_min
     | Some x \<Rightarrow> (case sx_iso_date sx (replace_z x) of
           Some (Aware t) \<Rightarrow> t
         | Some (Naive t) \<Rightarrow> t
         | None \<Rightarrow> (case sx_strptime sx x of Some t \<Rightarrow> t | None \<Rightarrow> datetime_min)))"

definition incident_created_on :: "'w sn_services \<Rightarrow> (string, jval) pydict \<Rightarrow> instant" where
  "incident_created_on sx incident = parse_created_on sx (coerce_to_string (sx_rend sx) (dict_get incident ''sys_created_on''))"

definition incident_id_text :: "'w sn_services \<Rightarrow> (string, jval) pydict \<Rightarrow> string" where
  "incident_id_text sx incident = (case coerce_to_string (sx_rend sx) (dict_get incident ''sys_id'') of Some x \<Rightarrow> x | None \<Rightarrow> [])"

text \<open>\<open>sorted(..., reverse=True)\<close> on the pair of both keys keeps the order of equal elements.\<close>

definition rank_incidents :: "'w sn_services \<Rightarrow> (string, jval) pydict list \<Rightarrow> (string, jval) pydict list" where
  "rank_incidents sx incidents =
     rev (sort_key (incident_created_on sx) (sort_key (incident_id_text sx) (rev incidents)))"

fun search_tiers ::
  "'w sn_services \<Rightarrow> sn_client \<Rightarrow> string \<Rightarrow> (string \<Rightarrow> string result) \<Rightarrow> string list \<Rightarrow> string list \<Rightarrow> 'w sn_state \<Rightarrow>
   sn_correlation result \<times> 'w sn_state" where
  "search_tiers sx cl rid query_of errors [] s =
     (Inr (no_match rid (if errors = [] then ''not_found'' else ''search_error'') [(''errors'', JList (map JStr errors))]), s)"
| "search_tiers sx cl rid query_of errors (tier # tiers) s =
     st_bind (query_of tier, s) (\<lambda>query s.
     st_bind (query_incidents sx cl query s) (\<lambda>(incidents, error) s.
       if incidents \<noteq> [] then
         let incident = hd (rank_incidents sx incidents)
         in (Inr \<lparr>co_matched = True, co_matched_tier = tier,
                  co_incident_sys_id = coerce_to_string (sx_rend sx) (dict_get incident ''sys_id''), co_reason = ''match_found'',
                  co_reason_metadata = [(''request_id'', JStr rid),
                    (''incident_number'', opt_json (coerce_to_string (sx_rend sx) (dict_get incident ''number'')))]\<rparr>, s)
       else search_tiers sx cl rid query_of (errors @ (case error of Some e \<Rightarrow> [e] | None \<Rightarrow> [])) tiers s))"

definition tier_query :: "sn_contract \<Rightarrow> string \<Rightarrow> string \<Rightarrow> string \<Rightarrow> string list \<Rightarrow> instant \<Rightarrow> string \<Rightarrow> string result" where
  "tier_query c case_id pd_incident_id routing_key keywords case_timestamp tier =
     (if tier = ''tier1'' then Inr (build_tier1_query c pd_incident_id)
      else if tier = ''tier2'' then Inr (build_tier2_query c pd_incident_id case_id routing_key keywords)
      else if tier = ''tier3'' then Inr (build_tier3_query c routing_key case_timestamp)
      else raise KeyError tier)"

definition correlate_live ::
  "'w sn_services \<Rightarrow> sn_client \<Rightarrow> string \<Rightarrow> string \<Rightarrow> string \<Rightarrow> string \<Rightarrow> string list \<Rightarrow> instant \<Rightarrow> 'w sn_state \<Rightarrow>
   sn_correlation result \<times> 'w sn_state" where
  "correlate_live sx cl rid case_id pd_incident_id routing_key keywords case_timestamp s =
     (if truthy_text (sn_base_url cl) = None then (Inr (no_match rid ''missing_base_url'' []), s)
      else search_tiers sx cl rid (tier_query (sn_contract cl) case_id pd_incident_id routing_key keywords case_timestamp) []
             (nc_correlation_strategy (sn_contract cl)) s)"

definition correlate_mock :: "sn_client \<Rightarrow> string \<Rightarrow> sn_correlation" where
  "correlate_mock cl rid =
     (if sn_mock_match_tier cl \<in> set (nc_correlation_strategy (sn_contract cl))
      then \<lparr>co_matched = True, co_matched_tier = sn_mock_match_tier cl,
            co_incident_sys_id = Some (''mock-'' @ sn_mock_match_tier cl @ ''-sys-id''), co_reason = ''mock_match'',
            co_reason_metadata = [(''request_id'', JStr rid)]\<rparr>
      else no_match rid ''not_found'' [])"

definition correlate_incident ::
  "'w sn_services \<Rightarrow> sn_client \<Rightarrow> string \<Rightarrow> string \<Rightarrow> string \<Rightarrow> string \<Rightarrow> string list \<Rightarrow> instant option \<Rightarrow> 'w sn_state \<Rightarrow>
   sn_correlation result \<times> 'w sn_state" where
  "correlate_incident sx cl rid case_id pd_incident_id routing_key keywords case_timestamp s =
     (let missing = missing_required_values case_id pd_incident_id routing_key
      in if missing \<noteq> [] then (Inr (no_match rid ''invalid_input'' (names missing)), s)
         else if sn_mode cl = MODE_OFF then (Inr (no_match rid ''mode_off'' []), s)
         else if sn_mode cl = MODE_LOG then (Inr (no_match rid ''mode_log_noop'' []), s)
         else if sn_mode cl = MODE_MOCK then (Inr (correlate_mock cl rid), s)
         else correlate_live sx cl rid case_id pd_incident_id routing_key keywords
                (case case_timestamp of Some t \<Rightarrow> t | None \<Rightarrow> sx_clock sx) s)"

end
