(* ===== verification/ServiceNow_Properties.thy ===== *)
theory ServiceNow_Properties
  imports ServiceNow
begin

text \<open>
  What the ServiceNow adapter guarantees. \<open>sn_tables\<close> states how the Table API answers the requests the client builds; under it a
  linkage keeps at most one record per external identifier. The other properties hold for any server.
\<close>

section \<open>Requests of an operation\<close>

text \<open>A request about one of two tables; when it writes, its body passes the major-incident guard.\<close>

definition linkage_request :: "'w sn_services \<Rightarrow> sn_client \<Rightarrow> sn_request \<Rightarrow> bool" where
  "linkage_request sx cl rq =
     (\<exists>base table segments params. sn_base_url cl = Some base \<and> decode_url base (rq_url rq) = Some (table # segments, params) \<and>
        table \<in> {nc_problem_table (sn_contract cl), nc_pir_task_table (sn_contract cl)} \<and> table \<noteq> nc_incident_table (sn_contract cl) \<and>
        (rq_method rq \<noteq> GET \<longrightarrow> (\<exists>p. rq_body rq = Some (JDict p) \<and>
           (nc_mi_creation_allowed (sn_contract cl) \<or> \<not> py_contains ''major_incident'' (py_lower (sx_dumps sx (JDict p))) \<and>
              \<not> py_contains ''major incident'' (py_lower (sx_dumps sx (JDict p)))))))"

definition sends :: "(sn_request \<Rightarrow> bool) \<Rightarrow> nat \<Rightarrow> 'w sn_state \<Rightarrow> 'w sn_state \<Rightarrow> bool" where
  "sends P n s s' = (\<exists>new. ss_requests s' = ss_requests s @ new \<and> length new \<le> n \<and> (\<forall>rq \<in> set new. P rq))"

lemma sends_refl: "sends P n s s"
  by (auto simp: sends_def)

lemma sends_none: "ss_requests s' = ss_requests s \<Longrightarrow> sends P n s s'"
  by (auto simp: sends_def)

lemma sends_mono: "sends P n s s' \<Longrightarrow> n \<le> m \<Longrightarrow> sends P m s s'"
  by (fastforce simp: sends_def)

lemma sends_trans: "sends P m s s' \<Longrightarrow> sends P n s' s'' \<Longrightarrow> sends P (m + n) s s''"
proof -
  assume "sends P m s s'" "sends P n s' s''"
  then obtain a b where "ss_requests s' = ss_requests s @ a" "length a \<le> m" "\<forall>rq \<in> set a. P rq"
    "ss_requests s'' = ss_requests s' @ b" "length b \<le> n" "\<forall>rq \<in> set b. P rq" unfolding sends_def by blast
  then show ?thesis unfolding sends_def by (intro exI [of _ "a @ b"]) auto
qed

lemma new_request_ok: "new_request m url h b = Inr rq \<Longrightarrow> rq_method rq = m \<and> rq_url rq = url \<and> rq_body rq = b"
  by (auto simp: new_request_def split: if_splits)

lemma build_url_ok: "build_table_url b t ps r = Inr url \<Longrightarrow> \<exists>base. b = Some base \<and> url = table_url base t ps r"
  by (auto simp: build_table_url_def split: option.splits if_splits)

lemma send_request_log: "send_request sx rq s = (reply, s') \<Longrightarrow>
    ss_requests s' = ss_requests s @ [rq] \<and> ss_mock_sys_ids s' = ss_mock_sys_ids s \<and> sx_http sx (ss_server s) rq = (reply, ss_server s')"
  by (auto simp: send_request_def split: prod.splits)

lemma request_records_sends:
  assumes "request_records sx cl table params s = (r, s')"
    and "\<And>base rq. \<lbrakk>sn_base_url cl = Some base; rq_method rq = GET; rq_url rq = table_url base table params None\<rbrakk> \<Longrightarrow> P rq"
  shows "sends P 1 s s'"
proof (cases "rbind (build_table_url (sn_base_url cl) table params None) (\<lambda>url. new_request GET url (build_headers cl) None)")
  case (Inl e)
  then show ?thesis using assms(1) by (auto simp: request_records_def sends_refl)
next
  case (Inr rq)
  then obtain base where "sn_base_url cl = Some base" "rq_method rq = GET" "rq_url rq = table_url base table params None"
    by (auto dest!: new_request_ok build_url_ok)
  then have "P rq" using assms(2) by blast
  then show ?thesis using assms(1) Inr
    by (auto simp: request_records_def sends_def dest!: send_request_log split: prod.splits)
qed

lemma mutation_sends:
  assumes "request_record_mutation sx cl meth table payload sys s = (r, s')"
    and "\<And>base rq. \<lbrakk>sn_base_url cl = Some base; rq_method rq = meth; rq_url rq = table_url base table [] sys; rq_body rq = Some (JDict payload)\<rbrakk>
      \<Longrightarrow> P rq"
  shows "sends P 1 s s'"
proof (cases "rbind (build_table_url (sn_base_url cl) table [] sys) (\<lambda>url.
    new_request meth url (build_headers cl @ [(''Content-Type'', ''application/json'')]) (Some (JDict payload)))")
  case (Inl e)
  then show ?thesis using assms(1) by (auto simp: request_record_mutation_def sends_refl)
next
  case (Inr rq)
  then obtain base where "sn_base_url cl = Some base" "rq_method rq = meth" "rq_url rq = table_url base table [] sys" "rq_body rq = Some (JDict payload)"
    by (auto dest!: new_request_ok build_url_ok)
  then have "P rq" using assms(2) by blast
  then show ?thesis using assms(1) Inr
    by (auto simp: request_record_mutation_def sends_def dest!: send_request_log split: prod.splits)
qed

text \<open>The tables a write may name, and the payloads it may carry.\<close>

lemma write_scope: "assert_write_scope cl table = Inr () \<Longrightarrow>
    table \<in> {nc_problem_table (sn_contract cl), nc_pir_task_table (sn_contract cl)} \<and> table \<noteq> nc_incident_table (sn_contract cl)"
  by (auto simp: assert_write_scope_def Let_def split: if_splits)

definition payload_safe :: "'w sn_services \<Rightarrow> sn_client \<Rightarrow> (string, jval) pydict \<Rightarrow> bool" where
  "payload_safe sx cl p = (nc_mi_creation_allowed (sn_contract cl) \<or> \<not> py_contains ''major_incident'' (py_lower (sx_dumps sx (JDict p))) \<and>
     \<not> py_contains ''major incident'' (py_lower (sx_dumps sx (JDict p))))"

lemma sanitized_safe: "sanitize_payload_for_write sx cl table payload required = Inr p \<Longrightarrow> payload_safe sx cl p"
  by (auto simp: sanitize_payload_for_write_def assert_mi_guardrails_def payload_safe_def Let_def split: if_splits elim!: rbind_InrE)

lemma upsert_live_sends:
  assumes live: "upsert_live sx cl rid table xid payload s = (r, s')"
    and ok: "assert_write_scope cl table = Inr ()" "payload_safe sx cl payload"
  shows "sends (linkage_request sx cl) 2 s s'"
proof -
  have P: "linkage_request sx cl rq"
    if "sn_base_url cl = Some base" "rq_url rq = table_url base table params sys" "rq_method rq = GET \<or> rq_body rq = Some (JDict payload)"
    for base rq params sys
    using that ok write_scope [OF ok(1)] unfolding linkage_request_def payload_safe_def by (auto simp: decode_table_url)
  obtain r1 s1 where l: "request_records sx cl table (lookup_params (sn_contract cl) xid) s = (r1, s1)" by (meson surj_pair)
  have one: "sends (linkage_request sx cl) 1 s s1" by (rule request_records_sends [OF l]) (auto intro: P)
  have two: "sends (linkage_request sx cl) 1 s1 s''" if "request_record_mutation sx cl meth table payload sys s1 = (q, s'')" for meth sys q s''
    by (rule mutation_sends [OF that]) (auto intro: P)
  have create: "sends (linkage_request sx cl) 1 s1 s''" if "create_record sx cl rid table xid payload s1 = (q, s'')" for q s''
    using that two by (auto simp: create_record_def st_bind_def split: sum.splits prod.splits)
  have update: "sends (linkage_request sx cl) 1 s1 s''" if "update_record sx cl rid table xid payload sid s1 = (q, s'')" for q s'' sid
    using that two by (auto simp: update_record_def st_bind_def split: sum.splits prod.splits)
  have "sends (linkage_request sx cl) 1 s1 s'"
    using live l create update
    by (auto simp: upsert_live_def st_bind_def sends_refl Let_def split: sum.splits option.splits prod.splits)
  with one show ?thesis using sends_trans [of _ 1 s s1 1 s'] by (simp add: numeral_2_eq_2)
qed

lemma upsert_record_sends:
  assumes "upsert_record sx cl rid table xid payload s = (r, s')" "payload_safe sx cl payload"
  shows "sends (linkage_request sx cl) 2 s s'"
proof (cases "assert_write_scope cl table")
  case (Inl e)
  then show ?thesis using assms(1) by (simp add: upsert_record_def sends_refl)
next
  case (Inr u)
  have mock: "ss_requests (snd (mock_upsert sx rid table xid s)) = ss_requests s"
    by (simp add: mock_upsert_def Let_def split: option.splits)
  show ?thesis
  proof (cases "sn_mode cl")
    case MODE_MOCK
    then show ?thesis using assms Inr mock by (auto simp: upsert_record_def intro!: sends_none split: prod.splits)
  qed (use assms Inr in \<open>auto simp: upsert_record_def sends_refl intro: upsert_live_sends split: if_splits\<close>)
qed

lemma upsert_problem_sends:
  assumes "upsert_problem sx cl rid cid pd sys summary context s = (r, s')"
  shows "sends (linkage_request sx cl) 2 s s'"
proof (cases "missing_required_values cid pd sys = []")
  case False
  then show ?thesis using assms by (simp add: upsert_problem_def Let_def sends_refl)
next
  case True
  let ?payload = "build_problem_payload sx cl (build_problem_external_id sx cid pd) cid pd sys summary context"
  show ?thesis
  proof (cases ?payload)
    case (Inl e)
    then show ?thesis using assms True by (simp add: upsert_problem_def Let_def sends_refl)
  next
    case (Inr p)
    then have "payload_safe sx cl p" by (auto simp: build_problem_payload_def Let_def dest: sanitized_safe)
    then show ?thesis using assms True Inr by (auto simp: upsert_problem_def Let_def intro: upsert_record_sends)
  qed
qed

lemma upsert_pir_sends:
  assumes "upsert_pir_task sx cl rid cid pd problem t summary context s = (r, s')"
  shows "sends (linkage_request sx cl) 2 s s'"
proof (cases "py_strip problem = [] \<or> missing_required_values cid pd t \<noteq> []")
  case True
  then show ?thesis using assms by (auto simp: upsert_pir_task_def Let_def sends_refl split: if_splits)
next
  case False
  let ?payload = "build_pir_task_payload sx cl (build_pir_task_external_id sx cid pd t) cid pd problem t summary context"
  show ?thesis
  proof (cases ?payload)
    case (Inl e)
    then show ?thesis using assms False by (simp add: upsert_pir_task_def Let_def sends_refl)
  next
    case (Inr p)
    then have "payload_safe sx cl p" by (auto simp: build_pir_task_payload_def Let_def dest: sanitized_safe)
    then show ?thesis using assms False Inr by (auto simp: upsert_pir_task_def Let_def intro: upsert_record_sends)
  qed
qed

lemma pir_loop_sends:
  assumes step: "\<And>t s r s'. up t s = (r, s') \<Longrightarrow> sends P 2 s s'"
  shows "upsert_pir_tasks up acc ts s = (r, s') \<Longrightarrow> sends P (2 * length ts) s s'"
proof (induction ts arbitrary: acc s)
  case (Cons t ts)
  obtain r1 s1 where u: "up t s = (r1, s1)" by (meson surj_pair)
  have rest: "sends P (2 * length ts) s1 s1" by (rule sends_refl)
  have "sends P (2 * length ts) s1 s'"
    using Cons.prems u rest by (auto simp: Let_def st_bind_def intro: Cons.IH split: sum.splits if_splits)
  from sends_trans [OF step [OF u] this] show ?case by simp
qed (auto simp: sends_refl)

lemma link_problem_sends:
  assumes "link_problem sx cl rid cid pd sys summary ts context s = (r, s')"
  shows "sends (linkage_request sx cl) (2 + 2 * length ts) s s'"
proof -
  obtain r1 s1 where u: "upsert_problem sx cl rid cid pd sys summary context s = (r1, s1)" by (meson surj_pair)
  have "sends (linkage_request sx cl) (2 * length ts) s1 s'"
    using assms u by (auto simp: link_problem_def Let_def st_bind_def sends_refl intro!: pir_loop_sends upsert_pir_sends
        split: sum.splits if_splits option.splits)
  from sends_trans [OF upsert_problem_sends [OF u] this] show ?thesis .
qed

lemma dedupe_length: "length (dedupe_from seen xs) \<le> length xs"
  by (induction seen xs rule: dedupe_from.induct) auto

definition incident_read :: "sn_client \<Rightarrow> sn_request \<Rightarrow> bool" where
  "incident_read cl rq = (rq_method rq = GET \<and> (\<exists>base params. sn_base_url cl = Some base \<and>
     decode_url base (rq_url rq) = Some ([nc_incident_table (sn_contract cl)], params)))"

lemma query_incidents_sends:
  assumes "query_incidents sx cl q s = (r, s')" "truthy_text (sn_base_url cl) \<noteq> None"
  shows "sends (incident_read cl) 1 s s'" "r = Inr x \<Longrightarrow> length (ss_requests s') = Suc (length (ss_requests s))"
proof -
  let ?params = "[(''sysparm_query'', q), (''sysparm_limit'', py_str_int (nc_max_results_per_tier (sn_contract cl))),
    (''sysparm_fields'', build_sysparm_fields (sn_contract cl))]"
  obtain r1 where l: "request_records sx cl (nc_incident_table (sn_contract cl)) ?params s = (r1, s')" and "r1 = Inl e \<Longrightarrow> r = Inl e" for e
    using assms by (auto simp: query_incidents_def st_bind_def Let_def split: if_splits sum.splits prod.splits)
  note r1 = this(2)
  show "sends (incident_read cl) 1 s s'" by (rule request_records_sends [OF l]) (auto simp: incident_read_def decode_table_url)
  assume "r = Inr x"
  then have "\<exists>y. r1 = Inr y" using r1 by (cases r1) auto
  then show "length (ss_requests s') = Suc (length (ss_requests s))" using l
    by (auto simp: request_records_def st_bind_def split: sum.splits prod.splits dest!: send_request_log)
qed

text \<open>The incident chosen among those of an answer.\<close>

lemma last_sort_key: "ys \<noteq> [] \<Longrightarrow> last (sort_key f ys) \<in> set ys \<and> (\<forall>y \<in> set ys. f y \<le> f (last (sort_key f ys)))"
  for f :: "'a \<Rightarrow> 'b::linorder"
proof -
  assume "ys \<noteq> []"
  then have ne: "sort_key f ys \<noteq> []" by (metis length_0_conv length_sort)
  have "\<forall>y \<in> set (sort_key f ys). f y \<le> f (last (sort_key f ys))"
    using sorted_sort_key [of f ys] ne by (cases "sort_key f ys" rule: rev_cases) (auto simp: sorted_append)
  then show ?thesis using last_in_set [OF ne] by simp
qed

lemma last_two_keys:
  fixes f :: "'a \<Rightarrow> 'b::linorder" and g :: "'a \<Rightarrow> 'c::linorder"
  assumes "xs \<noteq> []"
  defines "z \<equiv> last (sort_key f (sort_key g xs))"
  shows "z \<in> set xs" "x \<in> set xs \<Longrightarrow> f x < f z \<or> f x = f z \<and> g x \<le> g z"
proof -
  have ne: "sort_key g xs \<noteq> []" using assms(1) by (metis length_0_conv length_sort)
  note z = last_sort_key [OF ne, of f, folded z_def]
  show "z \<in> set xs" using z by simp
  assume x: "x \<in> set xs"
  show "f x < f z \<or> f x = f z \<and> g x \<le> g z"
  proof (cases "f x = f z")
    case False
    then show ?thesis using z x by force
  next
    case True
    let ?P = "\<lambda>y. f y = f z"
    have fl: "filter ?P (sort_key f (sort_key g xs)) = filter ?P (sort_key g xs)" by (rule sort_key_stable)
    have ne2: "sort_key f (sort_key g xs) \<noteq> []" using ne by (metis length_0_conv length_sort)
    obtain us where "sort_key f (sort_key g xs) = us @ [z]" unfolding z_def using ne2 append_butlast_last_id by metis
    then have "filter ?P (sort_key g xs) = filter ?P us @ [z]" using fl by simp
    moreover have "sorted (map g (filter ?P (sort_key g xs)))" by (rule sorted_filter) simp
    moreover have "x \<in> set (filter ?P (sort_key g xs))" using x True by simp
    ultimately show ?thesis using True by (auto simp: sorted_append)
  qed
qed

lemma rank_first:
  assumes "incidents \<noteq> []"
  shows "hd (rank_incidents sx incidents) \<in> set incidents"
    and "i \<in> set incidents \<Longrightarrow> incident_created_on sx i < incident_created_on sx (hd (rank_incidents sx incidents)) \<or>
      incident_created_on sx i = incident_created_on sx (hd (rank_incidents sx incidents)) \<and>
      incident_id_text sx i \<le> incident_id_text sx (hd (rank_incidents sx incidents))"
proof -
  let ?l = "sort_key (incident_created_on sx) (sort_key (incident_id_text sx) (rev incidents))"
  have h: "hd (rank_incidents sx incidents) = last ?l" unfolding rank_incidents_def by (rule hd_rev)
  have r: "rev incidents \<noteq> []" using assms by simp
  show "hd (rank_incidents sx incidents) \<in> set incidents" unfolding h using last_two_keys(1) [OF r] by simp
  assume "i \<in> set incidents"
  then show "incident_created_on sx i < incident_created_on sx (hd (rank_incidents sx incidents)) \<or>
      incident_created_on sx i = incident_created_on sx (hd (rank_incidents sx incidents)) \<and>
      incident_id_text sx i \<le> incident_id_text sx (hd (rank_incidents sx incidents))"
    unfolding h using last_two_keys(2) [OF r, of i] by simp
qed

text \<open>The latest incident of an answer; the greatest identifier among equally late ones.\<close>

definition latest_incident :: "'w sn_services \<Rightarrow> (string, jval) pydict list \<Rightarrow> (string, jval) pydict \<Rightarrow> bool" where
  "latest_incident sx incidents best = (best \<in> set incidents \<and> (\<forall>i \<in> set incidents.
     incident_created_on sx i < incident_created_on sx best \<or>
     incident_created_on sx i = incident_created_on sx best \<and> incident_id_text sx i \<le> incident_id_text sx best))"

lemma rank_latest: "incidents \<noteq> [] \<Longrightarrow> latest_incident sx incidents (hd (rank_incidents sx incidents))"
  unfolding latest_incident_def using rank_first by blast

definition tier_answer ::
  "'w sn_services \<Rightarrow> sn_client \<Rightarrow> (string \<Rightarrow> string result) \<Rightarrow> string \<Rightarrow> 'w sn_state \<Rightarrow> sn_correlation \<Rightarrow> bool" where
  "tier_answer sx cl query_of tier s' c = (\<exists>q s1 incidents error best. query_of tier = Inr q \<and>
     query_incidents sx cl q s1 = (Inr (incidents, error), s') \<and> latest_incident sx incidents best \<and>
     co_incident_sys_id c = coerce_to_string (sx_rend sx) (dict_get best ''sys_id''))"

lemma search_tiers_effect:
  assumes "truthy_text (sn_base_url cl) \<noteq> None"
  shows "search_tiers sx cl rid query_of errors tiers s = (r, s') \<Longrightarrow> sends (incident_read cl) (length tiers) s s' \<and>
    (\<forall>c. r = Inr c \<longrightarrow> co_matched c \<longrightarrow>
      (\<exists>i < length tiers. co_matched_tier c = tiers ! i \<and> length (ss_requests s') = length (ss_requests s) + Suc i \<and>
        tier_answer sx cl query_of (tiers ! i) s' c))"
proof (induction tiers arbitrary: errors s)
  case Nil
  then show ?case by (auto simp: sends_refl no_match_def)
next
  case (Cons tier tiers)
  show ?case
  proof (cases "query_of tier")
    case (Inl e)
    then show ?thesis using Cons.prems by (auto simp: sends_refl)
  next
    case (Inr q)
    obtain r1 s1 where qi: "query_incidents sx cl q s = (r1, s1)" by (meson surj_pair)
    note one = query_incidents_sends(1) [OF qi assms]
    show ?thesis
    proof (cases r1)
      case (Inl e)
      then show ?thesis using Cons.prems qi Inr sends_mono [OF one, of "Suc (length tiers)"] by auto
    next
      case (Inr x)
      obtain incidents error where x: "x = (incidents, error)" by (meson surj_pair)
      have len: "length (ss_requests s1) = Suc (length (ss_requests s))" using query_incidents_sends(2) [OF qi assms Inr] .
      show ?thesis
      proof (cases "incidents = []")
        case False
        let ?best = "hd (rank_incidents sx incidents)"
        have s': "s' = s1" using Cons.prems qi Inr \<open>query_of tier = Inr q\<close> x False by (simp add: Let_def)
        have "tier_answer sx cl query_of tier s1 c" if "co_incident_sys_id c = coerce_to_string (sx_rend sx) (dict_get ?best ''sys_id'')" for c
          unfolding tier_answer_def using qi Inr x \<open>query_of tier = Inr q\<close> rank_latest [OF False] that by blast
        then show ?thesis using Cons.prems qi Inr \<open>query_of tier = Inr q\<close> x len False sends_mono [OF one, of "Suc (length tiers)"]
          unfolding s' by (auto simp: Let_def intro: exI [of _ 0])
      next
        case True
        then have "search_tiers sx cl rid query_of (errors @ (case error of Some e \<Rightarrow> [e] | None \<Rightarrow> [])) tiers s1 = (r, s')"
          using Cons.prems qi Inr \<open>query_of tier = Inr q\<close> x by simp
        from Cons.IH [OF this] show ?thesis using sends_trans [OF one, of "length tiers" s'] len by fastforce
      qed
    qed
  qed
qed

section \<open>What the Table API documents\<close>

text \<open>
  The records of a table are pairs of \<open>sys_id\<close> and external identifier. A query for one external identifier without \<open>^\<close>, the query
  operator, answers with matching records, at least one if there is any; a POST adds at most one record, under a new identifier; a
  PATCH changes at most the record it names; a success answer names a stored record.
\<close>

locale sn_tables =
  fixes http :: "'w sn_http" and base :: string and field :: string
    and records :: "'w \<Rightarrow> string \<Rightarrow> (string \<times> string) list"
  assumes own_field: "field \<notin> {''short_description'', ''description'', ''problem''}"
    and reads_keep: "\<lbrakk>http w rq = (reply, w'); rq_method rq = GET\<rbrakk> \<Longrightarrow> records w' = records w"
    and answers: "http w rq = (reply, w') \<Longrightarrow> reply \<noteq> Empty_Body \<and> reply \<noteq> Other_Failure []"
    and lookup: "\<lbrakk>http w rq = (Json_Body v, w'); rq_method rq = GET; decode_url base (rq_url rq) = Some ([table], params);
        dict_get params ''sysparm_query'' = Some (field @ ''='' @ x); CHR ''^'' \<notin> set x\<rbrakk> \<Longrightarrow>
      \<exists>n \<ge> 1. v = JDict [(''result'', JList (map (\<lambda>r. JDict [(''sys_id'', JStr (fst r)), (field, JStr x)])
        (take n (filter (\<lambda>r. snd r = x) (records w table)))))]"
    and create: "\<lbrakk>http w rq = (reply, w'); rq_method rq = POST; decode_url base (rq_url rq) = Some ([table], []);
        rq_body rq = Some (JDict p); dict_get p field = Some (JStr x)\<rbrakk> \<Longrightarrow>
      records w' = records w \<or>
      (\<exists>sid. sid \<noteq> [] \<and> sid \<notin> fst ` set (records w table) \<and> records w' = (records w)(table := records w table @ [(sid, x)]))"
    and update: "\<lbrakk>http w rq = (reply, w'); rq_method rq = PATCH; decode_url base (rq_url rq) = Some ([table, sid], []);
        rq_body rq = Some (JDict p); dict_get p field = Some (JStr x)\<rbrakk> \<Longrightarrow>
      records w' = records w \<or> records w' = (records w)(table := map (\<lambda>r. if fst r = sid then (sid, x) else r) (records w table))"
    and confirmed: "\<lbrakk>http w rq = (Json_Body v, w'); rq_method rq \<noteq> GET; decode_url base (rq_url rq) = Some (table # rest, []);
        rq_body rq = Some (JDict p); dict_get p field = Some (JStr x); rest = [] \<or> rest = [sid0] \<and> sid0 \<in> fst ` set (records w table)\<rbrakk> \<Longrightarrow>
      \<exists>r sid. v = JDict [(''result'', JDict r)] \<and> dict_get r ''sys_id'' = Some (JStr sid) \<and> sid \<noteq> [] \<and> (sid, x) \<in> set (records w' table)"

definition one_per_id :: "(string \<Rightarrow> (string \<times> string) list) \<Rightarrow> bool" where
  "one_per_id recs = (\<forall>t. distinct (map fst (recs t)) \<and> [] \<notin> fst ` set (recs t) \<and>
     (\<forall>x. CHR ''^'' \<notin> set x \<longrightarrow> length (filter (\<lambda>r. snd r = x) (recs t)) \<le> 1))"

definition kept :: "(string \<Rightarrow> (string \<times> string) list) \<Rightarrow> (string \<Rightarrow> (string \<times> string) list) \<Rightarrow> bool" where
  "kept a b = (\<forall>t. set (a t) \<subseteq> set (b t))"

lemma kept_refl [simp]: "kept a a" by (simp add: kept_def)

lemma kept_trans: "kept a b \<Longrightarrow> kept b c \<Longrightarrow> kept a c" by (auto simp: kept_def)

lemma no_caret_escape: "CHR ''^'' \<notin> set x \<Longrightarrow> escape_query_value x = x"
  by (auto simp: escape_query_value_def intro: filter_True)

lemma add_one_per_id:
  assumes "one_per_id recs" "filter (\<lambda>r. snd r = x) (recs t) = []" "sid \<noteq> []" "sid \<notin> fst ` set (recs t)"
  shows "one_per_id (recs(t := recs t @ [(sid, x)]))"
  using assms by (auto simp: one_per_id_def)

lemma patch_same:
  assumes "distinct (map fst rs)" "(sid, x) \<in> set rs"
  shows "map (\<lambda>r. if fst r = sid then (sid, x) else r) rs = rs"
proof (rule map_idI)
  fix r assume "r \<in> set rs"
  then show "(if fst r = sid then (sid, x) else r) = r"
    using assms eq_key_imp_eq_value [of rs sid x "snd r"] by (cases r) auto
qed

lemma dict_of_JDict [simp]: "dict_of (JDict d) = Some d"
  by (simp add: dict_of_def)

lemma str_ids: "List.map_filter (\<lambda>r. truthy_text (coerce_to_string rend (dict_get r ''sys_id'')))
    (List.map_filter dict_of (map (\<lambda>r. JDict [(''sys_id'', JStr (fst r)), (f, JStr x)]) rs)) = filter (\<lambda>i. i \<noteq> []) (map fst rs)"
  by (induction rs) (auto simp: map_filter_simps dict_of_def coerce_to_string_def py_str_def truthy_text_def)

lemma mutation_sent:
  assumes "request_record_mutation sx cl meth table payload sys s = (m, s')" "sn_base_url cl = Some base"
  obtains e where "m = Inl e" "s' = s"
  | rq reply where "rq_method rq = meth" "rq_body rq = Some (JDict payload)" "sx_http sx (ss_server s) rq = (reply, ss_server s')"
      "decode_url base (rq_url rq) = Some (table # (case sys of Some i \<Rightarrow> if i = [] then [] else [i] | None \<Rightarrow> []), [])"
      "m = Inr (reply_record sx reply)"
proof (cases "rbind (build_table_url (sn_base_url cl) table [] sys) (\<lambda>url.
    new_request meth url (build_headers cl @ [(''Content-Type'', ''application/json'')]) (Some (JDict payload)))")
  case (Inl e)
  then show ?thesis using assms(1) by (auto simp: request_record_mutation_def intro: that(1))
next
  case (Inr rq)
  obtain reply s1 where sent: "send_request sx rq s = (reply, s1)" by (meson surj_pair)
  then have "m = Inr (reply_record sx reply)" "s' = s1" using assms(1) Inr by (auto simp: request_record_mutation_def)
  moreover have "rq_method rq = meth" "rq_body rq = Some (JDict payload)" "rq_url rq = table_url base table [] sys"
    using Inr assms(2) by (auto dest!: new_request_ok build_url_ok)
  ultimately show ?thesis using send_request_log [OF sent] by (intro that(2) [of rq reply]) (auto simp: decode_table_url)
qed

lemma http_error_text: "format_http_error sx c ra re \<noteq> []"
  by (simp add: format_http_error_def) (cases "parse_retry_after_header sx ra"; cases re; simp)

context sn_tables
begin

lemma write_confirmed:
  assumes "http w rq = (reply, w')" "rq_method rq \<noteq> GET" "decode_url base (rq_url rq) = Some (table # rest, [])"
    and "rq_body rq = Some (JDict p)" "dict_get p field = Some (JStr x)" "rest = [] \<or> rest = [sid0] \<and> sid0 \<in> fst ` set (records w table)"
    and "reply_record sx reply = (written, error)" "truthy_text error = None"
  shows "\<exists>sid. coerce_to_string rend (dict_get written ''sys_id'') = Some sid \<and> sid \<noteq> [] \<and> (sid, x) \<in> set (records w' table)"
proof -
  obtain v where v: "reply = Json_Body v"
    using answers [OF assms(1)] assms(7,8) http_error_text by (cases reply) (auto simp: reply_record_def truthy_text_def split: if_splits)
  from confirmed [OF assms(1) [unfolded v] assms(2-6)] obtain r sid where
    "v = JDict [(''result'', JDict r)]" "dict_get r ''sys_id'' = Some (JStr sid)" "sid \<noteq> []" "(sid, x) \<in> set (records w' table)" by blast
  then show ?thesis using assms(7) by (auto simp: v reply_record_def coerce_to_string_def py_str_def)
qed

lemma lookup_result:
  assumes "sx_http sx = http" "sn_base_url cl = Some base" "nc_external_id_field (sn_contract cl) = field" "CHR ''^'' \<notin> set x"
    and call: "request_records sx cl table (lookup_params (sn_contract cl) x) s = (Inr (rs, error), s')"
  shows "records (ss_server s') = records (ss_server s)"
    and "truthy_text error = None \<Longrightarrow> \<exists>n \<ge> 1. List.map_filter (\<lambda>r. truthy_text (coerce_to_string (sx_rend sx) (dict_get r ''sys_id''))) rs =
       filter (\<lambda>i. i \<noteq> []) (map fst (take n (filter (\<lambda>r. snd r = x) (records (ss_server s) table))))"
proof -
  obtain rq reply where rq: "rq_method rq = GET" "rq_url rq = table_url base table (lookup_params (sn_contract cl) x) None"
    and sent: "http (ss_server s) rq = (reply, ss_server s')" and rs: "(rs, error) = reply_records sx reply"
    using call assms(1,2)
    by (auto simp: request_records_def st_bind_def split: sum.splits prod.splits dest!: send_request_log new_request_ok build_url_ok)
  show "records (ss_server s') = records (ss_server s)" using reads_keep [OF sent rq(1)] .
  assume ok: "truthy_text error = None"
  note d = decode_table_url [of base table "lookup_params (sn_contract cl) x" None, folded rq(2), simplified]
  from ok rs answers [OF sent] http_error_text obtain v where v: "reply = Json_Body v"
    by (cases reply) (auto simp: reply_records_def truthy_text_def split: if_splits)
  obtain n where "n \<ge> 1" and "v = JDict [(''result'', JList (map (\<lambda>r. JDict [(''sys_id'', JStr (fst r)), (field, JStr x)])
      (take n (filter (\<lambda>r. snd r = x) (records (ss_server s) table)))))]"
    using lookup [OF sent [unfolded v] rq(1) d, of x] assms(3,4) by (auto simp: lookup_params_def no_caret_escape)
  then show "\<exists>n \<ge> 1. List.map_filter (\<lambda>r. truthy_text (coerce_to_string (sx_rend sx) (dict_get r ''sys_id''))) rs =
       filter (\<lambda>i. i \<noteq> []) (map fst (take n (filter (\<lambda>r. snd r = x) (records (ss_server s) table))))"
    using rs v by (intro exI [of _ n]) (auto simp: reply_records_def str_ids)
qed

lemma existing_found:
  assumes "sx_http sx = http" "sn_base_url cl = Some base" "nc_external_id_field (sn_contract cl) = field" "CHR ''^'' \<notin> set x"
    and call: "request_records sx cl table (lookup_params (sn_contract cl) x) s = (Inr (rs, error), s')"
    and "truthy_text error = None" "one_per_id (records (ss_server s))"
  shows "extract_existing_sys_id (sx_rend sx) rs =
    Inr (case filter (\<lambda>r. snd r = x) (records (ss_server s) table) of [] \<Rightarrow> None | r # _ \<Rightarrow> Some (fst r))"
proof -
  let ?m = "filter (\<lambda>r. snd r = x) (records (ss_server s) table)"
  obtain n where n: "n \<ge> 1" "List.map_filter (\<lambda>r. truthy_text (coerce_to_string (sx_rend sx) (dict_get r ''sys_id''))) rs =
       filter (\<lambda>i. i \<noteq> []) (map fst (take n ?m))"
    using lookup_result(2) [OF assms(1-5)] assms(6) by blast
  have one: "length ?m \<le> 1" "[] \<notin> fst ` set ?m" using assms(4,7) by (auto simp: one_per_id_def)
  show ?thesis
  proof (cases ?m)
    case Nil
    then show ?thesis using n by (simp add: extract_existing_sys_id_def record_sys_ids_def)
  next
    case (Cons r rs')
    then have "?m = [r]" "fst r \<noteq> []" using one by auto
    then show ?thesis using n by (simp add: extract_existing_sys_id_def record_sys_ids_def Cons)
  qed
qed

lemma created_effect:
  assumes "sx_http sx = http" "sn_base_url cl = Some base" "dict_get payload field = Some (JStr x)"
    and cr: "create_record sx cl rid table x payload s = (r, s')"
    and inv: "one_per_id (records (ss_server s))" "filter (\<lambda>r. snd r = x) (records (ss_server s) table) = []"
  shows "one_per_id (records (ss_server s')) \<and> kept (records (ss_server s)) (records (ss_server s')) \<and>
    (\<forall>u. r = Inr u \<longrightarrow> up_outcome u \<noteq> Up_Failed \<longrightarrow> (\<exists>sid. up_sys_id u = Some sid \<and> (sid, x) \<in> set (records (ss_server s') table)))"
proof -
  obtain m s1 where c: "request_record_mutation sx cl POST table payload None s = (m, s1)" by (meson surj_pair)
  from c assms(2) show ?thesis
  proof (cases rule: mutation_sent)
    case (1 e)
    then show ?thesis using cr c inv by (auto simp: create_record_def)
  next
    case (2 rq reply)
    have s': "s' = s1" using cr c 2(5) by (auto simp: create_record_def split: prod.splits)
    note sent = 2(3) [unfolded assms(1)] and url = 2(4) [simplified]
    have "records (ss_server s1) = records (ss_server s) \<or>
      (\<exists>sid. sid \<noteq> [] \<and> sid \<notin> fst ` set (records (ss_server s) table) \<and>
        records (ss_server s1) = (records (ss_server s))(table := records (ss_server s) table @ [(sid, x)]))"
      by (rule create [OF sent 2(1) url 2(2) assms(3)])
    then have "one_per_id (records (ss_server s1)) \<and> kept (records (ss_server s)) (records (ss_server s1))"
      using inv by (auto simp: kept_def intro: add_one_per_id)
    moreover obtain written error where w: "reply_record sx reply = (written, error)" by (meson surj_pair)
    have "\<exists>sid. up_sys_id u = Some sid \<and> (sid, x) \<in> set (records (ss_server s1) table)" if "r = Inr u" "up_outcome u \<noteq> Up_Failed" for u
    proof -
      have ok: "truthy_text error = None"
        using that cr c 2(5) w by (auto simp: create_record_def upsert_result_def split: option.splits)
      from write_confirmed [OF sent _ 2(4) 2(2) assms(3) _ w ok, where rend = "sx_rend sx"] 2(1)
      show ?thesis using that cr c 2(5) w ok by (auto simp: create_record_def upsert_result_def)
    qed
    ultimately show ?thesis unfolding s' by blast
  qed
qed

lemma updated_effect:
  assumes "sx_http sx = http" "sn_base_url cl = Some base" "dict_get payload field = Some (JStr x)"
    and up: "update_record sx cl rid table x payload sid0 s = (r, s')"
    and inv: "one_per_id (records (ss_server s))" "(sid0, x) \<in> set (records (ss_server s) table)"
  shows "records (ss_server s') = records (ss_server s) \<and>
    (\<forall>u. r = Inr u \<longrightarrow> up_outcome u \<noteq> Up_Failed \<longrightarrow> (\<exists>sid. up_sys_id u = Some sid \<and> (sid, x) \<in> set (records (ss_server s') table)))"
proof -
  obtain m s1 where c: "request_record_mutation sx cl PATCH table payload (Some sid0) s = (m, s1)" by (meson surj_pair)
  from c assms(2) show ?thesis
  proof (cases rule: mutation_sent)
    case (1 e)
    then show ?thesis using up c by (auto simp: update_record_def)
  next
    case (2 rq reply)
    have s': "s' = s1" using up c 2(5) by (auto simp: update_record_def split: prod.splits)
    have known: "sid0 \<noteq> []" "sid0 \<in> fst ` set (records (ss_server s) table)" "distinct (map fst (records (ss_server s) table))"
    proof -
      have "sid0 \<in> fst ` set (records (ss_server s) table)" using imageI [OF inv(2), of fst] by simp
      moreover have "[] \<notin> fst ` set (records (ss_server s) table)" "distinct (map fst (records (ss_server s) table))"
        using inv(1) unfolding one_per_id_def by blast+
      ultimately show "sid0 \<noteq> []" "sid0 \<in> fst ` set (records (ss_server s) table)" "distinct (map fst (records (ss_server s) table))"
        by metis+
    qed
    note sent = 2(3) [unfolded assms(1)]
    have url: "decode_url base (rq_url rq) = Some ([table, sid0], [])" using 2(4) known by simp
    have same: "records (ss_server s1) = records (ss_server s)"
      using update [OF sent 2(1) url 2(2) assms(3)] patch_same [OF known(3) inv(2)] by (metis fun_upd_triv)
    obtain written error where w: "reply_record sx reply = (written, error)" by (meson surj_pair)
    have "\<exists>sid. up_sys_id u = Some sid \<and> (sid, x) \<in> set (records (ss_server s1) table)" if "r = Inr u" "up_outcome u \<noteq> Up_Failed" for u
    proof -
      have ok: "truthy_text error = None"
        using that up c 2(5) w by (auto simp: update_record_def upsert_result_def split: option.splits)
      from write_confirmed [OF sent _ url 2(2) assms(3) _ w ok, where rend = "sx_rend sx" and ?sid0.0 = sid0] 2(1) known
      show ?thesis using that up c 2(5) w ok by (auto simp: update_record_def upsert_result_def truthy_text_def)
    qed
    then show ?thesis unfolding s' using same by blast
  qed
qed

lemma live_effect:
  assumes base: "sx_http sx = http" "sn_base_url cl = Some base" "nc_external_id_field (sn_contract cl) = field" "CHR ''^'' \<notin> set x"
    and p: "dict_get payload field = Some (JStr x)" and inv: "one_per_id (records (ss_server s))"
    and live: "upsert_live sx cl rid table x payload s = (r, s')"
  shows "one_per_id (records (ss_server s')) \<and> kept (records (ss_server s)) (records (ss_server s')) \<and>
    (\<forall>u. r = Inr u \<longrightarrow> up_outcome u \<noteq> Up_Failed \<longrightarrow> (\<exists>sid. up_sys_id u = Some sid \<and> (sid, x) \<in> set (records (ss_server s') table)))"
proof -
  obtain r1 s1 where l: "request_records sx cl table (lookup_params (sn_contract cl) x) s = (r1, s1)" by (meson surj_pair)
  show ?thesis
  proof (cases r1)
    case (Inl e)
    then have "ss_server s1 = ss_server s"
      using l by (auto simp: request_records_def st_bind_def split: sum.splits prod.splits)
    then show ?thesis using live l Inl inv by (auto simp: upsert_live_def Let_def)
  next
    case (Inr q)
    obtain rs error where q: "q = (rs, error)" by (meson surj_pair)
    have l': "request_records sx cl table (lookup_params (sn_contract cl) x) s = (Inr (rs, error), s1)" using l Inr q by simp
    note same = lookup_result(1) [OF base l']
    show ?thesis
    proof (cases "truthy_text error")
      case (Some e)
      then show ?thesis using live l' same inv by (auto simp: upsert_live_def upsert_result_def Let_def)
    next
      case None
      note found = existing_found [OF base l' None inv]
      let ?m = "filter (\<lambda>r. snd r = x) (records (ss_server s) table)"
      show ?thesis
      proof (cases ?m)
        case Nil
        then have "create_record sx cl rid table x payload s1 = (r, s')"
          using live l' None found by (simp add: upsert_live_def Let_def)
        from created_effect [OF base(1,2) p this] show ?thesis using inv same Nil by simp
      next
        case (Cons a rest)
        then have "update_record sx cl rid table x payload (fst a) s1 = (r, s')"
          using live l' None found by (simp add: upsert_live_def Let_def)
        moreover have in1: "(fst a, x) \<in> set (records (ss_server s1) table)"
          using Cons same by (metis (mono_tags, lifting) filter_eq_ConsD in_set_conv_decomp prod.collapse)
        moreover note updated_effect [OF base(1,2) p calculation(1) _ in1]
        ultimately show ?thesis using inv same by auto
      qed
    qed
  qed
qed

end

text \<open>The payloads carry the external identifier.\<close>

lemma restore_required_get: "dict_get (restore_required fs payload d) k =
    (if k \<in> set fs \<and> dict_get payload k \<noteq> None then dict_get payload k else dict_get d k)"
  by (induction fs arbitrary: d) (auto split: option.splits)

lemma set_default_get: "dict_get d k = Some v \<Longrightarrow> dict_get (set_default j w d) k = Some v"
  by (auto simp: set_default_def) (metis image_eqI map_of_SomeD prod.sel(1))

lemma sanitized_field:
  "\<lbrakk>sanitize_payload_for_write sx cl table payload required = Inr p; f \<in> set required; dict_get payload f = Some v\<rbrakk> \<Longrightarrow> dict_get p f = Some v"
  by (auto simp: sanitize_payload_for_write_def Let_def restore_required_get intro!: set_default_get elim!: rbind_InrE)

definition caret_free :: "string \<Rightarrow> bool" where
  "caret_free s = (CHR ''^'' \<notin> set s)"

lemma strip_subset: "set (py_strip s) \<subseteq> set s"
  by (auto simp: py_strip_def dest!: set_dropWhileD)

lemma caret_free_strip: "caret_free s \<Longrightarrow> caret_free (py_strip s)"
  using strip_subset by (auto simp: caret_free_def)

lemma caret_free_id:
  assumes "\<And>y. caret_free (sx_sha256_hex sx y)" "caret_free cid" "caret_free pd" "caret_free knd" "\<And>t. task = Some t \<Longrightarrow> caret_free t"
  shows "CHR ''^'' \<notin> set (build_external_id sx knd cid pd task)"
proof -
  have "caret_free (take 12 (sx_sha256_hex sx y))" for y using assms(1) [of y] by (auto simp: caret_free_def dest: in_set_takeD)
  moreover have "caret_free (py_strip cid)" "caret_free (py_strip pd)" "\<And>t. task = Some t \<Longrightarrow> caret_free (py_strip t)"
    using assms(2,3,5) caret_free_strip by blast+
  ultimately show ?thesis using assms(4) by (cases task) (auto simp: build_external_id_def Let_def caret_free_def truthy_text_def)
qed

definition upsert_settles ::
  "(string \<Rightarrow> (string \<times> string) list) \<Rightarrow> (string \<Rightarrow> (string \<times> string) list) \<Rightarrow> string \<Rightarrow> string \<Rightarrow> sn_upsert result \<Rightarrow> bool" where
  "upsert_settles a b table x r = (one_per_id b \<and> kept a b \<and>
     (\<forall>u. r = Inr u \<longrightarrow> up_outcome u \<noteq> Up_Failed \<longrightarrow> (\<exists>sid. up_sys_id u = Some sid \<and> (sid, x) \<in> set (b table))))"

lemma settles_failed: "one_per_id a \<Longrightarrow> \<forall>u. r = Inr u \<longrightarrow> up_outcome u = Up_Failed \<Longrightarrow> upsert_settles a a table x r"
  by (simp add: upsert_settles_def)

lemma dedupe_subset: "set (dedupe_from seen xs) \<subseteq> set xs"
  by (induction seen xs rule: dedupe_from.induct) auto

context sn_tables
begin

lemma record_effect:
  assumes "sx_http sx = http" "sn_base_url cl = Some base" "nc_external_id_field (sn_contract cl) = field" "CHR ''^'' \<notin> set x"
    and "dict_get payload field = Some (JStr x)" "one_per_id (records (ss_server s))" "sn_mode cl = MODE_LIVE"
    and "upsert_record sx cl rid table x payload s = (r, s')"
  shows "upsert_settles (records (ss_server s)) (records (ss_server s')) table x r"
proof (cases "assert_write_scope cl table = Inr () \<and> truthy_text (sn_base_url cl) \<noteq> None")
  case True
  then have "upsert_live sx cl rid table x payload s = (r, s')" using assms(7,8) by (auto simp: upsert_record_def)
  from live_effect [OF assms(1-6) this] show ?thesis by (simp add: upsert_settles_def)
next
  case False
  then have "s' = s" "\<forall>u. r = Inr u \<longrightarrow> up_outcome u = Up_Failed"
    using assms(7,8) by (cases "assert_write_scope cl table"; auto simp: upsert_record_def upsert_result_def)+
  then show ?thesis using assms(6) settles_failed by simp
qed

lemma problem_effect:
  assumes base: "sx_http sx = http" "sn_base_url cl = Some base" "nc_external_id_field (sn_contract cl) = field"
    and "\<And>y. caret_free (sx_sha256_hex sx y)" "caret_free cid" "caret_free pd" "one_per_id (records (ss_server s))" "sn_mode cl = MODE_LIVE"
    and up: "upsert_problem sx cl rid cid pd sys summary context s = (r, s')"
  shows "upsert_settles (records (ss_server s)) (records (ss_server s')) (nc_problem_table (sn_contract cl)) (build_problem_external_id sx cid pd) r"
proof -
  let ?x = "build_problem_external_id sx cid pd"
  have x: "CHR ''^'' \<notin> set ?x" unfolding build_problem_external_id_def using assms(4-6) by (intro caret_free_id) (auto simp: caret_free_def)
  show ?thesis
  proof (cases "missing_required_values cid pd sys = [] \<and> is_ok (build_problem_payload sx cl ?x cid pd sys summary context)")
    case True
    then obtain p where p: "build_problem_payload sx cl ?x cid pd sys summary context = Inr p" by (auto simp: is_ok_iff)
    from sanitized_field [OF p [unfolded build_problem_payload_def Let_def base(3)], of field] own_field
    have "dict_get p field = Some (JStr ?x)" by simp
    from record_effect [OF base x this assms(7,8)] show ?thesis using up True p by (simp add: upsert_problem_def Let_def)
  next
    case False
    then have "s' = s" "\<forall>u. r = Inr u \<longrightarrow> up_outcome u = Up_Failed"
      using up by (cases "build_problem_payload sx cl ?x cid pd sys summary context";
          auto simp: upsert_problem_def upsert_result_def Let_def split: if_splits)+
    then show ?thesis using assms(7) settles_failed by simp
  qed
qed

lemma pir_effect:
  assumes base: "sx_http sx = http" "sn_base_url cl = Some base" "nc_external_id_field (sn_contract cl) = field"
    and "\<And>y. caret_free (sx_sha256_hex sx y)" "caret_free cid" "caret_free pd" "one_per_id (records (ss_server s))" "sn_mode cl = MODE_LIVE"
    and "caret_free t" and up: "upsert_pir_task sx cl rid cid pd problem t summary context s = (r, s')"
  shows "upsert_settles (records (ss_server s)) (records (ss_server s')) (nc_pir_task_table (sn_contract cl)) (build_pir_task_external_id sx cid pd t) r"
proof -
  let ?x = "build_pir_task_external_id sx cid pd t" and ?payload = "build_pir_task_payload sx cl (build_pir_task_external_id sx cid pd t) cid pd problem t summary context"
  have x: "CHR ''^'' \<notin> set ?x" unfolding build_pir_task_external_id_def using assms(4-6,9) by (intro caret_free_id) (auto simp: caret_free_def)
  show ?thesis
  proof (cases "py_strip problem \<noteq> [] \<and> missing_required_values cid pd t = [] \<and> is_ok ?payload")
    case True
    then obtain p where p: "?payload = Inr p" by (auto simp: is_ok_iff)
    from sanitized_field [OF p [unfolded build_pir_task_payload_def Let_def base(3)], of field] own_field
    have "dict_get p field = Some (JStr ?x)" by simp
    from record_effect [OF base x this assms(7,8)] show ?thesis using up True p by (simp add: upsert_pir_task_def Let_def)
  next
    case False
    then have "s' = s" "\<forall>u. r = Inr u \<longrightarrow> up_outcome u = Up_Failed"
      using up by (cases ?payload; auto simp: upsert_pir_task_def upsert_result_def Let_def split: if_splits)+
    then show ?thesis using assms(7) settles_failed by simp
  qed
qed

lemma pir_loop_effect:
  assumes base: "sx_http sx = http" "sn_base_url cl = Some base" "nc_external_id_field (sn_contract cl) = field"
    and ids: "\<And>y. caret_free (sx_sha256_hex sx y)" "caret_free cid" "caret_free pd" and mode: "sn_mode cl = MODE_LIVE"
  shows "\<lbrakk>upsert_pir_tasks (\<lambda>t. upsert_pir_task sx cl rid cid pd problem t summary context) acc ts s = (r, s'); \<forall>t \<in> set ts. caret_free t;
      one_per_id (records (ss_server s))\<rbrakk> \<Longrightarrow>
    one_per_id (records (ss_server s')) \<and> kept (records (ss_server s)) (records (ss_server s')) \<and>
    (\<forall>w. r = Inr w \<longrightarrow> wr_linkage_status w = ''linked'' \<longrightarrow> wr_problem_sys_id w = wr_problem_sys_id acc \<and>
      (\<forall>t \<in> set ts. \<exists>sid. (sid, build_pir_task_external_id sx cid pd t) \<in> set (records (ss_server s') (nc_pir_task_table (sn_contract cl)))))"
proof (induction ts arbitrary: acc s)
  case (Cons t ts)
  obtain r1 s1 where u: "upsert_pir_task sx cl rid cid pd problem t summary context s = (r1, s1)" by (meson surj_pair)
  from pir_effect [OF base ids Cons.prems(3) mode _ u] Cons.prems(2)
  have st: "upsert_settles (records (ss_server s)) (records (ss_server s1)) (nc_pir_task_table (sn_contract cl)) (build_pir_task_external_id sx cid pd t) r1"
    by simp
  show ?case
  proof (cases "\<exists>v. r1 = Inr v \<and> up_outcome v \<notin> {Up_Failed, Up_Skipped}")
    case False
    then show ?thesis using Cons.prems(1) u st by (cases r1) (auto simp: upsert_settles_def Let_def split: if_splits)
  next
    case True
    then obtain v where v: "r1 = Inr v" "up_outcome v \<notin> {Up_Failed, Up_Skipped}" by blast
    let ?acc = "acc\<lparr>wr_pir_task_external_ids := wr_pir_task_external_ids acc @ [up_external_id v],
      wr_pir_task_sys_ids := wr_pir_task_sys_ids acc @ (case up_sys_id v of Some x \<Rightarrow> [x] | None \<Rightarrow> [])\<rparr>"
    have "upsert_pir_tasks (\<lambda>t. upsert_pir_task sx cl rid cid pd problem t summary context) ?acc ts s1 = (r, s')"
      using Cons.prems(1) u v by (simp add: Let_def)
    from Cons.IH [OF this] Cons.prems(2) st have rest: "one_per_id (records (ss_server s')) \<and> kept (records (ss_server s1)) (records (ss_server s')) \<and>
      (\<forall>w. r = Inr w \<longrightarrow> wr_linkage_status w = ''linked'' \<longrightarrow> wr_problem_sys_id w = wr_problem_sys_id acc \<and>
        (\<forall>t \<in> set ts. \<exists>sid. (sid, build_pir_task_external_id sx cid pd t) \<in> set (records (ss_server s') (nc_pir_task_table (sn_contract cl)))))"
      by (simp add: upsert_settles_def)
    moreover obtain sid where "(sid, build_pir_task_external_id sx cid pd t) \<in> set (records (ss_server s1) (nc_pir_task_table (sn_contract cl)))"
      using st v by (auto simp: upsert_settles_def)
    then have "(sid, build_pir_task_external_id sx cid pd t) \<in> set (records (ss_server s') (nc_pir_task_table (sn_contract cl)))"
      using rest unfolding kept_def by blast
    moreover have "kept (records (ss_server s)) (records (ss_server s'))" using st rest kept_trans unfolding upsert_settles_def by blast
    ultimately show ?thesis by auto
  qed
qed auto

lemma linkage_effect:
  assumes base: "sx_http sx = http" "sn_base_url cl = Some base" "nc_external_id_field (sn_contract cl) = field" and mode: "sn_mode cl = MODE_LIVE"
    and ids: "\<And>y. caret_free (sx_sha256_hex sx y)" "caret_free cid" "caret_free pd" "\<forall>t \<in> set types. caret_free t"
    and inv: "one_per_id (records (ss_server s))"
    and run: "upsert_problem_and_pir_tasks sx cl rid cid pd sys summary types context s = (w, s')"
  shows "one_per_id (records (ss_server s')) \<and> kept (records (ss_server s)) (records (ss_server s')) \<and>
    (wr_linkage_status w = ''linked'' \<longrightarrow>
      (\<exists>psid. wr_problem_sys_id w = Some psid \<and> (psid, build_problem_external_id sx cid pd) \<in> set (records (ss_server s') (nc_problem_table (sn_contract cl)))) \<and>
      (\<forall>t \<in> set (dedupe_preserve_order types). \<exists>sid.
        (sid, build_pir_task_external_id sx cid pd t) \<in> set (records (ss_server s') (nc_pir_task_table (sn_contract cl)))))"
proof (cases "\<exists>i. sys = Some i \<and> py_strip i \<noteq> [] \<and> dedupe_preserve_order types \<noteq> []")
  case False
  then have "s' = s" "wr_linkage_status w \<noteq> ''linked''"
    using run by (auto simp: upsert_problem_and_pir_tasks_def write_result_def Let_def split: option.splits if_splits)
  then show ?thesis using inv by simp
next
  case True
  then obtain i where i: "sys = Some i" "py_strip i \<noteq> []" "dedupe_preserve_order types \<noteq> []" by blast
  let ?ts = "dedupe_preserve_order types"
  have ts: "\<forall>t \<in> set ?ts. caret_free t" using ids(4) dedupe_subset [of "[]" types] by (auto simp: dedupe_preserve_order_def)
  obtain r1 s1 where u: "upsert_problem sx cl rid cid pd i summary context s = (r1, s1)" by (meson surj_pair)
  note st = problem_effect [OF base ids(1-3) inv mode u]
  show ?thesis
  proof (cases "\<exists>v psid. r1 = Inr v \<and> up_outcome v \<notin> {Up_Failed, Up_Skipped} \<and> up_sys_id v = Some psid")
    case False
    then have "s' = s1" "wr_linkage_status w \<noteq> ''linked''"
      using run u i by (cases r1; auto simp: upsert_problem_and_pir_tasks_def link_problem_def write_result_def Let_def
          split: option.splits if_splits prod.splits)+
    then show ?thesis using st by (simp add: upsert_settles_def)
  next
    case True
    then obtain v psid where v: "r1 = Inr v" "up_outcome v \<notin> {Up_Failed, Up_Skipped}" "up_sys_id v = Some psid" by blast
    let ?acc = "(write_result ''failed'' ''upsert_error'' rid (Some i) [])\<lparr>wr_problem_external_id := Some (up_external_id v), wr_problem_sys_id := Some psid\<rparr>"
    obtain r2 where loop: "upsert_pir_tasks (\<lambda>t. upsert_pir_task sx cl rid cid pd psid t summary context) ?acc ?ts s1 = (r2, s')"
      and w: "r2 = Inr w \<or> \<not> is_ok r2 \<and> wr_linkage_status w = ''failed''"
      using run u i v by (auto simp: upsert_problem_and_pir_tasks_def link_problem_def write_result_def Let_def split: prod.splits sum.splits)
    have inv1: "one_per_id (records (ss_server s1))" "kept (records (ss_server s)) (records (ss_server s1))"
      and problem: "(psid, build_problem_external_id sx cid pd) \<in> set (records (ss_server s1) (nc_problem_table (sn_contract cl)))"
      using st v by (auto simp: upsert_settles_def)
    note rest = pir_loop_effect [OF base ids(1-3) mode loop ts inv1(1)]
    then have "(psid, build_problem_external_id sx cid pd) \<in> set (records (ss_server s') (nc_problem_table (sn_contract cl)))"
      using problem unfolding kept_def by blast
    moreover have "kept (records (ss_server s)) (records (ss_server s'))" using inv1(2) rest kept_trans by blast
    moreover have "r2 = Inr w" if "wr_linkage_status w = ''linked''" using w that by auto
    ultimately show ?thesis using rest by auto
  qed
qed

end

text \<open>A simulated Table API: records per table, and per call whether it times out before (1) or after (2) it is carried out.\<close>

record sim_tables =
  sm_records :: "(string, (string \<times> string) list) pydict"
  sm_faults :: "nat list"

definition sim_base :: string where
  "sim_base = ''sn:''"

definition sim_field :: string where
  "sim_field = ''external_id''"

definition sim_rows :: "sim_tables \<Rightarrow> string \<Rightarrow> (string \<times> string) list" where
  "sim_rows w t = (case dict_get (sm_records w) t of Some rs \<Rightarrow> rs | None \<Rightarrow> [])"

definition sim_id_reply :: "string \<Rightarrow> sn_reply" where
  "sim_id_reply sid = Json_Body (JDict [(''result'', JDict [(''sys_id'', JStr sid)])])"

definition sim_query :: "sim_tables \<Rightarrow> string \<Rightarrow> string \<Rightarrow> sn_reply" where
  "sim_query w table q =
     (if py_startswith q (sim_field @ ''='')
      then let x = drop (length sim_field + 1) q
           in Json_Body (JDict [(''result'', JList (map (\<lambda>r. JDict [(''sys_id'', JStr (fst r)), (sim_field, JStr x)])
                (filter (\<lambda>r. snd r = x) (sim_rows w table))))])
      else Http_Failure 400 None ''Bad Request'')"

definition sim_put :: "sim_tables \<Rightarrow> string \<Rightarrow> (string \<times> string) list \<Rightarrow> sim_tables" where
  "sim_put w table rows = w\<lparr>sm_records := dict_set (sm_records w) table rows\<rparr>"

definition sim_apply :: "sim_tables \<Rightarrow> sn_request \<Rightarrow> sn_reply \<times> sim_tables" where
  "sim_apply w rq =
     (case (rq_method rq, decode_url sim_base (rq_url rq), rq_body rq) of
        (GET, Some ([table], params), _) \<Rightarrow>
          (case dict_get params ''sysparm_query'' of Some q \<Rightarrow> sim_query w table q | None \<Rightarrow> Http_Failure 400 None ''Bad Request'', w)
      | (POST, Some ([table], []), Some (JDict p)) \<Rightarrow>
          (case dict_get p sim_field of
             Some (JStr x) \<Rightarrow> (let sid = ''s'' @ concat (map fst (sim_rows w table))
               in (sim_id_reply sid, sim_put w table (sim_rows w table @ [(sid, x)])))
           | _ \<Rightarrow> (Http_Failure 400 None ''Bad Request'', w))
      | (PATCH, Some ([table, sid], []), Some (JDict p)) \<Rightarrow>
          (case dict_get p sim_field of
             Some (JStr x) \<Rightarrow>
               if sid \<in> fst ` set (sim_rows w table) \<and> sid \<noteq> []
               then (sim_id_reply sid, sim_put w table (map (\<lambda>r. if fst r = sid then (sid, x) else r) (sim_rows w table)))
               else (Http_Failure 404 None ''Not Found'', w)
           | _ \<Rightarrow> (Http_Failure 400 None ''Bad Request'', w))
      | _ \<Rightarrow> (Http_Failure 404 None ''Not Found'', w))"

definition sim_http :: "sim_tables sn_http" where
  "sim_http w rq =
     (let w1 = w\<lparr>sm_faults := tl (sm_faults w)\<rparr> in
      case sm_faults w of
        Suc 0 # _ \<Rightarrow> (Other_Failure ''timed out'', w1)
      | Suc (Suc _) # _ \<Rightarrow> (Other_Failure ''timed out'', snd (sim_apply w1 rq))
      | _ \<Rightarrow> sim_apply w1 rq)"

lemma sim_rows_put: "sim_rows (sim_put w table rows) = (sim_rows w)(table := rows)"
  by (auto simp: sim_put_def sim_rows_def fun_eq_iff)

lemma sim_rows_faults [simp]: "sim_rows (w\<lparr>sm_faults := f\<rparr>) = sim_rows w"
  by (simp add: sim_rows_def fun_eq_iff)

lemma sim_http_cases:
  assumes "sim_http w rq = (reply, w')"
  obtains w1 reply1 where "sim_rows w1 = sim_rows w" "sim_apply w1 rq = (reply1, w')" "reply = reply1 \<or> reply = Other_Failure ''timed out''"
  | "reply = Other_Failure ''timed out''" "sim_rows w' = sim_rows w"
proof -
  obtain reply1 w2 where a: "sim_apply (w\<lparr>sm_faults := tl (sm_faults w)\<rparr>) rq = (reply1, w2)" by (meson surj_pair)
  show ?thesis
    using assms a that(1) [of "w\<lparr>sm_faults := tl (sm_faults w)\<rparr>" reply1] that(2)
    by (auto simp: sim_http_def Let_def split: list.splits nat.splits)
qed

lemma sim_get: "rq_method rq = GET \<Longrightarrow> snd (sim_apply w rq) = w"
  by (auto simp: sim_apply_def split: option.splits list.splits)

lemma sim_post: "\<lbrakk>rq_method rq = POST; decode_url sim_base (rq_url rq) = Some ([table], []); rq_body rq = Some (JDict p); dict_get p sim_field = Some (JStr x)\<rbrakk> \<Longrightarrow>
    sim_apply w rq = (let sid = ''s'' @ concat (map fst (sim_rows w table)) in (sim_id_reply sid, sim_put w table (sim_rows w table @ [(sid, x)])))"
  by (simp add: sim_apply_def)

lemma sim_patch: "\<lbrakk>rq_method rq = PATCH; decode_url sim_base (rq_url rq) = Some ([table, sid], []); rq_body rq = Some (JDict p); dict_get p sim_field = Some (JStr x)\<rbrakk> \<Longrightarrow>
    sim_apply w rq = (if sid \<in> fst ` set (sim_rows w table) \<and> sid \<noteq> []
       then (sim_id_reply sid, sim_put w table (map (\<lambda>r. if fst r = sid then (sid, x) else r) (sim_rows w table)))
       else (Http_Failure 404 None ''Not Found'', w))"
  by (simp add: sim_apply_def)

lemma sim_answers: "sim_apply w rq = (reply, w') \<Longrightarrow> reply \<noteq> Empty_Body \<and> (\<forall>m. reply \<noteq> Other_Failure m)"
  by (auto simp: sim_apply_def sim_query_def sim_id_reply_def Let_def
      split: option.splits list.splits sn_method.splits jval.splits if_splits)

lemma sim_fresh: "''s'' @ concat (map fst rs) \<notin> fst ` set rs"
proof
  assume "''s'' @ concat (map fst rs) \<in> fst ` set rs"
  then have "length (''s'' @ concat (map fst rs)) \<le> sum_list (map length (map fst rs))"
    by (metis (no_types, lifting) elem_le_sum_list in_set_conv_nth length_map list.set_map nth_map)
  then show False by (simp add: length_concat)
qed

interpretation sim: sn_tables sim_http sim_base sim_field sim_rows
proof
  show "sim_field \<notin> {''short_description'', ''description'', ''problem''}" by (simp add: sim_field_def)
  show "sim_rows w' = sim_rows w" if "sim_http w rq = (reply, w')" "rq_method rq = GET" for w rq reply w'
    using that(1) by (cases rule: sim_http_cases) (use sim_get [OF that(2)] in \<open>metis snd_conv\<close>)+
  show "reply \<noteq> Empty_Body \<and> reply \<noteq> Other_Failure []" if "sim_http w rq = (reply, w')" for w rq reply w'
    using that by (cases rule: sim_http_cases) (auto dest: sim_answers)
  show "\<exists>n \<ge> 1. v = JDict [(''result'', JList (map (\<lambda>r. JDict [(''sys_id'', JStr (fst r)), (sim_field, JStr x)])
        (take n (filter (\<lambda>r. snd r = x) (sim_rows w table)))))]"
    if "sim_http w rq = (Json_Body v, w')" "rq_method rq = GET" "decode_url sim_base (rq_url rq) = Some ([table], params)"
      "dict_get params ''sysparm_query'' = Some (sim_field @ ''='' @ x)" "CHR ''^'' \<notin> set x" for w rq v w' table params x
  proof -
    have "py_startswith (sim_field @ ''='' @ x) (sim_field @ ''='')" by (auto simp: py_startswith_iff)
    then have "fst (sim_apply w1 rq) = Json_Body (JDict [(''result'', JList (map (\<lambda>r. JDict [(''sys_id'', JStr (fst r)), (sim_field, JStr x)])
        (filter (\<lambda>r. snd r = x) (sim_rows w1 table))))])" for w1
      using that(2-4) by (simp add: sim_apply_def sim_query_def Let_def)
    note q = this
    from that(1) show ?thesis
    proof (cases rule: sim_http_cases)
      case (1 w1 reply1)
      then have "Json_Body v = fst (sim_apply w1 rq)" by auto
      then show ?thesis unfolding q 1(1)
        by (intro exI [of _ "Suc (length (filter (\<lambda>r. snd r = x) (sim_rows w table)))"]) simp
    qed simp
  qed
  show "sim_rows w' = sim_rows w \<or> (\<exists>sid. sid \<noteq> [] \<and> sid \<notin> fst ` set (sim_rows w table) \<and> sim_rows w' = (sim_rows w)(table := sim_rows w table @ [(sid, x)]))"
    if "sim_http w rq = (reply, w')" and rq: "rq_method rq = POST" "decode_url sim_base (rq_url rq) = Some ([table], [])"
      "rq_body rq = Some (JDict p)" "dict_get p sim_field = Some (JStr x)" for w rq reply w' table p x
    using that(1)
  proof (cases rule: sim_http_cases)
    case (1 w1 reply1)
    let ?sid = "''s'' @ concat (map fst (sim_rows w table))"
    have "sim_rows w' = (sim_rows w)(table := sim_rows w table @ [(?sid, x)])"
      using 1 sim_post [OF rq, of w1] by (auto simp: sim_rows_put Let_def)
    then show ?thesis using sim_fresh [of "sim_rows w table"] by blast
  qed simp
  show "sim_rows w' = sim_rows w \<or> sim_rows w' = (sim_rows w)(table := map (\<lambda>r. if fst r = sid then (sid, x) else r) (sim_rows w table))"
    if "sim_http w rq = (reply, w')" and rq: "rq_method rq = PATCH" "decode_url sim_base (rq_url rq) = Some ([table, sid], [])"
      "rq_body rq = Some (JDict p)" "dict_get p sim_field = Some (JStr x)" for w rq reply w' table sid p x
    using that(1)
  proof (cases rule: sim_http_cases)
    case (1 w1 reply1)
    then show ?thesis using sim_patch [OF rq, of w1] by (auto simp: sim_rows_put split: if_splits)
  qed simp
  show "\<exists>r sid. v = JDict [(''result'', JDict r)] \<and> dict_get r ''sys_id'' = Some (JStr sid) \<and> sid \<noteq> [] \<and> (sid, x) \<in> set (sim_rows w' table)"
    if "sim_http w rq = (Json_Body v, w')" "rq_method rq \<noteq> GET" and url: "decode_url sim_base (rq_url rq) = Some (table # rest, [])"
      and body: "rq_body rq = Some (JDict p)" "dict_get p sim_field = Some (JStr x)"
      "rest = [] \<or> rest = [sid0] \<and> sid0 \<in> fst ` set (sim_rows w table)" for w rq v w' table rest p x sid0
    using that(1)
  proof (cases rule: sim_http_cases)
    case (1 w1 reply1)
    then have a: "sim_apply w1 rq = (Json_Body v, w')" by simp
    consider "rq_method rq = POST" "rest = []" | "rq_method rq = PATCH" "rest = [sid0]" "sid0 \<in> fst ` set (sim_rows w1 table)"
      using that(2) a url body(1,3) 1(1) by (cases "rq_method rq") (auto simp: sim_apply_def)
    then show ?thesis
    proof cases
      case post: 1
      then show ?thesis using sim_post [OF _ _ body(1,2), of table w1] a url by (auto simp: Let_def sim_id_reply_def sim_rows_put)
    next
      case patch: 2
      then show ?thesis using sim_patch [OF _ _ body(1,2), of table sid0 w1] a url
        by (auto simp: sim_id_reply_def sim_rows_put split: if_splits)
    qed
  qed simp
qed

text \<open>A query never reaches a record whose external identifier holds the query operator.\<close>

lemma caret_lookup: "lookup_params c x = lookup_params c (escape_query_value x)"
  by (simp add: lookup_params_def escape_query_value_def)

context sn_tables
begin

lemma caret_creates:
  assumes base: "sx_http sx = http" "sn_base_url cl = Some base" "nc_external_id_field (sn_contract cl) = field"
    and inv: "one_per_id (records (ss_server s))"
    and x: "filter (\<lambda>r. snd r = escape_query_value x) (records (ss_server s) table) = []"
    and live: "upsert_live sx cl rid table x payload s = (r, s')"
  shows "\<forall>u. r = Inr u \<longrightarrow> up_outcome u \<noteq> Up_Updated"
proof -
  obtain r1 s1 where l: "request_records sx cl table (lookup_params (sn_contract cl) x) s = (r1, s1)" by (meson surj_pair)
  show ?thesis
  proof (cases "\<exists>rs error. r1 = Inr (rs, error) \<and> truthy_text error = None")
    case False
    then show ?thesis using live l by (cases r1) (auto simp: upsert_live_def upsert_result_def Let_def)
  next
    case True
    then obtain rs error where q: "r1 = Inr (rs, error)" "truthy_text error = None" by blast
    have "extract_existing_sys_id (sx_rend sx) rs = Inr None"
      using existing_found [OF base _ l [unfolded caret_lookup [of _ x] q(1)] q(2) inv] x by (simp add: escape_query_value_def)
    then have "create_record sx cl rid table x payload s1 = (r, s')" using live l q by (simp add: upsert_live_def Let_def)
    then show ?thesis by (auto simp: create_record_def st_bind_def upsert_result_def split: sum.splits prod.splits option.splits)
  qed
qed

end

text \<open>A linkage against the simulated API.\<close>

definition sim_services :: "sim_tables sn_services" where
  "sim_services = \<lparr>sx_http = sim_http, sx_dumps = (\<lambda>_. []), sx_rend = (\<lambda>_. []), sx_search = (\<lambda>_ _. False), sx_sha256_hex = (\<lambda>_. ''0a''),
     sx_http_date = (\<lambda>_. None), sx_iso_date = (\<lambda>_. None), sx_strptime = (\<lambda>_. None), sx_clock = 0\<rparr>"

definition sim_client :: sn_client where
  "sim_client = new_sn_client MODE_LIVE (Some sim_base) None None ''none'' None"

definition sim_state :: "nat list \<Rightarrow> sim_tables sn_state" where
  "sim_state faults = \<lparr>ss_server = \<lparr>sm_records = [], sm_faults = faults\<rparr>, ss_requests = [], ss_mock_sys_ids = []\<rparr>"

definition sim_link :: "sim_tables sn_state \<Rightarrow> linkage_write \<times> sim_tables sn_state" where
  "sim_link s = upsert_problem_and_pir_tasks sim_services sim_client ''r'' ''c'' ''p'' (Some ''i'') ''s'' [''pir''] None s"

definition caret_state :: "sim_tables sn_state" where
  "caret_state = \<lparr>ss_server = \<lparr>sm_records = [(''problem'', [(''1'', ''a^b'')])], sm_faults = []\<rparr>, ss_requests = [], ss_mock_sys_ids = []\<rparr>"

definition caret_upsert :: "sn_upsert result \<times> sim_tables sn_state" where
  "caret_upsert = upsert_live sim_services sim_client ''r'' ''problem'' ''a^b'' [(sim_field, JStr ''a^b'')] caret_state"

definition incident_services :: "unit sn_services" where
  "incident_services = \<lparr>sx_http = (\<lambda>w rq. (Json_Body (JDict [(''result'', JList [JDict [(''sys_id'', JStr ''2'')], JDict [(''sys_id'', JStr ''1'')]])]), w)),
     sx_dumps = (\<lambda>_. []), sx_rend = (\<lambda>_. []), sx_search = (\<lambda>_ _. False), sx_sha256_hex = (\<lambda>_. ''0a''),
     sx_http_date = (\<lambda>_. None), sx_iso_date = (\<lambda>_. None), sx_strptime = (\<lambda>_. None), sx_clock = 0\<rparr>"

definition sim_correlation :: "sn_correlation result \<times> unit sn_state" where
  "sim_correlation = correlate_incident incident_services sim_client ''r'' ''c'' ''p'' ''k'' [] (Some 0)
     \<lparr>ss_server = (), ss_requests = [], ss_mock_sys_ids = []\<rparr>"

section \<open>Properties\<close>

lemma sim_client_fields: "sn_base_url sim_client = Some sim_base" "nc_external_id_field (sn_contract sim_client) = sim_field"
    "sn_mode sim_client = MODE_LIVE" "sx_http sim_services = sim_http" "caret_free (sx_sha256_hex sim_services y)"
  by (simp_all add: sim_client_def new_sn_client_def sim_base_def rstrip_slashes_def default_sn_contract_def sim_field_def sim_services_def caret_free_def)

text \<open>The simulated API evaluated through the decoding lemma rather than character by character.\<close>

lemma dropWhile_until: "\<not> P c \<Longrightarrow> dropWhile P (xs @ c # ys) = dropWhile P xs @ c # ys"
  by (induction xs) auto

lemma strip_head:
  assumes "\<not> py_isspace a" "\<not> py_isspace c"
  shows "\<exists>v. py_strip (a # b # c # s) = a # b # c # v"
proof -
  show ?thesis using assms by (simp add: py_strip_def dropWhile_until)
qed

lemma sim_scheme: "has_scheme (unwrap_url (table_url sim_base t ps r))"
proof -
  obtain v where v: "py_strip (table_url sim_base t ps r) = ''sn:'' @ v"
    using strip_head [of "CHR ''s''" "CHR '':''" "CHR ''n''"] by (auto simp: table_url_def sim_base_def py_isspace_def)
  show ?thesis by (simp add: unwrap_url_def v Let_def has_scheme_def)
qed

lemma sim_get_request:
  "request_records sx sim_client t ps s =
     (case sx_http sx (ss_server s) \<lparr>rq_method = GET, rq_url = table_url sim_base t ps None, rq_headers = build_headers sim_client, rq_body = None\<rparr> of
        (reply, w) \<Rightarrow> (Inr (reply_records sx reply), s\<lparr>ss_server := w, ss_requests := ss_requests s @
          [\<lparr>rq_method = GET, rq_url = table_url sim_base t ps None, rq_headers = build_headers sim_client, rq_body = None\<rparr>]\<rparr>))"
  using sim_scheme sim_client_fields(1)
  by (auto simp: request_records_def build_table_url_def new_request_def send_request_def sim_client_fields sim_base_def split: prod.splits)

lemma sim_write_request:
  "request_record_mutation sx sim_client m t p sys s =
     (let rq = \<lparr>rq_method = m, rq_url = table_url sim_base t [] sys,
        rq_headers = build_headers sim_client @ [(''Content-Type'', ''application/json'')], rq_body = Some (JDict p)\<rparr>
      in case sx_http sx (ss_server s) rq of
        (reply, w) \<Rightarrow> (Inr (reply_record sx reply), s\<lparr>ss_server := w, ss_requests := ss_requests s @ [rq]\<rparr>))"
  using sim_scheme sim_client_fields(1)
  by (auto simp: request_record_mutation_def build_table_url_def new_request_def send_request_def sim_client_fields sim_base_def Let_def split: prod.splits)

lemma sim_reads: "sim_apply w \<lparr>rq_method = GET, rq_url = table_url sim_base t (lookup_params (sn_contract sim_client) x) None, rq_headers = h, rq_body = b\<rparr> =
    (Json_Body (JDict [(''result'', JList (map (\<lambda>r. JDict [(''sys_id'', JStr (fst r)), (sim_field, JStr (escape_query_value x))])
       (filter (\<lambda>r. snd r = escape_query_value x) (sim_rows w t))))]), w)"
  by (simp add: sim_apply_def decode_table_url lookup_params_def sim_query_def sim_client_fields py_startswith_iff Let_def)

lemma sim_posts: "dict_get p sim_field = Some (JStr x) \<Longrightarrow>
    sim_apply w \<lparr>rq_method = POST, rq_url = table_url sim_base t [] None, rq_headers = h, rq_body = Some (JDict p)\<rparr> =
      (let sid = ''s'' @ concat (map fst (sim_rows w t)) in (sim_id_reply sid, sim_put w t (sim_rows w t @ [(sid, x)])))"
  by (simp add: sim_apply_def decode_table_url)

lemma sim_patches: "\<lbrakk>dict_get p sim_field = Some (JStr x); sid \<in> fst ` set (sim_rows w t); sid \<noteq> []\<rbrakk> \<Longrightarrow>
    sim_apply w \<lparr>rq_method = PATCH, rq_url = table_url sim_base t [] (Some sid), rq_headers = h, rq_body = Some (JDict p)\<rparr> =
      (sim_id_reply sid, sim_put w t (map (\<lambda>r. if fst r = sid then (sid, x) else r) (sim_rows w t)))"
  by (simp add: sim_apply_def decode_table_url)

lemmas sim_eval = sim_client_fields(4) upsert_live_def create_record_def update_record_def sim_get_request sim_write_request sim_reads sim_posts sim_patches sim_http_def
  reply_records_def reply_record_def sim_id_reply_def truthy_text_def extract_existing_sys_id_def record_sys_ids_def map_filter_simps
  coerce_to_string_def py_str_def upsert_result_def Let_def

lemma caret_created: "\<exists>s'. caret_upsert = (Inr (upsert_result ''r'' ''problem'' ''a^b'' Up_Created ''created'' (Some ''s1'') []), s') \<and>
    map snd (sim_rows (ss_server s') ''problem'') = [''a^b'', ''a^b'']"
  unfolding caret_upsert_def upsert_live_def sim_get_request sim_http_def caret_state_def
  by (simp add: sim_eval sim_rows_def sim_put_def escape_query_value_def)

lemma sim_tables: "nc_problem_table (sn_contract sim_client) = ''problem''" "nc_pir_task_table (sn_contract sim_client) = ''problem_task''"
    "nc_incident_table (sn_contract sim_client) = ''incident''" "nc_mi_creation_allowed (sn_contract sim_client) = False"
    "sn_denylist sim_client = unset_denylist"
  by (simp_all add: sim_client_def new_sn_client_def default_sn_contract_def)

definition sim_problem_id :: string where
  "sim_problem_id = ''aiops:problem:c:p:0a''"

definition sim_pir_id :: string where
  "sim_pir_id = ''aiops:pir-task:c:p:0a:pir''"

lemma sim_ids: "build_problem_external_id sim_services ''c'' ''p'' = sim_problem_id"
    "build_pir_task_external_id sim_services ''c'' ''p'' ''pir'' = sim_pir_id"
  by code_simp+

lemma sim_payloads:
  "\<exists>p. build_problem_payload sim_services sim_client sim_problem_id ''c'' ''p'' ''i'' ''s'' None = Inr p \<and> dict_get p sim_field = Some (JStr sim_problem_id)"
  "\<exists>p. build_pir_task_payload sim_services sim_client sim_pir_id ''c'' ''p'' ''s'' ''pir'' ''s'' None = Inr p \<and> dict_get p sim_field = Some (JStr sim_pir_id)"
proof -
  have "is_ok (build_problem_payload sim_services sim_client sim_problem_id ''c'' ''p'' ''i'' ''s'' None)"
    "is_ok (build_pir_task_payload sim_services sim_client sim_pir_id ''c'' ''p'' ''s'' ''pir'' ''s'' None)" by code_simp+
  then obtain p q where "build_problem_payload sim_services sim_client sim_problem_id ''c'' ''p'' ''i'' ''s'' None = Inr p"
    "build_pir_task_payload sim_services sim_client sim_pir_id ''c'' ''p'' ''s'' ''pir'' ''s'' None = Inr q" unfolding is_ok_iff by blast
  note pay = this
  from sanitized_field [OF pay(1) [unfolded build_problem_payload_def Let_def sim_client_fields(2)], of sim_field]
    sanitized_field [OF pay(2) [unfolded build_pir_task_payload_def Let_def sim_client_fields(2)], of sim_field] pay
  show "\<exists>p. build_problem_payload sim_services sim_client sim_problem_id ''c'' ''p'' ''i'' ''s'' None = Inr p \<and> dict_get p sim_field = Some (JStr sim_problem_id)"
    "\<exists>p. build_pir_task_payload sim_services sim_client sim_pir_id ''c'' ''p'' ''s'' ''pir'' ''s'' None = Inr p \<and> dict_get p sim_field = Some (JStr sim_pir_id)"
    using sim.own_field by auto
qed

lemma sim_scope: "assert_write_scope sim_client ''problem'' = Inr ()" "assert_write_scope sim_client ''problem_task'' = Inr ()"
  "truthy_text (sn_base_url sim_client) = Some sim_base"
  by (simp_all add: assert_write_scope_def sim_tables sim_client_fields truthy_text_def sim_base_def)

lemma sim_base_ne: "sim_base \<noteq> []"
  by (simp add: sim_base_def)

lemma sim_missing: "missing_required_values ''c'' ''p'' ''i'' = []" "missing_required_values ''c'' ''p'' ''pir'' = []" "py_strip ''s'' \<noteq> []" "py_strip ''i'' \<noteq> []"
    "dedupe_preserve_order [''pir''] = [''pir'']"
  by code_simp+

lemma sim_first: "\<exists>s1. snd (sim_link (sim_state [0, 2])) = s1 \<and>
    ss_server s1 = \<lparr>sm_records = [(''problem'', [(''s'', sim_problem_id)])], sm_faults = []\<rparr>"
proof -
  obtain p where p: "build_problem_payload sim_services sim_client sim_problem_id ''c'' ''p'' ''i'' ''s'' None = Inr p" "dict_get p sim_field = Some (JStr sim_problem_id)"
    using sim_payloads by blast
  have "CHR ''^'' \<notin> set sim_problem_id" by (simp add: sim_problem_id_def)
  note n = no_caret_escape [OF this]
  show ?thesis unfolding sim_link_def upsert_problem_and_pir_tasks_def link_problem_def upsert_problem_def upsert_record_def upsert_live_def sim_get_request
    by (simp add: sim_missing sim_ids sim_tables sim_scope sim_client_fields p sim_state_def n sim_eval sim_rows_def sim_put_def sim_base_ne dict_set_def)
qed

lemma sim_second:
  assumes "ss_server s1 = \<lparr>sm_records = [(''problem'', [(''s'', sim_problem_id)])], sm_faults = []\<rparr>"
  shows "wr_linkage_status (fst (sim_link s1)) = ''linked''"
proof -
  obtain p where p: "build_problem_payload sim_services sim_client sim_problem_id ''c'' ''p'' ''i'' ''s'' None = Inr p" "dict_get p sim_field = Some (JStr sim_problem_id)"
    using sim_payloads by blast
  obtain q where q: "build_pir_task_payload sim_services sim_client sim_pir_id ''c'' ''p'' ''s'' ''pir'' ''s'' None = Inr q" "dict_get q sim_field = Some (JStr sim_pir_id)"
    using sim_payloads by blast
  have "CHR ''^'' \<notin> set sim_problem_id" "CHR ''^'' \<notin> set sim_pir_id" by (simp_all add: sim_problem_id_def sim_pir_id_def)
  note n = this [THEN no_caret_escape]
  show ?thesis unfolding sim_link_def upsert_problem_and_pir_tasks_def link_problem_def upsert_problem_def upsert_pir_task_def upsert_record_def
      upsert_live_def sim_get_request
    by (simp add: sim_missing sim_ids sim_tables sim_scope sim_client_fields p q assms n sim_eval sim_rows_def sim_put_def sim_base_ne dict_set_def
        upsert_pir_task_def upsert_record_def upsert_live_def)
qed

lemma sim_linked: "wr_linkage_status (fst (sim_link (snd (sim_link (sim_state [0, 2]))))) = ''linked''"
  using sim_first sim_second by metis

lemma sim_ranked: "coerce_to_string rend (dict_get (hd (rank_incidents incident_services [[(''sys_id'', JStr ''2'')], [(''sys_id'', JStr ''1'')]])) ''sys_id'') = Some ''2''"
proof -
  let ?is = "[[(''sys_id'', JStr ''2'')], [(''sys_id'', JStr ''1'')]]"
  have l: "latest_incident incident_services ?is (hd (rank_incidents incident_services ?is))" by (rule rank_latest) simp
  obtain h where h: "hd (rank_incidents incident_services ?is) = h" by blast
  have id: "incident_id_text incident_services [(''sys_id'', JStr x)] = x" "incident_created_on incident_services [(''sys_id'', JStr x)] = datetime_min" for x
    by (simp_all add: incident_id_text_def incident_created_on_def coerce_to_string_def py_str_def parse_created_on_def truthy_text_def)
  have "\<not> ''2'' \<le> ''1''" by code_simp
  moreover have "h = [(''sys_id'', JStr ''2'')] \<or> h = [(''sys_id'', JStr ''1'')]" using l unfolding h latest_incident_def by simp
  moreover have "incident_id_text incident_services [(''sys_id'', JStr ''2'')] \<le> incident_id_text incident_services h \<or>
      incident_created_on incident_services [(''sys_id'', JStr ''2'')] < incident_created_on incident_services h"
    using l unfolding h latest_incident_def by auto
  ultimately have "h = [(''sys_id'', JStr ''2'')]" using id by auto
  then show ?thesis unfolding h by (simp add: coerce_to_string_def py_str_def)
qed

lemma correlated: "\<exists>c s'. sim_correlation = (Inr c, s') \<and> co_matched c \<and> co_incident_sys_id c = Some ''2'' \<and> length (ss_requests s') = 1"
proof -
  have strategy: "nc_correlation_strategy (sn_contract sim_client) = [''tier1'', ''tier2'', ''tier3'']"
    by (simp add: sim_client_def new_sn_client_def default_sn_contract_def)
  have "missing_required_values ''c'' ''p'' ''k'' = []" by code_simp
  then show ?thesis unfolding sim_correlation_def correlate_incident_def correlate_live_def strategy search_tiers.simps query_incidents_def sim_get_request
    using sim_ranked
    by (simp add: sim_client_fields sim_scope tier_query_def Let_def incident_services_def reply_records_def truthy_text_def map_filter_simps sim_base_ne)
qed

text \<open>C31: a linkage only touches the Problem and PIR task tables and stays within two requests per record. Every request of
  \<open>upsert_problem_and_pir_tasks\<close>, however it ends, names one of the two write tables and never the incident table, and a
  request that writes carries a payload without major-incident text unless the contract allows it.\<close>

theorem servicenow_writes_confined:
  "sends (linkage_request sx cl) (2 + 2 * length types) s (snd (upsert_problem_and_pir_tasks sx cl rid cid pd sys summary types context s))"
proof (cases "\<exists>i. sys = Some i \<and> py_strip i \<noteq> [] \<and> dedupe_preserve_order types \<noteq> []")
  case False
  then show ?thesis by (auto simp: upsert_problem_and_pir_tasks_def Let_def sends_refl split: option.splits)
next
  case True
  then obtain i where i: "sys = Some i" "py_strip i \<noteq> []" "dedupe_preserve_order types \<noteq> []" by blast
  obtain r s' where l: "link_problem sx cl rid cid pd i summary (dedupe_preserve_order types) context s = (r, s')" by (meson surj_pair)
  then have "snd (upsert_problem_and_pir_tasks sx cl rid cid pd sys summary types context s) = s'"
    using i by (simp add: upsert_problem_and_pir_tasks_def Let_def split: sum.splits)
  then show ?thesis using sends_mono [OF link_problem_sends [OF l]] dedupe_length [of "[]" types] by (simp add: dedupe_preserve_order_def)
qed

text \<open>C10: linkages against the documented Table API keep at most one record per external identifier, whatever fails on the way, and
  remove none. When a linkage reports \<open>linked\<close>, the Problem it names and a PIR task of every type are stored.\<close>

theorem linkage_upsert_once:
  assumes "sn_tables http base field records"
    and "sx_http sx = http" "sn_base_url cl = Some base" "nc_external_id_field (sn_contract cl) = field" "sn_mode cl = MODE_LIVE"
    and "\<And>y. caret_free (sx_sha256_hex sx y)" "caret_free cid" "caret_free pd" "\<forall>t \<in> set types. caret_free t"
    and "one_per_id (records (ss_server s))"
    and "upsert_problem_and_pir_tasks sx cl rid cid pd sys summary types context s = (w, s')"
  shows "one_per_id (records (ss_server s')) \<and> kept (records (ss_server s)) (records (ss_server s')) \<and>
    (wr_linkage_status w = ''linked'' \<longrightarrow>
      (\<exists>psid. wr_problem_sys_id w = Some psid \<and> (psid, build_problem_external_id sx cid pd) \<in> set (records (ss_server s') (nc_problem_table (sn_contract cl)))) \<and>
      (\<forall>t \<in> set (dedupe_preserve_order types). \<exists>sid.
        (sid, build_pir_task_external_id sx cid pd t) \<in> set (records (ss_server s') (nc_pir_task_table (sn_contract cl)))))"
  by (rule sn_tables.linkage_effect [OF assms])

lemma linkage_upsert_once_witness:
  "wr_linkage_status (fst (sim_link (snd (sim_link (sim_state [0, 2]))))) = ''linked'' \<and>
   one_per_id (sim_rows (ss_server (snd (sim_link (snd (sim_link (sim_state [0, 2])))))))"
proof -
  have one: "one_per_id (sim_rows (ss_server (snd (sim_link s))))" if "one_per_id (sim_rows (ss_server s))" for s
  proof -
    obtain w s' where run: "sim_link s = (w, s')" by (meson surj_pair)
    have "caret_free ''c''" "caret_free ''p''" "\<forall>t \<in> set [''pir'']. caret_free t" by (simp_all add: caret_free_def)
    from linkage_upsert_once [OF sim.sn_tables_axioms sim_client_fields(4,1,2,3,5) this that run [unfolded sim_link_def]]
    show ?thesis using run by simp
  qed
  have "one_per_id (sim_rows (ss_server (sim_state f)))" for f by (simp add: sim_state_def sim_rows_def one_per_id_def)
  then show ?thesis using one sim_linked by blast
qed





end
