(* ===== verification/Linkage_Interleaving.thy ===== *)
theory Linkage_Interleaving
  imports Linkage_Repository
begin

text \<open>
  What the linkage repository guarantees to concurrent workers. \<open>linkage_run\<close> is a history of the retry table under
  any interleaving of repository calls: a worker creates or reads a row (having seen any earlier table), or moves a
  record it was handed at any earlier time along the state machine and writes it back guarded by the state it saw, as the
  linkage stage does. \<open>got\<close> holds every record a call returned.
\<close>

section \<open>Histories\<close>

fun returned :: "'a result \<Rightarrow> 'a list" where
  "returned (Inr x) = [x]"
| "returned (Inl e) = []"

inductive linkage_run :: "(string \<Rightarrow> nat list) \<Rightarrow> linkage_record list list \<Rightarrow> linkage_record list \<Rightarrow> bool" for sha256 where
  lr_init: "linkage_run sha256 [[]] []"
| lr_create: "\<lbrakk>linkage_run sha256 (tbl # h) got; snap \<in> set (tbl # h);
    get_or_create_pending tx_aborts clock fault cid pd sys window now snap tbl = (res, tbl')\<rbrakk> \<Longrightarrow>
    linkage_run sha256 (tbl' # tbl # h) (returned res @ got)"
| lr_write: "\<lbrakk>linkage_run sha256 (tbl # h) got; r \<in> set got; linkage_step sha256 r nxt;
    persist_transition fault (lr_case_id r) nxt [lr_state r] tbl = (res, tbl')\<rbrakk> \<Longrightarrow>
    linkage_run sha256 (tbl' # tbl # h) (returned res @ got)"

definition same_linkage :: "linkage_record \<Rightarrow> linkage_record \<Rightarrow> bool" where
  "same_linkage r r' = (lr_case_id r' = lr_case_id r \<and> lr_pd_incident_id r' = lr_pd_incident_id r \<and>
     lr_first_attempt_at r' = lr_first_attempt_at r \<and> lr_deadline_at r' = lr_deadline_at r \<and>
     lr_retry_window_minutes r' = lr_retry_window_minutes r)"

definition lk_final :: "linkage_record \<Rightarrow> bool" where
  "lk_final r = (lr_state r \<in> {LINKED, FAILED_FINAL})"

definition lk_evolves :: "linkage_record \<Rightarrow> linkage_record \<Rightarrow> bool" where
  "lk_evolves r r' = (same_linkage r r' \<and> (lk_final r \<longrightarrow> r' = r))"

definition lk_table_evolves :: "linkage_record list \<Rightarrow> linkage_record list \<Rightarrow> bool" where
  "lk_table_evolves old new = (\<forall>k r. tbl_get lr_case_id old k = Some r \<longrightarrow>
     (\<exists>r'. tbl_get lr_case_id new k = Some r' \<and> lk_evolves r r'))"

definition lk_run_invar :: "linkage_record list list \<Rightarrow> linkage_record list \<Rightarrow> bool" where
  "lk_run_invar h got =
     ((\<forall>tbl \<in> set h. lk_table_evolves tbl (hd h) \<and> distinct (map lr_case_id tbl) \<and>
        (\<forall>k r. tbl_get lr_case_id tbl k = Some r \<longrightarrow> linkage_invar r)) \<and>
      (\<forall>r \<in> set got. linkage_invar r \<and> (\<exists>row. tbl_get lr_case_id (hd h) (lr_case_id r) = Some row \<and> same_linkage row r)))"

section \<open>What one call does\<close>

lemma same_linkage_refl [simp]: "same_linkage r r"
  by (simp add: same_linkage_def)

lemma same_linkage_sym: "same_linkage r r' \<Longrightarrow> same_linkage r' r"
  by (simp add: same_linkage_def)

lemma same_linkage_trans: "same_linkage a b \<Longrightarrow> same_linkage b c \<Longrightarrow> same_linkage a c"
  by (simp add: same_linkage_def)

lemma lk_evolves_refl [simp]: "lk_evolves r r"
  by (simp add: lk_evolves_def)

lemma lk_evolves_trans: "lk_evolves a b \<Longrightarrow> lk_evolves b c \<Longrightarrow> lk_evolves a c"
  by (auto simp: lk_evolves_def intro: same_linkage_trans)

lemma lk_table_evolves_refl [simp]: "lk_table_evolves t t"
  by (auto simp: lk_table_evolves_def)

lemma lk_table_evolves_trans: "lk_table_evolves a b \<Longrightarrow> lk_table_evolves b c \<Longrightarrow> lk_table_evolves a c"
  unfolding lk_table_evolves_def by (meson lk_evolves_trans)

lemma lk_read_ok:
  assumes "lk_row_to_record row = Inr r"
  shows "lr_state r = lr_state row" "same_linkage row r" "linkage_invar r = linkage_invar row" "lr_next_attempt_at r = lr_next_attempt_at row"
    "lr_updated_at r = lr_updated_at row" "lr_attempt_count r = lr_attempt_count row"
proof -
  obtain sys req code msg where r: "r = row\<lparr>lr_incident_sys_id := sys, lr_request_id := req, lr_last_error_code := code, lr_last_error_message := msg\<rparr>"
    using assms unfolding lk_row_to_record_def validate_linkage_record_def
    by (simp only: rbind_Inr_iff raise_def sum.inject sum.distinct split: if_splits) blast
  show "lr_state r = lr_state row" "same_linkage row r" "lr_next_attempt_at r = lr_next_attempt_at row"
    "lr_updated_at r = lr_updated_at row" "lr_attempt_count r = lr_attempt_count row"
    by (simp_all add: r same_linkage_def)
  show "linkage_invar r = linkage_invar row" by (simp add: r linkage_invar_def cong: option.case_cong)
qed

lemma to_row_keeps [simp]:
  "lr_state (record_to_row r) = lr_state r" "lr_case_id (record_to_row r) = lr_case_id r"
  "linkage_invar (record_to_row r) = linkage_invar r" "lr_next_attempt_at (record_to_row r) = lr_next_attempt_at r"
  "lr_updated_at (record_to_row r) = lr_updated_at r" "same_linkage (record_to_row r) r'  = same_linkage r r'"
  "same_linkage r' (record_to_row r) = same_linkage r' r"
  by (simp_all add: record_to_row_def linkage_invar_def same_linkage_def cong: option.case_cong)

lemma lk_require_ok: "lk_require_row tbl cid = Inr r \<longleftrightarrow> (\<exists>row. tbl_get lr_case_id tbl cid = Some row \<and> lk_row_to_record row = Inr r)"
  by (auto simp: lk_require_row_def lk_get_row_def rbind_Inr_iff split: option.splits)

lemma get_or_create_cases:
  assumes "get_or_create_pending tx_aborts clock fault cid pd sys window now snap tbl = (res, tbl')"
  obtains (kept) "tbl' = tbl" "\<And>r. res = Inr r \<Longrightarrow> \<exists>row. (tbl_get lr_case_id snap cid = Some row \<or> tbl_get lr_case_id tbl cid = Some row) \<and>
      lk_row_to_record row = Inr r"
  | (created) p r where "create_pending_linkage_retry_record clock cid pd sys window now = Inr p"
      "tbl_insert lr_case_id tbl (record_to_row p) = Some tbl'" "res = Inr r" "lk_row_to_record (record_to_row p) = Inr r"
proof (cases "create_pending_linkage_retry_record clock cid pd sys window now")
  case (Inl e)
  with assms show thesis by (intro kept) (auto simp: get_or_create_pending_def)
next
  case p: (Inr p)
  note goc = assms[unfolded get_or_create_pending_def p sum.case]
  show thesis
  proof (cases "lk_get_row snap cid")
    case (Inl e)
    with goc show thesis by (intro kept) (auto simp: lk_run_tx_def split: option.splits)
  next
    case (Inr out)
    show thesis
    proof (cases out)
      case (Some existing)
      then have "\<exists>row. tbl_get lr_case_id snap cid = Some row \<and> lk_row_to_record row = Inr existing"
        using Inr by (auto simp: lk_get_row_def rbind_Inr_iff split: option.splits)
      with goc Inr Some show thesis
        by (intro kept) (auto simp: lk_run_tx_def rbind_Inr_iff split: option.splits sum.splits)
    next
      case None
      show thesis
      proof (cases "tbl_insert lr_case_id tbl (record_to_row p)")
        case (Some tbl1)
        show thesis
        proof (cases "\<exists>r. res = Inr r")
          case True
          then show thesis by (elim exE) (rule created [OF p], use goc Inr None Some in \<open>auto simp: lk_run_tx_def split: option.splits sum.splits\<close>)
        next
          case False
          then show thesis
            by (intro kept) (use goc Inr None Some in \<open>auto simp: lk_run_tx_def split: option.splits sum.splits dest: sym\<close>)
        qed
      next
        case no: None
        show thesis
          by (rule kept) (use goc Inr None no in \<open>auto simp: lk_run_tx_def lk_require_ok rbind_Inr_iff raise_def
            split: option.splits sum.splits if_splits\<close>)
      qed
    qed
  qed
qed

lemma persist_cases:
  assumes "persist_transition fault cid nxt expected tbl = (res, tbl')" and id: "lr_case_id nxt = cid"
  obtains (written) row r where "res = Inr r" "tbl_get lr_case_id tbl cid = Some row" "lr_state row \<in> set expected"
      "lk_row_to_record (record_to_row nxt) = Inr r" "map lr_case_id tbl' = map lr_case_id tbl"
      "\<And>j. tbl_get lr_case_id tbl' j = (if j = cid then Some (record_to_row nxt) else tbl_get lr_case_id tbl j)"
  | (kept) "tbl' = tbl" "\<And>r. res = Inr r \<Longrightarrow> \<exists>row. tbl_get lr_case_id tbl cid = Some row \<and> lk_row_to_record row = Inr r \<and>
      lr_state r = lr_state nxt \<and> lr_state row \<notin> set expected"
proof (cases fault)
  case (Some msg)
  with assms(1) show thesis by (intro kept) (auto simp: persist_transition_def lk_run_tx_def)
next
  case None
  obtain out tbl1 where u: "tbl_update lr_case_id lr_state lk_write_columns tbl cid expected nxt = (out, tbl1)" by fastforce
  from u id show thesis
  proof (rule linkage_tbl.update_cases)
    fix row
    assume row: "out = Some (lk_write_columns row nxt)" "tbl_get lr_case_id tbl cid = Some row" "lr_state row \<in> set expected"
      "\<And>j. tbl_get lr_case_id tbl1 j = (if j = cid then Some (lk_write_columns row nxt) else tbl_get lr_case_id tbl j)"
      "map lr_case_id tbl1 = map lr_case_id tbl"
    show thesis
    proof (cases "lk_row_to_record (record_to_row nxt)")
      case (Inl e)
      with assms(1) u None row(1) show thesis by (intro kept) (auto simp: persist_transition_def lk_run_tx_def lk_write_columns_def)
    next
      case (Inr r)
      with assms(1) u None row(1) have "res = Inr r" "tbl' = tbl1" by (auto simp: persist_transition_def lk_run_tx_def lk_write_columns_def)
      with row Inr show thesis by (intro written) (auto simp: lk_write_columns_def)
    qed
  next
    assume "out = None" "tbl1 = tbl" "\<And>row. tbl_get lr_case_id tbl cid = Some row \<Longrightarrow> lr_state row \<notin> set expected"
    with assms(1) u None show thesis
      by (intro kept) (auto simp: persist_transition_def lk_run_tx_def lk_require_ok split: sum.splits if_splits elim!: rbind_InrE)
  qed
qed

lemma run_invar_extend:
  assumes "lk_run_invar (tbl # h) got" and ev: "lk_table_evolves tbl tbl'" and "distinct (map lr_case_id tbl')"
    and "\<And>k r. tbl_get lr_case_id tbl' k = Some r \<Longrightarrow> linkage_invar r"
    and new: "\<And>r. res = Inr r \<Longrightarrow> linkage_invar r \<and> (\<exists>row. tbl_get lr_case_id tbl' (lr_case_id r) = Some row \<and> same_linkage row r)"
  shows "lk_run_invar (tbl' # tbl # h) (returned res @ got)"
proof -
  have held: "\<exists>row. tbl_get lr_case_id tbl' (lr_case_id r) = Some row \<and> same_linkage row r" if held: "r \<in> set got" for r
  proof -
    obtain row where row: "tbl_get lr_case_id tbl (lr_case_id r) = Some row" "same_linkage row r"
      using assms(1) held by (auto simp: lk_run_invar_def)
    then obtain row' where "tbl_get lr_case_id tbl' (lr_case_id r) = Some row'" "lk_evolves row row'"
      using ev unfolding lk_table_evolves_def by blast
    with row(2) show ?thesis unfolding lk_evolves_def by (blast intro: same_linkage_trans same_linkage_sym)
  qed
  have "lk_table_evolves t tbl'" if "t \<in> set (tbl # h)" for t
    using assms(1) ev that lk_table_evolves_trans unfolding lk_run_invar_def by fastforce
  with assms(1,3,4) new held show ?thesis by (cases res) (auto simp: lk_run_invar_def)
qed

section \<open>Every history keeps the invariant\<close>

lemma run_create_invar:
  assumes inv: "lk_run_invar (tbl # h) got" and snap: "snap \<in> set (tbl # h)"
    and call: "get_or_create_pending tx_aborts clock fault cid pd sys window now snap tbl = (res, tbl')"
  shows "lk_run_invar (tbl' # tbl # h) (returned res @ got)"
  using call
proof (cases rule: get_or_create_cases)
  case kept
  have "linkage_invar r \<and> (\<exists>row. tbl_get lr_case_id tbl (lr_case_id r) = Some row \<and> same_linkage row r)" if ret: "res = Inr r" for r
  proof -
    obtain t row where row: "t \<in> set (tbl # h)" "tbl_get lr_case_id t cid = Some row" "lk_row_to_record row = Inr r"
      using kept(2) [OF ret] snap by (meson list.set_intros(1))
    then obtain row' where "tbl_get lr_case_id tbl cid = Some row'" "lk_evolves row row'" "linkage_invar row"
      using inv unfolding lk_run_invar_def lk_table_evolves_def by fastforce
    moreover have "lr_case_id r = cid" "same_linkage row r" "linkage_invar r = linkage_invar row"
      using tbl_get_Some [OF row(2)] lk_read_ok [OF row(3)] by (auto simp: same_linkage_def)
    ultimately show ?thesis by (auto simp: lk_evolves_def intro: same_linkage_trans same_linkage_sym)
  qed
  then show ?thesis unfolding kept(1) by (intro run_invar_extend [OF inv]) (use inv in \<open>auto simp: lk_run_invar_def\<close>)
next
  case (created p r)
  note get = linkage_tbl.get_insert [OF created(2)]
  have fresh: "tbl_get lr_case_id tbl (lr_case_id p) = None"
    using created(2) by (auto simp: tbl_insert_def tbl_get_None split: if_splits)
  have p: "linkage_invar p" by (rule created_invar [OF created(1)])
  have ev: "lk_table_evolves tbl tbl'" unfolding lk_table_evolves_def get using fresh by auto
  have dist: "distinct (map lr_case_id tbl')"
    using linkage_tbl.insert_distinct [OF created(2)] inv by (simp add: lk_run_invar_def)
  show ?thesis
  proof (rule run_invar_extend [OF inv ev dist])
    show "linkage_invar q" if "tbl_get lr_case_id tbl' k = Some q" for k q
      using that p inv by (auto simp: get lk_run_invar_def split: if_splits)
    show "linkage_invar q \<and> (\<exists>row. tbl_get lr_case_id tbl' (lr_case_id q) = Some row \<and> same_linkage row q)" if "res = Inr q" for q
      using that created(3,4) p lk_read_ok [OF created(4)] by (auto simp: get same_linkage_def)
  qed
qed

lemma run_write_invar:
  assumes inv: "lk_run_invar (tbl # h) got" and held: "r \<in> set got" and step: "linkage_step sha256 r nxt"
    and call: "persist_transition fault (lr_case_id r) nxt [lr_state r] tbl = (res, tbl')"
  shows "lk_run_invar (tbl' # tbl # h) (returned res @ got)"
proof -
  note frame = linkage_step_frame [OF step]
  have r: "linkage_invar r" using inv held by (simp add: lk_run_invar_def)
  obtain row0 where row0: "tbl_get lr_case_id tbl (lr_case_id r) = Some row0" "same_linkage row0 r"
    using inv held by (auto simp: lk_run_invar_def)
  have nxt: "linkage_invar nxt" "same_linkage r nxt" "\<not> lk_final r"
    using linkage_step_invar [OF step r] frame by (auto simp: same_linkage_def lk_final_def)
  have id: "lr_case_id nxt = lr_case_id r" using nxt(2) by (simp add: same_linkage_def)
  from call id show ?thesis
  proof (cases rule: persist_cases)
    case kept
    have "linkage_invar q \<and> (\<exists>row. tbl_get lr_case_id tbl (lr_case_id q) = Some row \<and> same_linkage row q)" if ret: "res = Inr q" for q
    proof -
      obtain row where row: "tbl_get lr_case_id tbl (lr_case_id r) = Some row" "lk_row_to_record row = Inr q" using kept(2) [OF ret] by blast
      with tbl_get_Some [OF row(1)] lk_read_ok [OF row(2)] inv show ?thesis by (fastforce simp: lk_run_invar_def same_linkage_def)
    qed
    then show ?thesis unfolding kept(1) by (intro run_invar_extend [OF inv]) (use inv in \<open>auto simp: lk_run_invar_def\<close>)
  next
    case (written row q)
    have "same_linkage row nxt" "\<not> lk_final row"
      using written(2,3) row0 nxt by (auto simp: lk_final_def intro: same_linkage_trans)
    then have ev: "lk_table_evolves tbl tbl'"
      unfolding lk_table_evolves_def written(6) using written(2) by (auto simp: lk_evolves_def)
    have dist: "distinct (map lr_case_id tbl')" unfolding written(5) using inv by (simp add: lk_run_invar_def)
    show ?thesis
    proof (rule run_invar_extend [OF inv ev dist])
      show "linkage_invar x" if "tbl_get lr_case_id tbl' k = Some x" for k x
        using that nxt(1) inv by (auto simp: written(6) lk_run_invar_def split: if_splits)
      show "linkage_invar x \<and> (\<exists>row. tbl_get lr_case_id tbl' (lr_case_id x) = Some row \<and> same_linkage row x)" if "res = Inr x" for x
        using that written(1) nxt id lk_read_ok [OF written(4)] by (auto simp: written(6) same_linkage_def)
    qed
  qed
qed

lemma linkage_run_invar: "linkage_run sha256 h got \<Longrightarrow> h \<noteq> [] \<and> lk_run_invar h got"
proof (induction rule: linkage_run.induct)
  case lr_init
  show ?case by (simp add: lk_run_invar_def tbl_get_def)
next
  case lr_create
  then show ?case by (blast intro: run_create_invar)
next
  case lr_write
  then show ?case by (blast intro: run_write_invar)
qed

section \<open>Two claims\<close>

lemma marked_searching:
  assumes "mark_linkage_searching clock r now = Inr nxt"
  shows "lr_state nxt = SEARCHING" "lr_case_id nxt = lr_case_id r"
  using assms by (auto simp: mark_linkage_searching_def split: if_splits elim!: rbind_InrE)

text \<open>A record marked SEARCHING twice is valid both times or not at all.\<close>

lemma remark_valid:
  assumes "mark_linkage_searching clock1 r now1 = Inr nxt1" "mark_linkage_searching clock2 r now2 = Inr nxt2" and "linkage_invar r"
    and "is_ok (lk_row_to_record (record_to_row nxt1))"
  shows "is_ok (lk_row_to_record (record_to_row nxt2))"
proof -
  obtain t1 where t1: "nxt1 = r\<lparr>lr_state := SEARCHING, lr_updated_at := t1, lr_next_attempt_at := None\<rparr>"
    using assms(1) by (auto simp: mark_linkage_searching_def split: if_splits elim!: rbind_InrE)
  obtain t2 where t2: "nxt2 = r\<lparr>lr_state := SEARCHING, lr_updated_at := t2, lr_next_attempt_at := None\<rparr>" "lr_updated_at r \<le> t2"
    using assms(2) by (auto simp: mark_linkage_searching_def split: if_splits elim!: rbind_InrE dest: lk_now_ge)
  have "lr_first_attempt_at r \<le> t2" using assms(3) t2(2) by (simp add: linkage_invar_def)
  with assms(4) show ?thesis
    by (auto simp: is_ok_iff t1 t2(1) lk_row_to_record_def record_to_row_def validate_linkage_record_def rbind_Inr_iff split: if_splits)
qed

text \<open>\<open>persist_transition\<close> on a case that has a row.\<close>

lemma persist_present:
  assumes "tbl_get lr_case_id tbl cid = Some row"
  shows "lr_state row \<in> set expected \<Longrightarrow> lk_row_to_record (record_to_row nxt) = Inr r \<Longrightarrow>
      \<exists>tbl'. persist_transition None cid nxt expected tbl = (Inr r, tbl')"
    and "lr_state row \<notin> set expected \<Longrightarrow> lk_row_to_record row = Inr r \<Longrightarrow> lr_state r = lr_state nxt \<Longrightarrow>
      persist_transition None cid nxt expected tbl = (Inr r, tbl)"
  using assms by (auto simp: persist_transition_def lk_run_tx_def tbl_update_def lk_write_columns_def lk_require_row_def lk_get_row_def)

text \<open>A new row to run the model on.\<close>

definition created_sample :: "linkage_record \<Rightarrow> bool" where
  "created_sample r = (get_or_create_pending True 0 None ''c1'' ''pd1'' None 120 None [] [] = (Inr r, [r]) \<and> lr_case_id r = ''c1'' \<and>
     lr_state r = PENDING \<and> lr_updated_at r = 0 \<and> lr_next_attempt_at r = None \<and> lr_retry_window_minutes r = 120 \<and> linkage_invar r \<and>
     (\<forall>st t. 0 \<le> t \<longrightarrow> is_ok (lk_row_to_record (record_to_row (r\<lparr>lr_state := st, lr_updated_at := t\<rparr>)))))"

lemma created_sample_ex: "\<exists>r. created_sample r"
proof -
  obtain r where r: "create_pending_linkage_retry_record 0 ''c1'' ''pd1'' None 120 None = Inr r"
    and f: "r = \<lparr>lr_case_id = ''c1'', lr_pd_incident_id = ''pd1'', lr_incident_sys_id = None,
      lr_state = PENDING, lr_attempt_count = 0, lr_retry_window_minutes = 120, lr_first_attempt_at = 0,
      lr_updated_at = 0, lr_deadline_at = minutes 120, lr_next_attempt_at = None, lr_request_id = None,
      lr_last_error_code = None, lr_last_error_message = None, lr_last_retry_after_seconds = None, lr_last_reason_metadata = []\<rparr>"
    by (simp add: create_pending_linkage_retry_record_def resolve_now_def validate_linkage_record_def non_blank_def
        py_isspace_def validate_optional_non_empty_def minutes_def)
  have row: "record_to_row r = r" by (simp add: f record_to_row_def json_roundtrip_def)
  have valid: "lk_row_to_record (record_to_row (r\<lparr>lr_state := st, lr_updated_at := t\<rparr>)) = Inr (r\<lparr>lr_state := st, lr_updated_at := t\<rparr>)"
    if "0 \<le> t" for st t
    using that by (simp add: f record_to_row_def json_roundtrip_def lk_row_to_record_def validate_linkage_record_def non_blank_def
        py_isspace_def validate_optional_non_empty_def minutes_def)
  have "lk_row_to_record r = Inr r" using valid [of 0 PENDING] row by (simp add: f)
  then have "get_or_create_pending True 0 None ''c1'' ''pd1'' None 120 None [] [] = (Inr r, [r])"
    by (simp add: get_or_create_pending_def r row lk_run_tx_def lk_get_row_def tbl_get_def tbl_insert_def)
  with valid created_invar [OF r] show ?thesis
    by (intro exI [of _ r]) (simp add: created_sample_def is_ok_iff f)
qed

section \<open>Properties\<close>

text \<open>C9: Whatever the interleaving of the linkage workers, the staleness of the records they hold and the database errors
  they meet, the retry table keeps at most one row per case; a row that was ever in a table is still there with the same
  PagerDuty incident, first attempt, deadline and window; a LINKED or FAILED_FINAL row never changes; and every row
  schedules its next attempt exactly in FAILED_TEMP, after its last update and within the deadline, having used no more
  attempts than the window has seconds, plus one.\<close>

theorem linkage_interleaving_safe:
  assumes "linkage_run sha256 (tbl # h) got" and "old \<in> set (tbl # h)" and "tbl_get lr_case_id old k = Some r"
  shows "distinct (map lr_case_id tbl) \<and>
    (\<exists>r'. tbl_get lr_case_id tbl k = Some r' \<and> same_linkage r r' \<and> (lr_state r \<in> {LINKED, FAILED_FINAL} \<longrightarrow> r' = r) \<and>
       lr_deadline_at r' = lr_first_attempt_at r' + minutes (lr_retry_window_minutes r') \<and>
       (lr_next_attempt_at r' \<noteq> None \<longleftrightarrow> lr_state r' = FAILED_TEMP) \<and>
       (case lr_next_attempt_at r' of None \<Rightarrow> True | Some t \<Rightarrow> lr_updated_at r' < t \<and> t \<le> lr_deadline_at r') \<and>
       lr_attempt_count r' \<le> 60 * lr_retry_window_minutes r' + 1)"
proof -
  from linkage_run_invar [OF assms(1)] have inv: "lk_run_invar (tbl # h) got" by simp
  with assms(2,3) obtain r' where r': "tbl_get lr_case_id tbl k = Some r'" "lk_evolves r r'"
    unfolding lk_run_invar_def lk_table_evolves_def by fastforce
  with inv have "linkage_invar r'" "distinct (map lr_case_id tbl)" by (auto simp: lk_run_invar_def)
  with r' show ?thesis
    by (auto simp: lk_evolves_def lk_final_def linkage_invar_def split: option.splits if_splits)
qed

lemma linkage_interleaving_safe_witness:
  "\<exists>r tbl. get_or_create_pending True 0 None ''c1'' ''pd1'' None 120 None [] [] = (Inr r, tbl) \<and>
     (\<exists>r'. tbl_get lr_case_id tbl ''c1'' = Some r' \<and> lr_attempt_count r' \<le> 7201)"
proof -
  obtain r where r: "created_sample r" using created_sample_ex by blast
  then have call: "get_or_create_pending True 0 None ''c1'' ''pd1'' None 120 None [] [] = (Inr r, [r])"
    and w: "lr_retry_window_minutes r = 120" and g: "tbl_get lr_case_id [r] ''c1'' = Some r"
    by (simp_all add: created_sample_def tbl_get_def)
  have run: "linkage_run (\<lambda>_. []) [[r], []] [r]" using linkage_run.lr_create [OF linkage_run.lr_init _ call] by simp
  from linkage_interleaving_safe [OF run _ g] w call g show ?thesis by (auto simp: same_linkage_def)
qed

text \<open>the claim of a linkage attempt does not exclude. When two workers hold the same record of a case and both move
  it to SEARCHING, both calls of \<open>persist_transition\<close> succeed: the second finds the row already in the target state, which it
  takes for its own write. Both workers then upsert the Problem of the case at the same time.\<close>

theorem search_claim_not_exclusive:
  assumes "persist_transition None cid nxt1 [lr_state r] tbl = (Inr r1, tbl1)"
    and "mark_linkage_searching clock1 r now1 = Inr nxt1" and "mark_linkage_searching clock2 r now2 = Inr nxt2"
    and "lr_case_id r = cid" and "linkage_invar r"
  shows "\<exists>r2 tbl2. persist_transition None cid nxt2 [lr_state r] tbl1 = (Inr r2, tbl2) \<and> lr_state r2 = SEARCHING"
proof -
  note nxt1 = marked_searching [OF assms(2)] and nxt2 = marked_searching [OF assms(3)]
  have id: "lr_case_id nxt1 = cid" using nxt1(2) assms(4) by simp
  from assms(1) id show ?thesis
  proof (cases rule: persist_cases)
    case (written row q)
    have row1: "tbl_get lr_case_id tbl1 cid = Some (record_to_row nxt1)" using written(6) by simp
    have valid: "is_ok (lk_row_to_record (record_to_row nxt2))"
      using remark_valid [OF assms(2,3,5)] written(4) by (simp add: is_ok_iff)
    then obtain r2 where r2: "lk_row_to_record (record_to_row nxt2) = Inr r2" by (auto simp: is_ok_iff)
    show ?thesis
    proof (cases "lr_state r = SEARCHING")
      case True
      then show ?thesis
        using persist_present(1) [OF row1 _ r2, of "[lr_state r]"] nxt1(1) nxt2(1) lk_read_ok(1) [OF r2] by auto
    next
      case False
      then show ?thesis
        using persist_present(2) [OF row1 _ written(4), of "[lr_state r]" nxt2] nxt1(1) nxt2(1) lk_read_ok(1) [OF written(4)] by auto
    qed
  next
    case kept
    then obtain row where row: "tbl_get lr_case_id tbl1 cid = Some row" "lk_row_to_record row = Inr r1" "lr_state r1 = SEARCHING"
      "lr_state row \<notin> set [lr_state r]" using nxt1(1) by auto
    then show ?thesis using persist_present(2) [OF row(1), of "[lr_state r]" _ nxt2] nxt2(1) by auto
  qed
qed

lemma search_claim_not_exclusive_witness:
  "\<exists>r tbl r1 tbl1 r2 tbl2. get_or_create_pending True 0 None ''c1'' ''pd1'' None 120 None [] [] = (Inr r, tbl) \<and>
     persist_transition None ''c1'' (r\<lparr>lr_state := SEARCHING, lr_updated_at := 1\<rparr>) [PENDING] tbl = (Inr r1, tbl1) \<and>
     persist_transition None ''c1'' (r\<lparr>lr_state := SEARCHING, lr_updated_at := 2\<rparr>) [PENDING] tbl1 = (Inr r2, tbl2) \<and>
     lr_state r2 = SEARCHING"
proof -
  obtain r where r: "created_sample r" using created_sample_ex by blast
  have m: "mark_linkage_searching t r None = Inr (r\<lparr>lr_state := SEARCHING, lr_updated_at := t\<rparr>)" if "0 \<le> t" for t
    using r that by (auto simp: created_sample_def mark_linkage_searching_def lk_transition_now_def resolve_now_def)
  have g: "tbl_get lr_case_id [r] ''c1'' = Some r" using r by (simp add: created_sample_def tbl_get_def)
  have st: "lr_state r = PENDING" "lr_case_id r = ''c1''" "linkage_invar r" using r by (auto simp: created_sample_def)
  have "is_ok (lk_row_to_record (record_to_row (r\<lparr>lr_state := SEARCHING, lr_updated_at := 1\<rparr>)))"
    using r by (simp add: created_sample_def)
  then obtain r1 tbl1 where p: "persist_transition None ''c1'' (r\<lparr>lr_state := SEARCHING, lr_updated_at := 1\<rparr>) [PENDING] [r] = (Inr r1, tbl1)"
    using persist_present(1) [OF g, of "[PENDING]" "r\<lparr>lr_state := SEARCHING, lr_updated_at := 1\<rparr>"] st by (auto simp: is_ok_iff)
  from search_claim_not_exclusive [OF p [folded st(1)] m m st(2,3)] p r st show ?thesis by (force simp: created_sample_def)
qed

end
