(* ===== verification/Linkage_Stage.thy ===== *)
theory Linkage_Stage
  imports ServiceNow Linkage_Interleaving Casefile
begin

text \<open>
  The ServiceNow linkage stage: \<open>pipeline/stages/linkage.py\<close>. One call of
  \<open>execute_servicenow_linkage_and_persist\<close> claims the retry row of a case, upserts the Problem and its PIR tasks with the
  client of theory \<open>ServiceNow\<close>, records the outcome in the row, escalates a final failure and writes \<open>linkage.json\<close>.

  The retry repository is the pair of calls of \<open>LinkageRetryRepositoryProtocol\<close> on its own state; \<open>sql_linkage_repo\<close> is
  \<open>linkage/repository.py\<close> as one. \<open>kv_clock i\<close> is the i-th reading of the clock in a call, \<open>kv_latency\<close> the measured
  latency, \<open>kv_timestamp\<close> the current time in ISO form. The state holds what the stage touches: retry rows, ServiceNow, object
  store, Slack, and the page SLO samples.
\<close>

section \<open>Services and state\<close>

record 'r retry_repo =
  rp_get_or_create_pending :: "string \<Rightarrow> string \<Rightarrow> string option \<Rightarrow> int \<Rightarrow> py_datetime option \<Rightarrow> 'r \<Rightarrow> linkage_record result \<times> 'r"
  rp_persist_transition :: "string \<Rightarrow> linkage_record \<Rightarrow> linkage_retry_state list \<Rightarrow> 'r \<Rightarrow> linkage_record result \<times> 'r"

record ('w, 's, 'h, 'r) linkage_services =
  kv_repo :: "'r retry_repo option"
  kv_sx :: "'w sn_services"
  kv_client :: sn_client
  kv_rid :: string
  kv_put :: "'s store_put"
  kv_get :: "'s store_get"
  kv_sha256 :: "string \<Rightarrow> nat list"
  kv_codecs :: casefile_codecs
  kv_http :: "'h http_post"
  kv_denylist :: "denylist option"
  kv_clock :: "nat \<Rightarrow> instant"
  kv_latency :: pyfloat
  kv_timestamp :: string

record ('w, 's, 'h, 'r) linkage_world =
  kw_rows :: 'r
  kw_sn :: "'w sn_state"
  kw_store :: 's
  kw_slack :: "slack_client option"
  kw_outside :: "'h outside"
  kw_slo :: "(string \<times> bool) list"

record linkage_request =
  kq_case_id :: string
  kq_pd_incident_id :: string
  kq_incident_sys_id :: "string option"
  kq_summary :: string
  kq_triage_hash :: string
  kq_diagnosis_hash :: "string option"
  kq_pir_task_types :: "string list"
  kq_context :: "(string, jval) pydict option"
  kq_now :: "py_datetime option"

record linkage_persist_result =
  kr_linkage_result :: linkage_write
  kr_linkage_retry_state :: "linkage_record option"
  kr_linkage_casefile :: "casefile_linkage option"
  kr_linkage_object_path :: "string option"

abbreviation kv_rend :: "('w, 's, 'h, 'r) linkage_services \<Rightarrow> jval \<Rightarrow> string" where
  "kv_rend sv \<equiv> sx_rend (kv_sx sv)"

section \<open>Reading metadata\<close>

definition as_non_empty_string :: "(jval \<Rightarrow> string) \<Rightarrow> jval option \<Rightarrow> string option" where
  "as_non_empty_string rend v = (case v of None \<Rightarrow> None | Some JNull \<Rightarrow> None | Some x \<Rightarrow> non_empty (py_str rend x))"

text \<open>\<open>int(value)\<close>: a float is truncated; NaN and the containers are caught, an infinity is not.\<close>

definition as_positive_int :: "jval option \<Rightarrow> int option result" where
  "as_positive_int v = (case v of
       None \<Rightarrow> Inr None
     | Some JNull \<Rightarrow> Inr None
     | Some (JBool b) \<Rightarrow> Inr (if b then Some 1 else None)
     | Some (JInt n) \<Rightarrow> Inr (positive n)
     | Some (JFloat x) \<Rightarrow> (case int_of_fl x of
           Inr n \<Rightarrow> Inr (positive n)
         | Inl e \<Rightarrow> if exc_type e \<in> {TypeError, ValueError} then Inr None else Inl e)
     | Some (JStr s) \<Rightarrow> Inr (case py_int_text s of Some n \<Rightarrow> positive n | None \<Rightarrow> None)
     | Some _ \<Rightarrow> Inr None)"

definition as_string_tuple :: "(jval \<Rightarrow> string) \<Rightarrow> jval option \<Rightarrow> string list" where
  "as_string_tuple rend v = (case v of
       Some (JList xs) \<Rightarrow> filter (\<lambda>s. py_strip s \<noteq> []) (map (py_str rend) xs)
     | Some (JStr s) \<Rightarrow> (case non_empty s of Some t \<Rightarrow> [t] | None \<Rightarrow> [])
     | _ \<Rightarrow> [])"

text \<open>Python's truth value of a JSON value.\<close>

fun jval_true :: "jval \<Rightarrow> bool" where
  "jval_true JNull = False"
| "jval_true (JBool b) = b"
| "jval_true (JInt n) = (n \<noteq> 0)"
| "jval_true (JFloat x) = (x \<noteq> Fin 0)"
| "jval_true (JStr s) = (s \<noteq> [])"
| "jval_true (JList xs) = (xs \<noteq> [])"
| "jval_true (JDict d) = (d \<noteq> [])"

definition infer_error_code :: "string \<Rightarrow> string option" where
  "infer_error_code error_message =
     (let s = py_lower error_message
      in if contains_any [''http_status=429'', ''http error 429''] s then Some ''http_429''
         else if contains_any [''http_status=500'', ''http_status=502'', ''http_status=503'', ''http_status=504'',
           ''http error 500'', ''http error 502'', ''http error 503'', ''http error 504''] s then Some ''http_5xx''
         else if contains_any [''timed out'', ''timeout''] s then Some ''timeout''
         else if contains_any [''connection refused'', ''connection reset'', ''connection aborted'', ''temporarily unavailable''] s
         then Some ''connection_error''
         else None)"

definition infer_retry_after_seconds :: "string \<Rightarrow> int option" where
  "infer_retry_after_seconds error_message = extract_retry_after_seconds error_message"

record linkage_failure =
  fk_transient :: bool
  fk_error_code :: string
  fk_retry_after_seconds :: "int option"
  fk_error_message :: string
  fk_reason_metadata :: "(string, jval) pydict"

definition classify_failure_from_linkage_result ::
  "(jval \<Rightarrow> string) \<Rightarrow> linkage_write \<Rightarrow> string list \<Rightarrow> linkage_failure result" where
  "classify_failure_from_linkage_result rend r transient_classifications =
     (let metadata = wr_reason_metadata r;
          error_message = (case dict_get metadata ''error'' of
              Some v \<Rightarrow> if jval_true v then py_str rend v else wr_linkage_reason r
            | None \<Rightarrow> wr_linkage_reason r);
          error_code = (case as_non_empty_string rend (dict_get metadata ''error_code'') of
              Some c \<Rightarrow> c
            | None \<Rightarrow> (case infer_error_code error_message of Some c \<Rightarrow> c | None \<Rightarrow> wr_linkage_reason r))
      in rbind (as_positive_int (dict_get metadata ''retry_after_seconds'')) (\<lambda>given.
           let retry_after = (case given of Some n \<Rightarrow> Some n | None \<Rightarrow> infer_retry_after_seconds error_message);
               md1 = dict_set metadata ''error_code'' (JStr error_code);
               md2 = (case retry_after of Some n \<Rightarrow> dict_set md1 ''retry_after_seconds'' (JInt n) | None \<Rightarrow> md1)
           in Inr \<lparr>fk_transient = error_code \<in> set transient_classifications, fk_error_code = error_code,
                   fk_retry_after_seconds = retry_after, fk_error_message = error_message, fk_reason_metadata = md2\<rparr>))"

definition opt_entry :: "string \<Rightarrow> string option \<Rightarrow> (string, jval) pydict" where
  "opt_entry k v = (case v of Some x \<Rightarrow> [(k, JStr x)] | None \<Rightarrow> [])"

definition list_entry :: "string \<Rightarrow> string list \<Rightarrow> (string, jval) pydict" where
  "list_entry k xs = (if xs = [] then [] else [(k, JList (map JStr xs))])"

definition build_linked_retry_reason_metadata :: "linkage_write \<Rightarrow> (string, jval) pydict" where
  "build_linked_retry_reason_metadata r =
     [(''linkage_status'', JStr (wr_linkage_status r)), (''linkage_reason'', JStr (wr_linkage_reason r))] @
     opt_entry ''problem_sys_id'' (wr_problem_sys_id r) @ opt_entry ''problem_external_id'' (wr_problem_external_id r) @
     list_entry ''pir_task_sys_ids'' (wr_pir_task_sys_ids r) @ list_entry ''pir_task_external_ids'' (wr_pir_task_external_ids r)"

text \<open>Building a \<open>ServiceNowLinkageWriteResult\<close> checks its status against the four literals.\<close>

definition build_terminal_linkage_result_from_retry_state ::
  "(jval \<Rightarrow> string) \<Rightarrow> linkage_record \<Rightarrow> string option \<Rightarrow> linkage_write result" where
  "build_terminal_linkage_result_from_retry_state rend r fallback_incident_sys_id =
     (let metadata = lr_last_reason_metadata r;
          text_or_default = (\<lambda>k d. case as_non_empty_string rend (dict_get metadata k) of Some x \<Rightarrow> x | None \<Rightarrow> d);
          linked = (lr_state r = LINKED);
          status = (if linked then ''linked'' else text_or_default ''linkage_status'' ''failed'')
      in if status \<notin> set linkage_statuses then raise ValueError ''Input should be a linkage status''
         else Inr \<lparr>wr_linkage_status = status,
           wr_linkage_reason = text_or_default ''linkage_reason'' (if linked then ''already_linked'' else ''failed_final_terminal''),
           wr_request_id = truthy_or (lr_request_id r) ''unknown'',
           wr_incident_sys_id = str_or (lr_incident_sys_id r) fallback_incident_sys_id,
           wr_problem_sys_id = as_non_empty_string rend (dict_get metadata ''problem_sys_id''),
           wr_problem_external_id = as_non_empty_string rend (dict_get metadata ''problem_external_id''),
           wr_pir_task_sys_ids = as_string_tuple rend (dict_get metadata ''pir_task_sys_ids''),
           wr_pir_task_external_ids = as_string_tuple rend (dict_get metadata ''pir_task_external_ids''),
           wr_linkage_state = Some (if linked then LINKED else FAILED_FINAL), wr_retryable = Some False,
           wr_next_attempt_at = None, wr_reason_metadata = metadata\<rparr>)"

section \<open>Effects\<close>

definition call_upsert ::
  "('w, 's, 'h, 'r) linkage_services \<Rightarrow> linkage_request \<Rightarrow> ('w, 's, 'h, 'r) linkage_world \<Rightarrow>
   linkage_write \<times> ('w, 's, 'h, 'r) linkage_world" where
  "call_upsert sv q w =
     (case upsert_problem_and_pir_tasks (kv_sx sv) (kv_client sv) (kv_rid sv) (kq_case_id q) (kq_pd_incident_id q)
             (kq_incident_sys_id q) (kq_summary q) (kq_pir_task_types q) (kq_context q) (kw_sn w) of
        (r, sn) \<Rightarrow> (r, w\<lparr>kw_sn := sn\<rparr>))"

definition on_rows ::
  "('r \<Rightarrow> 'a result \<times> 'r) \<Rightarrow> ('w, 's, 'h, 'r) linkage_world \<Rightarrow> 'a result \<times> ('w, 's, 'h, 'r) linkage_world" where
  "on_rows f w = (case f (kw_rows w) of (r, rows) \<Rightarrow> (r, w\<lparr>kw_rows := rows\<rparr>))"

definition on_store ::
  "('s \<Rightarrow> 'a result \<times> 's) \<Rightarrow> ('w, 's, 'h, 'r) linkage_world \<Rightarrow> 'a result \<times> ('w, 's, 'h, 'r) linkage_world" where
  "on_store f w = (case f (kw_store w) of (r, s) \<Rightarrow> (r, w\<lparr>kw_store := s\<rparr>))"

definition is_page_case :: "(jval \<Rightarrow> string) \<Rightarrow> (string, jval) pydict option \<Rightarrow> bool" where
  "is_page_case rend context = (case context of
       None \<Rightarrow> False
     | Some c \<Rightarrow> list_ex (\<lambda>k. case dict_get c k of
           None \<Rightarrow> False | Some JNull \<Rightarrow> False | Some v \<Rightarrow> py_upper (py_strip (py_str rend v)) = ''PAGE'')
         [''final_action'', ''action'', ''proposed_action''])"

definition record_page_linkage_slo_if_applicable ::
  "(jval \<Rightarrow> string) \<Rightarrow> (string, jval) pydict option \<Rightarrow> linkage_retry_state \<Rightarrow> string \<Rightarrow> instant \<Rightarrow> instant \<Rightarrow>
   ('w, 's, 'h, 'r) linkage_world \<Rightarrow> ('w, 's, 'h, 'r) linkage_world" where
  "record_page_linkage_slo_if_applicable rend context st status first_attempt_at completed_at w =
     (if \<not> is_page_case rend context \<or> st \<notin> {LINKED, FAILED_FINAL} \<or> st = LINKED \<and> status \<noteq> ''linked'' then w
      else let elapsed = completed_at - first_attempt_at;
               in_time = (st = LINKED \<and> 0 \<le> elapsed \<and> elapsed \<le> minutes 120)
           in w\<lparr>kw_slo := kw_slo w @ [(linkage_state_value st, in_time)]\<rparr>)"

definition emit_failed_final_escalation ::
  "('w, 's, 'h, 'r) linkage_services \<Rightarrow> linkage_request \<Rightarrow> linkage_record \<Rightarrow> ('w, 's, 'h, 'r) linkage_world \<Rightarrow>
   unit result \<times> ('w, 's, 'h, 'r) linkage_world" where
  "emit_failed_final_escalation sv q r w =
     (let d = (case kv_denylist sv of Some x \<Rightarrow> x | None \<Rightarrow> unset_denylist);
          request_id = truthy_or (lr_request_id r) ''unknown'';
          raw = linkage_failed_fields (kv_timestamp sv) (kq_case_id q) request_id (kq_pd_incident_id q) (lr_incident_sys_id r)
            (truthy_or (lr_last_error_code r) ''FAILED_FINAL'') (lr_last_error_message r) (lr_attempt_count r)
            (lr_retry_window_minutes r) (kv_latency sv);
          w1 = w\<lparr>kw_outside := log_event ''sn_linkage_failed_final_escalation_fallback''
            (apply_denylist (sx_search (kv_sx sv)) d raw) (kw_outside w)\<rparr>
      in case kw_slack w1 of
           None \<Rightarrow> (Inr (), w1)
         | Some c \<Rightarrow> (case send_linkage_failed_final_escalation (kv_http sv) (sx_search (kv_sx sv)) (kv_rend sv) d raw request_id
               (kq_case_id q) c (kw_outside w1) of
             (res, c', out) \<Rightarrow> (res, w1\<lparr>kw_slack := Some c', kw_outside := out\<rparr>)))"

definition persist_terminal_linkage_stage ::
  "('w, 's, 'h, 'r) linkage_services \<Rightarrow> linkage_request \<Rightarrow> linkage_write \<Rightarrow> ('w, 's, 'h, 'r) linkage_world \<Rightarrow>
   (casefile_linkage \<times> string) result \<times> ('w, 's, 'h, 'r) linkage_world" where
  "persist_terminal_linkage_stage sv q r w =
     st_bind (validate_casefile_linkage
       \<lparr>ln_case_id = kq_case_id q, ln_linkage_status = wr_linkage_status r, ln_linkage_reason = wr_linkage_reason r,
        ln_incident_sys_id = str_or (wr_incident_sys_id r) (kq_incident_sys_id q), ln_problem_sys_id = wr_problem_sys_id r,
        ln_problem_external_id = wr_problem_external_id r, ln_pir_task_sys_ids = wr_pir_task_sys_ids r,
        ln_pir_task_external_ids = wr_pir_task_external_ids r, ln_triage_hash = kq_triage_hash q,
        ln_diagnosis_hash = kq_diagnosis_hash q, ln_linkage_hash = hash_placeholder\<rparr>, w) (\<lambda>placeholder w.
     st_bind (compute_casefile_linkage_hash (sx_sha256_hex (kv_sx sv)) (kv_codecs sv) placeholder, w) (\<lambda>h w.
       let c = placeholder\<lparr>ln_linkage_hash := h\<rparr>
       in st_bind (on_store (persist_casefile_linkage_stage (kv_put sv) (kv_get sv) (sx_sha256_hex (kv_sx sv)) (kv_codecs sv) c) w)
            (\<lambda>path w. (Inr (c, path), w))))"

definition ensure_terminal_linkage_stage ::
  "('w, 's, 'h, 'r) linkage_services \<Rightarrow> linkage_request \<Rightarrow> linkage_write \<Rightarrow> ('w, 's, 'h, 'r) linkage_world \<Rightarrow>
   (casefile_linkage \<times> string) result \<times> ('w, 's, 'h, 'r) linkage_world" where
  "ensure_terminal_linkage_stage sv q r w =
     st_bind (on_store (read_casefile_stage_json_or_none (kv_get sv) (sx_sha256_hex (kv_sx sv)) (kv_codecs sv) (kq_case_id q) ''linkage'') w)
       (\<lambda>existing w. case existing of
          Some (Linkage_Payload c) \<Rightarrow> (Inr (c, ''cases/'' @ kq_case_id q @ ''/linkage.json''), w)
        | Some _ \<Rightarrow> (raise OtherException ''not a linkage payload'', w)
        | None \<Rightarrow> persist_terminal_linkage_stage sv q r w)"

section \<open>Orchestration\<close>

definition resolved :: "linkage_retry_state \<Rightarrow> instant option \<Rightarrow> linkage_write \<Rightarrow> linkage_write" where
  "resolved st next_at r = r\<lparr>wr_linkage_state := Some st, wr_retryable := Some (st = FAILED_TEMP), wr_next_attempt_at := next_at\<rparr>"

definition terminal_result ::
  "linkage_write \<Rightarrow> linkage_record option \<Rightarrow> casefile_linkage \<times> string \<Rightarrow> linkage_persist_result" where
  "terminal_result r rs stored = \<lparr>kr_linkage_result = r, kr_linkage_retry_state = rs, kr_linkage_casefile = Some (fst stored),
     kr_linkage_object_path = Some (snd stored)\<rparr>"

definition linked_or_skipped :: "linkage_write \<Rightarrow> bool" where
  "linked_or_skipped r = (wr_linkage_status r \<in> {''linked'', ''skipped''})"

definition given_now :: "py_datetime option \<Rightarrow> instant \<Rightarrow> instant" where
  "given_now now clock = (case now of Some (Aware t) \<Rightarrow> t | Some (Naive t) \<Rightarrow> t | None \<Rightarrow> clock)"

text \<open>Without a repository: one attempt, terminal whatever it returns.\<close>

definition one_shot_linkage ::
  "('w, 's, 'h, 'r) linkage_services \<Rightarrow> linkage_request \<Rightarrow> ('w, 's, 'h, 'r) linkage_world \<Rightarrow>
   linkage_persist_result result \<times> ('w, 's, 'h, 'r) linkage_world" where
  "one_shot_linkage sv q w = (case call_upsert sv q w of (r, w1) \<Rightarrow>
     let st = (if linked_or_skipped r then LINKED else FAILED_FINAL);
         res = resolved st None r;
         w2 = record_page_linkage_slo_if_applicable (kv_rend sv) (kq_context q) st (wr_linkage_status res)
           (given_now (kq_now q) (kv_clock sv 0)) (given_now (kq_now q) (kv_clock sv 1)) w1
     in st_bind (persist_terminal_linkage_stage sv q res w2) (\<lambda>stored w. (Inr (terminal_result res None stored), w)))"

definition replay_terminal ::
  "('w, 's, 'h, 'r) linkage_services \<Rightarrow> linkage_request \<Rightarrow> linkage_record \<Rightarrow> ('w, 's, 'h, 'r) linkage_world \<Rightarrow>
   linkage_persist_result result \<times> ('w, 's, 'h, 'r) linkage_world" where
  "replay_terminal sv q rs w =
     st_bind (build_terminal_linkage_result_from_retry_state (kv_rend sv) rs (kq_incident_sys_id q), w) (\<lambda>r w.
     st_bind (ensure_terminal_linkage_stage sv q r w) (\<lambda>stored w. (Inr (terminal_result r (Some rs) stored), w)))"

definition not_due_result :: "linkage_record \<Rightarrow> linkage_persist_result" where
  "not_due_result rs =
     \<lparr>kr_linkage_result = \<lparr>wr_linkage_status = ''failed'', wr_linkage_reason = ''retry_scheduled'',
        wr_request_id = truthy_or (lr_request_id rs) ''retry-scheduled'', wr_incident_sys_id = lr_incident_sys_id rs,
        wr_problem_sys_id = None, wr_problem_external_id = None, wr_pir_task_sys_ids = [], wr_pir_task_external_ids = [],
        wr_linkage_state = Some FAILED_TEMP, wr_retryable = Some True, wr_next_attempt_at = lr_next_attempt_at rs,
        wr_reason_metadata = lr_last_reason_metadata rs\<rparr>,
      kr_linkage_retry_state = Some rs, kr_linkage_casefile = None, kr_linkage_object_path = None\<rparr>"

definition settle_success ::
  "('w, 's, 'h, 'r) linkage_services \<Rightarrow> 'r retry_repo \<Rightarrow> linkage_request \<Rightarrow> linkage_record \<Rightarrow> linkage_write \<Rightarrow>
   ('w, 's, 'h, 'r) linkage_world \<Rightarrow> linkage_persist_result result \<times> ('w, 's, 'h, 'r) linkage_world" where
  "settle_success sv rp q rs r w =
     st_bind (mark_linkage_success (kv_clock sv 2) rs (Some (wr_request_id r)) (str_or (wr_incident_sys_id r) (kq_incident_sys_id q))
       (Some (build_linked_retry_reason_metadata r)) (kq_now q), w) (\<lambda>linked w.
     st_bind (on_rows (rp_persist_transition rp (kq_case_id q) linked [SEARCHING]) w) (\<lambda>rs w.
       let res = resolved LINKED None r;
           w1 = record_page_linkage_slo_if_applicable (kv_rend sv) (kq_context q) LINKED (wr_linkage_status res)
             (lr_first_attempt_at rs) (lr_updated_at rs) w
       in st_bind (persist_terminal_linkage_stage sv q res w1) (\<lambda>stored w. (Inr (terminal_result res (Some rs) stored), w))))"

definition settle_failure ::
  "('w, 's, 'h, 'r) linkage_services \<Rightarrow> 'r retry_repo \<Rightarrow> linkage_request \<Rightarrow> linkage_record \<Rightarrow> linkage_write \<Rightarrow>
   ('w, 's, 'h, 'r) linkage_world \<Rightarrow> linkage_persist_result result \<times> ('w, 's, 'h, 'r) linkage_world" where
  "settle_failure sv rp q rs r w =
     (let c = sn_contract (kv_client sv) in
      st_bind (classify_failure_from_linkage_result (kv_rend sv) r (nc_transient_error_classifications c), w) (\<lambda>f w.
      st_bind (mark_linkage_failure (kv_sha256 sv) (kv_clock sv 2) rs (fk_transient f) (fk_error_code f) (fk_error_message f)
        (Some (wr_request_id r)) (nc_retry_base_seconds c) (nc_retry_max_seconds c) (nc_retry_jitter_ratio c)
        (fk_retry_after_seconds f) (Some (fk_reason_metadata f)) (kq_now q), w) (\<lambda>failed w.
      st_bind (on_rows (rp_persist_transition rp (kq_case_id q) failed [SEARCHING]) w) (\<lambda>rs w.
        if lr_state rs = FAILED_TEMP then
          (Inr \<lparr>kr_linkage_result = (resolved FAILED_TEMP (lr_next_attempt_at rs) r)\<lparr>wr_reason_metadata := lr_last_reason_metadata rs\<rparr>,
                kr_linkage_retry_state = Some rs, kr_linkage_casefile = None, kr_linkage_object_path = None\<rparr>, w)
        else
          let res = (resolved FAILED_FINAL None r)\<lparr>wr_reason_metadata := lr_last_reason_metadata rs\<rparr>;
              w1 = record_page_linkage_slo_if_applicable (kv_rend sv) (kq_context q) FAILED_FINAL (wr_linkage_status res)
                (lr_first_attempt_at rs) (lr_updated_at rs) w
          in st_bind (emit_failed_final_escalation sv q rs w1) (\<lambda>_ w.
             st_bind (persist_terminal_linkage_stage sv q res w) (\<lambda>stored w. (Inr (terminal_result res (Some rs) stored), w)))))))"

definition attempt_linkage ::
  "('w, 's, 'h, 'r) linkage_services \<Rightarrow> 'r retry_repo \<Rightarrow> linkage_request \<Rightarrow> linkage_record \<Rightarrow>
   ('w, 's, 'h, 'r) linkage_world \<Rightarrow> linkage_persist_result result \<times> ('w, 's, 'h, 'r) linkage_world" where
  "attempt_linkage sv rp q rs w =
     st_bind (mark_linkage_searching (kv_clock sv 1) rs (kq_now q), w) (\<lambda>searching w.
     st_bind (on_rows (rp_persist_transition rp (kq_case_id q) searching [lr_state rs]) w) (\<lambda>rs w.
       case call_upsert sv q w of (r, w1) \<Rightarrow>
         if linked_or_skipped r then settle_success sv rp q rs r w1 else settle_failure sv rp q rs r w1))"

definition execute_servicenow_linkage_and_persist ::
  "('w, 's, 'h, 'r) linkage_services \<Rightarrow> linkage_request \<Rightarrow> ('w, 's, 'h, 'r) linkage_world \<Rightarrow>
   linkage_persist_result result \<times> ('w, 's, 'h, 'r) linkage_world" where
  "execute_servicenow_linkage_and_persist sv q w = (case kv_repo sv of
       None \<Rightarrow> one_shot_linkage sv q w
     | Some rp \<Rightarrow>
         st_bind (on_rows (rp_get_or_create_pending rp (kq_case_id q) (kq_pd_incident_id q) (kq_incident_sys_id q)
           (nc_retry_window_minutes (sn_contract (kv_client sv))) (kq_now q)) w) (\<lambda>rs w.
         if lr_state rs \<in> {LINKED, FAILED_FINAL} then replay_terminal sv q rs w
         else if lr_state rs = FAILED_TEMP then
           st_bind (is_retry_due (kv_clock sv 0) rs (kq_now q), w) (\<lambda>due w.
             if \<not> due then (Inr (not_due_result rs), w) else attempt_linkage sv rp q rs w)
         else attempt_linkage sv rp q rs w))"

section \<open>The SQL repository as a protocol\<close>

text \<open>The table with a schedule of database faults, one entry per call; its clock is the creation time of a new row.\<close>

record linkage_sql =
  ks_rows :: "linkage_record list"
  ks_faults :: "string option list"

definition next_fault :: "linkage_sql \<Rightarrow> string option" where
  "next_fault d = (case ks_faults d of [] \<Rightarrow> None | f # _ \<Rightarrow> f)"

definition sql_linkage_repo :: "bool \<Rightarrow> instant \<Rightarrow> linkage_sql retry_repo" where
  "sql_linkage_repo tx_aborts clock =
     \<lparr>rp_get_or_create_pending = (\<lambda>case_id pd sys window now d.
        case get_or_create_pending tx_aborts clock (next_fault d) case_id pd sys window now (ks_rows d) (ks_rows d) of
          (r, rows) \<Rightarrow> (r, d\<lparr>ks_rows := rows, ks_faults := tl (ks_faults d)\<rparr>)),
      rp_persist_transition = (\<lambda>case_id nxt expected d.
        case persist_transition (next_fault d) case_id nxt expected (ks_rows d) of
          (r, rows) \<Rightarrow> (r, d\<lparr>ks_rows := rows, ks_faults := tl (ks_faults d)\<rparr>))\<rparr>"

end
