(* ===== verification/Linkage_Stage_Properties.thy ===== *)
theory Linkage_Stage_Properties
  imports Linkage_Stage
begin

text \<open>
  Properties of the linkage stage. The locale \<open>retry_protocol\<close> is what the stage relies on in
  \<open>LinkageRetryRepositoryProtocol\<close>, seen through the row it stores per case; it is interpreted on the SQL repository. In it:
  executions escalate once per case that ends FAILED_FINAL, and leave settled cases and cases that are not due alone.
  A last group relates every run of the stage to a history of \<open>Linkage_Interleaving\<close>.
\<close>

section \<open>Escalations and settled cases\<close>

definition escalations :: "('w, 's, 'h, 'r) linkage_world \<Rightarrow> nat" where
  "escalations w = length (filter (\<lambda>e. fst e = ''sn_linkage_failed_final_escalation_fallback'') (ox_log (kw_outside w)))"

definition failed_final_cases :: "('r \<Rightarrow> string \<Rightarrow> linkage_record option) \<Rightarrow> 'r \<Rightarrow> string set" where
  "failed_final_cases look d = {c. \<exists>row. look d c = Some row \<and> lr_state row = FAILED_FINAL}"

text \<open>The stage has nothing to do for a row: it is final, or its retry lies ahead.\<close>

definition nothing_due :: "linkage_record \<Rightarrow> instant result \<Rightarrow> bool" where
  "nothing_due row now = (lr_state row \<in> {LINKED, FAILED_FINAL} \<or>
     lr_state row = FAILED_TEMP \<and> (\<exists>t n. now = Inr t \<and> lr_next_attempt_at row = Some n \<and> t < n))"

definition untouched_outside :: "('w, 's, 'h, 'r) linkage_world \<Rightarrow> ('w, 's, 'h, 'r) linkage_world \<Rightarrow> bool" where
  "untouched_outside w w' = (kw_sn w' = kw_sn w \<and> kw_slack w' = kw_slack w \<and> kw_outside w' = kw_outside w \<and> kw_slo w' = kw_slo w)"

definition linkage_rows :: "linkage_sql \<Rightarrow> string \<Rightarrow> linkage_record option" where
  "linkage_rows d = tbl_get lr_case_id (ks_rows d)"

text \<open>Worlds the stage leads to over the SQL repository, from no row and no escalation, one execution after the other.\<close>

inductive linkage_stage_run :: "(string \<Rightarrow> nat list) \<Rightarrow> ('w, 's, 'h, linkage_sql) linkage_world \<Rightarrow> bool" for sha256 where
  ls_start: "ks_rows (kw_rows w) = [] \<Longrightarrow> escalations w = 0 \<Longrightarrow> linkage_stage_run sha256 w"
| ls_execute: "\<lbrakk>linkage_stage_run sha256 w; kv_repo sv = Some (sql_linkage_repo tx_aborts clock); kv_sha256 sv = sha256;
    kv_clock sv 0 \<le> kv_clock sv 1; execute_servicenow_linkage_and_persist sv q w = (res, w')\<rbrakk> \<Longrightarrow> linkage_stage_run sha256 w'"

section \<open>What the steps touch\<close>

lemma st_bind_cases:
  assumes "st_bind m f = (r, w')"
  obtains (failed) e where "m = (Inl e, w')" "r = Inl e" | (went_on) x w1 where "m = (Inr x, w1)" "f x w1 = (r, w')"
  using assms by (cases m; cases "fst m") (auto simp: st_bind_def)

definition only_stored :: "('w, 's, 'h, 'r) linkage_world \<Rightarrow> ('w, 's, 'h, 'r) linkage_world \<Rightarrow> bool" where
  "only_stored w w' = (w' = w\<lparr>kw_store := kw_store w'\<rparr>)"

lemma only_stored_refl [simp]: "only_stored w w"
  by (simp add: only_stored_def)

lemma on_store_frame: "on_store f w = (r, w') \<Longrightarrow> only_stored w w'"
  by (auto simp: on_store_def only_stored_def split: prod.splits)

lemma only_stored_trans: "only_stored a b \<Longrightarrow> only_stored b c \<Longrightarrow> only_stored a c"
proof -
  assume a: "only_stored a b" "only_stored b c"
  have "c = b\<lparr>kw_store := kw_store c\<rparr>" "b = a\<lparr>kw_store := kw_store b\<rparr>" using a by (simp_all only: only_stored_def)
  then have "c = a\<lparr>kw_store := kw_store b\<rparr>\<lparr>kw_store := kw_store c\<rparr>" by metis
  then show ?thesis by (simp add: only_stored_def)
qed

lemma only_stored_bind:
  assumes "st_bind m f = (r, w')" "\<And>a w1. m = (a, w1) \<Longrightarrow> only_stored w w1" "\<And>x w1 r w'. f x w1 = (r, w') \<Longrightarrow> only_stored w1 w'"
  shows "only_stored w w'"
  using assms(1) by (cases rule: st_bind_cases) (use assms(2,3) only_stored_trans in blast)+

lemma persist_terminal_frame: "persist_terminal_linkage_stage sv q r w = (res, w') \<Longrightarrow> only_stored w w'"
  unfolding persist_terminal_linkage_stage_def Let_def
  by (elim only_stored_bind) (auto dest: on_store_frame)

lemma ensure_terminal_frame: "ensure_terminal_linkage_stage sv q r w = (res, w') \<Longrightarrow> only_stored w w'"
  unfolding ensure_terminal_linkage_stage_def
  by (elim only_stored_bind) (auto split: option.splits casefile_any.splits dest: on_store_frame persist_terminal_frame)

lemma replay_frame: "replay_terminal sv q rs w = (res, w') \<Longrightarrow> only_stored w w'"
  unfolding replay_terminal_def
  by (elim only_stored_bind) (auto dest: ensure_terminal_frame)

lemma only_stored_facts:
  assumes "only_stored w w'"
  shows "kw_rows w' = kw_rows w" "untouched_outside w w'" "escalations w' = escalations w"
proof -
  have "w' = w\<lparr>kw_store := kw_store w'\<rparr>" using assms by (simp only: only_stored_def)
  then obtain s where "w' = w\<lparr>kw_store := s\<rparr>" by blast
  then show "kw_rows w' = kw_rows w" "untouched_outside w w'" "escalations w' = escalations w"
    by (simp_all add: untouched_outside_def escalations_def)
qed

lemma call_upsert_frame: "call_upsert sv q w = (r, w') \<Longrightarrow> \<exists>s. w' = w\<lparr>kw_sn := s\<rparr>"
  by (auto simp: call_upsert_def split: prod.splits)

lemma slo_frame:
  "record_page_linkage_slo_if_applicable rend cx st status a b w =
     w\<lparr>kw_slo := kw_slo (record_page_linkage_slo_if_applicable rend cx st status a b w)\<rparr>"
  by (simp add: record_page_linkage_slo_if_applicable_def Let_def)

lemma escalations_update [simp]:
  "escalations (w\<lparr>kw_store := s\<rparr>) = escalations w" "escalations (w\<lparr>kw_sn := sn\<rparr>) = escalations w"
  "escalations (w\<lparr>kw_slo := x\<rparr>) = escalations w" "escalations (w\<lparr>kw_rows := d\<rparr>) = escalations w"
  by (simp_all add: escalations_def)

lemma slo_facts:
  "kw_rows (record_page_linkage_slo_if_applicable rend cx st status a b w) = kw_rows w"
  "escalations (record_page_linkage_slo_if_applicable rend cx st status a b w) = escalations w"
  by (subst slo_frame, simp)+

lemma log_other_event: "name \<noteq> other \<Longrightarrow> filter (\<lambda>e. fst e = name) (ox_log (log_event other flds out)) = filter (\<lambda>e. fst e = name) (ox_log out)"
  by (simp add: log_event_def)

lemma post_other_event:
  "name \<noteq> failure_event \<Longrightarrow>
     filter (\<lambda>e. fst e = name) (ox_log (post_swallowing http failure_event ids url payload out)) = filter (\<lambda>e. fst e = name) (ox_log out)"
  by (simp add: post_swallowing_def Let_def log_other_event split: prod.splits sum.splits)

lemma slack_other_events:
  assumes "slack_deliver http no_webhook_event failure_event ids msg c out = (res, c', out')" "name \<noteq> no_webhook_event" "name \<noteq> failure_event"
  shows "filter (\<lambda>e. fst e = name) (ox_log out') = filter (\<lambda>e. fst e = name) (ox_log out)"
  using assms by (auto simp: slack_deliver_def log_other_event post_other_event split: if_splits option.splits)

lemma slack_escalation_events:
  assumes "send_linkage_failed_final_escalation http search rend d raw request_id case_id c out = (res, c', out')"
  shows "filter (\<lambda>e. fst e = ''sn_linkage_failed_final_escalation_fallback'') (ox_log out') =
     filter (\<lambda>e. fst e = ''sn_linkage_failed_final_escalation_fallback'') (ox_log out)"
proof (cases "sl_mode c = MODE_OFF")
  case True
  with assms show ?thesis by (simp add: send_linkage_failed_final_escalation_def)
next
  case False
  note sent = assms[unfolded send_linkage_failed_final_escalation_def Let_def if_not_P [OF False]]
  show ?thesis unfolding slack_other_events [OF sent, of "''sn_linkage_failed_final_escalation_fallback''", simplified]
    by (simp add: log_other_event)
qed

lemma emit_frame:
  assumes "emit_failed_final_escalation sv q r w = (res, w')"
  shows "kw_rows w' = kw_rows w" "escalations w' = Suc (escalations w)"
proof (atomize (full), cases "kw_slack w")
  case None
  with assms show "kw_rows w' = kw_rows w \<and> escalations w' = Suc (escalations w)"
    by (auto simp: emit_failed_final_escalation_def Let_def escalations_def log_event_def)
next
  case (Some c)
  with assms obtain raw rq d flds c' out where
    sent: "send_linkage_failed_final_escalation (kv_http sv) (sx_search (kv_sx sv)) (kv_rend sv) d raw rq (kq_case_id q) c
        (log_event ''sn_linkage_failed_final_escalation_fallback'' flds (kw_outside w)) = (res, c', out)"
    and w': "kw_outside w' = out" "kw_rows w' = kw_rows w"
    by (auto simp: emit_failed_final_escalation_def Let_def split: prod.splits)
  show "kw_rows w' = kw_rows w \<and> escalations w' = Suc (escalations w)"
    using slack_escalation_events [OF sent] w' by (simp add: escalations_def log_event_def)
qed

lemma mark_keeps_id:
  "mark_linkage_searching clock r now = Inr r' \<Longrightarrow> lr_case_id r' = lr_case_id r \<and> lr_state r' = SEARCHING"
  "mark_linkage_success clock r req sys md now = Inr r' \<Longrightarrow> lr_case_id r' = lr_case_id r \<and> lr_state r' = LINKED \<and> lr_state r = SEARCHING"
  "mark_linkage_failure sha256 clock r tr code msg req b mx ratio ra md now = Inr r' \<Longrightarrow>
     lr_case_id r' = lr_case_id r \<and> lr_state r' \<in> {FAILED_TEMP, FAILED_FINAL} \<and> lr_state r = SEARCHING"
  using marked_searching apply blast
  using success_ok apply blast
  by (erule failure_ok) auto

section \<open>The protocol\<close>

locale retry_protocol =
  fixes rp :: "'r retry_repo" and look :: "'r \<Rightarrow> string \<Rightarrow> linkage_record option"
  assumes look_id: "look d cid = Some row \<Longrightarrow> lr_case_id row = cid"
    and look_finite: "finite (dom (look d))"
    and get_failed: "rp_get_or_create_pending rp cid pd sys window now d = (Inl e, d') \<Longrightarrow> look d' = look d"
    and get_present: "rp_get_or_create_pending rp cid pd sys window now d = (Inr r, d') \<Longrightarrow> look d cid = Some row \<Longrightarrow>
      look d' = look d \<and> lk_row_to_record row = Inr r"
    and get_created: "rp_get_or_create_pending rp cid pd sys window now d = (Inr r, d') \<Longrightarrow> look d cid = None \<Longrightarrow>
      \<exists>row. look d' = (look d)(cid \<mapsto> row) \<and> lk_row_to_record row = Inr r \<and> lr_state row = PENDING"
    and put_failed: "rp_persist_transition rp cid nxt expected d = (Inl e, d') \<Longrightarrow> lr_case_id nxt = cid \<Longrightarrow> look d' = look d"
    and put_ok: "rp_persist_transition rp cid nxt expected d = (Inr r, d') \<Longrightarrow> lr_case_id nxt = cid \<Longrightarrow> look d cid = Some row \<Longrightarrow>
      lr_state row \<in> set expected \<Longrightarrow>
      \<exists>row'. look d' = (look d)(cid \<mapsto> row') \<and> lk_row_to_record row' = Inr r \<and> lr_state row' = lr_state nxt"
begin

abbreviation finals :: "'r \<Rightarrow> string set" where
  "finals \<equiv> failed_final_cases look"

lemma finals_finite: "finite (finals d)"
  by (rule finite_subset [OF _ look_finite [of d]]) (auto simp: failed_final_cases_def)

lemma finals_update:
  assumes "look d' = (look d)(cid \<mapsto> row')" and "\<And>row. look d cid = Some row \<Longrightarrow> lr_state row \<noteq> FAILED_FINAL"
  shows "card (finals d') = card (finals d) + (if lr_state row' = FAILED_FINAL then 1 else 0)"
proof -
  have "cid \<notin> finals d" using assms(2) by (auto simp: failed_final_cases_def)
  moreover have "finals d' = (if lr_state row' = FAILED_FINAL then insert cid (finals d) else finals d)"
    unfolding failed_final_cases_def assms(1) using assms(2) by auto
  ultimately show ?thesis by (simp add: finals_finite)
qed

lemma finals_cong: "look d' = look d \<Longrightarrow> finals d' = finals d"
  by (simp add: failed_final_cases_def)

text \<open>A write of the stage on a case whose row is in the expected state.\<close>

lemma put_step:
  assumes "on_rows (rp_persist_transition rp cid nxt [st]) w = (res, w')" and "lr_case_id nxt = cid"
    and "look (kw_rows w) cid = Some row" "lr_state row = st" "st \<noteq> FAILED_FINAL"
  shows "escalations w' = escalations w"
    and "res = Inl e \<Longrightarrow> card (finals (kw_rows w')) = card (finals (kw_rows w))"
    and "res = Inr r \<Longrightarrow> card (finals (kw_rows w')) = card (finals (kw_rows w)) + (if lr_state nxt = FAILED_FINAL then 1 else 0)"
    and "res = Inr r \<Longrightarrow> \<exists>row'. look (kw_rows w') cid = Some row' \<and> lk_row_to_record row' = Inr r \<and> lr_state row' = lr_state nxt"
proof -
  obtain d' where d': "rp_persist_transition rp cid nxt [st] (kw_rows w) = (res, d')" and w': "w' = w\<lparr>kw_rows := d'\<rparr>"
    using assms(1) by (auto simp: on_rows_def split: prod.splits)
  show "escalations w' = escalations w" by (simp add: w')
  show "card (finals (kw_rows w')) = card (finals (kw_rows w))" if "res = Inl e"
    using finals_cong [OF put_failed [OF d'[unfolded that] assms(2)]] by (simp add: w')
  assume ret: "res = Inr r"
  obtain row' where row': "look d' = (look (kw_rows w))(cid \<mapsto> row')" "lk_row_to_record row' = Inr r" "lr_state row' = lr_state nxt"
    using put_ok [OF d'[unfolded ret] assms(2,3)] assms(4) by auto
  have "card (finals d') = card (finals (kw_rows w)) + (if lr_state row' = FAILED_FINAL then 1 else 0)"
    by (rule finals_update [OF row'(1)]) (use assms in auto)
  with row' show "card (finals (kw_rows w')) = card (finals (kw_rows w)) + (if lr_state nxt = FAILED_FINAL then 1 else 0)"
    and "\<exists>row'. look (kw_rows w') cid = Some row' \<and> lk_row_to_record row' = Inr r \<and> lr_state row' = lr_state nxt"
    by (simp_all add: w')
qed

abbreviation balanced :: "('w, 's, 'h, 'r) linkage_world \<Rightarrow> bool" where
  "balanced w \<equiv> escalations w = card (finals (kw_rows w))"

lemma only_stored_balanced: "only_stored w w' \<Longrightarrow> balanced w \<Longrightarrow> balanced w'"
  by (simp add: only_stored_facts)

lemma slo_balanced: "balanced w \<Longrightarrow> balanced (record_page_linkage_slo_if_applicable rend cx st status a b w)"
  by (simp add: slo_facts)

lemma settle_success_balanced:
  assumes "settle_success sv rp q rs r w = (res, w')" and "balanced w"
    and row: "look (kw_rows w) (kq_case_id q) = Some row" "lk_row_to_record row = Inr rs"
  shows "balanced w'"
proof -
  have id: "lr_case_id rs = kq_case_id q" "lr_state row = lr_state rs"
    using look_id [OF row(1)] lk_read_ok [OF row(2)] by (simp_all add: same_linkage_def)
  from assms(1) show ?thesis unfolding settle_success_def Let_def
  proof (cases rule: st_bind_cases)
    case failed
    then show ?thesis using assms(2) by simp
  next
    case (went_on linked w1)
    then have m: "lr_case_id linked = kq_case_id q" "lr_state linked = LINKED" "lr_state row = SEARCHING" and w1: "w1 = w"
      using mark_keeps_id(2) id by force+
    note put = put_step [OF _ m(1) row(1) m(3)]
    from went_on(2)[unfolded w1] show ?thesis
    proof (cases rule: st_bind_cases)
      case (failed e)
      then show ?thesis using put(1,2) assms(2) by fastforce
    next
      case (went_on rs2 w2)
      then have b2: "balanced w2" using put(1) put(3) assms(2) m(2) by fastforce
      let ?w = "record_page_linkage_slo_if_applicable (kv_rend sv) (kq_context q) LINKED (wr_linkage_status (resolved LINKED None r))
         (lr_first_attempt_at rs2) (lr_updated_at rs2) w2"
      have "balanced ?w" using b2 by (rule slo_balanced)
      with went_on(2) show ?thesis
        by (elim st_bind_cases) (auto intro: only_stored_balanced dest: persist_terminal_frame)
    qed
  qed
qed

lemma escalate_then_store:
  assumes "st_bind (emit_failed_final_escalation sv q rs w) (\<lambda>_ w.
       st_bind (persist_terminal_linkage_stage sv q r w) (\<lambda>stored w. (Inr (g stored), w))) = (res, w')"
    and "card (finals (kw_rows w)) = Suc (escalations w)"
  shows "balanced w'"
  using assms(1)
proof (cases rule: st_bind_cases)
  case failed
  then show ?thesis using emit_frame assms(2) by metis
next
  case (went_on u w1)
  then have "balanced w1" using emit_frame assms(2) by metis
  with went_on(2) show ?thesis
    by (elim st_bind_cases) (auto intro: only_stored_balanced dest: persist_terminal_frame)
qed

lemma settle_failure_balanced:
  assumes "settle_failure sv rp q rs r w = (res, w')" and "balanced w"
    and row: "look (kw_rows w) (kq_case_id q) = Some row" "lk_row_to_record row = Inr rs"
  shows "balanced w'"
proof -
  have id: "lr_case_id rs = kq_case_id q" "lr_state row = lr_state rs"
    using look_id [OF row(1)] lk_read_ok [OF row(2)] by (simp_all add: same_linkage_def)
  from assms(1) show ?thesis unfolding settle_failure_def Let_def
  proof (cases rule: st_bind_cases)
    case failed
    then show ?thesis using assms(2) by simp
  next
    case (went_on f w0)
    then have w0: "w0 = w" by simp
    from went_on(2)[unfolded w0] show ?thesis
    proof (cases rule: st_bind_cases)
      case failed
      then show ?thesis using assms(2) by simp
    next
      case (went_on failed w1)
      then have m: "lr_case_id failed = kq_case_id q" "lr_state failed \<in> {FAILED_TEMP, FAILED_FINAL}" "lr_state row = SEARCHING"
        and w1: "w1 = w"
        using mark_keeps_id(3) id by force+
      note put = put_step [OF _ m(1) row(1) m(3)]
      from went_on(2)[unfolded w1] show ?thesis
      proof (cases rule: st_bind_cases)
        case (failed e)
        then show ?thesis using put(1,2) assms(2) by fastforce
      next
        case (went_on rs2 w2)
        then have c: "escalations w2 = escalations w"
            "card (finals (kw_rows w2)) = card (finals (kw_rows w)) + (if lr_state failed = FAILED_FINAL then 1 else 0)"
          and st: "lr_state rs2 = lr_state failed"
          using put(1) put(3) put(4) lk_read_ok(1) by fastforce+
        show ?thesis
        proof (cases "lr_state rs2 = FAILED_TEMP")
          case True
          then show ?thesis using went_on(2) c st assms(2) by simp
        next
          case False
          then have final: "card (finals (kw_rows w2)) = Suc (escalations w2)" using c st m(2) assms(2) by auto
          show ?thesis
            by (rule escalate_then_store [OF went_on(2)[unfolded if_not_P [OF False]]]) (simp_all add: slo_facts final)
        qed
      qed
    qed
  qed
qed

lemma attempt_balanced:
  assumes "attempt_linkage sv rp q rs w = (res, w')" and "balanced w"
    and row: "look (kw_rows w) (kq_case_id q) = Some row" "lk_row_to_record row = Inr rs" and st: "lr_state rs \<notin> {LINKED, FAILED_FINAL}"
  shows "balanced w'"
proof -
  have id: "lr_case_id rs = kq_case_id q" "lr_state row = lr_state rs"
    using look_id [OF row(1)] lk_read_ok [OF row(2)] by (simp_all add: same_linkage_def)
  from assms(1) show ?thesis unfolding attempt_linkage_def
  proof (cases rule: st_bind_cases)
    case failed
    then show ?thesis using assms(2) by simp
  next
    case (went_on searching w1)
    then have m: "lr_case_id searching = kq_case_id q" "lr_state searching = SEARCHING" and w1: "w1 = w"
      using mark_keeps_id(1) id by force+
    have "lr_state rs \<noteq> FAILED_FINAL" using st by simp
    note put = put_step [OF _ m(1) row(1) id(2) this]
    from went_on(2)[unfolded w1] show ?thesis
    proof (cases rule: st_bind_cases)
      case (failed e)
      then show ?thesis using put(1,2) assms(2) by fastforce
    next
      case (went_on rs2 w2)
      then have b2: "balanced w2" using put(1) put(3) assms(2) m(2) by fastforce
      from went_on(1) obtain row2 where row2: "look (kw_rows w2) (kq_case_id q) = Some row2" "lk_row_to_record row2 = Inr rs2"
        using put(4) by blast
      obtain r w3 where up: "call_upsert sv q w2 = (r, w3)" by fastforce
      then have w3: "balanced w3" "kw_rows w3 = kw_rows w2" using call_upsert_frame [OF up] b2 by auto
      from went_on(2) up show ?thesis
        using settle_success_balanced [OF _ w3(1), of sv q rs2 r res w' row2]
          settle_failure_balanced [OF _ w3(1), of sv q rs2 r res w' row2] row2 w3(2) by (auto split: if_splits)
    qed
  qed
qed

lemma claim_step:
  assumes "on_rows (rp_get_or_create_pending rp cid pd sys window now) w = (res, w')"
  shows "w' = w\<lparr>kw_rows := kw_rows w'\<rparr>" "balanced w \<Longrightarrow> balanced w'"
    "res = Inr r \<Longrightarrow> \<exists>row. look (kw_rows w') cid = Some row \<and> lk_row_to_record row = Inr r"
    "look (kw_rows w) cid = Some row \<Longrightarrow> look (kw_rows w') = look (kw_rows w) \<and> (\<forall>r. res = Inr r \<longrightarrow> lk_row_to_record row = Inr r)"
proof -
  obtain d' where d': "rp_get_or_create_pending rp cid pd sys window now (kw_rows w) = (res, d')" and w': "w' = w\<lparr>kw_rows := d'\<rparr>"
    using assms by (auto simp: on_rows_def split: prod.splits)
  show "w' = w\<lparr>kw_rows := kw_rows w'\<rparr>" by (simp add: w')
  show 4: "look (kw_rows w') = look (kw_rows w) \<and> (\<forall>r. res = Inr r \<longrightarrow> lk_row_to_record row = Inr r)"
    if "look (kw_rows w) cid = Some row" for row
    using d' that get_failed get_present by (cases res) (auto simp: w')
  show "\<exists>row. look (kw_rows w') cid = Some row \<and> lk_row_to_record row = Inr r" if "res = Inr r"
    using d' that get_created [of cid pd sys window now "kw_rows w" r d'] 4 by (cases "look (kw_rows w) cid") (auto simp: w')
  assume b: "balanced w"
  have "card (finals d') = card (finals (kw_rows w))"
  proof (cases "res")
    case (Inl e)
    then show ?thesis using finals_cong [OF get_failed] d' by metis
  next
    case (Inr r)
    show ?thesis
    proof (cases "look (kw_rows w) cid")
      case None
      with get_created [OF d'[unfolded Inr]] obtain row where "look d' = (look (kw_rows w))(cid \<mapsto> row)" "lr_state row = PENDING" by blast
      with finals_update [of d' "kw_rows w" cid row] None show ?thesis by simp
    next
      case (Some row)
      then show ?thesis using 4 finals_cong [of d' "kw_rows w"] by (simp add: w')
    qed
  qed
  with b show "balanced w'" by (simp add: w')
qed

lemma execute_balanced:
  assumes run: "execute_servicenow_linkage_and_persist sv q w = (res, w')" and "kv_repo sv = Some rp" and "balanced w"
  shows "balanced w'"
  using run unfolding execute_servicenow_linkage_and_persist_def assms(2) option.case
proof (cases rule: st_bind_cases)
  case failed
  then show ?thesis using claim_step(2) assms(3) by blast
next
  case (went_on rs w1)
  note b1 = claim_step(2) [OF went_on(1) assms(3)]
  obtain row where row: "look (kw_rows w1) (kq_case_id q) = Some row" "lk_row_to_record row = Inr rs"
    using claim_step(3) [OF went_on(1)] by blast
  have att: "attempt_linkage sv rp q rs w1 = (res, w') \<Longrightarrow> lr_state rs \<notin> {LINKED, FAILED_FINAL} \<Longrightarrow> balanced w'"
    by (rule attempt_balanced [OF _ b1 row])
  show ?thesis
  proof (cases "lr_state rs \<in> {LINKED, FAILED_FINAL}")
    case True
    then show ?thesis using went_on(2) b1 by (auto intro: only_stored_balanced dest: replay_frame)
  next
    case False
    then show ?thesis using went_on(2) b1 att by (auto split: if_splits elim!: st_bind_cases)
  qed
qed

text \<open>A case with nothing due.\<close>

lemma execute_nothing_due:
  assumes run: "execute_servicenow_linkage_and_persist sv q w = (res, w')" and "kv_repo sv = Some rp"
    and row: "look (kw_rows w) (kq_case_id q) = Some row" and due: "nothing_due row (resolve_now (kv_clock sv 0) (kq_now q))"
  shows "look (kw_rows w') = look (kw_rows w) \<and> untouched_outside w w' \<and> (lr_state row = FAILED_TEMP \<longrightarrow> kw_store w' = kw_store w)"
  using run unfolding execute_servicenow_linkage_and_persist_def assms(2) option.case
proof (cases rule: st_bind_cases)
  case failed
  have "w' = w\<lparr>kw_rows := kw_rows w'\<rparr>" by (rule claim_step(1) [OF failed(1)])
  then obtain d where "w' = w\<lparr>kw_rows := d\<rparr>" by blast
  with claim_step(4) [OF failed(1) row] show ?thesis by (simp add: untouched_outside_def)
next
  case (went_on rs w1)
  have "w1 = w\<lparr>kw_rows := kw_rows w1\<rparr>" by (rule claim_step(1) [OF went_on(1)])
  then obtain d where w1: "w1 = w\<lparr>kw_rows := d\<rparr>" by blast
  have look: "look d = look (kw_rows w)" and read: "lk_row_to_record row = Inr rs"
    using claim_step(4) [OF went_on(1) row] by (simp_all add: w1)
  note rs = lk_read_ok [OF read]
  show ?thesis
  proof (cases "lr_state rs \<in> {LINKED, FAILED_FINAL}")
    case True
    with went_on(2) have "only_stored w1 w'" by (auto dest: replay_frame)
    with only_stored_facts [OF this] look True rs(1) show ?thesis by (auto simp: w1 untouched_outside_def)
  next
    case False
    then have st: "lr_state rs = FAILED_TEMP" and "is_retry_due (kv_clock sv 0) rs (kq_now q) = Inr False"
      using due rs(1,4) by (auto simp: nothing_due_def is_retry_due_def)
    with went_on(2) look show ?thesis by (auto simp: w1 untouched_outside_def)
  qed
qed

end

section \<open>The SQL repository meets it\<close>

lemma sql_get:
  "rp_get_or_create_pending (sql_linkage_repo ab clock) cid pd sys window now d = (r, d') \<longleftrightarrow>
     (\<exists>rows. get_or_create_pending ab clock (next_fault d) cid pd sys window now (ks_rows d) (ks_rows d) = (r, rows) \<and>
        d' = d\<lparr>ks_rows := rows, ks_faults := tl (ks_faults d)\<rparr>)"
  by (auto simp: sql_linkage_repo_def split: prod.splits)

lemma sql_put:
  "rp_persist_transition (sql_linkage_repo ab clock) cid nxt expected d = (r, d') \<longleftrightarrow>
     (\<exists>rows. persist_transition (next_fault d) cid nxt expected (ks_rows d) = (r, rows) \<and>
        d' = d\<lparr>ks_rows := rows, ks_faults := tl (ks_faults d)\<rparr>)"
  by (auto simp: sql_linkage_repo_def split: prod.splits)

lemma created_pending:
  "create_pending_linkage_retry_record clock cid pd sys window now = Inr p \<Longrightarrow> lr_state p = PENDING \<and> lr_case_id p = cid"
  by (auto simp: create_pending_linkage_retry_record_def validate_linkage_record_def split: if_splits elim!: rbind_InrE)

lemma get_or_create_rows:
  assumes "get_or_create_pending ab clock fault cid pd sys window now tbl tbl = (res, tbl')"
  shows "res = Inl e \<Longrightarrow> tbl' = tbl"
    and "tbl_get lr_case_id tbl cid = Some row \<Longrightarrow> tbl' = tbl \<and> (\<forall>r. res = Inr r \<longrightarrow> lk_row_to_record row = Inr r)"
    and "tbl_get lr_case_id tbl cid = None \<Longrightarrow> res = Inr r \<Longrightarrow>
      \<exists>row. (\<forall>j. tbl_get lr_case_id tbl' j = (if j = cid then Some row else tbl_get lr_case_id tbl j)) \<and>
        lk_row_to_record row = Inr r \<and> lr_state row = PENDING"
proof -
  show "tbl' = tbl" if "res = Inl e" using assms that by (cases rule: get_or_create_cases) simp_all
  show "tbl' = tbl \<and> (\<forall>r. res = Inr r \<longrightarrow> lk_row_to_record row = Inr r)" if row: "tbl_get lr_case_id tbl cid = Some row"
    using assms
  proof (cases rule: get_or_create_cases)
    case kept
    then show ?thesis using row by auto
  next
    case (created p r)
    then show ?thesis using row created_pending tbl_get_None [of lr_case_id tbl cid]
      by (auto simp: tbl_insert_def split: if_splits)
  qed
  assume none: "tbl_get lr_case_id tbl cid = None" and ret: "res = Inr r"
  from assms show "\<exists>row. (\<forall>j. tbl_get lr_case_id tbl' j = (if j = cid then Some row else tbl_get lr_case_id tbl j)) \<and>
        lk_row_to_record row = Inr r \<and> lr_state row = PENDING"
  proof (cases rule: get_or_create_cases)
    case kept
    then show ?thesis using none ret by auto
  next
    case (created p q)
    note p = created_pending [OF created(1)]
    show ?thesis
      by (rule exI [of _ "record_to_row p"]) (use created p ret linkage_tbl.get_insert [OF created(2)] in auto)
  qed
qed

interpretation sql_retry: retry_protocol "sql_linkage_repo ab clock" linkage_rows
proof
  fix d :: linkage_sql and cid row
  show "linkage_rows d cid = Some row \<Longrightarrow> lr_case_id row = cid" by (auto simp: linkage_rows_def dest: tbl_get_Some)
  have "dom (linkage_rows d) \<subseteq> lr_case_id ` set (ks_rows d)" by (auto simp: linkage_rows_def dest!: tbl_get_Some)
  then show "finite (dom (linkage_rows d))" by (rule finite_subset) simp
next
  fix cid pd sys window now e and r row :: linkage_record and d d' :: linkage_sql
  show "rp_get_or_create_pending (sql_linkage_repo ab clock) cid pd sys window now d = (Inl e, d') \<Longrightarrow> linkage_rows d' = linkage_rows d"
    by (auto simp: sql_get linkage_rows_def dest: get_or_create_rows(1))
  show "rp_get_or_create_pending (sql_linkage_repo ab clock) cid pd sys window now d = (Inr r, d') \<Longrightarrow>
      linkage_rows d cid = Some row \<Longrightarrow> linkage_rows d' = linkage_rows d \<and> lk_row_to_record row = Inr r"
    by (auto simp: sql_get linkage_rows_def dest: get_or_create_rows(2))
  show "rp_get_or_create_pending (sql_linkage_repo ab clock) cid pd sys window now d = (Inr r, d') \<Longrightarrow> linkage_rows d cid = None \<Longrightarrow>
      \<exists>row. linkage_rows d' = (linkage_rows d)(cid \<mapsto> row) \<and> lk_row_to_record row = Inr r \<and> lr_state row = PENDING"
    using get_or_create_rows(3) unfolding sql_get linkage_rows_def fun_upd_def by fastforce
next
  fix cid expected e and nxt r row :: linkage_record and d d' :: linkage_sql
  assume id: "lr_case_id nxt = cid"
  show "rp_persist_transition (sql_linkage_repo ab clock) cid nxt expected d = (Inl e, d') \<Longrightarrow> linkage_rows d' = linkage_rows d"
    using persist_cases [OF _ id] unfolding sql_put linkage_rows_def by fastforce
  show "\<exists>row'. linkage_rows d' = (linkage_rows d)(cid \<mapsto> row') \<and> lk_row_to_record row' = Inr r \<and> lr_state row' = lr_state nxt"
    if call: "rp_persist_transition (sql_linkage_repo ab clock) cid nxt expected d = (Inr r, d')"
      and row: "linkage_rows d cid = Some row" "lr_state row \<in> set expected"
  proof -
    obtain rows where p: "persist_transition (next_fault d) cid nxt expected (ks_rows d) = (Inr r, rows)" and d': "ks_rows d' = rows"
      using call by (auto simp: sql_put)
    from p id show ?thesis
    proof (cases rule: persist_cases)
      case (written row0 r0)
      then show ?thesis by (intro exI [of _ "record_to_row nxt"]) (auto simp: linkage_rows_def d' fun_upd_def)
    next
      case kept
      then show ?thesis using row by (auto simp: linkage_rows_def)
    qed
  qed
qed

section \<open>Runs of the stage are histories of the table\<close>

lemma stage_run_balanced: "linkage_stage_run sha256 w \<Longrightarrow> escalations w = card (failed_final_cases linkage_rows (kw_rows w))"
proof (induction rule: linkage_stage_run.induct)
  case (ls_start w)
  then show ?case by (simp add: failed_final_cases_def linkage_rows_def tbl_get_def)
next
  case (ls_execute w sv ab clock q res w')
  then show ?case using sql_retry.execute_balanced by blast
qed

definition has_history :: "(string \<Rightarrow> nat list) \<Rightarrow> linkage_sql \<Rightarrow> linkage_record list \<Rightarrow> bool" where
  "has_history sha256 d held = (\<exists>h got. linkage_run sha256 (ks_rows d # h) got \<and> set held \<subseteq> set got)"

lemma history_claim:
  assumes "has_history sha256 (kw_rows w) []"
    and "on_rows (rp_get_or_create_pending (sql_linkage_repo ab clock) cid pd sys window now) w = (res, w')"
  shows "has_history sha256 (kw_rows w') (returned res)" "res = Inr r \<Longrightarrow> lr_case_id r = cid"
proof -
  obtain rows where call: "get_or_create_pending ab clock (next_fault (kw_rows w)) cid pd sys window now (ks_rows (kw_rows w)) (ks_rows (kw_rows w)) =
      (res, rows)" and rows: "ks_rows (kw_rows w') = rows"
    using assms(2) by (auto simp: on_rows_def sql_get split: prod.splits)
  from assms(1) obtain h got where "linkage_run sha256 (ks_rows (kw_rows w) # h) got" by (auto simp: has_history_def)
  from linkage_run.lr_create [OF this _ call] rows show "has_history sha256 (kw_rows w') (returned res)"
    by (fastforce simp: has_history_def)
  show "lr_case_id r = cid" if "res = Inr r"
    using sql_retry.claim_step(3) [OF assms(2) that] by (auto simp: same_linkage_def dest!: sql_retry.look_id lk_read_ok(2))
qed

lemma history_write:
  assumes "has_history sha256 (kw_rows w) [rs]" and "linkage_step sha256 rs nxt" and "lr_case_id rs = cid"
    and "on_rows (rp_persist_transition (sql_linkage_repo ab clock) cid nxt [lr_state rs]) w = (res, w')"
  shows "has_history sha256 (kw_rows w') (returned res)" "res = Inr r \<Longrightarrow> lr_case_id r = cid"
proof -
  obtain rows where call: "persist_transition (next_fault (kw_rows w)) cid nxt [lr_state rs] (ks_rows (kw_rows w)) = (res, rows)"
    and rows: "ks_rows (kw_rows w') = rows"
    using assms(4) by (auto simp: on_rows_def sql_put split: prod.splits)
  from assms(1) obtain h got where run: "linkage_run sha256 (ks_rows (kw_rows w) # h) got" and rs: "rs \<in> set got"
    by (auto simp: has_history_def)
  from linkage_run.lr_write [OF run rs assms(2) call[folded assms(3)]] rows show "has_history sha256 (kw_rows w') (returned res)"
    by (fastforce simp: has_history_def)
  have id: "lr_case_id nxt = cid" using linkage_step_frame [OF assms(2)] assms(3) by simp
  assume ret: "res = Inr r"
  from call id show "lr_case_id r = cid"
  proof (cases rule: persist_cases)
    case (written row q)
    then show ?thesis using ret id lk_read_ok(2) [OF written(4)] by (simp add: same_linkage_def)
  next
    case kept
    then show ?thesis using ret by (auto simp: same_linkage_def dest!: tbl_get_Some lk_read_ok(2))
  qed
qed

lemma history_weaken: "has_history sha256 d held \<Longrightarrow> has_history sha256 d []"
  by (auto simp: has_history_def)

lemma settle_history:
  assumes "has_history (kv_sha256 sv) (kw_rows w) [rs]" and "lr_case_id rs = kq_case_id q"
  shows "settle_success sv (sql_linkage_repo ab clock) q rs r w = (res, w') \<Longrightarrow> has_history (kv_sha256 sv) (kw_rows w') []"
    and "settle_failure sv (sql_linkage_repo ab clock) q rs r w = (res, w') \<Longrightarrow> has_history (kv_sha256 sv) (kw_rows w') []"
proof -
  show "has_history (kv_sha256 sv) (kw_rows w') []"
    if run: "settle_success sv (sql_linkage_repo ab clock) q rs r w = (res, w')"
    using run unfolding settle_success_def Let_def
  proof (cases rule: st_bind_cases)
    case failed
    then show ?thesis using assms(1) history_weaken by auto
  next
    case (went_on nxt w1)
    then have st: "lr_state rs = SEARCHING" and step: "linkage_step (kv_sha256 sv) rs nxt" and w1: "w1 = w"
      using mark_keeps_id(2) by (auto intro: linkage_step.lk_success)
    note wr = history_write(1) [OF assms(1) step assms(2), unfolded st]
    from went_on(2)[unfolded w1] show ?thesis
    proof (cases rule: st_bind_cases)
      case failed
      then show ?thesis using wr history_weaken by blast
    next
      case (went_on rs2 w2)
      then have "has_history (kv_sha256 sv) (kw_rows w2) []" using wr history_weaken by blast
      with went_on(2) show ?thesis
        by (elim st_bind_cases) (auto simp: slo_facts dest!: persist_terminal_frame only_stored_facts(1))
    qed
  qed
  show "has_history (kv_sha256 sv) (kw_rows w') []"
    if run: "settle_failure sv (sql_linkage_repo ab clock) q rs r w = (res, w')"
    using run unfolding settle_failure_def Let_def
  proof (cases rule: st_bind_cases)
    case failed
    then show ?thesis using assms(1) history_weaken by auto
  next
    case (went_on f w0)
    then have w0: "w0 = w" by simp
    from went_on(2)[unfolded w0] show ?thesis
    proof (cases rule: st_bind_cases)
      case failed
      then show ?thesis using assms(1) history_weaken by auto
    next
      case (went_on nxt w1)
      then have st: "lr_state rs = SEARCHING" and step: "linkage_step (kv_sha256 sv) rs nxt" and w1: "w1 = w"
        using mark_keeps_id(3) by (auto intro: linkage_step.lk_failure)
      note wr = history_write(1) [OF assms(1) step assms(2), unfolded st]
      from went_on(2)[unfolded w1] show ?thesis
      proof (cases rule: st_bind_cases)
        case failed
        then show ?thesis using wr history_weaken by blast
      next
        case (went_on rs2 w2)
        then have "has_history (kv_sha256 sv) (kw_rows w2) []" using wr history_weaken by blast
        with went_on(2) show ?thesis
          by (auto simp: slo_facts split: if_splits elim!: st_bind_cases
              dest!: persist_terminal_frame only_stored_facts(1) emit_frame(1))
      qed
    qed
  qed
qed

lemma attempt_history:
  assumes "has_history (kv_sha256 sv) (kw_rows w) [rs]" and "lr_case_id rs = kq_case_id q"
    and due: "is_retry_due earlier rs (kq_now q) = Inr True" "earlier \<le> kv_clock sv 1"
    and run: "attempt_linkage sv (sql_linkage_repo ab clock) q rs w = (res, w')"
  shows "has_history (kv_sha256 sv) (kw_rows w') []"
  using run unfolding attempt_linkage_def
proof (cases rule: st_bind_cases)
  case failed
  then show ?thesis using assms(1) history_weaken by auto
next
  case (went_on nxt w1)
  then have step: "linkage_step (kv_sha256 sv) rs nxt" and w1: "w1 = w" using due by (auto intro: linkage_step.lk_search)
  note wr = history_write [OF assms(1) step assms(2)]
  from went_on(2)[unfolded w1] show ?thesis
  proof (cases rule: st_bind_cases)
    case failed
    then show ?thesis using wr history_weaken by blast
  next
    case (went_on rs2 w2)
    then have h2: "has_history (kv_sha256 sv) (kw_rows w2) [rs2]" and id2: "lr_case_id rs2 = kq_case_id q" using wr by fastforce+
    obtain r w3 where up: "call_upsert sv q w2 = (r, w3)" by fastforce
    then have "has_history (kv_sha256 sv) (kw_rows w3) [rs2]" using call_upsert_frame [OF up] h2 by auto
    note settled = settle_history [OF this id2]
    from went_on(2) up show ?thesis by (auto split: if_splits dest: settled)
  qed
qed

lemma execute_history:
  assumes "has_history (kv_sha256 sv) (kw_rows w) []" and "kv_repo sv = Some (sql_linkage_repo ab clock)"
    and clocks: "kv_clock sv 0 \<le> kv_clock sv 1" and run: "execute_servicenow_linkage_and_persist sv q w = (res, w')"
  shows "has_history (kv_sha256 sv) (kw_rows w') []"
  using run unfolding execute_servicenow_linkage_and_persist_def assms(2) option.case
proof (cases rule: st_bind_cases)
  case failed
  then show ?thesis using history_claim(1) [OF assms(1)] history_weaken by blast
next
  case (went_on rs w1)
  note claim = history_claim [OF assms(1) went_on(1)]
  then have h1: "has_history (kv_sha256 sv) (kw_rows w1) [rs]" and id: "lr_case_id rs = kq_case_id q" by fastforce+
  note att = attempt_history [OF h1 id]
  show ?thesis
  proof (cases "lr_state rs \<in> {LINKED, FAILED_FINAL}")
    case True
    then show ?thesis using went_on(2) history_weaken [OF h1] by (auto dest!: replay_frame only_stored_facts(1))
  next
    case st: False
    show ?thesis
    proof (cases "lr_state rs = FAILED_TEMP")
      case True
      with went_on(2) st show ?thesis
        using att [OF _ clocks] history_weaken [OF h1] by (auto split: if_splits elim!: st_bind_cases)
    next
      case False
      with went_on(2) st have run1: "attempt_linkage sv (sql_linkage_repo ab clock) q rs w1 = (res, w')" by simp
      show ?thesis
      proof (cases "resolve_now (kv_clock sv 1) (kq_now q)")
        case (Inl e)
        with run1 st have "w' = w1" by (auto simp: attempt_linkage_def mark_linkage_searching_def lk_transition_now_def)
        then show ?thesis using history_weaken [OF h1] by simp
      next
        case (Inr t)
        have "lr_state rs \<in> {PENDING, SEARCHING}" using st False by (cases "lr_state rs") auto
        then have "is_retry_due (kv_clock sv 1) rs (kq_now q) = Inr True" using False Inr by (simp add: is_retry_due_def)
        from att [OF this order_refl run1] show ?thesis .
      qed
    qed
  qed
qed

lemma stage_run_history: "linkage_stage_run sha256 w \<Longrightarrow> has_history sha256 (kw_rows w) []"
proof (induction rule: linkage_stage_run.induct)
  case (ls_start w)
  then show ?case using linkage_run.lr_init by (fastforce simp: has_history_def)
next
  case (ls_execute w sv ab clock q res w')
  then show ?case using execute_history by metis
qed

section \<open>A run\<close>

text \<open>A PAGE case without a ServiceNow incident, over a store and a network that refuse everything.\<close>

definition unread :: "'c model_codec" where
  "unread = \<lparr>mc_dump = (\<lambda>_. []), mc_load = (\<lambda>_. raise ValueError ''unread''), mc_dump_json = (\<lambda>_. []),
     mc_load_json = (\<lambda>_. raise ValueError ''unread'')\<rparr>"

definition sample_linkage_services :: "(unit, unit, unit, linkage_sql) linkage_services" where
  "sample_linkage_services =
     \<lparr>kv_repo = Some (sql_linkage_repo True 0),
      kv_sx = \<lparr>sx_http = (\<lambda>w rq. (Other_Failure ''refused'', w)), sx_dumps = (\<lambda>_. ''{}''), sx_rend = (\<lambda>_. ''x''), sx_search = (\<lambda>_ _. False),
        sx_sha256_hex = (\<lambda>_. replicate 64 (CHR ''0'')), sx_http_date = (\<lambda>_. None), sx_iso_date = (\<lambda>_. None),
        sx_strptime = (\<lambda>_. None), sx_clock = 0\<rparr>,
      kv_client = new_sn_client MODE_LIVE (Some ''https://sn'') None None ''none'' None, kv_rid = ''r1'',
      kv_put = (\<lambda>_ _ _ _ _ s. (raise CriticalDependencyError ''store down'', s)),
      kv_get = (\<lambda>_ s. (raise CriticalDependencyError ''store down'', s)), kv_sha256 = (\<lambda>_. []),
      kv_codecs = \<lparr>cd_triage = unread, cd_diagnosis = unread, cd_linkage = unread, cd_labels = unread\<rparr>,
      kv_http = (\<lambda>w _ _. (raise OSError ''refused'', w)), kv_denylist = None, kv_clock = int, kv_latency = Fin 1,
      kv_timestamp = ''2026-01-01T00:00:00+00:00''\<rparr>"

definition sample_linkage_request :: linkage_request where
  "sample_linkage_request =
     \<lparr>kq_case_id = ''c1'', kq_pd_incident_id = ''pd1'', kq_incident_sys_id = None, kq_summary = ''lag'', kq_triage_hash = replicate 64 (CHR ''a''),
      kq_diagnosis_hash = None, kq_pir_task_types = [''pir''], kq_context = Some [(''final_action'', JStr ''PAGE'')], kq_now = None\<rparr>"

definition sample_linkage_start :: "(unit, unit, unit, linkage_sql) linkage_world" where
  "sample_linkage_start =
     \<lparr>kw_rows = \<lparr>ks_rows = [], ks_faults = []\<rparr>, kw_sn = \<lparr>ss_server = (), ss_requests = [], ss_mock_sys_ids = []\<rparr>, kw_store = (),
      kw_slack = Some \<lparr>sl_mode = MODE_LIVE, sl_webhook_url = Some ''https://hooks'', sl_mock_send_count = 0\<rparr>,
      kw_outside = \<lparr>ox_http = (), ox_log = [], ox_posts = []\<rparr>, kw_slo = []\<rparr>"

definition sample_linkage_end :: "(unit, unit, unit, linkage_sql) linkage_world" where
  "sample_linkage_end = snd (execute_servicenow_linkage_and_persist sample_linkage_services sample_linkage_request sample_linkage_start)"

definition linkage_summary :: "(unit, unit, unit, linkage_sql) linkage_world \<Rightarrow> linkage_retry_state option \<times> (string \<times> bool) list \<times> nat \<times> nat" where
  "linkage_summary w = (map_option lr_state (linkage_rows (kw_rows w) ''c1''), kw_slo w, length (ox_posts (kw_outside w)), escalations w)"

lemma sample_linkage_outcome: "linkage_summary sample_linkage_end = (Some FAILED_FINAL, [(''FAILED_FINAL'', False)], 1, 1)"
  by code_simp

lemma sample_linkage_run: "linkage_stage_run (\<lambda>_. []) sample_linkage_end"
proof -
  have start: "linkage_stage_run (\<lambda>_. []) sample_linkage_start"
    by (rule linkage_stage_run.ls_start) (simp_all add: sample_linkage_start_def escalations_def)
  obtain res where "execute_servicenow_linkage_and_persist sample_linkage_services sample_linkage_request sample_linkage_start =
      (res, sample_linkage_end)" unfolding sample_linkage_end_def by (metis prod.collapse)
  then show ?thesis
    by (rule linkage_stage_run.ls_execute [OF start, rotated 3]) (simp_all add: sample_linkage_services_def)
qed

section \<open>Properties\<close>



text \<open>C22: An execution on a case with nothing due, because its row is LINKED or FAILED_FINAL or because its next attempt lies
  ahead, sends nothing to ServiceNow, Slack or the SLO metric and changes no retry row; when a retry is merely scheduled it does not
  touch the object store either. The execution may still fail, on a database or object-store error.\<close>

theorem settled_linkage_untouched:
  assumes "execute_servicenow_linkage_and_persist sv q w = (res, w')" and "kv_repo sv = Some (sql_linkage_repo tx_aborts clock)"
    and "tbl_get lr_case_id (ks_rows (kw_rows w)) (kq_case_id q) = Some row"
    and "nothing_due row (resolve_now (kv_clock sv 0) (kq_now q))"
  shows "(\<forall>c. tbl_get lr_case_id (ks_rows (kw_rows w')) c = tbl_get lr_case_id (ks_rows (kw_rows w)) c) \<and>
    kw_sn w' = kw_sn w \<and> kw_slack w' = kw_slack w \<and> kw_outside w' = kw_outside w \<and> kw_slo w' = kw_slo w \<and>
    (lr_state row = FAILED_TEMP \<longrightarrow> kw_store w' = kw_store w)"
  using sql_retry.execute_nothing_due [OF assms(1,2) _ assms(4)] assms(3)
  by (simp add: linkage_rows_def untouched_outside_def fun_eq_iff)

lemma settled_linkage_untouched_witness:
  "kw_outside (snd (execute_servicenow_linkage_and_persist sample_linkage_services sample_linkage_request sample_linkage_end)) =
     kw_outside sample_linkage_end"
proof -
  obtain row where row: "tbl_get lr_case_id (ks_rows (kw_rows sample_linkage_end)) (kq_case_id sample_linkage_request) = Some row"
    "lr_state row = FAILED_FINAL"
    using sample_linkage_outcome by (auto simp: linkage_summary_def linkage_rows_def sample_linkage_request_def)
  have repo: "kv_repo sample_linkage_services = Some (sql_linkage_repo True 0)" by (simp add: sample_linkage_services_def)
  obtain res w' where run: "execute_servicenow_linkage_and_persist sample_linkage_services sample_linkage_request sample_linkage_end = (res, w')"
    by fastforce
  from settled_linkage_untouched [OF run repo row(1)] row(2) run show ?thesis by (simp add: nothing_due_def)
qed



end
