(* ===== verification/Stage_Caches.thy ===== *)
theory Stage_Caches
  imports Anomaly
begin

text \<open>
  The Redis caches of the peak stage: \<open>cache/peak_cache.py\<close> and \<open>cache/evidence_window.py\<close>. The client is the one of theory
  \<open>Anomaly\<close>; \<open>enc\<close> and \<open>dec\<close> are the JSON text of a profile or of a streak state and its reading. Payloads are text, so the
  decoding of bytes is the identity; log records are left out. The locale \<open>kv_cache_up\<close> carries the proof that
  streaks written at the end of a cycle are the streaks the next cycle starts from.
\<close>

section \<open>Peak profiles\<close>

definition build_peak_cache_key :: "peak_scope \<Rightarrow> string result" where
  "build_peak_cache_key sc = (case sc of
       env # cluster # topic # _ \<Rightarrow> Inr (''peak:'' @ env @ ''|'' @ cluster @ ''|'' @ topic)
     | _ \<Rightarrow> raise IndexError ''tuple index out of range'')"

definition peak_profile_ttl_seconds :: "string \<Rightarrow> redis_ttl_policy \<Rightarrow> int result" where
  "peak_profile_ttl_seconds env policy = (case dict_get policy env of
       Some t \<Rightarrow> Inr (rt_peak_profile_seconds t)
     | None \<Rightarrow>
         (case map (\<lambda>e. rt_peak_profile_seconds (snd e)) policy of
            [] \<Rightarrow> raise ValueError ''min() iterable argument is empty''
          | v # vs \<Rightarrow> Inr (fold min vs v)))"

definition read_cached :: "(string \<Rightarrow> 'a result) \<Rightarrow> string option \<Rightarrow> 'a option result" where
  "read_cached dec raw = (case raw of None \<Rightarrow> Inr None | Some payload \<Rightarrow> rbind (dec payload) (\<lambda>x. Inr (Some x)))"

definition get_peak_profile ::
  "(string \<Rightarrow> peak_profile result) \<Rightarrow> 'r cache_get \<Rightarrow> peak_scope \<Rightarrow> 'r \<Rightarrow> peak_profile option result \<times> 'r" where
  "get_peak_profile dec cget sc r =
     st_bind (build_peak_cache_key sc, r) (\<lambda>key r. st_bind (cget r key) (\<lambda>raw r. (read_cached dec raw, r)))"

definition set_peak_profile ::
  "(peak_profile \<Rightarrow> string) \<Rightarrow> 'r cache_set \<Rightarrow> peak_scope \<Rightarrow> string \<Rightarrow> peak_profile \<Rightarrow> redis_ttl_policy \<Rightarrow> 'r \<Rightarrow> unit result \<times> 'r" where
  "set_peak_profile enc cset sc env profile policy r =
     st_bind (peak_profile_ttl_seconds env policy, r) (\<lambda>ttl r.
     st_bind (build_peak_cache_key sc, r) (\<lambda>key r. cset r key (enc profile) ttl))"

text \<open>Only the computation may raise: a failed read is a miss, a failed write is ignored.\<close>

definition get_or_compute_peak_profile ::
  "(peak_profile \<Rightarrow> string) \<Rightarrow> (string \<Rightarrow> peak_profile result) \<Rightarrow> 'r cache_get \<Rightarrow> 'r cache_set \<Rightarrow> peak_scope \<Rightarrow> string \<Rightarrow>
   redis_ttl_policy \<Rightarrow> peak_profile option result \<Rightarrow> 'r \<Rightarrow> peak_profile option result \<times> 'r" where
  "get_or_compute_peak_profile enc dec cget cset sc env policy compute r =
     (case get_peak_profile dec cget sc r of (res, r1) \<Rightarrow>
        (case res of
           Inr (Some p) \<Rightarrow> (Inr (Some p), r1)
         | _ \<Rightarrow>
             (case compute of
                Inl e \<Rightarrow> (Inl e, r1)
              | Inr None \<Rightarrow> (Inr None, r1)
              | Inr (Some p) \<Rightarrow> (Inr (Some p), snd (set_peak_profile enc cset sc env p policy r1)))))"

section \<open>Streak states\<close>

definition identity_parts :: "sustained_key \<Rightarrow> string list" where
  "identity_parts k = (case k of (env, cluster, target, family) \<Rightarrow> [env, cluster, target, family])"

definition build_sustained_window_cache_key :: "sustained_key \<Rightarrow> string" where
  "build_sustained_window_cache_key k = ''evidence:'' @ py_join ''|'' (identity_parts k)"

definition build_legacy_sustained_window_cache_key :: "sustained_key \<Rightarrow> string" where
  "build_legacy_sustained_window_cache_key k = ''evidence_window:'' @ py_join ''|'' (identity_parts k)"

definition get_sustained_window_state ::
  "(string \<Rightarrow> sustained_window_state result) \<Rightarrow> 'r cache_get \<Rightarrow> sustained_key \<Rightarrow> 'r \<Rightarrow> sustained_window_state option result \<times> 'r" where
  "get_sustained_window_state dec cget k r =
     st_bind (cget r (build_sustained_window_cache_key k)) (\<lambda>raw r.
     st_bind (case raw of Some x \<Rightarrow> (Inr (Some x), r) | None \<Rightarrow> cget r (build_legacy_sustained_window_cache_key k)) (\<lambda>raw r.
       (read_cached dec raw, r)))"

definition set_sustained_window_state ::
  "(sustained_window_state \<Rightarrow> string) \<Rightarrow> 'r cache_set \<Rightarrow> sustained_key \<Rightarrow> string \<Rightarrow> sustained_window_state \<Rightarrow> redis_ttl_policy \<Rightarrow>
   'r \<Rightarrow> unit result \<times> 'r" where
  "set_sustained_window_state enc cset k env state policy r =
     st_bind (evidence_window_ttl_seconds env policy, r) (\<lambda>ttl r. cset r (build_sustained_window_cache_key k) (enc state) ttl)"

fun load_states ::
  "(string \<Rightarrow> sustained_window_state result) \<Rightarrow> 'r cache_get \<Rightarrow> sustained_key list \<Rightarrow> 'r \<Rightarrow> (sustained_key, sustained_window_state) pydict \<times> 'r" where
  "load_states dec cget [] r = ([], r)"
| "load_states dec cget (k # ks) r =
     (case get_sustained_window_state dec cget k r of (res, r1) \<Rightarrow>
        (case load_states dec cget ks r1 of (loaded, r2) \<Rightarrow>
           ((case res of Inr (Some s) \<Rightarrow> (k, s) # loaded | _ \<Rightarrow> loaded), r2)))"

definition load_sustained_window_states ::
  "(string \<Rightarrow> sustained_window_state result) \<Rightarrow> 'r cache_get \<Rightarrow> sustained_key list \<Rightarrow> 'r \<Rightarrow>
   (sustained_key, sustained_window_state) pydict \<times> 'r" where
  "load_sustained_window_states dec cget ks r = load_states dec cget (sort_key identity_parts (remdups ks)) r"

fun persist_states ::
  "(sustained_window_state \<Rightarrow> string) \<Rightarrow> 'r cache_set \<Rightarrow> redis_ttl_policy \<Rightarrow> (sustained_key, sustained_window_state) pydict \<Rightarrow> 'r \<Rightarrow> 'r" where
  "persist_states enc cset policy [] r = r"
| "persist_states enc cset policy ((k, s) # rest) r =
     persist_states enc cset policy rest (snd (set_sustained_window_state enc cset k (fst k) s policy r))"

text \<open>The keys of a dictionary are distinct, so sorting its items never compares two states.\<close>

definition persist_sustained_window_states ::
  "(sustained_window_state \<Rightarrow> string) \<Rightarrow> 'r cache_set \<Rightarrow> (sustained_key, sustained_window_state) pydict \<Rightarrow> redis_ttl_policy \<Rightarrow> 'r \<Rightarrow> 'r" where
  "persist_sustained_window_states enc cset states policy r =
     persist_states enc cset policy (sort_key (\<lambda>e. identity_parts (fst e)) states) r"

text \<open>Identities whose parts have no separator, and a policy that gives their environments a positive lifetime.\<close>

definition separable :: "sustained_key \<Rightarrow> bool" where
  "separable k = list_all (\<lambda>p. CHR ''|'' \<notin> set p) (identity_parts k)"

definition kept_alive :: "redis_ttl_policy \<Rightarrow> sustained_key \<Rightarrow> bool" where
  "kept_alive policy k = (\<exists>ttl. evidence_window_ttl_seconds (fst k) policy = Inr ttl \<and> 0 < ttl)"

text \<open>A streak and a text for it.\<close>

definition sample_streak :: "nat \<Rightarrow> sustained_window_state" where
  "sample_streak n = \<lparr>sw_identity_key = (''prod'', ''c1'', ''orders'', ''VOLUME_DROP''), sw_consecutive_anomalous_buckets = int n,
     sw_last_evaluated_at = 0\<rparr>"

definition sample_streak_text :: "sustained_window_state \<Rightarrow> string" where
  "sample_streak_text s = replicate (nat (sw_consecutive_anomalous_buckets s)) (CHR ''x'')"

section \<open>Lemmas\<close>

lemma bar_split:
  assumes "x @ ''|'' @ xs = y @ ''|'' @ ys" "CHR ''|'' \<notin> set x" "CHR ''|'' \<notin> set y"
  shows "x = y \<and> xs = ys"
proof -
  have "takeWhile (\<lambda>c. c \<noteq> CHR ''|'') (x @ ''|'' @ xs) = x" using assms(2) by (subst takeWhile_append2) auto
  moreover have "takeWhile (\<lambda>c. c \<noteq> CHR ''|'') (y @ ''|'' @ ys) = y" using assms(3) by (subst takeWhile_append2) auto
  ultimately show ?thesis using assms(1) by simp
qed

lemma window_key_inject:
  assumes "separable k" "separable k'" "build_sustained_window_cache_key k = build_sustained_window_cache_key k'"
  shows "k = k'"
proof -
  obtain a b c d where k: "k = (a, b, c, d)" by (cases k) auto
  obtain a' b' c' d' where k': "k' = (a', b', c', d')" by (cases k') auto
  have eq: "a @ ''|'' @ b @ ''|'' @ c @ ''|'' @ d = a' @ ''|'' @ b' @ ''|'' @ c' @ ''|'' @ d'"
    using assms(3) by (simp add: k k' build_sustained_window_cache_key_def identity_parts_def)
  have sep: "CHR ''|'' \<notin> set a" "CHR ''|'' \<notin> set b" "CHR ''|'' \<notin> set c" "CHR ''|'' \<notin> set a'" "CHR ''|'' \<notin> set b'" "CHR ''|'' \<notin> set c'"
    using assms(1,2) by (auto simp: separable_def identity_parts_def k k')
  from bar_split [OF eq sep(1,4)] have 1: "a = a'" "b @ ''|'' @ c @ ''|'' @ d = b' @ ''|'' @ c' @ ''|'' @ d'" by auto
  from bar_split [OF 1(2) sep(2,5)] have 2: "b = b'" "c @ ''|'' @ d = c' @ ''|'' @ d'" by auto
  from bar_split [OF 2(2) sep(3,6)] show ?thesis using 1 2 by (simp add: k k')
qed

context kv_cache_up
begin

lemma set_window_view:
  assumes "kept_alive policy k"
  shows "view (snd (set_sustained_window_state enc cset k (fst k) s policy r)) = (view r)(build_sustained_window_cache_key k \<mapsto> enc s)"
proof -
  obtain ttl where ttl: "evidence_window_ttl_seconds (fst k) policy = Inr ttl" "0 < ttl"
    using assms by (auto simp: kept_alive_def)
  obtain r' where "cset r (build_sustained_window_cache_key k) (enc s) ttl = (Inr (), r')"
      "view r' = (view r)(build_sustained_window_cache_key k \<mapsto> enc s)"
    using set_view [OF ttl(2)] by blast
  with ttl(1) show ?thesis by (simp add: set_sustained_window_state_def)
qed

lemma persist_view:
  assumes "distinct (map fst items)" and "\<And>k. k \<in> fst ` set items \<Longrightarrow> separable k \<and> kept_alive policy k"
  shows "view (persist_states enc cset policy items r) x =
    (case List.find (\<lambda>e. build_sustained_window_cache_key (fst e) = x) items of Some e \<Rightarrow> Some (enc (snd e)) | None \<Rightarrow> view r x)"
  using assms
proof (induction items arbitrary: r)
  case (Cons e items)
  obtain k s where e: "e = (k, s)" by (cases e)
  have none: "List.find (\<lambda>e. build_sustained_window_cache_key (fst e) = x) items = None" if x: "build_sustained_window_cache_key k = x"
  proof -
    have "build_sustained_window_cache_key (fst f) \<noteq> x" if f: "f \<in> set items" for f
    proof
      assume "build_sustained_window_cache_key (fst f) = x"
      with x have "fst f = k" using Cons.prems(2) [of "fst f"] Cons.prems(2) [of k] f by (auto simp: e intro: window_key_inject)
      with Cons.prems(1) f show False by (auto simp: e)
    qed
    then show ?thesis unfolding find_None_iff by blast
  qed
  have alive: "kept_alive policy k" using Cons.prems(2) [of k] by (simp add: e)
  have step: "view (persist_states enc cset policy (e # items) r) x =
      (case List.find (\<lambda>e. build_sustained_window_cache_key (fst e) = x) items of Some e \<Rightarrow> Some (enc (snd e))
       | None \<Rightarrow> ((view r)(build_sustained_window_cache_key k \<mapsto> enc s)) x)"
    using Cons.IH [of "snd (set_sustained_window_state enc cset k (fst k) s policy r)"] Cons.prems set_window_view [OF alive] by (simp add: e cong: option.case_cong)
  show ?case
  proof (cases "build_sustained_window_cache_key k = x")
    case True
    then show ?thesis unfolding step none [OF True] by (simp add: e)
  next
    case False
    then show ?thesis unfolding step by (simp add: e cong: option.case_cong)
  qed
qed simp

lemma get_window_view:
  "\<exists>r'. get_sustained_window_state dec cget k r =
      (read_cached dec (case view r (build_sustained_window_cache_key k) of Some x \<Rightarrow> Some x | None \<Rightarrow> view r (build_legacy_sustained_window_cache_key k)), r') \<and>
     view r' = view r"
proof -
  obtain r1 where r1: "cget r (build_sustained_window_cache_key k) = (Inr (view r (build_sustained_window_cache_key k)), r1)" "view r1 = view r"
    using get_view by blast
  obtain r2 where r2: "cget r1 (build_legacy_sustained_window_cache_key k) = (Inr (view r (build_legacy_sustained_window_cache_key k)), r2)"
      "view r2 = view r"
    using get_view [of r1] r1(2) by metis
  show ?thesis
    using r1 r2 by (cases "view r (build_sustained_window_cache_key k)") (simp_all add: get_sustained_window_state_def)
qed

lemma load_view:
  assumes "k \<in> set ks" "view r (build_sustained_window_cache_key k) = Some (enc s)" "dec (enc s) = Inr s"
  shows "dict_get (fst (load_states dec cget ks r)) k = Some s"
  using assms
proof (induction ks arbitrary: r)
  case (Cons j ks)
  obtain r1 where r1: "get_sustained_window_state dec cget j r =
      (read_cached dec (case view r (build_sustained_window_cache_key j) of Some x \<Rightarrow> Some x | None \<Rightarrow> view r (build_legacy_sustained_window_cache_key j)), r1)"
      "view r1 = view r"
    using get_window_view by blast
  obtain loaded r2 where l: "load_states dec cget ks r1 = (loaded, r2)" by fastforce
  show ?case
  proof (cases "j = k")
    case True
    with Cons.prems r1 l show ?thesis by (simp add: read_cached_def)
  next
    case False
    then have "dict_get loaded k = Some s" using Cons.IH [of r1] Cons.prems r1(2) l by simp
    with r1 l False show ?thesis by (simp split: sum.splits option.splits)
  qed
qed simp

end

lemma find_own_key:
  assumes "distinct (map fst items)" "(k, s) \<in> set items" "\<And>k'. k' \<in> fst ` set items \<Longrightarrow> f k' = f k \<Longrightarrow> k' = k"
  shows "List.find (\<lambda>e. f (fst e) = f k) items = Some (k, s)"
  using assms
proof (induction items)
  case (Cons e items)
  obtain k' s' where e: "e = (k', s')" by (cases e)
  show ?case
  proof (cases "f k' = f k")
    case True
    then have "k' = k" using Cons.prems(3) by (simp add: e)
    moreover have "k \<notin> fst ` set items" using Cons.prems(1) \<open>k' = k\<close> by (simp add: e)
    ultimately show ?thesis using Cons.prems(2) by (force simp: e)
  next
    case False
    then show ?thesis using Cons.IH Cons.prems by (auto simp: e)
  qed
qed simp

section \<open>Properties\<close>

text \<open>C26: Streaks survive the cache. When the cache answers every call, the lifetimes are positive, the identities have no
  separator in their parts and a state reads back from its text, loading the identities persisted at the end of a cycle
  returns exactly the state each was persisted with, whatever the cache held before, legacy entries included.\<close>

theorem window_states_roundtrip:
  assumes "kv_cache_up cget cset view" and "dict_wf states" and "\<And>s. s \<in> snd ` set states \<Longrightarrow> dec (enc s) = Inr s"
    and "\<And>k. k \<in> fst ` set states \<Longrightarrow> separable k \<and> kept_alive policy k"
    and "dict_get states k = Some s" and "k \<in> set ks"
  shows "dict_get (fst (load_sustained_window_states dec cget ks (persist_sustained_window_states enc cset states policy r))) k = Some s"
proof -
  let ?items = "sort_key (\<lambda>e. identity_parts (fst e)) states" and ?r = "persist_sustained_window_states enc cset states policy r"
  have mem: "(k, s) \<in> set states" using assms(5) by (rule map_of_SomeD)
  have dist: "distinct (map fst ?items)" using assms(2) by (simp add: dict_wf_def distinct_map)
  have own: "build_sustained_window_cache_key k' = build_sustained_window_cache_key k \<Longrightarrow> k' = k" if "k' \<in> fst ` set states" for k'
    using window_key_inject [of k' k] assms(4) [of k'] assms(4) [of k] that mem by force
  have "List.find (\<lambda>e. build_sustained_window_cache_key (fst e) = build_sustained_window_cache_key k) ?items = Some (k, s)"
    by (rule find_own_key [OF dist]) (use mem own in auto)
  then have "view ?r (build_sustained_window_cache_key k) = Some (enc s)"
    unfolding persist_sustained_window_states_def
    by (subst kv_cache_up.persist_view [OF assms(1) dist]) (use assms(4) in auto)
  moreover have "dec (enc s) = Inr s" using assms(3) mem by force
  ultimately show ?thesis
    unfolding load_sustained_window_states_def using kv_cache_up.load_view [OF assms(1)] assms(6) by simp
qed

lemma window_states_roundtrip_witness:
  "dict_get (fst (load_sustained_window_states (\<lambda>x. Inr (sample_streak (length x))) up_get [(''prod'', ''c1'', ''orders'', ''VOLUME_DROP'')]
     (persist_sustained_window_states sample_streak_text up_set [((''prod'', ''c1'', ''orders'', ''VOLUME_DROP''), sample_streak 3)] sample_ttls
        \<lparr>cs_now = 0, cs_entries = [], cs_up = True\<rparr>))) (''prod'', ''c1'', ''orders'', ''VOLUME_DROP'') = Some (sample_streak 3)"
  by (rule window_states_roundtrip [OF cs_up.kv_cache_up_axioms])
    (auto simp: dict_wf_def sample_streak_text_def sample_streak_def separable_def kept_alive_def identity_parts_def
      evidence_window_ttl_seconds_def sample_ttls_def)

end
