(* ===== verification/Audit_Replay.thy ===== *)
theory Audit_Replay
  imports Casefile_Sample Rulebook_V1
begin

text \<open>
  Audit replay: \<open>audit/replay.py\<close>. \<open>isoformat\<close> is the text of a timestamp. The replay runs the gates with no dedupe store; the
  property tells for which stored decisions it gives the stored action back.
\<close>

section \<open>Replay\<close>

definition reproduce_gate_decision ::
  "('s \<Rightarrow> string \<Rightarrow> bool result \<times> 's) \<Rightarrow> ('s \<Rightarrow> string \<Rightarrow> action \<Rightarrow> bool result \<times> 's) \<Rightarrow> casefile_triage \<Rightarrow> rulebook \<Rightarrow>
   action_decision result" where
  "reproduce_gate_decision is_dup rem c rb =
     (if py_str_int (rb_version rb) \<noteq> cv_rulebook_version (tg_policy_versions c)
      then raise ValueError (''Rulebook version mismatch: casefile records version '' @ cv_rulebook_version (tg_policy_versions c) @
        '' but provided rulebook has version '' @ py_str_int (rb_version rb) @
        ''. Use the exact rulebook version that produced the original decision.'')
      else fst (evaluate_rulebook_gates is_dup rem (tg_gate_input c) rb None))"

fun evidence_status_value :: "evidence_status \<Rightarrow> string" where
  "evidence_status_value PRESENT = ''PRESENT''"
| "evidence_status_value UNKNOWN = ''UNKNOWN''"
| "evidence_status_value ABSENT = ''ABSENT''"
| "evidence_status_value STALE = ''STALE''"

definition dump_policy_versions :: "casefile_policy_versions \<Rightarrow> (string, jval) pydict" where
  "dump_policy_versions v =
     [(''rulebook_version'', JStr (cv_rulebook_version v)), (''peak_policy_version'', JStr (cv_peak_policy_version v)),
      (''prometheus_metrics_contract_version'', JStr (cv_prometheus_metrics_contract_version v)),
      (''exposure_denylist_version'', JStr (cv_exposure_denylist_version v)),
      (''diagnosis_policy_version'', JStr (cv_diagnosis_policy_version v))]"

definition audit_row :: "evidence_row \<Rightarrow> jval" where
  "audit_row r = JDict [(''metric_key'', JStr (er_metric_key r)), (''value'', JFloat (er_value r)), (''scope'', JList (map JStr (er_scope r)))]"

definition build_audit_trail :: "(instant \<Rightarrow> string) \<Rightarrow> casefile_triage \<Rightarrow> (string, jval) pydict" where
  "build_audit_trail isoformat c =
     [(''case_id'', JStr (tg_case_id c)), (''triage_timestamp'', JStr (isoformat (tg_triage_timestamp c))),
      (''evidence_rows'', JList (map audit_row (sn_rows (tg_evidence_snapshot c)))),
      (''evidence_status_map'', JDict (map (\<lambda>(k, st). (k, JStr (evidence_status_value st))) (sn_evidence_status_map (tg_evidence_snapshot c)))),
      (''gate_rule_ids'', JList (map JStr (ad_gate_rule_ids (tg_action_decision c)))),
      (''gate_reason_codes'', JList (map JStr (ad_gate_reason_codes (tg_action_decision c)))),
      (''final_action'', JStr (action_value (ad_final_action (tg_action_decision c)))),
      (''policy_versions'', JDict (dump_policy_versions (tg_policy_versions c))), (''triage_hash'', JStr (tg_triage_hash c))]"

section \<open>Properties\<close>

text \<open>C39: What the audit replay reproduces. For a case file stamped with the version of the shipped rulebook, whose decision the gates made on
  its gate input with any dedupe store, the replay always returns a decision, with the same postmortem fields; but its action is never
  above NOTIFY, since a missing store counts as a store error. It equals the stored action exactly when that is NOTIFY or the gates
  before the dedupe already gave OBSERVE: no PAGE, no TICKET and no suppressed duplicate is ever reproduced.\<close>

theorem audit_replay_reproduces_iff:
  assumes "evaluate_rulebook_gates is_dup rem (tg_gate_input c) rulebook_v1 store = (Inr (tg_action_decision c), store')"
    and "cv_rulebook_version (tg_policy_versions c) = ''1''"
  shows "\<exists>d. reproduce_gate_decision is_dup rem c rulebook_v1 = Inr d \<and> ad_final_action d \<le> NOTIFY \<and>
    ad_postmortem_required d = ad_postmortem_required (tg_action_decision c) \<and>
    (ad_final_action d = ad_final_action (tg_action_decision c) \<longleftrightarrow>
       ad_final_action (tg_action_decision c) = NOTIFY \<or> v1_action (tg_gate_input c) = OBSERVE)"
proof -
  let ?gi = "tg_gate_input c"
  have stored: "ad_final_action (tg_action_decision c) = v1_final is_dup rem ?gi store"
      "ad_postmortem_required (tg_action_decision c) = v1_postmortem ?gi"
    using v1_evaluate [of is_dup rem ?gi store] assms(1) by auto
  obtain d st where d: "evaluate_rulebook_gates is_dup rem ?gi rulebook_v1 None = (Inr d, st)"
      "ad_final_action d = v1_final is_dup rem ?gi None" "ad_postmortem_required d = v1_postmortem ?gi"
    using v1_evaluate [of is_dup rem ?gi None] by blast
  have "py_str_int 1 = ''1''" by code_simp
  then have "reproduce_gate_decision is_dup rem c rulebook_v1 = Inr d"
    using assms(2) d(1) by (simp add: reproduce_gate_decision_def rulebook_v1_def [THEN arg_cong, of rb_version])
  moreover have "ad_final_action d = (if v1_action ?gi = OBSERVE then OBSERVE else NOTIFY)"
    using d(2) by (simp add: v1_final_def v1_after_dedupe_def)
  moreover have "v1_action ?gi = OBSERVE \<Longrightarrow> v1_final is_dup rem ?gi store = OBSERVE"
    by (simp add: v1_final_def v1_after_dedupe_def)
  ultimately show ?thesis using stored d(3) by (auto simp: less_eq_action_def)
qed

lemma audit_replay_reproduces_iff_witness:
  "\<exists>c d. ad_final_action (tg_action_decision c) = PAGE \<and>
     reproduce_gate_decision (store_is_duplicate sim_get) (store_remember sim_set) c rulebook_v1 = Inr d \<and> ad_final_action d \<noteq> PAGE"
proof -
  let ?dup = "store_is_duplicate sim_get" and ?rem = "store_remember sim_set"
  obtain d0 store' where d0: "evaluate_rulebook_gates ?dup ?rem sample_gate_input rulebook_v1 (Some sample_store) = (Inr d0, store')"
      "ad_final_action d0 = v1_final ?dup ?rem sample_gate_input (Some sample_store)"
    using v1_evaluate by blast
  have "v1_final ?dup ?rem sample_gate_input (Some sample_store) = PAGE"
    unfolding v1_final_def v1_after_dedupe_page
    by (simp add: v1_action_page v1_ceiling_page v1_weak_def sample_gate_input_def sample_finding_def ag0_is_valid_def py_strip_def
        py_isspace_def ag2_has_insufficient_evidence_def evidence_missing_def float_0_6_def store_is_duplicate_def sample_store_def
        new_dedupe_store_def sim_get_def sim_present_def store_remember_def sim_set_def store_ttl_for_action_def fr33_default_ttl_def ex_bool_eq)
  with d0(2) have page: "ad_final_action d0 = PAGE" by simp
  let ?c = "(sample_triage [] 0)\<lparr>tg_gate_input := sample_gate_input, tg_action_decision := d0\<rparr>"
  have c: "evaluate_rulebook_gates ?dup ?rem (tg_gate_input ?c) rulebook_v1 (Some sample_store) = (Inr (tg_action_decision ?c), store')"
      "cv_rulebook_version (tg_policy_versions ?c) = ''1''"
    using d0(1) by (simp_all add: sample_triage_def)
  from audit_replay_reproduces_iff [OF c] obtain d where d: "reproduce_gate_decision ?dup ?rem ?c rulebook_v1 = Inr d" "ad_final_action d \<le> NOTIFY"
    by blast
  have "\<not> PAGE \<le> NOTIFY" by (simp add: less_eq_action_def)
  with d(2) have "ad_final_action d \<noteq> PAGE" by metis
  with d(1) page show ?thesis by (intro exI [of _ ?c] exI [of _ d]) simp
qed

end
