(* ===== verification/Cold_Path.thy ===== *)
theory Cold_Path
  imports Casefile_Sample Alerts Outbox_Worker Dispatch
begin

text \<open>
  The cold path: \<open>diagnosis/graph.py\<close>, \<open>diagnosis/prompt.py\<close>, \<open>diagnosis/fallback.py\<close> and \<open>integrations/llm.py\<close>. The LLM endpoint is a
  parameter, a POST that returns its JSON answer or one of the failures the code tells apart (timeout, transport, anything
  else by class name); the one-node graph of LangGraph runs its node. \<open>cp_report_codec\<close> and \<open>cp_excerpt_codec\<close> are pydantic's
  reading and writing of a report and of an excerpt; a \<open>ValueError\<close> of a reading is its \<open>ValidationError\<close>. The state holds
  the endpoint, the object store, the health registry, the alert evaluator, the in-flight gauge and the completion
  metrics; latency and log records are left out, non-ASCII punctuation of the prompt is written in ASCII.
\<close>

section \<open>LLM client\<close>

datatype llm_failure = LLM_Timeout | LLM_Invalid | LLM_Transport string | LLM_Other string

datatype llm_failure_mode = FAIL_NONE | FAIL_TIMEOUT | FAIL_UNAVAILABLE | FAIL_MALFORMED | FAIL_ERROR

fun failure_reason_code :: "llm_failure_mode \<Rightarrow> string" where
  "failure_reason_code FAIL_NONE = ''LLM_STUB''"
| "failure_reason_code FAIL_TIMEOUT = ''LLM_TIMEOUT''"
| "failure_reason_code FAIL_UNAVAILABLE = ''LLM_UNAVAILABLE''"
| "failure_reason_code FAIL_MALFORMED = ''LLM_SCHEMA_INVALID''"
| "failure_reason_code FAIL_ERROR = ''LLM_ERROR''"

record llm_client =
  lc_mode :: integration_mode
  lc_failure_mode :: llm_failure_mode
  lc_base_url :: "string option"
  lc_api_key :: "string option"

definition build_fallback_report :: "string list \<Rightarrow> string option \<Rightarrow> diagnosis_report" where
  "build_fallback_report reason_codes case_id =
     \<lparr>dx_case_id = case_id, dx_verdict = ''UNKNOWN'', dx_fault_domain = None, dx_confidence = CONFIDENCE_LOW,
      dx_evidence_pack = \<lparr>ep_facts = [], ep_missing_evidence = [], ep_matched_rules = []\<rparr>, dx_next_checks = [], dx_gaps = [],
      dx_reason_codes = reason_codes, dx_triage_hash = None\<rparr>"

type_synonym 'w llm_post = "pyfloat \<Rightarrow> string \<Rightarrow> (string, string) pydict \<Rightarrow> jval \<Rightarrow> 'w \<Rightarrow> (llm_failure + jval) \<times> 'w"

record ('w, 's) cold_services =
  cp_post :: "'w llm_post"
  cp_client :: llm_client
  cp_search :: "string \<Rightarrow> string \<Rightarrow> bool"
  cp_denylist :: denylist
  cp_report_codec :: "diagnosis_report model_codec"
  cp_excerpt_codec :: "triage_excerpt model_codec"
  cp_codecs :: casefile_codecs
  cp_sha256_hex :: "string \<Rightarrow> string"
  cp_put :: "'s store_put"
  cp_get :: "'s store_get"
  cp_clock :: instant
  cp_timeout_seconds :: pyfloat

definition validate_report :: "('w, 's) cold_services \<Rightarrow> (string, jval) pydict \<Rightarrow> diagnosis_report result" where
  "validate_report sv d = model_validate (cp_report_codec sv) validate_diagnosis_report d"

definition failure_of :: "py_exc \<Rightarrow> llm_failure" where
  "failure_of e = (if exc_type e = ValueError then LLM_Invalid else LLM_Other (exc_name (exc_type e)))"

definition llm_invoke ::
  "('w, 's) cold_services \<Rightarrow> string \<Rightarrow> string \<Rightarrow> 'w \<Rightarrow> (llm_failure + diagnosis_report) \<times> 'w" where
  "llm_invoke sv case_id prompt w =
     (let c = cp_client sv in
      if lc_mode c = MODE_OFF then (Inl (LLM_Other ''ValueError''), w)
      else if lc_mode c = MODE_LIVE then
        (if lc_base_url c = None \<or> lc_base_url c = Some [] then (Inl (LLM_Other ''ValueError''), w)
         else case cp_post sv (cp_timeout_seconds sv) (the (lc_base_url c) @ ''/diagnose'')
             ((''Content-Type'', ''application/json'') #
              (case lc_api_key c of Some k \<Rightarrow> if k = [] then [] else [(''Authorization'', ''Bearer '' @ k)] | None \<Rightarrow> []))
             (JDict [(''case_id'', JStr case_id), (''prompt'', JStr prompt)]) w of
           (Inl f, w') \<Rightarrow> (Inl f, w')
         | (Inr (JDict d), w') \<Rightarrow>
             ((case validate_report sv (dict_set d ''case_id'' (JStr case_id)) of Inl e \<Rightarrow> Inl (failure_of e) | Inr r \<Rightarrow> Inr r), w')
         | (Inr _, w') \<Rightarrow> (Inl (LLM_Other ''TypeError''), w'))
      else (Inr (build_fallback_report [failure_reason_code (lc_failure_mode c)] (Some case_id)), w))"

section \<open>Prompt\<close>

definition newline :: string where
  "newline = [CHR 0x0A]"

definition system_instruction :: string where
  "system_instruction = py_join newline
     [''You are a production incident diagnosis assistant for a Kafka-based AIOps platform.'',
      '''',
      ''Analyze the provided triage excerpt and evidence summary and produce a diagnosis report.'',
      '''',
      ''OUTPUT REQUIREMENTS:'',
      ''- Respond ONLY with valid JSON matching the DiagnosisReportV1 schema (defined below)'',
      ''- Do NOT include any text outside the JSON object'',
      ''- Do NOT fabricate metric values, counts, or findings not present in the evidence pack'',
      ''- If evidence is UNKNOWN or missing, propagate UNKNOWN - never assume presence or default to zero'',
      '''',
      ''EVIDENCE CITATION RULES:'',
      ''- Cite only evidence IDs and keys explicitly provided in the evidence_status_map'',
      ''- Reference specific findings by their finding_id from the findings list'',
      ''- The evidence_pack.facts field must cite observable evidence (PRESENT status only)'',
      ''- The evidence_pack.missing_evidence field must list any evidence with UNKNOWN/ABSENT/STALE status'',
      ''- The evidence_pack.matched_rules field cites Rulebook finding IDs'',
      '''',
      ''DIAGNOSISREPORTV1 JSON SCHEMA:'',
      ''{'',
      ''  \"schema_version\": \"v1\",'',
      ''  \"case_id\": \"<string or null>\",'',
      ''  \"verdict\": \"<non-empty string>\",'',
      ''  \"fault_domain\": \"<string or null>\",'',
      ''  \"confidence\": \"LOW\" | \"MEDIUM\" | \"HIGH\",'',
      ''  \"evidence_pack\": {'',
      ''    \"facts\": [\"<cited evidence fact>\", ...],'',
      ''    \"missing_evidence\": [\"<UNKNOWN/ABSENT evidence ID>\", ...],'',
      ''    \"matched_rules\": [\"<finding_id>\", ...]'',
      ''  },'',
      ''  \"next_checks\": [\"<recommended check>\", ...],'',
      ''  \"gaps\": [\"<evidence gap>\", ...],'',
      ''  \"reason_codes\": [],'',
      ''  \"triage_hash\": null'',
      ''}'']"

fun prompt_status :: "evidence_status \<Rightarrow> string" where
  "prompt_status PRESENT = ''PRESENT''"
| "prompt_status UNKNOWN = ''UNKNOWN''"
| "prompt_status ABSENT = ''ABSENT''"
| "prompt_status STALE = ''STALE''"

definition bool_text :: "bool \<Rightarrow> string" where
  "bool_text b = (if b then ''True'' else ''False'')"

definition or_line :: "string \<Rightarrow> string \<Rightarrow> string" where
  "or_line text other = (if text = [] then other else text)"

definition build_llm_prompt :: "triage_excerpt \<Rightarrow> string \<Rightarrow> string" where
  "build_llm_prompt x evidence_summary =
     (let evidence_lines = py_join newline (map (\<lambda>(k, st). ''  '' @ k @ '': '' @ prompt_status st) (xe_evidence_status_map x));
          findings_lines = py_join newline (map (\<lambda>f. ''  ['' @ fi_finding_id f @ ''] '' @ fi_name f @ '' (anomalous='' @
            bool_text (fi_is_anomalous f) @ '')'') (xe_findings x));
          case_context = py_strip (py_join newline
            ['''', ''CASE CONTEXT:'', ''  case_id: '' @ xe_case_id x, ''  anomaly_family: '' @ anomaly_family_value (xe_anomaly_family x),
             ''  topic: '' @ xe_topic x, ''  cluster_id: '' @ xe_cluster_id x, ''  stream_id: '' @ xe_stream_id x,
             ''  criticality_tier: '' @ tier_value (xe_criticality_tier x), ''  sustained: '' @ bool_text (xe_sustained x),
             ''  peak: '' @ (case xe_peak x of None \<Rightarrow> ''None'' | Some b \<Rightarrow> bool_text b), ''  env: '' @ environment_value (xe_env x),
             '''', ''EVIDENCE STATUS MAP (UNKNOWN = missing data - do NOT assume zero):'',
             or_line evidence_lines ''  (no evidence entries)'', '''', ''FINDINGS:'', or_line findings_lines ''  (no findings)'',
             '''', ''EVIDENCE SUMMARY:'', evidence_summary, ''''])
      in system_instruction @ newline @ newline @ case_context)"

section \<open>State\<close>

record llm_completion =
  lm_result :: string
  lm_fallback_reason :: "string option"
  lm_error_type :: "string option"
  lm_timeout :: bool

record ('w, 's) cold_world =
  cw_llm :: 'w
  cw_store :: 's
  cw_health :: health_registry
  cw_alerts :: "alert_evaluator option"
  cw_inflight :: int
  cw_recorded :: bool
  cw_completions :: "llm_completion list"
  cw_alert_log :: "alert_evaluation list"

record cold_request =
  cq_case_id :: string
  cq_excerpt :: triage_excerpt
  cq_evidence_summary :: string
  cq_triage_hash :: string

definition update_llm_health ::
  "('w, 's) cold_services \<Rightarrow> health_status \<Rightarrow> string option \<Rightarrow> ('w, 's) cold_world \<Rightarrow> ('w, 's) cold_world" where
  "update_llm_health sv st reason w = w\<lparr>cw_health := health_update (cp_clock sv) ''llm'' st reason (cw_health w)\<rparr>"

definition record_llm_completion :: "llm_completion \<Rightarrow> ('w, 's) cold_world \<Rightarrow> unit result \<times> ('w, 's) cold_world" where
  "record_llm_completion m w =
     (if cw_recorded w then (Inr (), w)
      else let w1 = w\<lparr>cw_recorded := True, cw_completions := cw_completions w @ [m]\<rparr>
           in case cw_alerts w of
                None \<Rightarrow> (Inr (), w1)
              | Some av \<Rightarrow> (case record_llm_invocation_result (lm_result m) av of
                  (Inl e, av') \<Rightarrow> (Inl e, w1\<lparr>cw_alerts := Some av'\<rparr>)
                | (Inr None, av') \<Rightarrow> (Inr (), w1\<lparr>cw_alerts := Some av'\<rparr>)
                | (Inr (Some a), av') \<Rightarrow> (Inr (), w1\<lparr>cw_alerts := Some av', cw_alert_log := cw_alert_log w1 @ [a]\<rparr>)))"

definition cold_store ::
  "('s \<Rightarrow> 'a result \<times> 's) \<Rightarrow> ('w, 's) cold_world \<Rightarrow> 'a result \<times> ('w, 's) cold_world" where
  "cold_store f w = (case f (cw_store w) of (r, s) \<Rightarrow> (r, w\<lparr>cw_store := s\<rparr>))"

section \<open>Diagnosis\<close>

text \<open>Seal a report into a case file and write it, as both the success and the fallback path do.\<close>

definition seal_and_persist ::
  "('w, 's) cold_services \<Rightarrow> cold_request \<Rightarrow> diagnosis_report \<Rightarrow> ('w, 's) cold_world \<Rightarrow> unit result \<times> ('w, 's) cold_world" where
  "seal_and_persist sv q report w =
     (let casefile = (\<lambda>h. validate_casefile_diagnosis
        \<lparr>dg_case_id = cq_case_id q, dg_diagnosis_report = report, dg_triage_hash = cq_triage_hash q, dg_diagnosis_hash = h\<rparr>) in
      st_bind (casefile hash_placeholder, w) (\<lambda>placeholder w.
      st_bind (compute_casefile_diagnosis_hash (cp_sha256_hex sv) (cp_codecs sv) placeholder, w) (\<lambda>h w.
      st_bind (casefile h, w) (\<lambda>c w.
      st_bind (cold_store (persist_casefile_diagnosis_write_once (cp_put sv) (cp_get sv) (cp_sha256_hex sv) (cp_codecs sv) c) w)
        (\<lambda>_ w. (Inr (), w))))))"

definition make_and_persist_fallback ::
  "('w, 's) cold_services \<Rightarrow> cold_request \<Rightarrow> string \<Rightarrow> string list \<Rightarrow> ('w, 's) cold_world \<Rightarrow> diagnosis_report result \<times> ('w, 's) cold_world" where
  "make_and_persist_fallback sv q reason_code gaps w =
     (let raw = mc_dump (cp_report_codec sv) (build_fallback_report [reason_code] (Some (cq_case_id q))) in
      st_bind (validate_report sv (dict_set (dict_set (dict_set raw ''triage_hash'' (JStr (cq_triage_hash q)))
        ''case_id'' (JStr (cq_case_id q))) ''gaps'' (JList (map JStr gaps))), w) (\<lambda>report w.
      st_bind (seal_and_persist sv q report w) (\<lambda>_ w. (Inr report, w))))"

text \<open>The four failure branches: health reason, fallback code, error type and gaps.\<close>

definition fall_back ::
  "('w, 's) cold_services \<Rightarrow> cold_request \<Rightarrow> string \<Rightarrow> string \<Rightarrow> string \<Rightarrow> bool \<Rightarrow> string list \<Rightarrow> ('w, 's) cold_world \<Rightarrow>
   diagnosis_report result \<times> ('w, 's) cold_world" where
  "fall_back sv q health_reason code error_type timed_out gaps w =
     st_bind (record_llm_completion
       \<lparr>lm_result = ''fallback'', lm_fallback_reason = Some code, lm_error_type = Some error_type, lm_timeout = timed_out\<rparr>
       (update_llm_health sv DEGRADED (Some health_reason) w)) (\<lambda>_ w.
     make_and_persist_fallback sv q code gaps w)"

fun handle_llm_failure ::
  "('w, 's) cold_services \<Rightarrow> cold_request \<Rightarrow> llm_failure \<Rightarrow> ('w, 's) cold_world \<Rightarrow> diagnosis_report result \<times> ('w, 's) cold_world" where
  "handle_llm_failure sv q LLM_Timeout w = fall_back sv q ''cold_path_timeout'' ''LLM_TIMEOUT'' ''TimeoutError'' True [] w"
| "handle_llm_failure sv q LLM_Invalid w =
     fall_back sv q ''cold_path_schema_invalid'' ''LLM_SCHEMA_INVALID'' ''ValidationError'' False [''LLM output failed schema validation''] w"
| "handle_llm_failure sv q (LLM_Transport cls) w = fall_back sv q ''cold_path_unavailable'' ''LLM_UNAVAILABLE'' cls False [] w"
| "handle_llm_failure sv q (LLM_Other cls) w = fall_back sv q ''cold_path_invocation_failed'' ''LLM_ERROR'' cls False [] w"

text \<open>The answer of the LLM, sanitised and bound to the case.\<close>

definition finish_report :: "('w, 's) cold_services \<Rightarrow> cold_request \<Rightarrow> diagnosis_report \<Rightarrow> diagnosis_report result" where
  "finish_report sv q raw =
     validate_report sv (dict_set (dict_set (apply_denylist (cp_search sv) (cp_denylist sv) (mc_dump (cp_report_codec sv) raw))
       ''triage_hash'' (JStr (cq_triage_hash q))) ''case_id'' (JStr (cq_case_id q)))"

definition write_diagnosis ::
  "('w, 's) cold_services \<Rightarrow> cold_request \<Rightarrow> diagnosis_report \<Rightarrow> ('w, 's) cold_world \<Rightarrow> diagnosis_report result \<times> ('w, 's) cold_world" where
  "write_diagnosis sv q report w = (case seal_and_persist sv q report w of
       (Inl e, w1) \<Rightarrow>
         st_bind (record_llm_completion
           \<lparr>lm_result = ''error'', lm_fallback_reason = None, lm_error_type = Some (exc_name (exc_type e)), lm_timeout = False\<rparr>
           (update_llm_health sv DEGRADED (Some ''cold_path_invocation_failed'') w1)) (\<lambda>_ w. (Inl e, w))
     | (Inr _, w1) \<Rightarrow>
         st_bind (record_llm_completion
           \<lparr>lm_result = ''success'', lm_fallback_reason = None, lm_error_type = None, lm_timeout = False\<rparr>
           (update_llm_health sv HEALTHY None w1)) (\<lambda>_ w. (Inr report, w)))"

text \<open>The awaited graph: a timeout that is not positive expires before the node starts.\<close>

definition await_graph ::
  "('w, 's) cold_services \<Rightarrow> cold_request \<Rightarrow> triage_excerpt \<Rightarrow> 'w \<Rightarrow> (llm_failure + diagnosis_report) \<times> 'w" where
  "await_graph sv q safe_excerpt w =
     (if fl_le (cp_timeout_seconds sv) (Fin 0) then (Inl LLM_Timeout, w)
      else llm_invoke sv (cq_case_id q) (build_llm_prompt safe_excerpt (cq_evidence_summary q)) w)"

definition diagnose ::
  "('w, 's) cold_services \<Rightarrow> cold_request \<Rightarrow> triage_excerpt \<Rightarrow> ('w, 's) cold_world \<Rightarrow> diagnosis_report result \<times> ('w, 's) cold_world" where
  "diagnose sv q safe_excerpt w = (case await_graph sv q safe_excerpt (cw_llm w) of
       (answer, llm) \<Rightarrow>
         (let w1 = w\<lparr>cw_llm := llm\<rparr> in
          case answer of
            Inl f \<Rightarrow> handle_llm_failure sv q f w1
          | Inr raw \<Rightarrow> (case finish_report sv q raw of
                Inl e \<Rightarrow> handle_llm_failure sv q (failure_of e) w1
              | Inr report \<Rightarrow> write_diagnosis sv q report w1)))"

definition run_cold_path_diagnosis ::
  "('w, 's) cold_services \<Rightarrow> cold_request \<Rightarrow> ('w, 's) cold_world \<Rightarrow> diagnosis_report result \<times> ('w, 's) cold_world" where
  "run_cold_path_diagnosis sv q w =
     st_bind (model_validate (cp_excerpt_codec sv) validate_triage_excerpt
       (apply_denylist (cp_search sv) (cp_denylist sv) (mc_dump (cp_excerpt_codec sv) (cq_excerpt q))), w) (\<lambda>safe_excerpt w.
       let w1 = (update_llm_health sv HEALTHY (Some ''cold_path_invocation_started'') w)\<lparr>cw_inflight := cw_inflight w + 1, cw_recorded := False\<rparr>;
           (res, w2) = diagnose sv q safe_excerpt w1;
           (res', w3) = (case res of
               Inr report \<Rightarrow> (Inr report, w2)
             | Inl e \<Rightarrow> st_bind (record_llm_completion
                 \<lparr>lm_result = ''error'', lm_fallback_reason = None, lm_error_type = Some (exc_name (exc_type e)), lm_timeout = False\<rparr> w2)
                 (\<lambda>_ w. (Inl e, w)))
       in (res', w3\<lparr>cw_inflight := cw_inflight w3 - 1\<rparr>))"

definition meets_invocation_criteria :: "triage_excerpt \<Rightarrow> app_env \<Rightarrow> bool" where
  "meets_invocation_criteria x env = (env = APP_PROD \<and> xe_criticality_tier x = TIER_0 \<and> xe_sustained x)"

text \<open>The task to run, if the case is eligible.\<close>

definition spawn_cold_path_diagnosis_task ::
  "('w, 's) cold_services \<Rightarrow> cold_request \<Rightarrow> app_env \<Rightarrow> (('w, 's) cold_world \<Rightarrow> diagnosis_report result \<times> ('w, 's) cold_world) option" where
  "spawn_cold_path_diagnosis_task sv q env =
     (if meets_invocation_criteria (cq_excerpt q) env then Some (run_cold_path_diagnosis sv q) else None)"

end
