(* ===== verification/Cold_Path_Properties.thy ===== *)
theory Cold_Path_Properties
  imports Cold_Path Casefile_Properties
begin

text \<open>
  The properties of the cold path: what one run records, and what it leaves in the object store. The store is any
  \<open>object_store\<close>; \<open>binds_case\<close> is what the runs rely on of pydantic's reading of a report. The sample services at the end
  of the definitions run the model for the witnesses.
\<close>

section \<open>Sample services\<close>

text \<open>Pydantic reads the case id and the triage hash of a report from the keys of those names.\<close>

definition binds_case :: "diagnosis_report model_codec \<Rightarrow> bool" where
  "binds_case cd = (\<forall>d r. mc_load cd d = Inr r \<longrightarrow>
     (\<forall>x. dict_get d ''case_id'' = Some (JStr x) \<longrightarrow> dx_case_id r = Some x) \<and>
     (\<forall>x. dict_get d ''triage_hash'' = Some (JStr x) \<longrightarrow> dx_triage_hash r = Some x))"

definition str_key :: "(string, jval) pydict \<Rightarrow> string \<Rightarrow> string option" where
  "str_key d k = (case dict_get d k of Some (JStr x) \<Rightarrow> Some x | _ \<Rightarrow> None)"

definition opt_str :: "string option \<Rightarrow> jval" where
  "opt_str v = (case v of None \<Rightarrow> JNull | Some x \<Rightarrow> JStr x)"

text \<open>A report codec that carries the verdict and the two bindings, and an excerpt codec for one excerpt.\<close>

definition sample_report_codec :: "diagnosis_report model_codec" where
  "sample_report_codec =
     \<lparr>mc_dump = (\<lambda>r. [(''verdict'', JStr (dx_verdict r)), (''case_id'', opt_str (dx_case_id r)), (''triage_hash'', opt_str (dx_triage_hash r))]),
      mc_load = (\<lambda>d. case str_key d ''verdict'' of None \<Rightarrow> raise ValueError ''Field required''
        | Some v \<Rightarrow> Inr ((build_fallback_report [] (str_key d ''case_id''))\<lparr>dx_verdict := v, dx_triage_hash := str_key d ''triage_hash''\<rparr>)),
      mc_dump_json = dx_verdict, mc_load_json = (\<lambda>s. Inr (build_fallback_report [] None))\<rparr>"

definition sample_excerpt :: triage_excerpt where
  "sample_excerpt = \<lparr>xe_case_id = ''case1'', xe_env = PROD_ENV, xe_cluster_id = ''c1'', xe_stream_id = ''s1'', xe_topic = ''t1'',
     xe_anomaly_family = VOLUME_DROP, xe_topic_role = SOURCE_TOPIC, xe_criticality_tier = TIER_0, xe_routing_key = ''team'',
     xe_sustained = True, xe_peak = None, xe_evidence_status_map = [], xe_findings = [], xe_triage_timestamp = 0\<rparr>"

definition sample_excerpt_codec :: "triage_excerpt model_codec" where
  "sample_excerpt_codec =
     \<lparr>mc_dump = (\<lambda>x. [(''case_id'', JStr (xe_case_id x))]), mc_load = (\<lambda>d. Inr sample_excerpt),
      mc_dump_json = xe_case_id, mc_load_json = (\<lambda>s. Inr sample_excerpt)\<rparr>"

definition sample_services :: "(llm_failure + jval) \<Rightarrow> (unit, sim_s3) cold_services" where
  "sample_services answer =
     \<lparr>cp_post = (\<lambda>_ _ _ _ w. (answer, w)),
      cp_client = \<lparr>lc_mode = MODE_LIVE, lc_failure_mode = FAIL_NONE, lc_base_url = Some ''http://llm'', lc_api_key = None\<rparr>,
      cp_search = (\<lambda>_ _. False), cp_denylist = sample_denylist, cp_report_codec = sample_report_codec,
      cp_excerpt_codec = sample_excerpt_codec, cp_codecs = sample_codecs, cp_sha256_hex = sample_digest,
      cp_put = bucket_put, cp_get = bucket_get, cp_clock = 0, cp_timeout_seconds = Fin 60\<rparr>"

definition sample_request :: cold_request where
  "sample_request = \<lparr>cq_case_id = ''case1'', cq_excerpt = sample_excerpt, cq_evidence_summary = [], cq_triage_hash = hash_placeholder\<rparr>"

definition sample_world :: "(unit, sim_s3) cold_world" where
  "sample_world = \<lparr>cw_llm = (), cw_store = sample_bucket [], cw_health = [], cw_alerts = None, cw_inflight = 0, cw_recorded = False,
     cw_completions = [], cw_alert_log = []\<rparr>"

definition sample_report :: diagnosis_report where
  "sample_report = (build_fallback_report [] (Some ''case1''))\<lparr>dx_triage_hash := Some hash_placeholder\<rparr>"

definition sample_case_diagnosis :: "string \<Rightarrow> casefile_diagnosis" where
  "sample_case_diagnosis h =
     \<lparr>dg_case_id = ''case1'', dg_diagnosis_report = sample_report, dg_triage_hash = hash_placeholder, dg_diagnosis_hash = h\<rparr>"

definition sample_case_hash :: string where
  "sample_case_hash = sample_digest (replicate 128 (CHR ''0''))"

section \<open>What a run records\<close>

lemma update_health_fields [simp]:
  "cw_llm (update_llm_health sv st r w) = cw_llm w" "cw_store (update_llm_health sv st r w) = cw_store w"
  "cw_inflight (update_llm_health sv st r w) = cw_inflight w" "cw_recorded (update_llm_health sv st r w) = cw_recorded w"
  "cw_completions (update_llm_health sv st r w) = cw_completions w"
  "health_get (cw_health (update_llm_health sv st r w)) c = (if c = ''llm'' then Some st else health_get (cw_health w) c)"
  by (simp_all add: update_llm_health_def)

text \<open>One completion: the first call records it, whatever the alert evaluator answers; a later one does nothing.\<close>

lemma record_first:
  assumes "record_llm_completion m w = (r, w')" and "\<not> cw_recorded w"
  shows "cw_recorded w'" "cw_completions w' = cw_completions w @ [m]" "cw_inflight w' = cw_inflight w" "cw_health w' = cw_health w"
    "cw_store w' = cw_store w"
  using assms by (auto simp: record_llm_completion_def Let_def split: option.splits prod.splits sum.splits)

lemma record_again: "cw_recorded w \<Longrightarrow> record_llm_completion m w = (Inr (), w)"
  by (simp add: record_llm_completion_def)

lemma cold_store_fields:
  "cold_store f w = (r, w') \<Longrightarrow> w' = w\<lparr>cw_store := cw_store w'\<rparr> \<and> f (cw_store w) = (r, cw_store w')"
  by (auto simp: cold_store_def split: prod.splits)

lemma seal_frame:
  "seal_and_persist sv q report w = (r, w') \<Longrightarrow> w' = w\<lparr>cw_store := cw_store w'\<rparr>"
  by (auto simp: seal_and_persist_def Let_def st_bind_def dest!: cold_store_fields split: sum.splits prod.splits)

lemma seal_fields:
  assumes "seal_and_persist sv q report w = (r, w')"
  shows "cw_recorded w' = cw_recorded w" "cw_completions w' = cw_completions w" "cw_inflight w' = cw_inflight w" "cw_health w' = cw_health w"
proof -
  obtain x where "w' = w\<lparr>cw_store := x\<rparr>" using seal_frame [OF assms] by blast
  then show "cw_recorded w' = cw_recorded w" "cw_completions w' = cw_completions w" "cw_inflight w' = cw_inflight w" "cw_health w' = cw_health w"
    by simp_all
qed

lemma make_fallback_frame:
  "make_and_persist_fallback sv q code gaps w = (r, w') \<Longrightarrow> w' = w\<lparr>cw_store := cw_store w'\<rparr>"
  by (auto simp: make_and_persist_fallback_def Let_def st_bind_def dest: seal_frame split: sum.splits prod.splits)

text \<open>What every way through the diagnosis leaves behind: one completion, and the health that goes with it.\<close>

definition completed ::
  "('w, 's) cold_world \<Rightarrow> diagnosis_report result \<Rightarrow> ('w, 's) cold_world \<Rightarrow> bool" where
  "completed w r w' = (cw_recorded w' \<and> cw_inflight w' = cw_inflight w \<and>
     (\<forall>c. c \<noteq> ''llm'' \<longrightarrow> health_get (cw_health w') c = health_get (cw_health w) c) \<and>
     (\<exists>m. cw_completions w' = cw_completions w @ [m] \<and>
        health_get (cw_health w') ''llm'' = Some (if lm_result m = ''success'' then HEALTHY else DEGRADED) \<and>
        (is_ok r \<longrightarrow> lm_result m = ''success'' \<or> lm_result m = ''fallback'')))"

lemma completed_store: "completed w r w' \<Longrightarrow> w'' = w'\<lparr>cw_store := x\<rparr> \<Longrightarrow> completed w r w''"
  by (simp add: completed_def)

lemma fall_back_completed:
  assumes "fall_back sv q reason code cls timed_out gaps w = (r, w')" and "\<not> cw_recorded w"
  shows "completed w r w'"
proof -
  let ?m = "\<lparr>lm_result = ''fallback'', lm_fallback_reason = Some code, lm_error_type = Some cls, lm_timeout = timed_out\<rparr>"
  let ?w = "update_llm_health sv DEGRADED (Some reason) w"
  obtain r1 w1 where r1: "record_llm_completion ?m ?w = (r1, w1)" by fastforce
  have c: "completed w x w1" for x
    using record_first [OF r1] assms(2) by (simp add: completed_def)
  show ?thesis
  proof (cases r1)
    case (Inl e)
    with assms(1) r1 c show ?thesis by (simp add: fall_back_def st_bind_def)
  next
    case (Inr u)
    with assms(1) r1 have "make_and_persist_fallback sv q code gaps w1 = (r, w')" by (simp add: fall_back_def st_bind_def)
    from completed_store [OF c make_fallback_frame [OF this]] show ?thesis .
  qed
qed

lemma handle_completed: "handle_llm_failure sv q f w = (r, w') \<Longrightarrow> \<not> cw_recorded w \<Longrightarrow> completed w r w'"
  by (cases f) (auto dest: fall_back_completed)

lemma write_completed:
  assumes "write_diagnosis sv q report w = (r, w')" and "\<not> cw_recorded w"
  shows "completed w r w'"
proof -
  obtain r0 w0 where s: "seal_and_persist sv q report w = (r0, w0)" by fastforce
  note f = seal_fields [OF s]
  show ?thesis
  proof (cases r0)
    case (Inl e)
    let ?m = "\<lparr>lm_result = ''error'', lm_fallback_reason = None, lm_error_type = Some (exc_name (exc_type e)), lm_timeout = False\<rparr>"
    obtain r1 w1 where r1: "record_llm_completion ?m (update_llm_health sv DEGRADED (Some ''cold_path_invocation_failed'') w0) = (r1, w1)"
      by fastforce
    have "w' = w1 \<and> \<not> is_ok r" using assms(1) s Inl r1 by (auto simp: write_diagnosis_def st_bind_def is_ok_def split: sum.splits)
    then show ?thesis using record_first [OF r1] assms(2) by (simp add: completed_def f)
  next
    case (Inr u)
    let ?m = "\<lparr>lm_result = ''success'', lm_fallback_reason = None, lm_error_type = None, lm_timeout = False\<rparr>"
    obtain r1 w1 where r1: "record_llm_completion ?m (update_llm_health sv HEALTHY None w0) = (r1, w1)" by fastforce
    have "w' = w1" using assms(1) s Inr r1 by (auto simp: write_diagnosis_def st_bind_def split: sum.splits)
    then show ?thesis using record_first [OF r1] assms(2) by (simp add: completed_def f)
  qed
qed

lemma diagnose_completed:
  assumes "diagnose sv q x w = (r, w')" and "\<not> cw_recorded w"
  shows "completed w r w'"
proof -
  have "completed (w\<lparr>cw_llm := l\<rparr>) r w' \<Longrightarrow> completed w r w'" for l by (simp add: completed_def)
  with assms show ?thesis
    by (auto simp: diagnose_def Let_def dest: handle_completed write_completed split: prod.splits sum.splits)
qed

section \<open>What a run stores\<close>

text \<open>The report sealed into the case file of its case.\<close>

definition sealed_report ::
  "('w, 's) cold_services \<Rightarrow> cold_request \<Rightarrow> diagnosis_report \<Rightarrow> casefile_diagnosis \<Rightarrow> bool" where
  "sealed_report sv q report c = (dg_case_id c = cq_case_id q \<and> dg_diagnosis_report c = report \<and> dg_triage_hash c = cq_triage_hash q \<and>
     compute_casefile_diagnosis_hash (cp_sha256_hex sv) (cp_codecs sv) c = Inr (dg_diagnosis_hash c))"

text \<open>The store after a run: only the diagnosis of the case may be new, and a report that was returned is there.\<close>

definition stored_report ::
  "('s \<Rightarrow> string \<Rightarrow> string option) \<Rightarrow> ('w, 's) cold_services \<Rightarrow> cold_request \<Rightarrow> diagnosis_report \<Rightarrow> 's \<Rightarrow> 's \<Rightarrow> bool" where
  "stored_report view sv q report s s' = (\<exists>c. sealed_report sv q report c \<and>
     view s' (stage_key (cq_case_id q) ''diagnosis'') = Some (mc_dump_json (cd_diagnosis (cp_codecs sv)) c) \<and>
     (view s' = view s \<or> view s (stage_key (cq_case_id q) ''diagnosis'') = None \<and>
        view s' = (view s)(stage_key (cq_case_id q) ''diagnosis'' \<mapsto> mc_dump_json (cd_diagnosis (cp_codecs sv)) c)))"

definition bound_to :: "cold_request \<Rightarrow> diagnosis_report \<Rightarrow> bool" where
  "bound_to q r = (dx_case_id r = Some (cq_case_id q) \<and> dx_triage_hash r = Some (cq_triage_hash q))"

lemma validate_report_bound:
  assumes "binds_case (cp_report_codec sv)" and "validate_report sv d = Inr r"
    and "dict_get d ''case_id'' = Some (JStr (cq_case_id q))" "dict_get d ''triage_hash'' = Some (JStr (cq_triage_hash q))"
  shows "bound_to q r"
proof -
  from assms(2) have "mc_load (cp_report_codec sv) d = Inr r"
    by (auto simp: validate_report_def model_validate_def validate_diagnosis_report_def py_simps split: if_splits)
  with assms(1,3,4) show ?thesis by (simp add: binds_case_def bound_to_def)
qed

lemma validate_diagnosis_same: "validate_casefile_diagnosis c = Inr c' \<Longrightarrow> c' = c"
  by (auto simp: validate_casefile_diagnosis_def py_simps)

lemma seal_stored:
  assumes "object_store (cp_put sv) (cp_get sv) view" and "seal_and_persist sv q report w = (Inr u, w')"
  shows "stored_report view sv q report (cw_store w) (cw_store w')"
proof -
  let ?key = "stage_key (cq_case_id q) ''diagnosis''" and ?hash = "compute_casefile_diagnosis_hash (cp_sha256_hex sv) (cp_codecs sv)"
  from assms(2) obtain h c p where
    c: "c = \<lparr>dg_case_id = cq_case_id q, dg_diagnosis_report = report, dg_triage_hash = cq_triage_hash q, dg_diagnosis_hash = h\<rparr>"
    and p: "persist_casefile_diagnosis_write_once (cp_put sv) (cp_get sv) (cp_sha256_hex sv) (cp_codecs sv) c (cw_store w) = (Inr p, cw_store w')"
    by (auto simp: seal_and_persist_def Let_def st_bind_Inr dest!: cold_store_fields validate_diagnosis_same)
  note ps = p [unfolded persist_casefile_diagnosis_write_once_def Let_def]
  from ps obtain pw where
    h: "?hash c = Inr (dg_diagnosis_hash c)"
    and pw: "persist_casefile_payload_write_once (cp_put sv) (cp_get sv) (cp_sha256_hex sv) (cp_codecs sv) (dg_case_id c) ''diagnosis''
      (mc_dump_json (cd_diagnosis (cp_codecs sv)) c) (dg_diagnosis_hash c)
      [(''triage_hash'', dg_triage_hash c), (''diagnosis_hash'', dg_diagnosis_hash c),
       (''payload_sha256'', cp_sha256_hex sv (mc_dump_json (cd_diagnosis (cp_codecs sv)) c))] (cw_store w) = (Inr pw, cw_store w')"
    by (auto simp: persist_stage_def st_bind_Inr py_simps)
  have "view (cw_store w') ?key = Some (mc_dump_json (cd_diagnosis (cp_codecs sv)) c)"
    using object_store.persist_payload_confirmed(2) [OF assms(1) pw] by (simp add: c)
  moreover have "view (cw_store w') = view (cw_store w) \<or> view (cw_store w) ?key = None \<and>
      view (cw_store w') = (view (cw_store w))(?key \<mapsto> mc_dump_json (cd_diagnosis (cp_codecs sv)) c)"
    using object_store.persist_payload_effect [OF assms(1) pw] by (simp add: c)
  moreover have "sealed_report sv q report c" using h by (simp add: sealed_report_def c)
  ultimately show ?thesis by (auto simp: stored_report_def)
qed

lemma fallback_stored:
  assumes "object_store (cp_put sv) (cp_get sv) view" "binds_case (cp_report_codec sv)"
    and "make_and_persist_fallback sv q code gaps w = (Inr report, w')"
  shows "bound_to q report \<and> stored_report view sv q report (cw_store w) (cw_store w')"
  using assms(3) seal_stored [OF assms(1)] validate_report_bound [OF assms(2)]
  by (auto simp: make_and_persist_fallback_def Let_def st_bind_Inr)

lemma record_store: "record_llm_completion m w = (r, w') \<Longrightarrow> cw_store w' = cw_store w"
  by (cases "cw_recorded w") (auto dest: record_first record_again [of w m])

lemma handle_stored:
  assumes "object_store (cp_put sv) (cp_get sv) view" "binds_case (cp_report_codec sv)"
    and "handle_llm_failure sv q f w = (Inr report, w')"
  shows "bound_to q report \<and> stored_report view sv q report (cw_store w) (cw_store w')"
  using assms(3) fallback_stored [OF assms(1,2)]
  by (cases f) (fastforce simp: fall_back_def st_bind_Inr dest: record_store)+

lemma write_stored:
  assumes "object_store (cp_put sv) (cp_get sv) view" and "write_diagnosis sv q report w = (Inr r, w')"
  shows "r = report \<and> stored_report view sv q report (cw_store w) (cw_store w')"
  using assms(2) seal_stored [OF assms(1)]
  by (auto simp: write_diagnosis_def st_bind_def dest!: record_store split: prod.splits sum.splits)

lemma diagnose_stored:
  assumes "object_store (cp_put sv) (cp_get sv) view" "binds_case (cp_report_codec sv)"
    and "diagnose sv q x w = (Inr report, w')"
  shows "bound_to q report \<and> stored_report view sv q report (cw_store w) (cw_store w')"
  using assms(3) handle_stored [OF assms(1,2)] write_stored [OF assms(1)] validate_report_bound [OF assms(2)]
  by (fastforce simp: diagnose_def Let_def finish_report_def split: prod.splits sum.splits)

section \<open>One run\<close>

definition safe_excerpt :: "('w, 's) cold_services \<Rightarrow> cold_request \<Rightarrow> triage_excerpt result" where
  "safe_excerpt sv q = model_validate (cp_excerpt_codec sv) validate_triage_excerpt
     (apply_denylist (cp_search sv) (cp_denylist sv) (mc_dump (cp_excerpt_codec sv) (cq_excerpt q)))"

definition run_start :: "('w, 's) cold_services \<Rightarrow> ('w, 's) cold_world \<Rightarrow> ('w, 's) cold_world" where
  "run_start sv w = (update_llm_health sv HEALTHY (Some ''cold_path_invocation_started'') w)
     \<lparr>cw_inflight := cw_inflight w + 1, cw_recorded := False\<rparr>"

lemma run_start_fields [simp]:
  "cw_inflight (run_start sv w) = cw_inflight w + 1" "\<not> cw_recorded (run_start sv w)" "cw_store (run_start sv w) = cw_store w"
  "cw_completions (run_start sv w) = cw_completions w"
  "health_get (cw_health (run_start sv w)) c = (if c = ''llm'' then Some HEALTHY else health_get (cw_health w) c)"
  by (simp_all add: run_start_def)

text \<open>The diagnosis records its completion itself, so the outer handler records nothing more.\<close>

lemma run_rejected: "safe_excerpt sv q = Inl e \<Longrightarrow> run_cold_path_diagnosis sv q w = (Inl e, w)"
  by (simp add: run_cold_path_diagnosis_def safe_excerpt_def st_bind_def)

lemma run_accepted:
  assumes "safe_excerpt sv q = Inr x" and "diagnose sv q x (run_start sv w) = (r, w1)"
  shows "run_cold_path_diagnosis sv q w = (r, w1\<lparr>cw_inflight := cw_inflight w1 - 1\<rparr>)"
proof -
  have "cw_recorded w1" using diagnose_completed [OF assms(2)] by (simp add: completed_def)
  then show ?thesis using assms
    by (auto simp: run_cold_path_diagnosis_def safe_excerpt_def run_start_def st_bind_def Let_def record_again split: sum.splits)
qed

lemma sample_await: "await_graph (sample_services (Inl f)) q x () = (Inl f, ())"
  by (simp add: await_graph_def llm_invoke_def sample_services_def)

lemma sample_safe: "safe_excerpt (sample_services a) sample_request = Inr sample_excerpt"
  by (simp add: safe_excerpt_def sample_services_def sample_excerpt_codec_def model_validate_def validate_triage_excerpt_def sample_excerpt_def)

lemma sample_diagnose:
  "diagnose (sample_services (Inl f)) q x (run_start (sample_services (Inl f)) sample_world) =
     handle_llm_failure (sample_services (Inl f)) q f (run_start (sample_services (Inl f)) sample_world)"
  by (simp add: diagnose_def sample_await run_start_def update_llm_health_def sample_world_def)

text \<open>The endpoint fails and the bucket takes the fallback: each step of the run is evaluated on its own.\<close>

lemma sample_case_valid:
  "validate_casefile_diagnosis (sample_case_diagnosis hash_placeholder) = Inr (sample_case_diagnosis hash_placeholder)"
  "validate_casefile_diagnosis (sample_case_diagnosis sample_case_hash) = Inr (sample_case_diagnosis sample_case_hash)"
  by (simp_all add: validate_casefile_diagnosis_def sample_case_diagnosis_def sample_report_def build_fallback_report_def
      validate_diagnosis_report_def validate_hash_field_def sample_case_hash_def sample_digest_hex diagnosis_seal.placeholder_hex)

lemma sample_case_sealed: "compute_casefile_diagnosis_hash sample_digest sample_codecs (sample_case_diagnosis h) = Inr sample_case_hash"
  by (simp add: compute_casefile_diagnosis_hash_def compute_casefile_hash_def sample_codecs_def two_hash_codec_def load_two_hashes_def
      model_validate_def dict_set_def sample_case_diagnosis_def validate_casefile_diagnosis_def sample_diagnosis_def
      validate_diagnosis_report_def validate_hash_field_def diagnosis_seal.placeholder_hex sample_case_hash_def)
    (simp add: hash_placeholder_def replicate_add [symmetric])

lemma sample_case_written:
  "is_ok (fst (persist_casefile_diagnosis_write_once bucket_put bucket_get sample_digest sample_codecs
     (sample_case_diagnosis sample_case_hash) (sample_bucket [])))"
  by code_simp

lemma sample_seal:
  "is_ok (fst (seal_and_persist (sample_services (Inl f)) sample_request sample_report w)) =
     is_ok (fst (persist_casefile_diagnosis_write_once bucket_put bucket_get sample_digest sample_codecs
       (sample_case_diagnosis sample_case_hash) (cw_store w)))"
  by (simp add: seal_and_persist_def Let_def sample_services_def sample_request_def st_bind_def cold_store_def
      sample_case_diagnosis_def [symmetric] sample_case_valid sample_case_sealed is_ok_def split: prod.splits sum.splits)

lemma sample_report_read:
  "validate_report (sample_services (Inl f)) (dict_set (dict_set (dict_set
     (mc_dump sample_report_codec (build_fallback_report [code] (Some ''case1''))) ''triage_hash'' (JStr hash_placeholder))
     ''case_id'' (JStr ''case1'')) ''gaps'' g) = Inr sample_report"
  by (simp add: validate_report_def sample_services_def model_validate_def sample_report_codec_def str_key_def
      validate_diagnosis_report_def sample_report_def build_fallback_report_def dict_set_def opt_str_def)

lemma sample_fallback:
  "is_ok (fst (make_and_persist_fallback (sample_services (Inl f)) sample_request code gaps w)) =
     is_ok (fst (seal_and_persist (sample_services (Inl f)) sample_request sample_report w))"
  using sample_report_read [of f code]
  by (simp add: make_and_persist_fallback_def Let_def st_bind_def is_ok_def sample_request_def sample_services_def split: prod.splits sum.splits)

lemma sample_handled:
  "is_ok (fst (handle_llm_failure (sample_services (Inl f)) sample_request (LLM_Transport c)
     (run_start (sample_services (Inl f)) sample_world)))"
  using sample_case_written
  by (simp add: fall_back_def st_bind_def record_llm_completion_def update_llm_health_def run_start_def sample_world_def
      sample_fallback sample_seal)

section \<open>Properties\<close>

text \<open>C15: Every cold-path run that gets past the exposure denylist is accounted for exactly once, whatever fails on the way (the
  endpoint, the reading of its answer, the object store, the alert evaluation): the in-flight gauge is back where it was,
  exactly one completion has been recorded, the health registry shows \<open>llm\<close> healthy exactly when that completion is a
  success and leaves the other components alone, and a report is returned only with a completion that says success or fallback.
  A run whose excerpt the denylist leaves unreadable raises before any of this and changes nothing.\<close>

theorem cold_path_accounting:
  assumes "run_cold_path_diagnosis sv q w = (r, w')"
  shows "if is_ok (safe_excerpt sv q)
    then cw_inflight w' = cw_inflight w \<and> (\<exists>m. cw_completions w' = cw_completions w @ [m] \<and>
        (\<forall>c. health_get (cw_health w') c = (if c \<noteq> ''llm'' then health_get (cw_health w) c
            else Some (if lm_result m = ''success'' then HEALTHY else DEGRADED))) \<and>
        (is_ok r \<longrightarrow> lm_result m = ''success'' \<or> lm_result m = ''fallback''))
    else \<not> is_ok r \<and> w' = w"
proof (cases "safe_excerpt sv q")
  case (Inl e)
  then have "r = Inl e" "w' = w" using run_rejected [OF Inl] assms by simp_all
  with Inl show ?thesis by (simp add: is_ok_def)
next
  case (Inr x)
  obtain r1 w1 where d: "diagnose sv q x (run_start sv w) = (r1, w1)" by fastforce
  have "completed (run_start sv w) r1 w1" by (rule diagnose_completed [OF d]) simp
  moreover have "r = r1" "w' = w1\<lparr>cw_inflight := cw_inflight w1 - 1\<rparr>" using run_accepted [OF Inr d] assms by simp_all
  ultimately show ?thesis using Inr by (auto simp: completed_def is_ok_def)
qed

text \<open>The endpoint times out: the run degrades the health of \<open>llm\<close> and falls back.\<close>

theorem cold_path_accounting_witness:
  "\<exists>r w'. run_cold_path_diagnosis (sample_services (Inl LLM_Timeout)) sample_request sample_world = (r, w') \<and>
     cw_inflight w' = 0 \<and> length (cw_completions w') = 1"
proof -
  let ?sv = "sample_services (Inl LLM_Timeout)"
  obtain r w' where r: "run_cold_path_diagnosis ?sv sample_request sample_world = (r, w')" by fastforce
  have "is_ok (safe_excerpt ?sv sample_request)" by (simp add: sample_safe is_ok_def)
  with cold_path_accounting [OF r] r show ?thesis by (auto simp: sample_world_def)
qed

text \<open>C14: A report the cold path returns is durable and bound to its case: it names the case and the triage hash of the request, and the
  object store holds, under the diagnosis key of that case, a case file that contains exactly this report and whose own hash
  matches its contents. The run writes nothing else: every other key is as before, and the diagnosis key was free or already
  held this very payload. This covers the four fallbacks and the success alike, over any object store that keeps the contract.\<close>

theorem cold_path_report_durable:
  assumes "object_store (cp_put sv) (cp_get sv) view" "binds_case (cp_report_codec sv)"
    and "run_cold_path_diagnosis sv q w = (Inr report, w')"
  shows "dx_case_id report = Some (cq_case_id q) \<and> dx_triage_hash report = Some (cq_triage_hash q) \<and>
    (\<exists>c. dg_case_id c = cq_case_id q \<and> dg_diagnosis_report c = report \<and> dg_triage_hash c = cq_triage_hash q \<and>
       compute_casefile_diagnosis_hash (cp_sha256_hex sv) (cp_codecs sv) c = Inr (dg_diagnosis_hash c) \<and>
       view (cw_store w') (stage_key (cq_case_id q) ''diagnosis'') = Some (mc_dump_json (cd_diagnosis (cp_codecs sv)) c)) \<and>
    (\<forall>k. k \<noteq> stage_key (cq_case_id q) ''diagnosis'' \<longrightarrow> view (cw_store w') k = view (cw_store w) k) \<and>
    view (cw_store w) \<subseteq>\<^sub>m view (cw_store w')"
proof (cases "safe_excerpt sv q")
  case (Inl e)
  with run_rejected [OF Inl] assms(3) show ?thesis by simp
next
  case (Inr x)
  obtain r1 w1 where d: "diagnose sv q x (run_start sv w) = (r1, w1)" by fastforce
  with run_accepted [OF Inr d] assms(3) have r1: "r1 = Inr report" and w': "cw_store w' = cw_store w1" by auto
  from diagnose_stored [OF assms(1,2) d [unfolded r1]] have "bound_to q report" "stored_report view sv q report (cw_store w) (cw_store w')"
    by (auto simp: w')
  then show ?thesis by (auto simp: bound_to_def stored_report_def sealed_report_def map_le_def)
qed

lemma sample_binds: "binds_case sample_report_codec"
  by (auto simp: binds_case_def sample_report_codec_def str_key_def build_fallback_report_def raise_def split: option.splits jval.splits)

text \<open>The endpoint is unreachable: the fallback report is in the bucket.\<close>

theorem cold_path_report_durable_witness:
  "\<exists>report w'. run_cold_path_diagnosis (sample_services (Inl (LLM_Transport ''ConnectError''))) sample_request sample_world = (Inr report, w') \<and>
     dx_case_id report = Some ''case1'' \<and> stored sim_contents ''casefiles'' (cw_store w') (stage_key ''case1'' ''diagnosis'') \<noteq> None"
proof -
  let ?sv = "sample_services (Inl (LLM_Transport ''ConnectError''))"
  obtain report w1 where d: "diagnose ?sv sample_request sample_excerpt (run_start ?sv sample_world) = (Inr report, w1)"
    using sample_handled [of "LLM_Transport ''ConnectError''" "''ConnectError''"] unfolding sample_diagnose is_ok_iff by (metis prod.collapse)
  then obtain w' where r: "run_cold_path_diagnosis ?sv sample_request sample_world = (Inr report, w')"
    using run_accepted [OF sample_safe d] by blast
  have "object_store (cp_put ?sv) (cp_get ?sv) (stored sim_contents ''casefiles'')"
    using server_store [OF s3sim.s3_server_axioms] by (simp add: sample_services_def)
  from cold_path_report_durable [OF this _ r] sample_binds r show ?thesis
    by (auto simp: sample_services_def sample_request_def)
qed

end
