(* ===== verification/Spec2Isabelle.thy ===== *)
theory Spec2Isabelle
  imports Hot_Path_Properties Linkage_Repository Lifecycle ServiceNow_Properties Linkage_Stage_Properties
    Stage_Caches Audit_Replay Cold_Path_Properties
begin

text \<open>
  Verification of the AIOps triage pipeline (\<open>src/src/aiops_triage_pipeline\<close>).

  \<^bold>\<open>The program.\<close> Every evaluation interval the hot path (\<open>__main__.py\<close>, \<open>pipeline/scheduler.py\<close>) queries Prometheus, turns the
  samples into evidence rows and anomaly findings (\<open>stages/evidence.py\<close>, \<open>stages/anomaly.py\<close>), classifies peak windows and
  sustained streaks (\<open>stages/peak.py\<close>), resolves scopes against the topology registry (\<open>registry/\<close>, \<open>stages/topology.py\<close>),
  runs the rulebook gates AG0 to AG6 (\<open>stages/gating.py\<close>), seals and stores a case file (\<open>stages/casefile.py\<close>,
  \<open>storage/\<close>), puts a row into the outbox (\<open>outbox/\<close>) and dispatches the decided action (\<open>stages/dispatch.py\<close>). Separate
  processes publish outbox rows to Kafka (\<open>outbox/worker.py\<close>, \<open>outbox/publisher.py\<close>), purge expired case files
  (\<open>storage/lifecycle.py\<close>), link cases to ServiceNow (\<open>stages/linkage.py\<close>, \<open>linkage/\<close>, \<open>integrations/servicenow.py\<close>) and ask a
  language model for a diagnosis (\<open>diagnosis/\<close>).

  \<^bold>\<open>Conventions.\<close> Functions keep the name of the Python function (leading underscores dropped), a class is a record whose
  fields carry a short prefix, an enumeration a datatype. An exception is a value \<open>Exc class message\<close> of \<open>py_exc\<close>; a fallible
  function returns \<open>'a result\<close> (\<open>py_exc + 'a\<close>), one that also changes state returns the result and the new state, and
  \<open>st_bind\<close> stops at the first exception while keeping the state changes made so far. Python's floats are \<open>pyfloat\<close>: exact
  dyadic values rounded to binary64 after every operation, with infinities and NaN. Times are integers of microseconds since
  the epoch; whatever reads the clock takes it as the argument \<open>clock\<close>. A dictionary whose order matters is an association
  list \<open>pydict\<close>. Strings are ASCII.

  \<^bold>\<open>Parameters.\<close> What is not under \<open>src/\<close> is an argument of the definitions: the Prometheus query, the Redis, S3, PostgreSQL,
  Kafka, HTTP and LLM endpoints, the regular-expression and YAML engines, the SHA-256 digest and pydantic's reading and
  writing of a model (\<open>model_codec\<close>). What the code relies on is stated by locales, each interpreted on a concrete instance:
  \<open>redis_client\<close> (GET and SET NX EX), \<open>kv_cache\<close> and \<open>kv_cache_up\<close> (a cache that may fail, and one that does not),
  \<open>s3_server\<close> and \<open>s3_inventory\<close> (conditional put, listing and deletion, with lost responses), \<open>guarded_table\<close> (guarded SQL
  update), \<open>sn_tables\<close> (the ServiceNow Table API) and \<open>sealed_model\<close> (a model whose JSON form reads back). \<open>object_store\<close>,
  \<open>gate_dedupe_store\<close> and \<open>retry_protocol\<close> are contracts between components of the program: they are proved of the S3
  adapter, of the AG5 store and of the SQL linkage repository, and the clients are verified against them.

  \<^bold>\<open>Theories.\<close>
  \<^item> Prelude: \<open>Py_Base\<close> (exceptions, dictionaries, strings, binary64, JSON values, the collection \<open>py_simps\<close>), \<open>Py_Float\<close>
    (rounding lemmas, \<open>float(str)\<close>), \<open>Calendar\<close> (dates of \<open>datetime\<close>), \<open>Guarded_Table\<close> (the SQL statements both repositories use).
  \<^item> Contracts and stage models: \<open>Contracts\<close>, \<open>Models\<close> (\<open>contracts/\<close>, \<open>models/\<close>).
  \<^item> Evidence: \<open>Anomaly\<close>, \<open>Evidence\<close>, \<open>Scheduler\<close>, \<open>Peak\<close>, \<open>Stage_Caches\<close>. The lemmas give the exact detection conditions, the
    meaning of streaks as unbroken runs, that baselines are ordered samples, and that cached findings and streaks are stable.
  \<^item> Topology: \<open>Topology\<close> (resolver and stage), \<open>Registry_Loader\<close>, \<open>Registry_Properties\<close> (what loading establishes, and that
    resolution over a loaded registry cannot dangle).
  \<^item> Gates: \<open>Dedupe_Store\<close>, \<open>Gating\<close> (the interpreter for any rulebook), \<open>Gate_Inputs\<close> (assembly of its inputs), \<open>Rulebook_V1\<close>
    (the shipped rulebook, and its refinement to a direct decision procedure). Denylist and dispatch: \<open>Denylist\<close>, \<open>Dispatch\<close>.
  \<^item> Case files: \<open>Object_Store\<close> (S3 adapter), \<open>Casefile_Model\<close>, \<open>Casefile_IO\<close>, \<open>Casefile\<close>, \<open>Casefile_Sample\<close>,
    \<open>Casefile_Properties\<close> (append-only hash chain under any interleaving), \<open>Lifecycle\<close> (retention), \<open>Audit_Replay\<close>.
  \<^item> Outbox: \<open>Outbox_State\<close> (record and state machine), \<open>Outbox_Repository\<close> (histories of guarded writes), \<open>Outbox_Worker\<close>,
    \<open>Publication\<close> (only durable case files reach Kafka, and an iteration settles the rows it takes).
  \<^item> Linkage: \<open>Linkage_State\<close>, \<open>Linkage_Repository\<close>, \<open>Linkage_Interleaving\<close>, \<open>Table_Url\<close>, \<open>ServiceNow\<close>, \<open>ServiceNow_Properties\<close>,
    \<open>Linkage_Stage\<close>, \<open>Linkage_Stage_Properties\<close> (the stage refines the histories of the repository and escalates once).
  \<^item> Cold path: \<open>Cold_Path\<close>, \<open>Cold_Path_Properties\<close> (\<open>diagnosis/\<close>, \<open>integrations/llm.py\<close>).
  \<^item> Observability: \<open>Alerts\<close> (health registry, alert policy and evaluator).
  \<^item> Composition: \<open>Hot_Path\<close> (every step of the loop with its try blocks), \<open>Hot_Path_Sample\<close>, \<open>Hot_Path_Properties\<close>.

  \<^bold>\<open>Concurrency.\<close> Interleavings are explicit: \<open>casefile_run\<close>, the run relations of the outbox and linkage repositories and
  \<open>linkage_stage_run\<close> are inductive predicates over histories of states, whose steps are single calls with arbitrary faults and
  arbitrarily stale inputs; their invariants are proved by rule induction.

  \<^bold>\<open>Bounds and termination.\<close> All functions are total. Where the code loops until a condition holds (listing pages of the object
  store), the model takes fuel, and \<open>lifecycle_purges_expired\<close> shows that as much fuel as there are objects is enough. Endless service loops
  (\<open>while True\<close>) are modelled by their body, or over a list of cycles.

  \<^bold>\<open>Not modelled.\<close> Log records, latency measurement and the OpenTelemetry instruments (\<open>health/metrics.py\<close>, \<open>health/otlp.py\<close>,
  \<open>outbox/metrics.py\<close>), the health HTTP server, settings and logging set-up, the confluent-kafka adapter, the Prometheus
  HTTP client, DDL and SQL rendering, and the argument parsing and client construction of \<open>__main__.py\<close>: they are
  input and output around the logic that is modelled.
\<close>

end
